(* ===== verification/Py_Values.thy ===== *)
theory Py_Values
  imports Main "HOL-Library.AList" "HOL-Library.Sublist"
begin

text \<open>
  The prelude of the development: the dynamic values the Python code computes with, its
  strings, dictionaries, exceptions and the generic lemmas every component uses.

  \<^item> \<open>pyval\<close> is a JSON-shaped Python value. Numbers are Python integers (unbounded, \<open>int\<close>);
    floating-point numbers do not occur in the durable records that are modelled.
  \<^item> A \<open>dict\<close> is an association list in insertion order (\<open>pdict\<close>); \<open>d.get(k)\<close> is \<open>dget\<close>,
    \<open>d[k] = v\<close> is \<open>dset\<close>, \<open>{**d, **e}\<close> is \<open>dmerge\<close>.
  \<^item> A \<open>str\<close> is an Isabelle \<open>string\<close> holding its UTF-8 bytes. \<open>strip\<close>, \<open>lower\<close> and
    \<open>casefold\<close> act on the ASCII characters only.
  \<^item> An exception is a value of \<open>pyexc\<close>; a function that may raise returns \<open>pyexc + 'a\<close>.
    \<open>CodedError\<close> is an exception with a \<open>code\<close> attribute; the last two constructors are the
    holder's own exceptions.
  \<^item> Where a port or a saved record promises an object, a value of another type is read as the
    empty object (\<open>as_dict\<close>); the Python would raise \<open>AttributeError\<close> there.
\<close>

named_theorems py_simps "equations of the Python helper functions"
named_theorems step_defs "definitions of the operations of a component"

section \<open>Values and exceptions\<close>

datatype pyval =
    PNone
  | PBool bool
  | PInt int
  | PStr string
  | PList "pyval list"
  | PDict "(string \<times> pyval) list"

type_synonym pdict = "(string \<times> pyval) list"

datatype pyexc =
    ValueError string
  | TypeError string
  | KeyError string
  | IndexError string
  | RuntimeError string
  | DispatcherError string
  | OSError string
  | PermissionError string
  | CodedError string string
  | HolderStopUnknown string
  | RecoveredTurnTerminal string
  | NativeError string
  | CreationError string "string option"

type_synonym 'a result = "pyexc + 'a"

text \<open>Sequencing of computations that may raise.\<close>

definition rbind :: "'a result \<Rightarrow> ('a \<Rightarrow> 'b result) \<Rightarrow> 'b result" where
  "rbind r f = (case r of Inl e \<Rightarrow> Inl e | Inr v \<Rightarrow> f v)"

lemma rbind_simps [simp]:
  "rbind (Inl e) f = Inl e"
  "rbind (Inr v) f = f v"
  by (simp_all add: rbind_def)

lemma rbind_Inr_iff: "rbind r f = Inr y \<longleftrightarrow> (\<exists>x. r = Inr x \<and> f x = Inr y)"
  by (cases r) simp_all

lemma rbind_InrE:
  assumes "rbind r f = Inr y"
  obtains x where "r = Inr x" "f x = Inr y"
  using assms by (auto simp: rbind_Inr_iff)

text \<open>A check that raises: \<open>if cond: raise e\<close>.\<close>

definition raise_if :: "bool \<Rightarrow> pyexc \<Rightarrow> unit result" where
  "raise_if b e = (if b then Inl e else Inr ())"

lemma raise_if_simps [simp]:
  "raise_if True e = Inl e"
  "raise_if False e = Inr ()"
  "raise_if b e = Inr u \<longleftrightarrow> \<not> b"
  "raise_if b e = Inl e' \<longleftrightarrow> b \<and> e' = e"
  by (auto simp: raise_if_def)

lemma rbind_raise_if: "rbind (raise_if b e) f = (if b then Inl e else f ())"
  by (simp add: raise_if_def)

text \<open>Mapping a function that may raise over a list, stopping at the first exception.\<close>

fun rmap :: "('a \<Rightarrow> 'b result) \<Rightarrow> 'a list \<Rightarrow> 'b list result" where
  "rmap f [] = Inr []"
| "rmap f (x # xs) = rbind (f x) (\<lambda>y. rbind (rmap f xs) (\<lambda>ys. Inr (y # ys)))"

lemma rmap_Inr_Nil [simp]: "rmap f xs = Inr [] \<longleftrightarrow> xs = []"
  by (cases xs) (auto simp: rbind_Inr_iff)

lemma rmap_length: "rmap f xs = Inr ys \<Longrightarrow> length ys = length xs"
  by (induction xs arbitrary: ys) (auto simp: rbind_Inr_iff)

lemma rmap_mem:
  assumes "rmap f xs = Inr ys" "y \<in> set ys"
  shows "\<exists>x \<in> set xs. f x = Inr y"
  using assms by (induction xs arbitrary: ys) (auto simp: rbind_Inr_iff)

section \<open>Strings\<close>

definition char_in :: "nat \<Rightarrow> nat \<Rightarrow> char \<Rightarrow> bool" where
  "char_in lo hi c \<longleftrightarrow> lo \<le> (of_char c :: nat) \<and> (of_char c :: nat) \<le> hi"

text \<open>ASCII whitespace of \<open>str.strip\<close>: tab to carriage return, the separators 28 to 31, space.\<close>

definition is_space :: "char \<Rightarrow> bool" where
  "is_space c \<longleftrightarrow> char_in 9 13 c \<or> char_in 28 32 c"

definition py_strip :: "string \<Rightarrow> string" where
  "py_strip s = rev (dropWhile is_space (rev (dropWhile is_space s)))"

definition py_rstrip :: "string \<Rightarrow> string" where
  "py_rstrip s = rev (dropWhile is_space (rev s))"

definition lower_char :: "char \<Rightarrow> char" where
  "lower_char c = (if char_in 65 90 c then char_of ((of_char c :: nat) + 32) else c)"

definition py_lower :: "string \<Rightarrow> string" where
  "py_lower s = map lower_char s"

definition blank :: "string \<Rightarrow> bool" where
  "blank s \<longleftrightarrow> list_all is_space s"

fun py_join :: "string \<Rightarrow> string list \<Rightarrow> string" where
  "py_join sep [] = []"
| "py_join sep [s] = s"
| "py_join sep (s # t # ss) = s @ sep @ py_join sep (t # ss)"

text \<open>\<open>s[:n]\<close> counts code points: a UTF-8 continuation byte belongs to the character before it.\<close>

fun py_take :: "nat \<Rightarrow> string \<Rightarrow> string" where
  "py_take n [] = []"
| "py_take n (c # cs) =
     (if char_in 128 191 c then c # py_take n cs
      else (case n of 0 \<Rightarrow> [] | Suc m \<Rightarrow> c # py_take m cs))"

fun splitlines_aux :: "string \<Rightarrow> string \<Rightarrow> string list" where
  "splitlines_aux acc [] = (if acc = [] then [] else [rev acc])"
| "splitlines_aux acc [c] = (if char_in 10 13 c \<or> char_in 28 30 c then [rev acc] else [rev (c # acc)])"
| "splitlines_aux acc (c # d # cs) =
     (if char_in 13 13 c \<and> char_in 10 10 d then rev acc # splitlines_aux [] cs
      else if char_in 10 13 c \<or> char_in 28 30 c then rev acc # splitlines_aux [] (d # cs)
      else splitlines_aux (c # acc) (d # cs))"

text \<open>\<open>str.splitlines\<close>: a CR LF pair is one line end, and a final line end adds no line.\<close>

definition py_splitlines :: "string \<Rightarrow> string list" where
  "py_splitlines s = splitlines_aux [] s"

definition digit_char :: "nat \<Rightarrow> char" where
  "digit_char n = char_of (48 + n mod 10)"

fun nat_str :: "nat \<Rightarrow> string" where
  "nat_str n = (if n < 10 then [digit_char n] else nat_str (n div 10) @ [digit_char (n mod 10)])"

declare nat_str.simps [simp del]

definition int_str :: "int \<Rightarrow> string" where
  "int_str i = (if i < 0 then ''-'' @ nat_str (nat (- i)) else nat_str (nat i))"

definition digit_val :: "char \<Rightarrow> nat option" where
  "digit_val c = (if char_in 48 57 c then Some ((of_char c :: nat) - 48) else None)"

fun digits_val :: "nat \<Rightarrow> string \<Rightarrow> nat option" where
  "digits_val acc [] = Some acc"
| "digits_val acc (c # cs) =
     (case digit_val c of None \<Rightarrow> None | Some d \<Rightarrow> digits_val (10 * acc + d) cs)"

definition str_nat :: "string \<Rightarrow> nat option" where
  "str_nat s = (if s = [] then None else digits_val 0 s)"

definition str_int :: "string \<Rightarrow> int option" where
  "str_int s = (case py_strip s of
      [] \<Rightarrow> None
    | c # cs \<Rightarrow>
        if c = CHR ''-'' then map_option (\<lambda>n. - int n) (str_nat cs)
        else if c = CHR ''+'' then map_option int (str_nat cs)
        else map_option int (str_nat (c # cs)))"

section \<open>Reading values: truth, text, integers\<close>

fun truthy :: "pyval \<Rightarrow> bool" where
  "truthy PNone = False"
| "truthy (PBool b) = b"
| "truthy (PInt i) = (i \<noteq> 0)"
| "truthy (PStr s) = (s \<noteq> [])"
| "truthy (PList xs) = (xs \<noteq> [])"
| "truthy (PDict d) = (d \<noteq> [])"

definition hex_digit :: "nat \<Rightarrow> char" where
  "hex_digit n = (if n < 10 then char_of (48 + n) else char_of (87 + n))"

text \<open>\<open>repr\<close> of a string: the quote is \<open>'\<close> unless the text has one and no double quote.\<close>

definition repr_char :: "char \<Rightarrow> char \<Rightarrow> string" where
  "repr_char q c =
     (if c = q \<or> char_in 92 92 c then [char_of (92::nat), c]
      else if char_in 9 9 c then [char_of (92::nat), CHR ''t'']
      else if char_in 10 10 c then [char_of (92::nat), CHR ''n'']
      else if char_in 13 13 c then [char_of (92::nat), CHR ''r'']
      else if char_in 0 31 c \<or> char_in 127 127 c
        then [char_of (92::nat), CHR ''x'', hex_digit (of_char c div 16), hex_digit (of_char c mod 16)]
      else [c])"

definition str_repr :: "string \<Rightarrow> string" where
  "str_repr s =
     (let q = (if CHR 0x27 \<in> set s \<and> CHR 0x22 \<notin> set s then CHR 0x22 else CHR 0x27)
      in q # concat (map (repr_char q) s) @ [q])"

fun py_repr :: "pyval \<Rightarrow> string"
  and py_repr_list :: "pyval list \<Rightarrow> string list"
  and py_repr_items :: "(string \<times> pyval) list \<Rightarrow> string list" where
  "py_repr PNone = ''None''"
| "py_repr (PBool b) = (if b then ''True'' else ''False'')"
| "py_repr (PInt i) = int_str i"
| "py_repr (PStr s) = str_repr s"
| "py_repr (PList xs) = ''['' @ py_join '', '' (py_repr_list xs) @ '']''"
| "py_repr (PDict d) = ''{'' @ py_join '', '' (py_repr_items d) @ ''}''"
| "py_repr_list [] = []"
| "py_repr_list (x # xs) = py_repr x # py_repr_list xs"
| "py_repr_items [] = []"
| "py_repr_items ((k, v) # d) = (str_repr k @ '': '' @ py_repr v) # py_repr_items d"

definition py_str :: "pyval \<Rightarrow> string" where
  "py_str v = (case v of PStr s \<Rightarrow> s | _ \<Rightarrow> py_repr v)"

lemma py_str_PStr [simp]: "py_str (PStr s) = s"
  by (simp add: py_str_def)

text \<open>The text of an exception, \<open>str(exc)\<close>.\<close>

fun exc_text :: "pyexc \<Rightarrow> string" where
  "exc_text (ValueError s) = s"
| "exc_text (TypeError s) = s"
| "exc_text (KeyError s) = str_repr s"
| "exc_text (IndexError s) = s"
| "exc_text (RuntimeError s) = s"
| "exc_text (DispatcherError s) = s"
| "exc_text (OSError s) = s"
| "exc_text (PermissionError s) = s"
| "exc_text (CodedError c s) = s"
| "exc_text (HolderStopUnknown s) = s"
| "exc_text (NativeError s) = s"
| "exc_text (CreationError s t) = s"
| "exc_text (RecoveredTurnTerminal s) =
     ''Recovering holder read exact terminal; own exit confirmation pending''"

text \<open>\<open>str(v or "")\<close> and \<open>str(v or "").strip()\<close>, the way the code reads optional text.\<close>

definition text_or_empty :: "pyval \<Rightarrow> string" where
  "text_or_empty v = (if truthy v then py_str v else [])"

definition stripped :: "pyval \<Rightarrow> string" where
  "stripped v = py_strip (text_or_empty v)"

text \<open>\<open>v or w\<close>.\<close>

definition py_or :: "pyval \<Rightarrow> pyval \<Rightarrow> pyval" where
  "py_or v w = (if truthy v then v else w)"

fun opt_str :: "string option \<Rightarrow> pyval" where
  "opt_str None = PNone"
| "opt_str (Some s) = PStr s"

fun opt_int :: "int option \<Rightarrow> pyval" where
  "opt_int None = PNone"
| "opt_int (Some i) = PInt i"

text \<open>\<open>_optional_text(v)\<close>: the text of a value that is not \<open>None\<close>.\<close>

fun optional_text :: "pyval \<Rightarrow> string option" where
  "optional_text PNone = None"
| "optional_text v = Some (py_str v)"

fun as_dict :: "pyval \<Rightarrow> pdict" where
  "as_dict (PDict d) = d"
| "as_dict _ = []"

fun as_list :: "pyval \<Rightarrow> pyval list" where
  "as_list (PList xs) = xs"
| "as_list _ = []"

fun is_dict :: "pyval \<Rightarrow> bool" where
  "is_dict (PDict d) = True"
| "is_dict _ = False"

fun is_list :: "pyval \<Rightarrow> bool" where
  "is_list (PList xs) = True"
| "is_list _ = False"

fun is_str :: "pyval \<Rightarrow> bool" where
  "is_str (PStr s) = True"
| "is_str _ = False"

fun is_bool :: "pyval \<Rightarrow> bool" where
  "is_bool (PBool b) = True"
| "is_bool _ = False"

text \<open>
  \<open>isinstance(v, int)\<close> also holds of the booleans, which are the integers 0 and 1; the check
  \<open>type(v) is int\<close> excludes them.
\<close>

fun int_instance :: "pyval \<Rightarrow> int option" where
  "int_instance (PInt i) = Some i"
| "int_instance (PBool b) = Some (if b then 1 else 0)"
| "int_instance _ = None"

fun exact_int :: "pyval \<Rightarrow> int option" where
  "exact_int (PInt i) = Some i"
| "exact_int _ = None"

text \<open>\<open>int(v)\<close>.\<close>

fun py_int :: "pyval \<Rightarrow> int result" where
  "py_int (PInt i) = Inr i"
| "py_int (PBool b) = Inr (if b then 1 else 0)"
| "py_int (PStr s) = (case str_int s of
     Some i \<Rightarrow> Inr i
   | None \<Rightarrow> Inl (ValueError (''invalid literal for int() with base 10: '' @ str_repr s)))"
| "py_int _ = Inl (TypeError ''int() argument must be a string, a bytes-like object or a real number'')"

text \<open>
  Python's \<open>==\<close>: booleans equal the integers 0 and 1, lists compare by elements, dicts by
  their entries whatever the order.
\<close>

fun py_eq :: "pyval \<Rightarrow> pyval \<Rightarrow> bool"
  and py_eq_list :: "pyval list \<Rightarrow> pyval list \<Rightarrow> bool"
  and py_eq_items :: "(string \<times> pyval) list \<Rightarrow> (string \<times> pyval) list \<Rightarrow> bool" where
  "py_eq (PList xs) (PList ys) = py_eq_list xs ys"
| "py_eq (PDict d) (PDict e) = (length d = length e \<and> py_eq_items d e)"
| "py_eq (PStr s) (PStr t) = (s = t)"
| "py_eq PNone PNone = True"
| "py_eq (PInt i) v = (int_instance v = Some i)"
| "py_eq (PBool b) v = (int_instance v = Some (if b then 1 else 0))"
| "py_eq _ _ = False"
| "py_eq_list [] [] = True"
| "py_eq_list (x # xs) (y # ys) = (py_eq x y \<and> py_eq_list xs ys)"
| "py_eq_list _ _ = False"
| "py_eq_items [] e = True"
| "py_eq_items ((k, v) # d) e =
     ((case map_of e k of None \<Rightarrow> False | Some w \<Rightarrow> py_eq v w) \<and> py_eq_items d e)"

lemma py_eq_PStr [simp]: "py_eq (PStr s) v \<longleftrightarrow> v = PStr s" "py_eq v (PStr s) \<longleftrightarrow> v = PStr s"
  by (cases v; auto)+

section \<open>Dictionaries\<close>

definition dget :: "pdict \<Rightarrow> string \<Rightarrow> pyval" where
  "dget d k = (case map_of d k of None \<Rightarrow> PNone | Some v \<Rightarrow> v)"

definition dget_or :: "pdict \<Rightarrow> string \<Rightarrow> pyval \<Rightarrow> pyval" where
  "dget_or d k v = (case map_of d k of None \<Rightarrow> v | Some w \<Rightarrow> w)"

definition dhas :: "pdict \<Rightarrow> string \<Rightarrow> bool" where
  "dhas d k \<longleftrightarrow> map_of d k \<noteq> None"

definition dset :: "pdict \<Rightarrow> string \<Rightarrow> pyval \<Rightarrow> pdict" where
  "dset d k v = AList.update k v d"

fun dmerge :: "pdict \<Rightarrow> pdict \<Rightarrow> pdict" where
  "dmerge d [] = d"
| "dmerge d ((k, v) # e) = dmerge (dset d k v) e"

text \<open>\<open>d[k]\<close>, which raises \<open>KeyError\<close> when the key is missing.\<close>

definition dindex :: "pdict \<Rightarrow> string \<Rightarrow> pyval result" where
  "dindex d k = (case map_of d k of None \<Rightarrow> Inl (KeyError k) | Some v \<Rightarrow> Inr v)"

lemma map_of_dset [simp]: "map_of (dset d k v) k' = (if k' = k then Some v else map_of d k')"
  by (simp add: dset_def update_conv')

lemma dget_dset [simp]: "dget (dset d k v) k' = (if k' = k then v else dget d k')"
  by (simp add: dget_def)

lemma dhas_dset [simp]: "dhas (dset d k v) k' \<longleftrightarrow> k' = k \<or> dhas d k'"
  by (simp add: dhas_def)

lemma dget_or_dset [simp]: "dget_or (dset d k v) k' w = (if k' = k then v else dget_or d k' w)"
  by (simp add: dget_or_def)

lemma dget_Nil [simp]: "dget [] k = PNone"
  by (simp add: dget_def)

lemma dget_Cons [simp]: "dget ((k', v) # d) k = (if k = k' then v else dget d k)"
  by (simp add: dget_def)

lemma dhas_Nil [simp]: "\<not> dhas [] k"
  by (simp add: dhas_def)

lemma dhas_Cons [simp]: "dhas ((k', v) # d) k \<longleftrightarrow> k = k' \<or> dhas d k"
  by (simp add: dhas_def)

lemma dget_or_Nil [simp]: "dget_or [] k w = w"
  by (simp add: dget_or_def)

lemma dget_or_Cons [simp]: "dget_or ((k', v) # d) k w = (if k = k' then v else dget_or d k w)"
  by (simp add: dget_or_def)

lemma dindex_Cons [simp]: "dindex ((k', v) # d) k = (if k = k' then Inr v else dindex d k)"
  by (simp add: dindex_def)

lemma dindex_Nil [simp]: "dindex [] k = Inl (KeyError k)"
  by (simp add: dindex_def)

lemma map_of_dmerge:
  "map_of (dmerge d e) k = (case map_of (rev e) k of None \<Rightarrow> map_of d k | Some v \<Rightarrow> Some v)"
proof (induction d e rule: dmerge.induct)
  case (2 d k' v e)
  then show ?case by (auto simp: map_of_append map_add_def split: option.splits)
qed simp

lemma dget_dmerge_other: "k \<notin> fst ` set e \<Longrightarrow> dget (dmerge d e) k = dget d k"
  by (simp add: dget_def map_of_dmerge map_of_eq_None_iff [THEN iffD2])

lemma dget_dmerge_Cons [simp]:
  "dget (dmerge d ((k, v) # e)) k' = dget (dmerge (dset d k v) e) k'"
  by simp

lemma distinct_dset: "distinct (map fst d) \<Longrightarrow> distinct (map fst (dset d k v))"
  by (simp add: dset_def distinct_update)

end
