(* ===== verification/Iso_Time.thy ===== *)
theory Iso_Time
  imports Py_Values
begin

text \<open>
  Computer time and ISO timestamps, as the components use them: \<open>datetime.now(timezone.utc)\<close>,
  \<open>isoformat\<close>, and \<open>fromisoformat(str(value).replace("Z", "+00:00"))\<close> followed by the
  normalisation to UTC. An \<open>instant\<close> is an aware \<open>datetime\<close>: the microseconds since
  1970-01-01T00:00:00Z. The calendar follows the proleptic Gregorian rules of the
  \<open>datetime\<close> module (\<open>_ymd2ord\<close>, \<open>_ord2ymd\<close>). The parser reads the extended ISO forms
  (\<open>YYYY-MM-DD\<close>, an optional time with optional minutes, seconds and fraction, an optional
  offset); the week-date and compact forms that \<open>fromisoformat\<close> also knows are not modelled.
\<close>

type_synonym instant = int

section \<open>The calendar\<close>

definition is_leap :: "nat \<Rightarrow> bool" where
  "is_leap y \<longleftrightarrow> y mod 4 = 0 \<and> (y mod 100 \<noteq> 0 \<or> y mod 400 = 0)"

definition days_before_year :: "nat \<Rightarrow> nat" where
  "days_before_year y = (let p = y - 1 in p * 365 + p div 4 + p div 400 - p div 100)"

definition month_lengths :: "bool \<Rightarrow> nat list" where
  "month_lengths leap = [31, if leap then 29 else 28, 31, 30, 31, 30, 31, 31, 30, 31, 30, 31]"

definition ymd2ord :: "nat \<Rightarrow> nat \<Rightarrow> nat \<Rightarrow> nat" where
  "ymd2ord y m d =
     days_before_year y + sum_list (take (m - 1) (month_lengths (is_leap y))) + d"

text \<open>The month and day of a zero-based day of the year.\<close>

fun split_month :: "nat \<Rightarrow> nat list \<Rightarrow> nat \<Rightarrow> nat \<times> nat" where
  "split_month m [] r = (m, r + 1)"
| "split_month m (l # ls) r = (if r < l then (m, r + 1) else split_month (m + 1) ls (r - l))"

definition ord2ymd :: "nat \<Rightarrow> nat \<times> nat \<times> nat" where
  "ord2ymd n =
     (let n0 = n - 1;
          n400 = n0 div 146097; r400 = n0 mod 146097;
          n100 = r400 div 36524; r100 = r400 mod 36524;
          n4 = r100 div 1461; r4 = r100 mod 1461;
          n1 = r4 div 365; r1 = r4 mod 365;
          y = n400 * 400 + n100 * 100 + n4 * 4 + n1 + 1
      in if n1 = 4 \<or> n100 = 4 then (y - 1, 12, 31)
         else let leap = (n1 = 3 \<and> (n4 \<noteq> 24 \<or> n100 = 3));
                  (m, d) = split_month 1 (month_lengths leap) r1
              in (y, m, d))"

section \<open>Printing\<close>

definition pad2 :: "nat \<Rightarrow> string" where
  "pad2 n = [digit_char (n div 10), digit_char n]"

definition pad4 :: "nat \<Rightarrow> string" where
  "pad4 n = [digit_char (n div 1000), digit_char (n div 100), digit_char (n div 10), digit_char n]"

definition pad6 :: "nat \<Rightarrow> string" where
  "pad6 n = [digit_char (n div 100000), digit_char (n div 10000)] @ pad4 n"

definition epoch_ord :: nat where
  "epoch_ord = 719163"

definition us_per_day :: int where
  "us_per_day = 86400000000"

text \<open>\<open>isoformat\<close> of an aware UTC \<open>datetime\<close>: the fraction appears when it is not zero.\<close>

definition isoformat :: "instant \<Rightarrow> string" where
  "isoformat t =
     (let days = t div us_per_day; us = nat (t mod us_per_day);
          (y, m, d) = ord2ymd (nat (days + int epoch_ord));
          secs = us div 1000000; frac = us mod 1000000
      in pad4 y @ ''-'' @ pad2 m @ ''-'' @ pad2 d @ ''T'' @ pad2 (secs div 3600) @ '':''
         @ pad2 (secs div 60 mod 60) @ '':'' @ pad2 (secs mod 60)
         @ (if frac = 0 then [] else ''.'' @ pad6 frac) @ ''+00:00'')"

section \<open>Parsing\<close>

fun take_digits :: "nat \<Rightarrow> nat \<Rightarrow> string \<Rightarrow> (nat \<times> string) option" where
  "take_digits 0 acc s = Some (acc, s)"
| "take_digits (Suc n) acc [] = None"
| "take_digits (Suc n) acc (c # cs) =
     (case digit_val c of None \<Rightarrow> None | Some d \<Rightarrow> take_digits n (10 * acc + d) cs)"

fun expect_char :: "char \<Rightarrow> string \<Rightarrow> string option" where
  "expect_char c [] = None"
| "expect_char c (d # s) = (if c = d then Some s else None)"

text \<open>A fraction: at least one digit; the first six count, the rest are skipped.\<close>

fun take_fraction :: "nat \<Rightarrow> nat \<Rightarrow> string \<Rightarrow> nat \<times> string" where
  "take_fraction n acc [] = (acc * 10 ^ n, [])"
| "take_fraction n acc (c # cs) =
     (case digit_val c of
        None \<Rightarrow> (acc * 10 ^ n, c # cs)
      | Some d \<Rightarrow> (case n of 0 \<Rightarrow> take_fraction 0 acc cs
                         | Suc m \<Rightarrow> take_fraction m (10 * acc + d) cs))"

definition parse_fraction :: "string \<Rightarrow> (nat \<times> string) option" where
  "parse_fraction s =
     (case s of
        [] \<Rightarrow> Some (0, [])
      | c # cs \<Rightarrow>
          if c = CHR ''.'' \<or> c = CHR '',''
          then (case cs of
                  [] \<Rightarrow> None
                | d # ds \<Rightarrow> if digit_val d = None then None else Some (take_fraction 6 0 cs))
          else Some (0, s))"

text \<open>\<open>HH[:MM[:SS[.f]]]\<close>: the microseconds of the day and the rest of the text.\<close>

definition parse_clock :: "string \<Rightarrow> (nat \<times> string) option" where
  "parse_clock s =
     Option.bind (take_digits 2 0 s) (\<lambda>(h, s1).
       if 24 \<le> h then None else
       case expect_char CHR '':'' s1 of
         None \<Rightarrow> Some (h * 3600000000, s1)
       | Some s2 \<Rightarrow> Option.bind (take_digits 2 0 s2) (\<lambda>(m, s3).
           if 60 \<le> m then None else
           case expect_char CHR '':'' s3 of
             None \<Rightarrow> Some (h * 3600000000 + m * 60000000, s3)
           | Some s4 \<Rightarrow> Option.bind (take_digits 2 0 s4) (\<lambda>(sec, s5).
               if 60 \<le> sec then None else
               Option.bind (parse_fraction s5) (\<lambda>(f, s6).
                 Some (h * 3600000000 + m * 60000000 + sec * 1000000 + f, s6)))))"

text \<open>The offset: absent (a naive value), or a sign and a clock reading, and then the end.\<close>

definition parse_offset :: "string \<Rightarrow> int option option" where
  "parse_offset s =
     (case s of
        [] \<Rightarrow> Some None
      | c # cs \<Rightarrow>
          if c = CHR ''+'' \<or> c = CHR ''-'' then
            (case parse_clock cs of
               Some (us, []) \<Rightarrow> Some (Some (if c = CHR ''-'' then - int us else int us))
             | _ \<Rightarrow> None)
          else None)"

definition parse_date :: "string \<Rightarrow> (int \<times> string) option" where
  "parse_date s =
     Option.bind (take_digits 4 0 s) (\<lambda>(y, s1).
     Option.bind (expect_char CHR ''-'' s1) (\<lambda>s2.
     Option.bind (take_digits 2 0 s2) (\<lambda>(m, s3).
     Option.bind (expect_char CHR ''-'' s3) (\<lambda>s4.
     Option.bind (take_digits 2 0 s4) (\<lambda>(d, s5).
       if 1 \<le> y \<and> 1 \<le> m \<and> m \<le> 12 \<and> 1 \<le> d \<and> d \<le> month_lengths (is_leap y) ! (m - 1)
       then Some ((int (ymd2ord y m d) - int epoch_ord) * us_per_day, s5)
       else None)))))"

text \<open>\<open>datetime.fromisoformat\<close>: the local reading and, for an aware value, its offset.\<close>

definition fromisoformat :: "string \<Rightarrow> (int \<times> int option) option" where
  "fromisoformat s =
     Option.bind (parse_date s) (\<lambda>(day, s1).
       case s1 of
         [] \<Rightarrow> Some (day, None)
       | _ # s2 \<Rightarrow> Option.bind (parse_clock s2) (\<lambda>(us, s3).
           Option.bind (parse_offset s3) (\<lambda>off. Some (day + int us, off))))"

definition replace_Z :: "string \<Rightarrow> string" where
  "replace_Z s = concat (map (\<lambda>c. if c = CHR ''Z'' then ''+00:00'' else [c]) s)"

text \<open>The reading all components share: a naive value is taken as UTC.\<close>

definition parse_instant :: "string \<Rightarrow> instant option" where
  "parse_instant s =
     map_option (\<lambda>(local, off). case off of None \<Rightarrow> local | Some o' \<Rightarrow> local - o')
       (fromisoformat (replace_Z s))"

section \<open>The calendar round trip\<close>

lemma split_month_sum:
  "split_month m ls r = (m', d) \<Longrightarrow> r < sum_list ls \<Longrightarrow>
     m \<le> m' \<and> m' < m + length ls \<and> 1 \<le> d \<and> d \<le> ls ! (m' - m)
     \<and> sum_list (take (m' - m) ls) + d = r + 1"
proof (induction m ls r rule: split_month.induct)
  case (2 m l ls r)
  show ?case
  proof (cases "r < l")
    case True
    with 2 show ?thesis by auto
  next
    case False
    with 2 have ih: "m + 1 \<le> m' \<and> m' < m + 1 + length ls \<and> 1 \<le> d \<and> d \<le> ls ! (m' - (m + 1))
       \<and> sum_list (take (m' - (m + 1)) ls) + d = r - l + 1"
      by auto
    then have "m' - m = Suc (m' - (m + 1))" by arith
    with ih False show ?thesis by auto
  qed
qed simp

lemma sum_month_lengths: "sum_list (month_lengths leap) = (if leap then 366 else 365)"
  by (simp add: month_lengths_def)

lemma length_month_lengths: "length (month_lengths leap) = 12"
  by (simp add: month_lengths_def)

lemma mod_eq_0_last:
  fixes q r k :: nat
  assumes "1 \<le> r" "r \<le> q"
  shows "(k * q + r) mod q = 0 \<longleftrightarrow> r = q"
proof (cases "r = q")
  case False
  with assms have "(k * q + r) mod q = r" by simp
  with assms False show ?thesis by simp
qed simp

lemma ymd_year_arith:
  fixes a b c e :: nat
  assumes "b \<le> 3" "c \<le> 24" "e \<le> 3"
  shows "days_before_year (a * 400 + b * 100 + c * 4 + e + 1) = a * 146097 + b * 36524 + c * 1461 + e * 365"
    and "is_leap (a * 400 + b * 100 + c * 4 + e + 1) \<longleftrightarrow> e = 3 \<and> (c \<noteq> 24 \<or> b = 3)"
proof -
  let ?p = "a * 400 + b * 100 + c * 4 + e"
  have "?p div 4 = a * 100 + b * 25 + c" "?p div 100 = a * 4 + b" "?p div 400 = a"
    using assms by arith+
  then show "days_before_year (?p + 1) = a * 146097 + b * 36524 + c * 1461 + e * 365"
    by (simp add: days_before_year_def Let_def)
  have p: "?p + 1 = (a * 100 + b * 25 + c) * 4 + (e + 1)"
    "?p + 1 = (a * 4 + b) * 100 + (c * 4 + e + 1)"
    "?p + 1 = a * 400 + (b * 100 + c * 4 + e + 1)" by simp_all
  have "(?p + 1) mod 4 = 0 \<longleftrightarrow> e + 1 = 4"
    unfolding p(1) by (rule mod_eq_0_last) (use assms in auto)
  moreover have "(?p + 1) mod 100 = 0 \<longleftrightarrow> c * 4 + e + 1 = 100"
    unfolding p(2) by (rule mod_eq_0_last) (use assms in auto)
  moreover have "(?p + 1) mod 400 = 0 \<longleftrightarrow> b * 100 + c * 4 + e + 1 = 400"
    unfolding p(3) by (rule mod_eq_0_last) (use assms in auto)
  ultimately show "is_leap (?p + 1) \<longleftrightarrow> e = 3 \<and> (c \<noteq> 24 \<or> b = 3)"
    using assms by (auto simp: is_leap_def)
qed

lemma year_bound:
  fixes a b c e r :: nat
  assumes "b \<le> 3" "c \<le> 24" "e \<le> 3" "a * 146097 + b * 36524 + c * 1461 + e * 365 + r \<le> 3652058"
  shows "a * 400 + b * 100 + c * 4 + e + 1 \<le> 9999"
proof -
  have "a \<le> 24" using assms by linarith
  consider "a \<le> 23" | "a = 24" "b \<le> 2" | "a = 24" "b = 3" "c \<le> 23" | "a = 24" "b = 3" "c = 24"
    using assms \<open>a \<le> 24\<close> by linarith
  then show ?thesis using assms by cases auto
qed

lemma ord2ymd_correct:
  assumes "1 \<le> n" "ord2ymd n = (y, m, d)"
  shows "1 \<le> y \<and> 1 \<le> m \<and> m \<le> 12 \<and> 1 \<le> d \<and> d \<le> month_lengths (is_leap y) ! (m - 1)
    \<and> ymd2ord y m d = n \<and> (n \<le> 3652059 \<longrightarrow> y \<le> 9999)"
proof -
  define a where "a = (n - 1) div 146097"
  define ra where "ra = (n - 1) mod 146097"
  define b where "b = ra div 36524"
  define rb where "rb = ra mod 36524"
  define c where "c = rb div 1461"
  define rc where "rc = rb mod 1461"
  define e where "e = rc div 365"
  define r where "r = rc mod 365"
  have n: "n = a * 146097 + ra + 1" and ra: "ra < 146097"
    using assms(1) by (auto simp: a_def ra_def)
  have rb: "ra = b * 36524 + rb" "rb < 36524" by (auto simp: b_def rb_def)
  have rc: "rb = c * 1461 + rc" "rc < 1461" by (auto simp: c_def rc_def)
  have r: "rc = e * 365 + r" "r < 365" by (auto simp: e_def r_def)
  have b4: "b \<le> 4" and e4: "e \<le> 4" and c24: "c \<le> 24" using ra rb rc r by auto
  have o: "ord2ymd n = (if e = 4 \<or> b = 4 then (a * 400 + b * 100 + c * 4 + e, 12, 31)
      else (case split_month 1 (month_lengths (e = 3 \<and> (c \<noteq> 24 \<or> b = 3))) r of
        (m, d) \<Rightarrow> (a * 400 + b * 100 + c * 4 + e + 1, m, d)))"
    by (simp add: ord2ymd_def Let_def a_def ra_def b_def rb_def c_def rc_def e_def r_def)
  show ?thesis
  proof (cases "e = 4 \<or> b = 4")
    case True
    define b' where "b' = (if b = 4 then 3 else b)"
    define c' where "c' = (if b = 4 then 24 else c)"
    have b0: "b = 4 \<Longrightarrow> rb = 0 \<and> c = 0 \<and> rc = 0 \<and> e = 0 \<and> r = 0" using ra rb rc r by auto
    have e0: "e = 4 \<Longrightarrow> r = 0 \<and> rc = 1460 \<and> c \<le> 23" using r rc rb by auto
    have le: "b' \<le> 3" "c' \<le> 24" "c' = 24 \<longrightarrow> b' = 3"
      using b4 c24 True b0 e0 by (auto simp: b'_def c'_def)
    have y: "y = a * 400 + b' * 100 + c' * 4 + 3 + 1" and md: "m = 12" "d = 31"
      using assms(2) o True b0 by (auto simp: b'_def c'_def)
    have leap: "is_leap y" using ymd_year_arith(2) [OF le(1,2), of 3 a] le(3) y by auto
    have "days_before_year y = a * 146097 + b' * 36524 + c' * 1461 + 3 * 365"
      using ymd_year_arith(1) [OF le(1,2), of 3 a] y by simp
    moreover have "n = a * 146097 + b' * 36524 + c' * 1461 + 1461"
      using True n rb rc r b0 e0 by (auto simp: b'_def c'_def)
    moreover from calculation have "n \<le> 3652059 \<longrightarrow> y \<le> 9999"
      using year_bound [of b' c' 3 a 365] le y by auto
    ultimately show ?thesis
      using leap md y by (simp add: ymd2ord_def month_lengths_def)
  next
    case False
    let ?leap = "e = 3 \<and> (c \<noteq> 24 \<or> b = 3)"
    have le: "b \<le> 3" "c \<le> 24" "e \<le> 3" using False b4 c24 e4 by auto
    have y: "y = a * 400 + b * 100 + c * 4 + e + 1"
      and sm: "split_month 1 (month_lengths ?leap) r = (m, d)"
      using assms(2) o False by (auto split: prod.splits)
    have leap: "is_leap y = ?leap" using ymd_year_arith(2) [OF le, of a] y by simp
    have dby: "days_before_year y = a * 146097 + b * 36524 + c * 1461 + e * 365"
      using ymd_year_arith(1) [OF le, of a] y by simp
    have "r < sum_list (month_lengths ?leap)" using r(2) by (simp add: sum_month_lengths)
    from split_month_sum [OF sm this]
    have "1 \<le> m \<and> m \<le> 12 \<and> 1 \<le> d \<and> d \<le> month_lengths ?leap ! (m - 1)
      \<and> sum_list (take (m - 1) (month_lengths ?leap)) + d = r + 1"
      by (simp add: length_month_lengths)
    moreover have "n = a * 146097 + b * 36524 + c * 1461 + e * 365 + r + 1"
      using n rb rc r by simp
    moreover from calculation have "n \<le> 3652059 \<longrightarrow> y \<le> 9999"
      using year_bound [OF le, of a r] y by auto
    ultimately show ?thesis
      using leap dby y by (auto simp: ymd2ord_def)
  qed
qed

section \<open>The text round trip\<close>

lemma digit_val_char [simp]: "digit_val (digit_char n) = Some (n mod 10)"
proof -
  have "(48 + n mod 10) mod 256 = 48 + n mod 10" by (rule mod_less) (auto intro: less_le_trans [of _ 58])
  then show ?thesis by (simp add: digit_val_def digit_char_def char_in_def)
qed

lemma take_digits_pad2: "n < 100 \<Longrightarrow> take_digits 2 0 (pad2 n @ s) = Some (n, s)"
  by (simp add: pad2_def numeral_2_eq_2)

lemma digit_step: "10 * (n div (10 * k)) + n div k mod 10 = (n div k :: nat)"
  by (metis div_mult2_eq mult.commute mult_div_mod_eq)

lemma take_digits_Suc:
  "take_digits (Suc k) acc (digit_char n # s) = take_digits k (10 * acc + n mod 10) s"
  by simp

lemma take_digits_pad4:
  assumes "n < 10000"
  shows "take_digits 4 0 (pad4 n @ s) = Some (n, s)"
proof -
  have four: "(4::nat) = Suc (Suc (Suc (Suc 0)))" by simp
  show ?thesis
    using assms digit_step [of n 1] digit_step [of n 10] digit_step [of n 100]
    by (simp only: four pad4_def append.simps take_digits_Suc take_digits.simps) simp
qed

lemma fraction_step:
  "take_fraction (Suc k) acc (digit_char n # s) = take_fraction k (10 * acc + n mod 10) s"
  by simp

lemma parse_fraction_pad6:
  assumes "n < 1000000"
  shows "parse_fraction (''.'' @ pad6 n @ CHR ''+'' # s) = Some (n, CHR ''+'' # s)"
proof -
  have six: "(6::nat) = Suc (Suc (Suc (Suc (Suc (Suc 0)))))" by simp
  have "n div 100000 < 10" using assms by (simp add: less_mult_imp_div_less)
  then have top: "n div 100000 mod 10 = n div 100000" by simp
  have plus: "digit_val CHR ''+'' = None" by (simp add: digit_val_def char_in_def)
  have "take_fraction 6 0 (pad6 n @ CHR ''+'' # s) = (n, CHR ''+'' # s)"
    using assms top digit_step [of n 1] digit_step [of n 10] digit_step [of n 100]
      digit_step [of n 1000] digit_step [of n 10000]
    by (simp only: six pad6_def pad4_def append.simps fraction_step take_fraction.simps plus) simp
  moreover obtain ds where "pad6 n @ CHR ''+'' # s = digit_char (n div 100000) # ds"
    by (simp add: pad6_def)
  ultimately show ?thesis
    by (simp add: parse_fraction_def)
qed

lemma parse_clock_hms:
  assumes "h < 24" "m < 60" "sec < 60"
    and "parse_fraction s = Some (f, s')"
  shows "parse_clock (pad2 h @ CHR '':'' # pad2 m @ CHR '':'' # pad2 sec @ s)
     = Some (h * 3600000000 + m * 60000000 + sec * 1000000 + f, s')"
  using assms by (simp add: parse_clock_def take_digits_pad2)

lemma pad2_digits: "n < 100 \<Longrightarrow> take_digits 2 0 (pad2 n) = Some (n, [])"
  using take_digits_pad2 [of n "[]"] by simp

lemma parse_offset_utc: "parse_offset ''+00:00'' = Some (Some 0)"
  by (simp add: parse_offset_def parse_clock_def digit_val_def char_in_def numeral_2_eq_2)

lemma replace_Z_simps [simp]:
  "replace_Z [] = []"
  "replace_Z (c # s) = (if c = CHR ''Z'' then ''+00:00'' else [c]) @ replace_Z s"
  "replace_Z (s @ t) = replace_Z s @ replace_Z t"
  by (simp_all add: replace_Z_def)

lemma digit_char_not_Z [simp]: "digit_char n \<noteq> CHR ''Z''"
proof
  assume "digit_char n = CHR ''Z''"
  then have "digit_val CHR ''Z'' = Some (n mod 10)" using digit_val_char [of n] by simp
  then show False by (simp add: digit_val_def char_in_def)
qed

lemma replace_Z_pad [simp]:
  "replace_Z (pad2 n) = pad2 n" "replace_Z (pad4 n) = pad4 n" "replace_Z (pad6 n) = pad6 n"
  by (simp_all add: pad2_def pad4_def pad6_def)

text \<open>The instants of the years 1 to 9999, the range of \<open>datetime\<close>.\<close>

definition valid_instant :: "instant \<Rightarrow> bool" where
  "valid_instant t \<longleftrightarrow> - 62135596800000000 \<le> t \<and> t \<le> 253402300799999999"

lemma clock_split:
  fixes us :: nat
  assumes "us < 86400000000"
  shows "us div 1000000 div 3600 < 24" "us div 1000000 div 60 mod 60 < 60" "us div 1000000 mod 60 < 60"
    "us div 1000000 div 3600 * 3600000000 + us div 1000000 div 60 mod 60 * 60000000
       + us div 1000000 mod 60 * 1000000 + us mod 1000000 = us"
proof -
  define s where "s = us div 1000000"
  have us: "us = s * 1000000 + us mod 1000000" by (simp add: s_def)
  have "s < 86400" using assms by (simp add: s_def less_mult_imp_div_less)
  then show "us div 1000000 div 3600 < 24"
    by (simp add: s_def [symmetric] less_mult_imp_div_less)
  have "s = s div 60 * 60 + s mod 60" "s div 60 = s div 3600 * 60 + s div 60 mod 60"
    by (simp_all add: div_mult2_eq [of s 60 60, simplified])
  then have "s div 3600 * 3600 + s div 60 mod 60 * 60 + s mod 60 = s" by linarith
  with us show "us div 1000000 div 3600 * 3600000000 + us div 1000000 div 60 mod 60 * 60000000
       + us div 1000000 mod 60 * 1000000 + us mod 1000000 = us"
    by (simp add: s_def [symmetric])
qed simp_all

lemma parse_clock_iso:
  assumes "us < 86400000000"
  shows "parse_clock (pad2 (us div 1000000 div 3600) @ CHR '':'' # pad2 (us div 1000000 div 60 mod 60)
      @ CHR '':'' # pad2 (us div 1000000 mod 60)
      @ (if us mod 1000000 = 0 then [] else ''.'' @ pad6 (us mod 1000000)) @ ''+00:00'')
    = Some (us, ''+00:00'')"
proof -
  have "parse_fraction ((if us mod 1000000 = 0 then [] else ''.'' @ pad6 (us mod 1000000)) @ ''+00:00'')
      = Some (us mod 1000000, ''+00:00'')"
    using parse_fraction_pad6 [of "us mod 1000000" "''00:00''"]
    by (simp add: parse_fraction_def)
  from parse_clock_hms [OF clock_split(1-3) [OF assms] this] show ?thesis
    by (simp add: clock_split(4) [OF assms])
qed

lemma parse_date_iso:
  assumes "ord2ymd n = (y, m, d)" "1 \<le> n" "n \<le> 3652059"
  shows "parse_date (pad4 y @ CHR ''-'' # pad2 m @ CHR ''-'' # pad2 d @ s)
     = Some ((int n - int epoch_ord) * us_per_day, s)"
proof -
  have c: "1 \<le> y" "1 \<le> m" "m \<le> 12" "1 \<le> d" "d \<le> month_lengths (is_leap y) ! (m - 1)"
    "ymd2ord y m d = n" "y \<le> 9999"
    using ord2ymd_correct [OF assms(2,1)] assms(3) by auto
  have "m - 1 < length (month_lengths (is_leap y))" using c by (simp add: length_month_lengths)
  then have "month_lengths (is_leap y) ! (m - 1) \<in> set (month_lengths (is_leap y))" by (rule nth_mem)
  then have "month_lengths (is_leap y) ! (m - 1) \<le> 31" by (auto simp: month_lengths_def)
  with c have "d < 100" by simp
  with c show ?thesis by (simp add: parse_date_def take_digits_pad4 take_digits_pad2)
qed

text \<open>Parsing a printed instant gives it back.\<close>

theorem parse_isoformat:
  assumes "valid_instant t"
  shows "parse_instant (isoformat t) = Some t"
proof -
  define n where "n = nat (t div us_per_day + int epoch_ord)"
  define us where "us = nat (t mod us_per_day)"
  obtain y m d where ymd: "ord2ymd n = (y, m, d)" by (cases "ord2ymd n") auto
  have dom: "- 719162 \<le> t div us_per_day" "t div us_per_day \<le> 2932896"
    using assms by (auto simp: valid_instant_def us_per_day_def)
  then have n: "1 \<le> n" "n \<le> 3652059" "int n = t div us_per_day + int epoch_ord"
    by (auto simp: n_def epoch_ord_def)
  have us: "us < 86400000000" "int us = t mod us_per_day"
    by (auto simp: us_def us_per_day_def)
  have iso: "isoformat t = pad4 y @ CHR ''-'' # pad2 m @ CHR ''-'' # pad2 d @ CHR ''T'' #
      pad2 (us div 1000000 div 3600) @ CHR '':'' # pad2 (us div 1000000 div 60 mod 60)
      @ CHR '':'' # pad2 (us div 1000000 mod 60)
      @ (if us mod 1000000 = 0 then [] else ''.'' @ pad6 (us mod 1000000)) @ ''+00:00''"
    by (simp add: isoformat_def Let_def n_def [symmetric] us_def [symmetric] ymd)
  then have "replace_Z (isoformat t) = isoformat t" by simp
  moreover have "fromisoformat (isoformat t) = Some (t, Some 0)"
    unfolding iso fromisoformat_def parse_date_iso [OF ymd n(1,2)]
    using parse_clock_iso [OF us(1)] by (simp add: parse_offset_utc n(3) us(2))
  ultimately show ?thesis by (simp add: parse_instant_def)
qed

text \<open>A number of seconds, in microseconds.\<close>

definition seconds :: "int \<Rightarrow> int" where
  "seconds n = n * 1000000"

end
