(* ===== verification/Bridge_Contracts.thy ===== *)
theory Bridge_Contracts
  imports Iso_Time
begin

text \<open>
  The contracts of the Codex bridge (\<open>jarvis_codex_bridge/contracts.py\<close>, \<open>transport.py\<close>):
  the frozen dataclasses with the checks of their \<open>__post_init__\<close>, the status that execution
  evidence overrides, the rule that turns a terminal monitor receipt into one resume request,
  and the transport the bridge is given. The transport is code outside the package: a record of
  functions over an arbitrary world \<open>'w\<close>, each of which may raise.
\<close>

section \<open>Requests, threads and receipts\<close>

record resume_request =
  rq_request_id :: string
  rq_thread_id :: string
  rq_prompt :: string
  rq_source_ref :: string
  rq_model :: "string option"
  rq_effort :: "string option"

definition check_resume_request :: "resume_request \<Rightarrow> resume_request result" where
  "check_resume_request r =
     (if py_strip (rq_request_id r) = [] then Inl (ValueError ''request_id is required'')
      else if py_strip (rq_thread_id r) = [] then Inl (ValueError ''thread_id is required'')
      else if py_strip (rq_prompt r) = [] then Inl (ValueError ''prompt is required'')
      else Inr r)"

record turn_state =
  tn_turn_id :: string
  tn_status :: string
  tn_items :: "pdict list"
  tn_error :: "string option"
  tn_execution_status :: "string option"
  tn_execution_source :: string

definition turn_effective_status :: "turn_state \<Rightarrow> string" where
  "turn_effective_status t =
     (case tn_execution_status t of Some s \<Rightarrow> s | None \<Rightarrow> tn_status t)"

record thread_state =
  th_thread_id :: string
  th_status :: string
  th_turns :: "turn_state list"
  th_read_source :: string
  th_execution_status :: "string option"
  th_execution_source :: string
  th_execution_evidence :: "pdict option"

definition thread_effective_status :: "thread_state \<Rightarrow> string" where
  "thread_effective_status s =
     (case th_execution_status s of
        Some e \<Rightarrow> e
      | None \<Rightarrow> (if th_turns s = [] then th_status s
                 else turn_effective_status (last (th_turns s))))"

record started_turn =
  st_thread_id :: string
  st_turn_id :: string
  st_status :: string

record bridge_receipt =
  br_request_id :: string
  br_thread_id :: string
  br_status :: string
  br_observed_at :: instant
  br_source_ref :: string
  br_turn_id :: "string option"
  br_output :: "string option"
  br_reason :: "string option"
  br_replayed :: bool

definition bridge_receipt_dict :: "bridge_receipt \<Rightarrow> pdict" where
  "bridge_receipt_dict r =
     [(''request_id'', PStr (br_request_id r)), (''thread_id'', PStr (br_thread_id r)),
      (''status'', PStr (br_status r)), (''observed_at'', PStr (isoformat (br_observed_at r))),
      (''source_ref'', PStr (br_source_ref r)), (''turn_id'', opt_str (br_turn_id r)),
      (''output'', opt_str (br_output r)), (''reason'', opt_str (br_reason r)),
      (''replayed'', PBool (br_replayed r))]"

record monitor_receipt =
  mr_monitor_id :: string
  mr_thread_id :: string
  mr_target :: string
  mr_state :: string
  mr_observed_at :: instant
  mr_fingerprint :: string
  mr_reason :: "string option"

definition monitor_receipt_dict :: "monitor_receipt \<Rightarrow> pdict" where
  "monitor_receipt_dict r =
     [(''monitor_id'', PStr (mr_monitor_id r)), (''thread_id'', PStr (mr_thread_id r)),
      (''receipt_target_thread_id'', PStr (mr_target r)), (''state'', PStr (mr_state r)),
      (''observed_at'', PStr (isoformat (mr_observed_at r))),
      (''fingerprint'', PStr (mr_fingerprint r)), (''reason'', opt_str (mr_reason r))]"

record receipt_route =
  rt_observed :: string
  rt_target :: string

definition check_receipt_route :: "receipt_route \<Rightarrow> receipt_route result" where
  "check_receipt_route r =
     (if py_strip (rt_observed r) = [] then Inl (ValueError ''observed_thread_id is required'')
      else if py_strip (rt_target r) = []
        then Inl (ValueError ''receipt_target_thread_id is required'')
      else Inr r)"

definition route_matches :: "receipt_route \<Rightarrow> string \<Rightarrow> bool" where
  "route_matches r thread_id \<longleftrightarrow> rt_observed r = thread_id"

section \<open>The terminal continuation rule\<close>

record continuation_rule =
  cr_monitor_id :: string
  cr_observed :: string
  cr_target :: string
  cr_prompt :: string
  cr_source_ref :: string
  cr_model :: "string option"
  cr_effort :: "string option"

text \<open>The names of the fields whose text is blank, in order.\<close>

definition missing_fields :: "(string \<times> string) list \<Rightarrow> string list" where
  "missing_fields fs = map fst (filter (\<lambda>(n, v). py_strip v = []) fs)"

definition check_continuation_rule :: "continuation_rule \<Rightarrow> continuation_rule result" where
  "check_continuation_rule r =
     (let missing = missing_fields
        [(''monitor_id'', cr_monitor_id r), (''observed_thread_id'', cr_observed r),
         (''resume_target_thread_id'', cr_target r), (''prompt'', cr_prompt r),
         (''source_ref'', cr_source_ref r)]
      in if missing \<noteq> []
         then Inl (ValueError (''required terminal continuation fields: '' @ py_join '', '' missing))
         else Inr r)"

definition rule_resume_request ::
    "continuation_rule \<Rightarrow> monitor_receipt \<Rightarrow> resume_request result" where
  "rule_resume_request rule receipt =
     (if mr_monitor_id receipt \<noteq> cr_monitor_id rule
        then Inl (ValueError ''monitor receipt does not belong to this continuation rule'')
      else if mr_thread_id receipt \<noteq> cr_observed rule
        then Inl (ValueError ''monitor receipt thread does not match continuation rule'')
      else if mr_state receipt \<noteq> ''terminal_changed''
        then Inl (ValueError ''only a changed terminal receipt can trigger continuation'')
      else check_resume_request
        \<lparr>rq_request_id = ''terminal-continue:'' @ cr_monitor_id rule @ '':''
            @ py_take 32 (mr_fingerprint receipt),
         rq_thread_id = cr_target rule, rq_prompt = cr_prompt rule,
         rq_source_ref = cr_source_ref rule, rq_model = cr_model rule,
         rq_effort = cr_effort rule\<rparr>)"

section \<open>The transport\<close>

record 'w transport =
  tr_health :: "'w \<Rightarrow> pdict"
  tr_read_thread :: "string \<Rightarrow> 'w \<Rightarrow> thread_state result \<times> 'w"
  tr_resume :: "resume_request \<Rightarrow> 'w \<Rightarrow> started_turn result \<times> 'w"

section \<open>Lemmas\<close>

lemma check_resume_request_Inr:
  "check_resume_request r = Inr q \<longleftrightarrow>
     q = r \<and> py_strip (rq_request_id r) \<noteq> [] \<and> py_strip (rq_thread_id r) \<noteq> []
     \<and> py_strip (rq_prompt r) \<noteq> []"
  by (auto simp: check_resume_request_def)

lemma check_receipt_route_Inr:
  "check_receipt_route r = Inr q \<longleftrightarrow>
     q = r \<and> py_strip (rt_observed r) \<noteq> [] \<and> py_strip (rt_target r) \<noteq> []"
  by (auto simp: check_receipt_route_def)

lemma rule_resume_request_Inr:
  assumes "rule_resume_request rule receipt = Inr q"
  shows "mr_monitor_id receipt = cr_monitor_id rule" "mr_thread_id receipt = cr_observed rule"
    "mr_state receipt = ''terminal_changed''" "rq_thread_id q = cr_target rule"
    "rq_prompt q = cr_prompt rule"
    "rq_request_id q = ''terminal-continue:'' @ cr_monitor_id rule @ '':''
       @ py_take 32 (mr_fingerprint receipt)"
  using assms by (auto simp: rule_resume_request_def check_resume_request_Inr split: if_splits)

end
