(* ===== verification/Bridge_Service.thy ===== *)
theory Bridge_Service
  imports Bridge_Contracts
begin

text \<open>
  The append-only receipt journal (\<open>journal.py\<close>) and the existing-thread bridge
  (\<open>service.py\<close>). The journal file is the list of its parsed lines. The bridge owns the busy
  check, the exact-identity check, the post-turn readback, the no-output rule and, through the
  journal, the idempotency of one request id. The locale \<open>receipt_journal\<close> states what the
  bridge needs of a journal; it is interpreted on the JSONL journal.
\<close>

section \<open>The journal\<close>

type_synonym journal = "pdict list"

definition journal_terminal :: "string list" where
  "journal_terminal = [''completed'', ''failed'', ''requires_readback'']"

text \<open>One line of \<open>find_terminal\<close>: skipped, or the receipt it spells out.\<close>

definition journal_line :: "instant \<Rightarrow> string \<Rightarrow> pdict \<Rightarrow> bridge_receipt option result" where
  "journal_line now request_id value =
     (if dget value ''request_id'' \<noteq> PStr request_id then Inr None
      else if dget value ''status'' \<notin> PStr ` set journal_terminal then Inr None
      else
        rbind (dindex value ''request_id'') (\<lambda>rid.
        rbind (dindex value ''thread_id'') (\<lambda>tid.
        rbind (dindex value ''status'') (\<lambda>st.
        rbind (case dget value ''observed_at'' of
                 PStr s \<Rightarrow> (if s = [] then Inr now
                   else (case parse_instant s of
                           Some t \<Rightarrow> Inr t
                         | None \<Rightarrow> Inl (ValueError (''Invalid isoformat string: '' @ str_repr s))))
               | v \<Rightarrow> (if truthy v then Inl (TypeError ''fromisoformat: argument must be str'')
                       else Inr now)) (\<lambda>observed.
        Inr (Some
          \<lparr>br_request_id = py_str rid, br_thread_id = py_str tid, br_status = py_str st,
           br_observed_at = observed, br_source_ref = text_or_empty (dget value ''source_ref''),
           br_turn_id = optional_text (dget value ''turn_id''),
           br_output = optional_text (dget value ''output''),
           br_reason = optional_text (dget value ''reason''), br_replayed = False\<rparr>))))))"

fun find_terminal_from ::
    "instant \<Rightarrow> string \<Rightarrow> bridge_receipt option \<Rightarrow> journal \<Rightarrow> bridge_receipt option result" where
  "find_terminal_from now request_id found [] = Inr found"
| "find_terminal_from now request_id found (value # rest) =
     (case journal_line now request_id value of
        Inl e \<Rightarrow> Inl e
      | Inr None \<Rightarrow> find_terminal_from now request_id found rest
      | Inr (Some r) \<Rightarrow> find_terminal_from now request_id (Some r) rest)"

definition find_terminal :: "instant \<Rightarrow> journal \<Rightarrow> string \<Rightarrow> bridge_receipt option result" where
  "find_terminal now j request_id = find_terminal_from now request_id None j"

definition journal_append :: "bridge_receipt \<Rightarrow> journal \<Rightarrow> journal" where
  "journal_append r j = j @ [bridge_receipt_dict r]"

text \<open>\<open>ReceiptJournal\<close>, the protocol the bridge is written against, and its JSONL instance.\<close>

record 'j journal_port =
  jp_find_terminal :: "instant \<Rightarrow> 'j \<Rightarrow> string \<Rightarrow> bridge_receipt option result"
  jp_append :: "bridge_receipt \<Rightarrow> 'j \<Rightarrow> 'j"

definition jsonl_journal :: "journal journal_port" where
  "jsonl_journal = \<lparr>jp_find_terminal = find_terminal, jp_append = journal_append\<rparr>"

section \<open>The bridge\<close>

definition bridge_active :: "string list" where
  "bridge_active = [''active'', ''running'', ''inprogress'', ''in_progress'', ''pending'']"

text \<open>The normal form of a status the checks compare: \<open>status.strip().lower()\<close>.\<close>

definition norm_status :: "string \<Rightarrow> string" where
  "norm_status s = py_lower (py_strip s)"

definition agent_messages :: "pdict list \<Rightarrow> pdict list" where
  "agent_messages items = filter (\<lambda>i. dget i ''type'' = PStr ''agentMessage'') items"

definition final_output :: "thread_state \<Rightarrow> string \<Rightarrow> string" where
  "final_output state turn_id =
     (case filter (\<lambda>t. tn_turn_id t = turn_id) (rev (th_turns state)) of
        [] \<Rightarrow> []
      | t # _ \<Rightarrow>
          (let messages = agent_messages (tn_items t);
               finals = filter (\<lambda>i. dget i ''phase'' = PStr ''final_answer'') messages
           in if finals \<noteq> [] then stripped (dget (last finals) ''text'')
              else if messages \<noteq> [] then stripped (dget (last messages) ''text'')
              else []))"

definition blank_receipt :: "resume_request \<Rightarrow> instant \<Rightarrow> string \<Rightarrow> bridge_receipt" where
  "blank_receipt q now status =
     \<lparr>br_request_id = rq_request_id q, br_thread_id = rq_thread_id q, br_status = status,
      br_observed_at = now, br_source_ref = rq_source_ref q, br_turn_id = None,
      br_output = None, br_reason = None, br_replayed = False\<rparr>"

text \<open>The guarded part: everything inside the \<open>try\<close>, then the journalled receipt.\<close>

definition attempt_turn ::
    "'w transport \<Rightarrow> instant \<Rightarrow> resume_request \<Rightarrow> 'w \<Rightarrow> bridge_receipt \<times> 'w" where
  "attempt_turn tr now q w =
     (case tr_resume tr q w of
        (Inl e, w1) \<Rightarrow> ((blank_receipt q now ''failed'')\<lparr>br_reason := Some (exc_text e)\<rparr>, w1)
      | (Inr started, w1) \<Rightarrow>
          if st_thread_id started \<noteq> rq_thread_id q \<or> st_turn_id started = []
          then ((blank_receipt q now ''failed'')
                  \<lparr>br_reason := Some ''transport returned an ambiguous thread or turn identity''\<rparr>, w1)
          else
            (case tr_read_thread tr (rq_thread_id q) w1 of
               (Inl e, w2) \<Rightarrow>
                 ((blank_receipt q now ''failed'')\<lparr>br_reason := Some (exc_text e)\<rparr>, w2)
             | (Inr after, w2) \<Rightarrow>
                 (let output = final_output after (st_turn_id started)
                  in if output = []
                     then ((blank_receipt q now ''requires_readback'')
                             \<lparr>br_turn_id := Some (st_turn_id started),
                              br_reason := Some ''completed turn has no exact final output in thread readback''\<rparr>,
                           w2)
                     else ((blank_receipt q now ''completed'')
                             \<lparr>br_turn_id := Some (st_turn_id started), br_output := Some output\<rparr>,
                           w2))))"

definition bridge_resume ::
    "'w transport \<Rightarrow> 'j journal_port \<Rightarrow> instant \<Rightarrow> resume_request \<Rightarrow> 'w \<times> 'j \<Rightarrow>
       bridge_receipt result \<times> 'w \<times> 'j"
where
  "bridge_resume tr jp now q = (\<lambda>(w, j).
     case jp_find_terminal jp now j (rq_request_id q) of
       Inl e \<Rightarrow> (Inl e, w, j)
     | Inr (Some previous) \<Rightarrow> (Inr (previous\<lparr>br_replayed := True\<rparr>), w, j)
     | Inr None \<Rightarrow>
         (case tr_read_thread tr (rq_thread_id q) w of
            (Inl e, w1) \<Rightarrow> (Inl e, w1, j)
          | (Inr before, w1) \<Rightarrow>
              if norm_status (thread_effective_status before) = ''unknown''
              then (Inr ((blank_receipt q now ''requires_readback'')
                      \<lparr>br_reason := Some ''execution state is unknown; observer status cannot authorize a new turn''\<rparr>),
                    w1, j)
              else if norm_status (thread_effective_status before) \<in> set bridge_active
                   \<or> norm_status (th_status before) \<in> set bridge_active
              then (Inr ((blank_receipt q now ''busy'')\<lparr>br_reason := Some ''thread has an active turn''\<rparr>),
                    w1, j)
              else (let (receipt, w2) = attempt_turn tr now q w1
                    in (Inr receipt, w2, jp_append jp receipt j))))"

definition bridge_health :: "'w transport \<Rightarrow> 'w \<Rightarrow> pdict" where
  "bridge_health tr w = dmerge [(''package'', PStr ''jarvis-codex-bridge'')] (tr_health tr w)"

text \<open>A sequence of calls, whatever the callers, at successive times.\<close>

fun bridge_run ::
    "'w transport \<Rightarrow> 'j journal_port \<Rightarrow> (instant \<times> resume_request) list \<Rightarrow> 'w \<times> 'j \<Rightarrow> 'w \<times> 'j"
where
  "bridge_run tr jp [] s = s"
| "bridge_run tr jp ((now, q) # calls) s =
     bridge_run tr jp calls (snd (bridge_resume tr jp now q s))"

text \<open>A transport that also logs the turns it is asked to start.\<close>

definition logged_transport :: "'w transport \<Rightarrow> ('w \<times> resume_request list) transport" where
  "logged_transport tr =
     \<lparr>tr_health = (\<lambda>(w, l). tr_health tr w),
      tr_read_thread = (\<lambda>tid (w, l). let (r, w') = tr_read_thread tr tid w in (r, w', l)),
      tr_resume = (\<lambda>q (w, l). let (r, w') = tr_resume tr q w in (r, w', l @ [q]))\<rparr>"

section \<open>The contract of a journal and what the bridge makes of it\<close>

lemma attempt_turn_receipt:
  assumes "attempt_turn tr now q w = (r, w')"
  shows "br_request_id r = rq_request_id q" "br_thread_id r = rq_thread_id q"
    "br_status r \<in> set journal_terminal" "br_observed_at r = now" "\<not> br_replayed r"
    "br_status r = ''completed'' \<Longrightarrow>
       \<exists>out turn. br_output r = Some out \<and> out \<noteq> [] \<and> br_turn_id r = Some turn \<and> turn \<noteq> []"
  using assms
  by (auto simp: attempt_turn_def blank_receipt_def journal_terminal_def Let_def
      split: prod.splits sum.splits if_splits)

lemma attempt_turn_logged:
  "attempt_turn (logged_transport tr) now q (w, l) =
     (let (r, w') = attempt_turn tr now q w in (r, w', l @ [q]))"
  by (auto simp: attempt_turn_def logged_transport_def Let_def split: prod.splits sum.splits if_splits)

locale receipt_journal =
  fixes jp :: "'j journal_port"
  assumes append_other: "br_request_id r \<noteq> rid \<Longrightarrow>
      jp_find_terminal jp now (jp_append jp r j) rid = jp_find_terminal jp now j rid"
    and append_keeps: "jp_find_terminal jp now j rid \<noteq> Inr None \<Longrightarrow>
      jp_find_terminal jp now (jp_append jp r j) rid \<noteq> Inr None"
    and append_settles: "br_status r \<in> set journal_terminal \<Longrightarrow>
      jp_find_terminal jp now (jp_append jp r j) (br_request_id r) \<noteq> Inr None"
begin

definition settled :: "'j \<Rightarrow> string \<Rightarrow> bool" where
  "settled j rid \<longleftrightarrow> (\<forall>now. jp_find_terminal jp now j rid \<noteq> Inr None)"

lemma settled_call:
  assumes "settled j (rq_request_id q)"
  shows "snd (bridge_resume tr jp now q (w, j)) = (w, j)"
  using assms by (auto simp: settled_def bridge_resume_def split: sum.splits option.splits)

lemma resume_logged:
  assumes "snd (bridge_resume (logged_transport tr) jp now q ((w, l), j)) = ((w', l'), j')"
  shows "(l' = l \<and> (\<forall>rid. settled j rid \<longrightarrow> settled j' rid)) \<or>
    (l' = l @ [q] \<and> \<not> settled j (rq_request_id q) \<and> settled j' (rq_request_id q)
     \<and> (\<forall>rid. settled j rid \<longrightarrow> settled j' rid))"
proof (cases "j' = j \<and> l' = l")
  case False
  have log: "\<And>tid. tr_read_thread (logged_transport tr) tid (w, l)
      = (fst (tr_read_thread tr tid w), snd (tr_read_thread tr tid w), l)"
    by (simp add: logged_transport_def split_def Let_def)
  from assms False obtain w1 r where
    none: "jp_find_terminal jp now j (rq_request_id q) = Inr None"
    and r: "attempt_turn tr now q w1 = (r, w')" and j': "j' = jp_append jp r j" and l': "l' = l @ [q]"
    by (auto simp: bridge_resume_def log attempt_turn_logged Let_def
        split: sum.splits option.splits prod.splits if_splits)
  have "settled j' (rq_request_id q)"
    using append_settles attempt_turn_receipt(1,3) [OF r] j' unfolding settled_def by metis
  moreover have "settled j rid \<Longrightarrow> settled j' rid" for rid
    using append_keeps j' unfolding settled_def by blast
  ultimately show ?thesis using none l' unfolding settled_def by blast
qed simp

lemma run_at_most_once:
  assumes "distinct (map rq_request_id l)" "\<forall>rid \<in> rq_request_id ` set l. settled j rid"
  shows "distinct (map rq_request_id (snd (fst (bridge_run (logged_transport tr) jp calls ((w, l), j)))))"
  using assms
proof (induction calls arbitrary: w l j)
  case (Cons call calls)
  obtain now q where call: "call = (now, q)" by (cases call)
  obtain w' l' j' where st: "snd (bridge_resume (logged_transport tr) jp now q ((w, l), j)) = ((w', l'), j')"
    by (metis surj_pair)
  from resume_logged [OF st] Cons.prems
  have "distinct (map rq_request_id l')" "\<forall>rid \<in> rq_request_id ` set l'. settled j' rid"
    by auto
  from Cons.IH [OF this] show ?case by (simp add: call st)
qed simp

end

section \<open>The JSONL journal meets the contract\<close>

lemma find_terminal_from_append:
  "find_terminal_from now rid found (j @ j') =
     (case find_terminal_from now rid found j of
        Inl e \<Rightarrow> Inl e | Inr f \<Rightarrow> find_terminal_from now rid f j')"
  by (induction now rid found j rule: find_terminal_from.induct) (auto split: sum.splits option.splits)

lemma find_terminal_snoc:
  "find_terminal now (journal_append r j) rid =
     (case find_terminal now j rid of
        Inl e \<Rightarrow> Inl e
      | Inr f \<Rightarrow> (case journal_line now rid (bridge_receipt_dict r) of
          Inl e \<Rightarrow> Inl e | Inr None \<Rightarrow> Inr f | Inr (Some x) \<Rightarrow> Inr (Some x)))"
  by (auto simp: find_terminal_def journal_append_def find_terminal_from_append
      split: sum.splits option.splits)

lemma journal_line_other:
  "br_request_id r \<noteq> rid \<Longrightarrow> journal_line now rid (bridge_receipt_dict r) = Inr None"
  by (simp add: journal_line_def bridge_receipt_dict_def)

lemma journal_line_settles:
  "br_status r \<in> set journal_terminal \<Longrightarrow>
     journal_line now (br_request_id r) (bridge_receipt_dict r) \<noteq> Inr None"
  by (auto simp: journal_line_def bridge_receipt_dict_def split: option.splits)

lemma optional_text_opt_str [simp]: "optional_text (opt_str x) = x"
  by (cases x) auto

lemma isoformat_nonempty [simp]: "isoformat t \<noteq> []"
  by (auto simp: isoformat_def pad4_def Let_def split: prod.splits)

lemma journal_line_receipt:
  assumes "br_status r \<in> set journal_terminal" "valid_instant (br_observed_at r)"
  shows "journal_line now (br_request_id r) (bridge_receipt_dict r) = Inr (Some (r\<lparr>br_replayed := False\<rparr>))"
  using assms parse_isoformat [OF assms(2)]
  by (auto simp: journal_line_def bridge_receipt_dict_def text_or_empty_def)

interpretation jsonl: receipt_journal jsonl_journal
  by unfold_locales
    (auto simp: jsonl_journal_def find_terminal_snoc journal_line_other
      dest: journal_line_settles split: sum.splits option.splits)

text \<open>A thread the bridge must not start a turn on: active, or in an unknown execution state.\<close>

definition thread_blocks_resume :: "thread_state \<Rightarrow> bool" where
  "thread_blocks_resume s \<longleftrightarrow>
     norm_status (thread_effective_status s) \<in> insert ''unknown'' (set bridge_active)
     \<or> norm_status (th_status s) \<in> set bridge_active"

text \<open>A concrete transport and request for the witnesses: the world says whether the turn ran.\<close>

definition demo_transport :: "bool transport" where
  "demo_transport =
     \<lparr>tr_health = (\<lambda>w. []),
      tr_read_thread = (\<lambda>tid w. (Inr
        \<lparr>th_thread_id = tid, th_status = ''idle'',
         th_turns = (if w then [\<lparr>tn_turn_id = ''turn-1'', tn_status = ''completed'',
           tn_items = [[(''type'', PStr ''agentMessage''), (''phase'', PStr ''final_answer''),
                        (''text'', PStr ''done'')]],
           tn_error = None, tn_execution_status = None, tn_execution_source = ''transport''\<rparr>] else []),
         th_read_source = ''transport'', th_execution_status = None,
         th_execution_source = ''transport'', th_execution_evidence = None\<rparr>, w)),
      tr_resume = (\<lambda>q w. (Inr \<lparr>st_thread_id = rq_thread_id q, st_turn_id = ''turn-1'',
        st_status = ''completed''\<rparr>, True))\<rparr>"

definition demo_request :: resume_request where
  "demo_request = \<lparr>rq_request_id = ''r1'', rq_thread_id = ''t1'', rq_prompt = ''go'',
     rq_source_ref = ''test'', rq_model = None, rq_effort = None\<rparr>"

definition demo_receipt :: bridge_receipt where
  "demo_receipt = (blank_receipt demo_request 0 ''completed'')
     \<lparr>br_turn_id := Some ''turn-1'', br_output := Some ''done''\<rparr>"

lemma demo_call:
  "bridge_resume (logged_transport demo_transport) jsonl_journal 0 demo_request ((False, []), [])
     = (Inr demo_receipt, ((True, [demo_request]), [bridge_receipt_dict demo_receipt]))"
  by (simp add: bridge_resume_def logged_transport_def demo_transport_def jsonl_journal_def
      find_terminal_def demo_request_def demo_receipt_def blank_receipt_def norm_status_def
      py_lower_def py_strip_def is_space_def lower_char_def char_in_def bridge_active_def
      thread_effective_status_def attempt_turn_def final_output_def agent_messages_def
      stripped_def text_or_empty_def journal_append_def)

section \<open>Properties\<close>


text \<open>
  A terminal receipt appended to the JSONL journal is found again, field by field (its
  \<open>observed_at\<close> through the ISO text), by \<open>find_terminal\<close>, and the lookup of every other
  request id is unchanged.
\<close>

theorem journal_roundtrip:
  assumes "br_status r \<in> set journal_terminal" "valid_instant (br_observed_at r)"
    and "find_terminal now j (br_request_id r) = Inr f"
  shows "find_terminal now (journal_append r j) (br_request_id r) = Inr (Some (r\<lparr>br_replayed := False\<rparr>))
    \<and> (rid \<noteq> br_request_id r \<longrightarrow> find_terminal now (journal_append r j) rid = find_terminal now j rid)"
  using assms by (auto simp: find_terminal_snoc journal_line_receipt journal_line_other
      split: sum.splits option.splits)

theorem journal_roundtrip_witness:
  "find_terminal 5 (journal_append demo_receipt []) ''r1'' = Inr (Some demo_receipt)"
proof -
  have "br_status demo_receipt \<in> set journal_terminal" "valid_instant (br_observed_at demo_receipt)"
    by (simp_all add: demo_receipt_def blank_receipt_def journal_terminal_def valid_instant_def)
  moreover have "find_terminal 5 [] (br_request_id demo_receipt) = Inr None"
    by (simp add: find_terminal_def)
  ultimately show ?thesis
    using journal_roundtrip [of demo_receipt 5 "[]" None]
    by (simp add: demo_receipt_def blank_receipt_def demo_request_def)
qed

text \<open>
  One call of \<open>resume_existing\<close>: a turn is started only when the request id has no
  terminal receipt and the thread was read as neither active nor unknown, and then a terminal
  receipt is returned and journalled; a call that starts no turn leaves the journal alone; and a
  fresh \<open>completed\<close> receipt carries the request's thread, a turn id and a non-empty output.
\<close>

theorem bridge_resume_sound:
  assumes "bridge_resume (logged_transport tr) jsonl_journal now q ((w, l), j) = (res, (w', l'), j')"
  shows "(l' \<noteq> l \<longrightarrow> l' = l @ [q]
            \<and> find_terminal now j (rq_request_id q) = Inr None
            \<and> (\<exists>before r. fst (tr_read_thread tr (rq_thread_id q) w) = Inr before
                 \<and> \<not> thread_blocks_resume before
                 \<and> res = Inr r \<and> br_status r \<in> set journal_terminal \<and> j' = journal_append r j))
     \<and> (l' = l \<longrightarrow> j' = j)
     \<and> (\<forall>r. res = Inr r \<and> br_status r = ''completed'' \<and> \<not> br_replayed r \<longrightarrow>
            (\<exists>out turn. br_output r = Some out \<and> out \<noteq> [] \<and> br_turn_id r = Some turn \<and> turn \<noteq> []
               \<and> br_thread_id r = rq_thread_id q))"
proof -
  have log: "\<And>tid. tr_read_thread (logged_transport tr) tid (w, l)
      = (fst (tr_read_thread tr tid w), snd (tr_read_thread tr tid w), l)"
    by (simp add: logged_transport_def split_def Let_def)
  show ?thesis
    using assms
    by (auto simp: bridge_resume_def log attempt_turn_logged Let_def jsonl_journal_def
        thread_blocks_resume_def blank_receipt_def
        dest: attempt_turn_receipt(3) split: sum.splits option.splits prod.splits if_splits)
      (metis attempt_turn_receipt(2,6))
qed

theorem bridge_resume_sound_witness:
  "find_terminal 0 [] ''r1'' = Inr None
   \<and> (\<exists>out turn. br_output demo_receipt = Some out \<and> out \<noteq> [] \<and> br_turn_id demo_receipt = Some turn
        \<and> turn \<noteq> [] \<and> br_thread_id demo_receipt = ''t1'')"
  using bridge_resume_sound [OF demo_call]
  by (simp add: demo_request_def demo_receipt_def blank_receipt_def)

end
