(* ===== verification/Py_Json.thy ===== *)
theory Py_Json
  imports Py_Values "HOL-Library.List_Lexorder" "HOL-Library.Char_ord"
begin

text \<open>
  \<open>json.dumps\<close>, where its text is observable: in the digests that make fingerprints and
  idempotency keys and in generated prompts. Text beyond ASCII is written as it is
  (\<open>ensure_ascii=False\<close>). The lemmas show that the string encoding is injective and
  self-delimiting, which is what makes a fingerprint identify a snapshot.
\<close>

section \<open>Encoding\<close>

definition bslash :: char where "bslash = CHR 0x5C"
definition dquote :: char where "dquote = CHR 0x22"

definition json_char :: "char \<Rightarrow> string" where
  "json_char c =
     (if c = dquote \<or> c = bslash then [bslash, c]
      else if c = CHR 0x0A then [bslash, CHR ''n'']
      else if c = CHR 0x0D then [bslash, CHR ''r'']
      else if c = CHR 0x09 then [bslash, CHR ''t'']
      else if c = CHR 0x08 then [bslash, CHR ''b'']
      else if c = CHR 0x0C then [bslash, CHR ''f'']
      else if (of_char c :: nat) < 32
        then [bslash, CHR ''u'', CHR ''0'', CHR ''0'', hex_digit (of_char c div 16),
              hex_digit (of_char c mod 16)]
      else [c])"

definition json_escape :: "string \<Rightarrow> string" where
  "json_escape s = concat (map json_char s)"

definition json_string :: "string \<Rightarrow> string" where
  "json_string s = dquote # json_escape s @ [dquote]"

text \<open>The separators are those of the call: \<open>(", ", ": ")\<close> by default.\<close>

fun json_text :: "string \<times> string \<Rightarrow> pyval \<Rightarrow> string"
  and json_list :: "string \<times> string \<Rightarrow> pyval list \<Rightarrow> string list"
  and json_items :: "string \<times> string \<Rightarrow> (string \<times> pyval) list \<Rightarrow> string list" where
  "json_text sep PNone = ''null''"
| "json_text sep (PBool b) = (if b then ''true'' else ''false'')"
| "json_text sep (PInt i) = int_str i"
| "json_text sep (PStr s) = json_string s"
| "json_text sep (PList xs) = ''['' @ py_join (fst sep) (json_list sep xs) @ '']''"
| "json_text sep (PDict d) = ''{'' @ py_join (fst sep) (json_items sep d) @ ''}''"
| "json_list sep [] = []"
| "json_list sep (x # xs) = json_text sep x # json_list sep xs"
| "json_items sep [] = []"
| "json_items sep ((k, v) # d) = (json_string k @ snd sep @ json_text sep v) # json_items sep d"

text \<open>\<open>sort_keys=True\<close>: the keys of every object in code-point order.\<close>

fun json_sorted :: "pyval \<Rightarrow> pyval"
  and json_sorted_list :: "pyval list \<Rightarrow> pyval list"
  and json_sorted_items :: "(string \<times> pyval) list \<Rightarrow> (string \<times> pyval) list" where
  "json_sorted (PList xs) = PList (json_sorted_list xs)"
| "json_sorted (PDict d) = PDict (sort_key fst (json_sorted_items d))"
| "json_sorted v = v"
| "json_sorted_list [] = []"
| "json_sorted_list (x # xs) = json_sorted x # json_sorted_list xs"
| "json_sorted_items [] = []"
| "json_sorted_items ((k, v) # d) = (k, json_sorted v) # json_sorted_items d"

definition json_compact :: "pyval \<Rightarrow> string" where
  "json_compact v = json_text ('','', '':'') (json_sorted v)"

definition json_default :: "pyval \<Rightarrow> string" where
  "json_default v = json_text ('', '', '': '') (json_sorted v)"

section \<open>The encoding of strings is injective\<close>

lemma of_char_hex_digit: "k < 16 \<Longrightarrow> (of_char (hex_digit k) :: nat) = (if k < 10 then 48 + k else 87 + k)"
proof -
  assume k: "k < 16"
  then have "(48 + k) mod 256 = 48 + k" "(87 + k) mod 256 = 87 + k" by simp_all
  then show ?thesis by (simp add: hex_digit_def)
qed

lemma hex_digit_inj:
  assumes "m < 16" "n < 16" "hex_digit m = hex_digit n"
  shows "m = n"
proof -
  have "(if m < 10 then 48 + m else 87 + m) = (if n < 10 then 48 + n else 87 + n)"
    using assms(3) of_char_hex_digit [OF assms(1)] of_char_hex_digit [OF assms(2)] by metis
  with assms(1,2) show ?thesis by (simp split: if_splits)
qed

lemma json_char_not_quote: "json_char c = d # ds \<Longrightarrow> d \<noteq> dquote"
  by (auto simp: json_char_def bslash_def dquote_def split: if_splits)

lemma json_char_nonempty: "json_char c \<noteq> []"
  by (simp add: json_char_def)

lemma of_char_inj: "(of_char c :: nat) = of_char d \<Longrightarrow> c = d"
  by simp

lemma json_char_prefix_free:
  assumes "json_char c @ s = json_char d @ t"
  shows "c = d \<and> s = t"
proof (cases "json_char c = json_char d")
  case True
  moreover have "c = d"
  proof (cases "(of_char c :: nat) < 32 \<and> (of_char d :: nat) < 32
      \<and> (\<exists>x y z w u. json_char c = [x, y, z, w, u, hex_digit (of_char c mod 16)]
        \<and> json_char d = [x, y, z, w, hex_digit (of_char d div 16), hex_digit (of_char d mod 16)])")
    case hex: True
    then have "(of_char c :: nat) mod 16 = of_char d mod 16" and "hex_digit (of_char c div 16) = hex_digit (of_char d div 16)"
      using True by (auto simp: json_char_def intro: hex_digit_inj split: if_splits)
    moreover have "(of_char c :: nat) div 16 < 16" "(of_char d :: nat) div 16 < 16"
      using hex by auto
    ultimately have "(of_char c :: nat) = of_char d"
      by (metis hex_digit_inj div_mult_mod_eq)
    then show ?thesis by simp
  next
    case False
    with True show ?thesis
      by (auto simp: json_char_def bslash_def dquote_def split: if_splits)
  qed
  ultimately show ?thesis using assms by simp
next
  case False
  with assms show ?thesis
    by (auto simp: json_char_def bslash_def dquote_def split: if_splits)
qed

lemma json_escape_delimited:
  assumes "json_escape s @ dquote # x = json_escape t @ dquote # y"
  shows "s = t \<and> x = y"
  using assms
proof (induction s arbitrary: t)
  case Nil
  show ?case
  proof (cases t)
    case (Cons d t')
    obtain e es where "json_char d = e # es" using json_char_nonempty by (cases "json_char d") auto
    with Nil Cons json_char_not_quote [OF this] show ?thesis by (simp add: json_escape_def)
  qed (use Nil in \<open>simp add: json_escape_def\<close>)
next
  case (Cons c s)
  show ?case
  proof (cases t)
    case Nil
    obtain e es where "json_char c = e # es" using json_char_nonempty by (cases "json_char c") auto
    with Nil Cons.prems json_char_not_quote [OF this] show ?thesis by (simp add: json_escape_def)
  next
    case (Cons d t')
    with Cons.prems have "json_char c @ (json_escape s @ dquote # x) = json_char d @ (json_escape t' @ dquote # y)"
      by (simp add: json_escape_def)
    from json_char_prefix_free [OF this] Cons.IH [of t'] Cons show ?thesis by auto
  qed
qed

lemma json_string_delimited:
  "json_string s @ x = json_string t @ y \<longleftrightarrow> s = t \<and> x = y"
  using json_escape_delimited [of s x t y] by (auto simp: json_string_def)

text \<open>A text or \<open>None\<close>, followed by something.\<close>

lemma json_opt_delimited:
  "json_text sep (opt_str a) @ x = json_text sep (opt_str b) @ y \<longleftrightarrow> a = b \<and> x = y"
proof (cases a; cases b)
  fix s t
  assume "a = Some s" "b = Some t"
  then show ?thesis by (simp add: json_string_delimited)
qed (auto simp: json_string_def dquote_def)

section \<open>JSON files\<close>

text \<open>A JSON file: there is none, its text is not JSON, or it has a value.\<close>

datatype saved = Absent | Garbled | Saved pyval

end
