(* ===== verification/Bridge_Monitor.thy ===== *)
theory Bridge_Monitor
  imports Bridge_Service Py_Json
begin

text \<open>
  The terminal monitor and the continuous continuation monitor
  (\<open>jarvis_codex_bridge/monitor.py\<close>). The SHA-256 of the fingerprint is the parameter
  \<open>digest\<close>. The saved state file of a \<open>ThreadTerminalMonitor\<close> is a dictionary, empty while
  the file does not exist. The tight loop of \<open>run\<close> reads its environment (the caller's
  cancellation, the monotonic clock, the wall clock) once per iteration: a list of \<open>tick\<close>s,
  one per iteration. Running out of ticks (\<open>None\<close>) means that the loop is still going.
\<close>

section \<open>The terminal monitor\<close>

definition monitor_terminal :: "string list" where
  "monitor_terminal = [''completed'', ''failed'', ''interrupted'', ''cancelled'', ''canceled'', ''blocked'']"

definition snapshot_value :: "thread_state \<Rightarrow> pyval" where
  "snapshot_value s =
     PDict [(''thread_id'', PStr (th_thread_id s)), (''thread_status'', PStr (th_status s)),
       (''turn_id'', opt_str (if th_turns s = [] then None else Some (tn_turn_id (last (th_turns s))))),
       (''turn_status'', opt_str (if th_turns s = [] then None else Some (thread_effective_status s)))]"

definition fingerprint :: "(string \<Rightarrow> string) \<Rightarrow> thread_state \<Rightarrow> string" where
  "fingerprint digest s = digest (json_compact (snapshot_value s))"

definition classify_event :: "pdict \<Rightarrow> string \<Rightarrow> string \<Rightarrow> string" where
  "classify_event previous fp status =
     (if previous = []
      then (if status \<in> set monitor_terminal then ''baseline_terminal'' else ''baseline_active'')
      else if dget previous ''fingerprint'' = PStr fp then ''no_change''
      else if status \<in> set monitor_terminal then ''terminal_changed''
      else ''active_or_unknown_changed'')"

definition monitor_state_dict :: "string \<Rightarrow> string \<Rightarrow> pdict" where
  "monitor_state_dict fp event =
     [(''version'', PInt 2), (''fingerprint'', PStr fp), (''event'', PStr event)]"

definition monitor_observe ::
    "'w transport \<Rightarrow> (string \<Rightarrow> string) \<Rightarrow> instant \<Rightarrow> string \<Rightarrow> receipt_route \<Rightarrow> 'w \<times> pdict \<Rightarrow>
       monitor_receipt result \<times> 'w \<times> pdict"
where
  "monitor_observe tr digest now monitor_id route = (\<lambda>(w, previous).
     case tr_read_thread tr (rt_observed route) w of
       (Inl e, w1) \<Rightarrow> (Inl e, w1, previous)
     | (Inr state, w1) \<Rightarrow>
         if th_thread_id state \<noteq> rt_observed route
         then (Inl (RuntimeError ''transport readback thread id does not match the receipt route''),
               w1, previous)
         else (let status = norm_status (thread_effective_status state);
                   fp = fingerprint digest state;
                   event = classify_event previous fp status
               in (Inr \<lparr>mr_monitor_id = monitor_id, mr_thread_id = rt_observed route,
                        mr_target = rt_target route, mr_state = event, mr_observed_at = now,
                        mr_fingerprint = fp, mr_reason = Some status\<rparr>,
                   w1, monitor_state_dict fp event)))"

definition receipt_delivery_request :: "monitor_receipt \<Rightarrow> string \<Rightarrow> resume_request result" where
  "receipt_delivery_request receipt source_ref =
     check_resume_request
       \<lparr>rq_request_id = ''monitor-receipt:'' @ mr_monitor_id receipt @ '':'' @ mr_fingerprint receipt,
        rq_thread_id = mr_target receipt,
        rq_prompt = ''JARVIS_THREAD_MONITOR_RECEIPT_V1'' @ [CHR 0x0A]
          @ json_default (PDict (monitor_receipt_dict receipt)),
        rq_source_ref = source_ref, rq_model = None, rq_effort = None\<rparr>"

section \<open>The continuous monitor\<close>

definition max_duration_default :: int where
  "max_duration_default = 24 * 60 * 60"

record continuous_spec =
  sp_monitor_id :: string
  sp_route :: receipt_route
  sp_target :: string
  sp_prompts :: "string list"
  sp_source_ref :: string
  sp_interval :: int
  sp_max_duration :: int
  sp_model :: "string option"
  sp_effort :: "string option"
  sp_repeat_last :: bool
  sp_max_continuations :: "int option"
  sp_provider :: "(nat \<Rightarrow> monitor_receipt \<Rightarrow> pyval) option"

definition check_continuous_spec :: "continuous_spec \<Rightarrow> continuous_spec result" where
  "check_continuous_spec s =
     (if py_strip (sp_monitor_id s) = [] \<or> py_strip (sp_source_ref s) = []
        then Inl (ValueError ''monitor_id and source_ref are required'')
      else if py_strip (sp_target s) = [] then Inl (ValueError ''resume_target_thread_id is required'')
      else if sp_prompts s = [] \<or> list_ex (\<lambda>p. py_strip p = []) (sp_prompts s)
        then Inl (ValueError ''at least one nonempty continuation prompt is required'')
      else if sp_interval s \<le> 0 then Inl (ValueError ''interval_seconds must be positive'')
      else if \<not> (1 \<le> sp_max_duration s \<and> sp_max_duration s \<le> max_duration_default)
        then Inl (ValueError ''a single monitor must expire within 24 hours'')
      else (case sp_max_continuations s of
              Some n \<Rightarrow> (if n \<le> 0
                 then Inl (ValueError ''max_continuations must be positive when supplied'') else Inr s)
            | None \<Rightarrow> Inr s))"

record continuous_result =
  co_monitor_id :: string
  co_status :: string
  co_started_at :: instant
  co_completed_at :: instant
  co_observations :: "monitor_receipt list"
  co_continuations :: "bridge_receipt list"
  co_reason :: "string option"

definition continuous_result_dict :: "continuous_result \<Rightarrow> pdict" where
  "continuous_result_dict r =
     [(''monitor_id'', PStr (co_monitor_id r)), (''status'', PStr (co_status r)),
      (''started_at'', PStr (isoformat (co_started_at r))),
      (''completed_at'', PStr (isoformat (co_completed_at r))),
      (''observations'', PList (map (PDict \<circ> monitor_receipt_dict) (co_observations r))),
      (''continuation_receipts'', PList (map (PDict \<circ> bridge_receipt_dict) (co_continuations r))),
      (''reason'', opt_str (co_reason r))]"

definition next_prompt :: "continuous_spec \<Rightarrow> nat \<Rightarrow> monitor_receipt \<Rightarrow> string option result" where
  "next_prompt s cycle receipt =
     (case sp_provider s of
        Some provider \<Rightarrow>
          (case provider cycle receipt of
             PNone \<Rightarrow> Inr None
           | PStr p \<Rightarrow> (if py_strip p = []
               then Inl (ValueError ''continuation_prompt_provider must return a nonempty prompt or None'')
               else Inr (Some p))
           | _ \<Rightarrow> Inl (ValueError ''continuation_prompt_provider must return a nonempty prompt or None''))
      | None \<Rightarrow>
          (let prompt_index = cycle - 1 in
           if prompt_index < length (sp_prompts s) then Inr (Some (sp_prompts s ! prompt_index))
           else if sp_repeat_last s then Inr (Some (last (sp_prompts s)))
           else Inr None))"

definition budget_consumed :: "continuous_spec \<Rightarrow> nat \<Rightarrow> bool" where
  "budget_consumed s n =
     (case sp_max_continuations s of
        Some m \<Rightarrow> int n \<ge> m
      | None \<Rightarrow> sp_provider s = None \<and> \<not> sp_repeat_last s \<and> n \<ge> length (sp_prompts s))"

definition spec_rule :: "continuous_spec \<Rightarrow> string \<Rightarrow> continuation_rule" where
  "spec_rule s prompt =
     \<lparr>cr_monitor_id = sp_monitor_id s, cr_observed = rt_observed (sp_route s),
      cr_target = sp_target s, cr_prompt = prompt, cr_source_ref = sp_source_ref s,
      cr_model = sp_model s, cr_effort = sp_effort s\<rparr>"

record tick =
  tk_cancelled :: bool
  tk_mono :: int
  tk_now :: instant

record ('w, 'j) monitor_world =
  mw_world :: 'w
  mw_monitor :: pdict
  mw_journal :: 'j

definition continuous_finish ::
    "continuous_spec \<Rightarrow> instant \<Rightarrow> instant \<Rightarrow> monitor_receipt list \<Rightarrow> bridge_receipt list \<Rightarrow>
       string \<Rightarrow> string \<Rightarrow> continuous_result"
where
  "continuous_finish s started now obs cont status reason =
     \<lparr>co_monitor_id = sp_monitor_id s, co_status = status, co_started_at = started,
      co_completed_at = now, co_observations = obs, co_continuations = cont,
      co_reason = Some reason\<rparr>"

text \<open>One new completed turn: the prompt, the rule, the resume, and whether the loop goes on.\<close>

datatype step_outcome =
    Finished "continuous_result result"
  | Looping "bridge_receipt list"

definition continue_step ::
    "'w transport \<Rightarrow> 'j journal_port \<Rightarrow> continuous_spec \<Rightarrow> instant \<Rightarrow> instant \<Rightarrow> monitor_receipt \<Rightarrow>
       monitor_receipt list \<Rightarrow> bridge_receipt list \<Rightarrow> 'w \<times> 'j \<Rightarrow> step_outcome \<times> 'w \<times> 'j"
where
  "continue_step tr jp s started now receipt obs cont wj =
     (case next_prompt s (length cont + 1) receipt of
        Inl e \<Rightarrow> (Finished (Inl e), wj)
      | Inr None \<Rightarrow> (Finished (Inr (continuous_finish s started now obs cont ''completed''
            ''no next continuation prompt is configured'')), wj)
      | Inr (Some prompt) \<Rightarrow>
          (case rbind (check_continuation_rule (spec_rule s prompt)) (\<lambda>rule. rule_resume_request rule receipt) of
             Inl e \<Rightarrow> (Finished (Inl e), wj)
           | Inr q \<Rightarrow>
               (case bridge_resume tr jp now q wj of
                  (Inl e, wj1) \<Rightarrow> (Finished (Inl e), wj1)
                | (Inr continuation, wj1) \<Rightarrow>
                    (let cont1 = cont @ [continuation] in
                     if br_status continuation \<noteq> ''completed''
                     then (Finished (Inr (continuous_finish s started now obs cont1 ''requires_readback''
                            (''continuation '' @ nat_str (length cont1) @ '' returned ''
                              @ br_status continuation))), wj1)
                     else if budget_consumed s (length cont1)
                     then (Finished (Inr (continuous_finish s started now obs cont1 ''completed''
                            ''configured continuation budget consumed'')), wj1)
                     else (Looping cont1, wj1)))))"

fun continuous_loop ::
    "'w transport \<Rightarrow> 'j journal_port \<Rightarrow> (string \<Rightarrow> string) \<Rightarrow> (monitor_receipt \<Rightarrow> 'w \<Rightarrow> 'w) \<Rightarrow> continuous_spec \<Rightarrow>
       instant \<Rightarrow> int \<Rightarrow> tick list \<Rightarrow> monitor_receipt list \<Rightarrow> bridge_receipt list \<Rightarrow>
       ('w, 'j) monitor_world \<Rightarrow> (continuous_result result \<times> ('w, 'j) monitor_world) option"
where
  "continuous_loop tr jp digest observer s started deadline [] obs cont mw = None"
| "continuous_loop tr jp digest observer s started deadline (t # ticks) obs cont mw =
     (if tk_cancelled t
      then Some (Inr (continuous_finish s started (tk_now t) obs cont ''cancelled'' ''caller cancelled''), mw)
      else if tk_mono t \<ge> deadline
      then Some (Inr (continuous_finish s started (tk_now t) obs cont ''expired''
             ''monitor reached its 24-hour bounded lifetime''), mw)
      else
        (case monitor_observe tr digest (tk_now t) (sp_monitor_id s) (sp_route s) (mw_world mw, mw_monitor mw) of
           (Inl e, w1, m1) \<Rightarrow> Some (Inl e, mw\<lparr>mw_world := w1, mw_monitor := m1\<rparr>)
         | (Inr receipt, w1, m1) \<Rightarrow>
             (let obs1 = obs @ [receipt];
                  mw1 = mw\<lparr>mw_world := observer receipt w1, mw_monitor := m1\<rparr>
              in if mr_state receipt = ''terminal_changed'' \<and> mr_reason receipt \<noteq> Some ''completed''
                 then Some (Inr (continuous_finish s started (tk_now t) obs1 cont ''requires_readback''
                        (''observed terminal state '' @ py_str (opt_str (mr_reason receipt))
                          @ ''; no continuation issued'')), mw1)
                 else if mr_state receipt = ''terminal_changed'' \<and> mr_reason receipt = Some ''completed''
                 then (case continue_step tr jp s started (tk_now t) receipt obs1 cont
                              (mw_world mw1, mw_journal mw1) of
                         (Finished r, w2, j2) \<Rightarrow> Some (r, mw1\<lparr>mw_world := w2, mw_journal := j2\<rparr>)
                       | (Looping cont1, w2, j2) \<Rightarrow>
                           continuous_loop tr jp digest observer s started deadline ticks obs1 cont1
                             (mw1\<lparr>mw_world := w2, mw_journal := j2\<rparr>))
                 else continuous_loop tr jp digest observer s started deadline ticks obs1 cont mw1)))"

text \<open>\<open>run\<close>: the deadline is taken from the monotonic clock (in microseconds) at the start.\<close>

definition continuous_run ::
    "'w transport \<Rightarrow> 'j journal_port \<Rightarrow> (string \<Rightarrow> string) \<Rightarrow> (monitor_receipt \<Rightarrow> 'w \<Rightarrow> 'w) \<Rightarrow> continuous_spec \<Rightarrow>
       instant \<Rightarrow> int \<Rightarrow> tick list \<Rightarrow> ('w, 'j) monitor_world \<Rightarrow>
       (continuous_result result \<times> ('w, 'j) monitor_world) option"
where
  "continuous_run tr jp digest observer s started mono0 ticks mw =
     continuous_loop tr jp digest observer s started (mono0 + sp_max_duration s * 1000000) ticks [] [] mw"

section \<open>The terminal monitor: lemmas\<close>

lemma snapshot_text:
  "json_compact (snapshot_value s) =
     ''{'' @ json_string ''thread_id'' @ '':'' @ json_text ('','', '':'') (PStr (th_thread_id s)) @ '',''
     @ json_string ''thread_status'' @ '':'' @ json_text ('','', '':'') (PStr (th_status s)) @ '',''
     @ json_string ''turn_id'' @ '':''
     @ json_text ('','', '':'') (opt_str (if th_turns s = [] then None else Some (tn_turn_id (last (th_turns s))))) @ '',''
     @ json_string ''turn_status'' @ '':''
     @ json_text ('','', '':'') (opt_str (if th_turns s = [] then None else Some (thread_effective_status s))) @ ''}''"
proof -
  have sorted: "json_sorted (opt_str x) = opt_str x" for x by (cases x) auto
  have "json_sorted (snapshot_value s) = snapshot_value s"
    by (simp add: snapshot_value_def sorted)
  then show ?thesis by (simp add: json_compact_def snapshot_value_def)
qed

lemma snapshot_text_inj:
  "json_compact (snapshot_value s) = json_compact (snapshot_value t) \<longleftrightarrow>
     th_thread_id s = th_thread_id t \<and> th_status s = th_status t
     \<and> (th_turns s = [] \<longleftrightarrow> th_turns t = [])
     \<and> (th_turns s \<noteq> [] \<longrightarrow> tn_turn_id (last (th_turns s)) = tn_turn_id (last (th_turns t))
          \<and> thread_effective_status s = thread_effective_status t)"
  unfolding snapshot_text
  by (simp only: append_assoc same_append_eq json_text.simps json_string_delimited
      json_opt_delimited simp_thms) auto

lemma monitor_observe_cases:
  assumes "monitor_observe tr digest now mid route (w, prev) = (res, w', prev')"
  shows "(\<exists>e. res = Inl e \<and> prev' = prev) \<or>
    (\<exists>s r. res = Inr r \<and> fst (tr_read_thread tr (rt_observed route) w) = Inr s
       \<and> w' = snd (tr_read_thread tr (rt_observed route) w)
       \<and> th_thread_id s = rt_observed route \<and> mr_thread_id r = rt_observed route
       \<and> mr_target r = rt_target route \<and> mr_monitor_id r = mid
       \<and> mr_fingerprint r = fingerprint digest s
       \<and> mr_reason r = Some (norm_status (thread_effective_status s))
       \<and> mr_state r = classify_event prev (mr_fingerprint r) (norm_status (thread_effective_status s))
       \<and> prev' = monitor_state_dict (mr_fingerprint r) (mr_state r))"
  using assms by (auto simp: monitor_observe_def Let_def split: prod.splits sum.splits if_splits)


text \<open>A series of observations through one monitor and one route: the receipts, in order.\<close>

fun observe_run ::
    "'w transport \<Rightarrow> (string \<Rightarrow> string) \<Rightarrow> string \<Rightarrow> receipt_route \<Rightarrow> instant list \<Rightarrow> 'w \<times> pdict \<Rightarrow>
       monitor_receipt list"
where
  "observe_run tr digest mid route [] wp = []"
| "observe_run tr digest mid route (now # nows) wp =
     (case monitor_observe tr digest now mid route wp of
        (Inl e, wp') \<Rightarrow> observe_run tr digest mid route nows wp'
      | (Inr r, wp') \<Rightarrow> r # observe_run tr digest mid route nows wp')"

definition status_terminal :: "monitor_receipt \<Rightarrow> bool" where
  "status_terminal r \<longleftrightarrow> (case mr_reason r of None \<Rightarrow> False | Some st \<Rightarrow> st \<in> set monitor_terminal)"

definition expected_event :: "string option \<Rightarrow> monitor_receipt \<Rightarrow> string" where
  "expected_event before r =
     (case before of
        None \<Rightarrow> (if status_terminal r then ''baseline_terminal'' else ''baseline_active'')
      | Some fp \<Rightarrow> (if mr_fingerprint r = fp then ''no_change''
          else if status_terminal r then ''terminal_changed'' else ''active_or_unknown_changed''))"

fun expected_events :: "string option \<Rightarrow> monitor_receipt list \<Rightarrow> bool" where
  "expected_events before [] = True"
| "expected_events before (r # rs) =
     (mr_state r = expected_event before r \<and> expected_events (Some (mr_fingerprint r)) rs)"

definition saved_fingerprint :: "pdict \<Rightarrow> string option \<Rightarrow> bool" where
  "saved_fingerprint prev before \<longleftrightarrow>
     (case before of None \<Rightarrow> prev = [] | Some fp \<Rightarrow> prev \<noteq> [] \<and> dget prev ''fingerprint'' = PStr fp)"

lemma classify_expected:
  "saved_fingerprint prev before \<Longrightarrow> mr_reason r = Some st \<Longrightarrow>
     classify_event prev (mr_fingerprint r) st = expected_event before r"
  by (auto simp: saved_fingerprint_def classify_event_def expected_event_def status_terminal_def
      split: option.splits)

lemma saved_monitor_state: "saved_fingerprint (monitor_state_dict fp e) (Some fp)"
  by (simp add: saved_fingerprint_def monitor_state_dict_def)

lemma observe_run_expected:
  "saved_fingerprint prev before \<Longrightarrow> expected_events before (observe_run tr digest mid route nows (w, prev))"
proof (induction nows arbitrary: w prev before)
  case (Cons now nows)
  obtain res w' prev' where o: "monitor_observe tr digest now mid route (w, prev) = (res, w', prev')"
    by (metis surj_pair)
  show ?case
  proof (cases res)
    case (Inl e)
    with monitor_observe_cases [OF o] have "prev' = prev" by auto
    with Inl Cons show ?thesis by (simp add: o)
  next
    case (Inr r)
    with monitor_observe_cases [OF o] obtain st where "mr_reason r = Some st"
      "mr_state r = classify_event prev (mr_fingerprint r) st"
      "prev' = monitor_state_dict (mr_fingerprint r) (mr_state r)" by auto
    with Inr Cons show ?thesis by (simp add: o classify_expected saved_monitor_state)
  qed
qed simp

lemma expected_events_nth:
  "expected_events before rs \<Longrightarrow> i < length rs \<Longrightarrow>
     mr_state (rs ! i) = expected_event (if i = 0 then before else Some (mr_fingerprint (rs ! (i - 1)))) (rs ! i)"
proof (induction rs arbitrary: before i)
  case (Cons r rs)
  then show ?case by (cases i) (auto split: if_splits simp: nth_Cons')
qed simp



section \<open>The continuous monitor: lemmas\<close>

definition new_completed :: "monitor_receipt \<Rightarrow> bool" where
  "new_completed r \<longleftrightarrow> mr_state r = ''terminal_changed'' \<and> mr_reason r = Some ''completed''"

text \<open>What a finished run keeps: each continuation answers one new completed turn, within the budget.\<close>

definition run_ok :: "continuous_spec \<Rightarrow> monitor_receipt list \<Rightarrow> bridge_receipt list \<Rightarrow> bool" where
  "run_ok s obs cont \<longleftrightarrow>
     length cont \<le> length (filter new_completed obs)
     \<and> (\<forall>c \<in> set (butlast cont). br_status c = ''completed'')
     \<and> (cont = [] \<or> \<not> budget_consumed s (length cont - 1) \<or> length cont = 1)"

definition loop_ok :: "continuous_spec \<Rightarrow> monitor_receipt list \<Rightarrow> bridge_receipt list \<Rightarrow> bool" where
  "loop_ok s obs cont \<longleftrightarrow>
     length cont \<le> length (filter new_completed obs)
     \<and> (\<forall>c \<in> set cont. br_status c = ''completed'')
     \<and> (cont = [] \<or> \<not> budget_consumed s (length cont))"

lemma loop_ok_obs: "loop_ok s obs cont \<Longrightarrow> loop_ok s (obs @ [r]) cont"
  by (auto simp: loop_ok_def)

lemma budget_mono: "budget_consumed s m \<Longrightarrow> m \<le> n \<Longrightarrow> budget_consumed s n"
  by (auto simp: budget_consumed_def split: option.splits)

lemma loop_run_ok: "loop_ok s obs cont \<Longrightarrow> run_ok s obs cont"
  using budget_mono [of s "length cont - 1" "length cont"]
  by (auto simp: loop_ok_def run_ok_def dest: in_set_butlastD)

lemma continue_step_ok:
  assumes "loop_ok s obs cont" "new_completed r"
    and "continue_step tr jp s started now r (obs @ [r]) cont wj = (out, wj')"
  shows "(\<forall>res. out = Finished (Inr res) \<longrightarrow> run_ok s (co_observations res) (co_continuations res)
            \<and> co_observations res = obs @ [r])
    \<and> (\<forall>cont'. out = Looping cont' \<longrightarrow> loop_ok s (obs @ [r]) cont')"
proof -
  have grow: "length (cont @ [c]) \<le> length (filter new_completed (obs @ [r]))" for c
    using assms(1,2) by (auto simp: loop_ok_def)
  have "run_ok s (obs @ [r]) cont" using assms(1) by (intro loop_run_ok loop_ok_obs)
  moreover have "run_ok s (obs @ [r]) (cont @ [c])" for c
    using grow assms(1) by (auto simp: run_ok_def loop_ok_def)
  moreover have "br_status c = ''completed'' \<Longrightarrow> \<not> budget_consumed s (length (cont @ [c])) \<Longrightarrow>
      loop_ok s (obs @ [r]) (cont @ [c])" for c
    using grow assms(1) by (auto simp: loop_ok_def)
  ultimately show ?thesis
    using assms(3)
    by (auto simp: continue_step_def continuous_finish_def Let_def
        split: sum.splits option.splits prod.splits if_splits)
qed

lemma continuous_loop_ok:
  assumes "loop_ok s obs cont"
    and "continuous_loop tr jp digest observer s started deadline ticks obs cont mw = Some (Inr res, mw')"
  shows "run_ok s (co_observations res) (co_continuations res)"
  using assms
proof (induction ticks arbitrary: obs cont mw)
  case (Cons t ticks)
  have fin: "run_ok s (co_observations (continuous_finish s a b obs cont c d))
      (co_continuations (continuous_finish s a b obs cont c d))" for a b c d
    using Cons.prems(1) by (simp add: continuous_finish_def loop_run_ok)
  have fin1: "run_ok s (co_observations (continuous_finish s a b (obs @ [r]) cont c d))
      (co_continuations (continuous_finish s a b (obs @ [r]) cont c d))" for a b c d r
    using Cons.prems(1) by (simp add: continuous_finish_def loop_run_ok loop_ok_obs)
  show ?case
  proof (cases "tk_cancelled t \<or> tk_mono t \<ge> deadline")
    case True
    with Cons.prems(2) fin show ?thesis by (auto split: if_splits)
  next
    case False
    obtain ro w1 m1 where o: "monitor_observe tr digest (tk_now t) (sp_monitor_id s) (sp_route s)
        (mw_world mw, mw_monitor mw) = (ro, w1, m1)" by (metis surj_pair)
    with False Cons.prems(2) obtain r where r: "ro = Inr r" by (auto split: sum.splits)
    show ?thesis
    proof (cases "new_completed r")
      case nc: True
      obtain out w2 j2 where st: "continue_step tr jp s started (tk_now t) r (obs @ [r]) cont
          (observer r w1, mw_journal mw) = (out, w2, j2)" by (metis surj_pair)
      from continue_step_ok [OF Cons.prems(1) nc st] Cons.prems(2) False nc show ?thesis
        by (cases out) (auto simp: o r st new_completed_def Let_def intro: Cons.IH)
    next
      case nc: False
      with Cons.prems(2) False fin1 show ?thesis
        by (auto simp: o r Let_def new_completed_def intro: Cons.IH [OF loop_ok_obs [OF Cons.prems(1)]]
            split: if_splits)
    qed
  qed
qed simp

lemma budget_bound:
  assumes "check_continuous_spec s = Inr s" "run_ok s obs cont"
  shows "case sp_max_continuations s of
      Some m \<Rightarrow> int (length cont) \<le> m
    | None \<Rightarrow> sp_provider s = None \<and> \<not> sp_repeat_last s \<longrightarrow> length cont \<le> length (sp_prompts s)"
  using assms
  by (auto simp: check_continuous_spec_def run_ok_def budget_consumed_def not_le Suc_le_eq
      split: option.splits if_splits)

lemma continuous_loop_None:
  "continuous_loop tr jp digest observer s started deadline ticks obs cont mw = None \<Longrightarrow>
     t \<in> set ticks \<Longrightarrow> tk_mono t < deadline"
  by (induction ticks arbitrary: obs cont mw)
    (auto simp: Let_def split: if_splits prod.splits sum.splits step_outcome.splits)

text \<open>
  Concrete data for the witnesses: a thread that is running in world 0 and idle with one completed
  turn afterwards, a monitor with one prompt, and an observer that lets the thread finish.
\<close>

definition demo_thread :: "string \<Rightarrow> nat \<Rightarrow> thread_state" where
  "demo_thread tid n =
     \<lparr>th_thread_id = tid, th_status = (if n = 0 then ''running'' else ''idle''),
      th_turns = (if n = 0 then [] else [\<lparr>tn_turn_id = ''turn-1'', tn_status = ''completed'',
        tn_items = [[(''type'', PStr ''agentMessage''), (''text'', PStr ''done'')]],
        tn_error = None, tn_execution_status = None, tn_execution_source = ''transport''\<rparr>]),
      th_read_source = ''transport'', th_execution_status = None,
      th_execution_source = ''transport'', th_execution_evidence = None\<rparr>"

definition demo_loop_transport :: "nat transport" where
  "demo_loop_transport =
     \<lparr>tr_health = (\<lambda>n. []), tr_read_thread = (\<lambda>tid n. (Inr (demo_thread tid n), n)),
      tr_resume = (\<lambda>q n. (Inr \<lparr>st_thread_id = rq_thread_id q, st_turn_id = ''turn-1'',
        st_status = ''completed''\<rparr>, n))\<rparr>"

definition demo_route :: receipt_route where
  "demo_route = \<lparr>rt_observed = ''t'', rt_target = ''t''\<rparr>"

definition demo_spec :: continuous_spec where
  "demo_spec = \<lparr>sp_monitor_id = ''m'', sp_route = demo_route, sp_target = ''t'',
     sp_prompts = [''next''], sp_source_ref = ''s'', sp_interval = 1, sp_max_duration = 2,
     sp_model = None, sp_effort = None, sp_repeat_last = False, sp_max_continuations = None,
     sp_provider = None\<rparr>"

definition demo_tick :: "int \<Rightarrow> tick" where
  "demo_tick i = \<lparr>tk_cancelled = False, tk_mono = i * 1000000, tk_now = i\<rparr>"

definition demo_mw :: "(nat, journal) monitor_world" where
  "demo_mw = \<lparr>mw_world = 0, mw_monitor = [], mw_journal = []\<rparr>"

lemmas demo_eval = demo_thread_def demo_loop_transport_def demo_route_def demo_spec_def demo_tick_def
  demo_mw_def norm_status_def py_lower_def py_strip_def is_space_def lower_char_def char_in_def
  thread_effective_status_def turn_effective_status_def monitor_terminal_def

lemma demo_spec_ok: "check_continuous_spec demo_spec = Inr demo_spec"
  by (simp add: check_continuous_spec_def demo_eval max_duration_default_def)

section \<open>Properties\<close>

text \<open>
  Events of the terminal monitor. Over any series of observations of one route, whatever the
  transport returns or raises: the first receipt is a baseline, never \<open>terminal_changed\<close>; a
  later one is \<open>terminal_changed\<close> exactly when the fingerprint differs from the one before and
  the status is terminal, and \<open>no_change\<close> exactly when the fingerprint is the same.
\<close>

theorem monitor_event_sequence:
  assumes "rs = observe_run tr digest mid route nows (w, [])" "i < length rs"
  shows "(i = 0 \<longrightarrow> mr_state (rs ! i) = (if status_terminal (rs ! i) then ''baseline_terminal'' else ''baseline_active''))
    \<and> (0 < i \<longrightarrow> (mr_state (rs ! i) = ''terminal_changed'' \<longleftrightarrow>
          mr_fingerprint (rs ! i) \<noteq> mr_fingerprint (rs ! (i - 1)) \<and> status_terminal (rs ! i))
        \<and> (mr_state (rs ! i) = ''no_change'' \<longleftrightarrow> mr_fingerprint (rs ! i) = mr_fingerprint (rs ! (i - 1))))"
proof -
  have "expected_events None rs"
    unfolding assms(1) by (rule observe_run_expected) (simp add: saved_fingerprint_def)
  from expected_events_nth [OF this assms(2)] show ?thesis
    by (auto simp: expected_event_def)
qed

theorem monitor_event_sequence_witness:
  "map mr_state (observe_run demo_loop_transport id ''m'' demo_route [0, 1] (0, [])) = [''baseline_active'', ''no_change'']"
proof -
  obtain rs where rs: "rs = observe_run demo_loop_transport id ''m'' demo_route [0, 1] (0, [])" by simp
  have len: "length rs = 2" and fp: "mr_fingerprint (rs ! 1) = mr_fingerprint (rs ! 0)"
    and st: "\<not> status_terminal (rs ! 0)"
    by (simp_all add: rs monitor_observe_def Let_def status_terminal_def demo_eval)
  have "mr_state (rs ! 0) = ''baseline_active''" "mr_state (rs ! 1) = ''no_change''"
    using monitor_event_sequence [OF rs, of 0] monitor_event_sequence [OF rs, of 1] len fp st by simp_all
  moreover obtain a b where "rs = [a, b]" using len by (auto simp: length_Suc_conv numeral_2_eq_2)
  ultimately show ?thesis using rs by simp
qed

text \<open>
  With a collision-free digest, two thread states have the same monitor fingerprint exactly
  when thread id, thread status, last turn id and effective turn status agree; the JSON text that
  is hashed loses nothing of them.
\<close>

theorem fingerprint_identifies_snapshot:
  assumes "inj digest"
  shows "fingerprint digest s = fingerprint digest t \<longleftrightarrow>
     th_thread_id s = th_thread_id t \<and> th_status s = th_status t
     \<and> (th_turns s = [] \<longleftrightarrow> th_turns t = [])
     \<and> (th_turns s \<noteq> [] \<longrightarrow> tn_turn_id (last (th_turns s)) = tn_turn_id (last (th_turns t))
          \<and> thread_effective_status s = thread_effective_status t)"
  using assms by (simp add: fingerprint_def inj_eq snapshot_text_inj)

theorem fingerprint_identifies_snapshot_witness:
  "fingerprint id (demo_thread ''t'' 0) \<noteq> fingerprint id (demo_thread ''t'' 1)"
  by (simp add: fingerprint_identifies_snapshot [OF inj_on_id] demo_thread_def)

text \<open>
  A run of the continuous monitor that returns has issued at most \<open>max_continuations\<close>
  continuations when that is set, and otherwise, without a provider or repetition, at most one per
  configured prompt; each answers a new completed turn it observed, and only the last one can have
  failed.
\<close>

theorem continuous_run_bounded:
  assumes "check_continuous_spec s = Inr s"
    and "continuous_run tr jp digest observer s started mono0 ticks mw = Some (Inr res, mw')"
  shows "(case sp_max_continuations s of
        Some m \<Rightarrow> int (length (co_continuations res)) \<le> m
      | None \<Rightarrow> sp_provider s = None \<and> \<not> sp_repeat_last s \<longrightarrow>
          length (co_continuations res) \<le> length (sp_prompts s))
    \<and> length (co_continuations res) \<le> length (filter new_completed (co_observations res))
    \<and> (\<forall>c \<in> set (butlast (co_continuations res)). br_status c = ''completed'')"
proof -
  have "run_ok s (co_observations res) (co_continuations res)"
    using assms(2) unfolding continuous_run_def
    by (rule continuous_loop_ok [rotated]) (simp add: loop_ok_def)
  with budget_bound [OF assms(1) this] show ?thesis by (simp add: run_ok_def)
qed

theorem continuous_run_bounded_witness:
  "\<exists>res mw'. continuous_run demo_loop_transport jsonl_journal id (\<lambda>r n. n + 1) demo_spec 0 0
       [demo_tick 0, demo_tick 1] demo_mw = Some (Inr res, mw')
     \<and> length (co_continuations res) = 1 \<and> length (co_continuations res) \<le> length (sp_prompts demo_spec)"
proof -
  let ?run = "continuous_run demo_loop_transport jsonl_journal id (\<lambda>r n. n + 1) demo_spec 0 0
       [demo_tick 0, demo_tick 1] demo_mw"
  obtain res mw' where run: "?run = Some (Inr res, mw')" and one: "length (co_continuations res) = 1"
    by (simp add: continuous_run_def monitor_observe_def Let_def demo_eval classify_event_def
        monitor_state_dict_def fingerprint_def snapshot_text_inj continue_step_def next_prompt_def
        check_continuation_rule_def missing_fields_def spec_rule_def rule_resume_request_def
        check_resume_request_def bridge_resume_def jsonl_journal_def find_terminal_def
        bridge_active_def attempt_turn_def final_output_def agent_messages_def stripped_def
        text_or_empty_def blank_receipt_def budget_consumed_def continuous_finish_def)
  from continuous_run_bounded [OF demo_spec_ok run] run one show ?thesis
    by (auto simp: demo_spec_def)
qed

text \<open>
  The continuous monitor terminates: when each iteration starts at least one interval after
  the one before, the loop returns (or raises) within \<open>max_duration / interval\<close> iterations
  after the first, whatever the thread does and however often it continues it.
\<close>

theorem continuous_run_terminates:
  assumes "check_continuous_spec s = Inr s"
    and pace: "\<And>i. i < length ticks \<Longrightarrow> mono0 + int i * sp_interval s * 1000000 \<le> tk_mono (ticks ! i)"
    and enough: "k < length ticks" "sp_max_duration s \<le> int k * sp_interval s"
  shows "\<exists>res mw'. continuous_run tr jp digest observer s started mono0 ticks mw = Some (res, mw')"
proof -
  have "mono0 + sp_max_duration s * 1000000 \<le> tk_mono (ticks ! k)"
    using pace [OF enough(1)] enough(2) by linarith
  then have "continuous_run tr jp digest observer s started mono0 ticks mw \<noteq> None"
    using continuous_loop_None [OF _ nth_mem [OF enough(1)]] unfolding continuous_run_def by fastforce
  then show ?thesis by auto
qed

theorem continuous_run_terminates_witness:
  "\<exists>res mw'. continuous_run demo_loop_transport jsonl_journal id (\<lambda>r n. n) demo_spec 0 0
       [demo_tick 0, demo_tick 1, demo_tick 2] demo_mw = Some (res, mw')"
proof (rule continuous_run_terminates [OF demo_spec_ok, where k = 2])
  fix i assume "i < length [demo_tick 0, demo_tick 1, demo_tick 2]"
  then consider "i = 0" | "i = 1" | "i = 2" by fastforce
  then show "0 + int i * sp_interval demo_spec * 1000000
      \<le> tk_mono ([demo_tick 0, demo_tick 1, demo_tick 2] ! i)"
    by cases (simp_all add: demo_tick_def demo_spec_def)
qed (simp_all add: demo_spec_def)

text \<open>
  The monitor's one state file is shared by every route observed through it, so the baseline
  rule fails across threads: after any thread has been observed, the first observation of a
  second thread that was already terminal is reported as \<open>terminal_changed\<close>.
\<close>

theorem shared_state_reports_old_terminal:
  assumes "inj digest"
    and reads: "\<And>tid w. tr_read_thread tr tid w = (Inr (f tid), w)" "\<And>tid. th_thread_id (f tid) = tid"
    and "rt_observed ra \<noteq> rt_observed rb"
    and old: "norm_status (thread_effective_status (f (rt_observed rb))) \<in> set monitor_terminal"
  shows "\<exists>r. fst (monitor_observe tr digest now' mid' rb (snd (monitor_observe tr digest now mid ra (w, [])))) = Inr r
    \<and> mr_state r = ''terminal_changed''"
proof -
  have "fingerprint digest (f (rt_observed ra)) \<noteq> fingerprint digest (f (rt_observed rb))"
    using assms(1,4) reads(2) by (metis fingerprint_def injD snapshot_text_inj)
  with old show ?thesis
    by (simp add: monitor_observe_def reads Let_def monitor_state_dict_def classify_event_def)
qed

theorem shared_state_reports_old_terminal_witness:
  "\<exists>r. fst (monitor_observe (demo_loop_transport\<lparr>tr_read_thread := \<lambda>tid n. (Inr (demo_thread tid 1), n)\<rparr>)
         id 1 ''m2'' \<lparr>rt_observed = ''b'', rt_target = ''b''\<rparr>
         (snd (monitor_observe (demo_loop_transport\<lparr>tr_read_thread := \<lambda>tid n. (Inr (demo_thread tid 1), n)\<rparr>)
            id 0 ''m1'' demo_route (0, [])))) = Inr r
     \<and> mr_state r = ''terminal_changed''"
  by (rule shared_state_reports_old_terminal [where f = "\<lambda>tid. demo_thread tid 1"])
    (simp_all add: demo_eval)

end
