(* ===== verification/Capability_Port.thy ===== *)
theory Capability_Port
  imports Bridge_Monitor
begin

text \<open>
  The versioned input port (\<open>jarvis_codex_bridge/port.py\<close>): one request envelope with its
  validation, the dispatch to bridge, monitor and scheduler, and the receipt envelope. The
  scheduler behind \<open>heartbeat.*\<close> is an optional port given by its \<open>invoke_heartbeat\<close>; the
  world \<open>'w\<close> is shared by the transport and the scheduler.
\<close>

section \<open>Requests\<close>

definition capability_schema :: string where
  "capability_schema = ''jarvis-capability-request/v1''"

definition capability_receipt_schema :: string where
  "capability_receipt_schema = ''jarvis-capability-receipt/v1''"

record capability_request =
  cq_request_id :: string
  cq_capability :: string
  cq_source_ref :: string
  cq_arguments :: pyval
  cq_schema :: string

abbreviation cq_args :: "capability_request \<Rightarrow> pdict" where
  "cq_args q \<equiv> as_dict (cq_arguments q)"

definition required_arguments :: "(string \<times> string list) list" where
  "required_arguments =
     [(''resume.existing'', [''thread_id'', ''prompt'']),
      (''monitor.observe'', [''monitor_id'', ''observed_thread_id'', ''receipt_target_thread_id'']),
      (''monitor.terminal_resume'', [''monitor_id'', ''observed_thread_id'', ''receipt_target_thread_id'',
         ''resume_target_thread_id'', ''prompt'']),
      (''heartbeat.create'', [''heartbeat_id'']), (''heartbeat.update'', [''heartbeat_id'']),
      (''heartbeat.cancel'', [''heartbeat_id'']), (''heartbeat.health'', [])]"

definition missing_arguments :: "pdict \<Rightarrow> string list \<Rightarrow> string list" where
  "missing_arguments args names =
     filter (\<lambda>n. py_strip (py_str (dget_or args n (PStr []))) = []) names"

definition check_capability_request :: "capability_request \<Rightarrow> capability_request result" where
  "check_capability_request q =
     (if cq_schema q \<noteq> capability_schema
        then Inl (ValueError (''unsupported capability request schema: '' @ cq_schema q))
      else if py_strip (cq_request_id q) = [] then Inl (ValueError ''request_id is required'')
      else if py_strip (cq_source_ref q) = [] then Inl (ValueError ''source_ref is required'')
      else if \<not> is_dict (cq_arguments q) then Inl (ValueError ''arguments must be a mapping'')
      else
        (case map_of required_arguments (cq_capability q) of
           None \<Rightarrow> Inl (KeyError (cq_capability q))
         | Some required \<Rightarrow>
             (let missing = missing_arguments (cq_args q) required in
              if missing \<noteq> []
              then Inl (ValueError (cq_capability q @ '' requires: '' @ py_join '', '' missing))
              else Inr q)))"

definition cq_target_thread_id :: "capability_request \<Rightarrow> pyval" where
  "cq_target_thread_id q =
     py_or (dget (cq_args q) ''resume_target_thread_id'') (dget (cq_args q) ''thread_id'')"

section \<open>Receipts\<close>

record capability_receipt =
  cp_request_id :: string
  cp_capability :: string
  cp_status :: string
  cp_observed_at :: instant
  cp_target :: "string option"
  cp_turn_id :: "string option"
  cp_reason :: "string option"
  cp_data :: "pdict option"

definition capability_receipt_dict :: "capability_receipt \<Rightarrow> pdict" where
  "capability_receipt_dict r =
     [(''request_id'', PStr (cp_request_id r)), (''capability'', PStr (cp_capability r)),
      (''status'', PStr (cp_status r)), (''observed_at'', PStr (isoformat (cp_observed_at r))),
      (''target_thread_id'', opt_str (cp_target r)), (''turn_id'', opt_str (cp_turn_id r)),
      (''reason'', opt_str (cp_reason r)),
      (''data'', (case cp_data r of None \<Rightarrow> PNone | Some d \<Rightarrow> PDict d)),
      (''schema'', PStr capability_receipt_schema)]"

definition receipt_of_monitor :: "capability_request \<Rightarrow> monitor_receipt \<Rightarrow> capability_receipt" where
  "receipt_of_monitor q r =
     \<lparr>cp_request_id = cq_request_id q, cp_capability = cq_capability q, cp_status = mr_state r,
      cp_observed_at = mr_observed_at r, cp_target = Some (mr_target r), cp_turn_id = None,
      cp_reason = mr_reason r, cp_data = Some (monitor_receipt_dict r)\<rparr>"

definition receipt_of_bridge ::
    "capability_request \<Rightarrow> bridge_receipt \<Rightarrow> monitor_receipt option \<Rightarrow> capability_receipt" where
  "receipt_of_bridge q r m =
     \<lparr>cp_request_id = cq_request_id q, cp_capability = cq_capability q, cp_status = br_status r,
      cp_observed_at = br_observed_at r, cp_target = Some (br_thread_id r),
      cp_turn_id = br_turn_id r, cp_reason = br_reason r,
      cp_data = Some (case m of None \<Rightarrow> bridge_receipt_dict r
        | Some mr \<Rightarrow> dset (bridge_receipt_dict r) ''monitor'' (PDict (monitor_receipt_dict mr)))\<rparr>"

section \<open>The port\<close>

record 'w heartbeat_port =
  hb_invoke :: "string \<Rightarrow> string \<Rightarrow> string \<Rightarrow> pdict \<Rightarrow> 'w \<Rightarrow> pdict result \<times> 'w"

record ('w, 'j) capability_port =
  pt_transport :: "'w transport"
  pt_journal :: "'j journal_port"
  pt_digest :: "string \<Rightarrow> string"
  pt_heartbeat :: "'w heartbeat_port option"

definition heartbeat_available :: "('w, 'j) capability_port \<Rightarrow> bool" where
  "heartbeat_available pt \<longleftrightarrow> pt_heartbeat pt \<noteq> None"

definition arg_text :: "capability_request \<Rightarrow> string \<Rightarrow> string" where
  "arg_text q n = py_str (dget (cq_args q) n)"

definition port_observe ::
    "('w, 'j) capability_port \<Rightarrow> instant \<Rightarrow> capability_request \<Rightarrow> ('w, 'j) monitor_world \<Rightarrow>
       monitor_receipt result \<times> ('w, 'j) monitor_world"
where
  "port_observe pt now q mw =
     (case check_receipt_route \<lparr>rt_observed = arg_text q ''observed_thread_id'',
             rt_target = arg_text q ''receipt_target_thread_id''\<rparr> of
        Inl e \<Rightarrow> (Inl e, mw)
      | Inr route \<Rightarrow>
          (let (r, w1, m1) = monitor_observe (pt_transport pt) (pt_digest pt) now
                 (arg_text q ''monitor_id'') route (mw_world mw, mw_monitor mw)
           in (r, mw\<lparr>mw_world := w1, mw_monitor := m1\<rparr>)))"

definition port_resume_request :: "capability_request \<Rightarrow> resume_request result" where
  "port_resume_request q =
     check_resume_request
       \<lparr>rq_request_id = cq_request_id q, rq_thread_id = arg_text q ''thread_id'',
        rq_prompt = arg_text q ''prompt'', rq_source_ref = cq_source_ref q,
        rq_model = optional_text (dget (cq_args q) ''model''),
        rq_effort = optional_text (dget (cq_args q) ''reasoning_effort'')\<rparr>"

definition port_bridge ::
    "('w, 'j) capability_port \<Rightarrow> instant \<Rightarrow> capability_request \<Rightarrow> resume_request \<Rightarrow> monitor_receipt option \<Rightarrow>
       ('w, 'j) monitor_world \<Rightarrow> capability_receipt result \<times> ('w, 'j) monitor_world"
where
  "port_bridge pt now q rq m mw =
     (case bridge_resume (pt_transport pt) (pt_journal pt) now rq (mw_world mw, mw_journal mw) of
        (Inl e, w1, j1) \<Rightarrow> (Inl e, mw\<lparr>mw_world := w1, mw_journal := j1\<rparr>)
      | (Inr r, w1, j1) \<Rightarrow> (Inr (receipt_of_bridge q r m), mw\<lparr>mw_world := w1, mw_journal := j1\<rparr>))"

definition request_rule :: "capability_request \<Rightarrow> continuation_rule" where
  "request_rule q =
     \<lparr>cr_monitor_id = arg_text q ''monitor_id'', cr_observed = arg_text q ''observed_thread_id'',
      cr_target = arg_text q ''resume_target_thread_id'', cr_prompt = arg_text q ''prompt'',
      cr_source_ref = cq_source_ref q, cr_model = optional_text (dget (cq_args q) ''model''),
      cr_effort = optional_text (dget (cq_args q) ''reasoning_effort'')\<rparr>"

definition port_invoke ::
    "('w, 'j) capability_port \<Rightarrow> instant \<Rightarrow> capability_request \<Rightarrow> ('w, 'j) monitor_world \<Rightarrow>
       capability_receipt result \<times> ('w, 'j) monitor_world"
where
  "port_invoke pt now q mw =
     (if cq_capability q = ''resume.existing''
      then (case port_resume_request q of
              Inl e \<Rightarrow> (Inl e, mw)
            | Inr rq \<Rightarrow> port_bridge pt now q rq None mw)
      else if cq_capability q = ''monitor.observe''
      then (case port_observe pt now q mw of
              (Inl e, mw1) \<Rightarrow> (Inl e, mw1)
            | (Inr r, mw1) \<Rightarrow> (Inr (receipt_of_monitor q r), mw1))
      else if cq_capability q = ''monitor.terminal_resume''
      then (case port_observe pt now q mw of
              (Inl e, mw1) \<Rightarrow> (Inl e, mw1)
            | (Inr r, mw1) \<Rightarrow>
                if mr_state r \<noteq> ''terminal_changed'' then (Inr (receipt_of_monitor q r), mw1)
                else (case rbind (check_continuation_rule (request_rule q)) (\<lambda>rule. rule_resume_request rule r) of
                        Inl e \<Rightarrow> (Inl e, mw1)
                      | Inr rq \<Rightarrow> port_bridge pt now q rq (Some r) mw1))
      else (case pt_heartbeat pt of
              None \<Rightarrow> (Inl (RuntimeError ''heartbeat capability requires a supplied scheduler port''), mw)
            | Some hb \<Rightarrow>
                (case hb_invoke hb (cq_request_id q) (cq_capability q) (cq_source_ref q) (cq_args q) (mw_world mw) of
                   (Inl e, w1) \<Rightarrow> (Inl e, mw\<lparr>mw_world := w1\<rparr>)
                 | (Inr d, w1) \<Rightarrow>
                     (Inr \<lparr>cp_request_id = cq_request_id q, cp_capability = cq_capability q,
                           cp_status = py_str (dget_or d ''status'' (PStr ''requires_readback'')),
                           cp_observed_at = now, cp_target = None, cp_turn_id = None,
                           cp_reason = optional_text (dget d ''reason''), cp_data = Some d\<rparr>,
                      mw\<lparr>mw_world := w1\<rparr>))))"

section \<open>Which requests may start a turn\<close>

text \<open>A port whose transport logs the turns it starts; the scheduler cannot touch the log.\<close>

definition logged_heartbeat :: "'w heartbeat_port \<Rightarrow> ('w \<times> resume_request list) heartbeat_port" where
  "logged_heartbeat hb =
     \<lparr>hb_invoke = (\<lambda>rid cap src args (w, l). let (r, w') = hb_invoke hb rid cap src args w in (r, w', l))\<rparr>"

definition logged_port :: "('w, 'j) capability_port \<Rightarrow> ('w \<times> resume_request list, 'j) capability_port" where
  "logged_port pt =
     \<lparr>pt_transport = logged_transport (pt_transport pt), pt_journal = pt_journal pt,
      pt_digest = pt_digest pt, pt_heartbeat = map_option logged_heartbeat (pt_heartbeat pt)\<rparr>"

lemma attempt_turn_log:
  "attempt_turn (logged_transport tr) now q (w, l) = (r, (w', l')) \<Longrightarrow> l' = l @ [q]"
  by (auto simp: attempt_turn_logged Let_def split: prod.splits)

lemma read_log:
  "tr_read_thread (logged_transport tr) tid (w, l) = (fst (tr_read_thread tr tid w), snd (tr_read_thread tr tid w), l)"
  by (simp add: logged_transport_def split_def Let_def)

lemma bridge_resume_log:
  "bridge_resume (logged_transport tr) jp now q ((w, l), j) = (res, (w', l'), j') \<Longrightarrow> l' = l \<or> l' = l @ [q]"
  by (auto simp: bridge_resume_def read_log Let_def dest: attempt_turn_log
      split: sum.splits option.splits prod.splits if_splits)

lemma monitor_observe_log:
  "monitor_observe (logged_transport tr) digest now mid route ((w, l), prev) = (res, (w', l'), prev') \<Longrightarrow> l' = l"
  by (auto simp: monitor_observe_def read_log Let_def split: sum.splits if_splits)

lemma monitor_observe_saved:
  "monitor_observe tr digest now mid route (w, prev) = (Inr r, w', prev') \<Longrightarrow>
     prev' = monitor_state_dict (mr_fingerprint r) (mr_state r) \<and> mr_monitor_id r = mid"
  using monitor_observe_cases by fastforce

lemma port_observe_log:
  assumes "port_observe (logged_port pt) now q mw = (res, mw')"
  shows "snd (mw_world mw') = snd (mw_world mw) \<and> mw_journal mw' = mw_journal mw
    \<and> (\<forall>r. res = Inr r \<longrightarrow> mw_monitor mw' = monitor_state_dict (mr_fingerprint r) (mr_state r)
         \<and> mr_monitor_id r = arg_text q ''monitor_id'')"
  using assms
  by (cases "mw_world mw")
    (auto simp: port_observe_def logged_port_def Let_def dest: monitor_observe_log monitor_observe_saved
      split: sum.splits prod.splits)

lemma port_bridge_log:
  assumes "port_bridge (logged_port pt) now q rq m mw = (res, mw')"
  shows "snd (mw_world mw') \<in> {snd (mw_world mw), snd (mw_world mw) @ [rq]} \<and> mw_monitor mw' = mw_monitor mw"
  using assms
  by (cases "mw_world mw")
    (auto simp: port_bridge_def logged_port_def dest: bridge_resume_log split: sum.splits prod.splits)

text \<open>
  Only \<open>resume.existing\<close> and \<open>monitor.terminal_resume\<close> can start a turn, and they start at
  most one. The turn goes to the thread the request names; a terminal resume happens only when
  the observation of this very call is a changed terminal one, and its request id is derived from
  that observation's fingerprint.
\<close>

theorem port_turn_authority:
  assumes "port_invoke (logged_port pt) now q mw = (res, mw')"
    and "snd (mw_world mw') \<noteq> snd (mw_world mw)"
  shows "\<exists>rq. snd (mw_world mw') = snd (mw_world mw) @ [rq] \<and>
    (cq_capability q = ''resume.existing'' \<and> rq_request_id rq = cq_request_id q
       \<and> rq_thread_id rq = arg_text q ''thread_id'' \<and> rq_prompt rq = arg_text q ''prompt''
     \<or> cq_capability q = ''monitor.terminal_resume''
       \<and> rq_thread_id rq = arg_text q ''resume_target_thread_id'' \<and> rq_prompt rq = arg_text q ''prompt''
       \<and> (\<exists>fp. mw_monitor mw' = monitor_state_dict fp ''terminal_changed''
            \<and> rq_request_id rq = ''terminal-continue:'' @ arg_text q ''monitor_id'' @ '':'' @ py_take 32 fp))"
proof -
  consider (resume) "cq_capability q = ''resume.existing''" | (observe) "cq_capability q = ''monitor.observe''"
    | (terminal) "cq_capability q = ''monitor.terminal_resume''"
    | (hb) "cq_capability q \<notin> {''resume.existing'', ''monitor.observe'', ''monitor.terminal_resume''}" by blast
  then show ?thesis
  proof cases
    case resume
    with assms obtain rq where rq: "port_resume_request q = Inr rq"
      and b: "port_bridge (logged_port pt) now q rq None mw = (res, mw')"
      by (auto simp: port_invoke_def split: sum.splits)
    from port_bridge_log [OF b] assms(2) rq resume show ?thesis
      by (auto simp: port_resume_request_def check_resume_request_Inr)
  next
    case observe
    with assms port_observe_log show ?thesis
      by (fastforce simp: port_invoke_def split: sum.splits prod.splits)
  next
    case terminal
    obtain ro mw1 where o: "port_observe (logged_port pt) now q mw = (ro, mw1)" by (metis surj_pair)
    note olog = port_observe_log [OF o]
    with terminal assms o obtain r rule rq where r: "ro = Inr r" "mr_state r = ''terminal_changed''"
      and rule: "check_continuation_rule (request_rule q) = Inr rule" "rule_resume_request rule r = Inr rq"
      and b: "port_bridge (logged_port pt) now q rq (Some r) mw1 = (res, mw')"
      by (auto simp: port_invoke_def rbind_def split: sum.splits if_splits)
    from rule(1) have "rule = request_rule q"
      by (auto simp: check_continuation_rule_def Let_def split: if_splits)
    with rule_resume_request_Inr [OF rule(2)] port_bridge_log [OF b] olog r assms(2) terminal show ?thesis
      by (auto simp: request_rule_def)
  next
    case hb
    with assms show ?thesis
      by (cases "mw_world mw"; cases "pt_heartbeat pt")
        (auto simp: port_invoke_def logged_port_def logged_heartbeat_def Let_def split: sum.splits prod.splits)
  qed
qed

definition demo_port :: "(nat, journal) capability_port" where
  "demo_port = \<lparr>pt_transport = demo_loop_transport, pt_journal = jsonl_journal,
     pt_digest = id, pt_heartbeat = None\<rparr>"

definition demo_resume_call :: capability_request where
  "demo_resume_call = \<lparr>cq_request_id = ''r'', cq_capability = ''resume.existing'', cq_source_ref = ''s'',
     cq_arguments = PDict [(''thread_id'', PStr ''t''), (''prompt'', PStr ''go'')],
     cq_schema = capability_schema\<rparr>"

theorem port_turn_authority_witness:
  "\<exists>rq. snd (mw_world (snd (port_invoke (logged_port demo_port) 0 demo_resume_call
       \<lparr>mw_world = (1, []), mw_monitor = [], mw_journal = []\<rparr>))) = [rq] \<and> rq_thread_id rq = ''t''"
proof -
  let ?mw = "\<lparr>mw_world = (1, []), mw_monitor = [], mw_journal = []\<rparr>"
  obtain res mw' where run: "port_invoke (logged_port demo_port) 0 demo_resume_call ?mw = (res, mw')"
    by (metis surj_pair)
  have "snd (mw_world mw') \<noteq> snd (mw_world ?mw)"
    using run by (auto simp: port_invoke_def demo_resume_call_def port_resume_request_def arg_text_def
        check_resume_request_def port_bridge_def logged_port_def demo_port_def bridge_resume_def
        logged_transport_def jsonl_journal_def find_terminal_def demo_eval bridge_active_def
        attempt_turn_def final_output_def agent_messages_def stripped_def text_or_empty_def
        split: prod.splits)
  from port_turn_authority [OF run this] run show ?thesis
    by (auto simp: demo_resume_call_def arg_text_def)
qed

end
