(* ===== verification/Lane_Provisioning.thy ===== *)
theory Lane_Provisioning
  imports Iso_Time
begin

text \<open>
  The provisioning contracts (\<open>jarvis_control/provisioning.py\<close>): the slices of a finite lane,
  the \<open>final_answer_json\<close> mode, the checks of the two task requests and the receipt. Paths are
  resolved by the file system: the record \<open>path_lib\<close> stands for \<open>Path.resolve\<close>,
  \<open>Path.is_absolute\<close>, \<open>/\<close> and \<open>Path.is_relative_to\<close>. The JSON Schema walk
  (\<open>output_schema_validator\<close>) drives the third-party \<open>jsonschema\<close> and \<open>referencing\<close> packages
  and is not modelled.
\<close>

section \<open>Lanes\<close>

record path_lib =
  pl_resolve :: "string \<Rightarrow> string"
  pl_absolute :: "string \<Rightarrow> bool"
  pl_join :: "string \<Rightarrow> string \<Rightarrow> string"
  pl_within :: "string \<Rightarrow> string \<Rightarrow> bool"

definition replace_char :: "char \<Rightarrow> string \<Rightarrow> string \<Rightarrow> string" where
  "replace_char c r s = concat (map (\<lambda>d. if d = c then r else [d]) s)"

definition json_pointer :: "pyval list \<Rightarrow> string" where
  "json_pointer path =
     (if path = [] then ''(root)''
      else ''/'' @ py_join ''/'' (map (\<lambda>p. replace_char CHR ''/'' ''~1''
             (replace_char CHR ''~'' ''~0'' (py_str p))) path))"

definition lane_batch_size :: "pdict \<Rightarrow> int result" where
  "lane_batch_size binding =
     (case exact_int (dget_or binding ''batch_size'' (PInt 1)) of
        Some sz \<Rightarrow> (if sz < 1 then Inl (ValueError ''lane.batch_size must be a positive integer'')
                      else Inr sz)
      | None \<Rightarrow> Inl (ValueError ''lane.batch_size must be a positive integer''))"

text \<open>A non-empty list of distinct positive integers (booleans do not count as integers).\<close>

definition candidate_list :: "pyval \<Rightarrow> int list option" where
  "candidate_list v =
     (case v of
        PList xs \<Rightarrow>
          (if xs \<noteq> [] \<and> list_all (\<lambda>x. case exact_int x of Some i \<Rightarrow> 1 \<le> i | None \<Rightarrow> False) xs \<and> distinct xs
           then Some (map (\<lambda>x. case exact_int x of Some i \<Rightarrow> i | None \<Rightarrow> 0) xs) else None)
      | _ \<Rightarrow> None)"

definition id_key :: "int \<Rightarrow> string" where
  "id_key i = int_str i"

definition nonblank_text :: "pyval \<Rightarrow> bool" where
  "nonblank_text v = (case v of PStr s \<Rightarrow> py_strip s \<noteq> [] | _ \<Rightarrow> False)"

definition receipt_target :: "path_lib \<Rightarrow> string \<Rightarrow> string \<Rightarrow> string" where
  "receipt_target pl boundary v =
     pl_resolve pl (if pl_absolute pl v then v else pl_join pl (pl_resolve pl boundary) v)"

definition final_paths_ok :: "path_lib \<Rightarrow> string \<Rightarrow> pdict \<Rightarrow> int list \<Rightarrow> bool" where
  "final_paths_ok pl boundary paths ids =
     (let resolved = map (\<lambda>(k, v). receipt_target pl boundary (py_str v)) paths
      in card (set resolved) = length ids
         \<and> list_all (\<lambda>p. pl_within pl p (pl_resolve pl boundary)) resolved)"

definition final_answer_mode :: "path_lib \<Rightarrow> pdict \<Rightarrow> bool result" where
  "final_answer_mode pl binding =
     (let contract_v = py_or (dget binding ''result_verification'') (PDict []) in
      if \<not> is_dict contract_v then Inl (ValueError ''result_verification must be an object'') else
      (let contract = as_dict contract_v;
           mode = dget_or contract ''mode'' (PStr ''file_receipt'')
       in if mode \<noteq> PStr ''file_receipt'' \<and> mode \<noteq> PStr ''final_answer_json''
          then Inl (ValueError ''result_verification.mode must be file_receipt or final_answer_json'')
          else if mode = PStr ''file_receipt'' then Inr False
          else rbind (lane_batch_size binding) (\<lambda>sz.
            case (if sz = 1 then candidate_list (dget binding ''candidate_ids'') else None) of
              None \<Rightarrow> Inl (ValueError ''final_answer_json requires a finite single-item lane (batch_size=1)'')
            | Some ids \<Rightarrow>
                (let paths_v = dget contract ''receipt_paths''; paths = as_dict paths_v in
                 if \<not> is_dict paths_v \<or> set (map fst paths) \<noteq> set (map id_key ids)
                    \<or> list_ex (\<lambda>(k, v). \<not> nonblank_text v) paths
                    \<or> card (set (map snd paths)) \<noteq> length ids
                    \<or> dget contract ''terminal_statuses'' \<noteq> PList [PStr ''received'']
                    \<or> \<not> truthy (dget binding ''output_boundary'')
                 then Inl (ValueError ''final_answer_json requires separate receipt_paths and terminal_statuses=['received']'')
                 else (case dget binding ''output_boundary'' of
                         PStr b \<Rightarrow>
                           (if final_paths_ok pl b paths ids then Inr True
                            else Inl (ValueError ''final_answer_json requires distinct receipt paths inside output_boundary''))
                       | _ \<Rightarrow> Inl (TypeError ''argument should be a str or an os.PathLike object''))))))"

text \<open>\<open>(len(ids) + sz - 1) // sz\<close>.\<close>

definition lane_rounds :: "nat \<Rightarrow> int \<Rightarrow> int" where
  "lane_rounds n sz = (int n + sz - 1) div sz"

definition lane_batch_ids :: "pdict \<Rightarrow> int \<Rightarrow> int list result" where
  "lane_batch_ids binding turn_number =
     rbind (lane_batch_size binding) (\<lambda>sz.
       case candidate_list (dget binding ''candidate_ids'') of
         None \<Rightarrow> Inl (ValueError ''lane requires unique positive candidate_ids'')
       | Some ids \<Rightarrow>
           if \<not> (1 \<le> turn_number \<and> turn_number \<le> lane_rounds (length ids) sz)
           then Inl (ValueError ''lane binding has no candidates for the current turn'')
           else Inr (take (nat sz) (drop (nat ((turn_number - 1) * sz)) ids)))"

section \<open>The task requests\<close>

record task_provision_request =
  tp_request_id :: string
  tp_project :: string
  tp_title :: string
  tp_prompt :: string
  tp_source_ref :: string
  tp_model :: "string option"
  tp_effort :: "string option"
  tp_max_turns :: pyval
  tp_auto_continue :: bool
  tp_continue_prompt :: string
  tp_hold_id :: "string option"
  tp_notifications :: pyval
  tp_input_binding :: pyval

record task_resume_request =
  ts_request_id :: string
  ts_task_id :: string
  ts_prompt :: string
  ts_source_ref :: string
  ts_monitor_id :: "string option"
  ts_hold_id :: "string option"
  ts_max_turns :: pyval
  ts_model :: "string option"
  ts_effort :: "string option"
  ts_auto_continue :: bool
  ts_continue_prompt :: string
  ts_notifications :: pyval
  ts_input_binding :: pyval

definition blank_names :: "(string \<times> string) list \<Rightarrow> string list" where
  "blank_names fs = map fst (filter (\<lambda>(n, v). py_strip v = []) fs)"

definition check_turns :: "pyval \<Rightarrow> unit result" where
  "check_turns v = (case int_instance v of
      Some n \<Rightarrow> raise_if (n < 1) (ValueError ''max_turns must be a positive integer'')
    | None \<Rightarrow> Inl (ValueError ''max_turns must be a positive integer''))"

definition check_hold_id :: "string option \<Rightarrow> unit result" where
  "check_hold_id h = (case h of None \<Rightarrow> Inr ()
    | Some s \<Rightarrow> raise_if (py_strip s = []) (ValueError ''hold_id cannot be blank''))"

text \<open>\<open>dict(notifications or {})\<close>.\<close>

definition notification_dict :: "pyval \<Rightarrow> pdict result" where
  "notification_dict v = (case py_or v (PDict []) of
      PDict d \<Rightarrow> Inr d | _ \<Rightarrow> Inl (TypeError ''object is not iterable as a mapping''))"

definition check_binding :: "path_lib \<Rightarrow> pyval \<Rightarrow> unit result" where
  "check_binding pl v =
     (if v \<noteq> PNone \<and> \<not> is_dict v then Inl (ValueError ''input_binding must be an object'')
      else rbind (final_answer_mode pl (as_dict v)) (\<lambda>final.
        raise_if (final \<and> \<not> dhas (as_dict v) ''lane_item_count'')
          (ValueError ''final_answer_json requires a finite lane binding'')))"

definition positive_turn :: "pyval \<Rightarrow> bool" where
  "positive_turn v = (case py_int v of Inr n \<Rightarrow> 1 \<le> n | Inl e \<Rightarrow> False)"

definition check_notifications :: "pdict \<Rightarrow> unit result" where
  "check_notifications d =
     (let milestones = py_or (dget d ''milestones'') (PList []) in
      if \<not> is_list milestones then Inl (ValueError ''notifications.milestones must be a list'')
      else if list_ex (\<lambda>v. \<not> positive_turn v) (as_list milestones)
        then Inl (ValueError ''notifications.milestones must contain positive integers'')
      else raise_if (dhas d ''terminal'' \<and> \<not> is_bool (dget d ''terminal''))
        (ValueError ''notifications.terminal must be a boolean''))"

definition check_provision_request ::
    "path_lib \<Rightarrow> task_provision_request \<Rightarrow> task_provision_request result"
where
  "check_provision_request pl r =
     (let missing = blank_names [(''request_id'', tp_request_id r), (''project'', tp_project r),
            (''title'', tp_title r), (''prompt'', tp_prompt r), (''source_ref'', tp_source_ref r)]
      in if missing \<noteq> [] then Inl (ValueError (''required provision fields: '' @ py_join '', '' missing))
         else
           rbind (check_turns (tp_max_turns r)) (\<lambda>_.
           rbind (raise_if (py_strip (tp_continue_prompt r) = []) (ValueError ''continue_prompt is required'')) (\<lambda>_.
           rbind (check_hold_id (tp_hold_id r)) (\<lambda>_.
           rbind (notification_dict (tp_notifications r)) (\<lambda>notifications.
           rbind (check_binding pl (tp_input_binding r)) (\<lambda>_.
           rbind (check_notifications notifications) (\<lambda>_. Inr r)))))))"

definition check_task_resume ::
    "path_lib \<Rightarrow> task_resume_request \<Rightarrow> task_resume_request result"
where
  "check_task_resume pl r =
     (let missing = blank_names [(''request_id'', ts_request_id r), (''task_id'', ts_task_id r),
            (''prompt'', ts_prompt r), (''source_ref'', ts_source_ref r)]
      in if missing \<noteq> [] then Inl (ValueError (''required monitor-resume fields: '' @ py_join '', '' missing))
         else
           rbind (check_turns (ts_max_turns r)) (\<lambda>_.
           rbind (check_hold_id (ts_hold_id r)) (\<lambda>_.
           rbind (raise_if (py_strip (ts_continue_prompt r) = []) (ValueError ''continue_prompt is required'')) (\<lambda>_.
           rbind (notification_dict (ts_notifications r)) (\<lambda>notifications.
           rbind (check_binding pl (ts_input_binding r)) (\<lambda>_.
           rbind (check_notifications notifications) (\<lambda>_. Inr r)))))))"

section \<open>The receipt\<close>

record task_receipt =
  rc_request_id :: string
  rc_status :: string
  rc_observed_at :: instant
  rc_thread_id :: "string option"
  rc_turn_id :: "string option"
  rc_output :: "string option"
  rc_reason :: "string option"
  rc_error_code :: "string option"
  rc_phase :: "string option"
  rc_monitor_id :: "string option"
  rc_hold_id :: "string option"
  rc_turn_count :: "int option"
  rc_total_turn_count :: "int option"
  rc_max_turns :: "int option"

definition task_receipt_dict :: "task_receipt \<Rightarrow> pdict" where
  "task_receipt_dict r =
     [(''request_id'', PStr (rc_request_id r)), (''status'', PStr (rc_status r)),
      (''observed_at'', PStr (isoformat (rc_observed_at r))), (''thread_id'', opt_str (rc_thread_id r)),
      (''turn_id'', opt_str (rc_turn_id r)), (''output'', opt_str (rc_output r)),
      (''reason'', opt_str (rc_reason r)), (''error_code'', opt_str (rc_error_code r)),
      (''phase'', opt_str (rc_phase r)), (''monitor_id'', opt_str (rc_monitor_id r)),
      (''hold_id'', opt_str (rc_hold_id r)), (''turn_count'', opt_int (rc_turn_count r)),
      (''total_turn_count'', opt_int (rc_total_turn_count r)), (''max_turns'', opt_int (rc_max_turns r))]"

section \<open>Lemmas\<close>

lemma lane_batch_size_Inr: "lane_batch_size b = Inr n \<longleftrightarrow> dget_or b ''batch_size'' (PInt 1) = PInt n \<and> 1 \<le> n"
  by (cases "dget_or b ''batch_size'' (PInt 1)") (auto simp: lane_batch_size_def)

lemma lane_batch_size_pos: "lane_batch_size b = Inr n \<Longrightarrow> 1 \<le> n"
  by (simp add: lane_batch_size_Inr)

lemma candidate_list_Some:
  assumes "candidate_list v = Some ids"
  shows "v = PList (map PInt ids)" "ids \<noteq> []" "distinct ids" "\<forall>i \<in> set ids. 1 \<le> i"
proof -
  obtain xs where v: "v = PList xs" and xs: "xs \<noteq> []" "distinct xs"
    "\<And>x. x \<in> set xs \<Longrightarrow> \<exists>i. x = PInt i \<and> 1 \<le> i"
    and ids: "ids = map (\<lambda>x. case exact_int x of Some i \<Rightarrow> i | None \<Rightarrow> 0) xs"
  proof -
    from assms obtain xs where "v = PList xs" "xs \<noteq> []" "distinct xs"
      "list_all (\<lambda>x. case exact_int x of Some i \<Rightarrow> 1 \<le> i | None \<Rightarrow> False) xs"
      "ids = map (\<lambda>x. case exact_int x of Some i \<Rightarrow> i | None \<Rightarrow> 0) xs"
      by (auto simp: candidate_list_def split: pyval.splits if_splits)
    moreover from this(4) have "x \<in> set xs \<Longrightarrow> \<exists>i. x = PInt i \<and> 1 \<le> i" for x
      by (cases x) (auto simp: list_all_iff split: option.splits)
    ultimately show thesis using that by blast
  qed
  have "map PInt ids = xs"
    unfolding ids map_map by (rule map_idI) (use xs(3) in fastforce)
  then show "v = PList (map PInt ids)" "ids \<noteq> []" "distinct ids" "\<forall>i \<in> set ids. 1 \<le> i"
    using v xs(1,2) xs(3) [of "PInt _"] by (auto simp: distinct_map)
qed

lemma candidate_list_PInt:
  "ids \<noteq> [] \<Longrightarrow> distinct ids \<Longrightarrow> \<forall>i \<in> set ids. 1 \<le> i \<Longrightarrow> candidate_list (PList (map PInt ids)) = Some ids"
  by (auto simp: candidate_list_def list_all_iff distinct_map inj_on_def comp_def)

lemma lane_rounds_bounds:
  assumes "1 \<le> sz" "0 < n"
  shows "1 \<le> lane_rounds n sz" "(lane_rounds n sz - 1) * sz < int n" "int n \<le> lane_rounds n sz * sz"
proof -
  let ?a = "int n + sz - 1"
  obtain q r where q: "q = ?a div sz" and r: "r = ?a mod sz" by simp
  then have "?a = q * sz + r" "0 \<le> r" "r < sz" using assms by simp_all
  then show "(lane_rounds n sz - 1) * sz < int n" "int n \<le> lane_rounds n sz * sz"
    unfolding lane_rounds_def q [symmetric] left_diff_distrib by linarith+
  have "1 * sz \<le> ?a" using assms by simp
  then have "1 * sz div sz \<le> ?a div sz" using assms by (intro zdiv_mono1) auto
  then show "1 \<le> lane_rounds n sz" using assms by (simp add: lane_rounds_def)
qed

text \<open>Consecutive slices of \<open>k\<close> elements.\<close>

lemma concat_slices:
  "concat (map (\<lambda>i. take k (drop (i * k) xs)) [0..<r]) = take (r * k) xs"
proof (induction r)
  case (Suc r)
  then show ?case by (simp add: take_add [symmetric] add.commute)
qed simp

lemma rmap_Inr: "(\<And>x. x \<in> set xs \<Longrightarrow> f x = Inr (g x)) \<Longrightarrow> rmap f xs = Inr (map g xs)"
  by (induction xs) simp_all

lemma lane_batch_ids_turn:
  assumes "lane_batch_size b = Inr sz" "candidate_list (dget b ''candidate_ids'') = Some ids"
    and "i < nat (lane_rounds (length ids) sz)"
  shows "lane_batch_ids b (int i + 1) = Inr (take (nat sz) (drop (i * nat sz) ids))"
proof -
  have "nat (int i * sz) = i * nat sz" using lane_batch_size_pos [OF assms(1)] by (simp add: nat_mult_distrib)
  with assms show ?thesis by (auto simp: lane_batch_ids_def)
qed

section \<open>Properties\<close>

text \<open>
  The turns of a lane partition its candidates: the batches of turns 1 to
  \<open>(n + size - 1) // size\<close>, in order, concatenate to the whole candidate list; every batch is
  non-empty and at most \<open>batch_size\<close> long; and every other turn number is an error.
\<close>

theorem lane_batches_partition:
  assumes "lane_batch_size b = Inr sz" "candidate_list (dget b ''candidate_ids'') = Some ids"
  shows "(\<exists>bs. rmap (\<lambda>i. lane_batch_ids b (int i + 1)) [0..<nat (lane_rounds (length ids) sz)] = Inr bs
        \<and> concat bs = ids \<and> (\<forall>x \<in> set bs. x \<noteq> [] \<and> int (length x) \<le> sz))
    \<and> (\<forall>turn. turn < 1 \<or> lane_rounds (length ids) sz < turn \<longrightarrow>
        lane_batch_ids b turn = Inl (ValueError ''lane binding has no candidates for the current turn''))"
proof -
  let ?r = "nat (lane_rounds (length ids) sz)"
  let ?slice = "\<lambda>i. take (nat sz) (drop (i * nat sz) ids)"
  have sz: "1 \<le> sz" by (rule lane_batch_size_pos [OF assms(1)])
  have ne: "0 < length ids" using candidate_list_Some(2) [OF assms(2)] by simp
  note bounds = lane_rounds_bounds [OF sz ne]
  have run: "rmap (\<lambda>i. lane_batch_ids b (int i + 1)) [0..<?r] = Inr (map ?slice [0..<?r])"
    by (rule rmap_Inr) (use lane_batch_ids_turn [OF assms] in simp)
  have "int (length ids) \<le> int (?r * nat sz)" using bounds(1,3) sz by simp
  then have all: "concat (map ?slice [0..<?r]) = ids" by (simp add: concat_slices del: of_nat_mult)
  have part: "?slice i \<noteq> [] \<and> int (length (?slice i)) \<le> sz" if "i < ?r" for i
  proof -
    have "int i \<le> lane_rounds (length ids) sz - 1" using that bounds(1) by linarith
    then have "int i * sz \<le> (lane_rounds (length ids) sz - 1) * sz" using sz by (intro mult_right_mono) auto
    with bounds(2) have "int i * sz < int (length ids)" by linarith
    then have "int (i * nat sz) < int (length ids)" using sz by simp
    then show ?thesis using sz by (auto simp del: of_nat_mult)
  qed
  have "\<forall>turn. turn < 1 \<or> lane_rounds (length ids) sz < turn \<longrightarrow>
      lane_batch_ids b turn = Inl (ValueError ''lane binding has no candidates for the current turn'')"
    using assms by (auto simp: lane_batch_ids_def)
  with run all part show ?thesis by auto
qed

definition demo_lane :: pdict where
  "demo_lane = [(''candidate_ids'', PList [PInt 4, PInt 7, PInt 9]), (''batch_size'', PInt 2)]"

theorem lane_batches_partition_witness:
  "\<exists>bs. rmap (\<lambda>i. lane_batch_ids demo_lane (int i + 1)) [0..<2] = Inr bs \<and> concat bs = [4, 7, 9]"
proof -
  have "lane_batch_size demo_lane = Inr 2" "candidate_list (dget demo_lane ''candidate_ids'') = Some [4, 7, 9]"
    by (simp_all add: demo_lane_def lane_batch_size_def candidate_list_def)
  from lane_batches_partition [OF this] show ?thesis by (auto simp: lane_rounds_def)
qed

text \<open>
  Acceptance of \<open>final_answer_json\<close> is safe: when the mode is accepted, the lane has batch
  size 1 and distinct positive candidates, there is exactly one receipt path per candidate, the
  only terminal status is \<open>received\<close>, and the resolved receipt paths are pairwise distinct and
  all inside the output boundary.
\<close>

theorem final_answer_mode_safe:
  assumes "final_answer_mode pl b = Inr True"
  shows "\<exists>ids contract paths boundary. lane_batch_size b = Inr 1
    \<and> dget b ''candidate_ids'' = PList (map PInt ids) \<and> distinct ids \<and> (\<forall>i \<in> set ids. 1 \<le> i)
    \<and> dget b ''result_verification'' = PDict contract \<and> dget contract ''mode'' = PStr ''final_answer_json''
    \<and> dget contract ''terminal_statuses'' = PList [PStr ''received'']
    \<and> dget contract ''receipt_paths'' = PDict paths \<and> set (map fst paths) = id_key ` set ids
    \<and> dget b ''output_boundary'' = PStr boundary
    \<and> (\<forall>(k, v) \<in> set paths. pl_within pl (receipt_target pl boundary (py_str v)) (pl_resolve pl boundary))
    \<and> card ((\<lambda>(k, v). receipt_target pl boundary (py_str v)) ` set paths) = length ids"
proof -
  define cv where "cv = py_or (dget b ''result_verification'') (PDict [])"
  define c where "c = as_dict cv"
  have mode: "is_dict cv" "dget_or c ''mode'' (PStr ''file_receipt'') = PStr ''final_answer_json''"
    using assms by (auto simp: final_answer_mode_def Let_def cv_def c_def split: if_splits)
  then obtain c' where c': "cv = PDict c'" by (cases cv) auto
  with mode(2) have "c' \<noteq> []" by (auto simp: c_def)
  then have rv: "dget b ''result_verification'' = PDict c"
    using c' by (auto simp: cv_def c_def py_or_def split: if_splits)
  have m2: "dget c ''mode'' = PStr ''final_answer_json''"
    using mode(2) by (auto simp: dget_or_def dget_def split: option.splits)
  from assms obtain ids where size: "lane_batch_size b = Inr 1"
    and ids: "candidate_list (dget b ''candidate_ids'') = Some ids"
    by (auto simp: final_answer_mode_def Let_def rbind_Inr_iff split: if_splits option.splits)
  obtain paths boundary where p: "dget c ''receipt_paths'' = PDict paths"
    "set (map fst paths) = set (map id_key ids)" "dget c ''terminal_statuses'' = PList [PStr ''received'']"
    "dget b ''output_boundary'' = PStr boundary" "final_paths_ok pl boundary paths ids"
    using assms mode size ids
    by (cases "dget c ''receipt_paths''")
      (auto simp: final_answer_mode_def Let_def cv_def [symmetric] c_def [symmetric]
        split: if_splits pyval.splits)
  from p(5) have "\<forall>(k, v) \<in> set paths. pl_within pl (receipt_target pl boundary (py_str v)) (pl_resolve pl boundary)"
    "card ((\<lambda>(k, v). receipt_target pl boundary (py_str v)) ` set paths) = length ids"
    by (auto simp: final_paths_ok_def Let_def list_all_iff)
  moreover have "set (map fst paths) = id_key ` set ids" using p(2) by simp
  ultimately show ?thesis
    using candidate_list_Some [OF ids] size rv m2 p(1,3,4) by blast
qed

text \<open>A path library for the witnesses: paths are already absolute and normal.\<close>

definition demo_paths :: path_lib where
  "demo_paths = \<lparr>pl_resolve = id, pl_absolute = (\<lambda>p. p \<noteq> [] \<and> hd p = CHR ''/''),
     pl_join = (\<lambda>a b. a @ ''/'' @ b), pl_within = (\<lambda>p b. prefix (b @ ''/'') p)\<rparr>"

definition demo_final_lane :: pdict where
  "demo_final_lane =
     [(''candidate_ids'', PList [PInt 4, PInt 7]), (''output_boundary'', PStr ''/out''),
      (''result_verification'', PDict [(''mode'', PStr ''final_answer_json''),
         (''terminal_statuses'', PList [PStr ''received'']),
         (''receipt_paths'', PDict [(''4'', PStr ''a''), (''7'', PStr ''/out/b'')])])]"

theorem final_answer_mode_safe_witness:
  "final_answer_mode demo_paths demo_final_lane = Inr True
   \<and> (\<exists>ids. dget demo_final_lane ''candidate_ids'' = PList (map PInt ids) \<and> distinct ids)"
proof -
  have "id_key 4 = ''4''" "id_key 7 = ''7''" by code_simp+
  then have "final_answer_mode demo_paths demo_final_lane = Inr True"
    by (simp add: final_answer_mode_def demo_final_lane_def demo_paths_def py_or_def lane_batch_size_def
        candidate_list_def nonblank_text_def Let_def insert_commute
        py_strip_def is_space_def char_in_def final_paths_ok_def receipt_target_def)
  with final_answer_mode_safe [OF this] show ?thesis by auto
qed

end
