(* ===== verification/Py_IO.thy ===== *)
theory Py_IO
  imports Py_Values
begin

text \<open>
  Effectful code. An operation that reads and writes a state \<open>'w\<close> (a store, the files and
  services behind a port, the locals a closure captures) and may raise is a function
  \<open>'w \<Rightarrow> 'a result \<times> 'w\<close>: the state it leaves is there also when it raises, because Python
  does not undo what was written before the exception.

  The second half is the proof support: \<open>io_keeps P m\<close> says that \<open>m\<close> preserves \<open>P\<close> however
  it ends, \<open>io_ensures P m Q\<close> that from \<open>P\<close> a normal return satisfies \<open>Q\<close>; the rules follow
  the structure of the code and are collected in \<open>io_rules\<close>.
\<close>

named_theorems io_rules "preservation rules for effectful code"

type_synonym ('w, 'a) io = "'w \<Rightarrow> 'a result \<times> 'w"

definition io_return :: "'a \<Rightarrow> ('w, 'a) io" where
  "io_return x w = (Inr x, w)"

definition io_raise :: "pyexc \<Rightarrow> ('w, 'a) io" where
  "io_raise e w = (Inl e, w)"

definition io_lift :: "'a result \<Rightarrow> ('w, 'a) io" where
  "io_lift r w = (r, w)"

definition io_bind :: "('w, 'a) io \<Rightarrow> ('a \<Rightarrow> ('w, 'b) io) \<Rightarrow> ('w, 'b) io" where
  "io_bind m f w = (case m w of (Inl e, w') \<Rightarrow> (Inl e, w') | (Inr x, w') \<Rightarrow> f x w')"

definition io_then :: "('w, 'a) io \<Rightarrow> ('w, 'b) io \<Rightarrow> ('w, 'b) io" where
  "io_then m n = io_bind m (\<lambda>_. n)"

text \<open>\<open>if cond: raise e\<close>.\<close>

definition io_check :: "bool \<Rightarrow> pyexc \<Rightarrow> ('w, unit) io" where
  "io_check b e w = (if b then Inl e else Inr (), w)"

text \<open>\<open>try: m except Exception as e: h e\<close>.\<close>

definition io_catch :: "('w, 'a) io \<Rightarrow> (pyexc \<Rightarrow> ('w, 'a) io) \<Rightarrow> ('w, 'a) io" where
  "io_catch m h w = (case m w of (Inl e, w') \<Rightarrow> h e w' | (Inr x, w') \<Rightarrow> (Inr x, w'))"

text \<open>\<open>try: x = m\<close>, \<open>except\<close>: \<open>h\<close>, \<open>else\<close>: \<open>k\<close>.\<close>

definition io_try :: "('w, 'a) io \<Rightarrow> (pyexc \<Rightarrow> ('w, 'b) io) \<Rightarrow> ('a \<Rightarrow> ('w, 'b) io) \<Rightarrow> ('w, 'b) io" where
  "io_try m h k w = (case m w of (Inl e, w') \<Rightarrow> h e w' | (Inr x, w') \<Rightarrow> k x w')"

text \<open>\<open>try: m finally: n\<close>: an exception of \<open>n\<close> replaces the outcome of \<open>m\<close>.\<close>

definition io_finally :: "('w, 'a) io \<Rightarrow> ('w, unit) io \<Rightarrow> ('w, 'a) io" where
  "io_finally m n w =
     (case m w of (r, w') \<Rightarrow> (case n w' of (Inl e, w'') \<Rightarrow> (Inl e, w'') | (Inr _, w'') \<Rightarrow> (r, w'')))"

definition io_get :: "('w \<Rightarrow> 'a) \<Rightarrow> ('w, 'a) io" where
  "io_get f w = (Inr (f w), w)"

definition io_modify :: "('w \<Rightarrow> 'w) \<Rightarrow> ('w, unit) io" where
  "io_modify f w = (Inr (), f w)"

text \<open>\<open>[f(x) for x in xs]\<close> and \<open>for x in xs: f(x)\<close> with effects.\<close>

fun io_map :: "('a \<Rightarrow> ('w, 'b) io) \<Rightarrow> 'a list \<Rightarrow> ('w, 'b list) io" where
  "io_map f [] = io_return []"
| "io_map f (x # xs) = io_bind (f x) (\<lambda>y. io_bind (io_map f xs) (\<lambda>ys. io_return (y # ys)))"

lemma io_return_apply [simp]: "io_return x w = (Inr x, w)"
  and io_raise_apply [simp]: "io_raise e w = (Inl e, w)"
  and io_lift_apply [simp]: "io_lift r w = (r, w)"
  and io_check_apply [simp]: "io_check b e w = (if b then Inl e else Inr (), w)"
  and io_get_apply [simp]: "io_get f w = (Inr (f w), w)"
  and io_modify_apply [simp]: "io_modify g w = (Inr (), g w)"
  by (simp_all add: io_return_def io_raise_def io_lift_def io_check_def io_get_def io_modify_def)

text \<open>Which exceptions an \<open>except OSError\<close> clause takes.\<close>

fun is_os_error :: "pyexc \<Rightarrow> bool" where
  "is_os_error (OSError s) = True"
| "is_os_error (PermissionError s) = True"
| "is_os_error _ = False"

fun is_permission_error :: "pyexc \<Rightarrow> bool" where
  "is_permission_error (PermissionError s) = True"
| "is_permission_error _ = False"

text \<open>The subclasses of \<open>RuntimeError\<close>, and what \<open>except (OSError, ValueError, RuntimeError)\<close> takes.\<close>

fun is_runtime_error :: "pyexc \<Rightarrow> bool" where
  "is_runtime_error (RuntimeError s) = True"
| "is_runtime_error (DispatcherError s) = True"
| "is_runtime_error (CodedError c s) = True"
| "is_runtime_error (HolderStopUnknown s) = True"
| "is_runtime_error (RecoveredTurnTerminal s) = True"
| "is_runtime_error (NativeError s) = True"
| "is_runtime_error (CreationError s t) = True"
| "is_runtime_error _ = False"

text \<open>The class \<open>NativeTaskError\<close> and its subclass for the creation of a task.\<close>

fun is_native_error :: "pyexc \<Rightarrow> bool" where
  "is_native_error (NativeError s) = True"
| "is_native_error (CreationError s t) = True"
| "is_native_error _ = False"

fun is_creation_error :: "pyexc \<Rightarrow> bool" where
  "is_creation_error (CreationError s t) = True"
| "is_creation_error _ = False"

fun is_value_error :: "pyexc \<Rightarrow> bool" where
  "is_value_error (ValueError s) = True"
| "is_value_error _ = False"

definition is_close_error :: "pyexc \<Rightarrow> bool" where
  "is_close_error e \<longleftrightarrow> is_os_error e \<or> is_value_error e \<or> is_runtime_error e"

fun exc_code :: "pyexc \<Rightarrow> pyval" where
  "exc_code (CodedError c s) = PStr c"
| "exc_code _ = PNone"

text \<open>\<open>v in {"a", ...}\<close>: a list or a dict is not hashable.\<close>

definition str_member :: "pyval \<Rightarrow> string list \<Rightarrow> bool result" where
  "str_member v S = (case v of
      PList _ \<Rightarrow> Inl (TypeError (''unhashable type: '' @ str_repr ''list''))
    | PDict _ \<Rightarrow> Inl (TypeError (''unhashable type: '' @ str_repr ''dict''))
    | PStr s \<Rightarrow> Inr (s \<in> set S)
    | _ \<Rightarrow> Inr False)"

lemma str_member_PStr [simp]: "str_member (PStr s) S = Inr (s \<in> set S)"
  by (simp add: str_member_def)

lemma str_member_True: "str_member v S = Inr True \<longleftrightarrow> (\<exists>s \<in> set S. v = PStr s)"
  by (cases v) (auto simp: str_member_def)

section \<open>Evaluation and inversion\<close>

lemma io_bind_Inr:
  "io_bind m f w = (Inr y, w') \<longleftrightarrow> (\<exists>x w1. m w = (Inr x, w1) \<and> f x w1 = (Inr y, w'))"
  by (auto simp: io_bind_def split: prod.splits sum.splits)

lemma io_bindE:
  assumes "io_bind m f w = (Inr y, w')"
  obtains x w1 where "m w = (Inr x, w1)" "f x w1 = (Inr y, w')"
  using assms by (auto simp: io_bind_Inr)

lemma io_bind_step [simp]:
  "m w = (Inr x, w1) \<Longrightarrow> io_bind m f w = f x w1"
  "m w = (Inl e, w1) \<Longrightarrow> io_bind m f w = (Inl e, w1)"
  by (simp_all add: io_bind_def)

lemma io_then_Inr:
  "io_then m n w = (Inr y, w') \<longleftrightarrow> (\<exists>x w1. m w = (Inr x, w1) \<and> n w1 = (Inr y, w'))"
  by (auto simp: io_then_def io_bind_Inr)

lemma io_then_step [simp]:
  "m w = (Inr x, w1) \<Longrightarrow> io_then m n w = n w1"
  "m w = (Inl e, w1) \<Longrightarrow> io_then m n w = (Inl e, w1)"
  by (simp_all add: io_then_def)

lemma io_check_Inr [simp]: "io_check b e w = (Inr u, w') \<longleftrightarrow> \<not> b \<and> w' = w"
  by auto

lemma io_lift_bind [simp]: "io_bind (io_lift (Inr x)) f = f x" "io_bind (io_return x) f = f x"
  by (auto simp: io_bind_def)

lemma io_if_Inr:
  "(if b then m else n) w = (Inr y, w') \<longleftrightarrow> (b \<and> m w = (Inr y, w')) \<or> (\<not> b \<and> n w = (Inr y, w'))"
  by simp

section \<open>Preservation and postconditions\<close>

definition io_keeps :: "('w \<Rightarrow> bool) \<Rightarrow> ('w, 'a) io \<Rightarrow> bool" where
  "io_keeps P m \<longleftrightarrow> (\<forall>w. P w \<longrightarrow> P (snd (m w)))"

definition io_ensures :: "('w \<Rightarrow> bool) \<Rightarrow> ('w, 'a) io \<Rightarrow> ('a \<Rightarrow> 'w \<Rightarrow> bool) \<Rightarrow> bool" where
  "io_ensures P m Q \<longleftrightarrow> (\<forall>w x w'. P w \<longrightarrow> m w = (Inr x, w') \<longrightarrow> Q x w')"

lemma io_keepsI: "(\<And>w. P w \<Longrightarrow> P (snd (m w))) \<Longrightarrow> io_keeps P m"
  by (simp add: io_keeps_def)

lemma io_keepsD: "io_keeps P m \<Longrightarrow> P w \<Longrightarrow> m w = (r, w') \<Longrightarrow> P w'"
  by (metis io_keeps_def snd_conv)

lemma io_keeps_return [io_rules]: "io_keeps P (io_return x)"
  and io_keeps_raise [io_rules]: "io_keeps P (io_raise e)"
  and io_keeps_lift [io_rules]: "io_keeps P (io_lift r)"
  and io_keeps_check [io_rules]: "io_keeps P (io_check b e)"
  and io_keeps_get [io_rules]: "io_keeps P (io_get f)"
  and io_keeps_Pair [io_rules]: "io_keeps P (Pair r)"
  by (simp_all add: io_keeps_def)

lemma io_keeps_modify [io_rules]: "(\<And>w. P w \<Longrightarrow> P (g w)) \<Longrightarrow> io_keeps P (io_modify g)"
  by (simp add: io_keeps_def)

lemma io_keeps_bind [io_rules]:
  "io_keeps P m \<Longrightarrow> (\<And>x. io_keeps P (f x)) \<Longrightarrow> io_keeps P (io_bind m f)"
  by (auto simp: io_keeps_def io_bind_def split: prod.splits sum.splits)

lemma io_keeps_then [io_rules]:
  "io_keeps P m \<Longrightarrow> io_keeps P n \<Longrightarrow> io_keeps P (io_then m n)"
  by (simp add: io_then_def io_keeps_bind)

lemma io_keeps_if [io_rules]:
  "(b \<Longrightarrow> io_keeps P m) \<Longrightarrow> (\<not> b \<Longrightarrow> io_keeps P n) \<Longrightarrow> io_keeps P (if b then m else n)"
  by simp

lemma io_keeps_option [io_rules]:
  "(z = None \<Longrightarrow> io_keeps P m) \<Longrightarrow> (\<And>x. z = Some x \<Longrightarrow> io_keeps P (f x)) \<Longrightarrow>
   io_keeps P (case z of None \<Rightarrow> m | Some x \<Rightarrow> f x)"
  by (cases z) simp_all

lemma io_keeps_catch [io_rules]:
  "io_keeps P m \<Longrightarrow> (\<And>e. io_keeps P (h e)) \<Longrightarrow> io_keeps P (io_catch m h)"
  by (auto simp: io_keeps_def io_catch_def split: prod.splits sum.splits)

lemma io_keeps_try [io_rules]:
  "io_keeps P m \<Longrightarrow> (\<And>e. io_keeps P (h e)) \<Longrightarrow> (\<And>x. io_keeps P (k x)) \<Longrightarrow> io_keeps P (io_try m h k)"
  by (auto simp: io_keeps_def io_try_def split: prod.splits sum.splits)

lemma io_keeps_prod [io_rules]:
  "(\<And>x y. z = (x, y) \<Longrightarrow> io_keeps P (f x y)) \<Longrightarrow> io_keeps P (case z of (x, y) \<Rightarrow> f x y)"
  by (cases z) simp

lemma io_keeps_finally [io_rules]:
  "io_keeps P m \<Longrightarrow> io_keeps P n \<Longrightarrow> io_keeps P (io_finally m n)"
  by (auto simp: io_keeps_def io_finally_def split: prod.splits sum.splits)

lemma io_keeps_map [io_rules]: "(\<And>x. x \<in> set xs \<Longrightarrow> io_keeps P (f x)) \<Longrightarrow> io_keeps P (io_map f xs)"
proof (induction xs)
  case (Cons x xs)
  then show ?case by (auto intro!: io_rules)
qed (simp add: io_rules)

section \<open>From a precondition to a postcondition\<close>

text \<open>
  \<open>io_from P m Q\<close>: started in \<open>P\<close>, \<open>m\<close> leaves \<open>Q\<close>, whether it returns or raises. Used where a
  write depends on what was read before; \<open>io_keeps P m\<close> is \<open>io_from P m P\<close>.
\<close>

named_theorems from_rules "rules for io_from, applied from the front of the code"

definition io_from :: "('w \<Rightarrow> bool) \<Rightarrow> ('w, 'a) io \<Rightarrow> ('w \<Rightarrow> bool) \<Rightarrow> bool" where
  "io_from P m Q \<longleftrightarrow> (\<forall>w. P w \<longrightarrow> Q (snd (m w)))"

lemma io_keeps_from: "io_keeps P m \<longleftrightarrow> io_from P m P"
  by (simp add: io_keeps_def io_from_def)

lemma io_fromD: "io_from P m Q \<Longrightarrow> P w \<Longrightarrow> m w = (r, w') \<Longrightarrow> Q w'"
  by (metis io_from_def snd_conv)

lemma io_from_keeps: "io_keeps Q m \<Longrightarrow> (\<And>s. P s \<Longrightarrow> Q s) \<Longrightarrow> io_from P m Q"
  by (simp add: io_keeps_def io_from_def)

lemma io_from_pure [from_rules]:
  "(\<And>s. P s \<Longrightarrow> Q s) \<Longrightarrow> io_from P (io_return x) Q"
  "(\<And>s. P s \<Longrightarrow> Q s) \<Longrightarrow> io_from P (io_raise e) Q"
  by (simp_all add: io_from_def)

lemma io_from_get [from_rules]:
  "(\<And>v. io_from (\<lambda>s. P s \<and> f s = v) (k v) Q) \<Longrightarrow> io_from P (io_bind (io_get f) k) Q"
  by (simp add: io_from_def)

lemma io_from_check [from_rules]:
  "(\<And>s. P s \<Longrightarrow> b \<Longrightarrow> Q s) \<Longrightarrow> (\<not> b \<Longrightarrow> io_from P m Q) \<Longrightarrow> io_from P (io_then (io_check b e) m) Q"
  by (cases b) (simp_all add: io_from_def)

lemma io_from_lift [from_rules]:
  "(\<And>s e. P s \<Longrightarrow> r = Inl e \<Longrightarrow> Q s) \<Longrightarrow> (\<And>x. r = Inr x \<Longrightarrow> io_from P (k x) Q) \<Longrightarrow>
   io_from P (io_bind (io_lift r) k) Q"
  by (cases r) (simp_all add: io_from_def)

lemma io_from_modify:
  "(\<And>s. P s \<Longrightarrow> R (g s)) \<Longrightarrow> io_from R m Q \<Longrightarrow> io_from P (io_then (io_modify g) m) Q"
  by (simp add: io_from_def io_then_def)

lemma io_from_if [from_rules]:
  "(b \<Longrightarrow> io_from P m Q) \<Longrightarrow> (\<not> b \<Longrightarrow> io_from P n Q) \<Longrightarrow> io_from P (if b then m else n) Q"
  by simp

lemma io_from_option [from_rules]:
  "(z = None \<Longrightarrow> io_from P m Q) \<Longrightarrow> (\<And>x. z = Some x \<Longrightarrow> io_from P (f x) Q) \<Longrightarrow>
   io_from P (case z of None \<Rightarrow> m | Some x \<Rightarrow> f x) Q"
  by (cases z) simp_all

lemma io_from_bind:
  "io_from P m R \<Longrightarrow> (\<And>s. R s \<Longrightarrow> Q s) \<Longrightarrow> (\<And>x. io_from R (f x) Q) \<Longrightarrow> io_from P (io_bind m f) Q"
  by (fastforce simp: io_from_def io_bind_def split: prod.splits sum.splits)

lemma io_from_then:
  "io_from P m R \<Longrightarrow> (\<And>s. R s \<Longrightarrow> Q s) \<Longrightarrow> io_from R n Q \<Longrightarrow> io_from P (io_then m n) Q"
  unfolding io_then_def by (rule io_from_bind)

text \<open>A loop over a list, with the assertion that depends on what is still to do.\<close>

lemma io_from_map:
  assumes "\<And>x xs. io_from (J (x # xs)) (f x) (J xs)"
    and "\<And>x xs s. J (x # xs) s \<Longrightarrow> J xs s"
  shows "io_from (J xs) (io_map f xs) (J [])"
proof -
  have later: "J ys s \<Longrightarrow> J [] s" for ys s
    by (induction ys) (auto dest: assms(2))
  show ?thesis
  proof (induction xs)
    case (Cons x xs)
    have rest: "io_from (J xs) (io_bind (io_map f xs) (\<lambda>ys. io_return (y # ys))) (J [])" for y
      by (rule io_from_bind [OF Cons]) (simp_all add: io_from_def)
    show ?case
      unfolding io_map.simps by (rule io_from_bind [OF assms(1)]) (erule later, rule rest)
  qed (simp add: io_from_def)
qed

section \<open>Separate postconditions for the return and the exception\<close>

named_theorems post_rules "rules for io_post, applied from the front of the code"

definition io_post ::
  "('w \<Rightarrow> bool) \<Rightarrow> ('w, 'a) io \<Rightarrow> ('a \<Rightarrow> 'w \<Rightarrow> bool) \<Rightarrow> (pyexc \<Rightarrow> 'w \<Rightarrow> bool) \<Rightarrow> bool" where
  "io_post P m Q E \<longleftrightarrow> (\<forall>w. P w \<longrightarrow> (case m w of (Inr x, w') \<Rightarrow> Q x w' | (Inl e, w') \<Rightarrow> E e w'))"

lemma io_postD:
  "io_post P m Q E \<Longrightarrow> P w \<Longrightarrow> m w = (Inr x, w') \<Longrightarrow> Q x w'"
  "io_post P m Q E \<Longrightarrow> P w \<Longrightarrow> m w = (Inl e, w') \<Longrightarrow> E e w'"
  by (auto simp: io_post_def split: prod.splits sum.splits)

lemma io_post_case:
  "io_post P m Q E \<Longrightarrow> P w \<Longrightarrow> case m w of (Inr x, w') \<Rightarrow> Q x w' | (Inl e, w') \<Rightarrow> E e w'"
  by (simp add: io_post_def)

lemma io_postI:
  "(\<And>w x w'. P w \<Longrightarrow> m w = (Inr x, w') \<Longrightarrow> Q x w') \<Longrightarrow> (\<And>w e w'. P w \<Longrightarrow> m w = (Inl e, w') \<Longrightarrow> E e w') \<Longrightarrow>
   io_post P m Q E"
  by (auto simp: io_post_def split: prod.splits sum.splits)

lemma io_post_bind:
  assumes "io_post P m R E" "\<And>x. io_post (R x) (f x) Q E"
  shows "io_post P (io_bind m f) Q E"
proof (unfold io_post_def, intro allI impI)
  fix w assume P: "P w"
  obtain r w1 where m: "m w = (r, w1)" by fastforce
  show "case io_bind m f w of (Inr x, w') \<Rightarrow> Q x w' | (Inl e, w') \<Rightarrow> E e w'"
  proof (cases r)
    case (Inl e)
    then show ?thesis using m io_postD(2) [OF assms(1) P] by simp
  next
    case (Inr x)
    then have "R x w1" using m io_postD(1) [OF assms(1) P] by simp
    then show ?thesis using m Inr assms(2) [of x] by (simp add: io_post_def)
  qed
qed

lemma io_post_then:
  "io_post P m (\<lambda>_. R) E \<Longrightarrow> io_post R n Q E \<Longrightarrow> io_post P (io_then m n) Q E"
  unfolding io_then_def by (rule io_post_bind)

lemma io_post_keeps: "io_keeps P m \<Longrightarrow> (\<And>e s. P s \<Longrightarrow> E e s) \<Longrightarrow> io_post P m (\<lambda>_. P) E"
  by (auto simp: io_post_def split: prod.splits sum.splits dest: io_keepsD)

lemma io_post_bind_keeps [post_rules]:
  "io_keeps P m \<Longrightarrow> (\<And>e s. P s \<Longrightarrow> E e s) \<Longrightarrow> (\<And>x. io_post P (f x) Q E) \<Longrightarrow> io_post P (io_bind m f) Q E"
  by (rule io_post_bind [where R = "\<lambda>_. P"]) (rule io_post_keeps)

lemma io_post_then_keeps [post_rules]:
  "io_keeps P m \<Longrightarrow> (\<And>e s. P s \<Longrightarrow> E e s) \<Longrightarrow> io_post P n Q E \<Longrightarrow> io_post P (io_then m n) Q E"
  unfolding io_then_def by (rule io_post_bind_keeps)

lemma io_post_weaken:
  "io_post P m Q E \<Longrightarrow> (\<And>s. P' s \<Longrightarrow> P s) \<Longrightarrow> (\<And>x s. Q x s \<Longrightarrow> Q' x s) \<Longrightarrow> (\<And>e s. E e s \<Longrightarrow> E' e s) \<Longrightarrow>
   io_post P' m Q' E'"
  by (fastforce simp: io_post_def split: prod.splits sum.splits)

lemma io_post_pure [post_rules]:
  "(\<And>s. P s \<Longrightarrow> Q x s) \<Longrightarrow> io_post P (io_return x) Q E"
  "(\<And>s. P s \<Longrightarrow> E e s) \<Longrightarrow> io_post P (io_raise e) Q E"
  by (simp_all add: io_post_def)

lemma io_post_get [post_rules]:
  "(\<And>v. io_post (\<lambda>s. P s \<and> f s = v) (k v) Q E) \<Longrightarrow> io_post P (io_bind (io_get f) k) Q E"
  by (simp add: io_post_def)

lemma io_post_check [post_rules]:
  "(\<And>s. P s \<Longrightarrow> b \<Longrightarrow> E e s) \<Longrightarrow> (\<not> b \<Longrightarrow> io_post P m Q E) \<Longrightarrow> io_post P (io_then (io_check b e) m) Q E"
  by (cases b) (simp_all add: io_post_def)

lemma io_post_lift [post_rules]:
  "(\<And>e s. P s \<Longrightarrow> r = Inl e \<Longrightarrow> E e s) \<Longrightarrow> (\<And>x. r = Inr x \<Longrightarrow> io_post P (k x) Q E) \<Longrightarrow>
   io_post P (io_bind (io_lift r) k) Q E"
  by (cases r) (simp_all add: io_post_def)

lemma io_post_modify:
  "(\<And>s. P s \<Longrightarrow> R (g s)) \<Longrightarrow> io_post R m Q E \<Longrightarrow> io_post P (io_then (io_modify g) m) Q E"
  by (simp add: io_post_def io_then_def)

lemma io_post_if [post_rules]:
  "(b \<Longrightarrow> io_post P m Q E) \<Longrightarrow> (\<not> b \<Longrightarrow> io_post P n Q E) \<Longrightarrow> io_post P (if b then m else n) Q E"
  by simp

lemma io_post_catch:
  "io_post P m Q E \<Longrightarrow> (\<And>e. io_post (E e) (h e) Q F) \<Longrightarrow> io_post P (io_catch m h) Q F"
  by (fastforce simp: io_post_def io_catch_def split: prod.splits sum.splits)

lemma io_post_finally:
  assumes "io_post P m Q E" "\<And>x. io_keeps (Q x) n" "\<And>e. io_keeps (E e) n"
    and "\<And>x e s. Q x s \<Longrightarrow> E e s" "\<And>e e' s. E e s \<Longrightarrow> E e' s"
  shows "io_post P (io_finally m n) Q E"
proof (unfold io_post_def, intro allI impI)
  fix w assume P: "P w"
  obtain r w1 where m: "m w = (r, w1)" by fastforce
  obtain r2 w2 where n: "n w1 = (r2, w2)" by fastforce
  show "case io_finally m n w of (Inr x, w') \<Rightarrow> Q x w' | (Inl e, w') \<Rightarrow> E e w'"
  proof (cases r)
    case (Inl e)
    then have "E e w2" using m n io_postD(2) [OF assms(1) P] io_keepsD [OF assms(3)] by blast
    then show ?thesis using m n Inl assms(5) by (auto simp: io_finally_def split: sum.splits)
  next
    case (Inr x)
    then have "Q x w2" using m n io_postD(1) [OF assms(1) P] io_keepsD [OF assms(2)] by blast
    then show ?thesis using m n Inr assms(4) by (auto simp: io_finally_def split: sum.splits)
  qed
qed

section \<open>Operations that agree\<close>

text \<open>Two operations that do the same on every state of \<open>P\<close>, and stay in it.\<close>

named_theorems same_rules "rules for operations that agree on a set of states"

definition io_same :: "('w \<Rightarrow> bool) \<Rightarrow> ('w, 'a) io \<Rightarrow> ('w, 'a) io \<Rightarrow> bool" where
  "io_same P m n \<longleftrightarrow> (\<forall>s. P s \<longrightarrow> m s = n s \<and> P (snd (n s)))"

lemma io_same_keeps: "io_keeps P m \<Longrightarrow> io_same P m m"
  by (simp add: io_same_def io_keeps_def)

lemma io_sameD: "io_same P m n \<Longrightarrow> P s \<Longrightarrow> m s = n s" "io_same P m n \<Longrightarrow> P s \<Longrightarrow> n s = (r, s') \<Longrightarrow> P s'"
  by (simp_all add: io_same_def) (metis snd_conv)

lemma io_same_bind [same_rules]:
  assumes "io_same P m n" "\<And>x. io_same P (f x) (g x)"
  shows "io_same P (io_bind m f) (io_bind n g)"
proof (unfold io_same_def, intro allI impI)
  fix s assume P: "P s"
  obtain r s1 where n: "n s = (r, s1)" by fastforce
  then have "m s = (r, s1)" "P s1" using io_sameD [OF assms(1) P] by auto
  then show "io_bind m f s = io_bind n g s \<and> P (snd (io_bind n g s))"
    using n assms(2) by (cases r) (auto simp: io_same_def)
qed

lemma io_same_then [same_rules]:
  "io_same P m m' \<Longrightarrow> io_same P n n' \<Longrightarrow> io_same P (io_then m n) (io_then m' n')"
  unfolding io_then_def by (rule io_same_bind)

lemma io_same_if [same_rules]:
  "(b \<Longrightarrow> io_same P m m') \<Longrightarrow> (\<not> b \<Longrightarrow> io_same P n n') \<Longrightarrow> io_same P (if b then m else n) (if b then m' else n')"
  by simp

lemma io_same_option [same_rules]:
  "(z = None \<Longrightarrow> io_same P m m') \<Longrightarrow> (\<And>x. z = Some x \<Longrightarrow> io_same P (f x) (f' x)) \<Longrightarrow>
   io_same P (case z of None \<Rightarrow> m | Some x \<Rightarrow> f x) (case z of None \<Rightarrow> m' | Some x \<Rightarrow> f' x)"
  by (cases z) simp_all

lemma io_same_try [same_rules]:
  assumes "io_same P m m'" "\<And>e. io_same P (h e) (h' e)" "\<And>x. io_same P (k x) (k' x)"
  shows "io_same P (io_try m h k) (io_try m' h' k')"
proof (unfold io_same_def, intro allI impI)
  fix s assume P: "P s"
  obtain r s1 where n: "m' s = (r, s1)" by fastforce
  then have "m s = (r, s1)" "P s1" using io_sameD [OF assms(1) P] by auto
  then show "io_try m h k s = io_try m' h' k' s \<and> P (snd (io_try m' h' k' s))"
    using n assms(2,3) by (cases r) (auto simp: io_same_def io_try_def)
qed

lemma io_same_finally [same_rules]:
  assumes "io_same P m m'" "io_keeps P n"
  shows "io_same P (io_finally m n) (io_finally m' n)"
proof (unfold io_same_def, intro allI impI)
  fix s assume P: "P s"
  obtain r s1 where n: "m' s = (r, s1)" by fastforce
  then have "m s = (r, s1)" "P s1" using io_sameD [OF assms(1) P] by auto
  then show "io_finally m n s = io_finally m' n s \<and> P (snd (io_finally m' n s))"
    using n io_keepsD [OF assms(2)] by (auto simp: io_finally_def split: prod.splits sum.splits)
qed

end
