(* ===== verification/Hold_Turn_Monitor.thy ===== *)
theory Hold_Turn_Monitor
  imports Py_IO
begin

text \<open>
  The decision of \<open>packages/jarvis_monitor/hold_turn_monitor.py\<close>: the monitor waits for one
  exact turn of a held task and answers with the one command its holder may execute, CONTINUE
  or STOP, and the notification events of that turn.

  The client and the callbacks of a request (\<open>Callable\<close> fields) are functions over a state
  \<open>'w\<close> that may raise; a callback the request does not have is \<open>None\<close>. \<open>wait_for_turn_terminal\<close>
  takes the optional \<open>control_poll\<close> callback the code passes in its keyword arguments.
\<close>

section \<open>Policy, request, event, decision\<close>

record notification_policy =
  milestone_turns :: "pyval list"
  np_terminal :: bool

definition check_notification_policy :: "notification_policy \<Rightarrow> notification_policy result" where
  "check_notification_policy p =
     rbind (raise_if (list_ex (\<lambda>t. case int_instance t of None \<Rightarrow> True | Some i \<Rightarrow> i < 1)
              (milestone_turns p))
             (ValueError ''milestone_turns must contain positive integers''))
       (\<lambda>_. Inr p)"

record 'w hold_turn_request =
  hr_hold_id :: string
  hr_thread_id :: string
  hr_turn_id :: string
  hr_turn_count :: int
  hr_max_turns :: int
  hr_continuation_enabled :: bool
  hr_continue_prompt :: string
  hr_notification_policy :: notification_policy
  hr_verify_output :: "('w, pdict) io option"
  hr_stop_requested :: "('w, bool) io option"
  hr_control_poll :: "('w, unit) io option"
  hr_receive_final_answer :: "(string \<Rightarrow> ('w, pdict) io) option"

record notification_event =
  ne_event_id :: string
  ne_event_type :: string
  ne_hold_id :: string
  ne_thread_id :: string
  ne_turn_id :: string
  ne_turn_count :: int
  ne_status :: string
  ne_message :: string

record hold_turn_decision =
  hd_action :: string
  hd_command_id :: string
  hd_hold_id :: string
  hd_expected_turn_id :: string
  hd_result_status :: string
  hd_final_message :: string
  hd_reason :: string
  hd_continue_prompt :: "string option"
  hd_notification_events :: "notification_event list"
  hd_error :: pyval

record 'w held_turn_client =
  wait_for_turn_terminal :: "string \<Rightarrow> string \<Rightarrow> ('w, unit) io option \<Rightarrow> ('w, pdict) io"
  wait_for_turn_readback :: "string \<Rightarrow> string \<Rightarrow> bool \<Rightarrow> ('w, pyval) io"

section \<open>Operations\<close>

text \<open>The full-width colon of the third prefix is the UTF-8 sequence EF BC 9A.\<close>

definition fullwidth_colon :: string where
  "fullwidth_colon = [char_of (239::nat), char_of (188::nat), char_of (154::nat)]"

definition blocked_prefixes :: "bool \<Rightarrow> string list" where
  "blocked_prefixes explicit_only =
     (if explicit_only then [''jarvis_run_status: blocked'']
      else [''jarvis_run_status: blocked'', ''blocked:'', ''blocked'' @ fullwidth_colon])"

definition worker_reported_blocked :: "string \<Rightarrow> bool \<Rightarrow> bool" where
  "worker_reported_blocked final_message explicit_only =
     list_ex (\<lambda>line. list_ex (\<lambda>p. prefix p (py_lower (py_strip line)))
                (blocked_prefixes explicit_only))
       (py_splitlines final_message)"

definition milestone_events :: "'w hold_turn_request \<Rightarrow> string \<Rightarrow> notification_event list" where
  "milestone_events r status =
     (if \<not> list_ex (py_eq (PInt (hr_turn_count r))) (milestone_turns (hr_notification_policy r)) then []
      else [\<lparr> ne_event_id = ''milestone:'' @ hr_turn_id r, ne_event_type = ''milestone'',
              ne_hold_id = hr_hold_id r, ne_thread_id = hr_thread_id r, ne_turn_id = hr_turn_id r,
              ne_turn_count = hr_turn_count r, ne_status = status,
              ne_message = ''JARVIS_HOLD_MILESTONE_V1 '' @ hr_hold_id r @ '' turn='' @
                int_str (hr_turn_count r) \<rparr>])"

definition terminal_event :: "'w hold_turn_request \<Rightarrow> string \<Rightarrow> notification_event" where
  "terminal_event r result_status =
     \<lparr> ne_event_id = ''terminal:'' @ hr_turn_id r, ne_event_type = ''terminal'',
       ne_hold_id = hr_hold_id r, ne_thread_id = hr_thread_id r, ne_turn_id = hr_turn_id r,
       ne_turn_count = hr_turn_count r, ne_status = result_status,
       ne_message = ''JARVIS_HOLD_TERMINAL_V1 '' @ hr_hold_id r @ '' '' @ result_status \<rparr>"

definition turn_stop ::
  "'w hold_turn_request \<Rightarrow> string \<Rightarrow> string \<Rightarrow> string \<Rightarrow> string \<Rightarrow> pyval \<Rightarrow> hold_turn_decision" where
  "turn_stop r command_id result_status final_message reason err =
     \<lparr> hd_action = ''STOP'', hd_command_id = command_id, hd_hold_id = hr_hold_id r,
       hd_expected_turn_id = hr_turn_id r, hd_result_status = result_status,
       hd_final_message = final_message, hd_reason = reason, hd_continue_prompt = None,
       hd_notification_events = milestone_events r result_status @
         (if np_terminal (hr_notification_policy r) then [terminal_event r result_status] else []),
       hd_error = err \<rparr>"

definition turn_continue :: "'w hold_turn_request \<Rightarrow> string \<Rightarrow> string \<Rightarrow> hold_turn_decision" where
  "turn_continue r command_id final_message =
     \<lparr> hd_action = ''CONTINUE'', hd_command_id = command_id, hd_hold_id = hr_hold_id r,
       hd_expected_turn_id = hr_turn_id r, hd_result_status = ''holding'',
       hd_final_message = final_message, hd_reason = ''completed_under_budget'',
       hd_continue_prompt = Some (hr_continue_prompt r),
       hd_notification_events = milestone_events r ''completed'', hd_error = PNone \<rparr>"

definition turn_command_id :: "'w hold_turn_request \<Rightarrow> string" where
  "turn_command_id r =
     ''monitor:'' @ hr_hold_id r @ '':'' @ hr_turn_id r @ '':'' @ int_str (hr_turn_count r)"

definition error_detail :: "pyval \<Rightarrow> pyval" where
  "error_detail err = (case err of
      PDict d \<Rightarrow> dget d ''message''
    | PStr s \<Rightarrow> PStr s
    | _ \<Rightarrow> PNone)"

text \<open>The statuses of an output verification that let the turn count as delivered.\<close>

definition accepted_verifications :: "string list" where
  "accepted_verifications = [''verified'', ''review'', ''legacy_unverified'', ''not_required'']"

text \<open>The checks after an accepted verification, in their order.\<close>

definition turn_gates ::
  "'w hold_turn_request \<Rightarrow> string \<Rightarrow> pdict \<Rightarrow> ('w, hold_turn_decision) io" where
  "turn_gates r msg verification =
     io_bind (case hr_stop_requested r of None \<Rightarrow> io_return False | Some f \<Rightarrow> f) (\<lambda>stop.
     if stop then
       io_return (turn_stop r (turn_command_id r) ''cancelled'' msg ''stop_requested'' PNone)
     else if worker_reported_blocked msg
               (hr_receive_final_answer r \<noteq> None \<or> dget verification ''status'' = PStr ''review'') then
       io_return (turn_stop r (turn_command_id r) ''blocked'' msg ''worker_reported_blocked'' PNone)
     else if hr_max_turns r \<le> hr_turn_count r then
       io_return (turn_stop r (turn_command_id r) ''turn_limit_reached'' msg ''turn_budget_consumed'' PNone)
     else if \<not> hr_continuation_enabled r then
       io_return (turn_stop r (turn_command_id r) ''completed'' msg ''continuation_disabled'' PNone)
     else io_return (turn_continue r (turn_command_id r) msg))"

definition turn_verify :: "'w hold_turn_request \<Rightarrow> string \<Rightarrow> ('w, pdict option) io" where
  "turn_verify r msg =
     (case hr_receive_final_answer r of
        Some f \<Rightarrow> io_bind (f msg) (\<lambda>v. io_return (Some v))
      | None \<Rightarrow> (case hr_verify_output r of
          Some f \<Rightarrow> io_bind f (\<lambda>v. io_return (Some v))
        | None \<Rightarrow> io_return None))"

definition turn_completed :: "'w hold_turn_request \<Rightarrow> string \<Rightarrow> ('w, hold_turn_decision) io" where
  "turn_completed r msg =
     (if hr_receive_final_answer r \<noteq> None \<and> msg = [] then
        io_return (turn_stop r (turn_command_id r) ''blocked'' msg ''final_answer_unavailable'' PNone)
      else io_bind (turn_verify r msg) (\<lambda>verified. case verified of
          None \<Rightarrow> turn_gates r msg []
        | Some v \<Rightarrow> io_bind (io_lift (str_member (dget v ''status'') accepted_verifications)) (\<lambda>ok.
            if ok then turn_gates r msg v
            else io_return (turn_stop r (turn_command_id r) ''blocked'' msg
                   (py_str (py_or (dget v ''reason'') (PStr ''candidate_output_unverified''))) PNone))))"

definition turn_observe ::
  "'w held_turn_client \<Rightarrow> 'w hold_turn_request \<Rightarrow> ('w, hold_turn_decision) io" where
  "turn_observe c r =
     io_bind (wait_for_turn_terminal c (hr_thread_id r) (hr_turn_id r) (hr_control_poll r)) (\<lambda>terminal.
     let terminal_status = py_str (py_or (dget terminal ''status'') (PStr ''unknown'')) in
     if terminal_status = ''completed'' then
       io_bind (wait_for_turn_readback c (hr_thread_id r) (hr_turn_id r)
                  (hr_receive_final_answer r \<noteq> None))
         (\<lambda>v. turn_completed r (text_or_empty v))
     else
       io_return (turn_stop r (turn_command_id r) terminal_status []
         (py_str (py_or (error_detail (dget terminal ''error'')) (PStr ''non_completed_terminal'')))
         (dget terminal ''error'')))"

section \<open>What a decision says\<close>

lemmas turn_defs = turn_stop_def turn_continue_def

lemma turn_stop_sel [simp]:
  "hd_action (turn_stop r c s m e er) = ''STOP''"
  "hd_command_id (turn_stop r c s m e er) = c"
  "hd_hold_id (turn_stop r c s m e er) = hr_hold_id r"
  "hd_expected_turn_id (turn_stop r c s m e er) = hr_turn_id r"
  "hd_result_status (turn_stop r c s m e er) = s"
  "hd_final_message (turn_stop r c s m e er) = m"
  "hd_reason (turn_stop r c s m e er) = e"
  "hd_continue_prompt (turn_stop r c s m e er) = None"
  "hd_error (turn_stop r c s m e er) = er"
  by (simp_all add: turn_stop_def)

lemma turn_continue_sel [simp]:
  "hd_action (turn_continue r c m) = ''CONTINUE''"
  "hd_command_id (turn_continue r c m) = c"
  "hd_hold_id (turn_continue r c m) = hr_hold_id r"
  "hd_expected_turn_id (turn_continue r c m) = hr_turn_id r"
  "hd_result_status (turn_continue r c m) = ''holding''"
  "hd_final_message (turn_continue r c m) = m"
  "hd_continue_prompt (turn_continue r c m) = Some (hr_continue_prompt r)"
  "hd_error (turn_continue r c m) = PNone"
  by (simp_all add: turn_continue_def)

text \<open>Every event of a decision carries the identity of the observed turn.\<close>

definition event_of_turn :: "'w hold_turn_request \<Rightarrow> notification_event \<Rightarrow> bool" where
  "event_of_turn r e \<longleftrightarrow> ne_hold_id e = hr_hold_id r \<and> ne_thread_id e = hr_thread_id r \<and>
     ne_turn_id e = hr_turn_id r \<and> ne_turn_count e = hr_turn_count r"

definition terminal_events :: "hold_turn_decision \<Rightarrow> notification_event list" where
  "terminal_events d = filter (\<lambda>e. ne_event_type e = ''terminal'') (hd_notification_events d)"

definition decision_of_turn :: "'w hold_turn_request \<Rightarrow> hold_turn_decision \<Rightarrow> bool" where
  "decision_of_turn r d \<longleftrightarrow>
     hd_hold_id d = hr_hold_id r \<and> hd_expected_turn_id d = hr_turn_id r \<and>
     hd_command_id d = turn_command_id r \<and>
     list_all (event_of_turn r) (hd_notification_events d) \<and>
     distinct (map ne_event_id (hd_notification_events d)) \<and>
     terminal_events d =
       (if hd_action d = ''STOP'' \<and> np_terminal (hr_notification_policy r)
        then [terminal_event r (hd_result_status d)] else [])"

lemma milestone_events_of_turn:
  "list_all (event_of_turn r) (milestone_events r s)"
  "filter (\<lambda>e. ne_event_type e = ''terminal'') (milestone_events r s) = []"
  "distinct (map ne_event_id (milestone_events r s))"
  "''terminal:'' @ hr_turn_id r \<notin> ne_event_id ` set (milestone_events r s)"
  by (auto simp: milestone_events_def event_of_turn_def split: if_splits)

lemma turn_stop_of_turn: "decision_of_turn r (turn_stop r (turn_command_id r) s m e er)"
  using milestone_events_of_turn [where r = r and s = s]
  by (auto simp: decision_of_turn_def terminal_events_def turn_stop_def terminal_event_def
      event_of_turn_def)

lemma turn_continue_of_turn: "decision_of_turn r (turn_continue r (turn_command_id r) m)"
  using milestone_events_of_turn [where r = r and s = "''completed''"]
  by (auto simp: decision_of_turn_def terminal_events_def turn_continue_def)


definition may_continue :: "'w hold_turn_request \<Rightarrow> hold_turn_decision \<Rightarrow> bool" where
  "may_continue r d \<longleftrightarrow>
     hr_turn_count r < hr_max_turns r \<and> hr_continuation_enabled r \<and>
     \<not> worker_reported_blocked (hd_final_message d) True \<and>
     (hr_receive_final_answer r \<noteq> None \<longrightarrow> hd_final_message d \<noteq> []) \<and>
     d = turn_continue r (turn_command_id r) (hd_final_message d)"

definition sound_decision :: "'w hold_turn_request \<Rightarrow> hold_turn_decision \<Rightarrow> bool" where
  "sound_decision r d \<longleftrightarrow> decision_of_turn r d \<and>
     (hd_action d = ''STOP'' \<and> hd_continue_prompt d = None \<or>
      hd_action d = ''CONTINUE'' \<and> may_continue r d)"

lemma sound_stop [simp]: "sound_decision r (turn_stop r (turn_command_id r) s m e er)"
  by (simp add: sound_decision_def turn_stop_of_turn)

lemma blocked_explicit: "worker_reported_blocked msg True \<Longrightarrow> worker_reported_blocked msg b"
  by (auto simp: worker_reported_blocked_def blocked_prefixes_def list_ex_iff)

lemma sound_gates:
  assumes "turn_gates r msg v w = (Inr d, w')"
    and "hr_receive_final_answer r \<noteq> None \<Longrightarrow> msg \<noteq> []"
  shows "sound_decision r d \<and> hd_final_message d = msg"
proof -
  obtain stop w1 where "(if stop then io_return (turn_stop r (turn_command_id r) ''cancelled'' msg ''stop_requested'' PNone)
     else if worker_reported_blocked msg
               (hr_receive_final_answer r \<noteq> None \<or> dget v ''status'' = PStr ''review'') then
       io_return (turn_stop r (turn_command_id r) ''blocked'' msg ''worker_reported_blocked'' PNone)
     else if hr_max_turns r \<le> hr_turn_count r then
       io_return (turn_stop r (turn_command_id r) ''turn_limit_reached'' msg ''turn_budget_consumed'' PNone)
     else if \<not> hr_continuation_enabled r then
       io_return (turn_stop r (turn_command_id r) ''completed'' msg ''continuation_disabled'' PNone)
     else io_return (turn_continue r (turn_command_id r) msg)) w1 = (Inr d, w')"
    using assms(1) unfolding turn_gates_def by (elim io_bindE)
  then show ?thesis
    using assms(2) blocked_explicit [of msg]
    by (auto simp: sound_decision_def may_continue_def turn_continue_of_turn turn_stop_of_turn
        split: if_splits)
qed

lemma sound_completed:
  assumes "turn_completed r msg w = (Inr d, w')"
  shows "sound_decision r d"
  using assms sound_gates [of r msg]
  by (fastforce simp: turn_completed_def io_bind_Inr split: if_splits option.splits)

lemma sound_observe:
  assumes "turn_observe c r w = (Inr d, w')"
  shows "sound_decision r d"
  using assms
  by (auto simp: turn_observe_def io_bind_Inr Let_def split: if_splits dest: sound_completed)


section \<open>The order of the stop reasons\<close>

text \<open>
  The reasons to stop, each with the status and the reason it reports, in the order of the code,
  over what the monitor read: the terminal record \<open>t\<close>, the final message \<open>msg\<close>, the output
  verification \<open>ver\<close> if one ran, and the stop flag.
\<close>

definition turn_guards ::
  "'w hold_turn_request \<Rightarrow> pdict \<Rightarrow> string \<Rightarrow> pdict option \<Rightarrow> bool \<Rightarrow> (bool \<times> string \<times> string) list" where
  "turn_guards r t msg ver stop =
    (let status = py_str (py_or (dget t ''status'') (PStr ''unknown''));
         pocket = hr_receive_final_answer r \<noteq> None;
         v = (case ver of None \<Rightarrow> [] | Some d \<Rightarrow> d) in
     [(status \<noteq> ''completed'', status,
         py_str (py_or (error_detail (dget t ''error'')) (PStr ''non_completed_terminal''))),
      (pocket \<and> msg = [], ''blocked'', ''final_answer_unavailable''),
      (ver \<noteq> None \<and> dget v ''status'' \<notin> PStr ` set accepted_verifications, ''blocked'',
         py_str (py_or (dget v ''reason'') (PStr ''candidate_output_unverified''))),
      (stop, ''cancelled'', ''stop_requested''),
      (worker_reported_blocked msg (pocket \<or> dget v ''status'' = PStr ''review''), ''blocked'',
         ''worker_reported_blocked''),
      (hr_max_turns r \<le> hr_turn_count r, ''turn_limit_reached'', ''turn_budget_consumed''),
      (\<not> hr_continuation_enabled r, ''completed'', ''continuation_disabled'')])"

definition turn_verdict :: "(bool \<times> string \<times> string) list \<Rightarrow> (string \<times> string) option" where
  "turn_verdict gs = map_option snd (find fst gs)"

text \<open>The readings of a state in which the client and the callbacks only read.\<close>

definition turn_reads ::
  "'w held_turn_client \<Rightarrow> 'w hold_turn_request \<Rightarrow> 'w \<Rightarrow> pdict \<Rightarrow> string \<Rightarrow> pdict option \<Rightarrow> bool \<Rightarrow> bool" where
  "turn_reads c r w t msg ver stop \<longleftrightarrow>
     wait_for_turn_terminal c (hr_thread_id r) (hr_turn_id r) (hr_control_poll r) w = (Inr t, w) \<and>
     (py_str (py_or (dget t ''status'') (PStr ''unknown'')) = ''completed'' \<longrightarrow>
        (\<exists>v. wait_for_turn_readback c (hr_thread_id r) (hr_turn_id r)
               (hr_receive_final_answer r \<noteq> None) w = (Inr v, w) \<and> msg = text_or_empty v)) \<and>
     (py_str (py_or (dget t ''status'') (PStr ''unknown'')) \<noteq> ''completed'' \<longrightarrow> msg = []) \<and>
     turn_verify r msg w = (Inr ver, w) \<and>
     (case hr_stop_requested r of None \<Rightarrow> \<not> stop | Some f \<Rightarrow> f w = (Inr stop, w)) \<and>
     (\<forall>v. ver = Some v \<longrightarrow> (\<exists>b. str_member (dget v ''status'') accepted_verifications = Inr b))"

lemma str_member_Inr: "str_member v S = Inr b \<Longrightarrow> b \<longleftrightarrow> v \<in> PStr ` set S"
  by (cases v) (auto simp: str_member_def)

lemma gates_read:
  assumes "case hr_stop_requested r of None \<Rightarrow> \<not> stop | Some f \<Rightarrow> f w = (Inr stop, w)"
  shows "turn_gates r msg v w =
    (Inr (if stop then turn_stop r (turn_command_id r) ''cancelled'' msg ''stop_requested'' PNone
          else if worker_reported_blocked msg
               (hr_receive_final_answer r \<noteq> None \<or> dget v ''status'' = PStr ''review'') then
            turn_stop r (turn_command_id r) ''blocked'' msg ''worker_reported_blocked'' PNone
          else if hr_max_turns r \<le> hr_turn_count r then
            turn_stop r (turn_command_id r) ''turn_limit_reached'' msg ''turn_budget_consumed'' PNone
          else if \<not> hr_continuation_enabled r then
            turn_stop r (turn_command_id r) ''completed'' msg ''continuation_disabled'' PNone
          else turn_continue r (turn_command_id r) msg), w)"
  using assms by (cases "hr_stop_requested r") (auto simp: turn_gates_def)

text \<open>
  C22: the monitor stops for the first reason of the list that applies and continues when none
  does: the reasons are checked in a fixed order (turn not completed, final answer missing,
  output not accepted, stop requested, worker reported blocked, budget spent, continuation off),
  and each reports its own status and reason.
\<close>

theorem turn_stop_reason_order:
  assumes "turn_reads c r w t msg ver stop"
  shows "turn_observe c r w =
    (Inr (case turn_verdict (turn_guards r t msg ver stop) of
        None \<Rightarrow> turn_continue r (turn_command_id r) msg
      | Some (status, reason) \<Rightarrow> turn_stop r (turn_command_id r) status msg reason
          (if py_str (py_or (dget t ''status'') (PStr ''unknown'')) = ''completed'' then PNone
           else dget t ''error'')), w)"
proof (cases "py_str (py_or (dget t ''status'') (PStr ''unknown'')) = ''completed''")
  case False
  then show ?thesis
    using assms
    by (simp add: turn_reads_def turn_observe_def turn_guards_def turn_verdict_def Let_def)
next
  case True
  have stop: "case hr_stop_requested r of None \<Rightarrow> \<not> stop | Some f \<Rightarrow> f w = (Inr stop, w)"
    and ver: "turn_verify r msg w = (Inr ver, w)"
    and wait: "wait_for_turn_terminal c (hr_thread_id r) (hr_turn_id r) (hr_control_poll r) w = (Inr t, w)"
    using assms by (simp_all add: turn_reads_def)
  obtain v where read: "wait_for_turn_readback c (hr_thread_id r) (hr_turn_id r)
      (hr_receive_final_answer r \<noteq> None) w = (Inr v, w)" "msg = text_or_empty v"
    using assms True by (auto simp: turn_reads_def)
  have "turn_observe c r w = turn_completed r msg w"
    using True wait read by (simp add: turn_observe_def)
  moreover have "turn_completed r msg w = (Inr (case turn_verdict (turn_guards r t msg ver stop) of
        None \<Rightarrow> turn_continue r (turn_command_id r) msg
      | Some (status, reason) \<Rightarrow> turn_stop r (turn_command_id r) status msg reason PNone), w)"
  proof (cases ver)
    case None
    then show ?thesis
      using True ver gates_read [OF stop]
      by (simp add: turn_completed_def turn_guards_def turn_verdict_def Let_def)
  next
    case (Some d)
    then obtain b where b: "str_member (dget d ''status'') accepted_verifications = Inr b"
      using assms by (auto simp: turn_reads_def)
    show ?thesis
      using True Some ver b str_member_Inr [OF b] gates_read [OF stop]
      by (simp add: turn_completed_def turn_guards_def turn_verdict_def Let_def)
  qed
  ultimately show ?thesis using True by simp
qed

text \<open>A client and callbacks that only read, for the witnesses.\<close>

definition demo_turn_client :: "unit held_turn_client" where
  "demo_turn_client = \<lparr> wait_for_turn_terminal = (\<lambda>th tu p. io_return [(''status'', PStr ''completed'')]),
     wait_for_turn_readback = (\<lambda>th tu b. io_return (PStr ''All done'')) \<rparr>"

definition demo_turn_request :: "int \<Rightarrow> unit hold_turn_request" where
  "demo_turn_request n = \<lparr> hr_hold_id = ''h'', hr_thread_id = ''t'', hr_turn_id = ''u'',
     hr_turn_count = n, hr_max_turns = 3, hr_continuation_enabled = True,
     hr_continue_prompt = ''go on'',
     hr_notification_policy = \<lparr> milestone_turns = [PInt 3], np_terminal = True \<rparr>,
     hr_verify_output = Some (io_return [(''status'', PStr ''verified'')]),
     hr_stop_requested = Some (io_return False), hr_control_poll = None,
     hr_receive_final_answer = None \<rparr>"

lemma demo_turn_reads:
  "turn_reads demo_turn_client (demo_turn_request n) () [(''status'', PStr ''completed'')]
     ''All done'' (Some [(''status'', PStr ''verified'')]) False"
  by (simp add: turn_reads_def demo_turn_client_def demo_turn_request_def turn_verify_def
      py_or_def text_or_empty_def)

lemma turn_stop_reason_order_witness:
  "map_option id (turn_verdict (turn_guards (demo_turn_request 3) [(''status'', PStr ''completed'')]
      ''All done'' (Some [(''status'', PStr ''verified'')]) False)) =
     Some (''turn_limit_reached'', ''turn_budget_consumed'') \<and>
   fst (turn_observe demo_turn_client (demo_turn_request 3) ()) =
     Inr (turn_stop (demo_turn_request 3) (turn_command_id (demo_turn_request 3))
       ''turn_limit_reached'' ''All done'' ''turn_budget_consumed'' PNone)"
proof -
  have "turn_verdict (turn_guards (demo_turn_request 3) [(''status'', PStr ''completed'')]
      ''All done'' (Some [(''status'', PStr ''verified'')]) False) =
     Some (''turn_limit_reached'', ''turn_budget_consumed'')"
    by code_simp
  then show ?thesis
    using turn_stop_reason_order [OF demo_turn_reads [of 3]] by (simp add: py_or_def)
qed

text \<open>
  Every decision is bound to the observed turn. Its command id, hold id and turn id are those
  of the request, every event carries the hold, thread, turn and count of the request, the event
  ids are distinct, and there is exactly one terminal event, for a STOP under a policy that asks
  for it. A CONTINUE is only given under the turn budget, with continuation enabled, for a final
  message that does not report itself blocked, and it carries the request's own prompt.
\<close>

theorem turn_decision_bound:
  assumes "turn_observe c r w = (Inr d, w')"
  shows "decision_of_turn r d \<and>
    (hd_action d = ''STOP'' \<and> hd_continue_prompt d = None \<or>
     hd_action d = ''CONTINUE'' \<and> may_continue r d)"
  using sound_observe [OF assms] by (simp add: sound_decision_def)

lemma turn_decision_bound_witness:
  "\<exists>d. turn_observe demo_turn_client (demo_turn_request 1) () = (Inr d, ()) \<and>
     decision_of_turn (demo_turn_request 1) d \<and>
     (hd_action d = ''STOP'' \<and> hd_continue_prompt d = None \<or>
      hd_action d = ''CONTINUE'' \<and> may_continue (demo_turn_request 1) d)"
proof -
  obtain d where "turn_observe demo_turn_client (demo_turn_request 1) () = (Inr d, ())"
  proof -
    have "turn_observe demo_turn_client (demo_turn_request 1) () =
        turn_completed (demo_turn_request 1) ''All done'' ()"
      by (simp add: turn_observe_def demo_turn_client_def demo_turn_request_def py_or_def
          text_or_empty_def)
    also have "\<dots> = turn_gates (demo_turn_request 1) ''All done'' [(''status'', PStr ''verified'')] ()"
      by (simp add: turn_completed_def turn_verify_def demo_turn_request_def accepted_verifications_def)
    finally have gates: "turn_observe demo_turn_client (demo_turn_request 1) () =
        turn_gates (demo_turn_request 1) ''All done'' [(''status'', PStr ''verified'')] ()" .
    have "case hr_stop_requested (demo_turn_request 1) of None \<Rightarrow> \<not> False
        | Some f \<Rightarrow> f () = (Inr False, ())"
      by (simp add: demo_turn_request_def)
    then show ?thesis by (rule that [OF trans [OF gates gates_read]])
  qed
  then show ?thesis by (intro exI conjI) (assumption, rule turn_decision_bound [THEN conjunct1], assumption, rule turn_decision_bound [THEN conjunct2], assumption)
qed

end
