(* ===== verification/Store_Machine.thy ===== *)
theory Store_Machine
  imports Py_IO
begin

text \<open>
  Interfaces shared by the durable stores. A store is a machine: an operation takes the store to
  an outcome and a new store.

  \<^item> \<open>store_machine\<close>: an invariant every operation keeps, whatever its outcome; then every store
    that a sequence of operations reaches satisfies it.
  \<^item> \<open>step_system\<close>: the same for a nondeterministic step relation.
  \<^item> \<open>counted_machine\<close>: a bookkeeping law for one kind of token. An operation may give tokens
    and may take them, and the store holds a number of them; then over any sequence of
    operations no more tokens are taken than were given.
\<close>

fun run_ops :: "('op \<Rightarrow> 's \<Rightarrow> 'out \<times> 's) \<Rightarrow> 'op list \<Rightarrow> 's \<Rightarrow> 'out list \<times> 's" where
  "run_ops step [] s = ([], s)"
| "run_ops step (a # as) s =
     (case step a s of (r, s') \<Rightarrow> (case run_ops step as s' of (rs, s'') \<Rightarrow> (r # rs, s'')))"

text \<open>The sum of a measure of the operations and their outcomes.\<close>

definition total :: "('op \<Rightarrow> 'out \<Rightarrow> nat) \<Rightarrow> 'op list \<Rightarrow> 'out list \<Rightarrow> nat" where
  "total f as rs = sum_list (map (\<lambda>(a, r). f a r) (zip as rs))"

lemma total_simps [simp]:
  "total f [] [] = 0"
  "total f (a # as) (r # rs) = f a r + total f as rs"
  by (simp_all add: total_def)

lemma run_ops_append:
  "run_ops step (as @ bs) s =
     (case run_ops step as s of (rs, s') \<Rightarrow>
        (case run_ops step bs s' of (qs, s'') \<Rightarrow> (rs @ qs, s'')))"
  by (induction as arbitrary: s) (auto split: prod.splits)

locale store_machine =
  fixes step :: "'op \<Rightarrow> 's \<Rightarrow> 'out \<times> 's"
    and inv :: "'s \<Rightarrow> bool"
  assumes step_inv: "inv s \<Longrightarrow> inv (snd (step a s))"
begin

lemma run_inv: "inv s \<Longrightarrow> inv (snd (run_ops step as s))"
proof (induction as arbitrary: s)
  case (Cons a as)
  have "inv (snd (step a s))" using Cons.prems by (rule step_inv)
  then show ?case using Cons.IH by (auto split: prod.splits) (metis snd_conv)+
qed simp

lemma run_inv_eq: "run_ops step as s = (rs, s') \<Longrightarrow> inv s \<Longrightarrow> inv s'"
  using run_inv [of s as] by simp

end

locale counted_machine = store_machine step inv
  for step :: "'op \<Rightarrow> 's \<Rightarrow> 'out \<times> 's" and inv :: "'s \<Rightarrow> bool" +
  fixes gives takes :: "'op \<Rightarrow> 'out \<Rightarrow> nat"
    and level :: "'s \<Rightarrow> nat"
  assumes balance: "inv s \<Longrightarrow> step a s = (r, s') \<Longrightarrow> level s' + takes a r \<le> level s + gives a r"
begin

lemma run_balance:
  "run_ops step as s = (rs, s') \<Longrightarrow> inv s \<Longrightarrow>
     level s' + total takes as rs \<le> level s + total gives as rs"
proof (induction as arbitrary: s rs s')
  case (Cons a as)
  obtain r s1 where step: "step a s = (r, s1)" by (cases "step a s")
  obtain qs s2 where run: "run_ops step as s1 = (qs, s2)" by (cases "run_ops step as s1")
  have "inv s1" using step_inv [OF Cons.prems(2), of a] step by simp
  then have "level s2 + total takes as qs \<le> level s1 + total gives as qs"
    using Cons.IH [OF run] by blast
  moreover have "level s1 + takes a r \<le> level s + gives a r"
    by (rule balance [OF Cons.prems(2) step])
  ultimately show ?case using Cons.prems(1) step run by auto
qed simp

lemma taken_at_most_given:
  "run_ops step as s = (rs, s') \<Longrightarrow> inv s \<Longrightarrow> level s = 0 \<Longrightarrow> total takes as rs \<le> total gives as rs"
  using run_balance [of as s rs s'] by linarith

end

locale step_system =
  fixes step :: "'s \<Rightarrow> 's \<Rightarrow> bool"
    and inv :: "'s \<Rightarrow> bool"
  assumes step_inv: "inv s \<Longrightarrow> step s s' \<Longrightarrow> inv s'"
begin

lemma reach_inv: "step\<^sup>*\<^sup>* s s' \<Longrightarrow> inv s \<Longrightarrow> inv s'"
  by (induction rule: rtranclp_induct) (auto intro: step_inv)

end

end
