(* ===== verification/Dispatcher_Store.thy ===== *)
theory Dispatcher_Store
  imports Store_Machine Py_Json Iso_Time
begin

text \<open>
  The durable dispatcher store, \<open>packages/jarvis_runtime/coo_dispatcher_store.py\<close> class
  \<open>DispatcherStore\<close>: the binding and state files, the packet files, and the append-only ledgers
  of events, executions, outbox items, deliveries and audit records.

  Every mutating operation of the code runs inside the store's \<open>ProcessLock\<close>, so it is one
  transition here. What was written before an exception stays written. The clock is one reading
  \<open>now\<close> per operation; the fresh hexadecimal text of \<open>uuid4\<close> and the SHA-256 digest are
  arguments. A packet file is named by its confirmation id. Epochs are whole numbers.
\<close>

section \<open>The vocabulary of the store\<close>

definition dispatcher_states :: "string list" where
  "dispatcher_states = [''IDLE'', ''DISCUSSING'', ''PACKET_DRAFT'', ''AWAITING_CONFIRMATION'',
     ''DISPATCHED'', ''MONITORING'', ''RESULT_REVIEW'', ''COMPLETE'', ''CANCELLED'', ''BLOCKED'']"

definition business_statuses :: "string list" where
  "business_statuses = [''not_started'', ''running'', ''succeeded'', ''failed'', ''blocked'', ''cancelled'']"

definition event_processing_statuses :: "string list" where
  "event_processing_statuses = [''queued'', ''processing'', ''completed'', ''failed'', ''ignored'']"

definition event_enrichment_fields :: "string list" where
  "event_enrichment_fields = [''attachments'', ''context_events'', ''not_before_epoch'',
     ''attachment_status'', ''jarvis_route'']"

text \<open>The required fields of a packet, in the sorted order the error message lists them.\<close>

definition packet_required_fields :: "string list" where
  "packet_required_fields = [''completion_criteria'', ''data_sources'', ''deliverables'',
     ''execution_scope'', ''must_load_skills'', ''risk_actions'', ''target_execution_thread'',
     ''target_project'', ''task_understanding'', ''write_allowed'', ''write_forbidden'']"

record dstore =
  ds_binding :: "pdict option"
  ds_state :: "pdict option"
  ds_packets :: "string \<rightharpoonup> pdict"
  ds_events :: "pdict list"
  ds_registry :: "pdict list"
  ds_outbox :: "pdict list"
  ds_delivery :: "pdict list"
  ds_audit :: "pdict list"

definition empty_dstore :: dstore where
  "empty_dstore = \<lparr> ds_binding = None, ds_state = None, ds_packets = Map.empty, ds_events = [],
     ds_registry = [], ds_outbox = [], ds_delivery = [], ds_audit = [] \<rparr>"

section \<open>Files\<close>

definition read_file :: "string \<Rightarrow> pdict option \<Rightarrow> pdict result" where
  "read_file path f = (case f of None \<Rightarrow> Inl (DispatcherError (''cannot read '' @ path)) | Some d \<Rightarrow> Inr d)"

definition d_state :: "(dstore, pdict) io" where
  "d_state s = (read_file ''state.json'' (ds_state s), s)"

definition d_binding :: "(dstore, pdict) io" where
  "d_binding s = (read_file ''binding.json'' (ds_binding s), s)"

definition read_packet :: "string \<Rightarrow> (dstore, pdict) io" where
  "read_packet cid s = (read_file (cid @ ''.json'') (ds_packets s cid), s)"

definition write_packet :: "string \<Rightarrow> pdict \<Rightarrow> (dstore, unit) io" where
  "write_packet cid d = io_modify (\<lambda>s. s\<lparr> ds_packets := (ds_packets s)(cid \<mapsto> d) \<rparr>)"

definition write_binding :: "pdict \<Rightarrow> (dstore, unit) io" where
  "write_binding d = io_modify (\<lambda>s. s\<lparr> ds_binding := Some d \<rparr>)"

definition d_append ::
  "((pdict list \<Rightarrow> pdict list) \<Rightarrow> dstore \<Rightarrow> dstore) \<Rightarrow> pdict \<Rightarrow> (dstore, unit) io" where
  "d_append upd r = io_modify (upd (\<lambda>l. l @ [r]))"

definition save_state :: "instant \<Rightarrow> pdict \<Rightarrow> (dstore, pdict) io" where
  "save_state now st =
     io_bind (io_lift (str_member (dget st ''status'') dispatcher_states)) (\<lambda>ok.
     io_then (io_check (\<not> ok) (DispatcherError (''invalid dispatcher status: '' @ py_str (dget st ''status''))))
     (io_then (io_modify (\<lambda>s. s\<lparr> ds_state := Some (dset st ''updated_at'' (PStr (isoformat now))) \<rparr>))
     (io_return (dset st ''updated_at'' (PStr (isoformat now))))))"

definition d_audit :: "instant \<Rightarrow> string \<Rightarrow> pdict \<Rightarrow> (dstore, unit) io" where
  "d_audit now action detail = d_append ds_audit_update
     [(''recorded_at'', PStr (isoformat now)), (''action'', PStr action), (''detail'', PDict detail)]"

definition d_status :: "(dstore, pdict) io" where
  "d_status = io_bind d_binding (\<lambda>b. io_bind d_state (\<lambda>st.
     io_return [(''binding'', PDict b), (''state'', PDict st)]))"

definition initial_binding :: "instant \<Rightarrow> string \<Rightarrow> string \<Rightarrow> string \<Rightarrow> pdict" where
  "initial_binding now thread name project =
    [(''version'', PInt 1), (''dispatcher_name'', PStr name), (''dispatcher_thread_id'', PStr thread),
     (''project'', PStr project), (''thread_role'', PStr ''fixed_coo_dispatcher''),
     (''source_requirement_thread_id'', PStr ''019f74a1-2bb2-7fd3-aa58-294c07591723''),
     (''expected_bot_profile'', PNone), (''expected_app_id'', PNone),
     (''expected_bot_open_id'', PNone), (''expected_tenant_key'', PNone),
     (''cooper_open_id'', PNone), (''allowed_chat_ids'', PList []),
     (''identity_status'', PStr ''unverified''), (''live_ingress_enabled'', PBool False),
     (''live_send_enabled'', PBool False), (''live_dispatch_enabled'', PBool False),
     (''updated_at'', PStr (isoformat now))]"

definition initial_state :: "instant \<Rightarrow> string \<Rightarrow> string \<Rightarrow> pdict" where
  "initial_state now thread name =
    [(''version'', PInt 1), (''dispatcher_name'', PStr name), (''dispatcher_thread_id'', PStr thread),
     (''status'', PStr ''IDLE''), (''current_event_id'', PNone), (''current_confirmation_id'', PNone),
     (''confirmation_status'', PStr ''none''), (''current_execution_thread_id'', PNone),
     (''business_status'', PStr ''not_started''), (''delivery_status'', PStr ''not_attempted''),
     (''last_delivery_error'', PNone), (''live_service_started'', PBool False),
     (''last_error'', PNone), (''updated_at'', PStr (isoformat now))]"

definition bootstrap ::
  "instant \<Rightarrow> string \<Rightarrow> string \<Rightarrow> string \<Rightarrow> pdict \<Rightarrow> (dstore, pdict) io" where
  "bootstrap now thread name project overrides =
     io_then (io_modify (\<lambda>s. if ds_binding s = None
        then s\<lparr> ds_binding := Some (dmerge (initial_binding now thread name project) overrides) \<rparr> else s))
     (io_then (io_modify (\<lambda>s. if ds_state s = None
        then s\<lparr> ds_state := Some (initial_state now thread name) \<rparr> else s))
     (io_then (d_audit now ''bootstrap'' [(''dispatcher_thread_id'', PStr thread), (''new_binding'', PBool True)])
     d_status))"

section \<open>Events\<close>

text \<open>\<open>str(d.get(k) or default)\<close>.\<close>

definition text_field :: "pdict \<Rightarrow> string \<Rightarrow> pyval" where
  "text_field d k = PStr (text_or_empty (dget d k))"

definition text_field2 :: "pdict \<Rightarrow> string \<Rightarrow> string \<Rightarrow> pyval" where
  "text_field2 d k l = PStr (text_or_empty (py_or (dget d k) (dget d l)))"

definition text_field_or :: "pdict \<Rightarrow> string \<Rightarrow> string \<Rightarrow> pyval" where
  "text_field_or d k v = PStr (py_str (py_or (dget d k) (PStr v)))"

fun py_chars :: "string \<Rightarrow> string list" where
  "py_chars [] = []"
| "py_chars (c # cs) =
     (case py_chars cs of
        (d # ds) # rest \<Rightarrow> if char_in 128 191 d then (c # d # ds) # rest else [c] # (d # ds) # rest
      | rest \<Rightarrow> [c] # rest)"

text \<open>\<open>list(v)\<close>.\<close>

fun py_list :: "pyval \<Rightarrow> pyval list result" where
  "py_list (PList xs) = Inr xs"
| "py_list (PDict d) = Inr (map (PStr \<circ> fst) d)"
| "py_list (PStr s) = Inr (map PStr (py_chars s))"
| "py_list _ = Inl (TypeError ''object is not iterable'')"

definition event_key_of :: "pdict \<Rightarrow> string" where
  "event_key_of event = stripped (py_or (dget event ''event_id'') (dget event ''message_id''))"

definition event_record :: "instant \<Rightarrow> pdict \<Rightarrow> pdict result" where
  "event_record now event =
     rbind (py_list (py_or (dget event ''attachments'') (PList []))) (\<lambda>atts.
     rbind (py_list (py_or (dget event ''context_events'') (PList []))) (\<lambda>ctx.
     rbind (py_int (py_or (dget event ''not_before_epoch'') (PInt 0))) (\<lambda>epoch.
     Inr
      [(''record_type'', PStr ''event_ingested''), (''recorded_at'', PStr (isoformat now)),
       (''event_key'', PStr (event_key_of event)),
       (''event_id'', text_field event ''event_id''),
       (''message_id'', PStr (stripped (dget event ''message_id''))),
       (''chat_id'', text_field event ''chat_id''),
       (''conversation_id'', text_field2 event ''conversation_id'' ''chat_id''),
       (''sender_open_id'', text_field event ''sender_open_id''),
       (''sender_id'', text_field2 event ''sender_id'' ''sender_open_id''),
       (''source_channel'', text_field_or event ''source_channel'' ''feishu''),
       (''source_event_id'', text_field event ''source_event_id''),
       (''source_message_id'', text_field event ''source_message_id''),
       (''correlation_id'', text_field event ''correlation_id''),
       (''reply_channel'', text_field event ''reply_channel''),
       (''reply_conversation_id'', text_field event ''reply_conversation_id''),
       (''event_type'', text_field_or event ''event_type'' ''message''),
       (''message_type'', text_field event ''message_type''),
       (''chat_type'', text_field event ''chat_type''),
       (''reply_to'', text_field event ''reply_to''),
       (''root_id'', text_field event ''root_id''),
       (''thread_id'', text_field event ''thread_id''),
       (''timestamp'', text_field event ''timestamp''),
       (''content'', text_field event ''content''),
       (''attachments'', PList atts), (''context_events'', PList ctx),
       (''not_before_epoch'', PInt epoch),
       (''attachment_status'', text_field event ''attachment_status''),
       (''processing_status'', PStr ''queued'')])))"

definition has_event_key :: "string \<Rightarrow> pdict \<Rightarrow> bool" where
  "has_event_key k r \<longleftrightarrow> dget r ''event_key'' = PStr k"

definition ingest_event :: "instant \<Rightarrow> pdict \<Rightarrow> (dstore, pdict) io" where
  "ingest_event now event =
     (let key = event_key_of event in
      io_then (io_check (key = []) (DispatcherError ''event_id or message_id is required''))
      (io_bind (io_get ds_events) (\<lambda>ledger.
       if list_ex (has_event_key key) ledger
       then io_return [(''accepted'', PBool False), (''duplicate'', PBool True), (''event_key'', PStr key)]
       else io_bind (io_lift (event_record now event)) (\<lambda>record.
         io_then (d_append ds_events_update record)
         (io_bind d_state (\<lambda>st.
          io_bind (io_lift (dindex st ''status'')) (\<lambda>status.
          io_bind (io_lift (str_member status [''IDLE'', ''COMPLETE'', ''CANCELLED''])) (\<lambda>idle.
          io_bind (save_state now
            (dset (if idle then dset st ''status'' (PStr ''DISCUSSING'') else st)
              ''current_event_id'' (PStr key))) (\<lambda>_.
          io_then (d_audit now ''event_ingested''
            [(''event_key'', PStr key), (''message_id'', PStr (stripped (dget event ''message_id'')))])
          (io_return [(''accepted'', PBool True), (''duplicate'', PBool False),
             (''event_key'', PStr key)]))))))))))"

definition is_ingested :: "pdict \<Rightarrow> bool" where
  "is_ingested r \<longleftrightarrow> dget_or r ''record_type'' (PStr ''event_ingested'') = PStr ''event_ingested''"

definition known_event :: "string \<Rightarrow> pdict list \<Rightarrow> bool" where
  "known_event k ledger \<longleftrightarrow> list_ex (\<lambda>r. has_event_key k r \<and> is_ingested r) ledger"

definition record_event_status ::
  "instant \<Rightarrow> string \<Rightarrow> string \<Rightarrow> string option \<Rightarrow> string option \<Rightarrow> (dstore, pdict) io" where
  "record_event_status now key status err response =
     io_then (io_check (status \<notin> set event_processing_statuses)
       (DispatcherError (''invalid event processing status: '' @ status)))
     (io_bind (io_get ds_events) (\<lambda>ledger.
      io_then (io_check (\<not> known_event key ledger) (DispatcherError (''unknown event_key: '' @ key)))
      (let record = [(''record_type'', PStr ''event_status''), (''recorded_at'', PStr (isoformat now)),
         (''event_key'', PStr key), (''processing_status'', PStr status),
         (''error'', opt_str err), (''response_outbox_id'', opt_str response)] in
       io_then (d_append ds_events_update record)
       (io_bind d_state (\<lambda>st.
        io_bind (save_state now
          (if status = ''processing'' then dset st ''status'' (PStr ''DISCUSSING'')
           else if status = ''failed'' then dset st ''last_error''
             (py_or (opt_str err) (PStr (''event '' @ key @ '' processing failed'')))
           else st)) (\<lambda>_.
        io_then (d_audit now ''event_status_recorded'' record) (io_return record)))))))"

definition record_event_enrichment ::
  "instant \<Rightarrow> string \<Rightarrow> pdict \<Rightarrow> (dstore, pdict) io" where
  "record_event_enrichment now key enrichment =
     (let unknown = sort (remdups (filter (\<lambda>f. f \<notin> set event_enrichment_fields) (map fst enrichment))) in
      io_then (io_check (unknown \<noteq> [])
        (DispatcherError (''unsupported event enrichment fields: '' @ py_join '', '' unknown)))
      (io_bind (io_get ds_events) (\<lambda>ledger.
       io_then (io_check (\<not> known_event key ledger) (DispatcherError (''unknown event_key: '' @ key)))
       (let record = [(''record_type'', PStr ''event_enriched''), (''recorded_at'', PStr (isoformat now)),
          (''event_key'', PStr key), (''enrichment'', PDict enrichment)] in
        io_then (d_append ds_events_update record)
        (io_then (d_audit now ''event_enriched''
           [(''event_key'', PStr key), (''fields'', PList (map PStr (sort (map fst enrichment))))])
        (io_return record))))))"


text \<open>
  \<open>_materialized_events\<close>: one pass over the ledger that keeps the first record of a key,
  updated by its enrichments, and the last status of a key.
\<close>

type_synonym event_view = "(string \<times> pdict) list \<times> (string \<times> string) list"

definition setdefault :: "'k \<Rightarrow> 'v \<Rightarrow> ('k \<times> 'v) list \<Rightarrow> ('k \<times> 'v) list" where
  "setdefault k v d = (if map_of d k = None then AList.update k v d else d)"

definition materialize :: "event_view \<Rightarrow> pdict \<Rightarrow> event_view" where
  "materialize view r =
     (let ingested = fst view; statuses = snd view; key = text_or_empty (dget r ''event_key'');
          kind = dget_or r ''record_type'' (PStr ''event_ingested'') in
      if key = [] then view
      else if kind = PStr ''event_ingested'' then
        (setdefault key r ingested,
         setdefault key (py_str (py_or (dget r ''processing_status'') (PStr ''queued''))) statuses)
      else if kind = PStr ''event_enriched'' \<and> map_of ingested key \<noteq> None then
        (case dget r ''enrichment'' of
           PDict e \<Rightarrow> (AList.update key (dmerge (the (map_of ingested key)) e) ingested, statuses)
         | _ \<Rightarrow> view)
      else if kind = PStr ''event_status'' then
        (ingested, AList.update key (text_or_empty (dget r ''processing_status'')) statuses)
      else view)"

definition materialized_events :: "pdict list \<Rightarrow> event_view" where
  "materialized_events ledger = foldl materialize ([], []) ledger"

definition pending_events :: "pdict list \<Rightarrow> pdict list" where
  "pending_events ledger =
     (let view = materialized_events ledger in
      map snd (filter (\<lambda>(k, r). map_of (snd view) k \<in> Some ` {''queued'', ''processing'', ''failed''})
        (fst view)))"

definition event_by_message_id :: "pdict list \<Rightarrow> string \<Rightarrow> pdict option" where
  "event_by_message_id ledger message_id =
     (let target = py_strip message_id; view = materialized_events ledger in
      if target = [] then None
      else map_option (\<lambda>(k, r). dset r ''processing_status'' (opt_str (map_of (snd view) k)))
        (find (\<lambda>(k, r). text_or_empty (dget r ''message_id'') = target) (rev (fst view))))"

definition event_processing_status :: "pdict list \<Rightarrow> string \<Rightarrow> string option" where
  "event_processing_status ledger key =
     foldl (\<lambda>status r.
        if text_or_empty (dget r ''event_key'') \<noteq> key then status
        else if is_ingested r then Some (py_str (py_or (dget r ''processing_status'') (PStr ''queued'')))
        else if dget r ''record_type'' = PStr ''event_status''
          then Some (text_or_empty (dget r ''processing_status''))
        else status) None ledger"

section \<open>Packets\<close>

text \<open>The compact stamp \<open>%Y%m%d%H%M%S\<close>: the digits of the first 19 characters of the ISO form.\<close>

definition compact_stamp :: "instant \<Rightarrow> string" where
  "compact_stamp now = filter (\<lambda>c. digit_val c \<noteq> None) (take 19 (isoformat now))"

definition packet_confirmation_id :: "instant \<Rightarrow> string \<Rightarrow> pdict \<Rightarrow> string" where
  "packet_confirmation_id now fresh packet =
     (let given = stripped (dget packet ''confirmation_id'') in
      if given \<noteq> [] then given
      else ''confirm-'' @ compact_stamp now @ ''-'' @ py_take 8 fresh)"

definition packet_expires_at :: "instant \<Rightarrow> pdict \<Rightarrow> string" where
  "packet_expires_at now packet =
     (let given = stripped (dget packet ''expires_at'') in
      if given \<noteq> [] then given else isoformat (now + 86400000000))"

definition supersede_previous :: "instant \<Rightarrow> pyval \<Rightarrow> (dstore, unit) io" where
  "supersede_previous now previous_id =
     (if \<not> truthy previous_id then io_return ()
      else io_bind (io_get (\<lambda>s. ds_packets s (py_str previous_id))) (\<lambda>previous.
        case previous of
          None \<Rightarrow> io_return ()
        | Some p \<Rightarrow> if dget p ''status'' = PStr ''pending''
            then write_packet (py_str previous_id)
              (dset (dset p ''status'' (PStr ''superseded'')) ''superseded_at'' (PStr (isoformat now)))
            else io_return ()))"

definition create_packet :: "instant \<Rightarrow> string \<Rightarrow> pdict \<Rightarrow> (dstore, pdict) io" where
  "create_packet now fresh packet =
     (let missing = filter (\<lambda>f. \<not> dhas packet f) packet_required_fields;
          cid = packet_confirmation_id now fresh packet in
      io_then (io_check (missing \<noteq> [])
        (DispatcherError (''packet missing required fields: '' @ py_join '', '' missing)))
      (io_bind d_state (\<lambda>st.
       let previous_id = dget st ''current_confirmation_id'';
           value = dmerge packet [(''confirmation_id'', PStr cid),
             (''expires_at'', PStr (packet_expires_at now packet)),
             (''status'', PStr ''pending''), (''created_at'', PStr (isoformat now))] in
       io_then (supersede_previous now previous_id)
       (io_then (write_packet cid value)
       (io_bind (save_state now (dset (dset (dset st ''status'' (PStr ''AWAITING_CONFIRMATION''))
           ''current_confirmation_id'' (PStr cid)) ''confirmation_status'' (PStr ''pending''))) (\<lambda>_.
        io_then (d_audit now ''packet_created''
          [(''confirmation_id'', PStr cid), (''previous_id'', previous_id)])
        (io_return value)))))))"

definition packet_expiry :: "pdict \<Rightarrow> instant result" where
  "packet_expiry packet =
     (case map_of packet ''expires_at'' of
        None \<Rightarrow> Inl (DispatcherError ''packet expires_at is invalid'')
      | Some v \<Rightarrow> (case parse_instant (py_str v) of
          None \<Rightarrow> Inl (DispatcherError ''packet expires_at is invalid'')
        | Some t \<Rightarrow> Inr t))"

text \<open>The packet and the state after a decision of a pending packet.\<close>

definition decided_packet :: "string \<Rightarrow> string option \<Rightarrow> pdict \<Rightarrow> pdict" where
  "decided_packet decision modification packet =
     (if decision = ''confirm'' then dset packet ''status'' (PStr ''confirmed'')
      else if decision = ''modify'' then
        dset (dset packet ''status'' (PStr ''modification_requested''))
          ''modification'' (PStr (case modification of None \<Rightarrow> [] | Some m \<Rightarrow> m))
      else dset packet ''status'' (PStr ''cancelled''))"

definition decided_state :: "string \<Rightarrow> pdict \<Rightarrow> pdict" where
  "decided_state decision st =
     (if decision = ''confirm'' then
        dset (dset st ''status'' (PStr ''AWAITING_CONFIRMATION'')) ''confirmation_status'' (PStr ''confirmed'')
      else if decision = ''modify'' then
        dset (dset st ''status'' (PStr ''DISCUSSING'')) ''confirmation_status'' (PStr ''modification_requested'')
      else dset (dset st ''status'' (PStr ''CANCELLED'')) ''confirmation_status'' (PStr ''cancelled''))"

definition decide_packet ::
  "instant \<Rightarrow> string \<Rightarrow> string \<Rightarrow> string \<Rightarrow> string option \<Rightarrow> (dstore, pdict) io" where
  "decide_packet now cid decision0 actor modification =
     (let decision = py_lower decision0 in
      io_then (io_check (decision \<notin> {''confirm'', ''modify'', ''cancel''})
        (DispatcherError ''decision must be confirm, modify, or cancel''))
      (io_bind d_state (\<lambda>st.
       io_then (io_check (dget st ''current_confirmation_id'' \<noteq> PStr cid)
         (DispatcherError ''confirmation id is not the active packet''))
       (io_bind (read_packet cid) (\<lambda>packet.
        io_then (io_check (dget packet ''status'' \<noteq> PStr ''pending'')
          (DispatcherError (''packet is not pending: '' @ py_str (dget packet ''status''))))
        (io_bind (io_lift (packet_expiry packet)) (\<lambda>expiry.
         if expiry < now then
           io_then (write_packet cid (dset packet ''status'' (PStr ''expired'')))
           (io_bind (save_state now (dset (dset st ''status'' (PStr ''BLOCKED''))
               ''confirmation_status'' (PStr ''expired''))) (\<lambda>_.
            io_raise (DispatcherError ''packet confirmation has expired'')))
         else
           let packet1 = decided_packet decision modification
             (dset (dset packet ''decided_at'' (PStr (isoformat now))) ''decided_by'' (PStr actor)) in
           io_then (write_packet cid packet1)
           (io_bind (save_state now (decided_state decision st)) (\<lambda>_.
            io_then (d_audit now ''packet_decided''
              [(''confirmation_id'', PStr cid), (''decision'', PStr decision), (''actor'', PStr actor)])
            (io_return packet1))))))))))"

definition mark_dispatched ::
  "instant \<Rightarrow> string \<Rightarrow> string \<Rightarrow> string \<Rightarrow> (dstore, pdict) io" where
  "mark_dispatched now cid thread mode =
     io_bind d_binding (\<lambda>b.
     io_then (io_check (\<not> truthy (dget b ''live_dispatch_enabled''))
       (DispatcherError ''live dispatch is disabled in binding.json''))
     (io_bind d_state (\<lambda>st.
      io_then (io_check (dget st ''current_confirmation_id'' \<noteq> PStr cid)
        (DispatcherError ''confirmation id is not active''))
      (io_bind (read_packet cid) (\<lambda>packet.
       io_then (io_check (dget packet ''status'' \<noteq> PStr ''confirmed'')
         (DispatcherError ''packet must be confirmed before dispatch''))
       (let record = [(''recorded_at'', PStr (isoformat now)), (''confirmation_id'', PStr cid),
          (''execution_thread_id'', PStr thread), (''execution_mode'', PStr mode),
          (''status'', PStr ''dispatched'')] in
        io_then (d_append ds_registry_update record)
        (io_then (write_packet cid (dset (dset (dset packet ''status'' (PStr ''dispatched''))
            ''execution_thread_id'' (PStr thread)) ''dispatched_at'' (PStr (isoformat now))))
        (io_bind (save_state now (dset (dset st ''status'' (PStr ''DISPATCHED''))
            ''current_execution_thread_id'' (PStr thread))) (\<lambda>_.
         io_then (d_audit now ''packet_dispatched'' record) (io_return record))))))))))"

section \<open>Native tasks and the bot identity\<close>

definition blank_fields :: "pdict \<Rightarrow> string list \<Rightarrow> string list" where
  "blank_fields d names = filter (\<lambda>f. stripped (dget d f) = []) names"

definition native_task_fields :: "string list" where
  "native_task_fields = [''origin'', ''project'', ''project_path'', ''request_id'', ''source_channel'',
     ''source_thread_id'', ''thread_id'']"

definition same_native_task :: "pdict \<Rightarrow> pdict \<Rightarrow> bool" where
  "same_native_task task existing \<longleftrightarrow>
     dget existing ''record_type'' = PStr ''native_task_created'' \<and>
     (py_eq (dget existing ''request_id'') (dget task ''request_id'') \<or>
      text_or_empty (dget task ''correlation_id'') \<noteq> [] \<and>
      dget existing ''correlation_id'' = PStr (text_or_empty (dget task ''correlation_id'')))"

definition register_native_task :: "instant \<Rightarrow> pdict \<Rightarrow> (dstore, pdict) io" where
  "register_native_task now task =
     (let missing = blank_fields task native_task_fields in
      io_then (io_check (missing \<noteq> [])
        (DispatcherError (''native task registration missing fields: '' @ py_join '', '' missing)))
      (io_bind (io_get ds_registry) (\<lambda>registry.
       case find (same_native_task task) registry of
         Some existing \<Rightarrow> io_return [(''registered'', PBool False), (''duplicate'', PBool True),
           (''record'', PDict existing)]
       | None \<Rightarrow>
         io_bind d_binding (\<lambda>b.
         let record = dmerge task [(''record_type'', PStr ''native_task_created''),
           (''recorded_at'', PStr (isoformat now)),
           (''status'', PStr (py_str (py_or (dget task ''status'') (PStr ''created'')))),
           (''controller_thread_id'', dget b ''dispatcher_thread_id'')] in
         io_then (d_append ds_registry_update record)
         (io_bind d_state (\<lambda>st.
          io_bind (save_state now (dset (dset st ''last_native_task_thread_id'' (dget task ''thread_id''))
              ''last_native_task_request_id'' (dget task ''request_id''))) (\<lambda>_.
          io_then (d_audit now ''native_task_registered''
            [(''request_id'', dget task ''request_id''), (''thread_id'', dget task ''thread_id''),
             (''project'', dget task ''project'')])
          (io_return [(''registered'', PBool True), (''duplicate'', PBool False),
            (''record'', PDict record)]))))))))"

definition identity_fields :: "(string \<times> string) list" where
  "identity_fields = [(''expected_bot_profile'', ''bot_profile''), (''expected_app_id'', ''app_id''),
     (''expected_bot_open_id'', ''bot_open_id''), (''expected_tenant_key'', ''tenant_key'')]"

definition identity_mismatches :: "pdict \<Rightarrow> pdict \<Rightarrow> string list" where
  "identity_mismatches binding observed =
     (let configured = filter (\<lambda>(e, f). truthy (dget binding e)) identity_fields in
      (if configured = [] then [''no expected bot identity fields are configured''] else []) @
      map (\<lambda>(e, f). f @ '': expected '' @ py_repr (dget binding e) @ '', observed '' @
             py_repr (dget observed f))
        (filter (\<lambda>(e, f). \<not> py_eq (dget observed f) (dget binding e)) configured))"

definition verify_bot_identity :: "instant \<Rightarrow> pdict \<Rightarrow> (dstore, pdict) io" where
  "verify_bot_identity now observed =
     io_bind d_binding (\<lambda>b.
     let mismatches = identity_mismatches b observed in
     io_then (write_binding (dset (dset b ''identity_status''
         (PStr (if mismatches = [] then ''verified'' else ''mismatch'')))
         ''identity_checked_at'' (PStr (isoformat now))))
     (io_bind d_state (\<lambda>st.
      io_bind (save_state now
        (if mismatches \<noteq> [] then dset (dset st ''status'' (PStr ''BLOCKED'')) ''last_error''
           (PStr (''bot identity mismatch: '' @ py_join ''; '' mismatches))
         else if dget st ''status'' = PStr ''BLOCKED'' \<and>
             prefix ''bot identity mismatch:'' (text_or_empty (dget st ''last_error''))
           then dset (dset st ''status'' (PStr ''IDLE'')) ''last_error'' PNone
         else st)) (\<lambda>_.
      io_then (d_audit now ''bot_identity_checked'' [(''mismatches'', PList (map PStr mismatches))])
      (io_return [(''verified'', PBool (mismatches = [])),
        (''mismatches'', PList (map PStr mismatches))])))))"


section \<open>The outbox\<close>

definition outbox_fields :: "string list" where
  "outbox_fields = [''content'', ''recipient'', ''source_thread_id'', ''status'', ''task_id'']"

fun check_outbox_attachment :: "pyval \<Rightarrow> unit result" where
  "check_outbox_attachment (PDict d) =
     raise_if (stripped (py_or (dget d ''relative_path'') (dget d ''local_path'')) = [])
       (DispatcherError ''outbox attachment is missing a path'')"
| "check_outbox_attachment _ = Inl (DispatcherError ''outbox attachment must be an object'')"

definition outbox_attachments :: "pdict \<Rightarrow> pyval list result" where
  "outbox_attachments request = (case py_or (dget request ''attachments'') (PList []) of
      PList xs \<Rightarrow> rbind (rmap check_outbox_attachment xs) (\<lambda>_. Inr xs)
    | _ \<Rightarrow> Inl (DispatcherError ''outbox attachments must be a list''))"

definition outbox_stable :: "pdict \<Rightarrow> pyval list \<Rightarrow> string" where
  "outbox_stable request attachments = json_compact (PDict
     [(''task_id'', dget request ''task_id''), (''source_thread_id'', dget request ''source_thread_id''),
      (''status'', dget request ''status''), (''confirmation_id'', dget request ''confirmation_id''),
      (''recipient'', dget request ''recipient''), (''content'', dget request ''content''),
      (''message_kind'', dget request ''message_kind''),
      (''interaction_mode'', dget request ''interaction_mode''),
      (''decision_context'', dget request ''decision_context''),
      (''attachments'', PList attachments)])"

text \<open>Two outbox items are the same message when recipient and content agree as text.\<close>

definition message_key :: "pdict \<Rightarrow> string \<times> string" where
  "message_key r = (text_or_empty (dget r ''recipient''), text_or_empty (dget r ''content''))"

definition request_key :: "pdict \<Rightarrow> string \<times> string" where
  "request_key r = (py_str (dget r ''recipient''), py_str (dget r ''content''))"

definition repeated_messages :: "pdict \<Rightarrow> pdict list \<Rightarrow> nat" where
  "repeated_messages request records =
     length (takeWhile (\<lambda>r. message_key r = request_key request) (rev records))"

definition enqueue_outbox ::
  "(string \<Rightarrow> string) \<Rightarrow> instant \<Rightarrow> string \<Rightarrow> pdict \<Rightarrow> (dstore, pdict) io" where
  "enqueue_outbox digest now fresh request =
     (let missing = blank_fields request outbox_fields in
      io_then (io_check (missing \<noteq> [])
        (DispatcherError (''outbox request missing fields: '' @ py_join '', '' missing)))
      (io_bind (io_lift (outbox_attachments request)) (\<lambda>attachments.
       let base = ''jarvis-'' @ py_take 32 (digest (outbox_stable request attachments)) in
       io_bind (io_get ds_outbox) (\<lambda>records.
       let repeated = repeated_messages request records in
       if 5 \<le> repeated then
         io_return [(''queued'', PBool False), (''duplicate'', PBool True),
           (''reason'', PStr ''consecutive_identical_message_limit''),
           (''record'', if records = [] then PNone else PDict (last records))]
       else
         let idempotency_key = base @ '':repeat:'' @ nat_str (repeated + 1);
             record = dmerge request [(''outbox_id'', PStr (''outbox-'' @ fresh)),
               (''idempotency_key'', PStr idempotency_key), (''delivery_status'', PStr ''queued''),
               (''created_at'', PStr (isoformat now))] in
         io_then (d_append ds_outbox_update record)
         (io_bind d_state (\<lambda>st.
          io_bind (save_state now (dset st ''delivery_status'' (PStr ''queued''))) (\<lambda>_.
          io_then (d_audit now ''outbox_queued''
            [(''outbox_id'', dget record ''outbox_id''), (''idempotency_key'', PStr idempotency_key)])
          (io_return [(''queued'', PBool True), (''duplicate'', PBool False),
            (''record'', PDict record)]))))))))"

text \<open>The delivery records of one outbox item, oldest first.\<close>

definition delivery_history :: "pdict list \<Rightarrow> string \<Rightarrow> pdict list" where
  "delivery_history log oid =
     (if oid = [] then [] else filter (\<lambda>r. text_or_empty (dget r ''outbox_id'') = oid) log)"

definition delivery_settled :: "pyval list" where
  "delivery_settled = [PStr ''delivered'', PStr ''expired'', PStr ''unknown'']"

definition recently_tried :: "instant \<Rightarrow> int \<Rightarrow> pdict \<Rightarrow> bool" where
  "recently_tried now wait_us r =
     (case map_of r ''recorded_at'' of
        None \<Rightarrow> False
      | Some v \<Rightarrow> (case parse_instant (py_str v) of None \<Rightarrow> False | Some t \<Rightarrow> now - t < wait_us))"

text \<open>
  Whether an item is due, for the delays in microseconds; the unguarded \<open>fromisoformat\<close> of
  \<open>retry_not_before\<close> raises.
\<close>

definition outbox_due ::
  "instant \<Rightarrow> int \<Rightarrow> int option \<Rightarrow> pdict list \<Rightarrow> bool result" where
  "outbox_due now wait_us max_attempts history =
     (let latest = (if history = [] then [] else last history) in
      if dget latest ''delivery_status'' \<in> set delivery_settled then Inr False
      else if dget latest ''delivery_status'' = PStr ''retry_pending'' then
        (case parse_instant (py_str (py_or (dget latest ''retry_not_before'') (PStr (isoformat now)))) of
           None \<Rightarrow> Inl (ValueError ''Invalid isoformat string'')
         | Some t \<Rightarrow> Inr (\<not> now < t))
      else if (case max_attempts of None \<Rightarrow> False | Some m \<Rightarrow> m \<le> int (length history)) then Inr False
      else if history \<noteq> [] \<and> 0 < wait_us then Inr (\<not> recently_tried now wait_us (last history))
      else Inr True)"

fun pending_outbox_of ::
  "instant \<Rightarrow> int \<Rightarrow> int option \<Rightarrow> pdict list \<Rightarrow> pdict list \<Rightarrow> pdict list result" where
  "pending_outbox_of now wait_us max_attempts log [] = Inr []"
| "pending_outbox_of now wait_us max_attempts log (r # rs) =
     rbind (outbox_due now wait_us max_attempts
              (delivery_history log (text_or_empty (dget r ''outbox_id'')))) (\<lambda>due.
     rbind (pending_outbox_of now wait_us max_attempts log rs) (\<lambda>rest.
     Inr (if due then r # rest else rest)))"

definition pending_outbox :: "instant \<Rightarrow> int \<Rightarrow> int option \<Rightarrow> (dstore, pdict list) io" where
  "pending_outbox now wait_us max_attempts s =
     (pending_outbox_of now wait_us max_attempts (ds_delivery s) (ds_outbox s), s)"

definition normalized_message_ids :: "string option \<Rightarrow> string list \<Rightarrow> string list" where
  "normalized_message_ids message_id message_ids =
     (let ids = filter (\<lambda>s. s \<noteq> []) (map py_strip message_ids) in
      case message_id of
        None \<Rightarrow> ids
      | Some m \<Rightarrow> if m \<noteq> [] \<and> m \<notin> set ids then m # ids else ids)"

definition record_delivery ::
  "instant \<Rightarrow> string \<Rightarrow> string \<Rightarrow> string option \<Rightarrow> string list \<Rightarrow> string option \<Rightarrow> string option \<Rightarrow>
   (dstore, pdict) io" where
  "record_delivery now oid status message_id message_ids err retry_not_before =
     (let ids = normalized_message_ids message_id message_ids in
      io_then (io_check (status \<notin> {''delivered'', ''failed'', ''retry_pending'', ''unknown'', ''expired''})
        (DispatcherError
          ''delivery status must be delivered, failed, retry_pending, unknown, or expired''))
      (io_then (io_check (status = ''delivered'' \<and> ids = [])
        (DispatcherError ''delivered status requires message_id''))
      (let record = [(''recorded_at'', PStr (isoformat now)), (''outbox_id'', PStr oid),
         (''delivery_status'', PStr status), (''message_id'', if ids = [] then PNone else PStr (hd ids)),
         (''message_ids'', PList (map PStr ids)), (''error'', opt_str err),
         (''retry_not_before'', opt_str retry_not_before)] in
       io_then (d_append ds_delivery_update record)
       (io_bind d_state (\<lambda>st.
        io_bind (save_state now (dset (dset st ''delivery_status'' (PStr status)) ''last_delivery_error''
          (if status = ''delivered'' then PNone
           else py_or (opt_str err) (PStr (''delivery '' @ status))))) (\<lambda>_.
        io_then (d_audit now ''delivery_recorded'' record) (io_return record)))))))"

definition record_business_status ::
  "instant \<Rightarrow> string \<Rightarrow> string option \<Rightarrow> (dstore, pdict) io" where
  "record_business_status now status detail =
     io_then (io_check (status \<notin> set business_statuses)
       (DispatcherError (''invalid business status: '' @ status)))
     (io_bind d_state (\<lambda>st.
      io_bind (save_state now
        (let st1 = dset st ''business_status'' (PStr status) in
         if truthy (opt_str detail) then dset st1 ''business_detail'' (opt_str detail) else st1)) (\<lambda>saved.
      io_then (d_audit now ''business_status_recorded''
        [(''business_status'', PStr status), (''detail'', opt_str detail)])
      (io_return saved))))"

section \<open>The store as a machine\<close>

text \<open>One operation of the store with its arguments; the reading operations leave it alone.\<close>

datatype dop =
    Bootstrap instant string string string pdict
  | Ingest instant pdict
  | EventStatus instant string string "string option" "string option"
  | Enrich instant string pdict
  | CreatePacket instant string pdict
  | Decide instant string string string "string option"
  | Dispatch instant string string string
  | RegisterTask instant pdict
  | VerifyIdentity instant pdict
  | Enqueue instant string pdict
  | PendingOutbox instant int "int option"
  | Deliver instant string string "string option" "string list" "string option" "string option"
  | Business instant string "string option"
  | DStatus

fun dstep :: "(string \<Rightarrow> string) \<Rightarrow> dop \<Rightarrow> (dstore, pyval) io" where
  "dstep h (Bootstrap now th nm pr ov) = io_bind (bootstrap now th nm pr ov) (\<lambda>d. io_return (PDict d))"
| "dstep h (Ingest now e) = io_bind (ingest_event now e) (\<lambda>d. io_return (PDict d))"
| "dstep h (EventStatus now k s er rs) =
     io_bind (record_event_status now k s er rs) (\<lambda>d. io_return (PDict d))"
| "dstep h (Enrich now k e) = io_bind (record_event_enrichment now k e) (\<lambda>d. io_return (PDict d))"
| "dstep h (CreatePacket now fr p) = io_bind (create_packet now fr p) (\<lambda>d. io_return (PDict d))"
| "dstep h (Decide now c d a m) = io_bind (decide_packet now c d a m) (\<lambda>d. io_return (PDict d))"
| "dstep h (Dispatch now c th md) = io_bind (mark_dispatched now c th md) (\<lambda>d. io_return (PDict d))"
| "dstep h (RegisterTask now t) = io_bind (register_native_task now t) (\<lambda>d. io_return (PDict d))"
| "dstep h (VerifyIdentity now ob) = io_bind (verify_bot_identity now ob) (\<lambda>d. io_return (PDict d))"
| "dstep h (Enqueue now fr r) = io_bind (enqueue_outbox h now fr r) (\<lambda>d. io_return (PDict d))"
| "dstep h (PendingOutbox now w m) =
     io_bind (pending_outbox now w m) (\<lambda>l. io_return (PList (map PDict l)))"
| "dstep h (Deliver now ob s m ms er rt) =
     io_bind (record_delivery now ob s m ms er rt) (\<lambda>d. io_return (PDict d))"
| "dstep h (Business now s dt) = io_bind (record_business_status now s dt) (\<lambda>d. io_return (PDict d))"
| "dstep h DStatus = io_bind d_status (\<lambda>d. io_return (PDict d))"

section \<open>Frames: what an operation leaves alone\<close>

lemmas file_defs = d_state_def d_binding_def read_packet_def

lemma io_keeps_reads [io_rules]:
  "io_keeps P d_state" "io_keeps P d_binding" "io_keeps P (read_packet cid)"
  "io_keeps P (pending_outbox now w m)"
  by (simp_all add: io_keeps_def file_defs pending_outbox_def)

lemma io_keeps_events [io_rules]:
  "io_keeps (\<lambda>s. P (ds_events s)) (write_packet cid d)"
  "io_keeps (\<lambda>s. P (ds_events s)) (write_binding d)"
  "io_keeps (\<lambda>s. P (ds_events s)) (d_append ds_registry_update r)"
  "io_keeps (\<lambda>s. P (ds_events s)) (d_append ds_outbox_update r)"
  "io_keeps (\<lambda>s. P (ds_events s)) (d_append ds_delivery_update r)"
  "io_keeps (\<lambda>s. P (ds_events s)) (d_append ds_audit_update r)"
  by (simp_all add: io_keeps_def write_packet_def write_binding_def d_append_def)

lemma io_keeps_outbox [io_rules]:
  "io_keeps (\<lambda>s. P (ds_outbox s)) (write_packet cid d)"
  "io_keeps (\<lambda>s. P (ds_outbox s)) (write_binding d)"
  "io_keeps (\<lambda>s. P (ds_outbox s)) (d_append ds_registry_update r)"
  "io_keeps (\<lambda>s. P (ds_outbox s)) (d_append ds_events_update r)"
  "io_keeps (\<lambda>s. P (ds_outbox s)) (d_append ds_delivery_update r)"
  "io_keeps (\<lambda>s. P (ds_outbox s)) (d_append ds_audit_update r)"
  by (simp_all add: io_keeps_def write_packet_def write_binding_def d_append_def)

lemma io_keeps_save [io_rules]:
  "io_keeps (\<lambda>s. P (ds_events s)) (save_state now st)"
  "io_keeps (\<lambda>s. P (ds_outbox s)) (save_state now st)"
  by (auto simp: save_state_def intro!: io_rules)

lemma io_keeps_audit [io_rules]:
  "io_keeps (\<lambda>s. P (ds_events s)) (d_audit now a d)"
  "io_keeps (\<lambda>s. P (ds_outbox s)) (d_audit now a d)"
  by (auto simp: d_audit_def intro!: io_rules)

lemma io_keeps_supersede [io_rules]:
  "io_keeps (\<lambda>s. P (ds_events s)) (supersede_previous now v)"
  "io_keeps (\<lambda>s. P (ds_outbox s)) (supersede_previous now v)"
  by (auto simp: supersede_previous_def intro!: io_rules split: option.split)

text \<open>The operations that do not write the event ledger, and those that do not write the outbox.\<close>

lemma events_frame [io_rules]:
  "io_keeps (\<lambda>s. P (ds_events s)) (bootstrap now th nm pr ov)"
  "io_keeps (\<lambda>s. P (ds_events s)) (create_packet now fr p)"
  "io_keeps (\<lambda>s. P (ds_events s)) (decide_packet now c d a m)"
  "io_keeps (\<lambda>s. P (ds_events s)) (mark_dispatched now c th' md)"
  "io_keeps (\<lambda>s. P (ds_events s)) (register_native_task now t)"
  "io_keeps (\<lambda>s. P (ds_events s)) (verify_bot_identity now ob)"
  "io_keeps (\<lambda>s. P (ds_events s)) (enqueue_outbox h now fr r)"
  "io_keeps (\<lambda>s. P (ds_events s)) (record_delivery now oi s' mi ms er rt)"
  "io_keeps (\<lambda>s. P (ds_events s)) (record_business_status now bs dt)"
  "io_keeps (\<lambda>s. P (ds_events s)) d_status"
  by (auto simp: bootstrap_def create_packet_def decide_packet_def mark_dispatched_def
      register_native_task_def verify_bot_identity_def enqueue_outbox_def record_delivery_def
      record_business_status_def d_status_def Let_def intro!: io_rules split: option.split)

lemma outbox_frame [io_rules]:
  "io_keeps (\<lambda>s. P (ds_outbox s)) (bootstrap now th nm pr ov)"
  "io_keeps (\<lambda>s. P (ds_outbox s)) (ingest_event now ev)"
  "io_keeps (\<lambda>s. P (ds_outbox s)) (record_event_status now k st er' rs)"
  "io_keeps (\<lambda>s. P (ds_outbox s)) (record_event_enrichment now k en)"
  "io_keeps (\<lambda>s. P (ds_outbox s)) (create_packet now fr p)"
  "io_keeps (\<lambda>s. P (ds_outbox s)) (decide_packet now c d a m)"
  "io_keeps (\<lambda>s. P (ds_outbox s)) (mark_dispatched now c th' md)"
  "io_keeps (\<lambda>s. P (ds_outbox s)) (register_native_task now t)"
  "io_keeps (\<lambda>s. P (ds_outbox s)) (verify_bot_identity now ob)"
  "io_keeps (\<lambda>s. P (ds_outbox s)) (record_delivery now oi s' mi ms er rt)"
  "io_keeps (\<lambda>s. P (ds_outbox s)) (record_business_status now bs dt)"
  "io_keeps (\<lambda>s. P (ds_outbox s)) d_status"
  by (auto simp: bootstrap_def ingest_event_def record_event_status_def
      record_event_enrichment_def create_packet_def decide_packet_def mark_dispatched_def
      register_native_task_def verify_bot_identity_def record_delivery_def
      record_business_status_def d_status_def Let_def intro!: io_rules split: option.split)

section \<open>The event ledger\<close>

text \<open>
  A record may follow a ledger when it ingests a key the ledger has not seen, or it is a status
  or an enrichment of an ingested key.
\<close>

definition record_follows :: "pdict list \<Rightarrow> pdict \<Rightarrow> bool" where
  "record_follows prev r \<longleftrightarrow> (\<exists>k. k \<noteq> [] \<and> has_event_key k r \<and>
     (if is_ingested r then \<not> list_ex (has_event_key k) prev
      else known_event k prev \<and>
        dget_or r ''record_type'' (PStr ''event_ingested'') \<in> {PStr ''event_status'', PStr ''event_enriched''}))"

definition ledger_ok :: "pdict list \<Rightarrow> bool" where
  "ledger_ok l \<longleftrightarrow> (\<forall>i < length l. record_follows (take i l) (l ! i))"

lemma ledger_ok_Nil [simp]: "ledger_ok []"
  by (simp add: ledger_ok_def)

lemma ledger_ok_snoc: "ledger_ok (l @ [r]) \<longleftrightarrow> ledger_ok l \<and> record_follows l r"
  by (auto simp: ledger_ok_def nth_append less_Suc_eq)

lemma ledger_keyed:
  assumes "ledger_ok l" "r \<in> set l"
  shows "\<exists>k. k \<noteq> [] \<and> has_event_key k r"
proof -
  obtain i where "i < length l" "r = l ! i"
    using assms(2) by (auto simp: in_set_conv_nth)
  then have "record_follows (take i l) r" using assms(1) by (auto simp: ledger_ok_def)
  then show ?thesis by (auto simp: record_follows_def)
qed

text \<open>Reading a file, and appending to the ledger that was just read.\<close>

lemma io_from_state [from_rules]:
  "(\<And>s. P s \<Longrightarrow> Q s) \<Longrightarrow> (\<And>st. io_from (\<lambda>s. P s \<and> ds_state s = Some st) (k st) Q) \<Longrightarrow>
   io_from P (io_bind d_state k) Q"
  by (auto simp: io_from_def io_bind_def d_state_def read_file_def split: option.splits)

lemma io_from_binding [from_rules]:
  "(\<And>s. P s \<Longrightarrow> Q s) \<Longrightarrow> (\<And>b. io_from (\<lambda>s. P s \<and> ds_binding s = Some b) (k b) Q) \<Longrightarrow>
   io_from P (io_bind d_binding k) Q"
  by (auto simp: io_from_def io_bind_def d_binding_def read_file_def split: option.splits)

lemma io_from_packet [from_rules]:
  "(\<And>s. P s \<Longrightarrow> Q s) \<Longrightarrow> (\<And>p. io_from (\<lambda>s. P s \<and> ds_packets s cid = Some p) (k p) Q) \<Longrightarrow>
   io_from P (io_bind (read_packet cid) k) Q"
  by (auto simp: io_from_def io_bind_def read_packet_def read_file_def split: option.splits)

lemma io_from_append_event:
  assumes "\<And>s. P s \<Longrightarrow> R (ds_events s @ [r])" "io_keeps (\<lambda>s. R (ds_events s)) m"
  shows "io_from P (io_then (d_append ds_events_update r) m) (\<lambda>s. R (ds_events s))"
  using assms by (auto simp: io_from_def io_keeps_def d_append_def)

lemma event_record_follows:
  assumes "event_record now ev = Inr r" "event_key_of ev \<noteq> []"
    "\<not> list_ex (has_event_key (event_key_of ev)) l"
  shows "record_follows l r"
  using assms
  by (auto simp: event_record_def rbind_Inr_iff record_follows_def has_event_key_def is_ingested_def)

lemma known_event_nonempty: "ledger_ok l \<Longrightarrow> known_event k l \<Longrightarrow> k \<noteq> []"
  using ledger_keyed by (fastforce simp: known_event_def list_ex_iff has_event_key_def)

lemma ingest_ledger [io_rules]: "io_keeps (\<lambda>s. ledger_ok (ds_events s)) (ingest_event now ev)"
  unfolding ingest_event_def Let_def io_keeps_from
  by (intro from_rules io_from_append_event)
     (auto intro!: io_rules simp: ledger_ok_snoc event_record_follows)

lemma event_status_ledger [io_rules]:
  "io_keeps (\<lambda>s. ledger_ok (ds_events s)) (record_event_status now k st er rs)"
  unfolding record_event_status_def Let_def io_keeps_from
  by (intro from_rules io_from_append_event)
     (auto intro!: io_rules simp: ledger_ok_snoc record_follows_def has_event_key_def is_ingested_def
       dest: known_event_nonempty)

lemma enrichment_ledger [io_rules]:
  "io_keeps (\<lambda>s. ledger_ok (ds_events s)) (record_event_enrichment now k en)"
  unfolding record_event_enrichment_def Let_def io_keeps_from
  by (intro from_rules io_from_append_event)
     (auto intro!: io_rules simp: ledger_ok_snoc record_follows_def has_event_key_def is_ingested_def
       dest: known_event_nonempty)

lemma dstep_ledger: "io_keeps (\<lambda>s. ledger_ok (ds_events s)) (dstep h a)"
  by (cases a) (auto intro!: io_rules)

text \<open>The two readings of the status of an event agree on such a ledger.\<close>

lemma map_of_setdefault [simp]:
  "map_of (setdefault k v d) k' =
     (if map_of d k = None \<and> k' = k then Some v else map_of d k')"
  by (auto simp: setdefault_def update_conv')

lemma materialized_snoc: "materialized_events (l @ [r]) = materialize (materialized_events l) r"
  by (simp add: materialized_events_def)

lemma processing_status_snoc:
  "event_processing_status (l @ [r]) key =
     (if text_or_empty (dget r ''event_key'') \<noteq> key then event_processing_status l key
      else if is_ingested r then Some (py_str (py_or (dget r ''processing_status'') (PStr ''queued'')))
      else if dget r ''record_type'' = PStr ''event_status''
        then Some (text_or_empty (dget r ''processing_status''))
      else event_processing_status l key)"
  by (simp add: event_processing_status_def)

lemma known_snoc: "known_event k (l @ [r]) \<longleftrightarrow> known_event k l \<or> has_event_key k r \<and> is_ingested r"
  by (auto simp: known_event_def)

lemma known_has_key: "known_event k l \<Longrightarrow> list_ex (has_event_key k) l"
  by (auto simp: known_event_def list_ex_iff)

definition view_agrees :: "pdict list \<Rightarrow> bool" where
  "view_agrees l \<longleftrightarrow> (\<forall>k.
     (map_of (fst (materialized_events l)) k \<noteq> None \<longleftrightarrow> known_event k l) \<and>
     (map_of (snd (materialized_events l)) k \<noteq> None \<longleftrightarrow> known_event k l) \<and>
     event_processing_status l k = map_of (snd (materialized_events l)) k)"

lemma has_key_text: "has_event_key k r \<Longrightarrow> k \<noteq> [] \<Longrightarrow> text_or_empty (dget r ''event_key'') = k"
  by (simp add: has_event_key_def text_or_empty_def)

lemma has_key_unique: "has_event_key k r \<Longrightarrow> has_event_key k' r \<longleftrightarrow> k' = k"
  by (auto simp: has_event_key_def)

lemma record_type_other:
  "\<not> is_ingested r \<Longrightarrow> dget_or r ''record_type'' (PStr ''event_ingested'') = dget r ''record_type''"
  by (auto simp: is_ingested_def dget_or_def dget_def split: option.splits)

lemma view_agrees_snoc:
  assumes "view_agrees l" "record_follows l r"
  shows "view_agrees (l @ [r])"
proof -
  obtain k where k: "k \<noteq> []" "has_event_key k r"
    and follows: "if is_ingested r then \<not> list_ex (has_event_key k) l
      else known_event k l \<and>
        dget_or r ''record_type'' (PStr ''event_ingested'') \<in> {PStr ''event_status'', PStr ''event_enriched''}"
    using assms(2) by (auto simp: record_follows_def)
  obtain ing sts where view: "materialized_events l = (ing, sts)" by (cases "materialized_events l")
  have old: "\<And>k. map_of ing k \<noteq> None \<longleftrightarrow> known_event k l"
    "\<And>k. map_of sts k \<noteq> None \<longleftrightarrow> known_event k l"
    "\<And>k. event_processing_status l k = map_of sts k"
    using assms(1) view by (auto simp: view_agrees_def)
  note key = has_key_text [OF k(2) k(1)] has_key_unique [OF k(2)]
  show ?thesis
  proof (cases "is_ingested r")
    case True
    then have "\<not> known_event k l" using follows known_has_key by auto
    then have none: "map_of ing k = None" "map_of sts k = None" using old by blast+
    then show ?thesis
      using True k key old
      by (auto simp: view_agrees_def materialized_snoc materialize_def view processing_status_snoc
          known_snoc is_ingested_def)
  next
    case False
    then have known: "known_event k l"
      and kind: "dget r ''record_type'' = PStr ''event_status'' \<or> dget r ''record_type'' = PStr ''event_enriched''"
      using follows record_type_other [OF False] by auto
    note type = record_type_other [OF False]
    from kind show ?thesis
    proof
      assume "dget r ''record_type'' = PStr ''event_status''"
      then show ?thesis
        using False k key old known type
        by (auto simp: view_agrees_def materialized_snoc materialize_def view processing_status_snoc
            known_snoc update_conv')
    next
      assume "dget r ''record_type'' = PStr ''event_enriched''"
      moreover obtain rec where "map_of ing k = Some rec" using old(1) [of k] known by auto
      ultimately show ?thesis
        using False k key old known type
        by (auto simp: view_agrees_def materialized_snoc materialize_def view processing_status_snoc
            known_snoc update_conv' split: pyval.splits)
    qed
  qed
qed

lemma ledger_view_agrees: "ledger_ok l \<Longrightarrow> view_agrees l"
proof (induction l rule: rev_induct)
  case Nil
  show ?case by (simp add: view_agrees_def materialized_events_def known_event_def
        event_processing_status_def)
next
  case (snoc r l)
  then show ?case by (simp add: ledger_ok_snoc view_agrees_snoc)
qed

text \<open>Keys of the materialized records are distinct.\<close>

lemma materialize_distinct: "distinct (map fst (fst view)) \<Longrightarrow> distinct (map fst (fst (materialize view r)))"
  by (auto simp: materialize_def Let_def setdefault_def distinct_update split: pyval.splits)

lemma materialized_distinct: "distinct (map fst (fst (materialized_events l)))"
proof (induction l rule: rev_induct)
  case (snoc r l)
  then show ?case by (simp add: materialized_snoc materialize_distinct)
qed (simp add: materialized_events_def)

lemma ingested_once:
  "ledger_ok l \<Longrightarrow> length (filter (\<lambda>r. has_event_key k r \<and> is_ingested r) l) \<le> 1"
proof (induction l rule: rev_induct)
  case (snoc r l)
  show ?case
  proof (cases "has_event_key k r \<and> is_ingested r")
    case True
    then have "\<not> list_ex (has_event_key k) l"
      using snoc.prems by (auto simp: ledger_ok_snoc record_follows_def has_event_key_def)
    then have "filter (\<lambda>r. has_event_key k r \<and> is_ingested r) l = []"
      by (auto simp: filter_empty_conv list_ex_iff)
    then show ?thesis by simp
  next
    case False
    then show ?thesis using snoc by (auto simp: ledger_ok_snoc)
  qed
qed simp

text \<open>Every store that operations reach from the empty directory.\<close>

definition dstore_reachable :: "(string \<Rightarrow> string) \<Rightarrow> dstore \<Rightarrow> bool" where
  "dstore_reachable h s \<longleftrightarrow> (\<exists>ops. s = snd (run_ops (dstep h) ops empty_dstore))"

interpretation event_store: store_machine "dstep h" "\<lambda>s. ledger_ok (ds_events s)"
  for h
  using dstep_ledger by unfold_locales (simp add: io_keeps_def)

lemma reachable_ledger: "dstore_reachable h s \<Longrightarrow> ledger_ok (ds_events s)"
  unfolding dstore_reachable_def
  using event_store.run_inv [of empty_dstore] by (auto simp: empty_dstore_def)

definition pending_keys :: "pdict list \<Rightarrow> string list" where
  "pending_keys l = map fst (filter (\<lambda>(k, r). map_of (snd (materialized_events l)) k
     \<in> Some ` {''queued'', ''processing'', ''failed''}) (fst (materialized_events l)))"

lemma pending_events_keys:
  "pending_events l = map (\<lambda>k. the (map_of (fst (materialized_events l)) k)) (pending_keys l)"
proof -
  have "the (map_of (fst (materialized_events l)) k) = r" if "(k, r) \<in> set (fst (materialized_events l))" for k r
    using that materialized_distinct [of l] by simp
  then show ?thesis
    by (auto simp: pending_events_def pending_keys_def Let_def)
qed

text \<open>
  in every reachable store the event ledger reads consistently. Each event key is ingested at
  most once, the status \<open>event_processing_status\<close> computes is the one the materialized view holds,
  and an event is pending exactly when that status is queued, processing or failed.
\<close>

theorem event_ledger_consistent:
  assumes "dstore_reachable h s"
  shows "length (filter (\<lambda>r. has_event_key k r \<and> is_ingested r) (ds_events s)) \<le> 1 \<and>
    event_processing_status (ds_events s) k = map_of (snd (materialized_events (ds_events s))) k \<and>
    (k \<in> set (pending_keys (ds_events s)) \<longleftrightarrow>
       event_processing_status (ds_events s) k \<in> Some ` {''queued'', ''processing'', ''failed''})"
proof -
  have ok: "ledger_ok (ds_events s)" by (rule reachable_ledger [OF assms])
  note agrees = ledger_view_agrees [OF ok, unfolded view_agrees_def, rule_format, of k]
  have "k \<in> set (pending_keys (ds_events s)) \<longleftrightarrow>
      map_of (fst (materialized_events (ds_events s))) k \<noteq> None \<and>
      map_of (snd (materialized_events (ds_events s))) k \<in> Some ` {''queued'', ''processing'', ''failed''}"
    by (force simp: pending_keys_def map_of_eq_None_iff)
  then show ?thesis using ingested_once [OF ok] agrees by auto
qed


definition demo_dops :: "dop list" where
  "demo_dops = [Bootstrap 0 ''coo'' ''Jarvis'' ''Chief of Staff'' [(''live_dispatch_enabled'', PBool True)],
     Ingest 0 [(''event_id'', PStr ''e1''), (''content'', PStr ''hello'')],
     EventStatus 1 ''e1'' ''processing'' None None]"

lemma event_ledger_consistent_witness:
  "\<exists>s. dstore_reachable id s \<and> s = snd (run_ops (dstep id) demo_dops empty_dstore) \<and>
    length (filter (\<lambda>r. has_event_key ''e1'' r \<and> is_ingested r) (ds_events s)) \<le> 1 \<and>
    event_processing_status (ds_events s) ''e1'' =
      map_of (snd (materialized_events (ds_events s))) ''e1'' \<and>
    (''e1'' \<in> set (pending_keys (ds_events s)) \<longleftrightarrow>
       event_processing_status (ds_events s) ''e1'' \<in> Some ` {''queued'', ''processing'', ''failed''})"
proof -
  have "dstore_reachable id (snd (run_ops (dstep id) demo_dops empty_dstore))"
    by (auto simp: dstore_reachable_def)
  then show ?thesis using event_ledger_consistent by blast
qed

section \<open>Consecutive identical messages\<close>

text \<open>No six neighbouring outbox items are the same message.\<close>

definition outbox_runs_ok :: "pdict list \<Rightarrow> bool" where
  "outbox_runs_ok l \<longleftrightarrow> (\<forall>pre run post k. l = pre @ run @ post \<longrightarrow>
     (\<forall>r \<in> set run. message_key r = k) \<longrightarrow> length run \<le> 5)"

lemma outbox_runsD:
  "outbox_runs_ok l \<Longrightarrow> l = pre @ run @ post \<Longrightarrow> \<forall>r \<in> set run. message_key r = k \<Longrightarrow> length run \<le> 5"
  unfolding outbox_runs_ok_def by blast

lemma outbox_runs_Nil: "outbox_runs_ok []"
  by (simp add: outbox_runs_ok_def)

lemma takeWhile_all_prefix:
  "(\<forall>x \<in> set xs. P x) \<Longrightarrow> length xs \<le> length (takeWhile P (xs @ ys))"
  by (induction xs) auto

lemma outbox_runs_snoc:
  assumes "outbox_runs_ok l" "length (takeWhile (\<lambda>r'. message_key r' = message_key r) (rev l)) < 5"
  shows "outbox_runs_ok (l @ [r])"
  unfolding outbox_runs_ok_def
proof (intro allI impI)
  fix pre run post k
  assume split: "l @ [r] = pre @ run @ post" and same: "\<forall>r \<in> set run. message_key r = k"
  show "length run \<le> 5"
  proof (cases post rule: rev_cases)
    case Nil
    show ?thesis
    proof (cases run rule: rev_cases)
      case (snoc run' r')
      then have "l = pre @ run'" "r' = r" using split Nil by auto
      moreover have "\<forall>x \<in> set (rev run'). message_key x = message_key r"
        using same snoc \<open>r' = r\<close> by auto
      ultimately have "length run' \<le> length (takeWhile (\<lambda>r'. message_key r' = message_key r) (rev l))"
        using takeWhile_all_prefix [of "rev run'" "\<lambda>r'. message_key r' = message_key r" "rev pre"] by simp
      then show ?thesis using assms(2) snoc by simp
    qed simp
  next
    case (snoc post' r')
    then have "l = pre @ run @ post'" using split by simp
    then show ?thesis using outbox_runsD [OF assms(1) _ same] by blast
  qed
qed

lemma io_from_append_outbox:
  assumes "\<And>s. P s \<Longrightarrow> R (ds_outbox s @ [r])" "io_keeps (\<lambda>s. R (ds_outbox s)) m"
  shows "io_from P (io_then (d_append ds_outbox_update r) m) (\<lambda>s. R (ds_outbox s))"
  using assms by (auto simp: io_from_def io_keeps_def d_append_def)

lemma blank_fields_nonempty:
  "blank_fields d names = [] \<Longrightarrow> f \<in> set names \<Longrightarrow> text_or_empty (dget d f) = py_str (dget d f)"
  by (auto simp: blank_fields_def filter_empty_conv stripped_def text_or_empty_def py_strip_def)

lemma request_key_message:
  assumes "blank_fields request outbox_fields = []"
  shows "message_key (dmerge request [(''outbox_id'', a), (''idempotency_key'', b),
      (''delivery_status'', c), (''created_at'', d)]) = request_key request"
  using blank_fields_nonempty [OF assms, of "''recipient''"] blank_fields_nonempty [OF assms, of "''content''"]
  by (simp add: message_key_def request_key_def outbox_fields_def)

lemma enqueue_runs [io_rules]: "io_keeps (\<lambda>s. outbox_runs_ok (ds_outbox s)) (enqueue_outbox h now fr r)"
  unfolding enqueue_outbox_def Let_def io_keeps_from
  by (intro from_rules io_from_append_outbox)
     (auto intro!: io_rules outbox_runs_snoc simp del: dmerge.simps
       simp: request_key_message repeated_messages_def)

lemma dstep_runs: "io_keeps (\<lambda>s. outbox_runs_ok (ds_outbox s)) (dstep h a)"
  by (cases a) (auto intro!: io_rules)

interpretation outbox_store: store_machine "dstep h" "\<lambda>s. outbox_runs_ok (ds_outbox s)"
  for h
  using dstep_runs by unfold_locales (simp add: io_keeps_def)

text \<open>
  Whatever is enqueued and delivered in whatever order, the outbox never holds more than five
  neighbouring items with the same recipient and content.
\<close>

theorem outbox_repeat_limit:
  assumes "dstore_reachable h s" "ds_outbox s = pre @ run @ post"
    and "\<forall>r \<in> set run. message_key r = k"
  shows "length run \<le> 5"
proof -
  have "outbox_runs_ok (ds_outbox (snd (run_ops (dstep h) ops empty_dstore)))" for ops
    using outbox_store.run_inv [of empty_dstore h ops] outbox_runs_Nil by (simp add: empty_dstore_def)
  then have "outbox_runs_ok (ds_outbox s)" using assms(1) by (auto simp: dstore_reachable_def)
  then show ?thesis using assms(2,3) by (rule outbox_runsD)
qed

definition demo_outbox_item :: pdict where
  "demo_outbox_item = [(''task_id'', PStr ''k''), (''source_thread_id'', PStr ''t''), (''status'', PStr ''done''),
     (''recipient'', PStr ''r''), (''content'', PStr ''m'')]"



section \<open>Enqueuing, branch by branch\<close>

definition valid_state :: "pdict \<Rightarrow> bool" where
  "valid_state st \<longleftrightarrow> dget st ''status'' \<in> PStr ` set dispatcher_states"

definition ready :: "dstore \<Rightarrow> bool" where
  "ready s \<longleftrightarrow> (\<exists>st. ds_state s = Some st \<and> valid_state st)"

lemma save_state_valid:
  "valid_state st \<Longrightarrow> save_state now st s =
     (Inr (dset st ''updated_at'' (PStr (isoformat now))),
      s\<lparr> ds_state := Some (dset st ''updated_at'' (PStr (isoformat now))) \<rparr>)"
  by (auto simp: save_state_def valid_state_def)

lemma valid_state_dset [simp]: "k \<noteq> ''status'' \<Longrightarrow> valid_state (dset st k v) \<longleftrightarrow> valid_state st"
  by (simp add: valid_state_def)

lemma valid_state_status:
  "s \<in> set dispatcher_states \<Longrightarrow> valid_state (dset st ''status'' (PStr s))"
  by (simp add: valid_state_def)

definition repeat_refusal :: "pdict list \<Rightarrow> pdict" where
  "repeat_refusal records = [(''queued'', PBool False), (''duplicate'', PBool True),
     (''reason'', PStr ''consecutive_identical_message_limit''),
     (''record'', if records = [] then PNone else PDict (last records))]"

definition queued_effect :: "dstore \<Rightarrow> pdict \<Rightarrow> string \<Rightarrow> pdict \<Rightarrow> dstore \<Rightarrow> bool" where
  "queued_effect s request fr rec s' \<longleftrightarrow>
     ds_outbox s' = ds_outbox s @ [rec] \<and> message_key rec = request_key request \<and>
     dget rec ''delivery_status'' = PStr ''queued'' \<and> dget rec ''outbox_id'' = PStr (''outbox-'' @ fr) \<and>
     ds_events s' = ds_events s \<and> ds_packets s' = ds_packets s \<and> ds_registry s' = ds_registry s \<and>
     ds_delivery s' = ds_delivery s \<and> ready s' \<and>
     (\<exists>st. ds_state s' = Some st \<and> dget st ''delivery_status'' = PStr ''queued'')"

lemma enqueue_appends:
  assumes "blank_fields request outbox_fields = []" "outbox_attachments request = Inr atts" "ready s"
    "repeated_messages request (ds_outbox s) < 5"
  obtains rec s' where
    "enqueue_outbox h now fr request s =
       (Inr [(''queued'', PBool True), (''duplicate'', PBool False), (''record'', PDict rec)], s')"
    "queued_effect s request fr rec s'"
proof -
  obtain st where st: "ds_state s = Some st" "valid_state st" using assms(3) by (auto simp: ready_def)
  define key where "key = ''jarvis-'' @ py_take 32 (h (outbox_stable request atts)) @ '':repeat:'' @
    nat_str (repeated_messages request (ds_outbox s) + 1)"
  define rec where "rec = dmerge request [(''outbox_id'', PStr (''outbox-'' @ fr)),
               (''idempotency_key'', PStr key), (''delivery_status'', PStr ''queued''),
               (''created_at'', PStr (isoformat now))]"
  define st' where "st' = dset (dset st ''delivery_status'' (PStr ''queued'')) ''updated_at'' (PStr (isoformat now))"
  define s' where "s' = s\<lparr> ds_outbox := ds_outbox s @ [rec], ds_state := Some st',
    ds_audit := ds_audit s @ [[(''recorded_at'', PStr (isoformat now)), (''action'', PStr ''outbox_queued''),
      (''detail'', PDict [(''outbox_id'', dget rec ''outbox_id''), (''idempotency_key'', PStr key)])]] \<rparr>"
  have "enqueue_outbox h now fr request s =
      (Inr [(''queued'', PBool True), (''duplicate'', PBool False), (''record'', PDict rec)], s')"
    using assms st
    by (simp del: dmerge.simps add: enqueue_outbox_def Let_def d_append_def d_state_def read_file_def
        save_state_valid d_audit_def flip: rec_def key_def) (simp add: s'_def st'_def rec_def key_def)
  moreover have "queued_effect s request fr rec s'"
    using st request_key_message [OF assms(1)]
    by (simp add: queued_effect_def s'_def st'_def ready_def) (simp add: rec_def)
  ultimately show thesis by (rule that)
qed

text \<open>
  An outbox request with its required fields and well-formed attachments, on a store whose
  state file is valid, is either refused without any change, when the last five items already are
  the same message, or appended as one new queued item that keeps the request's recipient and
  content, leaves the earlier items and the other ledgers alone, and marks the delivery status of
  the state queued.
\<close>

theorem enqueue_outcome:
  assumes "blank_fields request outbox_fields = []" "outbox_attachments request = Inr atts" "ready s"
  shows "if 5 \<le> repeated_messages request (ds_outbox s)
    then enqueue_outbox h now fr request s = (Inr (repeat_refusal (ds_outbox s)), s)
    else \<exists>rec s'. enqueue_outbox h now fr request s =
        (Inr [(''queued'', PBool True), (''duplicate'', PBool False), (''record'', PDict rec)], s') \<and>
      queued_effect s request fr rec s'"
proof (cases "5 \<le> repeated_messages request (ds_outbox s)")
  case True
  then show ?thesis using assms by (simp add: enqueue_outbox_def Let_def repeat_refusal_def)
next
  case False
  then have "repeated_messages request (ds_outbox s) < 5" by simp
  from enqueue_appends [OF assms this] False show ?thesis by metis
qed

lemma demo_item_fields:
  "blank_fields demo_outbox_item outbox_fields = []" "outbox_attachments demo_outbox_item = Inr []"
  "request_key demo_outbox_item = (''r'', ''m'')"
  by code_simp+

text \<open>A booted store, and a store after five identical messages.\<close>

lemma boot_state:
  "ds_state (snd (bootstrap now th nm pr ov empty_dstore)) = Some (initial_state now th nm)"
  "ds_outbox (snd (bootstrap now th nm pr ov empty_dstore)) = []"
  by (simp_all add: bootstrap_def empty_dstore_def d_audit_def d_append_def d_status_def d_binding_def
      d_state_def read_file_def)

lemma snd_bind_return: "snd (io_bind m (\<lambda>x. io_return (f x)) s) = snd (m s)"
  by (simp add: io_bind_def split: prod.splits sum.splits)

lemma reachable_step: "dstore_reachable h s \<Longrightarrow> dstore_reachable h (snd (dstep h a s))"
proof -
  assume "dstore_reachable h s"
  then obtain ops where "s = snd (run_ops (dstep h) ops empty_dstore)" by (auto simp: dstore_reachable_def)
  then have "snd (dstep h a s) = snd (run_ops (dstep h) (ops @ [a]) empty_dstore)"
    by (simp add: run_ops_append split: prod.splits)
  then show ?thesis unfolding dstore_reachable_def by blast
qed

lemma reachable_empty: "dstore_reachable h empty_dstore"
  unfolding dstore_reachable_def by (rule exI [of _ "[]"]) simp

definition demo_digest :: "string \<Rightarrow> string" where
  "demo_digest s = ''d''"

definition booted :: dstore where
  "booted = snd (dstep demo_digest (Bootstrap 0 ''coo'' ''Jarvis'' ''Chief of Staff'' []) empty_dstore)"

lemma booted_ready: "ready booted" "ds_outbox booted = []" "dstore_reachable demo_digest booted"
proof -
  show "dstore_reachable demo_digest booted"
    unfolding booted_def by (rule reachable_step [OF reachable_empty])
  show "ready booted" "ds_outbox booted = []"
    using boot_state [of 0 "''coo''" "''Jarvis''" "''Chief of Staff''" "[]"]
    by (simp_all add: booted_def snd_bind_return ready_def valid_state_def initial_state_def
        dispatcher_states_def)
qed

lemma takeWhile_map_replicate:
  "map f l = replicate n k \<Longrightarrow> length (takeWhile (\<lambda>x. f x = k) (rev l)) = n"
proof -
  assume map: "map f l = replicate n k"
  have "f ` set l \<subseteq> {k}" using arg_cong [OF map, of set] by auto
  then have "\<forall>x \<in> set l. f x = k" by auto
  then have "takeWhile (\<lambda>x. f x = k) (rev l) = rev l" by (simp add: takeWhile_eq_all_conv)
  then show ?thesis using arg_cong [OF map, of length] by (metis length_map length_replicate length_rev)
qed

lemma some_repeats:
  assumes "n \<le> 5"
  shows "\<exists>s. dstore_reachable demo_digest s \<and> ready s \<and> map message_key (ds_outbox s) = replicate n (''r'', ''m'')"
  using assms
proof (induction n)
  case 0
  then show ?case using booted_ready by auto
next
  case (Suc n)
  then obtain s where s: "dstore_reachable demo_digest s" "ready s"
    "map message_key (ds_outbox s) = replicate n (''r'', ''m'')" by auto
  have "repeated_messages demo_outbox_item (ds_outbox s) < 5"
    using takeWhile_map_replicate [OF s(3)] Suc.prems
    by (simp add: repeated_messages_def demo_item_fields)
  from enqueue_appends [OF demo_item_fields(1,2) s(2) this] obtain rec s' where
    s': "enqueue_outbox demo_digest 0 ''f'' demo_outbox_item s = (Inr [(''queued'', PBool True), (''duplicate'', PBool False), (''record'', PDict rec)], s')"
      "queued_effect s demo_outbox_item ''f'' rec s'" by blast
  have "dstore_reachable demo_digest s'"
    using reachable_step [OF s(1), of "Enqueue 0 ''f'' demo_outbox_item"] s'(1) by simp
  moreover have "map message_key (ds_outbox s') = replicate (Suc n) (''r'', ''m'')"
    using s'(2) s(3) by (simp add: queued_effect_def demo_item_fields replicate_append_same)
  ultimately show ?case using s'(2) by (auto simp: queued_effect_def)
qed

lemma enqueue_outcome_witness:
  "\<exists>s. 5 \<le> repeated_messages demo_outbox_item (ds_outbox s) \<and>
     enqueue_outbox demo_digest 0 ''f'' demo_outbox_item s = (Inr (repeat_refusal (ds_outbox s)), s)"
proof -
  obtain s where s: "ready s" "map message_key (ds_outbox s) = replicate 5 (''r'', ''m'')"
    using some_repeats [of 5] by auto
  have "5 \<le> repeated_messages demo_outbox_item (ds_outbox s)"
    using takeWhile_map_replicate [OF s(2)] by (simp add: repeated_messages_def demo_item_fields)
  then show ?thesis using enqueue_outcome [OF demo_item_fields(1,2) s(1), of demo_digest 0 "''f''"] by auto
qed

lemma outbox_repeat_limit_witness:
  "\<exists>s. dstore_reachable demo_digest s \<and> ds_outbox s = [] @ ds_outbox s @ [] \<and>
     (\<forall>r \<in> set (ds_outbox s). message_key r = (''r'', ''m'')) \<and> length (ds_outbox s) \<le> 5 \<and>
     5 \<le> length (ds_outbox s)"
proof -
  obtain s where s: "dstore_reachable demo_digest s" and keys: "map message_key (ds_outbox s) = replicate 5 (''r'', ''m'')"
    using some_repeats [of 5] by auto
  have "length (ds_outbox s) = 5" using arg_cong [OF keys, of length] by simp
  moreover have same: "\<forall>r \<in> set (ds_outbox s). message_key r = (''r'', ''m'')"
    using arg_cong [OF keys, of set] by auto
  moreover have "length (ds_outbox s) \<le> 5"
    by (rule outbox_repeat_limit [OF s _ same, of "[]" "[]"]) simp
  ultimately show ?thesis using s by auto
qed

section \<open>Packets: what each operation does to them\<close>

definition packet_status :: "dstore \<Rightarrow> string \<Rightarrow> pyval option" where
  "packet_status s cid = map_option (\<lambda>p. dget p ''status'') (ds_packets s cid)"

definition superseded :: "instant \<Rightarrow> pyval \<Rightarrow> (string \<rightharpoonup> pdict) \<Rightarrow> (string \<rightharpoonup> pdict)" where
  "superseded now v pk =
     (case (if truthy v then pk (py_str v) else None) of
        None \<Rightarrow> pk
      | Some p \<Rightarrow> if dget p ''status'' = PStr ''pending''
          then pk(py_str v \<mapsto> dset (dset p ''status'' (PStr ''superseded'')) ''superseded_at'' (PStr (isoformat now)))
          else pk)"

lemma supersede_eq:
  "supersede_previous now v s = (Inr (), s\<lparr> ds_packets := superseded now v (ds_packets s) \<rparr>)"
  by (simp add: supersede_previous_def superseded_def write_packet_def split: option.split)

lemma io_keeps_packets [io_rules]:
  "io_keeps (\<lambda>s. P (ds_packets s)) (write_binding d)"
  "io_keeps (\<lambda>s. P (ds_packets s)) (d_append ds_registry_update r)"
  "io_keeps (\<lambda>s. P (ds_packets s)) (d_append ds_events_update r)"
  "io_keeps (\<lambda>s. P (ds_packets s)) (d_append ds_outbox_update r)"
  "io_keeps (\<lambda>s. P (ds_packets s)) (d_append ds_delivery_update r)"
  "io_keeps (\<lambda>s. P (ds_packets s)) (d_append ds_audit_update r)"
  by (simp_all add: io_keeps_def write_binding_def d_append_def)

lemma io_keeps_packets_save [io_rules]:
  "io_keeps (\<lambda>s. P (ds_packets s)) (save_state now st)"
  "io_keeps (\<lambda>s. P (ds_packets s)) (d_audit now a d)"
  by (auto simp: save_state_def d_audit_def intro!: io_rules)

lemma packets_frame [io_rules]:
  "io_keeps (\<lambda>s. P (ds_packets s)) (bootstrap now th nm pr ov)"
  "io_keeps (\<lambda>s. P (ds_packets s)) (ingest_event now ev)"
  "io_keeps (\<lambda>s. P (ds_packets s)) (record_event_status now k st er' rs)"
  "io_keeps (\<lambda>s. P (ds_packets s)) (record_event_enrichment now k en)"
  "io_keeps (\<lambda>s. P (ds_packets s)) (register_native_task now t)"
  "io_keeps (\<lambda>s. P (ds_packets s)) (verify_bot_identity now ob)"
  "io_keeps (\<lambda>s. P (ds_packets s)) (enqueue_outbox h now fr r)"
  "io_keeps (\<lambda>s. P (ds_packets s)) (record_delivery now oi s' mi ms er rt)"
  "io_keeps (\<lambda>s. P (ds_packets s)) (record_business_status now bs dt)"
  "io_keeps (\<lambda>s. P (ds_packets s)) d_status"
  by (auto simp: bootstrap_def ingest_event_def record_event_status_def
      record_event_enrichment_def register_native_task_def verify_bot_identity_def
      enqueue_outbox_def record_delivery_def
      record_business_status_def d_status_def Let_def intro!: io_rules split: option.split)

definition packet_op :: "dop \<Rightarrow> bool" where
  "packet_op a = (case a of CreatePacket _ _ _ \<Rightarrow> True | Decide _ _ _ _ _ \<Rightarrow> True | Dispatch _ _ _ _ \<Rightarrow> True | _ \<Rightarrow> False)"

lemma other_ops_packets:
  assumes "\<not> packet_op a" "dstep h a s = (r, s')"
  shows "ds_packets s' = ds_packets s"
proof -
  have "io_keeps (\<lambda>t. ds_packets t = ds_packets s) (dstep h a)"
    using assms(1) by (cases a) (auto simp: packet_op_def intro!: io_rules)
  from io_keepsD [OF this _ assms(2)] show ?thesis by simp
qed

lemma valid_constants [simp]:
  "valid_state (dset st ''status'' (PStr ''AWAITING_CONFIRMATION''))"
  "valid_state (dset st ''status'' (PStr ''DISPATCHED''))"
  "valid_state (dset st ''status'' (PStr ''BLOCKED''))"
  "valid_state (dset st ''status'' (PStr ''DISCUSSING''))"
  "valid_state (dset st ''status'' (PStr ''CANCELLED''))"
  "valid_state (dset st ''status'' (PStr ''IDLE''))"
  by (simp_all add: valid_state_def dispatcher_states_def)

lemma valid_decided [simp]: "valid_state (decided_state d st)"
  by (simp add: decided_state_def)

definition created_packet :: "instant \<Rightarrow> string \<Rightarrow> pdict \<Rightarrow> pdict" where
  "created_packet now fr packet = dmerge packet
     [(''confirmation_id'', PStr (packet_confirmation_id now fr packet)),
      (''expires_at'', PStr (packet_expires_at now packet)), (''status'', PStr ''pending''),
      (''created_at'', PStr (isoformat now))]"

lemma created_status [simp]: "dget (created_packet now fr p) ''status'' = PStr ''pending''"
  by (simp add: created_packet_def)

text \<open>
  Each of the three packet operations either raises and leaves packets and state alone, or writes
  one packet (and possibly the superseded one) and the state file together.
\<close>

definition commit :: "instant \<Rightarrow> dstore \<Rightarrow> (string \<rightharpoonup> pdict) \<Rightarrow> pdict \<Rightarrow> dstore \<Rightarrow> bool" where
  "commit now s pk st s' \<longleftrightarrow> ds_packets s' = pk \<and>
     ds_state s' = Some (dset st ''updated_at'' (PStr (isoformat now))) \<and>
     ds_binding s' = ds_binding s"

definition unchanged :: "dstore \<Rightarrow> dstore \<Rightarrow> bool" where
  "unchanged s s' \<longleftrightarrow> s' = s"

lemma create_outcome:
  assumes "create_packet now fr packet s = (r, s')"
  shows "(\<exists>e. r = Inl e) \<and> unchanged s s' \<or>
    (\<exists>st. r = Inr (created_packet now fr packet) \<and> ds_state s = Some st \<and>
       commit now s ((superseded now (dget st ''current_confirmation_id'') (ds_packets s))
           (packet_confirmation_id now fr packet \<mapsto> created_packet now fr packet))
         (dset (dset (dset st ''status'' (PStr ''AWAITING_CONFIRMATION'')) ''current_confirmation_id''
           (PStr (packet_confirmation_id now fr packet))) ''confirmation_status'' (PStr ''pending'')) s')"
proof (cases "ds_state s")
  case None
  then show ?thesis using assms
    by (auto simp: create_packet_def Let_def io_then_def io_bind_def d_state_def read_file_def
        unchanged_def split: if_splits)
next
  case (Some st)
  then show ?thesis using assms unfolding created_packet_def [symmetric] create_packet_def Let_def
    by (auto simp: io_then_def io_bind_def d_state_def read_file_def supersede_eq write_packet_def
        save_state_valid d_audit_def d_append_def commit_def unchanged_def simp del: dmerge.simps split: if_splits)
qed

definition packet_expired :: "instant \<Rightarrow> pdict \<Rightarrow> bool" where
  "packet_expired now p \<longleftrightarrow> (\<exists>t. packet_expiry p = Inr t \<and> t < now)"

definition packet_live :: "instant \<Rightarrow> pdict \<Rightarrow> bool" where
  "packet_live now p \<longleftrightarrow> (\<exists>t. packet_expiry p = Inr t \<and> now \<le> t)"

definition decided :: "instant \<Rightarrow> string \<Rightarrow> string \<Rightarrow> string option \<Rightarrow> pdict \<Rightarrow> pdict" where
  "decided now d a m p = decided_packet (py_lower d) m
     (dset (dset p ''decided_at'' (PStr (isoformat now))) ''decided_by'' (PStr a))"

definition active_packet :: "dstore \<Rightarrow> string \<Rightarrow> pdict \<Rightarrow> pdict \<Rightarrow> string \<Rightarrow> bool" where
  "active_packet s cid st p status \<longleftrightarrow> ds_state s = Some st \<and>
     dget st ''current_confirmation_id'' = PStr cid \<and> ds_packets s cid = Some p \<and>
     dget p ''status'' = PStr status"

lemma decide_outcome:
  assumes "decide_packet now cid d a m s = (r, s')"
  shows "(\<exists>e. r = Inl e) \<and> unchanged s s' \<or>
    (\<exists>st p. active_packet s cid st p ''pending'' \<and>
       ((\<exists>e. r = Inl e) \<and> packet_expired now p \<and>
          commit now s ((ds_packets s)(cid \<mapsto> dset p ''status'' (PStr ''expired'')))
            (dset (dset st ''status'' (PStr ''BLOCKED'')) ''confirmation_status'' (PStr ''expired'')) s' \<or>
        r = Inr (decided now d a m p) \<and> packet_live now p \<and>
          py_lower d \<in> {''confirm'', ''modify'', ''cancel''} \<and>
          commit now s ((ds_packets s)(cid \<mapsto> decided now d a m p)) (decided_state (py_lower d) st) s'))"
proof (cases "py_lower d \<in> {''confirm'', ''modify'', ''cancel''} \<and>
    (\<exists>st p t. active_packet s cid st p ''pending'' \<and> packet_expiry p = Inr t)")
  case False
  then have "(\<exists>e. r = Inl e) \<and> unchanged s s'" using assms
    by (auto simp: decide_packet_def Let_def io_then_def io_bind_def d_state_def read_packet_def
        read_file_def unchanged_def active_packet_def split: if_splits option.splits sum.splits)
  then show ?thesis ..
next
  case True
  then obtain st p t where active: "active_packet s cid st p ''pending''" "packet_expiry p = Inr t"
    and d: "py_lower d \<in> {''confirm'', ''modify'', ''cancel''}" by blast
  show ?thesis
  proof (cases "t < now")
    case True
    then have "(\<exists>e. r = Inl e) \<and> packet_expired now p \<and>
          commit now s ((ds_packets s)(cid \<mapsto> dset p ''status'' (PStr ''expired'')))
            (dset (dset st ''status'' (PStr ''BLOCKED'')) ''confirmation_status'' (PStr ''expired'')) s'"
      using assms active d unfolding decide_packet_def Let_def
      by (auto simp: io_then_def io_bind_def d_state_def read_packet_def
          read_file_def active_packet_def packet_expired_def write_packet_def save_state_valid commit_def)
    then show ?thesis using active by blast
  next
    case False
    then have "r = Inr (decided now d a m p) \<and> packet_live now p \<and>
          commit now s ((ds_packets s)(cid \<mapsto> decided now d a m p)) (decided_state (py_lower d) st) s'"
      using assms active d unfolding decide_packet_def Let_def decided_def [symmetric]
      by (auto simp: io_then_def io_bind_def d_state_def read_packet_def d_audit_def d_append_def
          read_file_def active_packet_def packet_live_def write_packet_def save_state_valid commit_def)
    then show ?thesis using active d by blast
  qed
qed

definition dispatched_packet :: "instant \<Rightarrow> string \<Rightarrow> pdict \<Rightarrow> pdict" where
  "dispatched_packet now th p = dset (dset (dset p ''status'' (PStr ''dispatched''))
     ''execution_thread_id'' (PStr th)) ''dispatched_at'' (PStr (isoformat now))"

lemma dispatch_outcome:
  assumes "mark_dispatched now cid th md s = (r, s')"
  shows "(\<exists>e. r = Inl e) \<and> unchanged s s' \<or>
    (\<exists>b st p rec. r = Inr rec \<and> ds_binding s = Some b \<and> truthy (dget b ''live_dispatch_enabled'') \<and>
       active_packet s cid st p ''confirmed'' \<and> ds_registry s' = ds_registry s @ [rec] \<and>
       commit now s ((ds_packets s)(cid \<mapsto> dispatched_packet now th p))
         (dset (dset st ''status'' (PStr ''DISPATCHED'')) ''current_execution_thread_id'' (PStr th)) s')"
proof (cases "\<exists>b st p. ds_binding s = Some b \<and> truthy (dget b ''live_dispatch_enabled'') \<and>
    active_packet s cid st p ''confirmed''")
  case False
  then have "(\<exists>e. r = Inl e) \<and> unchanged s s'" using assms
    by (auto simp: mark_dispatched_def Let_def io_then_def io_bind_def d_state_def d_binding_def
        read_packet_def read_file_def unchanged_def active_packet_def
        split: if_splits option.splits sum.splits)
  then show ?thesis ..
next
  case True
  then obtain b st p where b: "ds_binding s = Some b" "truthy (dget b ''live_dispatch_enabled'')"
    and active: "active_packet s cid st p ''confirmed''" by blast
  then show ?thesis
    using assms unfolding mark_dispatched_def Let_def dispatched_packet_def [symmetric]
    by (auto simp: io_then_def io_bind_def d_state_def d_binding_def read_packet_def d_audit_def
        d_append_def read_file_def active_packet_def write_packet_def save_state_valid commit_def)
qed

section \<open>The control invariant\<close>

text \<open>
  The state file has a known status. The packet it names exists, has a non-empty id, and its
  status is the confirmation status of the state file (a dispatched packet counts as confirmed);
  a pending packet is the one the state file names.
\<close>

definition confirmation_of :: "pyval \<Rightarrow> pyval" where
  "confirmation_of status = (if status = PStr ''dispatched'' then PStr ''confirmed'' else status)"

definition names_packet :: "(string \<rightharpoonup> pdict) \<Rightarrow> pdict \<Rightarrow> string \<Rightarrow> bool" where
  "names_packet pk st cid \<longleftrightarrow> cid \<noteq> [] \<and> dget st ''current_confirmation_id'' = PStr cid \<and>
     (\<exists>p. pk cid = Some p \<and> dget st ''confirmation_status'' = confirmation_of (dget p ''status''))"

definition state_packets_ok :: "(string \<rightharpoonup> pdict) \<Rightarrow> pdict \<Rightarrow> bool" where
  "state_packets_ok pk st \<longleftrightarrow> valid_state st \<and>
     (dget st ''current_confirmation_id'' = PNone \<or> (\<exists>cid. names_packet pk st cid)) \<and>
     (\<forall>cid p. pk cid = Some p \<and> dget p ''status'' = PStr ''pending'' \<longrightarrow>
        dget st ''current_confirmation_id'' = PStr cid)"

definition control_ok :: "dstore \<Rightarrow> bool" where
  "control_ok s \<longleftrightarrow> (case ds_state s of None \<Rightarrow> ds_packets s = Map.empty
     | Some st \<Rightarrow> state_packets_ok (ds_packets s) st)"

lemma control_ok_frames [simp]:
  "control_ok (s\<lparr> ds_events := l \<rparr>) = control_ok s"
  "control_ok (s\<lparr> ds_registry := l \<rparr>) = control_ok s"
  "control_ok (s\<lparr> ds_outbox := l \<rparr>) = control_ok s"
  "control_ok (s\<lparr> ds_delivery := l \<rparr>) = control_ok s"
  "control_ok (s\<lparr> ds_audit := l \<rparr>) = control_ok s"
  "control_ok (s\<lparr> ds_binding := b \<rparr>) = control_ok s"
  by (simp_all add: control_ok_def split: option.split)

lemma control_ok_appends [io_rules]:
  "io_keeps control_ok (d_append ds_registry_update r)"
  "io_keeps control_ok (d_append ds_events_update r)"
  "io_keeps control_ok (d_append ds_outbox_update r)"
  "io_keeps control_ok (d_append ds_delivery_update r)"
  "io_keeps control_ok (d_append ds_audit_update r)"
  "io_keeps control_ok (d_audit now a d)"
  "io_keeps control_ok (write_binding b)"
  by (simp_all add: io_keeps_def d_append_def d_audit_def write_binding_def control_ok_def split: option.split)

text \<open>An update of the state file that does not touch the confirmation fields.\<close>

definition same_confirmation :: "pdict \<Rightarrow> pdict \<Rightarrow> bool" where
  "same_confirmation st st' \<longleftrightarrow>
     dget st' ''current_confirmation_id'' = dget st ''current_confirmation_id'' \<and>
     dget st' ''confirmation_status'' = dget st ''confirmation_status''"

lemma control_ok_save:
  assumes "same_confirmation st st'" "\<And>x. io_keeps control_ok (k x)"
  shows "io_from (\<lambda>s. control_ok s \<and> ds_state s = Some st) (io_bind (save_state now st') k) control_ok"
proof -
  have "control_ok (snd (save_state now st' s))" if "control_ok s" "ds_state s = Some st" for s
  proof (cases "valid_state st'")
    case True
    then show ?thesis using that assms(1)
      by (simp add: save_state_valid control_ok_def state_packets_ok_def names_packet_def same_confirmation_def)
  next
    case False
    then show ?thesis using that
      by (auto simp: save_state_def io_bind_def io_then_def valid_state_def str_member_True
          split: sum.splits prod.splits)
  qed
  then have "io_from (\<lambda>s. control_ok s \<and> ds_state s = Some st) (save_state now st') control_ok"
    by (simp add: io_from_def)
  then show ?thesis by (rule io_from_bind) (simp_all add: assms(2) io_keeps_from [symmetric])
qed

lemma io_from_append_frame:
  "(\<And>s. P s \<Longrightarrow> P (upd (\<lambda>l. l @ [r]) s)) \<Longrightarrow> io_from P m Q \<Longrightarrow> io_from P (io_then (d_append upd r) m) Q"
  by (simp add: io_from_def d_append_def)

lemma control_ok_status: "io_keeps control_ok d_status"
  by (auto simp: d_status_def intro!: io_rules)


text \<open>Rules that keep only the invariant of what was read.\<close>

lemma io_from_get_only:
  "(\<And>v. io_from P (k v) Q) \<Longrightarrow> io_from P (io_bind (io_get f) k) Q"
  by (simp add: io_from_def)

lemma io_from_binding_only:
  "(\<And>s. P s \<Longrightarrow> Q s) \<Longrightarrow> (\<And>b. io_from P (k b) Q) \<Longrightarrow> io_from P (io_bind d_binding k) Q"
  by (auto simp: io_from_def io_bind_def d_binding_def read_file_def split: option.splits)

lemma io_from_then_keeps:
  "io_keeps P n \<Longrightarrow> (\<And>s. P s \<Longrightarrow> Q s) \<Longrightarrow> io_from P m Q \<Longrightarrow> io_from P (io_then n m) Q"
  by (rule io_from_then) (simp_all add: io_keeps_from)

lemmas control_rules = io_from_pure io_from_get_only io_from_binding_only io_from_check io_from_lift
  io_from_if io_from_option io_from_state control_ok_save io_from_then_keeps

lemma same_confirmationI [simp]:
  "same_confirmation st st"
  "k \<noteq> ''current_confirmation_id'' \<Longrightarrow> k \<noteq> ''confirmation_status'' \<Longrightarrow>
     same_confirmation st (dset st' k v) \<longleftrightarrow> same_confirmation st st'"
  "same_confirmation st (if b then x else y) \<longleftrightarrow>
     (if b then same_confirmation st x else same_confirmation st y)"
  by (simp_all add: same_confirmation_def)

lemma control_ok_ingest [io_rules]: "io_keeps control_ok (ingest_event now ev)"
  unfolding ingest_event_def Let_def io_keeps_from
  by (intro control_rules) (simp_all add: io_rules)

lemma control_ok_event_status [io_rules]: "io_keeps control_ok (record_event_status now k st er' rs)"
  unfolding record_event_status_def Let_def io_keeps_from
  by (intro control_rules) (simp_all add: io_rules)

lemma control_ok_enrich [io_rules]: "io_keeps control_ok (record_event_enrichment now k en)"
  unfolding record_event_enrichment_def Let_def io_keeps_from
  by (intro control_rules) (simp_all add: io_rules)

lemma control_ok_register [io_rules]: "io_keeps control_ok (register_native_task now t)"
  unfolding register_native_task_def Let_def io_keeps_from
  by (intro control_rules) (simp_all add: io_rules)

lemma control_ok_verify [io_rules]: "io_keeps control_ok (verify_bot_identity now ob)"
  unfolding verify_bot_identity_def Let_def io_keeps_from
  by (intro control_rules) (simp_all add: io_rules)

lemma control_ok_enqueue [io_rules]: "io_keeps control_ok (enqueue_outbox h now fr r)"
  unfolding enqueue_outbox_def Let_def io_keeps_from
  by (intro control_rules) (simp_all add: io_rules)

lemma control_ok_delivery [io_rules]: "io_keeps control_ok (record_delivery now oi s' mi ms er rt)"
  unfolding record_delivery_def Let_def io_keeps_from
  by (intro control_rules) (simp_all add: io_rules)

lemma control_ok_business [io_rules]: "io_keeps control_ok (record_business_status now bs dt)"
  unfolding record_business_status_def Let_def io_keeps_from
  by (intro control_rules) (simp_all add: io_rules)

lemmas control_ok_other = control_ok_status [io_rules]

lemma control_ok_boot [io_rules]: "io_keeps control_ok (bootstrap now th nm pr ov)"
  unfolding bootstrap_def
  by (intro io_rules)
     (auto simp: control_ok_def state_packets_ok_def initial_state_def valid_state_def
        dispatcher_states_def split: option.splits if_splits)

lemma control_ok_commit:
  "commit now s pk st s' \<Longrightarrow> state_packets_ok pk st \<Longrightarrow> control_ok s'"
  by (simp add: commit_def control_ok_def state_packets_ok_def names_packet_def)

lemma state_packets_okI:
  assumes "valid_state st" "cid \<noteq> []" "dget st ''current_confirmation_id'' = PStr cid"
    "pk cid = Some p" "dget st ''confirmation_status'' = confirmation_of (dget p ''status'')"
    "\<And>c p. pk c = Some p \<Longrightarrow> dget p ''status'' = PStr ''pending'' \<Longrightarrow> c = cid"
  shows "state_packets_ok pk st"
proof -
  have "names_packet pk st cid" using assms by (simp add: names_packet_def)
  then show ?thesis using assms(1,3,6) unfolding state_packets_ok_def by blast
qed

lemma confirmation_id_nonempty: "packet_confirmation_id now fr p \<noteq> []"
  by (simp add: packet_confirmation_id_def Let_def)

lemma superseded_pending:
  assumes "state_packets_ok pk st"
    "superseded now (dget st ''current_confirmation_id'') pk c = Some p"
  shows "dget p ''status'' \<noteq> PStr ''pending''"
proof
  assume pending: "dget p ''status'' = PStr ''pending''"
  then have "pk c = Some p"
    using assms(2) by (auto simp: superseded_def split: option.splits if_splits)
  then have cur: "dget st ''current_confirmation_id'' = PStr c"
    using assms(1) pending by (auto simp: state_packets_ok_def)
  moreover have "c \<noteq> []"
    using assms(1) cur by (auto simp: state_packets_ok_def names_packet_def)
  ultimately have "Some (dset (dset p ''status'' (PStr ''superseded'')) ''superseded_at'' (PStr (isoformat now))) = Some p"
    using assms(2) \<open>pk c = Some p\<close> pending by (simp add: superseded_def)
  from arg_cong [OF this, of "\<lambda>x. dget (the x) ''status''"] pending show False by simp
qed

lemma control_ok_create [io_rules]: "io_keeps control_ok (create_packet now fr packet)"
proof (rule io_keepsI)
  fix s assume ok: "control_ok s"
  obtain r s' where run: "create_packet now fr packet s = (r, s')" by (cases "create_packet now fr packet s")
  from create_outcome [OF run] show "control_ok (snd (create_packet now fr packet s))"
  proof
    assume "(\<exists>e. r = Inl e) \<and> unchanged s s'"
    then show ?thesis using ok run by (simp add: unchanged_def)
  next
    assume "\<exists>st. r = Inr (created_packet now fr packet) \<and> ds_state s = Some st \<and>
       commit now s ((superseded now (dget st ''current_confirmation_id'') (ds_packets s))
           (packet_confirmation_id now fr packet \<mapsto> created_packet now fr packet))
         (dset (dset (dset st ''status'' (PStr ''AWAITING_CONFIRMATION'')) ''current_confirmation_id''
           (PStr (packet_confirmation_id now fr packet))) ''confirmation_status'' (PStr ''pending'')) s'"
    then obtain st where st: "ds_state s = Some st" and
      did: "commit now s ((superseded now (dget st ''current_confirmation_id'') (ds_packets s))
           (packet_confirmation_id now fr packet \<mapsto> created_packet now fr packet))
         (dset (dset (dset st ''status'' (PStr ''AWAITING_CONFIRMATION'')) ''current_confirmation_id''
           (PStr (packet_confirmation_id now fr packet))) ''confirmation_status'' (PStr ''pending'')) s'"
      by blast
    have "state_packets_ok (ds_packets s) st" using ok st by (simp add: control_ok_def)
    note pending = superseded_pending [OF this, of now]
    have "control_ok s'"
    proof (rule control_ok_commit [OF did],
        rule state_packets_okI [where p = "created_packet now fr packet"])
      show "c = packet_confirmation_id now fr packet"
        if "((superseded now (dget st ''current_confirmation_id'') (ds_packets s))
           (packet_confirmation_id now fr packet \<mapsto> created_packet now fr packet)) c = Some p"
          "dget p ''status'' = PStr ''pending''" for c p
        using that pending [of c p] by (cases "c = packet_confirmation_id now fr packet") simp_all
    qed (simp_all add: confirmation_id_nonempty confirmation_of_def)
    then show ?thesis using run by simp
  qed
qed

lemma active_state_ok:
  "control_ok s \<Longrightarrow> active_packet s cid st p q \<Longrightarrow>
     state_packets_ok (ds_packets s) st \<and> names_packet (ds_packets s) st cid"
  by (auto simp: control_ok_def active_packet_def state_packets_ok_def names_packet_def)

text \<open>Rewriting the active packet to a status that is not pending, with the state file following.\<close>

lemma control_ok_active:
  assumes "control_ok s" "active_packet s cid st p q" "commit now s ((ds_packets s)(cid \<mapsto> p1)) st1 s'"
    and "valid_state st1" "dget st1 ''current_confirmation_id'' = dget st ''current_confirmation_id''"
    and "dget st1 ''confirmation_status'' = confirmation_of (dget p1 ''status'')"
    and "dget p1 ''status'' \<noteq> PStr ''pending''"
  shows "control_ok s'"
proof (rule control_ok_commit [OF assms(3)], rule state_packets_okI [where p = p1])
  have ok: "state_packets_ok (ds_packets s) st" "names_packet (ds_packets s) st cid"
    using active_state_ok [OF assms(1,2)] by blast+
  show "cid \<noteq> []" "dget st1 ''current_confirmation_id'' = PStr cid"
    using ok(2) assms(5) by (simp_all add: names_packet_def)
  show "c = cid" if "((ds_packets s)(cid \<mapsto> p1)) c = Some p'" "dget p' ''status'' = PStr ''pending''" for c p'
  proof (rule ccontr)
    assume "c \<noteq> cid"
    then have "dget st ''current_confirmation_id'' = PStr c"
      using ok(1) that by (simp add: state_packets_ok_def)
    then show False using ok(2) \<open>c \<noteq> cid\<close> by (simp add: names_packet_def)
  qed
qed (simp_all add: assms)

lemma decided_status:
  "py_lower d \<in> {''confirm'', ''modify'', ''cancel''} \<Longrightarrow>
     dget (decided now d a m p) ''status'' =
       PStr (if py_lower d = ''confirm'' then ''confirmed''
             else if py_lower d = ''modify'' then ''modification_requested'' else ''cancelled'') \<and>
     dget (decided_state (py_lower d) st) ''confirmation_status'' = dget (decided now d a m p) ''status'' \<and>
     dget (decided_state (py_lower d) st) ''current_confirmation_id'' = dget st ''current_confirmation_id''"
  by (auto simp: decided_def decided_packet_def decided_state_def)

lemma control_ok_decide [io_rules]: "io_keeps control_ok (decide_packet now cid d a m)"
proof (rule io_keepsI)
  fix s assume ok: "control_ok s"
  obtain r s' where run: "decide_packet now cid d a m s = (r, s')" by (cases "decide_packet now cid d a m s")
  from decide_outcome [OF run] consider
      "unchanged s s'"
    | st p where "active_packet s cid st p ''pending''"
        "commit now s ((ds_packets s)(cid \<mapsto> dset p ''status'' (PStr ''expired'')))
          (dset (dset st ''status'' (PStr ''BLOCKED'')) ''confirmation_status'' (PStr ''expired'')) s'"
    | st p where "active_packet s cid st p ''pending''" "py_lower d \<in> {''confirm'', ''modify'', ''cancel''}"
        "commit now s ((ds_packets s)(cid \<mapsto> decided now d a m p)) (decided_state (py_lower d) st) s'"
    by blast
  then have "control_ok s'"
  proof cases
    case 1
    then show ?thesis using ok by (simp add: unchanged_def)
  next
    case (2 st p)
    show ?thesis by (rule control_ok_active [OF ok 2]) (simp_all add: confirmation_of_def)
  next
    case (3 st p)
    show ?thesis
      using decided_status [OF 3(2), of now a m p st]
      by (intro control_ok_active [OF ok 3(1,3)]) (simp_all add: confirmation_of_def)
  qed
  then show "control_ok (snd (decide_packet now cid d a m s))" using run by simp
qed

lemma control_ok_dispatch [io_rules]: "io_keeps control_ok (mark_dispatched now cid th md)"
proof (rule io_keepsI)
  fix s assume ok: "control_ok s"
  obtain r s' where run: "mark_dispatched now cid th md s = (r, s')" by (cases "mark_dispatched now cid th md s")
  from dispatch_outcome [OF run] consider
      "unchanged s s'"
    | st p where "active_packet s cid st p ''confirmed''"
        "commit now s ((ds_packets s)(cid \<mapsto> dispatched_packet now th p))
           (dset (dset st ''status'' (PStr ''DISPATCHED'')) ''current_execution_thread_id'' (PStr th)) s'"
    by blast
  then have "control_ok s'"
  proof cases
    case 1
    then show ?thesis using ok by (simp add: unchanged_def)
  next
    case (2 st p)
    have "dget st ''confirmation_status'' = PStr ''confirmed''"
      using active_state_ok [OF ok 2(1)] 2(1)
      by (auto simp: names_packet_def active_packet_def confirmation_of_def)
    then show ?thesis
      by (intro control_ok_active [OF ok 2]) (simp_all add: confirmation_of_def dispatched_packet_def)
  qed
  then show "control_ok (snd (mark_dispatched now cid th md s))" using run by simp
qed

lemma dstep_control: "io_keeps control_ok (dstep h a)"
  by (cases a) (auto intro!: io_rules)

interpretation control_store: store_machine "dstep h" control_ok
  for h
  using dstep_control by unfold_locales (simp add: io_keeps_def)

lemma control_ok_empty: "control_ok empty_dstore"
  by (simp add: control_ok_def empty_dstore_def)

lemma reachable_control: "dstore_reachable h s \<Longrightarrow> control_ok s"
  unfolding dstore_reachable_def using control_store.run_inv [OF control_ok_empty] by blast

section \<open>Accounting of decisions and dispatches\<close>

definition creates :: "string \<Rightarrow> dop \<Rightarrow> pyval result \<Rightarrow> nat" where
  "creates cid a r = (case a of
      CreatePacket now fr p \<Rightarrow> of_bool (packet_confirmation_id now fr p = cid \<and> \<not> isl r)
    | _ \<Rightarrow> 0)"

definition decisions :: "string \<Rightarrow> dop \<Rightarrow> pyval result \<Rightarrow> nat" where
  "decisions cid a r = (case a of Decide now c d ac m \<Rightarrow> of_bool (c = cid \<and> \<not> isl r) | _ \<Rightarrow> 0)"

definition confirms :: "string \<Rightarrow> dop \<Rightarrow> pyval result \<Rightarrow> nat" where
  "confirms cid a r = (case a of
      Decide now c d ac m \<Rightarrow> of_bool (c = cid \<and> py_lower d = ''confirm'' \<and> \<not> isl r)
    | _ \<Rightarrow> 0)"

definition dispatches :: "string \<Rightarrow> dop \<Rightarrow> pyval result \<Rightarrow> nat" where
  "dispatches cid a r = (case a of Dispatch now c th md \<Rightarrow> of_bool (c = cid \<and> \<not> isl r) | _ \<Rightarrow> 0)"

definition level_of :: "string \<Rightarrow> string \<Rightarrow> dstore \<Rightarrow> nat" where
  "level_of cid status s = of_bool (packet_status s cid = Some (PStr status))"

lemma dstep_wrap:
  "io_bind m (\<lambda>d. io_return (f d)) s = (r, s') \<Longrightarrow>
     \<exists>q. m s = (q, s') \<and> (isl r \<longleftrightarrow> isl q)"
  by (cases "m s") (auto simp: io_bind_def split: sum.splits)

lemma packet_status_upd:
  "ds_packets s' = pk \<Longrightarrow> packet_status s' c = map_option (\<lambda>p. dget p ''status'') (pk c)"
  by (simp add: packet_status_def)

lemma superseded_status:
  "map_option (\<lambda>p. dget p ''status'') (superseded now v pk c) = Some (PStr q) \<Longrightarrow> q \<noteq> ''superseded'' \<Longrightarrow>
     map_option (\<lambda>p. dget p ''status'') (pk c) = Some (PStr q)"
  by (simp add: superseded_def split: if_splits option.splits)

lemma level_create:
  assumes "create_packet now fr packet s = (r, s')" "q = ''pending'' \<or> q = ''confirmed''"
  shows "level_of cid q s' \<le> level_of cid q s +
    of_bool (q = ''pending'' \<and> packet_confirmation_id now fr packet = cid \<and> \<not> isl r)"
proof -
  from create_outcome [OF assms(1)] consider "s' = s"
    | v where "r = Inr (created_packet now fr packet)" "ds_packets s' = (superseded now v (ds_packets s))
         (packet_confirmation_id now fr packet \<mapsto> created_packet now fr packet)"
    by (auto simp: unchanged_def commit_def)
  then show ?thesis
  proof cases
    case (2 v)
    show ?thesis
    proof (cases "packet_confirmation_id now fr packet = cid")
      case True
      with 2 have "packet_status s' cid = Some (PStr ''pending'')" by (simp add: packet_status_def)
      then show ?thesis using assms(2) True 2(1) by (auto simp: level_of_def)
    next
      case False
      with 2 have "packet_status s' cid =
          map_option (\<lambda>p. dget p ''status'') (superseded now v (ds_packets s) cid)"
        by (simp add: packet_status_def)
      moreover have "q \<noteq> ''superseded''" using assms(2) by auto
      ultimately have "packet_status s' cid = Some (PStr q) \<Longrightarrow> packet_status s cid = Some (PStr q)"
        using superseded_status [of now v "ds_packets s" cid q] by (metis packet_status_def)
      then show ?thesis by (simp add: level_of_def)
    qed
  qed simp
qed

lemma commit_status:
  "commit now s ((ds_packets s)(c \<mapsto> p1)) st s' \<Longrightarrow>
     packet_status s' cid = (if cid = c then Some (dget p1 ''status'') else packet_status s cid)"
  by (simp add: commit_def packet_status_def)

lemma active_status: "active_packet s c st p q \<Longrightarrow> packet_status s c = Some (PStr q)"
  by (simp add: active_packet_def packet_status_def)

lemma level_decide:
  assumes "decide_packet now c d a m s = (r, s')"
  shows "level_of cid ''pending'' s' + of_bool (c = cid \<and> \<not> isl r) \<le> level_of cid ''pending'' s \<and>
    level_of cid ''confirmed'' s' \<le> level_of cid ''confirmed'' s +
      of_bool (c = cid \<and> py_lower d = ''confirm'' \<and> \<not> isl r)"
proof -
  from decide_outcome [OF assms] consider "\<exists>e. r = Inl e" "s' = s"
    | "\<exists>e. r = Inl e" "packet_status s c = Some (PStr ''pending'')"
        "packet_status s' cid = (if cid = c then Some (PStr ''expired'') else packet_status s cid)"
    | p where "packet_status s c = Some (PStr ''pending'')" "\<not> isl r" "py_lower d \<in> {''confirm'', ''modify'', ''cancel''}"
        "packet_status s' cid = (if cid = c then Some (dget (decided now d a m p) ''status'') else packet_status s cid)"
    using commit_status active_status unfolding unchanged_def by (smt (verit) dget_dset isl_def sum.distinct(1))
  then show ?thesis
  proof cases
    case (3 p)
    then show ?thesis using decided_status [OF 3(3), of now a m p "[]"]
      by (cases "cid = c") (auto simp: level_of_def)
  qed (auto simp: level_of_def)
qed

lemma level_dispatch:
  assumes "mark_dispatched now c th md s = (r, s')"
  shows "level_of cid ''confirmed'' s' + of_bool (c = cid \<and> \<not> isl r) \<le> level_of cid ''confirmed'' s \<and>
    level_of cid ''pending'' s' \<le> level_of cid ''pending'' s"
proof -
  from dispatch_outcome [OF assms] consider "\<exists>e. r = Inl e" "s' = s"
    | p where "packet_status s c = Some (PStr ''confirmed'')"
        "packet_status s' cid = (if cid = c then Some (dget (dispatched_packet now th p) ''status'')
           else packet_status s cid)"
    using commit_status active_status unfolding unchanged_def by blast
  then show ?thesis
    by cases (auto simp: level_of_def dispatched_packet_def)
qed

lemma level_other:
  assumes "\<not> packet_op a" "dstep h a s = (r, s')"
  shows "level_of cid q s' = level_of cid q s"
  using other_ops_packets [OF assms] by (simp add: level_of_def packet_status_def)

lemmas token_defs = creates_def decisions_def confirms_def dispatches_def

lemma other_tokens:
  "\<not> packet_op a \<Longrightarrow> creates cid a r = 0 \<and> decisions cid a r = 0 \<and> confirms cid a r = 0 \<and> dispatches cid a r = 0"
  by (cases a) (auto simp: packet_op_def token_defs)

lemma balance_decisions:
  assumes "dstep h a s = (r, s')"
  shows "level_of cid ''pending'' s' + decisions cid a r \<le> level_of cid ''pending'' s + creates cid a r"
proof (cases "packet_op a")
  case False
  then show ?thesis using level_other [OF False assms] other_tokens [OF False] by simp
next
  case True
  then show ?thesis
  proof (cases a)
    case (CreatePacket now fr p)
    then show ?thesis using dstep_wrap [OF assms [unfolded CreatePacket dstep.simps]]
        level_create [of now fr p s _ s' "''pending''" cid]
      by (auto simp: token_defs)
  next
    case (Decide now c d ac m)
    then show ?thesis using dstep_wrap [OF assms [unfolded Decide dstep.simps]]
        level_decide [of now c d ac m s _ s' cid]
      by (auto simp: token_defs)
  next
    case (Dispatch now c th md)
    then show ?thesis using dstep_wrap [OF assms [unfolded Dispatch dstep.simps]]
        level_dispatch [of now c th md s _ s' cid]
      by (auto simp: token_defs)
  qed (simp_all add: packet_op_def)
qed

lemma balance_dispatches:
  assumes "dstep h a s = (r, s')"
  shows "level_of cid ''confirmed'' s' + dispatches cid a r \<le> level_of cid ''confirmed'' s + confirms cid a r"
proof (cases "packet_op a")
  case False
  then show ?thesis using level_other [OF False assms] other_tokens [OF False] by simp
next
  case True
  then show ?thesis
  proof (cases a)
    case (CreatePacket now fr p)
    then show ?thesis using dstep_wrap [OF assms [unfolded CreatePacket dstep.simps]]
        level_create [of now fr p s _ s' "''confirmed''" cid]
      by (auto simp: token_defs)
  next
    case (Decide now c d ac m)
    then show ?thesis using dstep_wrap [OF assms [unfolded Decide dstep.simps]]
        level_decide [of now c d ac m s _ s' cid]
      by (auto simp: token_defs)
  next
    case (Dispatch now c th md)
    then show ?thesis using dstep_wrap [OF assms [unfolded Dispatch dstep.simps]]
        level_dispatch [of now c th md s _ s' cid]
      by (auto simp: token_defs)
  qed (simp_all add: packet_op_def)
qed

interpretation decision_tokens: counted_machine "dstep h" "\<lambda>s. True" "creates cid" "decisions cid"
    "level_of cid ''pending''"
  for h cid
  using balance_decisions by unfold_locales blast+

interpretation dispatch_tokens: counted_machine "dstep h" "\<lambda>s. True" "confirms cid" "dispatches cid"
    "level_of cid ''confirmed''"
  for h cid
  using balance_dispatches by unfold_locales blast+




lemma pending_outbox_due:
  "pending_outbox_of t wait_us limit log items = Inr due \<Longrightarrow> r \<in> set due \<Longrightarrow>
     r \<in> set items \<and>
     outbox_due t wait_us limit (delivery_history log (text_or_empty (dget r ''outbox_id''))) = Inr True"
  by (induction items arbitrary: due) (auto simp: rbind_Inr_iff split: if_splits)

lemma record_delivery_appends:
  assumes "record_delivery now oid status mid mids err retry s = (Inr rec, s')"
  shows "ds_delivery s' = ds_delivery s @ [rec] \<and> dget rec ''outbox_id'' = PStr oid \<and>
    dget rec ''delivery_status'' = PStr status"
  using assms
  by (auto simp: record_delivery_def Let_def io_then_Inr io_bind_Inr d_append_def save_state_def
      d_audit_def d_state_def)

text \<open>
  A settled delivery is final. Once a delivery of an outbox item was recorded as delivered,
  expired or unknown, \<open>pending_outbox\<close> does not return that item until another delivery of it is
  recorded, whatever the retry delay and the attempt limit.
\<close>

theorem settled_delivery_not_pending:
  assumes "record_delivery now oid status mid mids err retry s = (Inr rec, s')"
    and "status \<in> {''delivered'', ''expired'', ''unknown''}"
    and "pending_outbox_of t wait_us limit (ds_delivery s' @ later) items = Inr due"
    and "\<forall>r \<in> set later. text_or_empty (dget r ''outbox_id'') \<noteq> oid" "oid \<noteq> []"
  shows "\<forall>r \<in> set due. text_or_empty (dget r ''outbox_id'') \<noteq> oid"
proof (intro ballI notI)
  fix r assume r: "r \<in> set due" "text_or_empty (dget r ''outbox_id'') = oid"
  note rec = record_delivery_appends [OF assms(1)]
  have "filter (\<lambda>r. text_or_empty (dget r ''outbox_id'') = oid) later = []"
    using assms(4) by (simp add: filter_empty_conv)
  then have "delivery_history (ds_delivery s' @ later) oid = delivery_history (ds_delivery s) oid @ [rec]"
    using rec assms(5) by (simp add: delivery_history_def text_or_empty_def)
  then have "outbox_due t wait_us limit (delivery_history (ds_delivery s' @ later) oid) = Inr False"
    using rec assms(2) by (auto simp: outbox_due_def delivery_settled_def)
  then show False using pending_outbox_due [OF assms(3) r(1)] r(2) by simp
qed


lemma record_delivery_ready:
  assumes "ready s" "status \<in> {''delivered'', ''expired'', ''unknown''}"
    "normalized_message_ids mid mids \<noteq> []"
  obtains rec s' where "record_delivery now oid status mid mids err retry s = (Inr rec, s')"
proof -
  obtain st where st: "ds_state s = Some st" "valid_state st" using assms(1) by (auto simp: ready_def)
  have known: "\<not> status \<notin> {''delivered'', ''failed'', ''retry_pending'', ''unknown'', ''expired''}"
    using assms(2) by auto
  have "\<not> isl (fst (record_delivery now oid status mid mids err retry s))"
    using known assms(3) st
    by (simp only: record_delivery_def Let_def io_check_def d_append_def d_state_def read_file_def d_audit_def
        io_then_def io_bind_def) (simp add: save_state_valid)
  then show thesis using that by (metis isl_def prod.collapse sum.exhaust_sel)
qed

lemma settled_delivery_not_pending_witness:
  "\<exists>rec s' due. record_delivery 0 ''o'' ''delivered'' (Some ''m'') [] None None booted = (Inr rec, s') \<and>
     pending_outbox_of 5 0 None (ds_delivery s' @ []) [[(''outbox_id'', PStr ''o'')]] = Inr due \<and>
     (\<forall>r \<in> set due. text_or_empty (dget r ''outbox_id'') \<noteq> ''o'')"
proof -
  have "normalized_message_ids (Some ''m'') [] \<noteq> []" by (simp add: normalized_message_ids_def)
  from record_delivery_ready [OF booted_ready(1) _ this, of "''delivered''" 0 "''o''" None None]
  obtain rec s' where run: "record_delivery 0 ''o'' ''delivered'' (Some ''m'') [] None None booted = (Inr rec, s')"
    by blast
  have "\<exists>due. pending_outbox_of 5 0 None (ds_delivery s' @ []) [[(''outbox_id'', PStr ''o'')]] = Inr due"
    using record_delivery_appends [OF run]
    by (auto simp: outbox_due_def delivery_settled_def delivery_history_def text_or_empty_def)
  then obtain due where due: "pending_outbox_of 5 0 None (ds_delivery s' @ []) [[(''outbox_id'', PStr ''o'')]] = Inr due" ..
  show ?thesis using settled_delivery_not_pending [OF run _ due] run due by auto
qed

end
