(* ===== verification/Process_Lock.thy ===== *)
theory Process_Lock
  imports Store_Machine
begin

text \<open>
  The cross-process lock, \<open>packages/jarvis_runtime/coo_dispatcher_store.py\<close> class
  \<open>ProcessLock\<close>, as a step relation of all the processes that use one lock file.

  The file has an inode, the process id written in it (none between its exclusive creation and
  the write) and a modification time. A process waits with a deadline, creates the file, writes
  its id, holds the lock and unlinks the file on release. Without an \<open>owner_alive\<close> callback a
  waiter that saw a file older than \<open>stale_seconds\<close> unlinks the file of that name in a later
  step; with the callback \<open>_remove_dead_owner\<close> inspects and unlinks in one step, because it works
  under an exclusive handle or \<open>flock\<close>. A crash leaves the file behind. Times are microseconds.
  The branches for a file the system refuses to open (\<open>PermissionError\<close>) are waiting here.
\<close>

type_synonym pid = nat

datatype lock_phase =
    Outside
  | Waiting int
  | SawStale int
  | Writing nat
  | Holding
  | GaveUp
  | Dead

record lock_file =
  lf_inode :: nat
  lf_pid :: "pid option"
  lf_mtime :: int

record lock_state =
  lk_file :: "lock_file option"
  lk_phase :: "pid \<Rightarrow> lock_phase"
  lk_now :: int
  lk_inodes :: nat

record lock_config =
  lc_timeout :: int
  lc_stale :: int
  lc_owner_alive :: "(lock_state \<Rightarrow> pid \<Rightarrow> bool) option"

definition lock_init :: lock_state where
  "lock_init = \<lparr> lk_file = None, lk_phase = (\<lambda>p. Outside), lk_now = 0, lk_inodes = 0 \<rparr>"

definition set_phase :: "pid \<Rightarrow> lock_phase \<Rightarrow> lock_state \<Rightarrow> lock_state" where
  "set_phase p ph s = s\<lparr> lk_phase := (lk_phase s)(p := ph) \<rparr>"

text \<open>The test of \<open>_remove_dead_owner\<close>: a positive process id the callback calls dead.\<close>

definition owner_dead :: "(lock_state \<Rightarrow> pid \<Rightarrow> bool) \<Rightarrow> lock_state \<Rightarrow> lock_file \<Rightarrow> bool" where
  "owner_dead alive s f = (case lf_pid f of None \<Rightarrow> False | Some q \<Rightarrow> 0 < q \<and> \<not> alive s q)"

definition file_stale :: "lock_config \<Rightarrow> lock_state \<Rightarrow> lock_file \<Rightarrow> bool" where
  "file_stale c s f \<longleftrightarrow> lc_stale c < lk_now s - lf_mtime f"

definition write_pid :: "pid \<Rightarrow> nat \<Rightarrow> lock_state \<Rightarrow> lock_state" where
  "write_pid p i s = s\<lparr> lk_file := (case lk_file s of
      None \<Rightarrow> None
    | Some f \<Rightarrow> if lf_inode f = i then Some (f\<lparr> lf_pid := Some p, lf_mtime := lk_now s \<rparr>) else Some f) \<rparr>"

definition new_lock_file :: "lock_state \<Rightarrow> lock_file" where
  "new_lock_file s = \<lparr> lf_inode = lk_inodes s, lf_pid = None, lf_mtime = lk_now s \<rparr>"

definition unlink_lock :: "lock_state \<Rightarrow> lock_state" where
  "unlink_lock s = s\<lparr> lk_file := None \<rparr>"

inductive lock_step :: "lock_config \<Rightarrow> lock_state \<Rightarrow> lock_state \<Rightarrow> bool" for c :: lock_config where
  enter: "lk_phase s p = Outside \<Longrightarrow>
    lock_step c s (set_phase p (Waiting (lk_now s + lc_timeout c)) s)"
| create: "lk_phase s p = Waiting d \<Longrightarrow> lk_file s = None \<Longrightarrow>
    lock_step c s (set_phase p (Writing (lk_inodes s))
      (s\<lparr> lk_file := Some (new_lock_file s), lk_inodes := Suc (lk_inodes s) \<rparr>))"
| fill: "lk_phase s p = Writing i \<Longrightarrow>
    lock_step c s (set_phase p Holding (write_pid p i s))"
| see_stale: "lc_owner_alive c = None \<Longrightarrow> lk_phase s p = Waiting d \<Longrightarrow> lk_file s = Some f \<Longrightarrow>
    file_stale c s f \<Longrightarrow> lock_step c s (set_phase p (SawStale d) s)"
| unlink_stale: "lk_phase s p = SawStale d \<Longrightarrow>
    lock_step c s (set_phase p (Waiting d) (unlink_lock s))"
| reclaim: "lc_owner_alive c = Some alive \<Longrightarrow> lk_phase s p = Waiting d \<Longrightarrow> lk_file s = Some f \<Longrightarrow>
    owner_dead alive s f \<Longrightarrow> lock_step c s (unlink_lock s)"
| give_up: "lk_phase s p = Waiting d \<Longrightarrow> lk_file s = Some f \<Longrightarrow> d \<le> lk_now s \<Longrightarrow>
    lc_owner_alive c = None \<longrightarrow> \<not> file_stale c s f \<Longrightarrow> lock_step c s (set_phase p GaveUp s)"
| release: "lk_phase s p = Holding \<Longrightarrow>
    lock_step c s (set_phase p Outside (unlink_lock s))"
| tick: "0 < t \<Longrightarrow> lock_step c s (s\<lparr> lk_now := lk_now s + t \<rparr>)"
| crash: "lk_phase s p \<noteq> Dead \<Longrightarrow> lock_step c s (set_phase p Dead s)"

lemma lock_last: "lock_step c a b \<Longrightarrow> (lock_step c)\<^sup>*\<^sup>* a b"
  by (rule r_into_rtranclp)

lemma lock_path: "lock_step c a b \<Longrightarrow> (lock_step c)\<^sup>*\<^sup>* b d \<Longrightarrow> (lock_step c)\<^sup>*\<^sup>* a d"
  by (rule converse_rtranclp_into_rtranclp)

inductive_cases lock_stepE: "lock_step c s s'"

lemma unlink_simps [simp]:
  "lk_phase (unlink_lock s) = lk_phase s" "lk_file (unlink_lock s) = None"
  "lk_now (unlink_lock s) = lk_now s" "lk_inodes (unlink_lock s) = lk_inodes s"
  by (simp_all add: unlink_lock_def)

lemma phase_simps [simp]:
  "lk_phase (set_phase p ph s) q = (if q = p then ph else lk_phase s q)"
  "lk_file (set_phase p ph s) = lk_file s"
  "lk_now (set_phase p ph s) = lk_now s"
  "lk_inodes (set_phase p ph s) = lk_inodes s"
  "lk_phase (write_pid p i s) = lk_phase s"
  "lk_inodes (write_pid p i s) = lk_inodes s"
  by (simp_all add: set_phase_def write_pid_def)

section \<open>Mutual exclusion with a liveness callback\<close>

definition owns :: "lock_state \<Rightarrow> pid \<Rightarrow> bool" where
  "owns s p \<longleftrightarrow> lk_phase s p = Holding \<or> (\<exists>i. lk_phase s p = Writing i)"

text \<open>The callback never calls a process dead that still runs.\<close>

definition alive_sound :: "lock_config \<Rightarrow> bool" where
  "alive_sound c \<longleftrightarrow> (\<exists>alive. lc_owner_alive c = Some alive \<and>
     (\<forall>s p. \<not> alive s p \<longrightarrow> lk_phase s p = Dead))"

definition file_of :: "lock_state \<Rightarrow> pid \<Rightarrow> bool" where
  "file_of s p \<longleftrightarrow> (\<exists>f. lk_file s = Some f \<and>
     (lk_phase s p = Holding \<longrightarrow> lf_pid f = Some p) \<and>
     (\<forall>i. lk_phase s p = Writing i \<longrightarrow> lf_inode f = i \<and> lf_pid f = None))"

definition lock_inv :: "lock_state \<Rightarrow> bool" where
  "lock_inv s \<longleftrightarrow>
     (\<forall>p. owns s p \<longrightarrow> file_of s p) \<and>
     (\<forall>p q. owns s p \<longrightarrow> owns s q \<longrightarrow> p = q) \<and>
     (\<forall>p d. lk_phase s p \<noteq> SawStale d)"

lemma lock_inv_init: "lock_inv lock_init"
  by (simp add: lock_inv_def owns_def lock_init_def)

lemma lock_inv_step:
  assumes "alive_sound c" "lock_inv s" "lock_step c s s'"
  shows "lock_inv s'"
  using assms(3)
proof cases
  case (enter p)
  then show ?thesis using assms(2) by (auto simp: lock_inv_def owns_def file_of_def)
next
  case (create p d)
  then have "\<not> owns s q" for q using assms(2) by (auto simp: lock_inv_def file_of_def)
  then show ?thesis using create assms(2)
    by (auto simp: lock_inv_def owns_def file_of_def new_lock_file_def)
next
  case (fill p i)
  then have "file_of s p" "\<And>q. owns s q \<Longrightarrow> q = p"
    using assms(2) unfolding lock_inv_def owns_def by blast+
  then show ?thesis using fill assms(2)
    by (auto simp: lock_inv_def owns_def file_of_def write_pid_def)
next
  case (see_stale p d f)
  then show ?thesis using assms(1) by (simp add: alive_sound_def)
next
  case (unlink_stale p d)
  then show ?thesis using assms(2) by (simp add: lock_inv_def)
next
  case (reclaim alive p d f)
  then obtain q where q: "lf_pid f = Some q" "lk_phase s q = Dead"
    using assms(1) by (auto simp: alive_sound_def owner_dead_def split: option.splits)
  have "\<not> owns s r" for r
  proof
    assume own: "owns s r"
    then have "file_of s r" using assms(2) by (simp add: lock_inv_def)
    then show False using own q reclaim by (auto simp: owns_def file_of_def)
  qed
  then show ?thesis using reclaim assms(2) by (auto simp: lock_inv_def owns_def)
next
  case (release p)
  then have "\<And>q. owns s q \<Longrightarrow> q = p" using assms(2) unfolding lock_inv_def owns_def by blast
  then show ?thesis using release assms(2) by (auto simp: lock_inv_def owns_def)
qed (use assms(2) in \<open>auto simp: lock_inv_def owns_def file_of_def\<close>)


interpretation probed_lock: step_system "\<lambda>s s'. alive_sound c \<and> lock_step c s s'" lock_inv
  for c
  using lock_inv_step by unfold_locales blast

lemma reach_conj: "alive_sound c \<Longrightarrow> (lock_step c)\<^sup>*\<^sup>* s s' \<Longrightarrow> (\<lambda>s s'. alive_sound c \<and> lock_step c s s')\<^sup>*\<^sup>* s s'"
  by (simp cong: conj_cong)

text \<open>
  C7: with an \<open>owner_alive\<close> callback that never calls a running process dead, at most one process
  holds the lock or is about to, whatever the interleaving, the waiting and the crashes; and the
  lock file of a holder names that holder.
\<close>

theorem lock_mutual_exclusion:
  assumes "alive_sound c" "(lock_step c)\<^sup>*\<^sup>* lock_init s"
  shows "(owns s p \<and> owns s q \<longrightarrow> p = q) \<and>
    (lk_phase s p = Holding \<longrightarrow> (\<exists>f. lk_file s = Some f \<and> lf_pid f = Some p))"
proof -
  have "lock_inv s" using probed_lock.reach_inv [OF reach_conj [OF assms] lock_inv_init] .
  then show ?thesis unfolding lock_inv_def owns_def file_of_def by metis
qed

definition probed_config :: lock_config where
  "probed_config = \<lparr> lc_timeout = 10000000, lc_stale = 300000000,
     lc_owner_alive = Some (\<lambda>s p. lk_phase s p \<noteq> Dead) \<rparr>"

definition held_state :: lock_state where
  "held_state = set_phase 7 Holding (write_pid 7 0 (set_phase 7 (Writing 0)
     ((set_phase 7 (Waiting 10000000) lock_init)\<lparr> lk_file := Some (new_lock_file lock_init), lk_inodes := 1 \<rparr>)))"

lemma held_reachable: "(lock_step probed_config)\<^sup>*\<^sup>* lock_init held_state"
proof -
  have a: "lock_step probed_config lock_init (set_phase 7 (Waiting 10000000) lock_init)"
    using lock_step.enter [of lock_init 7 probed_config] by (simp add: lock_init_def probed_config_def)
  have b: "lock_step probed_config (set_phase 7 (Waiting 10000000) lock_init)
      (set_phase 7 (Writing 0) ((set_phase 7 (Waiting 10000000) lock_init)
         \<lparr> lk_file := Some (new_lock_file lock_init), lk_inodes := 1 \<rparr>))"
    using lock_step.create [of "set_phase 7 (Waiting 10000000) lock_init" 7 10000000 probed_config]
    by (simp add: lock_init_def new_lock_file_def)
  have c: "lock_step probed_config (set_phase 7 (Writing 0) ((set_phase 7 (Waiting 10000000) lock_init)
         \<lparr> lk_file := Some (new_lock_file lock_init), lk_inodes := 1 \<rparr>)) held_state"
    unfolding held_state_def by (rule lock_step.fill) simp
  show ?thesis
    by (rule lock_path [OF a lock_path [OF b lock_last [OF c]]])
qed

lemma lock_mutual_exclusion_witness:
  "alive_sound probed_config \<and> (lock_step probed_config)\<^sup>*\<^sup>* lock_init held_state \<and>
   lk_phase held_state 7 = Holding \<and> {q. owns held_state q} = {7} \<and>
   (\<exists>f. lk_file held_state = Some f \<and> lf_pid f = Some 7)"
proof -
  have sound: "alive_sound probed_config" by (simp add: alive_sound_def probed_config_def)
  have held: "lk_phase held_state 7 = Holding" by (simp add: held_state_def)
  then have "owns held_state 7" by (simp add: owns_def)
  then show ?thesis
    using lock_mutual_exclusion [OF sound held_reachable] sound held held_reachable by blast
qed

section \<open>A crash between creation and write\<close>

text \<open>The lock file is empty and no process is left that would write or release it.\<close>

definition wedged :: "lock_state \<Rightarrow> bool" where
  "wedged s \<longleftrightarrow> (\<exists>f. lk_file s = Some f \<and> lf_pid f = None) \<and> (\<forall>p. \<not> owns s p) \<and>
     (\<forall>p d. lk_phase s p \<noteq> SawStale d)"

lemma wedged_step:
  assumes "lc_owner_alive c = Some alive" "wedged s" "lock_step c s s'"
  shows "wedged s'"
  using assms(3) assms(1,2)
  by cases (auto simp: wedged_def owns_def owner_dead_def split: option.splits)

interpretation wedged_lock: step_system "\<lambda>s s'. lc_owner_alive c \<noteq> None \<and> lock_step c s s'" wedged
  for c
  using wedged_step by unfold_locales blast

text \<open>
  Under the liveness callback, a process that dies between creating the lock file and writing
  its id leaves an empty file no waiter ever removes: such a state is reachable, and from it no
  process holds the lock again.
\<close>

theorem lock_crash_wedges:
  assumes "lc_owner_alive c = Some alive"
  shows "\<exists>s. (lock_step c)\<^sup>*\<^sup>* lock_init s \<and>
    (\<forall>s'. (lock_step c)\<^sup>*\<^sup>* s s' \<longrightarrow> (\<exists>f. lk_file s' = Some f) \<and> (\<forall>p. lk_phase s' p \<noteq> Holding))"
proof -
  define s1 where "s1 = set_phase 1 (Waiting (lc_timeout c)) lock_init"
  define s2 where "s2 = set_phase 1 (Writing (lk_inodes s1))
      (s1\<lparr> lk_file := Some (new_lock_file s1), lk_inodes := Suc (lk_inodes s1) \<rparr>)"
  define s3 where "s3 = set_phase 1 Dead s2"
  have a: "lock_step c lock_init s1"
    using lock_step.enter [of lock_init 1 c] by (simp add: s1_def lock_init_def)
  have b: "lock_step c s1 s2"
    unfolding s2_def by (rule lock_step.create [where d = "lc_timeout c"]) (simp_all add: s1_def lock_init_def)
  have d: "lock_step c s2 s3"
    unfolding s3_def by (rule lock_step.crash) (simp add: s2_def)
  have reach: "(lock_step c)\<^sup>*\<^sup>* lock_init s3"
    by (rule lock_path [OF a lock_path [OF b lock_last [OF d]]])
  have "wedged s3"
    by (auto simp: wedged_def s3_def s2_def s1_def lock_init_def owns_def new_lock_file_def)
  then have "wedged s'" if "(lock_step c)\<^sup>*\<^sup>* s3 s'" for s'
    using wedged_lock.reach_inv [of c s3 s'] that assms by (simp cong: conj_cong)
  then show ?thesis using reach by (force simp: wedged_def owns_def)
qed

lemma lock_crash_wedges_witness:
  "lc_owner_alive probed_config = Some (\<lambda>s p. lk_phase s p \<noteq> Dead) \<and>
   (\<exists>s. (lock_step probed_config)\<^sup>*\<^sup>* lock_init s \<and>
    (\<forall>s'. (lock_step probed_config)\<^sup>*\<^sup>* s s' \<longrightarrow>
       (\<exists>f. lk_file s' = Some f) \<and> (\<forall>p. lk_phase s' p \<noteq> Holding)))"
proof -
  have alive: "lc_owner_alive probed_config = Some (\<lambda>s p. lk_phase s p \<noteq> Dead)"
    by (simp add: probed_config_def)
  show ?thesis using lock_crash_wedges [OF alive] alive by blast
qed

section \<open>The stale rule without a callback\<close>

text \<open>
  Without the callback mutual exclusion fails even when no running holder keeps the lock for
  long: two waiters that both saw the stale file of a dead process each unlink the file of that
  name, the second one the first one's fresh lock, and both hold the lock.
\<close>

theorem stale_rule_two_holders:
  assumes "lc_owner_alive c = None" "0 \<le> lc_stale c"
  shows "\<exists>s. (lock_step c)\<^sup>*\<^sup>* lock_init s \<and> lk_phase s 2 = Holding \<and> lk_phase s 3 = Holding \<and>
    (\<forall>p. owns s p \<longrightarrow> p = 2 \<or> p = 3) \<and> lk_now s = lc_stale c + 1"
proof -
  define s1 where "s1 = set_phase 1 (Waiting (lk_now lock_init + lc_timeout c)) lock_init"
  define s2 where "s2 = set_phase 1 (Writing (lk_inodes s1)) (s1\<lparr> lk_file := Some (new_lock_file s1), lk_inodes := Suc (lk_inodes s1) \<rparr>)"
  define s3 where "s3 = set_phase 1 Holding (write_pid 1 (lk_inodes s1) s2)"
  define s4 where "s4 = set_phase 1 Dead s3"
  define s5 where "s5 = s4\<lparr> lk_now := lk_now s4 + (lc_stale c + 1) \<rparr>"
  define s6 where "s6 = set_phase 2 (Waiting (lk_now s5 + lc_timeout c)) s5"
  define s7 where "s7 = set_phase 3 (Waiting (lk_now s6 + lc_timeout c)) s6"
  define s8 where "s8 = set_phase 2 (SawStale (lk_now s5 + lc_timeout c)) s7"
  define s9 where "s9 = set_phase 3 (SawStale (lk_now s5 + lc_timeout c)) s8"
  define s10 where "s10 = set_phase 2 (Waiting (lk_now s5 + lc_timeout c)) (unlink_lock s9)"
  define s11 where "s11 = set_phase 2 (Writing (lk_inodes s10)) (s10\<lparr> lk_file := Some (new_lock_file s10), lk_inodes := Suc (lk_inodes s10) \<rparr>)"
  define s12 where "s12 = set_phase 2 Holding (write_pid 2 (lk_inodes s10) s11)"
  define s13 where "s13 = set_phase 3 (Waiting (lk_now s5 + lc_timeout c)) (unlink_lock s12)"
  define s14 where "s14 = set_phase 3 (Writing (lk_inodes s13)) (s13\<lparr> lk_file := Some (new_lock_file s13), lk_inodes := Suc (lk_inodes s13) \<rparr>)"
  define s15 where "s15 = set_phase 3 Holding (write_pid 3 (lk_inodes s13) s14)"
  note states = s15_def s14_def s13_def s12_def s11_def s10_def s9_def s8_def s7_def s6_def s5_def s4_def s3_def s2_def s1_def lock_init_def new_lock_file_def write_pid_def file_stale_def
  have t1: "lock_step c lock_init s1"
    unfolding s1_def by (rule lock_step.enter) (use assms in \<open>simp_all add: states\<close>)
  have t2: "lock_step c s1 s2"
    unfolding s2_def by (rule lock_step.create [where d = "lk_now lock_init + lc_timeout c"]) (use assms in \<open>simp_all add: states\<close>)
  have t3: "lock_step c s2 s3"
    unfolding s3_def by (rule lock_step.fill [where i = "lk_inodes s1"]) (use assms in \<open>simp_all add: states\<close>)
  have t4: "lock_step c s3 s4"
    unfolding s4_def by (rule lock_step.crash) (use assms in \<open>simp_all add: states\<close>)
  have t5: "lock_step c s4 s5"
    unfolding s5_def by (rule lock_step.tick) (use assms in \<open>simp_all add: states\<close>)
  have t6: "lock_step c s5 s6"
    unfolding s6_def by (rule lock_step.enter) (use assms in \<open>simp_all add: states\<close>)
  have t7: "lock_step c s6 s7"
    unfolding s7_def by (rule lock_step.enter) (use assms in \<open>simp_all add: states\<close>)
  have t8: "lock_step c s7 s8"
    unfolding s8_def by (rule lock_step.see_stale [where d = "lk_now s5 + lc_timeout c" and f = "the (lk_file s5)"]) (use assms in \<open>simp_all add: states\<close>)
  have t9: "lock_step c s8 s9"
    unfolding s9_def by (rule lock_step.see_stale [where d = "lk_now s5 + lc_timeout c" and f = "the (lk_file s5)"]) (use assms in \<open>simp_all add: states\<close>)
  have t10: "lock_step c s9 s10"
    unfolding s10_def by (rule lock_step.unlink_stale [where d = "lk_now s5 + lc_timeout c"]) (use assms in \<open>simp_all add: states\<close>)
  have t11: "lock_step c s10 s11"
    unfolding s11_def by (rule lock_step.create [where d = "lk_now s5 + lc_timeout c"]) (use assms in \<open>simp_all add: states\<close>)
  have t12: "lock_step c s11 s12"
    unfolding s12_def by (rule lock_step.fill [where i = "lk_inodes s10"]) (use assms in \<open>simp_all add: states\<close>)
  have t13: "lock_step c s12 s13"
    unfolding s13_def by (rule lock_step.unlink_stale [where d = "lk_now s5 + lc_timeout c"]) (use assms in \<open>simp_all add: states\<close>)
  have t14: "lock_step c s13 s14"
    unfolding s14_def by (rule lock_step.create [where d = "lk_now s5 + lc_timeout c"]) (use assms in \<open>simp_all add: states\<close>)
  have t15: "lock_step c s14 s15"
    unfolding s15_def by (rule lock_step.fill [where i = "lk_inodes s13"]) (use assms in \<open>simp_all add: states\<close>)
  have "(lock_step c)\<^sup>*\<^sup>* lock_init s15"
    by (rule lock_path [OF t1 lock_path [OF t2 lock_path [OF t3 lock_path [OF t4 lock_path [OF t5 lock_path [OF t6 lock_path [OF t7 lock_path [OF t8
      lock_path [OF t9 lock_path [OF t10 lock_path [OF t11 lock_path [OF t12 lock_path [OF t13 lock_path [OF t14 lock_last [OF t15]]]]]]]]]]]]]]])
  moreover have "lk_phase s15 2 = Holding \<and> lk_phase s15 3 = Holding \<and>
      (\<forall>p. owns s15 p \<longrightarrow> p = 2 \<or> p = 3) \<and> lk_now s15 = lc_stale c + 1"
    by (simp add: states owns_def)
  ultimately show ?thesis by blast
qed

lemma stale_rule_two_holders_witness:
  "\<exists>s. (lock_step (probed_config\<lparr> lc_owner_alive := None \<rparr>))\<^sup>*\<^sup>* lock_init s \<and>
     lk_phase s 2 = Holding \<and> lk_phase s 3 = Holding \<and> lk_now s = 300000001"
  using stale_rule_two_holders [of "probed_config\<lparr> lc_owner_alive := None \<rparr>"]
  by (auto simp: probed_config_def)

end
