(* ===== verification/Local_Heartbeat.thy ===== *)
theory Local_Heartbeat
  imports Store_Machine Py_Json Iso_Time
begin

text \<open>
  The local heartbeat scheduler, \<open>packages/jarvis_runtime/jarvis_local_heartbeat.py\<close>: the table of
  schedules and its operations (\<open>LocalHeartbeatStore\<close>), one tick of the scheduler
  (\<open>HeartbeatService.run_once\<close>), its health reading and the port behind
  \<open>JarvisControl.heartbeat\<close>.

  A row of \<open>jarvis_local_heartbeats\<close> is a record; the table is the list of rows in insertion order.
  Epochs are instants in microseconds. The column \<open>arguments_json\<close> is kept as the object whose
  sorted JSON text the code stores and reads back. The clock is one reading per operation, the
  dictionary of \<open>computer_time()\<close> is an argument. The function runner is an argument too: it
  works on the whole state and may raise; \<open>lh_world\<close> is everything outside the database.
\<close>

section \<open>Rows and configuration\<close>

definition hb_terminal :: "string list" where
  "hb_terminal = [''COMPLETED'', ''CANCELLED'', ''FAILED'', ''RETIRED'']"

definition hb_functions :: "string list" where
  "hb_functions = [''JarvisControl.monitor'', ''JarvisControl.resume'', ''JarvisControl.notify'',
     ''JarvisControl.loop_tick'']"

record hb_config =
  hc_poll_us :: int
  hc_min_interval :: int
  hc_max_interval :: int

record hb_row =
  hb_id :: string
  hb_name :: string
  hb_function :: string
  hb_arguments :: pdict
  hb_interval :: int
  hb_status :: string
  hb_next :: "instant option"
  hb_run_count :: int
  hb_max_runs :: int
  hb_expires :: string
  hb_failures :: int
  hb_last_error :: pyval
  hb_source :: string
  hb_confirmation :: string
  hb_created :: string
  hb_updated :: string

record 'w lh_state =
  lh_rows :: "hb_row list"
  lh_runs :: "pdict list"
  lh_health :: "pyval option"
  lh_world :: 'w

definition hb_row_dict :: "hb_row \<Rightarrow> pdict" where
  "hb_row_dict r =
    [(''heartbeat_id'', PStr (hb_id r)), (''name'', PStr (hb_name r)),
     (''function_name'', PStr (hb_function r)),
     (''arguments_json'', PStr (json_default (PDict (hb_arguments r)))),
     (''interval_seconds'', PInt (hb_interval r)), (''status'', PStr (hb_status r)),
     (''next_run_epoch'', opt_int (hb_next r)), (''run_count'', PInt (hb_run_count r)),
     (''max_runs'', PInt (hb_max_runs r)), (''expires_at'', PStr (hb_expires r)),
     (''failure_count'', PInt (hb_failures r)), (''last_error'', hb_last_error r),
     (''source_event_key'', PStr (hb_source r)), (''confirmation_evidence'', PStr (hb_confirmation r)),
     (''created_at'', PStr (hb_created r)), (''updated_at'', PStr (hb_updated r))]"

section \<open>Operations of the store\<close>

definition parse_time :: "pyval \<Rightarrow> string \<Rightarrow> instant result" where
  "parse_time v name = (case parse_instant (py_str v) of
      None \<Rightarrow> Inl (ValueError (name @ '' must be an ISO timestamp''))
    | Some t \<Rightarrow> Inr t)"

definition seconds_us :: "int \<Rightarrow> int" where
  "seconds_us n = n * 1000000"

definition hb_start :: "instant \<Rightarrow> int \<Rightarrow> pdict \<Rightarrow> instant result" where
  "hb_start now interval request =
     (if truthy (dget request ''start_at'') then parse_time (dget request ''start_at'') ''start_at''
      else if truthy (dget request ''start_immediately'') then Inr now
      else Inr (now + seconds_us interval))"

fun hb_check_arguments :: "pyval \<Rightarrow> pdict result" where
  "hb_check_arguments (PDict d) = Inr d"
| "hb_check_arguments _ = Inl (ValueError ''arguments must be an object'')"

text \<open>\<open>_validate\<close>: the row of a request, with the columns an insertion sets to their defaults.\<close>

definition hb_validate :: "hb_config \<Rightarrow> instant \<Rightarrow> pdict \<Rightarrow> hb_row result" where
  "hb_validate c now request =
     (let hid = stripped (dget request ''heartbeat_id''); name = stripped (dget request ''name'');
          function = stripped (dget request ''function'');
          source = stripped (dget request ''source_event_key'');
          confirmation = stripped (dget request ''confirmation_evidence'') in
      rbind (raise_if (dhas request ''prompt'') (ValueError ''prompt is not supported by local heartbeat'')) (\<lambda>_.
      rbind (raise_if (hid = [] \<or> name = []) (ValueError ''heartbeat_id and name are required'')) (\<lambda>_.
      rbind (raise_if (function \<notin> set hb_functions)
        (ValueError ''function must be a supported JarvisControl function'')) (\<lambda>_.
      rbind (hb_check_arguments (dget_or request ''arguments'' (PDict []))) (\<lambda>arguments.
      rbind (py_int (py_or (dget request ''interval_seconds'') (PInt 0))) (\<lambda>interval.
      rbind (raise_if (\<not> (hc_min_interval c \<le> interval \<and> interval \<le> hc_max_interval c))
        (ValueError ''interval_seconds is outside configured limits'')) (\<lambda>_.
      rbind (py_int (py_or (dget request ''max_runs'') (PInt 0))) (\<lambda>max_runs.
      rbind (raise_if (max_runs < 1) (ValueError ''max_runs must be positive'')) (\<lambda>_.
      rbind (parse_time (dget request ''expires_at'') ''expires_at'') (\<lambda>expires.
      rbind (raise_if (expires \<le> now) (ValueError ''expires_at must be in the future'')) (\<lambda>_.
      rbind (hb_start now interval request) (\<lambda>start.
      rbind (raise_if (source = [] \<or> confirmation = [])
        (ValueError ''source_event_key and confirmation_evidence are required'')) (\<lambda>_.
      Inr \<lparr> hb_id = hid, hb_name = py_take 160 name, hb_function = function,
            hb_arguments = as_dict (json_sorted (PDict arguments)), hb_interval = interval,
            hb_status = ''ACTIVE'', hb_next = Some start, hb_run_count = 0, hb_max_runs = max_runs,
            hb_expires = isoformat expires, hb_failures = 0, hb_last_error = PNone,
            hb_source = source, hb_confirmation = py_take 500 confirmation,
            hb_created = isoformat now, hb_updated = isoformat now \<rparr>)))))))))))))"

definition hb_lookup :: "string \<Rightarrow> hb_row list \<Rightarrow> hb_row option" where
  "hb_lookup hid rows = find (\<lambda>r. hb_id r = hid) rows"

definition hb_get :: "string \<Rightarrow> ('w lh_state, hb_row) io" where
  "hb_get hid s = (case hb_lookup hid (lh_rows s) of
      None \<Rightarrow> Inl (ValueError ''heartbeat not found'')
    | Some r \<Rightarrow> Inr r, s)"

definition hb_list :: "'w lh_state \<Rightarrow> hb_row list" where
  "hb_list s = sort_key hb_id (lh_rows s)"

definition hb_create :: "hb_config \<Rightarrow> instant \<Rightarrow> pdict \<Rightarrow> ('w lh_state, bool \<times> hb_row) io" where
  "hb_create c now request =
     io_bind (io_lift (hb_validate c now request)) (\<lambda>row.
     io_bind (io_get (\<lambda>s. hb_lookup (hb_id row) (lh_rows s))) (\<lambda>existing.
     case existing of
       Some r \<Rightarrow> io_return (False, r)
     | None \<Rightarrow> io_then (io_modify (\<lambda>s. s\<lparr> lh_rows := lh_rows s @ [row] \<rparr>))
         (io_bind (hb_get (hb_id row)) (\<lambda>r. io_return (True, r)))))"

text \<open>\<open>UPDATE ... WHERE heartbeat_id = ?\<close>.\<close>

definition hb_update :: "string \<Rightarrow> (hb_row \<Rightarrow> hb_row) \<Rightarrow> ('w lh_state, unit) io" where
  "hb_update hid f = io_modify (\<lambda>s. s\<lparr> lh_rows :=
     map (\<lambda>r. if hb_id r = hid then f r else r) (lh_rows s) \<rparr>)"

definition hb_cancelled :: "instant \<Rightarrow> hb_row \<Rightarrow> hb_row" where
  "hb_cancelled now r =
     (if hb_status r = ''ACTIVE''
      then r\<lparr> hb_status := ''CANCELLED'', hb_next := None, hb_updated := isoformat now \<rparr> else r)"

definition hb_active_rows :: "string \<Rightarrow> 'w lh_state \<Rightarrow> nat" where
  "hb_active_rows hid s = length (filter (\<lambda>r. hb_id r = hid \<and> hb_status r = ''ACTIVE'') (lh_rows s))"

definition hb_cancel :: "instant \<Rightarrow> string \<Rightarrow> ('w lh_state, hb_row) io" where
  "hb_cancel now hid =
     io_bind (io_get (hb_active_rows hid)) (\<lambda>changed.
     io_then (hb_update hid (hb_cancelled now))
     (io_bind (hb_get hid) (\<lambda>r.
      io_then (io_check (changed \<noteq> 1 \<and> (hb_status r \<notin> set hb_terminal \<or> hb_next r \<noteq> None))
        (ValueError ''heartbeat is not confirmed inactive''))
      (io_return r))))"

text \<open>The rows the \<open>SELECT\<close> of \<open>claim_due\<close> finds, and those of them that have not expired.\<close>

definition hb_due :: "instant \<Rightarrow> hb_row \<Rightarrow> bool" where
  "hb_due now r \<longleftrightarrow> hb_status r = ''ACTIVE'' \<and> (case hb_next r of None \<Rightarrow> False | Some t \<Rightarrow> t \<le> now) \<and>
     hb_run_count r < hb_max_runs r"

fun hb_unexpired :: "instant \<Rightarrow> hb_row list \<Rightarrow> hb_row list result" where
  "hb_unexpired now [] = Inr []"
| "hb_unexpired now (r # rs) =
     rbind (parse_time (PStr (hb_expires r)) ''expires_at'') (\<lambda>t.
     rbind (hb_unexpired now rs) (\<lambda>rest. Inr (if now < t then r # rest else rest)))"

definition hb_claimed :: "instant \<Rightarrow> hb_row list \<Rightarrow> hb_row \<Rightarrow> hb_row" where
  "hb_claimed now claimed r =
     (if hb_id r \<in> hb_id ` set claimed
      then r\<lparr> hb_next := Some (now + seconds_us (hb_interval r)), hb_updated := isoformat now \<rparr> else r)"

definition claim_due :: "instant \<Rightarrow> ('w lh_state, hb_row list) io" where
  "claim_due now =
     io_bind (io_get (\<lambda>s. filter (hb_due now) (lh_rows s))) (\<lambda>rows.
     io_bind (io_lift (hb_unexpired now rows)) (\<lambda>claimed.
     io_then (io_modify (\<lambda>s. s\<lparr> lh_rows := map (hb_claimed now claimed) (lh_rows s) \<rparr>))
     (io_return claimed)))"

definition hb_success :: "string \<Rightarrow> pdict \<Rightarrow> bool" where
  "hb_success function result \<longleftrightarrow>
     text_or_empty (dget result ''status'') \<in> {''completed'', ''holding'', ''running'', ''active'', ''accepted''} \<or>
     function = ''JarvisControl.loop_tick'' \<and>
       dget result ''status'' \<in> PStr ` {''acquiring'', ''stopping'', ''finalizing''}"

text \<open>The row after one recorded run.\<close>

definition hb_recorded :: "instant \<Rightarrow> bool \<Rightarrow> pyval \<Rightarrow> hb_row \<Rightarrow> hb_row" where
  "hb_recorded now success err r =
     (let run_count = hb_run_count r + (if success then 1 else 0);
          failures = (if success then 0 else hb_failures r + 1);
          status = (if hb_status r \<in> set hb_terminal then hb_status r
                    else if success \<and> hb_max_runs r \<le> run_count then ''COMPLETED''
                    else if 3 \<le> failures then ''FAILED'' else hb_status r) in
      r\<lparr> hb_run_count := run_count, hb_failures := failures, hb_status := status,
         hb_next := (if status \<in> set hb_terminal then None else hb_next r),
         hb_last_error := err, hb_updated := isoformat now \<rparr>)"

definition hb_outcome :: "bool \<Rightarrow> string" where
  "hb_outcome success = (if success then ''function_completed'' else ''function_failed'')"

definition hb_run_row :: "instant \<Rightarrow> string \<Rightarrow> bool \<Rightarrow> pdict \<Rightarrow> pdict" where
  "hb_run_row now hid success result =
    [(''heartbeat_id'', PStr hid), (''started_at'', PStr (isoformat now)),
     (''completed_at'', PStr (isoformat now)), (''outcome'', PStr (hb_outcome success)),
     (''receipt_json'', PDict result), (''error'', PStr (text_or_empty (dget result ''error'')))]"

definition hb_record :: "instant \<Rightarrow> hb_row \<Rightarrow> pdict \<Rightarrow> ('w lh_state, pdict) io" where
  "hb_record now heartbeat result =
     (let success = hb_success (hb_function heartbeat) result; hid = hb_id heartbeat in
      io_bind (hb_get hid) (\<lambda>current.
      io_then (io_modify (\<lambda>s. s\<lparr> lh_runs := lh_runs s @ [hb_run_row now hid success result] \<rparr>))
      (io_then (hb_update hid (\<lambda>_. hb_recorded now success (dget result ''error'') current))
      (io_return [(''heartbeat_id'', PStr hid), (''outcome'', PStr (hb_outcome success)),
         (''receipt'', PDict result)]))))"

definition hb_summary :: "'w lh_state \<Rightarrow> pdict" where
  "hb_summary s =
    [(''active_count'', PInt (int (length (filter (\<lambda>r. hb_status r = ''ACTIVE'') (lh_rows s))))),
     (''total_count'', PInt (int (length (hb_list s))))]"

section \<open>The scheduler\<close>

type_synonym 'w function_runner = "string \<Rightarrow> pdict \<Rightarrow> pdict \<Rightarrow> ('w lh_state, pdict) io"

definition unconfigured_runner :: "'w function_runner" where
  "unconfigured_runner f a c = io_return [(''status'', PStr ''failed''),
     (''error'', PStr ''no JarvisControl function runner is configured'')]"

definition run_heartbeat :: "'w function_runner \<Rightarrow> instant \<Rightarrow> pdict \<Rightarrow> hb_row \<Rightarrow> ('w lh_state, pdict) io" where
  "run_heartbeat runner now clock heartbeat =
     io_bind (runner (hb_function heartbeat) (hb_arguments heartbeat)
       (dmerge [(''heartbeat_id'', PStr (hb_id heartbeat)),
                (''run_number'', PInt (hb_run_count heartbeat + 1))] clock))
     (hb_record now heartbeat)"

definition run_once :: "'w function_runner \<Rightarrow> instant \<Rightarrow> int \<Rightarrow> pdict \<Rightarrow> ('w lh_state, pdict) io" where
  "run_once runner now pid clock =
     io_bind (claim_due now) (\<lambda>claimed.
     io_bind (io_map (run_heartbeat runner now clock) claimed) (\<lambda>results.
     io_bind (io_get (\<lambda>s. dmerge (dmerge [(''status'', PStr ''tick_completed''), (''pid'', PInt pid),
        (''observed_at'', PStr (isoformat now))] clock) (hb_summary s))) (\<lambda>health.
     io_then (io_modify (\<lambda>s. s\<lparr> lh_health := Some (PDict health) \<rparr>))
     (io_return [(''results'', PList (map PDict results)), (''health'', PDict health)]))))"

text \<open>
  \<open>health\<close>: what the last published tick is evidence of. A missing or unreadable file, a value
  that is not an object and an unparsable time are all \<open>unobserved\<close>.
\<close>

definition tick_age :: "instant \<Rightarrow> pyval option \<Rightarrow> (pdict \<times> int) option" where
  "tick_age now saved = (case saved of
      Some (PDict d) \<Rightarrow>
        map_option (\<lambda>t. (d, now - t))
          (parse_instant (py_str (py_or (dget d ''observed_at'') (dget d ''utc_time''))))
    | _ \<Rightarrow> None)"

definition hb_health :: "hb_config \<Rightarrow> instant \<Rightarrow> pdict \<Rightarrow> 'w lh_state \<Rightarrow> pdict" where
  "hb_health c now clock s =
     dmerge (dmerge
       (case tick_age now (lh_health s) of
          None \<Rightarrow> [(''status'', PStr ''unobserved''), (''last_tick'', PNone)]
        | Some (d, age) \<Rightarrow>
            [(''status'', PStr
                (if 0 \<le> age \<and> age \<le> max 15000000 (hc_poll_us c * 3)
                 then (if dget d ''status'' = PStr ''tick_completed'' \<and> int_instance (dget d ''pid'') \<noteq> None
                       then ''recent_tick'' else ''unverified'')
                 else ''stale'')),
             (''last_tick'', PDict d), (''age_seconds'', PInt (age div 1000000))])
       clock) (hb_summary s)"

definition invoke_heartbeat ::
  "hb_config \<Rightarrow> instant \<Rightarrow> pdict \<Rightarrow> string \<Rightarrow> pdict \<Rightarrow> ('w lh_state, pdict) io" where
  "invoke_heartbeat c now clock capability arguments =
     (if capability = ''heartbeat.health'' then
        io_get (\<lambda>s. dmerge (dmerge (dmerge [(''status'', PStr ''completed'')] clock) (hb_summary s))
          [(''scheduler'', PDict (hb_health c now clock s))])
      else if capability = ''heartbeat.create'' then
        io_bind (hb_create c now arguments) (\<lambda>(created, row).
        io_bind (io_lift (dindex arguments ''heartbeat_id'')) (\<lambda>hid.
        io_return [(''status'', PStr ''active''), (''heartbeat_id'', hid), (''created'', PBool created),
          (''heartbeat'', PDict (hb_row_dict row))]))
      else if capability = ''heartbeat.update'' then
        io_raise (ValueError
          ''local heartbeat update is not implemented; cancel then create a new bounded schedule'')
      else if capability = ''heartbeat.cancel'' then
        io_bind (hb_cancel now (text_or_empty (dget arguments ''heartbeat_id''))) (\<lambda>row.
        io_return [(''status'', PStr (if hb_status row = ''CANCELLED'' then ''cancelled'' else ''not_required'')),
          (''heartbeat_id'', PStr (hb_id row)), (''heartbeat'', PDict (hb_row_dict row))])
      else io_raise (ValueError ''unsupported heartbeat capability''))"

section \<open>The table invariant\<close>

definition row_ok :: "hb_row \<Rightarrow> bool" where
  "row_ok r \<longleftrightarrow> hb_status r \<in> {''ACTIVE'', ''COMPLETED'', ''CANCELLED'', ''FAILED''} \<and>
     0 \<le> hb_run_count r \<and> hb_run_count r \<le> hb_max_runs r \<and> 1 \<le> hb_max_runs r \<and>
     (if hb_status r = ''ACTIVE''
      then hb_next r \<noteq> None \<and> hb_run_count r < hb_max_runs r \<and> hb_failures r < 3
      else hb_next r = None) \<and>
     (hb_status r = ''COMPLETED'' \<longrightarrow> hb_run_count r = hb_max_runs r)"

definition table_ok :: "'w lh_state \<Rightarrow> bool" where
  "table_ok s \<longleftrightarrow> distinct (map hb_id (lh_rows s)) \<and> (\<forall>r \<in> set (lh_rows s). row_ok r)"

lemma hb_lookup_Some: "hb_lookup hid rows = Some r \<Longrightarrow> r \<in> set rows \<and> hb_id r = hid"
  by (auto simp: hb_lookup_def find_Some_iff in_set_conv_nth)

lemma hb_lookup_None: "hb_lookup hid rows = None \<longleftrightarrow> hid \<notin> hb_id ` set rows"
  by (auto simp: hb_lookup_def find_None_iff)

lemma hb_lookup_unique:
  "distinct (map hb_id rows) \<Longrightarrow> r \<in> set rows \<Longrightarrow> hb_lookup (hb_id r) rows = Some r"
  by (induction rows) (auto simp: hb_lookup_def)

lemma io_from_hb_get [from_rules]:
  "(\<And>s. P s \<Longrightarrow> Q s) \<Longrightarrow>
   (\<And>r. io_from (\<lambda>s. P s \<and> hb_lookup hid (lh_rows s) = Some r) (k r) Q) \<Longrightarrow>
   io_from P (io_bind (hb_get hid) k) Q"
  by (auto simp: io_from_def io_bind_def hb_get_def split: option.splits)

lemma validate_row_ok:
  "hb_validate c now request = Inr row \<Longrightarrow> row_ok row \<and> hb_status row = ''ACTIVE'' \<and> hb_run_count row = 0"
  by (auto simp: hb_validate_def Let_def rbind_Inr_iff row_ok_def)

lemma table_ok_insert:
  "table_ok s \<Longrightarrow> row_ok row \<Longrightarrow> hb_lookup (hb_id row) (lh_rows s) = None \<Longrightarrow>
   table_ok (s\<lparr> lh_rows := lh_rows s @ [row] \<rparr>)"
  by (auto simp: table_ok_def hb_lookup_None)

lemma table_ok_map:
  assumes "table_ok s" "\<And>r. hb_id (f r) = hb_id r" "\<And>r. r \<in> set (lh_rows s) \<Longrightarrow> row_ok r \<Longrightarrow> row_ok (f r)"
  shows "table_ok (s\<lparr> lh_rows := map f (lh_rows s) \<rparr>)"
proof -
  have "hb_id \<circ> f = hb_id" using assms(2) by (simp add: fun_eq_iff)
  then show ?thesis using assms(1,3) by (auto simp: table_ok_def)
qed

lemma table_ok_create [io_rules]: "io_keeps table_ok (hb_create c now request)"
  unfolding hb_create_def io_keeps_from
  by (intro from_rules io_from_modify [where R = table_ok])
     (auto intro!: table_ok_insert simp: validate_row_ok io_from_def hb_get_def io_bind_def split: option.splits sum.splits)

lemma cancelled_ok: "row_ok r \<Longrightarrow> row_ok (hb_cancelled now r)"
  by (auto simp: row_ok_def hb_cancelled_def)

lemma hb_ids [simp]:
  "hb_id (hb_cancelled now r) = hb_id r" "hb_id (hb_claimed now cl r) = hb_id r"
  "hb_id (hb_recorded now b e r) = hb_id r"
  by (simp_all add: hb_cancelled_def hb_claimed_def hb_recorded_def Let_def)

lemma table_ok_cancel [io_rules]: "io_keeps table_ok (hb_cancel now hid)"
  unfolding hb_cancel_def hb_update_def io_keeps_from
  by (intro from_rules io_from_modify [where R = table_ok])
     (auto intro!: table_ok_map cancelled_ok)

lemma unexpired_subset:
  "hb_unexpired now rows = Inr cl \<Longrightarrow> cl = filter (\<lambda>r. \<exists>t. parse_time (PStr (hb_expires r)) ''expires_at'' = Inr t \<and> now < t) rows"
  by (induction rows arbitrary: cl) (auto simp: rbind_Inr_iff)

lemma claimed_ok: "row_ok r \<Longrightarrow> hb_id r \<in> hb_id ` set cl \<longrightarrow> hb_status r = ''ACTIVE'' \<Longrightarrow> row_ok (hb_claimed now cl r)"
  by (auto simp: row_ok_def hb_claimed_def)

text \<open>What \<open>claim_due\<close> leaves for the loop: every claimed row is still active in the table.\<close>

definition claims_active :: "hb_row list \<Rightarrow> 'w lh_state \<Rightarrow> bool" where
  "claims_active cl s \<longleftrightarrow> table_ok s \<and> distinct (map hb_id cl) \<and>
     (\<forall>h \<in> set cl. \<exists>r \<in> set (lh_rows s). hb_id r = hb_id h \<and> hb_status r = ''ACTIVE'')"

lemma due_claims:
  assumes "table_ok s" "hb_unexpired now (filter (hb_due now) (lh_rows s)) = Inr cl"
  shows "claims_active cl (s\<lparr> lh_rows := map (hb_claimed now cl) (lh_rows s) \<rparr>)"
proof -
  have cl: "set cl \<subseteq> set (lh_rows s)" "\<forall>r \<in> set cl. hb_status r = ''ACTIVE''"
    "cl = filter (\<lambda>r. \<exists>t. parse_time (PStr (hb_expires r)) ''expires_at'' = Inr t \<and> now < t) (filter (hb_due now) (lh_rows s))"
    using unexpired_subset [OF assms(2)] by (auto simp: hb_due_def)
  have ids: "distinct (map hb_id (lh_rows s))" using assms(1) by (simp add: table_ok_def)
  then have "distinct (map hb_id cl)" by (subst cl(3)) (simp add: distinct_map_filter)
  moreover have active: "hb_status r = ''ACTIVE''" if r: "r \<in> set (lh_rows s)" and c: "hb_id r \<in> hb_id ` set cl" for r
  proof -
    obtain h where h: "h \<in> set cl" "hb_id h = hb_id r" using c by auto
    then have "h = r" using ids r cl(1) by (metis hb_lookup_unique option.inject subsetD)
    then show ?thesis using h cl(2) by blast
  qed
  moreover have "\<exists>r \<in> set (map (hb_claimed now cl) (lh_rows s)). hb_id r = hb_id h \<and> hb_status r = ''ACTIVE''"
    if "h \<in> set cl" for h
    using that cl(1,2) by (intro bexI [of _ "hb_claimed now cl h"]) (auto simp: hb_claimed_def)
  moreover have "table_ok (s\<lparr> lh_rows := map (hb_claimed now cl) (lh_rows s) \<rparr>)"
    using active by (intro table_ok_map [OF assms(1)] claimed_ok) auto
  ultimately show ?thesis by (simp add: claims_active_def)
qed

lemma recorded_ok:
  assumes "row_ok r" "hb_status r = ''ACTIVE''"
  shows "row_ok (hb_recorded now b e r)"
  using assms by (auto simp: row_ok_def hb_recorded_def Let_def hb_terminal_def)

text \<open>The function runner does not write the two tables of the scheduler.\<close>

definition runner_isolated :: "'w function_runner \<Rightarrow> bool" where
  "runner_isolated runner \<longleftrightarrow> (\<forall>f a x tables. io_keeps (\<lambda>s. (lh_rows s, lh_runs s) = tables) (runner f a x))"

lemma unconfigured_isolated: "runner_isolated unconfigured_runner"
  by (simp add: runner_isolated_def unconfigured_runner_def io_keeps_def)

lemma isolated_keeps:
  assumes "runner_isolated runner" 
    "\<And>s s'. lh_rows s' = lh_rows s \<Longrightarrow> lh_runs s' = lh_runs s \<Longrightarrow> P s' \<longleftrightarrow> P s"
  shows "io_keeps P (runner f a x)"
proof (rule io_keepsI)
  fix s assume "P s"
  have "lh_rows (snd (runner f a x s)) = lh_rows s \<and> lh_runs (snd (runner f a x s)) = lh_runs s"
    using assms(1) by (simp add: runner_isolated_def io_keeps_def)
  then show "P (snd (runner f a x s))" using assms(2) \<open>P s\<close> by blast
qed

lemma claims_active_rows: "lh_rows s' = lh_rows s \<Longrightarrow> claims_active cl s' \<longleftrightarrow> claims_active cl s"
  by (simp add: claims_active_def table_ok_def)

lemma record_claims:
  "io_from (claims_active (h # cl)) (hb_record now h result) (claims_active cl)"
proof -
  have upd: "claims_active cl (s\<lparr> lh_runs := rs, lh_rows := map (\<lambda>r. if hb_id r = hb_id h
         then hb_recorded now b e cur else r) (lh_rows s) \<rparr>)"
    if s: "claims_active (h # cl) s" "hb_lookup (hb_id h) (lh_rows s) = Some cur" for s cur rs b e
  proof -
    have cur: "cur \<in> set (lh_rows s)" "hb_id cur = hb_id h" using hb_lookup_Some [OF s(2)] by auto
    obtain r where r: "r \<in> set (lh_rows s)" "hb_id r = hb_id h" "hb_status r = ''ACTIVE''"
      using s(1) by (auto simp: claims_active_def)
    have tab: "table_ok s" using s(1) by (simp add: claims_active_def)
    then have "r = cur" using cur r by (metis hb_lookup_unique table_ok_def s(2) option.inject)
    then have rec: "row_ok (hb_recorded now b e cur)"
      using tab cur r by (auto simp: table_ok_def intro: recorded_ok)
    have "table_ok (s\<lparr> lh_rows := map (\<lambda>r. if hb_id r = hb_id h then hb_recorded now b e cur else r) (lh_rows s) \<rparr>)"
      using rec cur by (intro table_ok_map [OF tab]) auto
    then show ?thesis
      using s(1) unfolding claims_active_def table_ok_def by (auto 0 3)
  qed
  show ?thesis
    unfolding io_from_def
  proof (intro allI impI)
    fix s assume s: "claims_active (h # cl) s"
    show "claims_active cl (snd (hb_record now h result s))"
    proof (cases "hb_lookup (hb_id h) (lh_rows s)")
      case None
      then show ?thesis using s
        by (simp add: hb_record_def Let_def hb_get_def io_bind_def claims_active_def)
    next
      case (Some cur)
      then show ?thesis using upd [OF s Some]
        by (simp add: hb_record_def Let_def hb_get_def hb_update_def io_bind_def)
    qed
  qed
qed

lemma run_claims:
  assumes "runner_isolated runner"
  shows "io_from (claims_active (h # cl)) (run_heartbeat runner now clock h) (claims_active cl)"
  unfolding run_heartbeat_def
proof (rule io_from_bind [where R = "claims_active (h # cl)"])
  show "io_from (claims_active (h # cl)) (runner (hb_function h) (hb_arguments h) x) (claims_active (h # cl))" for x
    unfolding io_keeps_from [symmetric] by (rule isolated_keeps [OF assms claims_active_rows])
qed (auto simp: claims_active_def intro: record_claims)


lemma claims_rest: "claims_active (h # cl) s \<Longrightarrow> claims_active cl s"
  by (simp add: claims_active_def)

lemma claims_table: "claims_active cl s \<Longrightarrow> table_ok s"
  by (simp add: claims_active_def)

lemma loop_claims:
  assumes "runner_isolated runner"
  shows "io_from (claims_active cl) (io_map (run_heartbeat runner now clock) cl) table_ok"
proof -
  have "io_from (claims_active cl) (io_map (run_heartbeat runner now clock) cl) (claims_active [])"
    by (rule io_from_map [OF run_claims [OF assms]]) (rule claims_rest)
  then show ?thesis by (auto simp: io_from_def dest: claims_table)
qed

lemma io_from_claim:
  assumes "\<And>s. P s \<Longrightarrow> Q s"
    and "\<And>rows cl. hb_unexpired now rows = Inr cl \<Longrightarrow>
      io_from (\<lambda>s. \<exists>s0. P s0 \<and> rows = filter (hb_due now) (lh_rows s0) \<and>
        s = s0\<lparr> lh_rows := map (hb_claimed now cl) (lh_rows s0) \<rparr>) (k cl) Q"
  shows "io_from P (io_bind (claim_due now) k) Q"
proof (unfold io_from_def, intro allI impI)
  fix s assume P: "P s"
  show "Q (snd (io_bind (claim_due now) k s))"
  proof (cases "hb_unexpired now (filter (hb_due now) (lh_rows s))")
    case (Inl e)
    then show ?thesis using assms(1) [OF P] by (simp add: claim_due_def io_bind_def)
  next
    case (Inr cl)
    then show ?thesis
      using assms(2) [OF Inr] P unfolding io_from_def
      by (auto simp: claim_due_def io_bind_def io_then_def)
  qed
qed

lemma table_ok_health [simp]: "table_ok (s\<lparr> lh_health := h \<rparr>) = table_ok s"
  by (simp add: table_ok_def)

lemma table_ok_run_once:
  assumes "runner_isolated runner"
  shows "io_keeps table_ok (run_once runner now pid clock)"
  unfolding run_once_def io_keeps_from
proof (rule io_from_claim)
  fix rows cl assume cl: "hb_unexpired now rows = Inr cl"
  have "io_from (claims_active cl)
      (io_bind (io_map (run_heartbeat runner now clock) cl) (\<lambda>results.
       io_bind (io_get (\<lambda>s. dmerge (dmerge [(''status'', PStr ''tick_completed''), (''pid'', PInt pid),
          (''observed_at'', PStr (isoformat now))] clock) (hb_summary s))) (\<lambda>health.
       io_then (io_modify (\<lambda>s. s\<lparr> lh_health := Some (PDict health) \<rparr>))
       (io_return [(''results'', PList (map PDict results)), (''health'', PDict health)])))) table_ok"
    by (rule io_from_bind [OF loop_claims [OF assms]]) (auto simp: io_keeps_from [symmetric] intro!: io_rules)
  then show "io_from (\<lambda>s. \<exists>s0. table_ok s0 \<and> rows = filter (hb_due now) (lh_rows s0) \<and>
        s = s0\<lparr> lh_rows := map (hb_claimed now cl) (lh_rows s0) \<rparr>)
      (io_bind (io_map (run_heartbeat runner now clock) cl) (\<lambda>results.
       io_bind (io_get (\<lambda>s. dmerge (dmerge [(''status'', PStr ''tick_completed''), (''pid'', PInt pid),
          (''observed_at'', PStr (isoformat now))] clock) (hb_summary s))) (\<lambda>health.
       io_then (io_modify (\<lambda>s. s\<lparr> lh_health := Some (PDict health) \<rparr>))
       (io_return [(''results'', PList (map PDict results)), (''health'', PDict health)])))) table_ok"
    using due_claims cl unfolding io_from_def by blast
qed

section \<open>The scheduler as a machine\<close>

datatype hb_op =
    HbInvoke instant pdict string pdict
  | HbTick instant int pdict

fun hb_step :: "hb_config \<Rightarrow> 'w function_runner \<Rightarrow> hb_op \<Rightarrow> ('w lh_state, pdict) io" where
  "hb_step c runner (HbInvoke now clock capability arguments) = invoke_heartbeat c now clock capability arguments"
| "hb_step c runner (HbTick now pid clock) = run_once runner now pid clock"

lemma table_ok_invoke [io_rules]: "io_keeps table_ok (invoke_heartbeat c now clock capability arguments)"
  unfolding invoke_heartbeat_def by (intro io_rules)

lemma table_ok_step: "runner_isolated runner \<Longrightarrow> io_keeps table_ok (hb_step c runner a)"
  by (cases a) (auto intro: io_rules table_ok_run_once)

definition isolated_step :: "hb_config \<Rightarrow> 'w function_runner \<Rightarrow> hb_op \<Rightarrow> ('w lh_state, pdict) io" where
  "isolated_step c runner a = (if runner_isolated runner then hb_step c runner a else io_return [])"

interpretation heartbeat_table: store_machine "isolated_step c runner" table_ok
  for c and runner :: "'w function_runner"
proof unfold_locales
  fix s :: "'w lh_state" and a
  assume "table_ok s"
  then show "table_ok (snd (isolated_step c runner a s))"
    using table_ok_step [of runner c a] by (auto simp: isolated_step_def io_keeps_def)
qed

definition hb_empty :: "'w \<Rightarrow> 'w lh_state" where
  "hb_empty w = \<lparr> lh_rows = [], lh_runs = [], lh_health = None, lh_world = w \<rparr>"


text \<open>
  \<open>claim_due\<close> returns exactly the active rows that are due, have runs left and have not expired,
  and pushes each of them into the future: until its interval has passed no later \<open>claim_due\<close> on
  the resulting table returns it again.
\<close>

theorem claim_due_exact:
  assumes "table_ok s" "claim_due now s = (Inr cl, s')"
  shows "cl = filter (\<lambda>r. \<exists>t. parse_time (PStr (hb_expires r)) ''expires_at'' = Inr t \<and> now < t)
      (filter (hb_due now) (lh_rows s)) \<and>
    (\<forall>h \<in> set cl. \<forall>t < now + seconds_us (hb_interval h). \<forall>cl' s''.
       claim_due t s' = (Inr cl', s'') \<longrightarrow> hb_id h \<notin> hb_id ` set cl')"
proof -
  have un: "hb_unexpired now (filter (hb_due now) (lh_rows s)) = Inr cl"
    and s': "s' = s\<lparr> lh_rows := map (hb_claimed now cl) (lh_rows s) \<rparr>"
    using assms(2) by (auto simp: claim_due_def io_bind_Inr io_then_Inr)
  note cl = unexpired_subset [OF un]
  have ids: "distinct (map hb_id (lh_rows s))" using assms(1) by (simp add: table_ok_def)
  have "hb_id h \<notin> hb_id ` set cl'"
    if h: "h \<in> set cl" and t: "t < now + seconds_us (hb_interval h)" and c: "claim_due t s' = (Inr cl', s'')" for h t cl' s''
  proof
    assume "hb_id h \<in> hb_id ` set cl'"
    then obtain g where g: "g \<in> set cl'" "hb_id g = hb_id h" by auto
    have "hb_unexpired t (filter (hb_due t) (lh_rows s')) = Inr cl'"
      using c by (auto simp: claim_due_def io_bind_Inr io_then_Inr)
    from unexpired_subset [OF this] g(1) have due: "g \<in> set (lh_rows s')" "hb_due t g" by auto
    then obtain r where r: "r \<in> set (lh_rows s)" "g = hb_claimed now cl r" using s' by auto
    have "h \<in> set (lh_rows s)" using h cl by auto
    then have "r = h" using ids r g(2) by (metis hb_ids(2) hb_lookup_unique option.inject)
    then have "hb_next g = Some (now + seconds_us (hb_interval h))"
      using r(2) h by (simp add: hb_claimed_def)
    then show False using due(2) t by (simp add: hb_due_def)
  qed
  then show ?thesis using cl by blast
qed

section \<open>Inactive rows stay inactive\<close>

text \<open>The row of \<open>hid\<close> exists and is not active, and the recorded runs of \<open>hid\<close> are \<open>runs\<close>.\<close>

definition runs_of :: "string \<Rightarrow> 'w lh_state \<Rightarrow> pdict list" where
  "runs_of hid s = filter (\<lambda>d. dget d ''heartbeat_id'' = PStr hid) (lh_runs s)"

definition quiet :: "string \<Rightarrow> pdict list \<Rightarrow> 'w lh_state \<Rightarrow> bool" where
  "quiet hid runs s \<longleftrightarrow> (\<exists>r \<in> set (lh_rows s). hb_id r = hid \<and> hb_status r \<noteq> ''ACTIVE'') \<and>
     runs_of hid s = runs"

lemma quiet_map:
  assumes "quiet hid runs s" "\<And>r. r \<in> set (lh_rows s) \<Longrightarrow> hb_id (f r) = hb_id r"
    "\<And>r. r \<in> set (lh_rows s) \<Longrightarrow> hb_id r = hid \<Longrightarrow> hb_status r \<noteq> ''ACTIVE'' \<Longrightarrow> hb_status (f r) \<noteq> ''ACTIVE''"
  shows "quiet hid runs (s\<lparr> lh_rows := map f (lh_rows s) \<rparr>)"
proof -
  obtain r where "r \<in> set (lh_rows s)" "hb_id r = hid" "hb_status r \<noteq> ''ACTIVE''"
    using assms(1) by (auto simp: quiet_def)
  then have "\<exists>r \<in> set (map f (lh_rows s)). hb_id r = hid \<and> hb_status r \<noteq> ''ACTIVE''"
    using assms(2,3) by (intro bexI [of _ "f r"]) auto
  then show ?thesis using assms(1) by (simp add: quiet_def runs_of_def)
qed

lemma quiet_create [io_rules]: "io_keeps (quiet hid runs) (hb_create c now request)"
  unfolding hb_create_def
  by (intro io_rules) (auto simp: quiet_def runs_of_def io_keeps_def hb_get_def io_bind_def split: option.splits)

lemma quiet_cancel [io_rules]: "io_keeps (quiet hid runs) (hb_cancel now h)"
proof -
  have "io_keeps (quiet hid runs) (hb_update h (hb_cancelled now))"
    unfolding hb_update_def by (intro io_rules quiet_map) (auto simp: hb_cancelled_def)
  moreover have "io_keeps (quiet hid runs) (hb_get h)" by (simp add: io_keeps_def hb_get_def)
  ultimately show ?thesis unfolding hb_cancel_def by (intro io_rules)
qed

lemma quiet_invoke: "io_keeps (quiet hid runs) (invoke_heartbeat c now clock capability arguments)"
  unfolding invoke_heartbeat_def by (intro io_rules)

lemma quiet_record:
  assumes "hb_id h \<noteq> hid"
  shows "io_keeps (quiet hid runs) (hb_record now h result)"
proof -
  have get: "io_keeps (quiet hid runs) (hb_get x)" for x by (simp add: io_keeps_def hb_get_def)
  have "quiet hid runs (snd (hb_record now h result s))" if q: "quiet hid runs s" for s
  proof (cases "hb_lookup (hb_id h) (lh_rows s)")
    case None
    then show ?thesis using q by (simp add: hb_record_def Let_def hb_get_def io_bind_def)
  next
    case (Some cur)
    have "quiet hid runs (s\<lparr> lh_runs := lh_runs s @ [hb_run_row now (hb_id h) b result] \<rparr>)" for b
      using q assms by (simp add: quiet_def runs_of_def hb_run_row_def)
    from quiet_map [OF this, where f = "\<lambda>r. if hb_id r = hb_id h
        then hb_recorded now (hb_success (hb_function h) result) (dget result ''error'') cur else r"]
    show ?thesis using Some assms hb_lookup_Some [OF Some]
      by (simp add: hb_record_def Let_def hb_get_def hb_update_def io_bind_def)
  qed
  then show ?thesis by (rule io_keepsI)
qed

lemma quiet_tick:
  assumes "runner_isolated runner"
  shows "io_from (\<lambda>s. table_ok s \<and> quiet hid runs s) (run_once runner now pid clock) (quiet hid runs)"
  unfolding run_once_def
proof (rule io_from_claim)
  fix rows cl assume cl: "hb_unexpired now rows = Inr cl"
  define k where "k = io_bind (io_map (run_heartbeat runner now clock) cl) (\<lambda>results.
       io_bind (io_get (\<lambda>s :: 'a lh_state. dmerge (dmerge [(''status'', PStr ''tick_completed''), (''pid'', PInt pid),
          (''observed_at'', PStr (isoformat now))] clock) (hb_summary s))) (\<lambda>health.
       io_then (io_modify (\<lambda>s. s\<lparr> lh_health := Some (PDict health) \<rparr>))
       (io_return [(''results'', PList (map PDict results)), (''health'', PDict health)])))"
  have loop: "io_keeps (quiet hid runs) k" if others: "\<forall>h \<in> set cl. hb_id h \<noteq> hid"
  proof -
    have "io_keeps (quiet hid runs) (run_heartbeat runner now clock h)" if "h \<in> set cl" for h
      unfolding run_heartbeat_def using that others
      by (intro io_rules quiet_record isolated_keeps [OF assms]) (auto simp: quiet_def runs_of_def)
    then show ?thesis unfolding k_def by (intro io_rules) (auto simp: quiet_def runs_of_def)
  qed
  have "quiet hid runs (snd (k (s\<lparr> lh_rows := map (hb_claimed now cl) (lh_rows s) \<rparr>)))"
    if tab: "table_ok s" and q: "quiet hid runs s" and rows: "rows = filter (hb_due now) (lh_rows s)" for s
  proof -
    obtain r where r: "r \<in> set (lh_rows s)" "hb_id r = hid" "hb_status r \<noteq> ''ACTIVE''"
      using q by (auto simp: quiet_def)
    have "hb_id h \<noteq> hid" if "h \<in> set cl" for h
    proof
      assume "hb_id h = hid"
      moreover have "h \<in> set (lh_rows s)" "hb_status h = ''ACTIVE''"
        using that unexpired_subset [OF cl] rows by (auto simp: hb_due_def)
      ultimately show False using tab r by (metis hb_lookup_unique table_ok_def option.inject)
    qed
    moreover have "quiet hid runs (s\<lparr> lh_rows := map (hb_claimed now cl) (lh_rows s) \<rparr>)"
      by (rule quiet_map [OF q]) (auto simp: hb_claimed_def)
    ultimately show ?thesis using loop by (auto simp: io_keeps_def)
  qed
  then show "io_from (\<lambda>s. \<exists>s0. (table_ok s0 \<and> quiet hid runs s0) \<and> rows = filter (hb_due now) (lh_rows s0) \<and>
        s = s0\<lparr> lh_rows := map (hb_claimed now cl) (lh_rows s0) \<rparr>)
      (io_bind (io_map (run_heartbeat runner now clock) cl) (\<lambda>results.
       io_bind (io_get (\<lambda>s. dmerge (dmerge [(''status'', PStr ''tick_completed''), (''pid'', PInt pid),
          (''observed_at'', PStr (isoformat now))] clock) (hb_summary s))) (\<lambda>health.
       io_then (io_modify (\<lambda>s. s\<lparr> lh_health := Some (PDict health) \<rparr>))
       (io_return [(''results'', PList (map PDict results)), (''health'', PDict health)])))) (quiet hid runs)"
    unfolding k_def [symmetric] by (auto simp: io_from_def)
qed simp

interpretation quiet_heartbeat: store_machine "isolated_step c runner" "\<lambda>s. table_ok s \<and> quiet hid runs s"
  for c and runner :: "'w function_runner" and hid runs
proof unfold_locales
  fix s :: "'w lh_state" and a
  assume ok: "table_ok s \<and> quiet hid runs s"
  have "quiet hid runs (snd (isolated_step c runner a s))"
  proof (cases "runner_isolated runner")
    case True
    have "io_from (\<lambda>s. table_ok s \<and> quiet hid runs s) (hb_step c runner a) (quiet hid runs)"
      by (cases a) (auto intro: quiet_tick [OF True] io_from_keeps quiet_invoke)
    then show ?thesis using ok True by (simp add: isolated_step_def io_from_def)
  qed (use ok in \<open>simp add: isolated_step_def\<close>)
  then show "table_ok (snd (isolated_step c runner a s)) \<and> quiet hid runs (snd (isolated_step c runner a s))"
    using heartbeat_table.step_inv ok by blast
qed

lemma cancel_quiet:
  assumes "table_ok s" "hb_cancel now hid s = (Inr r, s')"
  shows "table_ok s' \<and> quiet hid (runs_of hid s') s'"
proof -
  have tab: "table_ok s'" using io_keepsD [OF table_ok_cancel assms(1,2)] .
  have "hb_get hid (s\<lparr> lh_rows := map (\<lambda>r. if hb_id r = hid then hb_cancelled now r else r) (lh_rows s) \<rparr>) = (Inr r, s')"
    using assms(2)
    by (simp add: hb_cancel_def hb_update_def io_then_def io_bind_def hb_get_def split: option.splits if_splits)
  then have found: "hb_lookup hid (map (\<lambda>r. if hb_id r = hid then hb_cancelled now r else r) (lh_rows s)) = Some r \<and>
      s\<lparr> lh_rows := map (\<lambda>r. if hb_id r = hid then hb_cancelled now r else r) (lh_rows s) \<rparr> = s'"
    by (simp add: hb_get_def split: option.splits)
  then have eq: "s' = s\<lparr> lh_rows := map (\<lambda>r. if hb_id r = hid then hb_cancelled now r else r) (lh_rows s) \<rparr>"
    by (rule conjunct2 [THEN sym])
  have look: "hb_lookup hid (lh_rows s') = Some r"
    using conjunct1 [OF found] by (simp add: eq)
  have r: "r \<in> set (lh_rows s')" "hb_id r = hid" using hb_lookup_Some [OF look] by blast+
  have "r \<in> (\<lambda>r. if hb_id r = hid then hb_cancelled now r else r) ` set (lh_rows s)"
    using r(1) [unfolded eq] by simp
  then obtain r0 where "r = (if hb_id r0 = hid then hb_cancelled now r0 else r0)"
    by (rule imageE)
  then have "hb_status r \<noteq> ''ACTIVE''" using r(2) by (simp add: hb_cancelled_def split: if_splits)
  then have "quiet hid (runs_of hid s') s'" using r unfolding quiet_def by blast
  then show ?thesis using tab by blast
qed

text \<open>
  a cancellation is final. After \<open>cancel\<close> has returned for a heartbeat, no sequence of port
  calls and ticks records another run of it, not even after the same id is created again.
\<close>

theorem heartbeat_cancel_final:
  assumes "runner_isolated runner" "table_ok s" "hb_cancel now hid s = (Inr r, s')"
  shows "runs_of hid (snd (run_ops (hb_step c runner) ops s')) = runs_of hid s' \<and>
    (\<exists>r' \<in> set (lh_rows (snd (run_ops (hb_step c runner) ops s'))).
       hb_id r' = hid \<and> hb_status r' \<noteq> ''ACTIVE'')"
proof -
  have "isolated_step c runner = hb_step c runner"
    using assms(1) by (simp add: isolated_step_def fun_eq_iff)
  then have "quiet hid (runs_of hid s') (snd (run_ops (hb_step c runner) ops s'))"
    using quiet_heartbeat.run_inv [OF cancel_quiet [OF assms(2,3)], of c runner ops] by simp
  then show ?thesis by (simp add: quiet_def)
qed

lemma validate_id: "hb_validate c now request = Inr row \<Longrightarrow> hb_id row = stripped (dget request ''heartbeat_id'')"
  by (auto simp: hb_validate_def Let_def rbind_Inr_iff)

text \<open>
  Creation is idempotent. After a creation returned, creating again under the same id, with the
  same or another valid request and at any time, changes nothing and returns the row that is there.
\<close>

theorem heartbeat_create_idempotent:
  assumes "hb_create c now request s = (Inr (created, row), s')"
    and "hb_validate c now' request' = Inr row'" "hb_id row' = hb_id row"
  shows "hb_create c now' request' s' = (Inr (False, row), s')"
proof -
  have "\<exists>h. hb_lookup h (lh_rows s') = Some row"
    using assms(1)
    by (auto simp: hb_create_def io_bind_Inr io_then_Inr hb_get_def split: option.splits)
  then have "hb_lookup (hb_id row) (lh_rows s') = Some row" using hb_lookup_Some by metis
  then show ?thesis using assms(2,3) by (simp add: hb_create_def)
qed


section \<open>A concrete schedule\<close>

definition demo_hb_config :: hb_config where
  "demo_hb_config = \<lparr> hc_poll_us = 5000000, hc_min_interval = 30, hc_max_interval = 2592000 \<rparr>"

definition demo_hb_request :: pdict where
  "demo_hb_request = [(''heartbeat_id'', PStr ''h''), (''name'', PStr ''n''),
     (''function'', PStr ''JarvisControl.monitor''), (''interval_seconds'', PInt 60), (''max_runs'', PInt 2),
     (''expires_at'', PStr (isoformat 900000000)), (''start_immediately'', PBool True),
     (''source_event_key'', PStr ''s''), (''confirmation_evidence'', PStr ''c'')]"

definition demo_hb_row :: hb_row where
  "demo_hb_row = \<lparr> hb_id = ''h'', hb_name = ''n'', hb_function = ''JarvisControl.monitor'', hb_arguments = [],
     hb_interval = 60, hb_status = ''ACTIVE'', hb_next = Some 0, hb_run_count = 0, hb_max_runs = 2,
     hb_expires = isoformat 900000000, hb_failures = 0, hb_last_error = PNone, hb_source = ''s'',
     hb_confirmation = ''c'', hb_created = isoformat 0, hb_updated = isoformat 0 \<rparr>"

definition demo_hb_state :: "unit lh_state" where
  "demo_hb_state = \<lparr> lh_rows = [demo_hb_row], lh_runs = [], lh_health = None, lh_world = () \<rparr>"

lemma demo_expires: "parse_time (PStr (isoformat 900000000)) name = Inr 900000000"
  by (simp add: parse_time_def parse_isoformat valid_instant_def)

lemma demo_py_take [simp]: "py_take 160 ''n'' = ''n''" "py_take 500 ''c'' = ''c''"
  by code_simp+

lemma demo_strips [simp]: "stripped (PStr ''h'') = ''h''" "stripped (PStr ''n'') = ''n''"
  "stripped (PStr ''s'') = ''s''" "stripped (PStr ''c'') = ''c''"
  "stripped (PStr ''JarvisControl.monitor'') = ''JarvisControl.monitor''"
  by code_simp+

lemma demo_validate: "hb_validate demo_hb_config 0 demo_hb_request = Inr demo_hb_row"
  by (simp add: hb_validate_def demo_hb_request_def demo_hb_config_def Let_def demo_expires hb_start_def
      hb_functions_def py_or_def demo_hb_row_def)

lemma demo_create: "hb_create demo_hb_config 0 demo_hb_request (hb_empty ()) = (Inr (True, demo_hb_row), demo_hb_state)"
  by (simp add: hb_create_def demo_validate hb_empty_def hb_lookup_def hb_get_def demo_hb_state_def io_bind_def)

lemma demo_table_ok: "table_ok demo_hb_state"
  by (simp add: table_ok_def demo_hb_state_def demo_hb_row_def row_ok_def)

lemma heartbeat_create_idempotent_witness:
  "hb_create demo_hb_config 0 demo_hb_request (hb_empty ()) = (Inr (True, demo_hb_row), demo_hb_state) \<and>
   hb_create demo_hb_config 0 demo_hb_request demo_hb_state = (Inr (False, demo_hb_row), demo_hb_state)"
  using heartbeat_create_idempotent [OF demo_create demo_validate refl] demo_create by blast

lemma demo_claim:
  "claim_due 0 demo_hb_state = (Inr [demo_hb_row],
     demo_hb_state\<lparr> lh_rows := [hb_claimed 0 [demo_hb_row] demo_hb_row] \<rparr>)"
  by (simp add: claim_due_def demo_hb_state_def hb_due_def demo_hb_row_def demo_expires)

lemma claim_due_exact_witness:
  "claim_due 0 demo_hb_state = (Inr [demo_hb_row], demo_hb_state\<lparr> lh_rows := [hb_claimed 0 [demo_hb_row] demo_hb_row] \<rparr>) \<and>
   \<not> (\<exists>t cl' s''. t < 60000000 \<and> ''h'' \<in> hb_id ` set cl' \<and>
      claim_due t (demo_hb_state\<lparr> lh_rows := [hb_claimed 0 [demo_hb_row] demo_hb_row] \<rparr>) = (Inr cl', s''))"
proof -
  let ?s = "demo_hb_state\<lparr> lh_rows := [hb_claimed 0 [demo_hb_row] demo_hb_row] \<rparr>"
  have row: "seconds_us (hb_interval demo_hb_row) = 60000000" "hb_id demo_hb_row = ''h''"
    by (simp_all add: demo_hb_row_def seconds_us_def)
  have "\<forall>h \<in> set [demo_hb_row]. \<forall>t < 0 + seconds_us (hb_interval h). \<forall>cl' s''.
      claim_due t ?s = (Inr cl', s'') \<longrightarrow> hb_id h \<notin> hb_id ` set cl'"
    by (rule claim_due_exact [OF demo_table_ok demo_claim, THEN conjunct2])
  then have later: "''h'' \<notin> hb_id ` set cl'" if "claim_due t ?s = (Inr cl', s'')" "t < 60000000" for t cl' s''
    using that row by auto
  show ?thesis
    by (intro conjI demo_claim notI) (use later in blast)
qed

lemma demo_cancel:
  "hb_cancel 5 ''h'' demo_hb_state = (Inr (hb_cancelled 5 demo_hb_row),
     demo_hb_state\<lparr> lh_rows := [hb_cancelled 5 demo_hb_row] \<rparr>)"
  by (simp add: hb_cancel_def demo_hb_state_def hb_active_rows_def hb_update_def hb_get_def hb_lookup_def
      hb_cancelled_def demo_hb_row_def io_bind_def io_then_def)

lemma heartbeat_cancel_final_witness:
  "runner_isolated (unconfigured_runner :: unit function_runner) \<and>
   runs_of ''h'' (snd (run_ops (hb_step demo_hb_config unconfigured_runner)
     [HbTick 100000000 1 [], HbInvoke 100000000 [] ''heartbeat.create'' demo_hb_request, HbTick 200000000 1 []]
     (demo_hb_state\<lparr> lh_rows := [hb_cancelled 5 demo_hb_row] \<rparr>))) = []"
proof -
  have "runs_of ''h'' (demo_hb_state\<lparr> lh_rows := [hb_cancelled 5 demo_hb_row] \<rparr>) = []"
    by (simp add: runs_of_def demo_hb_state_def)
  then show ?thesis
    using heartbeat_cancel_final [OF unconfigured_isolated demo_table_ok demo_cancel] unconfigured_isolated
    by metis
qed


end
