(* ===== verification/Loop_State.thy ===== *)
theory Loop_State
  imports Store_Machine Iso_Time Lane_Provisioning
begin

text \<open>
  The durable state of a loop and its store, \<open>packages/jarvis_control/loop.py\<close>: the state of
  \<open>LoopController\<close> as a record, \<open>LoopStore\<close> with the merge of \<open>save\<close>, the owner reports of a
  close and \<open>_aggregate_close_reports\<close>.

  A key the code adds to the JSON state only later is an option, an absent flag is \<open>False\<close>. The
  receipts of the ports stay dictionaries. The files are an association list from the directory
  name of a loop to its state; \<open>_path\<close> makes that name. A state file holds what this code wrote,
  so only its absence is an error of \<open>load\<close>. Bytes above 127 count as letters in \<open>_path\<close>.
\<close>

section \<open>Records\<close>

definition loop_active :: "string list" where
  "loop_active = [''accepted'', ''holding'', ''running'']"

definition loop_terminal :: "string list" where
  "loop_terminal = [''completed'', ''failed'', ''interrupted'', ''cancelled'', ''canceled'',
     ''turn_limit_reached'', ''blocked'']"

definition in_words :: "pyval \<Rightarrow> string list \<Rightarrow> bool" where
  "in_words v ws \<longleftrightarrow> v \<in> PStr ` set ws"

record loop_child =
  ch_slot :: string
  ch_acquire :: string
  ch_lane :: "pdict option"
  ch_prompt :: string
  ch_continue :: "string option"
  ch_title :: "string option"
  ch_task_id :: "string option"
  ch_thread_id :: pyval
  ch_hold_id :: "string option"
  ch_round :: int
  ch_phase :: string
  ch_lifecycle :: "string option"
  ch_last_receipt :: "pdict option"
  ch_holder_owns :: bool
  ch_turn_limit :: int
  ch_completed_rounds :: int
  ch_stop_receipt :: "pdict option"
  ch_close_receipt :: "pdict option"
  ch_hold_released :: bool
  ch_business :: "string option"
  ch_intake :: "string option"

record loop_cleanup =
  cu_target :: string
  cu_status :: string
  cu_heartbeat_cancelled :: bool

record loop_close =
  cl_request_id :: string
  cl_requested_at :: string
  cl_report_status :: string
  cl_reason :: "string option"
  cl_scheduling_closed :: bool
  cl_execution_state :: "string option"
  cl_terminal_confirmed :: bool
  cl_management_closed :: bool
  cl_unresolved :: bool
  cl_child_reports :: "(string \<times> pdict) list"
  cl_children :: "(string option \<times> pdict option) list"

record loop_state =
  ls_loop_id :: string
  ls_request_id :: string
  ls_project :: string
  ls_max_rounds :: int
  ls_max_turns :: int
  ls_auto_continue :: bool
  ls_continue_prompt :: string
  ls_turns_per_thread :: "int option"
  ls_controller_skill :: string
  ls_business_skill :: string
  ls_model :: string
  ls_effort :: string
  ls_notifications :: pdict
  ls_interval :: int
  ls_expires_at :: string
  ls_target_count :: int
  ls_status :: string
  ls_reason :: "string option"
  ls_heartbeat_id :: "string option"
  ls_heartbeat :: "pdict option"
  ls_children :: "loop_child list"
  ls_cleanup :: "loop_cleanup option"
  ls_close :: "loop_close option"

record loop_result =
  lr_status :: string
  lr_loop_id :: "string option"
  lr_state :: "loop_state option"
  lr_business :: string
  lr_reason :: "string option"

text \<open>\<open>receipt.get("data") or {}\<close> and the lifecycle of a receipt's data.\<close>

definition receipt_of :: "pdict option \<Rightarrow> pdict" where
  "receipt_of r = (case r of None \<Rightarrow> [] | Some d \<Rightarrow> d)"

definition receipt_data :: "pdict \<Rightarrow> pdict" where
  "receipt_data r = as_dict (dget r ''data'')"

definition data_lifecycle :: "pdict \<Rightarrow> pyval" where
  "data_lifecycle data = py_or (dget data ''lifecycle_status'') (dget data ''status'')"

text \<open>The release evidence \<open>_finish\<close> and \<open>_cleanup_evidence_confirmed\<close> ask of a hold's receipt.\<close>

definition release_confirmed :: "pdict \<Rightarrow> bool" where
  "release_confirmed receipt \<longleftrightarrow>
     dget receipt ''status'' = PStr ''completed'' \<and>
     in_words (data_lifecycle (receipt_data receipt)) loop_terminal \<and>
     dget (receipt_data receipt) ''hold_released'' = PBool True \<and>
     dget (receipt_data receipt) ''terminal_confirmed'' = PBool True"

definition child_holds :: "loop_child \<Rightarrow> string option" where
  "child_holds c = (case ch_hold_id c of None \<Rightarrow> None | Some h \<Rightarrow> if h = [] then None else Some h)"

definition child_evidence :: "loop_child \<Rightarrow> bool" where
  "child_evidence c =
     (case child_holds c of
        None \<Rightarrow> \<not> in_words (dget (receipt_of (ch_last_receipt c)) ''status'') loop_active
      | Some h \<Rightarrow> release_confirmed (receipt_of (ch_last_receipt c)))"

definition cleanup_evidence_confirmed :: "loop_state \<Rightarrow> bool" where
  "cleanup_evidence_confirmed s = list_all child_evidence (ls_children s)"

section \<open>The reports of a close\<close>

definition report_reason :: "pdict \<Rightarrow> string" where
  "report_reason report = py_str (py_or (dget report ''reason'') (PStr ''close failed''))"

definition close_failures :: "(string \<times> pdict) list \<Rightarrow> string list \<Rightarrow> string list" where
  "close_failures reports holds =
     map (\<lambda>h. h @ '': '' @ report_reason (the (map_of reports h)))
       (filter (\<lambda>h. dget (the (map_of reports h)) ''report_status'' = PStr ''failed'') holds)"

definition close_report_status :: "bool \<Rightarrow> bool \<Rightarrow> bool \<Rightarrow> string" where
  "close_report_status failed complete local_closed =
     (if failed then ''failed'' else if complete then ''completed''
      else if local_closed then ''unresolved'' else ''pending'')"

definition update_close :: "string list \<Rightarrow> bool \<Rightarrow> bool \<Rightarrow> loop_close \<Rightarrow> loop_close" where
  "update_close failures complete local_closed cl = cl\<lparr>
     cl_report_status := close_report_status (failures \<noteq> []) complete local_closed,
     cl_reason := (if failures = [] then None else Some (py_join ''; '' failures)),
     cl_scheduling_closed := True,
     cl_execution_state := Some (if complete then ''terminal'' else ''unknown''),
     cl_terminal_confirmed := complete, cl_management_closed := local_closed,
     cl_unresolved := local_closed \<and> \<not> complete \<rparr>"

definition aggregate_close_reports :: "loop_state \<Rightarrow> loop_state" where
  "aggregate_close_reports s =
     (case (ls_close s, ls_cleanup s) of
        (Some cl, Some cu) \<Rightarrow>
          (let reports = cl_child_reports cl;
               holds = List.map_filter child_holds (ls_children s);
               complete = list_all (\<lambda>h. dget (the (map_of reports h)) ''report_status'' = PStr ''completed'') holds;
               closed = list_all (\<lambda>h. dget (the (map_of reports h)) ''management_closed'' = PBool True) holds in
           if holds = [] \<or> \<not> list_all (\<lambda>h. map_of reports h \<noteq> None) holds then s
           else if \<not> cu_heartbeat_cancelled cu then s
           else
             let s1 = s\<lparr> ls_close := Some (update_close (close_failures reports holds) complete closed cl) \<rparr> in
             if complete then s1\<lparr> ls_cleanup := Some (cu\<lparr> cu_status := ''completed'' \<rparr>), ls_status := cu_target cu \<rparr>
             else if closed then s1\<lparr> ls_status := ''closed_unconfirmed'' \<rparr>
             else s1)
      | _ \<Rightarrow> s)"

text \<open>The receipt a child gets from its owner's close report.\<close>

definition close_report_receipt :: "pdict \<Rightarrow> pdict" where
  "close_report_receipt report = [(''status'', PStr ''completed''),
     (''data'', PDict (dset report ''status'' (py_or (dget report ''lifecycle_status'')
        (PStr (if truthy (dget report ''terminal_confirmed'') then ''cancelled'' else ''unknown'')))))]"

definition apply_close_report :: "pdict \<Rightarrow> loop_child \<Rightarrow> loop_child" where
  "apply_close_report report c = c\<lparr>
     ch_hold_released := (dget report ''hold_released'' = PBool True),
     ch_last_receipt := Some (close_report_receipt report) \<rparr>"

section \<open>The store\<close>

definition path_char :: "char \<Rightarrow> bool" where
  "path_char c \<longleftrightarrow> char_in 48 57 c \<or> char_in 65 90 c \<or> char_in 97 122 c \<or> char_in 128 255 c \<or>
     c \<in> set ''._-''"

definition trim_chars :: "string \<Rightarrow> string \<Rightarrow> string" where
  "trim_chars cs s = rev (dropWhile (\<lambda>c. c \<in> set cs) (rev (dropWhile (\<lambda>c. c \<in> set cs) s)))"

definition loop_path :: "string \<Rightarrow> string" where
  "loop_path loop_id =
     (let safe = trim_chars ''._'' (map (\<lambda>c. if path_char c then c else CHR ''_'') loop_id) in
      if safe = [] then ''loop'' else safe)"

type_synonym loop_files = "(string \<times> loop_state) list"

record 'w loop_world =
  lw_files :: loop_files
  lw_world :: 'w

definition loop_exists :: "string \<Rightarrow> 'w loop_world \<Rightarrow> bool" where
  "loop_exists loop_id w \<longleftrightarrow> map_of (lw_files w) (loop_path loop_id) \<noteq> None"

definition loop_load :: "string \<Rightarrow> ('w loop_world, loop_state) io" where
  "loop_load loop_id w = (case map_of (lw_files w) (loop_path loop_id) of
      None \<Rightarrow> Inl (ValueError ''loop state was not found'')
    | Some s \<Rightarrow> Inr s, w)"

definition write_locked :: "string \<Rightarrow> loop_state \<Rightarrow> ('w loop_world, unit) io" where
  "write_locked loop_id s =
     io_modify (\<lambda>w. w\<lparr> lw_files := AList.update (loop_path loop_id) s (lw_files w) \<rparr>)"

text \<open>Whether the saved cleanup or close intent overrides the incoming state.\<close>

definition cleanup_overrides :: "loop_state \<Rightarrow> loop_state \<Rightarrow> bool" where
  "cleanup_overrides latest s =
     (case ls_cleanup latest of
        None \<Rightarrow> False
      | Some prior \<Rightarrow> (case ls_cleanup s of
          None \<Rightarrow> True
        | Some incoming \<Rightarrow> cu_target prior \<noteq> cu_target incoming \<or>
            cu_status prior = ''completed'' \<and> cu_status incoming \<noteq> ''completed'' \<and>
            cleanup_evidence_confirmed latest))"

definition close_overrides :: "loop_state \<Rightarrow> loop_state \<Rightarrow> bool" where
  "close_overrides latest s =
     (case ls_close latest of
        None \<Rightarrow> False
      | Some prior \<Rightarrow> map_option cl_request_id (ls_close s) \<noteq> Some (cl_request_id prior))"

text \<open>The merge of the saved owner reports into an incoming state of the same close.\<close>

definition merge_child_reports :: "(string \<times> pdict) list \<Rightarrow> loop_state \<Rightarrow> loop_state" where
  "merge_child_reports reports s = aggregate_close_reports (s\<lparr>
     ls_close := map_option (\<lambda>cl. cl\<lparr> cl_child_reports := reports \<rparr>) (ls_close s),
     ls_children := map (\<lambda>c. case Option.bind (ch_hold_id c) (map_of reports) of
         None \<Rightarrow> c
       | Some report \<Rightarrow> if report = [] then c else apply_close_report report c) (ls_children s) \<rparr>)"

definition merge_saved :: "loop_state option \<Rightarrow> loop_state \<Rightarrow> loop_state \<times> bool" where
  "merge_saved saved s =
     (case saved of
        None \<Rightarrow> (s, True)
      | Some latest \<Rightarrow>
          if cleanup_overrides latest s \<or> close_overrides latest s then (latest, False)
          else (case ls_close latest of
              None \<Rightarrow> (s, True)
            | Some prior \<Rightarrow>
                if cl_child_reports prior = [] then (s, True)
                else (merge_child_reports (cl_child_reports prior) s, True)))"

text \<open>\<open>save\<close>: the state the caller goes on with, and whether the file is written.\<close>

definition loop_save :: "string \<Rightarrow> loop_state \<Rightarrow> ('w loop_world, loop_state) io" where
  "loop_save loop_id s =
     io_bind (io_get (\<lambda>w. merge_saved (map_of (lw_files w) (loop_path loop_id)) s)) (\<lambda>(s1, fresh).
     if fresh then io_then (write_locked loop_id s1) (io_return s1) else io_return s1)"

definition loop_create :: "string \<Rightarrow> loop_state \<Rightarrow> ('w loop_world, loop_state) io" where
  "loop_create loop_id s =
     io_bind (io_get (loop_exists loop_id)) (\<lambda>known.
     if known then loop_load loop_id else loop_save loop_id s)"

definition loop_finished :: "string list" where
  "loop_finished = [''blocked'', ''completed'', ''stopped'', ''expired'', ''closed_unconfirmed'']"

definition active_loop_ids :: "'w loop_world \<Rightarrow> string list" where
  "active_loop_ids w = map (py_strip \<circ> ls_loop_id)
     (filter (\<lambda>s. ls_status s \<notin> set loop_finished \<and> py_strip (ls_loop_id s) \<noteq> [])
       (map snd (lw_files w)))"

text \<open>\<open>record_child_close\<close>: one owner report merged into the state it is bound to.\<close>

definition report_applies :: "pdict \<Rightarrow> loop_close \<Rightarrow> loop_child \<Rightarrow> bool" where
  "report_applies report cl c =
     (let prior = (case Option.bind (ch_hold_id c) (map_of (cl_child_reports cl)) of None \<Rightarrow> [] | Some d \<Rightarrow> d);
          data = receipt_data (receipt_of (ch_last_receipt c)) in
      \<not> (prior \<noteq> [] \<and> (\<not> py_eq (dget prior ''request_id'') (dget report ''request_id'') \<or>
            dget prior ''report_status'' = PStr ''completed'')) \<and>
      \<not> (truthy (dget data ''request_id'') \<and> \<not> py_eq (dget data ''request_id'') (dget report ''request_id'')))"

fun update_first :: "('a \<Rightarrow> bool) \<Rightarrow> ('a \<Rightarrow> 'a) \<Rightarrow> 'a list \<Rightarrow> 'a list" where
  "update_first P f [] = []"
| "update_first P f (x # xs) = (if P x then f x # xs else x # update_first P f xs)"

definition bound_child :: "pdict \<Rightarrow> loop_child \<Rightarrow> bool" where
  "bound_child report c \<longleftrightarrow> opt_str (ch_hold_id c) = dget report ''hold_id''"

definition merge_report :: "pdict \<Rightarrow> loop_state \<Rightarrow> loop_state option" where
  "merge_report report s =
     (case (ls_close s, find (bound_child report) (ls_children s)) of
        (Some cl, Some c) \<Rightarrow>
          if \<not> py_eq (PStr (cl_request_id cl)) (dget (as_dict (dget report ''parent_close'')) ''close_request_id'')
             \<or> \<not> report_applies report cl c \<or> ch_hold_id c = None then None
          else Some (aggregate_close_reports (s\<lparr>
            ls_close := Some (cl\<lparr> cl_child_reports :=
              AList.update (the (ch_hold_id c)) report (cl_child_reports cl) \<rparr>),
            ls_children := update_first (bound_child report) (apply_close_report report) (ls_children s) \<rparr>))
      | _ \<Rightarrow> None)"

definition record_child_close :: "pdict \<Rightarrow> ('w loop_world, unit) io" where
  "record_child_close report =
     (let loop_id = text_or_empty (dget (as_dict (dget report ''parent_close'')) ''loop_id'') in
      io_bind (loop_load loop_id) (\<lambda>s.
      case merge_report report s of
        None \<Rightarrow> io_return ()
      | Some s1 \<Rightarrow> write_locked loop_id s1))"

section \<open>What a save can change\<close>

datatype loop_op =
    Save_loop string loop_state
  | Create_loop string loop_state
  | Record_close pdict

fun loop_step :: "loop_op \<Rightarrow> 'w loop_world \<Rightarrow> unit result \<times> 'w loop_world" where
  "loop_step (Save_loop i s) = io_bind (loop_save i s) (\<lambda>_. io_return ())"
| "loop_step (Create_loop i s) = io_bind (loop_create i s) (\<lambda>_. io_return ())"
| "loop_step (Record_close report) = record_child_close report"

text \<open>The intents a state holds: the target of the cleanup, the request of the close, the owner reports.\<close>

definition intent_target :: "loop_state \<Rightarrow> string option" where
  "intent_target s = map_option cu_target (ls_cleanup s)"

definition intent_close :: "loop_state \<Rightarrow> string option" where
  "intent_close s = map_option cl_request_id (ls_close s)"

definition intent_reports :: "loop_state \<Rightarrow> (string \<times> pdict) list" where
  "intent_reports s = (case ls_close s of None \<Rightarrow> [] | Some cl \<Rightarrow> cl_child_reports cl)"

definition report_completed :: "pdict \<Rightarrow> bool" where
  "report_completed d \<longleftrightarrow> dget d ''report_status'' = PStr ''completed''"

lemma aggregate_keeps [simp]:
  "intent_target (aggregate_close_reports s) = intent_target s"
  "intent_close (aggregate_close_reports s) = intent_close s"
  "intent_reports (aggregate_close_reports s) = intent_reports s"
  "ls_children (aggregate_close_reports s) = ls_children s"
  "ls_loop_id (aggregate_close_reports s) = ls_loop_id s"
  by (auto simp: aggregate_close_reports_def update_close_def Let_def intent_target_def intent_close_def
      intent_reports_def split: option.splits)

lemma cleanup_overrides_target:
  "\<not> cleanup_overrides latest s \<Longrightarrow> intent_target latest = Some t \<Longrightarrow> intent_target s = Some t"
  by (auto simp: cleanup_overrides_def intent_target_def split: option.splits)

lemma close_overrides_iff: "close_overrides latest s \<longleftrightarrow> ls_close latest \<noteq> None \<and> intent_close s \<noteq> intent_close latest"
  by (auto simp: close_overrides_def intent_close_def split: option.splits)

lemma merge_child_reports_keeps [simp]:
  "intent_target (merge_child_reports rs s) = intent_target s"
  "intent_close (merge_child_reports rs s) = intent_close s"
  "intent_reports (merge_child_reports rs s) = (if ls_close s = None then [] else rs)"
  unfolding merge_child_reports_def aggregate_keeps
  by (cases "ls_close s"; simp add: intent_target_def intent_close_def intent_reports_def)+

lemma merge_saved_cases:
  assumes "merge_saved (Some latest) s = (s1, fresh)"
  shows "s1 = latest \<and> \<not> fresh \<or>
    (s1 = s \<and> intent_reports latest = [] \<or> s1 = merge_child_reports (intent_reports latest) s \<and> ls_close latest \<noteq> None) \<and>
     \<not> cleanup_overrides latest s \<and> \<not> close_overrides latest s \<and> fresh"
  using assms by (auto simp: merge_saved_def intent_reports_def split: option.splits if_splits)

lemma merge_saved_target:
  "merge_saved (Some latest) s = (s1, fresh) \<Longrightarrow> intent_target latest = Some t \<Longrightarrow> intent_target s1 = Some t"
  by (drule merge_saved_cases) (auto simp: cleanup_overrides_target)

lemma merge_saved_close:
  "merge_saved (Some latest) s = (s1, fresh) \<Longrightarrow> intent_close latest = Some r \<Longrightarrow> intent_close s1 = Some r"
  by (drule merge_saved_cases) (auto simp: close_overrides_iff intent_close_def [of latest])

lemma merge_saved_report:
  "merge_saved (Some latest) s = (s1, fresh) \<Longrightarrow> map_of (intent_reports latest) h = Some d \<Longrightarrow>
   map_of (intent_reports s1) h = Some d"
  by (drule merge_saved_cases)
    (auto simp: close_overrides_iff intent_close_def)

lemma merge_report_SomeE:
  assumes "merge_report report s = Some s1"
  obtains cl c h where "ls_close s = Some cl" "c \<in> set (ls_children s)" "bound_child report c" "ch_hold_id c = Some h"
    "report_applies report cl c" "dget report ''hold_id'' = PStr h"
    "s1 = aggregate_close_reports (s\<lparr>
            ls_close := Some (cl\<lparr> cl_child_reports := AList.update h report (cl_child_reports cl) \<rparr>),
            ls_children := update_first (bound_child report) (apply_close_report report) (ls_children s) \<rparr>)"
proof -
  from assms obtain cl c where c: "ls_close s = Some cl" "find (bound_child report) (ls_children s) = Some c"
    by (auto simp: merge_report_def split: option.splits)
  with assms obtain h where h: "ch_hold_id c = Some h" "report_applies report cl c"
    "s1 = aggregate_close_reports (s\<lparr>
            ls_close := Some (cl\<lparr> cl_child_reports := AList.update h report (cl_child_reports cl) \<rparr>),
            ls_children := update_first (bound_child report) (apply_close_report report) (ls_children s) \<rparr>)"
    by (auto simp: merge_report_def split: if_splits)
  have "c \<in> set (ls_children s)" "bound_child report c"
    using c(2) by (auto simp: find_Some_iff)
  with c h show thesis by (intro that [of cl c h]) (auto simp: bound_child_def)
qed

lemma merge_report_target: "merge_report report s = Some s1 \<Longrightarrow> intent_target s1 = intent_target s"
  by (erule merge_report_SomeE) (simp add: intent_target_def [of s] intent_target_def [of "ls_children_update _ _"])

lemma merge_report_close: "merge_report report s = Some s1 \<Longrightarrow> intent_close s1 = intent_close s"
  by (erule merge_report_SomeE) (simp add: intent_close_def [of s] intent_close_def [of "ls_children_update _ _"])

lemma map_of_AList_update: "map_of (AList.update k v m) x = (if x = k then Some v else map_of m x)"
  by (simp add: update_conv')

lemma merge_report_kept:
  assumes "merge_report report s = Some s1" "report_completed d" "map_of (intent_reports s) h = Some d"
  shows "map_of (intent_reports s1) h = Some d"
proof -
  obtain cl c h' where m: "ls_close s = Some cl" "ch_hold_id c = Some h'" "report_applies report cl c"
    "s1 = aggregate_close_reports (s\<lparr>
            ls_close := Some (cl\<lparr> cl_child_reports := AList.update h' report (cl_child_reports cl) \<rparr>),
            ls_children := update_first (bound_child report) (apply_close_report report) (ls_children s) \<rparr>)"
    using assms(1) by (rule merge_report_SomeE)
  have s1: "intent_reports s1 = AList.update h' report (cl_child_reports cl)"
    unfolding m(4) aggregate_keeps by (simp add: intent_reports_def)
  have d: "map_of (cl_child_reports cl) h = Some d" "d \<noteq> []"
    using assms(2,3) m(1) by (auto simp: intent_reports_def report_completed_def dget_def)
  have "h' \<noteq> h" using m(2,3) d assms(2) by (auto simp: report_applies_def Let_def report_completed_def)
  with d show ?thesis by (simp add: s1 map_of_AList_update)
qed

text \<open>A file-level property that the merge and the report keep is kept by the store.\<close>

definition file_keeps :: "(loop_state \<Rightarrow> bool) \<Rightarrow> bool" where
  "file_keeps Q \<longleftrightarrow> (\<forall>latest s s1 fresh. Q latest \<longrightarrow> merge_saved (Some latest) s = (s1, fresh) \<longrightarrow> Q s1) \<and>
     (\<forall>report s s1. Q s \<longrightarrow> merge_report report s = Some s1 \<longrightarrow> Q s1)"

definition file_holds :: "(loop_state \<Rightarrow> bool) \<Rightarrow> string \<Rightarrow> 'w loop_world \<Rightarrow> bool" where
  "file_holds Q p w \<longleftrightarrow> (\<exists>s. map_of (lw_files w) p = Some s \<and> Q s)"

lemma file_keepsD:
  assumes "file_keeps Q" "Q latest"
  shows "merge_saved (Some latest) s = (s1, fresh) \<Longrightarrow> Q s1"
    and "merge_report report latest = Some s1 \<Longrightarrow> Q s1"
  using assms unfolding file_keeps_def by blast+

lemma loop_save_apply:
  "loop_save i s w = (let (s1, fresh) = merge_saved (map_of (lw_files w) (loop_path i)) s in
     (Inr s1, if fresh then w\<lparr> lw_files := AList.update (loop_path i) s1 (lw_files w) \<rparr> else w))"
  by (simp add: loop_save_def write_locked_def Let_def split: prod.splits)

lemma file_holds_update: "file_holds Q p (w\<lparr> lw_files := AList.update q s (lw_files w) \<rparr>) \<longleftrightarrow>
    (if p = q then Q s else file_holds Q p w)"
  by (simp add: file_holds_def map_of_AList_update)

lemma loop_save_keeps:
  assumes "file_keeps Q"
  shows "io_keeps (file_holds Q p) (loop_save i s)"
proof (rule io_keepsI)
  fix w :: "'a loop_world"
  assume w: "file_holds Q p w"
  obtain s1 fresh where m: "merge_saved (map_of (lw_files w) (loop_path i)) s = (s1, fresh)"
    by (cases "merge_saved (map_of (lw_files w) (loop_path i)) s")
  obtain s0 where s0: "map_of (lw_files w) p = Some s0" "Q s0"
    using w unfolding file_holds_def by (elim exE conjE)
  have "Q s1" if p: "p = loop_path i"
    using file_keepsD(1) [OF assms s0(2)] m s0(1) [unfolded p] by simp
  then show "file_holds Q p (snd (loop_save i s w))"
    using w by (simp add: loop_save_apply m file_holds_update)
qed

lemma loop_load_keeps: "io_keeps P (loop_load i)"
  by (simp add: loop_load_def io_keeps_def)

lemma loop_create_keeps: "file_keeps Q \<Longrightarrow> io_keeps (file_holds Q p) (loop_create i s)"
  unfolding loop_create_def by (intro io_rules loop_save_keeps loop_load_keeps)

lemma record_child_close_apply:
  "record_child_close report w =
     (let i = text_or_empty (dget (as_dict (dget report ''parent_close'')) ''loop_id'') in
      case map_of (lw_files w) (loop_path i) of
        None \<Rightarrow> (Inl (ValueError ''loop state was not found''), w)
      | Some s \<Rightarrow> (case merge_report report s of
          None \<Rightarrow> (Inr (), w)
        | Some s1 \<Rightarrow> (Inr (), w\<lparr> lw_files := AList.update (loop_path i) s1 (lw_files w) \<rparr>)))"
  by (simp add: record_child_close_def loop_load_def write_locked_def io_bind_def Let_def split: option.splits)

lemma record_close_keeps:
  assumes "file_keeps Q"
  shows "io_keeps (file_holds Q p) (record_child_close report)"
proof (rule io_keepsI)
  fix w :: "'a loop_world"
  assume w: "file_holds Q p w"
  define q where "q = loop_path (text_or_empty (dget (as_dict (dget report ''parent_close'')) ''loop_id''))"
  obtain s0 where s0: "map_of (lw_files w) p = Some s0" "Q s0"
    using w unfolding file_holds_def by (elim exE conjE)
  have "p = q \<Longrightarrow> map_of (lw_files w) q = Some s \<Longrightarrow> merge_report report s = Some s1 \<Longrightarrow> Q s1" for s s1
    using file_keepsD(2) [OF assms s0(2)] s0(1) by simp
  then show "file_holds Q p (snd (record_child_close report w))"
    using w by (simp add: record_child_close_apply Let_def q_def [symmetric] file_holds_update split: option.splits)
qed

lemma loop_step_keeps: "file_keeps Q \<Longrightarrow> io_keeps (file_holds Q p) (loop_step a)"
  by (cases a) (auto intro!: io_rules loop_save_keeps loop_create_keeps record_close_keeps)

lemma file_keeps_target: "file_keeps (\<lambda>s. intent_target s = Some t)"
  unfolding file_keeps_def using merge_saved_target merge_report_target by metis

lemma file_keeps_close: "file_keeps (\<lambda>s. intent_close s = Some r)"
  unfolding file_keeps_def using merge_saved_close merge_report_close by metis

lemma file_keeps_report:
  "file_keeps (\<lambda>s. map_of (intent_reports s) h = Some d \<and> report_completed d)"
  unfolding file_keeps_def using merge_saved_report merge_report_kept by blast

text \<open>Any property of a state that the merges keep is an invariant of its file.\<close>

lemma file_machine: "file_keeps Q \<Longrightarrow> store_machine loop_step (file_holds Q p)"
  by unfold_locales (rule loop_step_keeps [unfolded io_keeps_def, rule_format])

interpretation target_store: store_machine loop_step "file_holds (\<lambda>s. intent_target s = Some t) p"
  by (rule file_machine [OF file_keeps_target])

interpretation close_store: store_machine loop_step "file_holds (\<lambda>s. intent_close s = Some r) p"
  by (rule file_machine [OF file_keeps_close])

interpretation report_store: store_machine loop_step
  "file_holds (\<lambda>s. map_of (intent_reports s) h = Some d \<and> report_completed d) p"
  by (rule file_machine [OF file_keeps_report])

text \<open>
  Once the file of a loop holds a cleanup target, a close request or a completed owner report,
  no sequence of saves, creations and owner reports (of any states, in any order, by any caller)
  removes or replaces it.
\<close>

theorem loop_intent_never_undone:
  assumes run: "run_ops loop_step ops w = (rs, w')"
  shows "(file_holds (\<lambda>s. intent_target s = Some t) p w \<longrightarrow> file_holds (\<lambda>s. intent_target s = Some t) p w') \<and>
    (file_holds (\<lambda>s. intent_close s = Some r) p w \<longrightarrow> file_holds (\<lambda>s. intent_close s = Some r) p w') \<and>
    (file_holds (\<lambda>s. map_of (intent_reports s) h = Some d \<and> report_completed d) p w \<longrightarrow>
     file_holds (\<lambda>s. map_of (intent_reports s) h = Some d \<and> report_completed d) p w')"
  by (intro conjI impI target_store.run_inv_eq [OF run] close_store.run_inv_eq [OF run] report_store.run_inv_eq [OF run])

text \<open>A saved close of the loop \<open>l\<close> with one child, whose owner reported completion.\<close>

definition demo_child :: "string \<Rightarrow> string \<Rightarrow> loop_child" where
  "demo_child slot hold = \<lparr> ch_slot = slot, ch_acquire = ''create'', ch_lane = None, ch_prompt = ''work'',
     ch_continue = None, ch_title = Some ''t'', ch_task_id = None, ch_thread_id = PNone, ch_hold_id = Some hold,
     ch_round = 1, ch_phase = ''running'', ch_lifecycle = None, ch_last_receipt = None, ch_holder_owns = True,
     ch_turn_limit = 1, ch_completed_rounds = 0, ch_stop_receipt = None, ch_close_receipt = None,
     ch_hold_released = False, ch_business = None, ch_intake = None \<rparr>"

definition demo_close :: "loop_close" where
  "demo_close = \<lparr> cl_request_id = ''close:l'', cl_requested_at = ''t'', cl_report_status = ''pending'',
     cl_reason = None, cl_scheduling_closed = True, cl_execution_state = None, cl_terminal_confirmed = False,
     cl_management_closed = False, cl_unresolved = False, cl_child_reports = [], cl_children = [] \<rparr>"

definition demo_loop :: "loop_state" where
  "demo_loop = \<lparr> ls_loop_id = ''l'', ls_request_id = ''r'', ls_project = ''p'', ls_max_rounds = 1, ls_max_turns = 9,
     ls_auto_continue = True, ls_continue_prompt = ''go'', ls_turns_per_thread = None, ls_controller_skill = [],
     ls_business_skill = [], ls_model = ''m'', ls_effort = ''max'', ls_notifications = [], ls_interval = 60,
     ls_expires_at = ''e'', ls_target_count = 1, ls_status = ''stopping'', ls_reason = None, ls_heartbeat_id = None,
     ls_heartbeat = None, ls_children = [demo_child ''a'' ''h''],
     ls_cleanup = Some \<lparr> cu_target = ''stopped'', cu_status = ''pending'', cu_heartbeat_cancelled = True \<rparr>,
     ls_close = Some demo_close \<rparr>"

definition demo_report :: "pdict" where
  "demo_report = [(''hold_id'', PStr ''h''), (''report_status'', PStr ''completed''),
     (''parent_close'', PDict [(''loop_id'', PStr ''l''), (''close_request_id'', PStr ''close:l'')]),
     (''hold_released'', PBool True), (''terminal_confirmed'', PBool True), (''management_closed'', PBool True)]"

lemma loop_intent_never_undone_witness:
  defines "w \<equiv> \<lparr> lw_files = [(''l'', demo_loop)], lw_world = () \<rparr>"
    and "ops \<equiv> [Record_close demo_report, Save_loop ''l'' (demo_loop\<lparr> ls_cleanup := None, ls_close := None \<rparr>)]"
  shows "file_holds (\<lambda>s. intent_close s = Some ''close:l'') ''l'' (snd (run_ops loop_step ops w))"
proof -
  have "file_holds (\<lambda>s. intent_close s = Some ''close:l'') ''l'' w"
    by (simp add: w_def file_holds_def demo_loop_def demo_close_def intent_close_def)
  with loop_intent_never_undone [OF surjective_pairing [of "run_ops loop_step ops w"], THEN conjunct2, THEN conjunct1]
  show ?thesis by blast
qed

section \<open>When the owner reports close the loop\<close>

definition cleanup_done :: "loop_state \<Rightarrow> bool" where
  "cleanup_done s = (case ls_cleanup s of None \<Rightarrow> False | Some cu \<Rightarrow> cu_status cu = ''completed'')"

definition all_reported :: "loop_state \<Rightarrow> bool" where
  "all_reported s = list_all (\<lambda>c. case child_holds c of None \<Rightarrow> True
     | Some h \<Rightarrow> (case map_of (intent_reports s) h of None \<Rightarrow> False | Some d \<Rightarrow> report_completed d)) (ls_children s)"

lemma in_map_filter: "y \<in> set (List.map_filter f xs) \<longleftrightarrow> (\<exists>x \<in> set xs. f x = Some y)"
  by (induction xs) (auto simp: map_filter_simps split: option.splits)

lemma aggregate_completes:
  assumes "\<not> cleanup_done s" "cleanup_done (aggregate_close_reports s)"
  shows "all_reported s" "\<exists>cu. ls_cleanup s = Some cu \<and> cu_heartbeat_cancelled cu \<and>
    ls_status (aggregate_close_reports s) = cu_target cu"
proof -
  let ?holds = "List.map_filter child_holds (ls_children s)"
  obtain cl cu where c: "ls_close s = Some cl" "ls_cleanup s = Some cu" "cu_heartbeat_cancelled cu"
    and known: "\<forall>h \<in> set ?holds. map_of (cl_child_reports cl) h \<noteq> None"
    and full: "\<forall>h \<in> set ?holds. dget (the (map_of (cl_child_reports cl) h)) ''report_status'' = PStr ''completed''"
    and ne: "?holds \<noteq> []"
    using assms by (auto simp: aggregate_close_reports_def Let_def cleanup_done_def list_all_iff
        split: option.splits if_splits)
  show "all_reported s"
    unfolding all_reported_def list_all_iff
  proof
    fix x assume x: "x \<in> set (ls_children s)"
    show "case child_holds x of None \<Rightarrow> True
      | Some h \<Rightarrow> (case map_of (intent_reports s) h of None \<Rightarrow> False | Some d \<Rightarrow> report_completed d)"
    proof (cases "child_holds x")
      case (Some h)
      then have "h \<in> set ?holds" using x by (auto simp: in_map_filter)
      then show ?thesis
        using known full c(1) Some by (cases "map_of (cl_child_reports cl) h") (auto simp: intent_reports_def report_completed_def)
    qed simp
  qed
  show "\<exists>cu. ls_cleanup s = Some cu \<and> cu_heartbeat_cancelled cu \<and>
    ls_status (aggregate_close_reports s) = cu_target cu"
    using known full c ne by (auto simp: aggregate_close_reports_def Let_def list_all_iff)
qed

text \<open>
  An owner report completes the cleanup of a loop only when the reconciliation heartbeat is
  cancelled and every hold the loop owns has a completed owner report; the loop then has the status
  its cleanup was latched for.
\<close>

theorem close_needs_every_report:
  assumes "merge_report report s = Some s1" "\<not> cleanup_done s" "cleanup_done s1"
  shows "all_reported s1 \<and> (\<exists>cu. ls_cleanup s1 = Some cu \<and> cu_heartbeat_cancelled cu \<and> ls_status s1 = cu_target cu)"
  using assms(1)
proof (rule merge_report_SomeE)
  fix cl c h
  let ?s = "s\<lparr> ls_close := Some (cl\<lparr> cl_child_reports := AList.update h report (cl_child_reports cl) \<rparr>),
            ls_children := update_first (bound_child report) (apply_close_report report) (ls_children s) \<rparr>"
  assume s1: "s1 = aggregate_close_reports ?s"
  have "\<not> cleanup_done ?s" using assms(2) by (simp add: cleanup_done_def)
  then have "all_reported ?s" and e: "\<exists>cu. ls_cleanup ?s = Some cu \<and> cu_heartbeat_cancelled cu \<and> ls_status s1 = cu_target cu"
    using aggregate_completes assms(3) unfolding s1 by blast+
  moreover have "all_reported s1 = all_reported ?s" unfolding s1 all_reported_def aggregate_keeps ..
  moreover have "map_option cu_target (ls_cleanup s1) = map_option cu_target (ls_cleanup ?s) \<and>
      map_option cu_heartbeat_cancelled (ls_cleanup s1) = map_option cu_heartbeat_cancelled (ls_cleanup ?s)"
    unfolding s1 by (simp add: aggregate_close_reports_def Let_def split: option.splits)
  ultimately show ?thesis by (cases "ls_cleanup s1") auto
qed

lemma close_needs_every_report_witness:
  "\<exists>s1. merge_report demo_report demo_loop = Some s1 \<and> all_reported s1 \<and> ls_status s1 = ''stopped''"
proof -
  obtain s1 where s1: "merge_report demo_report demo_loop = Some s1"
    by (simp add: merge_report_def demo_loop_def demo_child_def demo_close_def demo_report_def bound_child_def
        report_applies_def receipt_of_def receipt_data_def dget_def)
  then have "cleanup_done s1" "ls_status s1 = ''stopped''"
    by (auto simp: merge_report_def demo_loop_def demo_child_def demo_close_def demo_report_def bound_child_def
        report_applies_def receipt_of_def receipt_data_def dget_def aggregate_close_reports_def cleanup_done_def
        apply_close_report_def child_holds_def map_filter_simps Let_def)
  moreover have "\<not> cleanup_done demo_loop" by (simp add: demo_loop_def cleanup_done_def)
  ultimately show ?thesis using close_needs_every_report s1 by blast
qed

end
