(* ===== verification/Loop_Start.thy ===== *)
theory Loop_Start
  imports Loop_State Py_Json
begin

text \<open>
  What a loop is started with, \<open>packages/jarvis_control/loop.py\<close>: \<open>_validate_start\<close>, the
  prompt of a worker, the lane binding of a holder, the limits and counts of the rounds, the
  options of the reconciliation heartbeat and \<open>preflight_contract\<close>.

  The file system (\<open>path_lib\<close>) and \<open>output_schema_validator\<close>, which drives the third-party
  \<open>jsonschema\<close> package, are parameters; the current time is an argument. The Chinese texts of the
  worker prompt are given by their UTF-8 bytes.
\<close>

definition utf8 :: "nat list \<Rightarrow> string" where
  "utf8 bs = map char_of bs"

section \<open>The prompt of a worker\<close>

text \<open>
  The rules of the binding: one item a turn with receipts; a whole batch a turn; one item with the
  final answer as the only delivery; and the safety status line for a lane.
\<close>

definition rule_single :: string where
  "rule_single = utf8 [230, 175, 143, 228, 184, 170] @
     '' Worker '' @
     utf8 [229, 155, 158, 229, 144, 136, 228, 187, 133, 229, 164, 132, 231, 144, 134] @
     '' binding '' @
     utf8 [228, 184, 173, 231, 154, 132, 228, 184, 128, 228, 184, 170, 228, 187, 187, 229, 138, 161, 233, 161, 185, 239, 188, 155, 229, 174,
       137, 229, 133, 168, 229, 134, 153, 229, 155, 158, 229, 144, 142, 232, 190, 147, 229, 135, 186, 231, 187, 147, 230, 158, 132, 229,
       140, 150, 229, 141, 149, 233, 161, 185, 229, 155, 158, 230, 137, 167, 229, 185, 182, 231, 173, 137, 229, 190, 133, 228, 184, 139,
       228, 184, 128, 229, 155, 158, 229, 144, 136, 239, 188, 140, 228, 184, 141, 229, 190, 151, 233, 129, 141, 229, 142, 134, 227, 128,
       129, 233, 162, 132, 229, 143, 150, 227, 128, 129, 229, 185, 182, 232, 161, 140, 229, 164, 132, 231, 144, 134, 230, 136, 150, 229,
       174, 163, 231, 167, 176, 230, 149, 180, 230, 157, 161] @
     '' lane '' @
     utf8 [229, 183, 178, 229, 174, 140, 230, 136, 144, 227, 128, 130, 10, 230, 140, 137] @
     '' result_verification '' @
     utf8 [230, 140, 135, 229, 174, 154, 228, 189, 141, 231, 189, 174, 228, 191, 157, 229, 173, 152, 231, 142, 176, 230, 156, 137] @
     '' JSON '' @
     utf8 [230, 173, 163, 229, 188, 143, 229, 155, 158, 230, 137, 167, 239, 188, 140] @
     ''output_path '' @
     utf8 [230, 140, 135, 229, 144, 145, 229, 183, 178, 228, 191, 157, 229, 173, 152, 231, 154, 132] @
     '' JSON '' @
     utf8 [231, 187, 147, 230, 158, 156, 239, 188, 155, 228, 184, 164, 232, 128, 133, 229, 157, 135, 233, 161, 187, 229, 140, 133, 229, 144,
       171, 230, 156, 172, 229, 128, 153, 233, 128, 137] @
     '' candidate_id'' @
     utf8 [227, 128, 129, 230, 179, 168, 229, 133, 165, 231, 154, 132] @
     '' request_id'' @
     utf8 [227, 128, 129] @
     ''turn_number '' @
     utf8 [229, 146, 140, 231, 186, 166, 229, 174, 154, 231, 187, 136, 230, 128, 129] @
     '' status'' @
     utf8 [227, 128, 130, 10]"

definition rule_batched :: string where
  "rule_batched = utf8 [230, 175, 143, 228, 184, 170] @
     '' Worker '' @
     utf8 [229, 155, 158, 229, 144, 136, 228, 187, 133, 229, 164, 132, 231, 144, 134, 230, 156, 172, 229, 155, 158, 229, 144, 136] @
     '' binding.candidate_ids '' @
     utf8 [228, 184, 173, 231, 154, 132, 229, 133, 168, 233, 131, 168, 231, 156, 159, 229, 174, 158, 228, 187, 187, 229, 138, 161, 233, 161,
       185, 32, 73, 68, 239, 188, 140, 228, 184, 141, 229, 190, 151, 233, 162, 132, 229, 143, 150, 230, 136, 150, 229, 164, 132, 231,
       144, 134, 228, 184, 139, 230, 137, 185, 227, 128, 130, 10, 230, 175, 143, 228, 184, 170, 228, 187, 187, 229, 138, 161, 233, 161,
       185, 229, 136, 134, 229, 136, 171, 230, 140, 137] @
     '' receipt_paths '' @
     utf8 [228, 191, 157, 229, 173, 152] @
     '' JSON '' @
     utf8 [230, 173, 163, 229, 188, 143, 229, 155, 158, 230, 137, 167, 229, 143, 138] @
     '' output_path '' @
     utf8 [230, 140, 135, 229, 144, 145, 231, 154, 132] @
     '' JSON '' @
     utf8 [231, 187, 147, 230, 158, 156, 239, 188, 155, 228, 184, 164, 232, 128, 133, 229, 157, 135, 229, 140, 133, 229, 144, 171, 232, 175,
       165, 228, 187, 187, 229, 138, 161, 233, 161, 185] @
     '' candidate_id'' @
     utf8 [227, 128, 129, 230, 156, 172, 229, 155, 158, 229, 144, 136] @
     '' request_id'' @
     utf8 [227, 128, 129] @
     ''turn_number '' @
     utf8 [229, 146, 140, 231, 186, 166, 229, 174, 154, 231, 187, 136, 230, 128, 129] @
     '' status'' @
     utf8 [227, 128, 130] @
     ''output_schema '' @
     utf8 [228, 187, 141, 233, 128, 144, 233, 161, 185, 230, 160, 161, 233, 170, 140, 239, 188, 140, 228, 184, 141, 230, 160, 161, 233, 170,
       140, 230, 149, 180, 230, 137, 185, 229, 140, 133, 232, 163, 133, 227, 128, 130, 10, 229, 133, 168, 233, 131, 168, 228, 187, 187,
       229, 138, 161, 233, 161, 185, 228, 186, 167, 231, 137, 169, 229, 146, 140, 230, 173, 163, 229, 188, 143, 229, 155, 158, 230, 137,
       167, 229, 174, 140, 230, 136, 144, 229, 144, 142, 231, 187, 147, 230, 157, 159, 230, 156, 172, 229, 155, 158, 229, 144, 136, 239,
       188, 140] @
     ''Holder '' @
     utf8 [230, 140, 137, 231, 156, 159, 229, 174, 158] @
     '' ID '' @
     utf8 [232, 166, 134, 231, 155, 150, 231, 148, 159, 230, 136, 144, 229, 185, 182, 228, 191, 157, 229, 173, 152, 230, 156, 172, 232, 189,
       174, 230, 149, 180, 230, 137, 185, 230, 160, 184, 233, 170, 140, 229, 155, 158, 230, 137, 167, 227, 128, 130, 231, 188, 186, 233,
       161, 185, 227, 128, 129, 233, 148, 153, 233, 161, 185, 227, 128, 129, 233, 135, 141, 229, 164, 141, 230, 136, 150, 233, 131, 168,
       229, 136, 134, 229, 164, 177, 232, 180, 165, 228, 184, 141, 229, 190, 151, 229, 174, 163, 231, 167, 176, 230, 149, 180, 230, 137,
       185, 229, 174, 140, 230, 136, 144, 239, 188, 155, 229, 176, 190, 230, 137, 185, 230, 140, 137, 229, 174, 158, 233, 153, 133, 230,
       179, 168, 229, 133, 165, 230, 149, 176, 233, 135, 143, 229, 164, 132, 231, 144, 134, 227, 128, 130, 10]"

definition rule_final :: string where
  "rule_final = utf8 [230, 175, 143, 229, 155, 158, 229, 144, 136, 229, 143, 170, 229, 164, 132, 231, 144, 134] @
     '' binding.candidate_ids '' @
     utf8 [228, 184, 173, 231, 154, 132, 228, 184, 128, 228, 184, 170, 228, 187, 187, 229, 138, 161, 233, 161, 185, 239, 188, 140, 228, 184,
       141, 233, 162, 132, 229, 143, 150, 230, 136, 150, 229, 164, 132, 231, 144, 134, 229, 133, 182, 228, 187, 150, 233, 161, 185, 227,
       128, 130, 10, 229, 148, 175, 228, 184, 128, 228, 186, 164, 228, 187, 152, 230, 152, 175, 230, 156, 128, 231, 187, 136, 229, 155,
       158, 229, 164, 141, 228, 184, 173, 231, 154, 132] @
     '' JSON'' @
     utf8 [239, 188, 140, 228, 191, 157, 230, 140, 129, 229, 143, 145, 231, 142, 176, 229, 142, 159, 232, 178, 140, 239, 188, 155, 228, 184,
       154, 229, 138, 161, 229, 173, 151, 230, 174, 181, 229, 143, 175, 231, 156, 129, 231, 149, 165, 239, 188, 140, 231, 188, 186, 230,
       157, 165, 230, 186, 144, 228, 184, 141, 233, 152, 187, 230, 173, 162, 230, 142, 165, 230, 148, 182, 227, 128, 130, 228, 184, 141,
       232, 166, 129, 229, 134, 153, 230, 150, 135, 228, 187, 182, 227, 128, 129, 232, 191, 144, 232, 161, 140, 230, 148, 182, 229, 176,
       190, 232, 132, 154, 230, 156, 172, 227, 128, 129, 229, 161, 171, 229, 134, 153] @
     '' QA '' @
     utf8 [230, 136, 150, 230, 173, 163, 229, 188, 143, 229, 155, 158, 230, 137, 167, 239, 188, 155, 73, 68, 32, 228, 184, 142, 232, 191,
       144, 232, 161, 140, 232, 186, 171, 228, 187, 189, 231, 148, 177] @
     '' Holder '' @
     utf8 [231, 187, 145, 229, 174, 154, 227, 128, 130] @
     ''Holder '' @
     utf8 [232, 135, 170, 229, 138, 168, 228, 191, 157, 231, 149, 153, 229, 142, 159, 230, 150, 135, 227, 128, 129, 228, 191, 157, 229, 173,
       152] @
     '' JSON '' @
     utf8 [229, 146, 140, 230, 142, 165, 230, 148, 182, 229, 155, 158, 230, 137, 167, 229, 185, 182, 230, 142, 168, 232, 191, 155, 239, 188,
       155, 230, 142, 165, 230, 148, 182, 228, 184, 141, 228, 187, 163, 232, 161, 168, 228, 184, 154, 229, 138, 161, 230, 160, 184, 229,
       174, 158, 233, 128, 154, 232, 191, 135, 227, 128, 130, 10]"

definition rule_safety :: string where
  "rule_safety = utf8 [228, 187, 133, 232, 186, 171, 228, 187, 189, 230, 151, 160, 230, 179, 149, 231, 161, 174, 232, 174, 164, 227, 128, 129, 228, 184,
       178, 229, 133, 172, 229, 143, 184, 227, 128, 129, 232, 182, 138, 231, 149, 140, 230, 136, 150, 233, 135, 141, 229, 164, 141, 230,
       137, 167, 232, 161, 140, 233, 163, 142, 233, 153, 169, 231, 173, 137, 232, 191, 144, 232, 161, 140, 229, 174, 137, 229, 133, 168,
       229, 188, 130, 229, 184, 184, 239, 188, 140, 229, 141, 149, 231, 139, 172, 232, 190, 147, 229, 135, 186] @
     '' JARVIS_RUN_STATUS: blocked'' @
     utf8 [239, 188, 155, 230, 153, 174, 233, 128, 154, 229, 173, 151, 230, 174, 181, 227, 128, 129, 232, 174, 161, 230, 149, 176, 227, 128,
       129, 230, 158, 154, 228, 184, 190, 230, 136, 150, 228, 184, 154, 229, 138, 161, 231, 187, 147, 230, 158, 156, 229, 164, 177, 232,
       180, 165, 228, 189, 191, 231, 148, 168] @
     '' failed/review'' @
     utf8 [239, 188, 140, 228, 184, 141, 232, 190, 147, 229, 135, 186, 232, 175, 165, 232, 191, 144, 232, 161, 140, 229, 174, 137, 229, 133,
       168, 230, 142, 167, 229, 136, 182, 232, 161, 140, 227, 128, 130, 10]"

definition rule_controller :: "string \<Rightarrow> string" where
  "rule_controller skill = utf8 [230, 137, 167, 232, 161, 140, 227, 128, 129, 231, 187, 173, 232, 183, 145, 229, 146, 140, 229, 155, 158, 230, 137, 167, 232, 167,
       132, 229, 136, 153, 239, 188, 140, 229, 191, 133, 233, 161, 187, 228, 184, 165, 230, 160, 188, 233, 129, 181, 229, 174, 136, 32,
       36] @ skill @
     utf8 [227, 128, 130]"

definition rule_business :: "string \<Rightarrow> string" where
  "rule_business skill = utf8 [229, 164, 132, 231, 144, 134, 228, 187, 187, 229, 138, 161, 233, 161, 185, 229, 185, 182, 229, 174, 140, 230, 136, 144, 230, 156,
       172, 230, 172, 161, 229, 183, 165, 228, 189, 156, 239, 188, 140, 229, 191, 133, 233, 161, 187, 228, 184, 165, 230, 160, 188, 233,
       129, 181, 229, 174, 136, 32, 36] @ skill @
     utf8 [227, 128, 130]"

definition worker_head :: string where
  "worker_head = utf8 [228, 189, 160, 230, 152, 175, 230, 156, 172, 230, 172, 161] @
     '' Jarvis Worker'' @
     utf8 [227, 128, 130]"

definition worker_task :: string where
  "worker_task = utf8 [228, 187, 187, 229, 138, 161, 239, 188, 154]"

definition binding_rule :: "bool \<Rightarrow> bool \<Rightarrow> bool \<Rightarrow> string" where
  "binding_rule lane_bound batched final =
     (let base = (if lane_bound then rule_single else []);
          batch = (if lane_bound \<and> batched then rule_batched else base);
          rule = (if final then rule_final else batch) in
      if lane_bound then rule @ rule_safety else rule)"

definition worker_prompt :: "string \<Rightarrow> string \<Rightarrow> string \<Rightarrow> bool \<Rightarrow> bool \<Rightarrow> bool \<Rightarrow> string" where
  "worker_prompt task_prompt controller_skill business_skill lane_bound batched final =
     (let rule = binding_rule lane_bound batched final;
          rules = (if controller_skill \<noteq> [] \<and> \<not> final then [rule_controller controller_skill] else []) @
            (if rule \<noteq> [] then [py_rstrip rule] else []) @
            (if business_skill \<noteq> [] then [rule_business business_skill] else []);
          rule_text = py_join [CHR 0x0A] rules;
          rules_prefix = (if rule_text \<noteq> [] then rule_text @ [CHR 0x0A, CHR 0x0A] else []) in
      worker_head @ [CHR 0x0A, CHR 0x0A] @ rules_prefix @ worker_task @ task_prompt)"

section \<open>The lane of one thread\<close>

definition open_statuses :: "string list" where
  "open_statuses = [''accepted'', ''holding'', ''running'', ''pending'', ''inprogress'', ''queued'']"

definition terminal_word :: "pyval \<Rightarrow> bool" where
  "terminal_word v = (case v of PStr s \<Rightarrow> py_strip s \<noteq> [] \<and> py_lower s \<notin> set open_statuses | _ \<Rightarrow> False)"

definition verification_ok :: "int list \<Rightarrow> pyval \<Rightarrow> bool" where
  "verification_ok ids verification =
     (let v = as_dict verification; paths = as_dict (dget v ''receipt_paths'') in
      is_dict verification \<and> is_dict (dget v ''receipt_paths'') \<and>
      set (map fst paths) = set (map id_key ids) \<and> list_all (\<lambda>(k, x). nonblank_text x) paths \<and>
      is_list (dget v ''terminal_statuses'') \<and> dget v ''terminal_statuses'' \<noteq> PList [] \<and>
      list_all terminal_word (as_list (dget v ''terminal_statuses'')))"

type_synonym schema_check = "pyval \<Rightarrow> unit result"

text \<open>The checks of a thread's \<open>lane\<close>, and the lane the child keeps.\<close>

definition check_lane :: "path_lib \<Rightarrow> schema_check \<Rightarrow> int \<Rightarrow> pyval \<Rightarrow> pdict result" where
  "check_lane pl schema max_rounds lane_v =
     (let lane = as_dict lane_v;
          database_path = stripped (dget lane ''database_path'');
          output_boundary = stripped (dget lane ''output_boundary'');
          verification = dget lane ''result_verification''; contract = as_dict verification in
      rbind (raise_if (\<not> is_dict lane_v) (ValueError ''thread lane must be an object'')) (\<lambda>_.
      case candidate_list (dget lane ''candidate_ids'') of
        None \<Rightarrow> Inl (ValueError ''thread lane requires unique positive candidate_ids, database_path, and output_boundary'')
      | Some ids \<Rightarrow>
          rbind (raise_if (database_path = [] \<or> output_boundary = [])
            (ValueError ''thread lane requires unique positive candidate_ids, database_path, and output_boundary'')) (\<lambda>_.
          rbind (lane_batch_size lane) (\<lambda>sz.
          rbind (raise_if (max_rounds < lane_rounds (length ids) sz)
            (ValueError ''max_rounds must cover every candidate in each thread lane'')) (\<lambda>_.
          rbind (raise_if (\<not> verification_ok ids verification)
            (ValueError ''new bound lanes require result_verification receipt_paths and terminal_statuses'')) (\<lambda>_.
          rbind (if dhas contract ''output_schema'' then schema (dget contract ''output_schema'') else Inr ()) (\<lambda>_.
          rbind (final_answer_mode pl lane) (\<lambda>_.
          rbind (raise_if (1 < sz \<and> card (set (map snd (as_dict (dget contract ''receipt_paths'')))) \<noteq> length ids)
            (ValueError ''batch lanes require separate receipt_paths for every candidate'')) (\<lambda>_.
          Inr ([(''candidate_ids'', PList (map PInt ids)), (''database_path'', PStr database_path),
                (''output_boundary'', PStr output_boundary), (''result_verification'', PDict contract)] @
               (if dhas lane ''batch_size'' then [(''batch_size'', PInt sz)] else [])))))))))))"

section \<open>The request\<close>

record thread_spec =
  sp_slot :: string
  sp_acquire :: string
  sp_lane :: "pdict option"
  sp_prompt :: string
  sp_continue :: "string option"
  sp_title :: "string option"
  sp_task_id :: "string option"

record loop_request =
  lq_request_id :: string
  lq_project :: string
  lq_threads :: "thread_spec list"
  lq_target_count :: int
  lq_max_rounds :: int
  lq_max_turns :: int
  lq_turns_per_thread :: "int option"
  lq_auto_continue :: bool
  lq_continue_prompt :: string
  lq_controller_skill :: string
  lq_business_skill :: string
  lq_model :: string
  lq_effort :: string
  lq_notifications :: pdict
  lq_interval :: int
  lq_expires_at :: string

text \<open>\<open>d.get(k, default)\<close> with an explicit \<open>None\<close> read as the default too.\<close>

definition dget_default :: "pdict \<Rightarrow> string \<Rightarrow> pyval \<Rightarrow> pyval" where
  "dget_default d k v = (if dget d k = PNone then v else dget d k)"

definition positive_int :: "string \<Rightarrow> pyval \<Rightarrow> int result" where
  "positive_int name v = (case int_instance v of
      Some i \<Rightarrow> (if i < 1 then Inl (ValueError (name @ '' must be a positive integer'')) else Inr i)
    | None \<Rightarrow> Inl (ValueError (name @ '' must be a positive integer'')))"

definition turns_limit :: "pyval \<Rightarrow> int option result" where
  "turns_limit v = (if v = PNone then Inr None else (case exact_int v of
      Some i \<Rightarrow> (if i < 1 then Inl (ValueError ''turns_per_thread must be a positive integer'') else Inr (Some i))
    | None \<Rightarrow> Inl (ValueError ''turns_per_thread must be a positive integer'')))"

definition required_fields :: "string list" where
  "required_fields = [''request_id'', ''project'', ''prompt'', ''target_thread_count'', ''max_rounds'', ''expires_at'']"

definition loop_parse_time :: "pyval \<Rightarrow> instant result" where
  "loop_parse_time v = (case parse_instant (py_str v) of
      None \<Rightarrow> Inl (ValueError ''expires_at must be an ISO timestamp'') | Some t \<Rightarrow> Inr t)"

definition loop_expired :: "instant \<Rightarrow> string \<Rightarrow> bool result" where
  "loop_expired now v = rbind (loop_parse_time (PStr v)) (\<lambda>t. Inr (t \<le> now))"

text \<open>The continuation text, \<open>None\<close> when it is not given.\<close>

definition continuation_text :: "pyval \<Rightarrow> string option result" where
  "continuation_text v = (case v of
      PNone \<Rightarrow> Inr None
    | PStr s \<Rightarrow> (if py_strip s = [] then Inl (ValueError ''continue_prompt must be a non-empty string'')
        else Inr (Some (py_strip s)))
    | _ \<Rightarrow> Inl (ValueError ''continue_prompt must be a non-empty string''))"

definition default_threads :: "pdict \<Rightarrow> int \<Rightarrow> pyval list" where
  "default_threads raw n =
     (let title = py_strip (py_str (py_or (dget raw ''title'') (PStr (''Jarvis loop '' @ py_str (dget raw ''request_id''))))) in
      map (\<lambda>i. PDict [(''slot'', PStr (''worker-'' @ int_str i)), (''acquire'', PStr ''create''), (''title'', PStr title)])
        [1..n])"

text \<open>The skills and texts all threads share.\<close>

record loop_texts =
  lt_task :: string
  lt_controller :: string
  lt_business :: string
  lt_continuation :: "string option"
  lt_title :: pyval

definition lane_prompt :: "path_lib \<Rightarrow> loop_texts \<Rightarrow> pdict option \<Rightarrow> string \<Rightarrow> string result" where
  "lane_prompt pl tx lane body =
     rbind (lane_batch_size (case lane of None \<Rightarrow> [] | Some l \<Rightarrow> l)) (\<lambda>sz.
     rbind (final_answer_mode pl (case lane of None \<Rightarrow> [] | Some l \<Rightarrow> l)) (\<lambda>final.
     Inr (worker_prompt body (lt_controller tx) (lt_business tx) (lane \<noteq> None) (1 < sz) final)))"

definition check_thread ::
    "path_lib \<Rightarrow> schema_check \<Rightarrow> int \<Rightarrow> loop_texts \<Rightarrow> string list \<Rightarrow> pyval \<Rightarrow> thread_spec result"
where
  "check_thread pl schema max_rounds tx slots raw_child =
     (let c = as_dict raw_child;
          slot = stripped (dget c ''slot'');
          acquire = py_strip (py_str (py_or (dget c ''acquire'') (PStr ''create'')));
          title = py_strip (text_or_empty (py_or (dget c ''title'') (lt_title tx)));
          task_id = stripped (dget c ''task_id'') in
      rbind (raise_if (\<not> is_dict raw_child) (ValueError ''each thread must be an object'')) (\<lambda>_.
      rbind (raise_if (dhas c ''prompt'') (ValueError ''thread prompt is not supported; use the loop prompt'')) (\<lambda>_.
      rbind (raise_if (slot = [] \<or> slot \<in> set slots \<or> acquire \<notin> {''create'', ''resume''})
        (ValueError ''each thread requires a unique slot and acquire=create|resume'')) (\<lambda>_.
      rbind (if dget c ''lane'' = PNone then Inr None
             else rbind (check_lane pl schema max_rounds (dget c ''lane'')) (\<lambda>l. Inr (Some l))) (\<lambda>lane.
      rbind (lane_prompt pl tx lane (lt_task tx)) (\<lambda>prompt.
      rbind (case lt_continuation tx of None \<Rightarrow> Inr None
             | Some t \<Rightarrow> rbind (lane_prompt pl tx lane t) (\<lambda>p. Inr (Some p))) (\<lambda>continue.
      rbind (raise_if (acquire = ''create'' \<and> title = []) (ValueError ''create thread requires title'')) (\<lambda>_.
      rbind (raise_if (acquire \<noteq> ''create'' \<and> task_id = []) (ValueError ''resume thread requires task_id'')) (\<lambda>_.
      Inr \<lparr> sp_slot = slot, sp_acquire = acquire, sp_lane = lane, sp_prompt = prompt, sp_continue = continue,
            sp_title = (if acquire = ''create'' then Some title else None),
            sp_task_id = (if acquire = ''create'' then None else Some task_id) \<rparr>)))))))))"

fun check_threads ::
    "path_lib \<Rightarrow> schema_check \<Rightarrow> int \<Rightarrow> loop_texts \<Rightarrow> string list \<Rightarrow> pyval list \<Rightarrow> thread_spec list result"
where
  "check_threads pl schema max_rounds tx slots [] = Inr []"
| "check_threads pl schema max_rounds tx slots (raw_child # rest) =
     rbind (check_thread pl schema max_rounds tx slots raw_child) (\<lambda>c.
     rbind (check_threads pl schema max_rounds tx (sp_slot c # slots) rest) (\<lambda>cs. Inr (c # cs)))"

text \<open>The candidates a thread takes: the database by its resolved path, and the identifier.\<close>

definition lane_keys :: "path_lib \<Rightarrow> pdict option \<Rightarrow> (string \<times> int) set" where
  "lane_keys pl lane = (case lane of
      None \<Rightarrow> {}
    | Some l \<Rightarrow> (\<lambda>i. (py_lower (pl_resolve pl (py_str (dget l ''database_path''))), i)) `
        set (case candidate_list (dget l ''candidate_ids'') of None \<Rightarrow> [] | Some ids \<Rightarrow> ids))"

fun check_overlap :: "path_lib \<Rightarrow> (string \<times> int) set \<Rightarrow> thread_spec list \<Rightarrow> unit result" where
  "check_overlap pl seen [] = Inr ()"
| "check_overlap pl seen (c # cs) =
     (let keys = lane_keys pl (sp_lane c) in
      if seen \<inter> keys \<noteq> {} then Inl (ValueError ''thread lanes must not overlap candidate_ids in the same database'')
      else check_overlap pl (seen \<union> keys) cs)"

definition check_loop_notifications :: "pyval \<Rightarrow> pdict result" where
  "check_loop_notifications v = (case v of
      PBool b \<Rightarrow> Inr [(''milestones'', PList []), (''terminal'', PBool b)]
    | PDict d \<Rightarrow> Inr d
    | _ \<Rightarrow> Inl (ValueError ''notifications must be a boolean or object''))"

definition text_default :: "pyval \<Rightarrow> string \<Rightarrow> string" where
  "text_default v d = (let s = py_strip (py_str (py_or v (PStr d))) in if s = [] then d else s)"

definition batched_lane :: "thread_spec \<Rightarrow> bool" where
  "batched_lane c = (case sp_lane c of None \<Rightarrow> False
    | Some l \<Rightarrow> (case lane_batch_size l of Inr sz \<Rightarrow> 1 < sz | Inl e \<Rightarrow> False))"

definition validate_start ::
    "path_lib \<Rightarrow> schema_check \<Rightarrow> instant \<Rightarrow> pdict \<Rightarrow> loop_request result"
where
  "validate_start pl schema now raw =
     (let missing = filter (\<lambda>n. dget raw n \<in> {PNone, PStr []}) required_fields;
          controller = stripped (dget raw ''controller_skill'');
          business = stripped (dget raw ''business_skill'');
          task = py_strip (py_str (dget raw ''prompt'')) in
      rbind (raise_if (missing \<noteq> []) (ValueError (''required loop fields: '' @ py_join '', '' missing))) (\<lambda>_.
      rbind (positive_int ''target_thread_count'' (dget raw ''target_thread_count'')) (\<lambda>target_count.
      rbind (positive_int ''max_rounds'' (dget raw ''max_rounds'')) (\<lambda>max_rounds.
      rbind (turns_limit (dget raw ''turns_per_thread'')) (\<lambda>per_thread.
      rbind (positive_int ''max_turns'' (dget_default raw ''max_turns'' (PInt 999))) (\<lambda>max_turns.
      rbind (positive_int ''interval_seconds'' (dget_default raw ''interval_seconds'' (PInt 1800))) (\<lambda>interval.
      rbind (case dget_default raw ''auto_continue'' (PBool True) of PBool b \<Rightarrow> Inr b
             | _ \<Rightarrow> Inl (ValueError ''auto_continue must be a boolean'')) (\<lambda>auto_continue.
      rbind (loop_parse_time (dget raw ''expires_at'')) (\<lambda>expires.
      rbind (raise_if (expires \<le> now) (ValueError ''expires_at must be in the future'')) (\<lambda>_.
      rbind (raise_if (task = []) (ValueError ''prompt is required'')) (\<lambda>_.
      rbind (continuation_text (dget raw ''continue_prompt'')) (\<lambda>continuation.
      rbind (case dget_default raw ''threads'' (PList (default_threads raw target_count)) of
               PList ts \<Rightarrow> (if int (length ts) = target_count then Inr ts
                 else Inl (ValueError ''threads must exactly match target_thread_count''))
             | _ \<Rightarrow> Inl (ValueError ''threads must exactly match target_thread_count'')) (\<lambda>threads.
      rbind (check_threads pl schema max_rounds \<lparr> lt_task = task, lt_controller = controller,
               lt_business = business, lt_continuation = continuation, lt_title = dget raw ''title'' \<rparr> [] threads) (\<lambda>normalized.
      rbind (check_overlap pl {} normalized) (\<lambda>_.
      rbind (check_loop_notifications (dget_default raw ''notifications'' (PBool True))) (\<lambda>notifications.
      Inr \<lparr> lq_request_id = py_strip (py_str (dget raw ''request_id'')),
            lq_project = py_strip (py_str (dget raw ''project'')), lq_threads = normalized,
            lq_target_count = target_count, lq_max_rounds = max_rounds, lq_max_turns = max_turns,
            lq_turns_per_thread = per_thread, lq_auto_continue = auto_continue,
            lq_continue_prompt = worker_prompt (case continuation of None \<Rightarrow> task | Some t \<Rightarrow> t) controller business
              (list_ex (\<lambda>c. sp_lane c \<noteq> None) normalized) (list_ex batched_lane normalized) False,
            lq_controller_skill = controller, lq_business_skill = business,
            lq_model = text_default (dget raw ''model'') ''gpt-5.6-luna'',
            lq_effort = text_default (dget raw ''reasoning_effort'') ''max'',
            lq_notifications = notifications, lq_interval = interval, lq_expires_at = isoformat expires \<rparr>))))))))))))))))"

section \<open>Rounds and the binding of a holder\<close>

definition holder_lane_binding :: "loop_child \<Rightarrow> pdict option result" where
  "holder_lane_binding c = (case ch_lane c of
      None \<Rightarrow> Inr None
    | Some lane \<Rightarrow> (case dget lane ''candidate_ids'' of
        PList all \<Rightarrow>
          rbind (lane_batch_size lane) (\<lambda>sz.
          let ids = drop (nat (ch_completed_rounds c * sz)) all in
          rbind (dindex lane ''database_path'') (\<lambda>database.
          rbind (dindex lane ''output_boundary'') (\<lambda>boundary.
          rbind (if \<not> dhas lane ''result_verification'' then Inr [] else
                 let contract = as_dict (dget lane ''result_verification'') in
                 rbind (rmap (\<lambda>v. rbind (dindex (as_dict (dget contract ''receipt_paths'')) (py_str v))
                          (\<lambda>p. Inr (py_str v, p))) ids) (\<lambda>paths.
                 Inr [(''result_verification'', PDict (dset contract ''receipt_paths'' (PDict paths)))])) (\<lambda>verification.
          Inr (Some ([(''candidate_ids'', PList ids), (''database_path'', database), (''output_boundary'', boundary),
                (''lane_identity'', PStr (ch_slot c)), (''lane_item_count'', PInt (int (length ids)))] @
               (if dhas lane ''batch_size'' then [(''batch_size'', dget lane ''batch_size'')] else []) @
               verification))))))
      | _ \<Rightarrow> Inr None))"

definition completed_turns :: "loop_child \<Rightarrow> pdict \<Rightarrow> loop_state \<Rightarrow> int result" where
  "completed_turns c data s =
     (if ls_turns_per_thread s \<noteq> None then
        rbind (py_int (py_or (dget_or data ''session_turn_count'' (dget_or data ''turn_count'' (dget data ''total_turn_count'')))
            (PInt 0))) (\<lambda>n. Inr (ch_completed_rounds c + n))
      else py_int (py_or (dget data ''total_turn_count'') (PInt 0)))"

definition round_limit :: "loop_child \<Rightarrow> int \<Rightarrow> int result" where
  "round_limit c fallback = (case ch_lane c of
      None \<Rightarrow> Inr fallback
    | Some lane \<Rightarrow> (case dget lane ''candidate_ids'' of
        PList ids \<Rightarrow> rbind (lane_batch_size lane) (\<lambda>sz. Inr (lane_rounds (length ids) sz))
      | _ \<Rightarrow> Inr fallback))"

definition nested_text :: "pdict \<Rightarrow> string \<Rightarrow> string \<Rightarrow> string option" where
  "nested_text value k1 k2 = (case dget value k1 of
      PDict d \<Rightarrow> (let text = stripped (dget d k2) in if text = [] then None else Some text)
    | _ \<Rightarrow> None)"

section \<open>The reconciliation heartbeat and the preflight contract\<close>

text \<open>\<open>math.ceil(seconds / interval)\<close> over the microseconds that remain.\<close>

definition reconcile_runs :: "instant \<Rightarrow> instant \<Rightarrow> int \<Rightarrow> int" where
  "reconcile_runs now expires interval =
     (let remaining = max (expires - now) 0 in max 1 (- ((- remaining) div (interval * 1000000)) + 1))"

definition reconcile_heartbeat_options :: "instant \<Rightarrow> string \<Rightarrow> string \<Rightarrow> string \<Rightarrow> int \<Rightarrow> string \<Rightarrow> pdict result" where
  "reconcile_heartbeat_options now loop_id request_id heartbeat_id interval expires_at =
     rbind (loop_parse_time (PStr expires_at)) (\<lambda>expires. Inr
       [(''heartbeat_id'', PStr heartbeat_id),
        (''name'', PStr (''Jarvis loop reconciliation '' @ loop_id)),
        (''function'', PStr ''JarvisControl.loop_tick''),
        (''arguments'', PDict [(''loop_id'', PStr loop_id)]),
        (''interval_seconds'', PInt interval),
        (''max_runs'', PInt (reconcile_runs now expires interval)),
        (''expires_at'', PStr expires_at),
        (''source_event_key'', PStr (''jarvis_loop:'' @ loop_id @ '':reconcile'')),
        (''confirmation_evidence'', PStr (''jarvis_loop.start:'' @ request_id))])"

definition start_defaults :: "pdict" where
  "start_defaults =
     [(''controller_skill'', PNone), (''business_skill'', PNone), (''max_turns'', PInt 999),
      (''turns_per_thread'', PNone), (''continue_prompt'', PStr ''same as prompt when omitted''),
      (''auto_continue'', PBool True), (''interval_seconds'', PInt 1800), (''model'', PStr ''gpt-5.6-luna''),
      (''reasoning_effort'', PStr ''max''), (''notifications'', PBool True)]"

definition preflight_contract :: "string list \<Rightarrow> pdict" where
  "preflight_contract allowed_projects =
     [(''allowed_projects'', PList (map PStr (sort allowed_projects))),
      (''start_contract'', PDict
        [(''required'', PList (map PStr required_fields)),
         (''defaults'', PDict start_defaults),
         (''threads'', PDict
           [(''item'', PDict
              [(''slot'', PStr ''non-empty unique string''),
               (''acquire'', PStr ''create|resume (default create)''),
               (''create_requires'', PList [PStr ''title'']),
               (''resume_requires'', PList [PStr ''task_id'']),
               (''lane'', PDict
                 [(''optional'', PBool True),
                  (''candidate_ids'', PStr ''unique positive integers''),
                  (''batch_size'', PStr ''optional positive integer, default 1; any size, tail batch uses remaining IDs''),
                  (''database_path'', PStr ''non-empty path''),
                  (''output_boundary'', PStr ''non-empty path''),
                  (''result_verification'', PStr ''receipt_paths by candidate id and explicit terminal_statuses; optional output_schema (Draft 2020-12, document-local refs, no $id)''),
                  (''lane_identity'', PStr ''read-only worker slot injected by Loop''),
                  (''lane_item_count'', PStr ''read-only total candidate count injected by Loop'')])]),
            (''count'', PStr ''must equal target_thread_count when supplied'')])])]"

section \<open>The documented defaults\<close>

lemma dget_snoc: "map_of d k = None \<Longrightarrow> dget (d @ [(k, v)]) x = (if x = k then v else dget d x)"
  by (auto simp: dget_def map_add_def split: option.splits)

lemma stripped_None: "stripped PNone = []"
  by (simp add: stripped_def text_or_empty_def py_strip_def)

lemma text_default_self: "py_strip d = d \<Longrightarrow> text_default (PStr d) d = text_default PNone d"
  by (simp add: text_default_def py_or_def)

lemma validate_start_cong:
  assumes "\<And>x. x \<in> set (required_fields @ [''title'', ''continue_prompt'', ''threads'']) \<Longrightarrow> dget raw' x = dget raw x"
    and "stripped (dget raw' ''controller_skill'') = stripped (dget raw ''controller_skill'')"
    and "stripped (dget raw' ''business_skill'') = stripped (dget raw ''business_skill'')"
    and "dget_default raw' ''max_turns'' (PInt 999) = dget_default raw ''max_turns'' (PInt 999)"
    and "dget raw' ''turns_per_thread'' = dget raw ''turns_per_thread''"
    and "dget_default raw' ''auto_continue'' (PBool True) = dget_default raw ''auto_continue'' (PBool True)"
    and "dget_default raw' ''interval_seconds'' (PInt 1800) = dget_default raw ''interval_seconds'' (PInt 1800)"
    and "text_default (dget raw' ''model'') ''gpt-5.6-luna'' = text_default (dget raw ''model'') ''gpt-5.6-luna''"
    and "text_default (dget raw' ''reasoning_effort'') ''max'' = text_default (dget raw ''reasoning_effort'') ''max''"
    and "dget_default raw' ''notifications'' (PBool True) = dget_default raw ''notifications'' (PBool True)"
  shows "validate_start pl schema now raw' = validate_start pl schema now raw"
proof -
  have "default_threads raw' = default_threads raw"
    using assms(1) by (simp add: default_threads_def required_fields_def fun_eq_iff)
  moreover have "dget_default raw' ''threads'' x = dget_default raw ''threads'' x" for x
    using assms(1) by (simp add: dget_default_def)
  moreover have "filter (\<lambda>n. dget raw' n \<in> {PNone, PStr []}) required_fields =
      filter (\<lambda>n. dget raw n \<in> {PNone, PStr []}) required_fields"
    by (rule filter_cong) (use assms(1) in simp_all)
  moreover have "dget raw' ''request_id'' = dget raw ''request_id''" "dget raw' ''project'' = dget raw ''project''"
    "dget raw' ''prompt'' = dget raw ''prompt''" "dget raw' ''max_rounds'' = dget raw ''max_rounds''"
    "dget raw' ''target_thread_count'' = dget raw ''target_thread_count''"
    "dget raw' ''expires_at'' = dget raw ''expires_at''" "dget raw' ''title'' = dget raw ''title''"
    "dget raw' ''continue_prompt'' = dget raw ''continue_prompt''"
    using assms(1) by (simp_all add: required_fields_def)
  ultimately show ?thesis
    unfolding validate_start_def assms(2-) by (simp only:)
qed

text \<open>
  The defaults \<open>preflight_contract\<close> documents are those \<open>start\<close> applies: giving an optional
  field its documented default is the same as leaving it out. (The entry of \<open>continue_prompt\<close> is a
  description, not a value.)
\<close>

theorem preflight_defaults_agree:
  assumes "(k, v) \<in> set start_defaults" "k \<noteq> ''continue_prompt''" "map_of raw k = None"
  shows "validate_start pl schema now (raw @ [(k, v)]) = validate_start pl schema now raw"
proof (rule validate_start_cong)
  have none: "dget raw k = PNone" using assms(3) by (simp add: dget_def)
  have kv: "(k, v) = (''controller_skill'', PNone) \<or> (k, v) = (''business_skill'', PNone) \<or>
      (k, v) = (''max_turns'', PInt 999) \<or> (k, v) = (''turns_per_thread'', PNone) \<or>
      (k, v) = (''auto_continue'', PBool True) \<or> (k, v) = (''interval_seconds'', PInt 1800) \<or>
      (k, v) = (''model'', PStr ''gpt-5.6-luna'') \<or> (k, v) = (''reasoning_effort'', PStr ''max'') \<or>
      (k, v) = (''notifications'', PBool True)"
    using assms(1,2) by (auto simp: start_defaults_def)
  have strip: "py_strip ''gpt-5.6-luna'' = ''gpt-5.6-luna''" "py_strip ''max'' = ''max''"
    by code_simp+
  note read = dget_snoc [OF assms(3), of v] dget_default_def
  show "dget (raw @ [(k, v)]) x = dget raw x"
    if "x \<in> set (required_fields @ [''title'', ''continue_prompt'', ''threads''])" for x
    using that kv by (auto simp: read required_fields_def)
  show "stripped (dget (raw @ [(k, v)]) ''controller_skill'') = stripped (dget raw ''controller_skill'')"
    "stripped (dget (raw @ [(k, v)]) ''business_skill'') = stripped (dget raw ''business_skill'')"
    "dget (raw @ [(k, v)]) ''turns_per_thread'' = dget raw ''turns_per_thread''"
    using kv none by (auto simp: read)
  show "dget_default (raw @ [(k, v)]) ''max_turns'' (PInt 999) = dget_default raw ''max_turns'' (PInt 999)"
    "dget_default (raw @ [(k, v)]) ''auto_continue'' (PBool True) = dget_default raw ''auto_continue'' (PBool True)"
    "dget_default (raw @ [(k, v)]) ''interval_seconds'' (PInt 1800) = dget_default raw ''interval_seconds'' (PInt 1800)"
    "dget_default (raw @ [(k, v)]) ''notifications'' (PBool True) = dget_default raw ''notifications'' (PBool True)"
    using kv none by (auto simp: read)
  show "text_default (dget (raw @ [(k, v)]) ''model'') ''gpt-5.6-luna'' = text_default (dget raw ''model'') ''gpt-5.6-luna''"
    "text_default (dget (raw @ [(k, v)]) ''reasoning_effort'') ''max'' = text_default (dget raw ''reasoning_effort'') ''max''"
    using kv none by (auto simp: read text_default_self strip)
qed

definition demo_start :: "string \<Rightarrow> pdict" where
  "demo_start rid = [(''request_id'', PStr rid), (''project'', PStr ''p''), (''prompt'', PStr ''work''),
     (''target_thread_count'', PInt 2), (''max_rounds'', PInt 3), (''expires_at'', PStr (isoformat 1000000)),
     (''threads'', PList [PDict [(''slot'', PStr ''a''), (''title'', PStr ''t'')],
        PDict [(''slot'', PStr ''b''), (''title'', PStr ''t'')]])]"

lemma preflight_defaults_agree_witness:
  "validate_start pl schema now (demo_start rid @ [(''interval_seconds'', PInt 1800)]) = validate_start pl schema now (demo_start rid)"
  by (rule preflight_defaults_agree) (simp_all add: start_defaults_def demo_start_def)

section \<open>What a validated request guarantees\<close>

definition lane_ok :: "int \<Rightarrow> pdict \<Rightarrow> bool" where
  "lane_ok max_rounds l \<longleftrightarrow> (\<exists>ids sz contract. candidate_list (dget l ''candidate_ids'') = Some ids \<and>
     lane_batch_size l = Inr sz \<and> lane_rounds (length ids) sz \<le> max_rounds \<and>
     map_of l ''result_verification'' = Some (PDict contract) \<and> verification_ok ids (PDict contract) \<and>
     dhas l ''database_path'' \<and> dhas l ''output_boundary'')"

definition spec_ok :: "int \<Rightarrow> thread_spec \<Rightarrow> bool" where
  "spec_ok max_rounds c \<longleftrightarrow> sp_slot c \<noteq> [] \<and>
     (sp_acquire c = ''create'' \<and> (\<exists>t. sp_title c = Some t \<and> t \<noteq> []) \<or>
      sp_acquire c = ''resume'' \<and> (\<exists>t. sp_task_id c = Some t \<and> t \<noteq> [])) \<and>
     (case sp_lane c of None \<Rightarrow> True | Some l \<Rightarrow> lane_ok max_rounds l)"

lemma check_lane_ok:
  assumes "check_lane pl schema m v = Inr l"
  shows "lane_ok m l"
proof -
  obtain ids sz where 1: "candidate_list (dget (as_dict v) ''candidate_ids'') = Some ids"
    and 2: "lane_batch_size (as_dict v) = Inr sz" "lane_rounds (length ids) sz \<le> m"
    and 3: "verification_ok ids (dget (as_dict v) ''result_verification'')"
    and l: "l = [(''candidate_ids'', PList (map PInt ids)),
        (''database_path'', PStr (stripped (dget (as_dict v) ''database_path''))),
        (''output_boundary'', PStr (stripped (dget (as_dict v) ''output_boundary''))),
        (''result_verification'', PDict (as_dict (dget (as_dict v) ''result_verification'')))] @
        (if dhas (as_dict v) ''batch_size'' then [(''batch_size'', PInt sz)] else [])"
    using assms unfolding check_lane_def Let_def
    by (elim rbind_InrE) (simp split: option.splits; elim rbind_InrE exE; simp)
  show ?thesis
    unfolding lane_ok_def
  proof (intro exI conjI)
    show "candidate_list (dget l ''candidate_ids'') = Some ids"
      using candidate_list_Some [OF 1] by (simp add: l candidate_list_PInt)
    show "lane_batch_size l = Inr sz"
      using 2(1) by (auto simp: l lane_batch_size_Inr dhas_def dget_or_def split: option.splits)
    show "verification_ok ids (PDict (as_dict (dget (as_dict v) ''result_verification'')))"
      using 3 by (simp add: verification_ok_def Let_def)
  qed (simp_all add: l 2)
qed

lemma check_thread_ok:
  assumes "check_thread pl schema m tx slots v = Inr c"
  shows "spec_ok m c" "sp_slot c \<notin> set slots"
  using assms unfolding check_thread_def Let_def spec_ok_def
  by (elim rbind_InrE; auto dest: check_lane_ok split: if_splits simp: rbind_Inr_iff)+

lemma check_threads_ok:
  "check_threads pl schema m tx slots vs = Inr cs \<Longrightarrow>
     length cs = length vs \<and> list_all (spec_ok m) cs \<and> distinct (map sp_slot cs) \<and>
     set (map sp_slot cs) \<inter> set slots = {}"
proof (induction vs arbitrary: slots cs)
  case (Cons v vs)
  then obtain c cs' where c: "check_thread pl schema m tx slots v = Inr c"
    "check_threads pl schema m tx (sp_slot c # slots) vs = Inr cs'" "cs = c # cs'"
    by (auto elim!: rbind_InrE)
  show ?case using Cons.IH [OF c(2)] check_thread_ok [OF c(1)] c(3) by auto
qed simp

lemma check_overlap_disjoint:
  "check_overlap pl seen cs = Inr () \<Longrightarrow>
     (\<forall>i < length cs. seen \<inter> lane_keys pl (sp_lane (cs ! i)) = {}) \<and>
     (\<forall>j < length cs. \<forall>i < j. lane_keys pl (sp_lane (cs ! i)) \<inter> lane_keys pl (sp_lane (cs ! j)) = {})"
proof (induction pl seen cs rule: check_overlap.induct)
  case (2 pl seen c cs)
  then have now: "seen \<inter> lane_keys pl (sp_lane c) = {}"
    and later: "check_overlap pl (seen \<union> lane_keys pl (sp_lane c)) cs = Inr ()"
    by (auto simp: Let_def split: if_splits)
  note IH = "2.IH" [OF refl _ later]
  show ?case
  proof (intro conjI allI impI)
    fix i assume "i < length (c # cs)"
    then show "seen \<inter> lane_keys pl (sp_lane ((c # cs) ! i)) = {}"
      using now IH by (cases i) auto
  next
    fix j i assume "j < length (c # cs)" "i < j"
    then show "lane_keys pl (sp_lane ((c # cs) ! i)) \<inter> lane_keys pl (sp_lane ((c # cs) ! j)) = {}"
      using now IH by (cases i; cases j) fastforce+
  qed
qed simp

lemma demo_start_valid:
  assumes "rid \<noteq> []" "py_strip rid = rid"
  shows "\<exists>q. validate_start demo_paths (\<lambda>_. Inr ()) 0 (demo_start rid) = Inr q \<and> lq_request_id q = rid"
proof -
  have time: "loop_parse_time (PStr (isoformat 1000000)) = Inr 1000000"
    by (simp add: loop_parse_time_def parse_isoformat valid_instant_def)
  have strip: "py_strip ''a'' = ''a''" "py_strip ''b'' = ''b''" "py_strip ''t'' = ''t''" "py_strip ''work'' = ''work''"
    "py_strip ''create'' = ''create''"
    by code_simp+
  have free: "lane_prompt pl tx None body = Inr (worker_prompt body (lt_controller tx) (lt_business tx) False False False)" for pl tx body
    by (simp add: lane_prompt_def lane_batch_size_def final_answer_mode_def py_or_def)
  have "isoformat t \<noteq> []" for t
    by (simp add: isoformat_def Let_def pad4_def split: prod.splits)
  then have missing: "filter (\<lambda>n. dget (demo_start rid) n \<in> {PNone, PStr []}) required_fields = []"
    using assms by (simp add: required_fields_def demo_start_def)
  have threads: "check_threads pl schema m tx [] [PDict [(''slot'', PStr ''a''), (''title'', PStr ''t'')],
        PDict [(''slot'', PStr ''b''), (''title'', PStr ''t'')]] = Inr
      [\<lparr> sp_slot = ''a'', sp_acquire = ''create'', sp_lane = None,
         sp_prompt = worker_prompt (lt_task tx) (lt_controller tx) (lt_business tx) False False False, sp_continue = None,
         sp_title = Some ''t'', sp_task_id = None \<rparr>,
       \<lparr> sp_slot = ''b'', sp_acquire = ''create'', sp_lane = None,
         sp_prompt = worker_prompt (lt_task tx) (lt_controller tx) (lt_business tx) False False False, sp_continue = None,
         sp_title = Some ''t'', sp_task_id = None \<rparr>]" if "lt_continuation tx = None" for pl schema m tx
    using that by (simp add: check_thread_def free strip stripped_def text_or_empty_def py_or_def)
  show ?thesis
    unfolding validate_start_def missing using assms
    by (simp add: demo_start_def time strip threads positive_int_def turns_limit_def dget_default_def
        continuation_text_def Let_def lane_keys_def check_loop_notifications_def del: check_threads.simps)
qed

text \<open>
  C40: what \<open>start\<close> accepts is well formed: the threads are exactly as many as announced, their slots
  are distinct and not empty, each one can be created or resumed, every lane fits in the round limit
  with one receipt path per candidate, no candidate of a database belongs to two lanes, the limits
  are positive and the expiry lies in the future.
\<close>

theorem validated_request_wellformed:
  assumes "validate_start pl schema now raw = Inr q"
  shows "int (length (lq_threads q)) = lq_target_count q \<and> 1 \<le> lq_target_count q \<and>
    distinct (map sp_slot (lq_threads q)) \<and> list_all (spec_ok (lq_max_rounds q)) (lq_threads q) \<and>
    (\<forall>j < length (lq_threads q). \<forall>i < j.
       lane_keys pl (sp_lane (lq_threads q ! i)) \<inter> lane_keys pl (sp_lane (lq_threads q ! j)) = {}) \<and>
    1 \<le> lq_max_rounds q \<and> 1 \<le> lq_max_turns q \<and> 1 \<le> lq_interval q \<and>
    (\<exists>t. loop_parse_time (dget raw ''expires_at'') = Inr t \<and> now < t \<and> lq_expires_at q = isoformat t)"
proof -
  obtain n m mt iv t ts cs tx where
    n: "positive_int ''target_thread_count'' (dget raw ''target_thread_count'') = Inr n"
    and m: "positive_int ''max_rounds'' (dget raw ''max_rounds'') = Inr m"
    and mt: "positive_int ''max_turns'' (dget_default raw ''max_turns'' (PInt 999)) = Inr mt"
    and iv: "positive_int ''interval_seconds'' (dget_default raw ''interval_seconds'' (PInt 1800)) = Inr iv"
    and t: "loop_parse_time (dget raw ''expires_at'') = Inr t" "now < t"
    and ts: "int (length ts) = n"
    and cs: "check_threads pl schema m tx [] ts = Inr cs"
    and ov: "check_overlap pl {} cs = Inr ()"
    and q: "lq_threads q = cs" "lq_target_count q = n" "lq_max_rounds q = m" "lq_max_turns q = mt" "lq_interval q = iv"
      "lq_expires_at q = isoformat t"
    using assms unfolding validate_start_def Let_def
    by (elim rbind_InrE) (simp split: pyval.splits if_splits, rule that, assumption+, auto simp only: loop_request.simps)
  have pos: "1 \<le> i" if "positive_int s v = Inr i" for s v i
    using that by (auto simp: positive_int_def split: option.splits if_splits)
  show ?thesis
    using check_threads_ok [OF cs] check_overlap_disjoint [OF ov] ts t pos [OF n] pos [OF m] pos [OF mt] pos [OF iv]
    by (simp add: q)
qed

lemma validated_request_wellformed_witness:
  "\<exists>q. validate_start demo_paths (\<lambda>_. Inr ()) 0 (demo_start ''r1'') = Inr q \<and> distinct (map sp_slot (lq_threads q))"
proof -
  have "py_strip ''r1'' = ''r1''" by code_simp
  then obtain q where q: "validate_start demo_paths (\<lambda>_. Inr ()) 0 (demo_start ''r1'') = Inr q"
    using demo_start_valid [of "''r1''"] by auto
  with validated_request_wellformed [OF q] show ?thesis by blast
qed

section \<open>The rotation of a lane\<close>

text \<open>What is left of a lane after \<open>k\<close> full rounds.\<close>

lemma lane_rounds_drop:
  assumes "1 \<le> sz" "0 \<le> k" "k * sz < int n"
  shows "lane_rounds (n - nat (k * sz)) sz = lane_rounds n sz - k"
proof -
  have "int (n - nat (k * sz)) = int n - k * sz" using assms by (simp add: of_nat_diff)
  then have "int (n - nat (k * sz)) + sz - 1 = (int n + sz - 1) + (- k) * sz" by simp
  then show ?thesis unfolding lane_rounds_def using assms(1) by (simp only: div_mult_self1)
qed

lemma rounds_left:
  assumes "1 \<le> sz" "0 \<le> k" "k < lane_rounds n sz" "0 < n"
  shows "k * sz < int n"
proof -
  have "k * sz \<le> (lane_rounds n sz - 1) * sz" using assms by (intro mult_right_mono) auto
  then show ?thesis using lane_rounds_bounds(2) [OF assms(1,4)] by linarith
qed

lemma drop_take_slice:
  "1 \<le> sz \<Longrightarrow> 0 \<le> k \<Longrightarrow> 1 \<le> j \<Longrightarrow>
     take m (drop (nat ((j - 1) * sz)) (drop (nat (k * sz)) ids)) = take m (drop (nat ((k + j - 1) * sz)) ids)"
  for sz k j :: int
proof -
  assume "1 \<le> sz" "0 \<le> k" "1 \<le> j"
  then have "nat ((k + j - 1) * sz) = nat ((j - 1) * sz) + nat (k * sz)"
    by (simp add: nat_add_distrib [symmetric] algebra_simps)
  then show ?thesis by simp
qed

lemma verification_paths:
  assumes "verification_ok ids (PDict contract)" "i \<in> set ids"
  shows "\<exists>p. dindex (as_dict (dget contract ''receipt_paths'')) (py_str (PInt i)) = Inr p"
proof -
  have "id_key i \<in> fst ` set (as_dict (dget contract ''receipt_paths''))"
    using assms by (auto simp: verification_ok_def Let_def)
  then obtain p where "map_of (as_dict (dget contract ''receipt_paths'')) (id_key i) = Some p"
    by (metis map_of_eq_None_iff not_None_eq)
  then show ?thesis by (simp add: dindex_def py_str_def id_key_def)
qed

lemma binding_of_lane:
  assumes "lane_ok m l" "ch_lane c = Some l" "candidate_list (dget l ''candidate_ids'') = Some ids"
    "lane_batch_size l = Inr sz"
  shows "\<exists>b. holder_lane_binding c = Inr (Some b) \<and>
    dget b ''candidate_ids'' = PList (map PInt (drop (nat (ch_completed_rounds c * sz)) ids)) \<and>
    dget_or b ''batch_size'' (PInt 1) = dget_or l ''batch_size'' (PInt 1)"
proof -
  let ?rest = "drop (nat (ch_completed_rounds c * sz)) ids"
  obtain contract where v: "map_of l ''result_verification'' = Some (PDict contract)"
    and ok: "verification_ok ids (PDict contract)" and keys: "dhas l ''database_path''" "dhas l ''output_boundary''"
    using assms(1,3) by (auto simp: lane_ok_def)
  obtain d o' where paths: "dindex l ''database_path'' = Inr d" "dindex l ''output_boundary'' = Inr o'"
    using keys by (auto simp: dhas_def dindex_def)
  let ?f = "\<lambda>v. rbind (dindex (as_dict (dget contract ''receipt_paths'')) (py_str v)) (\<lambda>p. Inr (py_str v, p))"
  have "\<exists>g. \<forall>v \<in> set (map PInt ?rest). ?f v = Inr (g v)"
    using verification_paths [OF ok] in_set_dropD by (intro bchoice) (fastforce simp: rbind_Inr_iff)
  then obtain g where "rmap ?f (map PInt ?rest) = Inr (map g (map PInt ?rest))"
    using rmap_Inr [of "map PInt ?rest" ?f] by blast
  moreover have "dhas l ''result_verification''" "dget l ''result_verification'' = PDict contract"
    using v by (simp_all add: dhas_def dget_def)
  moreover have "dget l ''candidate_ids'' = PList (map PInt ids)"
    using candidate_list_Some(1) [OF assms(3)] .
  ultimately show ?thesis
    using assms(2,4) paths by (auto simp: holder_lane_binding_def Let_def drop_map dget_or_def dhas_def dget_def
        split: option.splits)
qed

text \<open>
  Rotating a lane to a new thread never repeats and never skips a slice. After \<open>k\<close> completed
  rounds the binding of the next holder exists, and its turn \<open>j\<close> has exactly the candidates of turn
  \<open>k + j\<close> of the whole lane; it has no turn beyond the last one of the lane.
\<close>

theorem lane_rotation_keeps_slices:
  assumes "lane_ok m l" "ch_lane c = Some l" "ch_completed_rounds c = k" "0 \<le> k"
    and "candidate_list (dget l ''candidate_ids'') = Some ids" "lane_batch_size l = Inr sz"
    and "k < lane_rounds (length ids) sz"
  shows "\<exists>b. holder_lane_binding c = Inr (Some b) \<and>
    (\<forall>j. 1 \<le> j \<longrightarrow> lane_batch_ids b j = lane_batch_ids l (k + j))"
proof -
  obtain b where b: "holder_lane_binding c = Inr (Some b)"
    "dget b ''candidate_ids'' = PList (map PInt (drop (nat (k * sz)) ids))"
    "dget_or b ''batch_size'' (PInt 1) = dget_or l ''batch_size'' (PInt 1)"
    using binding_of_lane [OF assms(1,2,5,6)] assms(3) by blast
  note ids = candidate_list_Some [OF assms(5)] and sz = lane_batch_size_pos [OF assms(6)]
  have left: "k * sz < int (length ids)" using rounds_left sz assms(4,7) ids(2) by simp
  then have ne: "drop (nat (k * sz)) ids \<noteq> []" using sz assms(4) by (simp add: nat_less_iff not_le)
  have cand: "candidate_list (dget b ''candidate_ids'') = Some (drop (nat (k * sz)) ids)"
    unfolding b(2) using ne ids(3,4) by (intro candidate_list_PInt) (auto dest: in_set_dropD)
  have size: "lane_batch_size b = Inr sz" using assms(6) b(3) by (simp add: lane_batch_size_Inr)
  have rounds: "lane_rounds (length (drop (nat (k * sz)) ids)) sz = lane_rounds (length ids) sz - k"
    using lane_rounds_drop [OF sz assms(4) left] by simp
  have "lane_batch_ids b j = lane_batch_ids l (k + j)" if "1 \<le> j" for j
    unfolding lane_batch_ids_def size assms(6) rbind_simps cand assms(5) option.case rounds
    using that assms(4) sz by (simp add: drop_take_slice [of sz k j, simplified])
  with b(1) show ?thesis by blast
qed

definition demo_bound_lane :: pdict where
  "demo_bound_lane = [(''candidate_ids'', PList [PInt 4, PInt 7, PInt 9]), (''database_path'', PStr ''d''),
     (''output_boundary'', PStr ''o''), (''result_verification'', PDict
        [(''receipt_paths'', PDict [(''4'', PStr ''a''), (''7'', PStr ''b''), (''9'', PStr ''c'')]),
         (''terminal_statuses'', PList [PStr ''done''])]), (''batch_size'', PInt 2)]"

lemma lane_rotation_keeps_slices_witness:
  "\<exists>b. holder_lane_binding ((demo_child ''a'' ''h'')\<lparr> ch_lane := Some demo_bound_lane, ch_completed_rounds := 1 \<rparr>) =
     Inr (Some b) \<and> lane_batch_ids b 1 = Inr [9]"
proof -
  have keys: "id_key 4 = ''4''" "id_key 7 = ''7''" "id_key 9 = ''9''" "py_strip ''a'' = ''a''" "py_strip ''b'' = ''b''"
    "py_strip ''c'' = ''c''" "terminal_word (PStr ''done'')"
    by code_simp+
  have cand: "candidate_list (dget demo_bound_lane ''candidate_ids'') = Some [4, 7, 9]"
    "lane_batch_size demo_bound_lane = Inr 2"
    by (simp_all add: demo_bound_lane_def lane_batch_size_def candidate_list_def)
  have ok: "lane_ok 2 demo_bound_lane"
    unfolding lane_ok_def
  proof (intro exI conjI)
    show "candidate_list (dget demo_bound_lane ''candidate_ids'') = Some [4, 7, 9]"
      "lane_batch_size demo_bound_lane = Inr 2" by (rule cand)+
    show "map_of demo_bound_lane ''result_verification'' = Some (PDict
        [(''receipt_paths'', PDict [(''4'', PStr ''a''), (''7'', PStr ''b''), (''9'', PStr ''c'')]),
         (''terminal_statuses'', PList [PStr ''done''])])"
      by (simp add: demo_bound_lane_def)
  qed (simp_all add: lane_rounds_def verification_ok_def nonblank_text_def keys demo_bound_lane_def)
  show ?thesis
    using lane_rotation_keeps_slices [OF ok, of "(demo_child ''a'' ''h'')\<lparr> ch_lane := Some demo_bound_lane, ch_completed_rounds := 1 \<rparr>" 1,
        OF _ _ _ cand]
    by (simp add: lane_rounds_def) (auto simp: lane_batch_ids_def cand lane_rounds_def)
qed

section \<open>The life of the reconciliation heartbeat\<close>

text \<open>
  The reconciliation heartbeat is given enough runs to reach the expiry of the loop, and at most
  two more than its interval needs.
\<close>

theorem reconcile_runs_cover_expiry:
  assumes "1 \<le> interval" "now < expires"
  shows "expires - now \<le> (reconcile_runs now expires interval - 1) * (interval * 1000000) \<and>
    (reconcile_runs now expires interval - 2) * (interval * 1000000) < expires - now"
proof -
  let ?i = "interval * 1000000" and ?r = "expires - now"
  let ?q = "- ((- ?r) div ?i)"
  have i: "0 < ?i" using assms by simp
  have 1: "?r \<le> ?q * ?i"
    using i div_mult_mod_eq [of "- ?r" ?i] pos_mod_sign [OF i, of "- ?r"] by linarith
  have 2: "(?q - 1) * ?i < ?r"
    using div_mult_mod_eq [of "- ?r" ?i] pos_mod_bound [OF i, of "- ?r"] by (simp add: algebra_simps)
  have "0 < ?q * ?i" using 1 assms by linarith
  then have "1 \<le> ?q" using zero_less_mult_pos2 [OF _ i] by fastforce
  then have r: "reconcile_runs now expires interval = ?q + 1"
    using assms by (simp add: reconcile_runs_def Let_def max_def)
  have "?q + 1 - 1 = ?q" "?q + 1 - 2 = ?q - 1" by simp_all
  then show ?thesis unfolding r using 1 2 by (simp only:)
qed

lemma reconcile_runs_cover_expiry_witness:
  "(5400000000 :: int) - 0 \<le> (reconcile_runs 0 5400000000 1800 - 1) * (1800 * 1000000)"
  using reconcile_runs_cover_expiry [of 1800 0 5400000000] by simp

end
