(* ===== verification/Loop_Controller.thy ===== *)
theory Loop_Controller
  imports Loop_Start
begin

text \<open>
  The controller of a loop, \<open>LoopController\<close> of \<open>packages/jarvis_control/loop.py\<close>: start, tick,
  status, reconcile, close and stop, and the helpers that acquire, observe, rotate, finish and
  cancel.

  The runtime (\<open>LoopRuntime\<close>: hold, monitor, heartbeat, and the optional \<open>stop_hold\<close> and
  \<open>close_hold\<close>) is a record of functions on the same world as the loop files: a call of the
  runtime can record an owner report, and other processes may work between two calls. The
  dictionaries a Python method mutates in place are passed and returned. Each operation reads the
  clock once (\<open>now\<close>); the lock around a save is the atomicity of \<open>loop_save\<close>.
\<close>

section \<open>The runtime\<close>

record hold_call =
  hc_request_id :: string
  hc_prompt :: string
  hc_source_ref :: string
  hc_task_id :: "string option"
  hc_project :: "string option"
  hc_title :: "string option"
  hc_hold_id :: "string option"
  hc_model :: "string option"
  hc_effort :: "string option"
  hc_max_turns :: pyval
  hc_auto_continue :: bool
  hc_continue :: string
  hc_notifications :: pyval
  hc_binding :: pyval

record 'w loop_runtime =
  rt_hold :: "hold_call \<Rightarrow> ('w loop_world, pdict) io"
  rt_monitor :: "string \<Rightarrow> string \<Rightarrow> string \<Rightarrow> ('w loop_world, pdict) io"
  rt_heartbeat_create :: "string \<Rightarrow> string \<Rightarrow> pdict \<Rightarrow> ('w loop_world, pdict) io"
  rt_heartbeat_cancel :: "string \<Rightarrow> string \<Rightarrow> string \<Rightarrow> ('w loop_world, pdict) io"
  rt_stop_hold :: "(string \<Rightarrow> ('w loop_world, pdict) io) option"
  rt_close_hold :: "(string \<Rightarrow> string \<Rightarrow> pdict \<Rightarrow> ('w loop_world, pdict) io) option"

definition slot_ref :: "loop_state \<Rightarrow> loop_child \<Rightarrow> string" where
  "slot_ref s c = ls_loop_id s @ '':'' @ ch_slot c"

definition loop_source_ref :: "loop_state \<Rightarrow> loop_child \<Rightarrow> string" where
  "loop_source_ref s c = ''jarvis_loop:'' @ slot_ref s c"

section \<open>Acquiring a hold\<close>

definition acquire_budget :: "loop_state \<Rightarrow> loop_child \<Rightarrow> int result" where
  "acquire_budget s c =
     (let offset = ch_completed_rounds c in
      rbind (if ch_holder_owns c then rbind (round_limit c (ls_max_rounds s)) (\<lambda>n. Inr (n - offset))
             else Inr (ls_max_turns s)) (\<lambda>budget.
      case ls_turns_per_thread s of
        None \<Rightarrow> Inr budget
      | Some per \<Rightarrow> rbind (round_limit c (ls_max_rounds s)) (\<lambda>n. Inr (min (min budget per) (n - offset)))))"

definition acquire_call :: "loop_state \<Rightarrow> loop_child \<Rightarrow> int \<Rightarrow> hold_call result" where
  "acquire_call s c budget =
     (let offset = ch_completed_rounds c;
          key = slot_ref s c @ (if offset \<noteq> 0 then '':after-'' @ int_str offset else []);
          resume = ch_acquire c = ''resume'' \<and> offset = 0;
          title = (case ch_title c of Some t \<Rightarrow> if t = [] then None else Some t | None \<Rightarrow> None);
          lane = (case ch_lane c of None \<Rightarrow> False | Some l \<Rightarrow> l \<noteq> []) in
      rbind (holder_lane_binding c) (\<lambda>binding. Inr
        \<lparr> hc_request_id = key @ '':acquire'', hc_prompt = ch_prompt c,
          hc_source_ref = (if ls_turns_per_thread s \<noteq> None then ''jarvis_loop_task:'' @ ls_loop_id s else loop_source_ref s c),
          hc_task_id = (if resume then ch_task_id c else None),
          hc_project = (if resume then None else Some (ls_project s)),
          hc_title = (if title \<noteq> None then title
            else if offset \<noteq> 0 then Some (''Jarvis loop '' @ ls_request_id s @ '' '' @ ch_slot c) else None),
          hc_hold_id = (if resume then None else Some key),
          hc_model = Some (ls_model s), hc_effort = Some (ls_effort s), hc_max_turns = PInt budget,
          hc_auto_continue = ch_holder_owns c,
          hc_continue = (case ch_continue c of Some t \<Rightarrow> t
            | None \<Rightarrow> if lane then ch_prompt c else ls_continue_prompt s),
          hc_notifications = PDict (ls_notifications s),
          hc_binding = (case binding of None \<Rightarrow> PNone | Some b \<Rightarrow> PDict b) \<rparr>))"

definition hold_identity :: "pdict \<Rightarrow> string option" where
  "hold_identity receipt = (case nested_text receipt ''data'' ''monitor_id'' of
      Some h \<Rightarrow> Some h | None \<Rightarrow> nested_text receipt ''data'' ''hold_id'')"

definition bind_receipt :: "pdict \<Rightarrow> loop_child \<Rightarrow> loop_child" where
  "bind_receipt receipt c =
     (let hold = hold_identity receipt;
          resume = ch_acquire c = ''resume'' \<and> ch_completed_rounds c = 0 in c\<lparr>
      ch_last_receipt := Some receipt, ch_hold_id := hold,
      ch_thread_id := py_or (dget receipt ''target_thread_id'') (if resume then opt_str (ch_task_id c) else PNone),
      ch_lifecycle := None,
      ch_phase := (if in_words (dget receipt ''status'') loop_active \<and> hold \<noteq> None then ''acquiring'' else ''blocked'') \<rparr>)"

definition loop_acquire :: "'w loop_runtime \<Rightarrow> loop_state \<Rightarrow> loop_child \<Rightarrow> ('w loop_world, loop_child) io" where
  "loop_acquire rt s c =
     io_bind (io_lift (acquire_budget s c)) (\<lambda>budget.
     io_bind (io_lift (acquire_call s c budget)) (\<lambda>call.
     io_bind (rt_hold rt call) (\<lambda>receipt.
     io_return (bind_receipt receipt (c\<lparr> ch_turn_limit := budget \<rparr>)))))"

section \<open>Finishing: one cleanup for every terminal path\<close>

definition loop_result_of :: "loop_state \<Rightarrow> loop_result" where
  "loop_result_of s = \<lparr> lr_status = ls_status s, lr_loop_id = Some (ls_loop_id s), lr_state = Some s,
     lr_business = (if list_ex (\<lambda>c. ch_business c \<in> {Some ''review'', Some ''unverified''} \<or> ch_phase c = ''blocked'')
         (ls_children s) then ''review'' else ''not_evaluated''),
     lr_reason = None \<rparr>"

definition loop_error :: "string \<Rightarrow> string option \<Rightarrow> string \<Rightarrow> loop_result" where
  "loop_error status loop_id reason = \<lparr> lr_status = status, lr_loop_id = loop_id, lr_state = None,
     lr_business = [], lr_reason = Some reason \<rparr>"

definition loop_cancel :: "'w loop_runtime \<Rightarrow> loop_state \<Rightarrow> ('w loop_world, pdict) io" where
  "loop_cancel rt s =
     (case (ls_heartbeat_id s, ls_heartbeat s) of
        (Some h, Some receipt) \<Rightarrow>
          if h = [] \<or> receipt = [] then io_return [(''status'', PStr ''not_required'')]
          else rt_heartbeat_cancel rt (ls_loop_id s @ '':stop'') (''jarvis_loop:'' @ ls_loop_id s) h
      | _ \<Rightarrow> io_return [(''status'', PStr ''not_required'')])"

definition cancel_words :: "string list" where
  "cancel_words = [''completed'', ''cancelled'', ''canceled'', ''not_required'']"

text \<open>The close of one child's owner: an exception is a receipt.\<close>

definition close_child :: "'w loop_runtime \<Rightarrow> loop_state \<Rightarrow> loop_close \<Rightarrow> loop_child \<Rightarrow> string \<Rightarrow> ('w loop_world, pdict) io" where
  "close_child rt s cl c hold =
     (case rt_close_hold rt of
        None \<Rightarrow> io_return [(''status'', PStr ''unsupported'')]
      | Some closer \<Rightarrow> io_catch
          (closer hold (slot_ref s c @ '':close'')
            [(''loop_id'', PStr (ls_loop_id s)), (''close_request_id'', PStr (cl_request_id cl))])
          (\<lambda>e. io_return [(''status'', PStr ''failed''), (''reason'', PStr (exc_text e))]))"

definition stop_child :: "'w loop_runtime \<Rightarrow> loop_child \<Rightarrow> string \<Rightarrow> ('w loop_world, loop_child) io" where
  "stop_child rt c hold =
     (if dget (receipt_of (ch_stop_receipt c)) ''status'' = PStr ''stop_requested'' then io_return c
      else io_bind (case rt_stop_hold rt of
            None \<Rightarrow> io_return [(''status'', PStr ''unsupported'')]
          | Some stopper \<Rightarrow> stopper hold) (\<lambda>receipt.
        io_return (c\<lparr> ch_stop_receipt := Some receipt \<rparr>)))"

definition cleanup_monitor :: "'w loop_runtime \<Rightarrow> loop_state \<Rightarrow> loop_child \<Rightarrow> string \<Rightarrow> ('w loop_world, loop_child) io" where
  "cleanup_monitor rt s c hold =
     io_bind (rt_monitor rt (slot_ref s c @ '':cleanup'') (loop_source_ref s c) hold) (\<lambda>receipt.
     io_return (c\<lparr> ch_last_receipt := Some receipt, ch_hold_released := release_confirmed receipt \<rparr>))"

text \<open>One child of a cleanup: the child, whether it is released, whether its management is closed.\<close>

definition finish_child :: "'w loop_runtime \<Rightarrow> loop_state \<Rightarrow> loop_child \<Rightarrow> ('w loop_world, loop_child \<times> bool \<times> bool) io" where
  "finish_child rt s c =
     (case child_holds c of
        None \<Rightarrow> (let idle = \<not> in_words (dget (receipt_of (ch_last_receipt c)) ''status'') loop_active in
          io_return (c, idle, idle))
      | Some hold \<Rightarrow> (case ls_close s of
          Some cl \<Rightarrow>
            io_bind (close_child rt s cl c hold) (\<lambda>receipt.
            let c1 = c\<lparr> ch_close_receipt := Some receipt \<rparr>;
                managed = in_words (dget receipt ''status'') [''closed'', ''closed_unconfirmed''] in
            if in_words (dget receipt ''status'') [''failed'', ''unsupported'']
            then io_return (c1\<lparr> ch_hold_released := False \<rparr>, False, managed)
            else io_bind (cleanup_monitor rt s c1 hold) (\<lambda>c2. io_return (c2, ch_hold_released c2, managed)))
        | None \<Rightarrow>
            io_bind (stop_child rt c hold) (\<lambda>c1.
            io_bind (cleanup_monitor rt s c1 hold) (\<lambda>c2. io_return (c2, ch_hold_released c2, True)))))"

definition failure_line :: "loop_child \<Rightarrow> string" where
  "failure_line c = (let receipt = receipt_of (ch_close_receipt c) in
     py_str (opt_str (ch_hold_id c)) @ '': '' @ py_str (py_or (dget receipt ''reason'') (dget receipt ''status'')))"

definition finish_failures :: "loop_child list \<Rightarrow> string list" where
  "finish_failures cs = map failure_line (filter (\<lambda>c.
     in_words (dget (receipt_of (ch_close_receipt c)) ''status'') [''failed'', ''unsupported'', ''invalid_request'']) cs)"

text \<open>The verdict of a cleanup, from what the children showed.\<close>

definition finish_verdict :: "bool \<Rightarrow> bool \<Rightarrow> loop_cleanup \<Rightarrow> loop_state \<Rightarrow> loop_state" where
  "finish_verdict released managed cu s =
     (let done_now = released \<and> cu_heartbeat_cancelled cu;
          s1 = (if done_now then s\<lparr> ls_cleanup := Some (cu\<lparr> cu_status := ''completed'' \<rparr>), ls_status := cu_target cu \<rparr>
                else s\<lparr> ls_cleanup := Some cu \<rparr>) in
      case ls_close s of
        None \<Rightarrow> s1
      | Some cl \<Rightarrow>
          (let local_closed = managed \<and> cu_heartbeat_cancelled cu;
               s2 = s1\<lparr> ls_close := Some ((update_close (finish_failures (ls_children s)) done_now local_closed cl)
                   \<lparr> cl_children := map (\<lambda>c. (ch_hold_id c, ch_close_receipt c)) (ls_children s) \<rparr>) \<rparr> in
           if local_closed \<and> \<not> done_now then s2\<lparr> ls_status := ''closed_unconfirmed'' \<rparr> else s2))"

definition latch_cleanup :: "string \<Rightarrow> loop_state \<Rightarrow> loop_state" where
  "latch_cleanup target s =
     (let cu = (case ls_cleanup s of
            None \<Rightarrow> \<lparr> cu_target = target, cu_status = ''pending'', cu_heartbeat_cancelled = False \<rparr>
          | Some cu \<Rightarrow> if cu_status cu = ''completed'' \<and> \<not> cleanup_evidence_confirmed s
              then cu\<lparr> cu_status := ''pending'' \<rparr> else cu) in
      s\<lparr> ls_cleanup := Some cu, ls_status := (if target = ''stopped'' then ''stopping'' else ''finalizing'') \<rparr>)"

definition cancel_once :: "'w loop_runtime \<Rightarrow> loop_state \<Rightarrow> loop_cleanup \<Rightarrow> ('w loop_world, loop_state \<times> loop_cleanup) io" where
  "cancel_once rt s cu =
     (if cu_heartbeat_cancelled cu then io_return (s, cu)
      else io_bind (loop_cancel rt s) (\<lambda>receipt.
        io_return (s\<lparr> ls_heartbeat := Some receipt \<rparr>,
          cu\<lparr> cu_heartbeat_cancelled := in_words (dget receipt ''status'') cancel_words \<rparr>)))"

definition loop_finish :: "'w loop_runtime \<Rightarrow> loop_state \<Rightarrow> string \<Rightarrow> ('w loop_world, loop_state) io" where
  "loop_finish rt s target =
     io_bind (loop_save (ls_loop_id s) (latch_cleanup target s)) (\<lambda>s1.
     case ls_cleanup s1 of
       None \<Rightarrow> io_raise (KeyError ''cleanup'')
     | Some cu0 \<Rightarrow>
         if cu_status cu0 = ''completed'' then io_return s1
         else
           io_bind (cancel_once rt s1 cu0) (\<lambda>(s2, cu).
           io_bind (io_map (finish_child rt s2) (ls_children s2)) (\<lambda>rs.
           io_return (finish_verdict (list_all (\<lambda>(c, released, managed). released) rs)
             (list_all (\<lambda>(c, released, managed). managed) rs) cu (s2\<lparr> ls_children := map fst rs \<rparr>)))))"

section \<open>Observing\<close>

definition settled :: "loop_child \<Rightarrow> bool" where
  "settled c \<longleftrightarrow> ch_phase c \<in> {''completed'', ''blocked''}"

definition receipt_lifecycle :: "pdict \<Rightarrow> string" where
  "receipt_lifecycle receipt = text_or_empty (data_lifecycle (receipt_data receipt))"

definition receipt_thread :: "pdict \<Rightarrow> loop_child \<Rightarrow> pyval" where
  "receipt_thread receipt c =
     py_or (dget receipt ''target_thread_id'') (py_or (dget (receipt_data receipt) ''thread_id'') (ch_thread_id c))"

text \<open>\<open>max(int(child["round"] or 0), turns)\<close>, unchanged when the receipt has no usable count.\<close>

definition bump_round :: "int result \<Rightarrow> loop_child \<Rightarrow> loop_child" where
  "bump_round turns c = (case turns of Inl e \<Rightarrow> c | Inr n \<Rightarrow> c\<lparr> ch_round := max (ch_round c) n \<rparr>)"

definition observe_receipt :: "loop_state \<Rightarrow> pdict \<Rightarrow> loop_child \<Rightarrow> loop_child" where
  "observe_receipt s receipt c =
     (let c1 = c\<lparr> ch_last_receipt := Some receipt \<rparr> in
      if dget receipt ''status'' \<noteq> PStr ''completed'' then c1
      else
        let lifecycle = receipt_lifecycle receipt;
            c2 = c1\<lparr> ch_lifecycle := Some lifecycle, ch_thread_id := receipt_thread receipt c \<rparr> in
        if lifecycle \<in> set loop_active
        then c2\<lparr> ch_phase := ''running'', ch_round := (if ch_round c = 0 then 1 else ch_round c) \<rparr>
        else if lifecycle \<in> set loop_terminal
        then (if ch_holder_owns c then bump_round (completed_turns c (receipt_data receipt) s) c2 else c2)
               \<lparr> ch_phase := ''terminal'' \<rparr>
        else c2)"

definition observe_child :: "'w loop_runtime \<Rightarrow> loop_state \<Rightarrow> loop_child \<Rightarrow> ('w loop_world, loop_child) io" where
  "observe_child rt s c =
     (if settled c then io_return c
      else case child_holds c of
          None \<Rightarrow> io_return c
        | Some hold \<Rightarrow>
            io_bind (rt_monitor rt (slot_ref s c @ '':monitor'') (loop_source_ref s c) hold) (\<lambda>receipt.
            io_return (observe_receipt s receipt c)))"

definition loop_observe :: "'w loop_runtime \<Rightarrow> loop_state \<Rightarrow> ('w loop_world, loop_state) io" where
  "loop_observe rt s =
     io_bind (io_map (observe_child rt s) (ls_children s)) (\<lambda>cs. io_return (s\<lparr> ls_children := cs \<rparr>))"

definition loop_refresh :: "loop_state \<Rightarrow> loop_state" where
  "loop_refresh s =
     (if ls_status s = ''blocked'' then s
      else s\<lparr> ls_status :=
        (if list_ex (\<lambda>c. ch_phase c = ''terminal'') (ls_children s) then ''resume_pending''
         else if list_ex (\<lambda>c. ch_phase c = ''acquiring'') (ls_children s) then ''acquiring''
         else ''running'') \<rparr>)"

section \<open>The evidence of a lane's terminal\<close>

definition py_nth :: "int list \<Rightarrow> int \<Rightarrow> int result" where
  "py_nth xs i = (if 0 \<le> i \<and> i < int (length xs) then Inr (xs ! nat i)
     else if i < 0 \<and> - int (length xs) \<le> i then Inr (xs ! nat (int (length xs) + i))
     else Inl (IndexError ''list index out of range''))"

definition lane_ids :: "pdict \<Rightarrow> int list" where
  "lane_ids lane = (case candidate_list (dget lane ''candidate_ids'') of None \<Rightarrow> [] | Some ids \<Rightarrow> ids)"

definition identity_matches :: "pdict \<Rightarrow> pdict \<Rightarrow> int \<Rightarrow> int \<Rightarrow> bool result" where
  "identity_matches lane verification sz rounds =
     (if sz = 1 then rbind (py_nth (lane_ids lane) (rounds - 1)) (\<lambda>i.
        Inr (py_eq (dget verification ''candidate_id'') (PInt i)))
      else rbind (lane_batch_ids lane rounds) (\<lambda>ids.
        Inr (py_eq (dget verification ''candidate_ids'') (PList (map PInt ids)))))"

definition terminal_business :: "pdict \<Rightarrow> pdict \<Rightarrow> loop_child \<Rightarrow> string" where
  "terminal_business verification data c =
     (if dget verification ''status'' = PStr ''review'' \<or> truthy (dget data ''scheduler_failed_items'')
         \<or> ch_business c = Some ''review'' then ''review'' else ''mechanically_verified'')"

text \<open>The verdict when the identity, the status and the turn count match (\<open>ok\<close>), or do not.\<close>

definition bound_verdict :: "path_lib \<Rightarrow> pdict \<Rightarrow> pdict \<Rightarrow> bool \<Rightarrow> loop_child \<Rightarrow> loop_child result" where
  "bound_verdict pl lane data ok c =
     (let verification = as_dict (dget data ''output_verification'') in
      if \<not> ok then Inr (c\<lparr> ch_business := Some ''unverified'', ch_phase := ''blocked'' \<rparr>)
      else rbind (final_answer_mode pl lane) (\<lambda>final.
        if \<not> final then Inr (c\<lparr> ch_business := Some (terminal_business verification data c) \<rparr>)
        else if dget verification ''terminal_status'' \<noteq> PStr ''received'' \<or> dget verification ''review_needed'' \<noteq> PBool True
           \<or> dget verification ''verification_status'' \<noteq> PStr ''not_verified''
        then Inr (c\<lparr> ch_business := Some ''unverified'', ch_phase := ''blocked'' \<rparr>)
        else Inr (c\<lparr> ch_intake := Some ''received'', ch_business := Some ''review_needed'' \<rparr>)))"

definition check_bound_terminal ::
    "path_lib \<Rightarrow> pdict \<Rightarrow> pdict \<Rightarrow> int option \<Rightarrow> loop_child \<Rightarrow> loop_child result"
where
  "check_bound_terminal pl lane data rounds c =
     (if \<not> dhas lane ''result_verification'' then Inr (c\<lparr> ch_business := Some ''legacy_unverified'' \<rparr>)
      else
        let verification = as_dict (dget data ''output_verification'') in
        rbind (lane_batch_size lane) (\<lambda>sz.
        let total_rounds = lane_rounds (length (lane_ids lane)) sz;
            n = (case rounds of None \<Rightarrow> total_rounds | Some r \<Rightarrow> if r = 0 then total_rounds else r) in
        rbind (identity_matches lane verification sz n) (\<lambda>same.
        bound_verdict pl lane data (in_words (dget verification ''status'') [''verified'', ''review''] \<and> same
          \<and> py_eq (dget data ''total_turn_count'') (PInt n)) c)))"

definition check_lane_terminal :: "path_lib \<Rightarrow> pdict \<Rightarrow> int option \<Rightarrow> loop_child \<Rightarrow> loop_child result" where
  "check_lane_terminal pl data rounds c = (case ch_lane c of
      None \<Rightarrow> Inr c
    | Some lane \<Rightarrow> if lane = [] then Inr c else check_bound_terminal pl lane data rounds c)"

section \<open>Terminals of the holders, and the rotation to a new thread\<close>

datatype terminal_step = Skip loop_child | Settle loop_child | Rotate loop_child

definition terminal_phase :: "string \<Rightarrow> string" where
  "terminal_phase lifecycle = (if lifecycle \<in> {''completed'', ''turn_limit_reached''} then ''completed'' else ''blocked'')"

text \<open>What one terminal receipt of a thread with a turn limit asks for.\<close>

definition rotation_step :: "path_lib \<Rightarrow> loop_state \<Rightarrow> pdict \<Rightarrow> int result \<Rightarrow> loop_child \<Rightarrow> terminal_step result" where
  "rotation_step pl s data turns c =
     (if dget data ''hold_released'' \<noteq> PBool True \<or> dget data ''terminal_confirmed'' \<noteq> PBool True
      then Inr (Skip (c\<lparr> ch_phase := ''terminal'' \<rparr>))
      else
        rbind (if turns \<noteq> Inr (ch_completed_rounds c + ch_turn_limit c) then Inr (c\<lparr> ch_phase := ''blocked'' \<rparr>)
               else check_lane_terminal pl (dset data ''total_turn_count'' (PInt (ch_round c))) (Some (ch_round c)) c) (\<lambda>c1.
        if ch_phase c1 \<noteq> ''completed'' then Inr (Settle c1)
        else rbind (round_limit c1 (ls_max_rounds s)) (\<lambda>limit.
          Inr (if ch_round c1 < limit then Rotate c1 else Settle c1))))"

definition terminal_receipt :: "path_lib \<Rightarrow> loop_state \<Rightarrow> pdict \<Rightarrow> loop_child \<Rightarrow> terminal_step result" where
  "terminal_receipt pl s receipt c =
     (let data = receipt_data receipt; lifecycle = receipt_lifecycle receipt in
      if dget receipt ''status'' \<noteq> PStr ''completed'' \<or> lifecycle \<notin> set loop_terminal then Inr (Skip c)
      else
        let turns = completed_turns c data s;
            c1 = (bump_round turns (c\<lparr> ch_last_receipt := Some receipt, ch_lifecycle := Some lifecycle,
                    ch_thread_id := receipt_thread receipt c \<rparr>))\<lparr> ch_phase := terminal_phase lifecycle \<rparr> in
        if ls_turns_per_thread s \<noteq> None \<and> ch_phase c1 = ''completed'' then rotation_step pl s data turns c1
        else rbind (check_lane_terminal pl data None c1) (\<lambda>c2. Inr (Settle c2)))"

definition terminal_child :: "path_lib \<Rightarrow> 'w loop_runtime \<Rightarrow> loop_state \<Rightarrow> loop_child \<Rightarrow> ('w loop_world, terminal_step) io" where
  "terminal_child pl rt s c =
     (if \<not> ch_holder_owns c \<or> settled c then io_return (Skip c)
      else case child_holds c of
          None \<Rightarrow> io_return (Skip c)
        | Some hold \<Rightarrow>
            io_bind (rt_monitor rt (slot_ref s c @ '':terminal-monitor'') (loop_source_ref s c) hold) (\<lambda>receipt.
            io_lift (terminal_receipt pl s receipt c)))"

text \<open>
  The rotation of one child, under the lock of the state file: the last check of the intents on
  disk, the new hold, the binding. \<open>None\<close>: an intent is recorded, the caller goes on with the
  saved state.
\<close>

definition rotate_child ::
    "'w loop_runtime \<Rightarrow> loop_state \<Rightarrow> loop_child list \<Rightarrow> loop_child \<Rightarrow> loop_child list \<Rightarrow>
     ('w loop_world, loop_state \<times> loop_child option) io"
where
  "rotate_child rt s before c after =
     io_bind (loop_load (ls_loop_id s)) (\<lambda>latest.
     if ls_close latest \<noteq> None \<or> ls_cleanup latest \<noteq> None then io_return (latest, None)
     else
       io_bind (loop_acquire rt s (c\<lparr> ch_completed_rounds := ch_round c \<rparr>)) (\<lambda>c1.
       io_then (write_locked (ls_loop_id s) (s\<lparr> ls_children := before @ c1 # after \<rparr>))
         (io_return (s, Some c1))))"

text \<open>The loop over the children: \<open>None\<close> when a rotation met a recorded intent.\<close>

fun terminal_children ::
    "path_lib \<Rightarrow> 'w loop_runtime \<Rightarrow> loop_state \<Rightarrow> bool \<Rightarrow> loop_child list \<Rightarrow> loop_child list \<Rightarrow>
     ('w loop_world, loop_state \<times> bool option) io"
where
  "terminal_children pl rt s changed before [] = io_return (s\<lparr> ls_children := before \<rparr>, Some changed)"
| "terminal_children pl rt s changed before (c # after) =
     io_bind (terminal_child pl rt s c) (\<lambda>step. case step of
       Skip c1 \<Rightarrow> terminal_children pl rt s changed (before @ [c1]) after
     | Settle c1 \<Rightarrow> terminal_children pl rt s True (before @ [c1]) after
     | Rotate c1 \<Rightarrow>
         io_bind (rotate_child rt s before c1 after) (\<lambda>(s1, bound). case bound of
           None \<Rightarrow> io_return (s1, None)
         | Some c2 \<Rightarrow> terminal_children pl rt s1 True (before @ [c2]) after))"

definition settle_loop :: "'w loop_runtime \<Rightarrow> loop_state \<Rightarrow> ('w loop_world, loop_state) io" where
  "settle_loop rt s =
     (if list_all settled (ls_children s)
      then loop_finish rt s (if list_ex (\<lambda>c. ch_phase c = ''blocked'') (ls_children s) then ''blocked'' else ''completed'')
      else io_return (loop_refresh s))"

definition reconcile_holder_terminals :: "path_lib \<Rightarrow> 'w loop_runtime \<Rightarrow> loop_state \<Rightarrow> ('w loop_world, loop_state) io" where
  "reconcile_holder_terminals pl rt s =
     io_bind (terminal_children pl rt s False [] (ls_children s)) (\<lambda>(s1, changed).
     if changed = Some True then settle_loop rt s1 else io_return s1)"

definition finalize_child :: "path_lib \<Rightarrow> loop_child \<Rightarrow> loop_child result" where
  "finalize_child pl c =
     (if ch_phase c \<noteq> ''terminal'' then Inr c
      else check_lane_terminal pl (receipt_data (receipt_of (ch_last_receipt c))) None
        (c\<lparr> ch_phase := (case ch_lifecycle c of None \<Rightarrow> ''blocked'' | Some l \<Rightarrow> terminal_phase l) \<rparr>))"

definition finalize_observed_terminals :: "path_lib \<Rightarrow> 'w loop_runtime \<Rightarrow> loop_state \<Rightarrow> ('w loop_world, loop_state) io" where
  "finalize_observed_terminals pl rt s =
     io_bind (io_lift (rmap (finalize_child pl) (ls_children s))) (\<lambda>cs.
     settle_loop rt (s\<lparr> ls_children := cs \<rparr>))"

section \<open>The operations\<close>

definition finish_and_save :: "'w loop_runtime \<Rightarrow> string \<Rightarrow> loop_state \<Rightarrow> string \<Rightarrow> ('w loop_world, loop_state) io" where
  "finish_and_save rt loop_id s target = io_bind (loop_finish rt s target) (loop_save loop_id)"

text \<open>One tick of a loaded loop.\<close>

definition tick_loop :: "path_lib \<Rightarrow> instant \<Rightarrow> 'w loop_runtime \<Rightarrow> string \<Rightarrow> loop_state \<Rightarrow> ('w loop_world, loop_state) io" where
  "tick_loop pl now rt loop_id s =
     (case (ls_close s, ls_cleanup s) of
        (Some cl, None) \<Rightarrow> finish_and_save rt loop_id s ''stopped''
      | (cl, cu) \<Rightarrow>
          if (case cu of None \<Rightarrow> False | Some c \<Rightarrow> cu_status c = ''pending'' \<or>
                cu_status c = ''completed'' \<and> \<not> cleanup_evidence_confirmed s)
          then finish_and_save rt loop_id s (case cu of None \<Rightarrow> [] | Some c \<Rightarrow> cu_target c)
          else if ls_status s \<in> {''blocked'', ''completed'', ''stopped'', ''expired''} then io_return s
          else
            io_bind (io_lift (loop_expired now (ls_expires_at s))) (\<lambda>late.
            if late then finish_and_save rt loop_id s ''expired''
            else
              io_bind (loop_observe rt s) (\<lambda>s1.
              io_bind (if ls_auto_continue s1 then reconcile_holder_terminals pl rt s1
                       else finalize_observed_terminals pl rt s1) (loop_save loop_id))))"

definition loop_status_of :: "path_lib \<Rightarrow> instant \<Rightarrow> 'w loop_runtime \<Rightarrow> string \<Rightarrow> ('w loop_world, loop_result) io" where
  "loop_status_of pl now rt loop_id =
     io_try (loop_load loop_id)
       (\<lambda>e. io_return (loop_error ''invalid_request'' (Some loop_id) (exc_text e)))
       (\<lambda>s. if ls_status s = ''closed_unconfirmed'' then io_return (loop_result_of s)
            else io_bind (tick_loop pl now rt loop_id s) (\<lambda>s1. io_return (loop_result_of s1)))"

definition loop_reconcile :: "path_lib \<Rightarrow> instant \<Rightarrow> 'w loop_runtime \<Rightarrow> ('w loop_world, (string \<times> string) list) io" where
  "loop_reconcile pl now rt =
     io_bind (io_get active_loop_ids) (\<lambda>ids.
     io_map (\<lambda>i. io_bind (loop_status_of pl now rt i) (\<lambda>r. io_return (i, lr_status r))) ids)"

definition stop_target :: "loop_state \<Rightarrow> string" where
  "stop_target s = (case ls_cleanup s of None \<Rightarrow> ''stopped'' | Some cu \<Rightarrow> cu_target cu)"

definition cleanup_confirmed :: "loop_state \<Rightarrow> bool" where
  "cleanup_confirmed s \<longleftrightarrow> (case ls_cleanup s of None \<Rightarrow> False | Some cu \<Rightarrow> cu_status cu = ''completed'')
     \<and> cleanup_evidence_confirmed s"

definition loop_stop :: "'w loop_runtime \<Rightarrow> string \<Rightarrow> ('w loop_world, loop_result) io" where
  "loop_stop rt loop_id =
     io_try (loop_load loop_id)
       (\<lambda>e. io_return (loop_error ''invalid_request'' (Some loop_id) (exc_text e)))
       (\<lambda>s. if cleanup_confirmed s then io_return (loop_result_of s)
            else io_bind (finish_and_save rt loop_id s (stop_target s)) (\<lambda>s1. io_return (loop_result_of s1)))"

definition new_close :: "instant \<Rightarrow> string \<Rightarrow> string option \<Rightarrow> loop_close" where
  "new_close now loop_id request_id = \<lparr>
     cl_request_id = (case request_id of Some r \<Rightarrow> if r = [] then ''close:'' @ loop_id else r | None \<Rightarrow> ''close:'' @ loop_id),
     cl_requested_at = isoformat now, cl_report_status = ''pending'', cl_reason = None, cl_scheduling_closed = False,
     cl_execution_state = None, cl_terminal_confirmed = False, cl_management_closed = False, cl_unresolved = False,
     cl_child_reports = [], cl_children = [] \<rparr>"

definition record_close_intent :: "instant \<Rightarrow> string \<Rightarrow> string option \<Rightarrow> loop_state \<Rightarrow> ('w loop_world, loop_state) io" where
  "record_close_intent now loop_id request_id s =
     (case ls_close s of
        None \<Rightarrow> loop_save loop_id (s\<lparr> ls_close := Some (new_close now loop_id request_id) \<rparr>)
      | Some cl \<Rightarrow> if cl_report_status cl \<in> {''completed'', ''unresolved''} then io_return s else loop_save loop_id s)"

definition confirmed_close :: "loop_close \<Rightarrow> loop_close" where
  "confirmed_close cl = cl\<lparr> cl_report_status := ''completed'', cl_scheduling_closed := True,
     cl_execution_state := Some ''terminal'', cl_terminal_confirmed := True, cl_management_closed := True,
     cl_unresolved := False \<rparr>"

definition close_loaded :: "instant \<Rightarrow> 'w loop_runtime \<Rightarrow> string \<Rightarrow> string option \<Rightarrow> ('w loop_world, loop_result) io" where
  "close_loaded now rt loop_id request_id =
     io_bind (loop_load loop_id) (\<lambda>s.
     io_bind (record_close_intent now loop_id request_id s) (\<lambda>s1.
     if ls_status s1 = ''closed_unconfirmed'' then io_return (loop_result_of s1)
     else if cleanup_confirmed s1
     then (case ls_close s1 of
         None \<Rightarrow> io_raise (KeyError ''close'')
       | Some cl \<Rightarrow> io_bind (loop_save loop_id (s1\<lparr> ls_close := Some (confirmed_close cl) \<rparr>))
           (\<lambda>s2. io_return (loop_result_of s2)))
     else loop_stop rt loop_id))"

definition loop_close_of :: "instant \<Rightarrow> 'w loop_runtime \<Rightarrow> string \<Rightarrow> string option \<Rightarrow> ('w loop_world, loop_result) io" where
  "loop_close_of now rt loop_id request_id =
     io_catch (close_loaded now rt loop_id request_id) (\<lambda>e.
       if is_close_error e then io_return (loop_error ''failed'' (Some loop_id) (exc_text e)) else io_raise e)"

section \<open>Starting\<close>

definition new_child :: "bool \<Rightarrow> thread_spec \<Rightarrow> loop_child" where
  "new_child auto sp = \<lparr> ch_slot = sp_slot sp, ch_acquire = sp_acquire sp, ch_lane = sp_lane sp, ch_prompt = sp_prompt sp,
     ch_continue = sp_continue sp, ch_title = sp_title sp, ch_task_id = sp_task_id sp,
     ch_thread_id = opt_str (sp_task_id sp), ch_hold_id = None, ch_round = 0, ch_phase = ''acquiring'',
     ch_lifecycle = None, ch_last_receipt = None, ch_holder_owns = auto, ch_turn_limit = 0, ch_completed_rounds = 0,
     ch_stop_receipt = None, ch_close_receipt = None, ch_hold_released = False, ch_business = None, ch_intake = None \<rparr>"

definition new_loop :: "loop_request \<Rightarrow> loop_state" where
  "new_loop q = \<lparr> ls_loop_id = ''loop-'' @ lq_request_id q, ls_request_id = lq_request_id q, ls_project = lq_project q,
     ls_max_rounds = lq_max_rounds q, ls_max_turns = lq_max_turns q, ls_auto_continue = lq_auto_continue q,
     ls_continue_prompt = lq_continue_prompt q, ls_turns_per_thread = lq_turns_per_thread q,
     ls_controller_skill = lq_controller_skill q, ls_business_skill = lq_business_skill q, ls_model = lq_model q,
     ls_effort = lq_effort q, ls_notifications = lq_notifications q, ls_interval = lq_interval q,
     ls_expires_at = lq_expires_at q, ls_target_count = lq_target_count q, ls_status = ''acquiring'', ls_reason = None,
     ls_heartbeat_id = None, ls_heartbeat = None, ls_children = [], ls_cleanup = None, ls_close = None \<rparr>"

definition heartbeat_words :: "string list" where
  "heartbeat_words = [''active'', ''accepted'', ''completed'']"

definition bind_heartbeat :: "string \<Rightarrow> pdict \<Rightarrow> loop_state \<Rightarrow> loop_state" where
  "bind_heartbeat heartbeat_id receipt s =
     (let s1 = s\<lparr> ls_heartbeat_id := Some heartbeat_id, ls_heartbeat := Some receipt \<rparr> in
      if py_lower (text_or_empty (dget receipt ''status'')) \<in> set heartbeat_words then s1
      else s1\<lparr> ls_status := ''blocked'', ls_reason := Some (py_str (py_or (dget receipt ''reason'')
        (PStr ''loop reconciliation heartbeat was not accepted''))) \<rparr>)"

definition start_heartbeat :: "instant \<Rightarrow> 'w loop_runtime \<Rightarrow> loop_state \<Rightarrow> ('w loop_world, loop_state) io" where
  "start_heartbeat now rt s =
     (if ls_status s = ''blocked'' then io_return s
      else
        let heartbeat_id = ls_loop_id s @ '':reconcile'' in
        io_bind (io_lift (reconcile_heartbeat_options now (ls_loop_id s) (ls_request_id s) heartbeat_id
          (ls_interval s) (ls_expires_at s))) (\<lambda>options.
        io_bind (rt_heartbeat_create rt (ls_loop_id s @ '':reconcile-heartbeat'')
          (''jarvis_loop:'' @ ls_loop_id s @ '':reconcile-heartbeat'') options) (\<lambda>receipt.
        io_return (bind_heartbeat heartbeat_id receipt s))))"

definition start_fresh :: "instant \<Rightarrow> 'w loop_runtime \<Rightarrow> loop_request \<Rightarrow> ('w loop_world, loop_result) io" where
  "start_fresh now rt q =
     (let s = new_loop q in
      io_bind (io_map (\<lambda>sp. loop_acquire rt s (new_child (lq_auto_continue q) sp)) (lq_threads q)) (\<lambda>cs.
      let s1 = s\<lparr> ls_children := cs \<rparr>;
          s2 = (if list_all (\<lambda>c. ch_phase c = ''blocked'') cs then s1\<lparr> ls_status := ''blocked'' \<rparr> else s1) in
      io_bind (start_heartbeat now rt s2) (\<lambda>s3.
      io_bind (if ls_status s3 \<noteq> ''blocked''
               then io_bind (loop_observe rt s3) (\<lambda>s4. io_return (loop_refresh s4))
               else loop_finish rt s3 ''blocked'') (\<lambda>s5.
      io_then (loop_create (ls_loop_id s) s5)
        (io_bind (loop_save (ls_loop_id s) s5) (\<lambda>s6. io_return (loop_result_of s6)))))))"

definition loop_start ::
    "path_lib \<Rightarrow> schema_check \<Rightarrow> instant \<Rightarrow> 'w loop_runtime \<Rightarrow> pdict \<Rightarrow> ('w loop_world, loop_result) io"
where
  "loop_start pl schema now rt raw =
     (case validate_start pl schema now raw of
        Inl e \<Rightarrow> if is_value_error e then io_return (loop_error ''invalid_request'' None (exc_text e)) else io_raise e
      | Inr q \<Rightarrow>
          (let loop_id = ''loop-'' @ lq_request_id q in
           io_bind (io_get (loop_exists loop_id)) (\<lambda>known.
           if known then io_bind (loop_load loop_id) (\<lambda>s. io_return (loop_result_of s))
           else start_fresh now rt q)))"

end
