(* ===== verification/Loop_Safety.thy ===== *)
theory Loop_Safety
  imports Loop_Controller
begin

text \<open>
  What the controller of a loop guarantees: an intent on disk survives every operation; an operation
  on a loop with an intent dispatches no hold; a cleanup completes only with release evidence, and
  does complete once the runtime gives it; a rotation respects the limits of the lane; a repeated
  start is idempotent. And two places where it does not do what it means to: a close that races
  with a finishing tick, and request identifiers that share a state file.
\<close>

section \<open>Intents survive every operation of the controller\<close>

definition has_intent :: "loop_state \<Rightarrow> bool" where
  "has_intent s \<longleftrightarrow> ls_close s \<noteq> None \<or> ls_cleanup s \<noteq> None"

text \<open>
  What the controller relies on: a hold call does not touch the loop files (it runs under the lock
  of the state file), the other calls keep \<open>P\<close>: they change the files only through the store.
\<close>

definition runtime_keeps :: "('w loop_world \<Rightarrow> bool) \<Rightarrow> 'w loop_runtime \<Rightarrow> bool" where
  "runtime_keeps P rt \<longleftrightarrow>
     (\<forall>c w. lw_files (snd (rt_hold rt c w)) = lw_files w) \<and>
     (\<forall>i r h. io_keeps P (rt_monitor rt i r h)) \<and>
     (\<forall>i r d. io_keeps P (rt_heartbeat_create rt i r d)) \<and>
     (\<forall>i r h. io_keeps P (rt_heartbeat_cancel rt i r h)) \<and>
     (\<forall>f h. rt_stop_hold rt = Some f \<longrightarrow> io_keeps P (f h)) \<and>
     (\<forall>f h r d. rt_close_hold rt = Some f \<longrightarrow> io_keeps P (f h r d))"

lemma runtime_keepsD:
  assumes "runtime_keeps P rt"
  shows "lw_files (snd (rt_hold rt c w)) = lw_files w"
    and "io_keeps P (rt_monitor rt i r h)" "io_keeps P (rt_heartbeat_create rt i r d)"
    and "io_keeps P (rt_heartbeat_cancel rt i r h)"
    and "rt_stop_hold rt = Some f \<Longrightarrow> io_keeps P (f h)"
    and "rt_close_hold rt = Some g \<Longrightarrow> io_keeps P (g h r d)"
  using assms unfolding runtime_keeps_def by blast+

definition guards :: "(loop_state \<Rightarrow> bool) \<Rightarrow> string \<Rightarrow> 'w loop_runtime \<Rightarrow> bool" where
  "guards Q p rt \<longleftrightarrow> file_keeps Q \<and> (\<forall>s. Q s \<longrightarrow> has_intent s) \<and> runtime_keeps (file_holds Q p) rt"

lemma guardsD:
  assumes "guards Q p rt"
  shows "file_keeps Q" "Q s \<Longrightarrow> has_intent s" "runtime_keeps (file_holds Q p) rt"
  using assms by (auto simp: guards_def)

lemma hold_keeps:
  assumes "guards Q p rt"
  shows "io_keeps (file_holds Q p) (rt_hold rt c)"
  using runtime_keepsD(1) [OF guardsD(3) [OF assms]] by (simp add: io_keeps_def file_holds_def)

lemma loop_acquire_files:
  "runtime_keeps P rt \<Longrightarrow> lw_files (snd (loop_acquire rt s c w)) = lw_files w"
  using runtime_keepsD(1) [of P rt]
  by (auto simp: loop_acquire_def io_bind_def split: prod.splits sum.splits) (metis snd_conv)+

lemma loop_acquire_keeps: "guards Q p rt \<Longrightarrow> io_keeps (file_holds Q p) (loop_acquire rt s c)"
  unfolding loop_acquire_def by (intro io_rules hold_keeps)

lemmas rt_keeps = runtime_keepsD(2-4) [OF guardsD(3)]

lemma close_child_keeps: "guards Q p rt \<Longrightarrow> io_keeps (file_holds Q p) (close_child rt s cl c hold)"
  unfolding close_child_def by (intro io_rules runtime_keepsD(6) [OF guardsD(3)])

lemma stop_child_keeps: "guards Q p rt \<Longrightarrow> io_keeps (file_holds Q p) (stop_child rt c hold)"
  unfolding stop_child_def by (intro io_rules runtime_keepsD(5) [OF guardsD(3)])

lemma finish_child_keeps: "guards Q p rt \<Longrightarrow> io_keeps (file_holds Q p) (finish_child rt s c)"
  unfolding finish_child_def cleanup_monitor_def Let_def
  by (intro io_rules rt_keeps close_child_keeps stop_child_keeps)

lemma cancel_once_keeps: "guards Q p rt \<Longrightarrow> io_keeps (file_holds Q p) (cancel_once rt s cu)"
  unfolding cancel_once_def loop_cancel_def by (auto intro!: io_rules rt_keeps split: option.splits)

lemma loop_finish_keeps: "guards Q p rt \<Longrightarrow> io_keeps (file_holds Q p) (loop_finish rt s t)"
  unfolding loop_finish_def
  by (intro io_rules loop_save_keeps cancel_once_keeps finish_child_keeps guardsD(1))

lemma finish_and_save_keeps: "guards Q p rt \<Longrightarrow> io_keeps (file_holds Q p) (finish_and_save rt i s t)"
  unfolding finish_and_save_def by (intro io_rules loop_finish_keeps loop_save_keeps guardsD(1))

lemma loop_observe_keeps: "guards Q p rt \<Longrightarrow> io_keeps (file_holds Q p) (loop_observe rt s)"
  unfolding loop_observe_def observe_child_def by (intro io_rules rt_keeps)

lemma terminal_child_keeps: "guards Q p rt \<Longrightarrow> io_keeps (file_holds Q p) (terminal_child pl rt s c)"
  unfolding terminal_child_def by (intro io_rules rt_keeps)

lemma settle_loop_keeps: "guards Q p rt \<Longrightarrow> io_keeps (file_holds Q p) (settle_loop rt s)"
  unfolding settle_loop_def by (intro io_rules loop_finish_keeps)

lemma rotate_child_cases:
  "rotate_child rt s before c after w =
     (case map_of (lw_files w) (loop_path (ls_loop_id s)) of
        None \<Rightarrow> (Inl (ValueError ''loop state was not found''), w)
      | Some latest \<Rightarrow>
          if has_intent latest then (Inr (latest, None), w)
          else case loop_acquire rt s (c\<lparr> ch_completed_rounds := ch_round c \<rparr>) w of
              (Inl e, w1) \<Rightarrow> (Inl e, w1)
            | (Inr c1, w1) \<Rightarrow> (Inr (s, Some c1), w1\<lparr> lw_files := AList.update (loop_path (ls_loop_id s))
                (s\<lparr> ls_children := before @ c1 # after \<rparr>) (lw_files w1) \<rparr>))"
  by (simp add: rotate_child_def loop_load_def io_bind_def io_then_def write_locked_def has_intent_def
      split: option.splits prod.splits sum.splits)

lemma rotate_child_keeps:
  assumes "guards Q p rt"
  shows "io_keeps (file_holds Q p) (rotate_child rt s before c after)"
proof (rule io_keepsI)
  fix w :: "'a loop_world"
  assume w: "file_holds Q p w"
  then obtain s0 where s0: "map_of (lw_files w) p = Some s0" "Q s0" by (auto simp: file_holds_def)
  obtain r w1 where acq: "loop_acquire rt s (c\<lparr> ch_completed_rounds := ch_round c \<rparr>) w = (r, w1)"
    by (cases "loop_acquire rt s (c\<lparr> ch_completed_rounds := ch_round c \<rparr>) w")
  have w1: "file_holds Q p w1"
    using io_keepsD [OF loop_acquire_keeps [OF assms] w acq] .
  have "has_intent s0" using guardsD(2) [OF assms s0(2)] .
  then show "file_holds Q p (snd (rotate_child rt s before c after w))"
    using w w1 s0 by (auto simp: rotate_child_cases acq file_holds_update split: option.splits sum.splits)
qed

lemma terminal_children_keeps:
  assumes "guards Q p rt"
  shows "io_keeps (file_holds Q p) (terminal_children pl rt s changed before todo)"
proof (induction todo arbitrary: s changed before)
  case (Cons c after)
  have "io_keeps (file_holds Q p) (case step of
       Skip c1 \<Rightarrow> terminal_children pl rt s changed (before @ [c1]) after
     | Settle c1 \<Rightarrow> terminal_children pl rt s True (before @ [c1]) after
     | Rotate c1 \<Rightarrow>
         io_bind (rotate_child rt s before c1 after) (\<lambda>(s1, bound). case bound of
           None \<Rightarrow> io_return (s1, None)
         | Some c2 \<Rightarrow> terminal_children pl rt s1 True (before @ [c2]) after))" for step
    by (cases step) (auto intro!: io_rules Cons.IH rotate_child_keeps assms)
  then show ?case
    unfolding terminal_children.simps by (intro io_keeps_bind terminal_child_keeps assms)
qed (simp add: io_rules)

lemma tick_loop_keeps: "guards Q p rt \<Longrightarrow> io_keeps (file_holds Q p) (tick_loop pl now rt i s)"
  unfolding tick_loop_def reconcile_holder_terminals_def finalize_observed_terminals_def
  by (auto intro!: io_rules finish_and_save_keeps loop_observe_keeps terminal_children_keeps settle_loop_keeps
      loop_save_keeps guardsD(1) split: option.splits)

lemma loop_status_keeps: "guards Q p rt \<Longrightarrow> io_keeps (file_holds Q p) (loop_status_of pl now rt i)"
  unfolding loop_status_of_def by (intro io_rules tick_loop_keeps loop_load_keeps)

lemma loop_reconcile_keeps: "guards Q p rt \<Longrightarrow> io_keeps (file_holds Q p) (loop_reconcile pl now rt)"
  unfolding loop_reconcile_def by (intro io_rules loop_status_keeps)

lemma loop_stop_keeps: "guards Q p rt \<Longrightarrow> io_keeps (file_holds Q p) (loop_stop rt i)"
  unfolding loop_stop_def by (intro io_rules finish_and_save_keeps loop_load_keeps)

lemma loop_close_keeps: "guards Q p rt \<Longrightarrow> io_keeps (file_holds Q p) (loop_close_of now rt i r)"
  unfolding loop_close_of_def close_loaded_def record_close_intent_def
  by (intro io_rules loop_stop_keeps loop_save_keeps loop_load_keeps guardsD(1))

lemma loop_start_keeps: "guards Q p rt \<Longrightarrow> io_keeps (file_holds Q p) (loop_start pl schema now rt raw)"
  unfolding loop_start_def start_fresh_def start_heartbeat_def Let_def
  by (auto intro!: io_rules loop_acquire_keeps rt_keeps loop_observe_keeps loop_finish_keeps loop_create_keeps
      loop_save_keeps loop_load_keeps guardsD(1) split: sum.splits)

datatype controller_op =
    Start_op pdict
  | Tick_op string
  | Reconcile_op
  | Close_op string "string option"
  | Stop_op string

fun controller_step ::
    "path_lib \<Rightarrow> schema_check \<Rightarrow> instant \<Rightarrow> 'w loop_runtime \<Rightarrow> controller_op \<Rightarrow> ('w loop_world, unit) io"
where
  "controller_step pl schema now rt (Start_op raw) = io_bind (loop_start pl schema now rt raw) (\<lambda>_. io_return ())"
| "controller_step pl schema now rt (Tick_op i) = io_bind (loop_status_of pl now rt i) (\<lambda>_. io_return ())"
| "controller_step pl schema now rt Reconcile_op = io_bind (loop_reconcile pl now rt) (\<lambda>_. io_return ())"
| "controller_step pl schema now rt (Close_op i r) = io_bind (loop_close_of now rt i r) (\<lambda>_. io_return ())"
| "controller_step pl schema now rt (Stop_op i) = io_bind (loop_stop rt i) (\<lambda>_. io_return ())"

lemma controller_step_keeps: "guards Q p rt \<Longrightarrow> io_keeps (file_holds Q p) (controller_step pl schema now rt op)"
  by (cases op) (simp_all add: io_rules loop_start_keeps loop_status_keeps loop_reconcile_keeps loop_close_keeps loop_stop_keeps)

lemma has_intent_iff: "has_intent s \<longleftrightarrow> intent_target s \<noteq> None \<or> intent_close s \<noteq> None"
  by (auto simp: has_intent_def intent_target_def intent_close_def)

lemma file_keeps_intent: "file_keeps has_intent"
  unfolding file_keeps_def
proof (intro conjI allI impI)
  fix latest s s1 fresh
  assume "has_intent latest" "merge_saved (Some latest) s = (s1, fresh)"
  then show "has_intent s1"
    unfolding has_intent_iff using merge_saved_target merge_saved_close by (metis not_None_eq)
next
  fix report s s1
  assume "has_intent s" "merge_report report s = Some s1"
  then show "has_intent s1" unfolding has_intent_iff using merge_report_target merge_report_close by metis
qed

lemma guards_target: "runtime_keeps (file_holds (\<lambda>s. intent_target s = Some t) p) rt \<Longrightarrow> guards (\<lambda>s. intent_target s = Some t) p rt"
  by (auto simp: guards_def file_keeps_target has_intent_iff)

lemma guards_close: "runtime_keeps (file_holds (\<lambda>s. intent_close s = Some r) p) rt \<Longrightarrow> guards (\<lambda>s. intent_close s = Some r) p rt"
  by (auto simp: guards_def file_keeps_close has_intent_iff)

text \<open>The controller as a machine: every operation reads its own clock.\<close>

definition timed_step :: "path_lib \<Rightarrow> schema_check \<Rightarrow> 'w loop_runtime \<Rightarrow> instant \<times> controller_op \<Rightarrow> ('w loop_world, unit) io" where
  "timed_step pl schema rt a = controller_step pl schema (fst a) rt (snd a)"

lemma controller_machine: "guards Q p rt \<Longrightarrow> store_machine (timed_step pl schema rt) (file_holds Q p)"
  by unfold_locales (simp add: timed_step_def controller_step_keeps [unfolded io_keeps_def, rule_format])

text \<open>A runtime that accepts every call and reports every hold as completed and released.\<close>

definition demo_released :: pdict where
  "demo_released = [(''status'', PStr ''completed''), (''data'', PDict [(''lifecycle_status'', PStr ''completed''),
     (''hold_released'', PBool True), (''terminal_confirmed'', PBool True)])]"

definition demo_runtime :: "unit loop_runtime" where
  "demo_runtime = \<lparr> rt_hold = (\<lambda>c. io_return [(''status'', PStr ''accepted''), (''data'', PDict [(''hold_id'', PStr ''h'')])]),
     rt_monitor = (\<lambda>i r h. io_return demo_released),
     rt_heartbeat_create = (\<lambda>i r d. io_return [(''status'', PStr ''active'')]),
     rt_heartbeat_cancel = (\<lambda>i r h. io_return [(''status'', PStr ''cancelled'')]),
     rt_stop_hold = Some (\<lambda>h. io_return [(''status'', PStr ''stop_requested'')]), rt_close_hold = None \<rparr>"

lemma demo_runtime_keeps: "runtime_keeps P demo_runtime"
  by (simp add: runtime_keeps_def demo_runtime_def io_keeps_return)

text \<open>
  C1: no operation of the controller undoes a recorded intent. Whatever sequence of starts, ticks,
  reconciliations, closes and stops runs, with any runtime that changes the loop files only through
  the store, a cleanup target and a close request that are on disk stay there unchanged.
\<close>

theorem controller_keeps_intents:
  assumes "runtime_keeps (file_holds (\<lambda>s. intent_target s = Some t) p) rt"
    and "runtime_keeps (file_holds (\<lambda>s. intent_close s = Some r) p) rt"
    and run: "run_ops (timed_step pl schema rt) ops w = (rs, w')"
  shows "(file_holds (\<lambda>s. intent_target s = Some t) p w \<longrightarrow> file_holds (\<lambda>s. intent_target s = Some t) p w') \<and>
    (file_holds (\<lambda>s. intent_close s = Some r) p w \<longrightarrow> file_holds (\<lambda>s. intent_close s = Some r) p w')"
  using store_machine.run_inv_eq [OF controller_machine [OF guards_target [OF assms(1)]] run]
    store_machine.run_inv_eq [OF controller_machine [OF guards_close [OF assms(2)]] run] by blast

lemma controller_keeps_intents_witness:
  "file_holds (\<lambda>s. intent_close s = Some ''close:l'') ''l'' (snd (run_ops (timed_step demo_paths (\<lambda>_. Inr ()) demo_runtime)
     [(5, Tick_op ''l''), (9, Stop_op ''l'')] \<lparr> lw_files = [(''l'', demo_loop)], lw_world = () \<rparr>))" (is "file_holds ?Q _ (snd ?r)")
proof -
  have "file_holds ?Q ''l'' \<lparr> lw_files = [(''l'', demo_loop)], lw_world = () \<rparr>"
    by (simp add: file_holds_def demo_loop_def demo_close_def intent_close_def)
  then show ?thesis
    using controller_keeps_intents [OF demo_runtime_keeps demo_runtime_keeps surjective_pairing] by blast
qed

section \<open>No hold after an intent\<close>

text \<open>\<open>agrees P m n\<close>: from a world with \<open>P\<close> the two computations do the same.\<close>

definition agrees :: "('w \<Rightarrow> bool) \<Rightarrow> ('w, 'a) io \<Rightarrow> ('w, 'a) io \<Rightarrow> bool" where
  "agrees P m n \<longleftrightarrow> (\<forall>w. P w \<longrightarrow> m w = n w)"

lemma agrees_refl: "agrees P m m"
  by (simp add: agrees_def)

lemma agrees_bind:
  "io_keeps P m \<Longrightarrow> agrees P m m' \<Longrightarrow> (\<And>x. agrees P (f x) (f' x)) \<Longrightarrow> agrees P (io_bind m f) (io_bind m' f')"
  unfolding agrees_def io_bind_def io_keeps_def by (fastforce split: prod.splits sum.splits)

lemma agrees_if: "agrees P m m' \<Longrightarrow> agrees P n n' \<Longrightarrow> agrees P (if b then m else n) (if b then m' else n')"
  by simp

definition with_hold :: "(hold_call \<Rightarrow> ('w loop_world, pdict) io) \<Rightarrow> 'w loop_runtime \<Rightarrow> 'w loop_runtime" where
  "with_hold h rt = rt\<lparr> rt_hold := h \<rparr>"

lemma with_hold_sel [simp]:
  "rt_monitor (with_hold h rt) = rt_monitor rt" "rt_heartbeat_cancel (with_hold h rt) = rt_heartbeat_cancel rt"
  "rt_heartbeat_create (with_hold h rt) = rt_heartbeat_create rt"
  "rt_stop_hold (with_hold h rt) = rt_stop_hold rt" "rt_close_hold (with_hold h rt) = rt_close_hold rt"
  by (simp_all add: with_hold_def)

lemma with_hold_same [simp]:
  "loop_finish (with_hold h rt) = loop_finish rt"
  "finish_and_save (with_hold h rt) = finish_and_save rt"
  "loop_observe (with_hold h rt) = loop_observe rt"
  "terminal_child pl (with_hold h rt) = terminal_child pl rt"
  "settle_loop (with_hold h rt) = settle_loop rt"
  "loop_stop (with_hold h rt) = loop_stop rt"
  "loop_close_of now (with_hold h rt) = loop_close_of now rt"
proof -
  have eqs: "close_child (with_hold h rt) = close_child rt" "stop_child (with_hold h rt) = stop_child rt"
    "cleanup_monitor (with_hold h rt) = cleanup_monitor rt"
    by (simp_all add: fun_eq_iff close_child_def stop_child_def cleanup_monitor_def)
  have c: "finish_child (with_hold h rt) = finish_child rt"
    unfolding finish_child_def [abs_def] eqs ..
  have k: "cancel_once (with_hold h rt) = cancel_once rt"
    unfolding cancel_once_def [abs_def] loop_cancel_def with_hold_sel ..
  have f: "loop_finish (with_hold h rt) = loop_finish rt"
    unfolding loop_finish_def [abs_def] c k ..
  have s: "finish_and_save (with_hold h rt) = finish_and_save rt"
    unfolding finish_and_save_def [abs_def] f ..
  have p: "loop_stop (with_hold h rt) = loop_stop rt"
    unfolding loop_stop_def [abs_def] s ..
  show "loop_finish (with_hold h rt) = loop_finish rt" "finish_and_save (with_hold h rt) = finish_and_save rt"
    "loop_stop (with_hold h rt) = loop_stop rt" by (rule f s p)+
  show "loop_observe (with_hold h rt) = loop_observe rt"
    unfolding loop_observe_def [abs_def] observe_child_def [abs_def] with_hold_sel ..
  show "terminal_child pl (with_hold h rt) = terminal_child pl rt"
    unfolding terminal_child_def [abs_def] with_hold_sel ..
  show "settle_loop (with_hold h rt) = settle_loop rt"
    unfolding settle_loop_def [abs_def] f ..
  show "loop_close_of now (with_hold h rt) = loop_close_of now rt"
    unfolding loop_close_of_def [abs_def] close_loaded_def p ..
qed

lemma rotate_child_agrees:
  "p = loop_path (ls_loop_id s) \<Longrightarrow>
   agrees (file_holds has_intent p) (rotate_child (with_hold h rt) s before c after) (rotate_child rt s before c after)"
  by (auto simp: agrees_def rotate_child_cases file_holds_def)

lemma rotate_child_intent:
  "file_holds has_intent (loop_path (ls_loop_id s)) w \<Longrightarrow> rotate_child rt s before c after w = (Inr (s1, b), w1) \<Longrightarrow> b = None"
  by (auto simp: rotate_child_cases file_holds_def)

lemma terminal_children_agrees:
  assumes "guards has_intent p rt"
  shows "p = loop_path (ls_loop_id s) \<Longrightarrow>
    agrees (file_holds has_intent p) (terminal_children pl (with_hold h rt) s changed before todo)
      (terminal_children pl rt s changed before todo)"
proof (induction todo arbitrary: changed before)
  case (Cons c after)
  have rot: "agrees (file_holds has_intent p)
      (io_bind (rotate_child (with_hold h rt) s before c1 after) (\<lambda>(s1, bound). case bound of
           None \<Rightarrow> io_return (s1, None)
         | Some c2 \<Rightarrow> terminal_children pl (with_hold h rt) s1 True (before @ [c2]) after))
      (io_bind (rotate_child rt s before c1 after) (\<lambda>(s1, bound). case bound of
           None \<Rightarrow> io_return (s1, None)
         | Some c2 \<Rightarrow> terminal_children pl rt s1 True (before @ [c2]) after))" for c1
    unfolding agrees_def
  proof (intro allI impI)
    fix w :: "'a loop_world" assume w: "file_holds has_intent p w"
    obtain r w1 where r: "rotate_child rt s before c1 after w = (r, w1)"
      by (cases "rotate_child rt s before c1 after w")
    have r': "rotate_child (with_hold h rt) s before c1 after w = (r, w1)"
      using rotate_child_agrees [OF Cons.prems, of h rt before c1 after] w r by (simp add: agrees_def)
    have "\<And>s1 b. r = Inr (s1, b) \<Longrightarrow> b = None"
      using rotate_child_intent w r Cons.prems by blast
    then show "io_bind (rotate_child (with_hold h rt) s before c1 after) (\<lambda>(s1, bound). case bound of
           None \<Rightarrow> io_return (s1, None)
         | Some c2 \<Rightarrow> terminal_children pl (with_hold h rt) s1 True (before @ [c2]) after) w =
      io_bind (rotate_child rt s before c1 after) (\<lambda>(s1, bound). case bound of
           None \<Rightarrow> io_return (s1, None)
         | Some c2 \<Rightarrow> terminal_children pl rt s1 True (before @ [c2]) after) w"
      by (cases r) (auto simp: io_bind_def r r')
  qed
  show ?case
    unfolding terminal_children.simps with_hold_same
  proof (rule agrees_bind)
    fix step
    show "agrees (file_holds has_intent p)
      (case step of Skip c1 \<Rightarrow> terminal_children pl (with_hold h rt) s changed (before @ [c1]) after
        | Settle c1 \<Rightarrow> terminal_children pl (with_hold h rt) s True (before @ [c1]) after
        | Rotate c1 \<Rightarrow> io_bind (rotate_child (with_hold h rt) s before c1 after) (\<lambda>(s1, bound). case bound of
             None \<Rightarrow> io_return (s1, None)
           | Some c2 \<Rightarrow> terminal_children pl (with_hold h rt) s1 True (before @ [c2]) after))
      (case step of Skip c1 \<Rightarrow> terminal_children pl rt s changed (before @ [c1]) after
        | Settle c1 \<Rightarrow> terminal_children pl rt s True (before @ [c1]) after
        | Rotate c1 \<Rightarrow> io_bind (rotate_child rt s before c1 after) (\<lambda>(s1, bound). case bound of
             None \<Rightarrow> io_return (s1, None)
           | Some c2 \<Rightarrow> terminal_children pl rt s1 True (before @ [c2]) after))"
      using Cons.IH [OF Cons.prems] rot by (cases step) simp_all
  qed (rule terminal_child_keeps [OF assms] agrees_refl)+
qed (simp add: agrees_refl)

lemma agrees_catch: "agrees P m m' \<Longrightarrow> agrees P (io_catch m h) (io_catch m' h)"
  by (simp add: agrees_def io_catch_def)

lemma loop_observe_id: "loop_observe rt s w = (Inr s1, w1) \<Longrightarrow> ls_loop_id s1 = ls_loop_id s"
  by (auto simp: loop_observe_def io_bind_def split: prod.splits sum.splits)

lemma io_bind_agreesI:
  "m w = n w \<Longrightarrow> (\<And>x w1. n w = (Inr x, w1) \<Longrightarrow> f x w1 = g x w1) \<Longrightarrow> io_bind m f w = io_bind n g w"
  by (simp add: io_bind_def split: prod.splits sum.splits)

lemma tick_loop_agrees:
  assumes "guards has_intent p rt" "p = loop_path (ls_loop_id s)" "file_holds has_intent p w"
  shows "tick_loop pl now (with_hold h rt) i s w = tick_loop pl now rt i s w"
proof -
  have "reconcile_holder_terminals pl (with_hold h rt) s1 w1 = reconcile_holder_terminals pl rt s1 w1"
    if "loop_observe rt s w = (Inr s1, w1)" for s1 w1
  proof -
    have w1: "file_holds has_intent p w1"
      using io_keepsD [OF loop_observe_keeps [OF assms(1)] assms(3) that] .
    have "p = loop_path (ls_loop_id s1)" using loop_observe_id [OF that] assms(2) by simp
    with terminal_children_agrees [OF assms(1), of s1] w1 show ?thesis
      unfolding reconcile_holder_terminals_def with_hold_same by (intro io_bind_agreesI) (auto simp: agrees_def)
  qed
  moreover have "finalize_observed_terminals pl (with_hold h rt) = finalize_observed_terminals pl rt"
    unfolding finalize_observed_terminals_def [abs_def] with_hold_same ..
  ultimately have tail: "io_bind (loop_observe rt s) (\<lambda>s1.
              io_bind (if ls_auto_continue s1 then reconcile_holder_terminals pl (with_hold h rt) s1
                       else finalize_observed_terminals pl (with_hold h rt) s1) (loop_save i)) w =
      io_bind (loop_observe rt s) (\<lambda>s1.
              io_bind (if ls_auto_continue s1 then reconcile_holder_terminals pl rt s1
                       else finalize_observed_terminals pl rt s1) (loop_save i)) w"
    by (intro io_bind_agreesI) auto
  have last: "io_bind (io_lift (loop_expired now (ls_expires_at s))) (\<lambda>late.
            if late then finish_and_save rt i s ''expired'' else io_bind (loop_observe rt s) (\<lambda>s1.
              io_bind (if ls_auto_continue s1 then reconcile_holder_terminals pl (with_hold h rt) s1
                       else finalize_observed_terminals pl (with_hold h rt) s1) (loop_save i))) w =
      io_bind (io_lift (loop_expired now (ls_expires_at s))) (\<lambda>late.
            if late then finish_and_save rt i s ''expired'' else io_bind (loop_observe rt s) (\<lambda>s1.
              io_bind (if ls_auto_continue s1 then reconcile_holder_terminals pl rt s1
                       else finalize_observed_terminals pl rt s1) (loop_save i))) w"
    using tail by (intro io_bind_agreesI) (auto split: if_splits)
  then show ?thesis
    unfolding tick_loop_def with_hold_same by (simp split: option.splits)
qed

text \<open>
  C2: once the file of a loop has a cleanup or a close request, neither a tick nor a close nor a
  stop of that loop dispatches a hold: the operation does the same whatever the hold port
  does, so it never calls it. This holds also when the intent was recorded after the operation began
  to observe its threads.
\<close>

theorem no_hold_after_intent:
  assumes "runtime_keeps (file_holds has_intent (loop_path i)) rt"
    and "map_of (lw_files w) (loop_path i) = Some s" "ls_loop_id s = i" "has_intent s"
  shows "loop_status_of pl now (with_hold h rt) i w = loop_status_of pl now rt i w \<and>
    loop_close_of now (with_hold h rt) i r w = loop_close_of now rt i r w \<and>
    loop_stop (with_hold h rt) i w = loop_stop rt i w"
proof -
  have "guards has_intent (loop_path i) rt"
    using assms(1) file_keeps_intent by (simp add: guards_def)
  moreover have "file_holds has_intent (loop_path i) w"
    using assms(2,4) by (simp add: file_holds_def)
  ultimately have "tick_loop pl now (with_hold h rt) i s w = tick_loop pl now rt i s w"
    using tick_loop_agrees assms(3) by blast
  then show ?thesis
    using assms(2) by (simp add: loop_status_of_def io_try_def loop_load_def io_bind_def)
qed

lemma no_hold_after_intent_witness:
  "loop_status_of demo_paths 7 (with_hold (\<lambda>c. io_raise (RuntimeError ''hold called'')) demo_runtime) ''l''
     \<lparr> lw_files = [(''l'', demo_loop)], lw_world = () \<rparr> =
   loop_status_of demo_paths 7 demo_runtime ''l'' \<lparr> lw_files = [(''l'', demo_loop)], lw_world = () \<rparr>"
proof -
  have "loop_path ''l'' = ''l''" by code_simp
  then show ?thesis
    using no_hold_after_intent [OF demo_runtime_keeps, of "\<lparr> lw_files = [(''l'', demo_loop)], lw_world = () \<rparr>" "''l''" demo_loop]
    by (simp add: demo_loop_def has_intent_def)
qed

section \<open>A cleanup completes with release evidence\<close>

lemma finish_child_evidence:
  assumes "finish_child rt s c w = (Inr (c', True, managed), w')"
  shows "child_evidence c'"
proof (cases "child_holds c")
  case None
  then show ?thesis using assms by (auto simp: finish_child_def child_evidence_def Let_def)
next
  case (Some hold)
  have keep: "child_holds c1 = Some hold" if "stop_child rt c hold w0 = (Inr c1, w1)" for c1 w0 w1
    using that Some by (auto simp: stop_child_def child_holds_def io_bind_Inr split: if_splits option.splits)
  have mon: "child_evidence c2"
    if "cleanup_monitor rt s c1 hold w0 = (Inr c2, w1)" "child_holds c1 = Some hold" "ch_hold_released c2" for c1 c2 w0 w1
    using that by (auto simp: cleanup_monitor_def io_bind_Inr child_evidence_def child_holds_def receipt_of_def)
  have closed: "child_holds (c\<lparr> ch_close_receipt := r \<rparr>) = Some hold" for r
    using Some by (simp add: child_holds_def)
  show ?thesis
    using assms Some
    by (auto simp: finish_child_def io_bind_Inr Let_def split: option.splits if_splits dest: mon [OF _ keep] mon [OF _ closed])
qed

lemma io_map_Inr: "io_map f xs w = (Inr ys, w') \<Longrightarrow> \<forall>y \<in> set ys. \<exists>x w0 w1. x \<in> set xs \<and> f x w0 = (Inr y, w1)"
proof (induction xs arbitrary: ys w)
  case (Cons x xs)
  then obtain y w1 zs w2 where "f x w = (Inr y, w1)" "io_map f xs w1 = (Inr zs, w')" "ys = y # zs"
    by (auto simp: io_bind_Inr)
  then show ?case using Cons.IH by fastforce
qed simp

lemma finish_verdict_done:
  assumes "cleanup_done (finish_verdict released managed cu s)" "cu_status cu \<noteq> ''completed''"
  shows "released \<and> cu_heartbeat_cancelled cu \<and> ls_status (finish_verdict released managed cu s) = cu_target cu
    \<and> ls_children (finish_verdict released managed cu s) = ls_children s
    \<and> ls_cleanup (finish_verdict released managed cu s) = Some (cu\<lparr> cu_status := ''completed'' \<rparr>)"
  using assms by (auto simp: finish_verdict_def Let_def cleanup_done_def split: option.splits if_splits)




section \<open>A cleanup completes when the runtime releases\<close>

text \<open>A runtime that answers and gives the release evidence of every hold, without touching the files.\<close>

definition runtime_releases :: "'w loop_runtime \<Rightarrow> bool" where
  "runtime_releases rt \<longleftrightarrow>
     (\<forall>i r h w. \<exists>d w'. rt_monitor rt i r h w = (Inr d, w') \<and> release_confirmed d \<and> lw_files w' = lw_files w) \<and>
     (\<forall>i r h w. \<exists>d w'. rt_heartbeat_cancel rt i r h w = (Inr d, w') \<and>
        in_words (dget d ''status'') cancel_words \<and> lw_files w' = lw_files w) \<and>
     (\<forall>f h w. rt_stop_hold rt = Some f \<longrightarrow> (\<exists>d w'. f h w = (Inr d, w') \<and> lw_files w' = lw_files w))"

lemma finish_child_releases:
  assumes "runtime_releases rt" "ls_close s = None"
    and "child_holds c = None \<Longrightarrow> \<not> in_words (dget (receipt_of (ch_last_receipt c)) ''status'') loop_active"
  shows "\<exists>c' w'. finish_child rt s c w = (Inr (c', True, True), w') \<and> lw_files w' = lw_files w"
proof (cases "child_holds c")
  case None
  then show ?thesis using assms(3) by (simp add: finish_child_def Let_def)
next
  case (Some hold)
  have stop: "\<exists>c1 w1. stop_child rt c hold w = (Inr c1, w1) \<and> lw_files w1 = lw_files w"
  proof (cases "rt_stop_hold rt")
    case (Some f)
    then obtain d w' where "f hold w = (Inr d, w')" "lw_files w' = lw_files w"
      using assms(1) unfolding runtime_releases_def by blast
    then show ?thesis using Some by (simp add: stop_child_def)
  qed (simp add: stop_child_def)
  then obtain c1 w1 where stop: "stop_child rt c hold w = (Inr c1, w1)" "lw_files w1 = lw_files w"
    by blast
  obtain d w2 where "rt_monitor rt (slot_ref s c1 @ '':cleanup'') (loop_source_ref s c1) hold w1 = (Inr d, w2)"
    "release_confirmed d" "lw_files w2 = lw_files w1"
    using assms(1) unfolding runtime_releases_def by blast
  then show ?thesis using Some assms(2) stop by (simp add: finish_child_def cleanup_monitor_def)
qed

lemma finish_children_release:
  assumes "runtime_releases rt" "ls_close s = None"
  shows "(\<forall>c \<in> set cs. child_holds c = None \<longrightarrow> \<not> in_words (dget (receipt_of (ch_last_receipt c)) ''status'') loop_active) \<Longrightarrow>
    \<exists>rs w'. io_map (finish_child rt s) cs w = (Inr rs, w') \<and> list_all (\<lambda>(c, released, managed). released) rs \<and>
      lw_files w' = lw_files w"
proof (induction cs arbitrary: w)
  case (Cons c cs)
  obtain c' w1 where 1: "finish_child rt s c w = (Inr (c', True, True), w1)" "lw_files w1 = lw_files w"
    using finish_child_releases [OF assms, of c w] Cons.prems by auto
  obtain rs w2 where "io_map (finish_child rt s) cs w1 = (Inr rs, w2)" "list_all (\<lambda>(c, released, managed). released) rs"
    "lw_files w2 = lw_files w1"
    using Cons.IH [of w1] Cons.prems by auto
  with 1 show ?case by simp
qed simp

lemma cancel_once_releases:
  assumes "runtime_releases rt"
  shows "\<exists>s1 cu1 w1. cancel_once rt s cu w = (Inr (s1, cu1), w1) \<and> cu_heartbeat_cancelled cu1 \<and>
    cu_target cu1 = cu_target cu \<and> ls_close s1 = ls_close s \<and> ls_children s1 = ls_children s \<and> lw_files w1 = lw_files w"
proof (cases "cu_heartbeat_cancelled cu")
  case False
  have "\<exists>d w1. loop_cancel rt s w = (Inr d, w1) \<and> in_words (dget d ''status'') cancel_words \<and> lw_files w1 = lw_files w"
    using assms unfolding loop_cancel_def runtime_releases_def
    by (auto simp: in_words_def cancel_words_def split: option.splits)
  then show ?thesis using False by (auto simp: cancel_once_def)
qed (simp add: cancel_once_def)

text \<open>
  C36: cleanup is live. When the file of a loop holds a pending cleanup (without a close request), every
  child either owns a hold or has no open request, and the runtime answers with the release
  evidence of the holds and cancels the heartbeat, then one tick completes the cleanup: it returns
  the latched target and the file is completed.
\<close>

theorem pending_cleanup_completes:
  assumes "runtime_releases rt"
    and "map_of (lw_files w) (loop_path i) = Some s" "ls_loop_id s = i" "ls_close s = None"
    and "ls_cleanup s = Some cu" "cu_status cu = ''pending''" "ls_status s \<noteq> ''closed_unconfirmed''"
    and "\<forall>c \<in> set (ls_children s). child_holds c = None \<longrightarrow>
      \<not> in_words (dget (receipt_of (ch_last_receipt c)) ''status'') loop_active"
  shows "\<exists>r w'. loop_status_of pl now rt i w = (Inr r, w') \<and> lr_status r = cu_target cu \<and>
    file_holds (\<lambda>s'. cleanup_done s' \<and> ls_status s' = cu_target cu) (loop_path i) w'"
proof -
  let ?p = "loop_path i"
  let ?l = "latch_cleanup (cu_target cu) s"
  have l: "ls_cleanup ?l = Some cu" "ls_close ?l = None" "ls_children ?l = ls_children s"
    using assms(4,5,6) by (simp_all add: latch_cleanup_def)
  have m: "merge_saved (Some s) ?l = (?l, True)"
    using l assms(4,5,6) by (simp add: merge_saved_def cleanup_overrides_def close_overrides_def)
  let ?w1 = "w\<lparr> lw_files := AList.update ?p ?l (lw_files w) \<rparr>"
  have save: "loop_save i ?l w = (Inr ?l, ?w1)"
    by (simp add: loop_save_apply assms(2) m)
  obtain s2 cu2 w2 where c: "cancel_once rt ?l cu ?w1 = (Inr (s2, cu2), w2)" "cu_heartbeat_cancelled cu2"
    "cu_target cu2 = cu_target cu" "ls_close s2 = None" "ls_children s2 = ls_children s" "lw_files w2 = lw_files ?w1"
    using cancel_once_releases [OF assms(1), of ?l cu ?w1] l by auto
  obtain rs w3 where rs: "io_map (finish_child rt s2) (ls_children s2) w2 = (Inr rs, w3)"
    "list_all (\<lambda>(c, released, managed). released) rs" "lw_files w3 = lw_files w2"
    using finish_children_release [OF assms(1) c(4), of "ls_children s2" w2] assms(8) c(5) by auto
  define s3 where "s3 = finish_verdict True (list_all (\<lambda>(c, released, managed). managed) rs) cu2 (s2\<lparr> ls_children := map fst rs \<rparr>)"
  have fin: "loop_finish rt s (cu_target cu) w = (Inr s3, w3)"
    using assms(3) save l(1) assms(6) c(1) rs(1,2) by (simp add: loop_finish_def s3_def)
  have s3: "cleanup_done s3" "ls_status s3 = cu_target cu" "ls_close s3 = None" "intent_target s3 = Some (cu_target cu)"
    using c(2,3,4) by (simp_all add: s3_def finish_verdict_def cleanup_done_def intent_target_def)
  have on_disk: "map_of (lw_files w3) ?p = Some ?l"
    using rs(3) c(6) by (simp add: map_of_AList_update)
  have "merge_saved (Some ?l) s3 = (s3, True)"
    using s3 l assms(6) by (auto simp: merge_saved_def cleanup_overrides_def close_overrides_def intent_target_def
        cleanup_done_def split: option.splits)
  then have "finish_and_save rt i s (cu_target cu) w = (Inr s3, w3\<lparr> lw_files := AList.update ?p s3 (lw_files w3) \<rparr>)"
    using fin by (simp add: finish_and_save_def loop_save_apply on_disk)
  then have "tick_loop pl now rt i s w = (Inr s3, w3\<lparr> lw_files := AList.update ?p s3 (lw_files w3) \<rparr>)"
    using assms(4,5,6) by (simp add: tick_loop_def)
  then have "loop_status_of pl now rt i w =
      (Inr (loop_result_of s3), w3\<lparr> lw_files := AList.update ?p s3 (lw_files w3) \<rparr>)"
    using assms(2,7) by (simp add: loop_status_of_def io_try_def loop_load_def)
  then show ?thesis
    using s3 by (auto simp: loop_result_of_def file_holds_update)
qed


lemma demo_loop_fields: "ls_loop_id demo_loop = ''l''" "ls_close demo_loop = Some demo_close"
  "ls_cleanup demo_loop = Some \<lparr> cu_target = ''stopped'', cu_status = ''pending'', cu_heartbeat_cancelled = True \<rparr>"
  "ls_status demo_loop = ''stopping''" "ls_children demo_loop = [demo_child ''a'' ''h'']"
  by (simp_all add: demo_loop_def)

lemma demo_loop_path: "loop_path ''l'' = ''l''"
  by code_simp

lemma pending_cleanup_completes_witness:
  "\<exists>r w'. loop_status_of demo_paths 7 demo_runtime ''l'' \<lparr> lw_files = [(''l'', demo_loop\<lparr> ls_close := None \<rparr>)], lw_world = () \<rparr>
     = (Inr r, w') \<and> lr_status r = ''stopped''"
proof -
  have "runtime_releases demo_runtime"
    by (simp add: runtime_releases_def demo_runtime_def release_confirmed_def demo_released_def in_words_def
        receipt_data_def data_lifecycle_def py_or_def loop_terminal_def cancel_words_def)
  then show ?thesis
    using pending_cleanup_completes [of demo_runtime "\<lparr> lw_files = [(''l'', demo_loop\<lparr> ls_close := None \<rparr>)], lw_world = () \<rparr>" "''l''"
        "demo_loop\<lparr> ls_close := None \<rparr>" "\<lparr> cu_target = ''stopped'', cu_status = ''pending'', cu_heartbeat_cancelled = True \<rparr>"]
    by (simp add: demo_loop_fields demo_loop_path demo_child_def child_holds_def) blast
qed

section \<open>A close that races with a finishing tick\<close>

text \<open>
  \<open>_finish\<close> crashes when a close was recorded after its caller loaded the state. The save of the
  latched cleanup takes over the state on disk, which has a close request and no cleanup yet, and the
  next line reads \<open>state["cleanup"]\<close>: every tick of a loop that has expired or stopped in its own
  copy raises \<open>KeyError\<close> and leaves the file as it is.
\<close>

theorem finish_races_with_close:
  assumes "map_of (lw_files w) (loop_path (ls_loop_id s)) = Some latest"
    and "ls_close latest \<noteq> None" "ls_cleanup latest = None" "ls_close s = None"
  shows "loop_finish rt s target w = (Inl (KeyError ''cleanup''), w)"
proof -
  have "merge_saved (Some latest) (latch_cleanup target s) = (latest, False)"
    using assms(2-) by (auto simp: merge_saved_def close_overrides_def latch_cleanup_def Let_def)
  then have "loop_save (ls_loop_id s) (latch_cleanup target s) w = (Inr latest, w)"
    by (simp add: loop_save_apply assms(1))
  then show ?thesis by (simp add: loop_finish_def assms(3))
qed

lemma finish_races_with_close_witness:
  "loop_finish demo_runtime (demo_loop\<lparr> ls_close := None, ls_cleanup := None \<rparr>) ''expired''
     \<lparr> lw_files = [(''l'', demo_loop\<lparr> ls_cleanup := None \<rparr>)], lw_world = () \<rparr> =
   (Inl (KeyError ''cleanup''), \<lparr> lw_files = [(''l'', demo_loop\<lparr> ls_cleanup := None \<rparr>)], lw_world = () \<rparr>)"
  by (rule finish_races_with_close [where latest = "demo_loop\<lparr> ls_cleanup := None \<rparr>"]) (simp_all add: demo_loop_fields demo_loop_path)

section \<open>Repeated and colliding starts\<close>

text \<open>
  A start for a loop whose file exists is answered from the file: no hold, no heartbeat and no
  write, whatever the rest of the request says.
\<close>

theorem repeated_start_is_idempotent:
  assumes "validate_start pl schema now raw = Inr q"
    and "map_of (lw_files w) (loop_path (''loop-'' @ lq_request_id q)) = Some s"
  shows "loop_start pl schema now rt raw w = (Inr (loop_result_of s), w)"
  using assms by (simp add: loop_start_def Let_def loop_exists_def io_bind_def loop_load_def)

lemma repeated_start_is_idempotent_witness:
  "\<exists>s. loop_start demo_paths (\<lambda>_. Inr ()) 0 demo_runtime (demo_start ''r1'')
     \<lparr> lw_files = [(''loop-r1'', s)], lw_world = () \<rparr> = (Inr (loop_result_of s), \<lparr> lw_files = [(''loop-r1'', s)], lw_world = () \<rparr>)"
proof -
  have "py_strip ''r1'' = ''r1''" "loop_path ''loop-r1'' = ''loop-r1''" by code_simp+
  then show ?thesis
    using demo_start_valid [of "''r1''"] repeated_start_is_idempotent [where s = demo_loop and w = "\<lparr> lw_files = [(''loop-r1'', demo_loop)], lw_world = () \<rparr>"]
    by force
qed

text \<open>
  Different request identifiers can share one state file, because the directory name folds the
  characters outside letters, digits and \<open>._-\<close>: after a start of \<open>a/b\<close>, a start of \<open>a_b\<close> is
  answered with the loop of \<open>a/b\<close> and starts nothing.
\<close>

theorem colliding_requests_share_a_loop:
  assumes "validate_start pl schema now raw = Inr q" "lq_request_id q = ''a_b''"
    and "map_of (lw_files w) (loop_path ''loop-a/b'') = Some s" "ls_loop_id s = ''loop-a/b''"
  shows "loop_path ''loop-a_b'' = loop_path ''loop-a/b'' \<and>
    loop_start pl schema now rt raw w = (Inr (loop_result_of s), w) \<and>
    lr_loop_id (loop_result_of s) \<noteq> Some (''loop-'' @ lq_request_id q)"
proof -
  have "loop_path ''loop-a_b'' = loop_path ''loop-a/b''" by code_simp
  then show ?thesis
    using assms by (simp add: loop_start_def Let_def loop_exists_def io_bind_def loop_load_def loop_result_of_def)
qed

lemma colliding_requests_share_a_loop_witness:
  defines "s \<equiv> demo_loop\<lparr> ls_loop_id := ''loop-a/b'' \<rparr>"
  shows "loop_start demo_paths (\<lambda>_. Inr ()) 0 demo_runtime (demo_start ''a_b'')
     \<lparr> lw_files = [(''loop-a_b'', s)], lw_world = () \<rparr> = (Inr (loop_result_of s), \<lparr> lw_files = [(''loop-a_b'', s)], lw_world = () \<rparr>)"
proof -
  have *: "py_strip ''a_b'' = ''a_b''" "loop_path ''loop-a/b'' = ''loop-a_b''" by code_simp+
  obtain q where q: "validate_start demo_paths (\<lambda>_. Inr ()) 0 (demo_start ''a_b'') = Inr q" "lq_request_id q = ''a_b''"
    using demo_start_valid [of "''a_b''"] * by auto
  show ?thesis
    using colliding_requests_share_a_loop [OF q, of "\<lparr> lw_files = [(''loop-a_b'', s)], lw_world = () \<rparr>" s demo_runtime] *
    by (simp add: s_def)
qed

section \<open>The limits of a rotation\<close>

lemma acquire_budget_limit:
  assumes "acquire_budget s c = Inr b" "round_limit c (ls_max_rounds s) = Inr n"
    and "ls_turns_per_thread s \<noteq> None \<or> ch_holder_owns c"
  shows "ch_completed_rounds c + b \<le> n"
  using assms by (auto simp: acquire_budget_def rbind_Inr_iff Let_def split: option.splits if_splits)

lemma bound_verdict_same:
  "bound_verdict pl lane data ok c = Inr c1 \<Longrightarrow>
   ch_lane c1 = ch_lane c \<and> ch_round c1 = ch_round c \<and> ch_holder_owns c1 = ch_holder_owns c"
  by (auto simp: bound_verdict_def Let_def rbind_Inr_iff split: if_splits)

lemma check_bound_terminal_same:
  "check_bound_terminal pl lane data rounds c = Inr c1 \<Longrightarrow>
   ch_lane c1 = ch_lane c \<and> ch_round c1 = ch_round c \<and> ch_holder_owns c1 = ch_holder_owns c"
  by (auto simp: check_bound_terminal_def Let_def rbind_Inr_iff dest: bound_verdict_same split: if_split_asm)

lemma check_lane_terminal_same:
  "check_lane_terminal pl data rounds c = Inr c1 \<Longrightarrow>
   ch_lane c1 = ch_lane c \<and> ch_round c1 = ch_round c \<and> ch_holder_owns c1 = ch_holder_owns c"
  unfolding check_lane_terminal_def
  by (auto dest: check_bound_terminal_same split: option.splits if_splits)

text \<open>
  a rotation to a new thread happens only after the old thread's hold is released and confirmed
  terminal, having run exactly the turns it was given, with a lane item that passed its checks; and
  the new thread gets at least one turn, at most \<open>turns_per_thread\<close>, and never more than the rounds
  of the child that are left.
\<close>

theorem rotation_within_limits:
  assumes "rotation_step pl s data turns c = Inr (Rotate c1)"
    and "ls_turns_per_thread s = Some per" "1 \<le> per" "ch_holder_owns c"
    and "acquire_budget s (c1\<lparr> ch_completed_rounds := ch_round c1 \<rparr>) = Inr b"
  shows "dget data ''hold_released'' = PBool True \<and> dget data ''terminal_confirmed'' = PBool True \<and>
    turns = Inr (ch_completed_rounds c + ch_turn_limit c) \<and> ch_phase c1 = ''completed'' \<and>
    1 \<le> b \<and> b \<le> per \<and> (\<exists>n. round_limit c (ls_max_rounds s) = Inr n \<and> ch_round c + b \<le> n)"
proof -
  have t: "dget data ''hold_released'' = PBool True" "dget data ''terminal_confirmed'' = PBool True"
    using assms(1) by (auto simp: rotation_step_def split: if_splits)
  obtain n where turns: "turns = Inr (ch_completed_rounds c + ch_turn_limit c)"
    and chk: "check_lane_terminal pl (dset data ''total_turn_count'' (PInt (ch_round c))) (Some (ch_round c)) c = Inr c1"
    and phase: "ch_phase c1 = ''completed''" and n: "round_limit c1 (ls_max_rounds s) = Inr n" "ch_round c1 < n"
    using assms(1) t by (auto simp: rotation_step_def rbind_Inr_iff split: if_splits)
  note same = check_lane_terminal_same [OF chk]
  have limit: "round_limit c0 m = round_limit c m" if "ch_lane c0 = ch_lane c" for c0 m
    using that by (simp add: round_limit_def)
  have "round_limit (c1\<lparr> ch_completed_rounds := ch_round c1 \<rparr>) (ls_max_rounds s) = Inr n"
    using n(1) limit [of c1] limit [of "c1\<lparr> ch_completed_rounds := ch_round c1 \<rparr>"] same by simp
  then have "b = min (min (n - ch_round c1) per) (n - ch_round c1)"
    using assms(2,4,5) same by (simp add: acquire_budget_def Let_def)
  then show ?thesis
    using t turns phase n assms(3) same limit [of c1] by auto
qed


lemma rotation_within_limits_witness:
  "\<exists>b. 1 \<le> b \<and> b \<le> 2 \<and> acquire_budget (demo_loop\<lparr> ls_max_rounds := 3, ls_turns_per_thread := Some 2 \<rparr>)
     ((demo_child ''a'' ''h'')\<lparr> ch_phase := ''completed'', ch_completed_rounds := 1 \<rparr>) = Inr b"
proof -
  let ?s = "demo_loop\<lparr> ls_max_rounds := 3, ls_turns_per_thread := Some 2 \<rparr>"
  let ?c = "(demo_child ''a'' ''h'')\<lparr> ch_phase := ''completed'' \<rparr>"
  let ?data = "[(''hold_released'', PBool True), (''terminal_confirmed'', PBool True)]"
  have "rotation_step demo_paths ?s ?data (Inr 1) ?c = Inr (Rotate ?c)"
    by (simp add: rotation_step_def check_lane_terminal_def round_limit_def demo_loop_def demo_child_def)
  moreover have b: "acquire_budget ?s (?c\<lparr> ch_completed_rounds := ch_round ?c \<rparr>) = Inr 2"
    by (simp add: acquire_budget_def round_limit_def demo_loop_def demo_child_def)
  moreover have "ch_holder_owns ?c" "ch_round ?c = 1" by (simp_all add: demo_child_def)
  ultimately show ?thesis
    using rotation_within_limits [of demo_paths ?s ?data "Inr 1" ?c ?c 2 2] by simp
qed

end
