(* ===== verification/Jarvis_Control.thy ===== *)
theory Jarvis_Control
  imports Loop_Safety Capability_Port
begin

text \<open>
  The facade \<open>JarvisControl\<close> (\<open>packages/jarvis_control/service.py\<close>): the operations behind the MCP
  tools, over optional ports. \<open>getattr(port, "name", None)\<close> is an optional field of the port's
  record. A receipt is a dictionary; the receipts of a loop keep the loop's result as a value
  (\<open>Loop_Reply\<close>). The world of all ports is that of the capability port inside the world of the loop
  files. At the end \<open>JarvisControl\<close> is given to the loop controller as its runtime, the way
  \<open>loop\<close> passes \<open>self\<close>.
\<close>

section \<open>Ports\<close>

type_synonym ('w, 'j) control_world = "('w, 'j) monitor_world loop_world"

type_synonym ('w, 'j, 'a) control_io = "(('w, 'j) control_world, 'a) io"

record ('w, 'j) provisioner =
  pv_provision :: "task_provision_request \<Rightarrow> ('w, 'j, task_receipt) control_io"
  pv_ensure_ready :: "int \<Rightarrow> ('w, 'j, pdict) control_io"
  pv_projects :: "('w, 'j, string list) control_io option"
  pv_hold_stop :: "(string \<Rightarrow> ('w, 'j, pdict) control_io) option"
  pv_close_hold :: "(string \<Rightarrow> string option \<Rightarrow> pdict option \<Rightarrow> ('w, 'j, pdict) control_io) option"
  pv_resume :: "(task_resume_request \<Rightarrow> ('w, 'j, task_receipt) control_io) option"
  pv_hold_status :: "(string \<Rightarrow> ('w, 'j, pdict) control_io) option"
  pv_monitor_status :: "(string \<Rightarrow> ('w, 'j, pdict) control_io) option"
  pv_turn_history :: "(string option \<Rightarrow> string option \<Rightarrow> string option \<Rightarrow> string option \<Rightarrow> ('w, 'j, pyval) control_io) option"
  pv_update :: "(string \<Rightarrow> string \<Rightarrow> ('w, 'j, pdict) control_io) option"
  pv_pending :: "(string \<Rightarrow> ('w, 'j, pdict list) control_io) option"
  pv_record_delivery :: "(string \<Rightarrow> string \<Rightarrow> pdict \<Rightarrow> ('w, 'j, unit) control_io) option"
  pv_delivery_lock :: "(string \<Rightarrow> ('w, 'j, unit) control_io \<times> ('w, 'j, unit) control_io) option"
  pv_pending_holds :: "('w, 'j, string list) control_io option"
  pv_close :: "('w, 'j, unit) control_io option"

record ('w, 'j) control =
  jc_port :: "('w, 'j) capability_port"
  jc_provisioner :: "('w, 'j) provisioner option"
  jc_notifier :: "(string \<Rightarrow> string \<Rightarrow> string \<Rightarrow> ('w, 'j, pdict) control_io) option"
  jc_has_loop :: bool
  jc_paths :: path_lib
  jc_schema :: schema_check

text \<open>\<open>getattr(self._provisioner, name, None)\<close>.\<close>

definition pv_attr :: "('w, 'j) control \<Rightarrow> (('w, 'j) provisioner \<Rightarrow> 'a option) \<Rightarrow> 'a option" where
  "pv_attr jc f = Option.bind (jc_provisioner jc) f"

section \<open>Receipts\<close>

definition mcp_receipt_schema :: string where
  "mcp_receipt_schema = ''jarvis-mcp-receipt/v1''"

definition readback_of :: "bool \<Rightarrow> bool \<Rightarrow> pdict" where
  "readback_of verified terminal = [(''verified'', PBool verified), (''terminal'', PBool terminal)]"

definition no_readback :: pdict where
  "no_readback = [(''verified'', PBool False)]"

definition full_receipt :: "string \<Rightarrow> string \<Rightarrow> pyval \<Rightarrow> pyval \<Rightarrow> pyval \<Rightarrow> pyval \<Rightarrow> pdict option \<Rightarrow> pdict \<Rightarrow> pdict" where
  "full_receipt tool status request_id target turn reason data readback =
     [(''schema'', PStr mcp_receipt_schema), (''tool'', PStr tool), (''status'', PStr status),
      (''request_id'', request_id), (''target_thread_id'', target), (''turn_id'', turn), (''reason'', reason),
      (''data'', case data of None \<Rightarrow> PNone | Some d \<Rightarrow> PDict d),
      (''readback'', PDict (if readback = [] then no_readback else readback))]"

definition jarvis_receipt :: "string \<Rightarrow> string \<Rightarrow> pyval \<Rightarrow> pyval \<Rightarrow> pdict option \<Rightarrow> pdict \<Rightarrow> pdict" where
  "jarvis_receipt tool status request_id reason data readback =
     full_receipt tool status request_id PNone PNone reason data readback"

definition refusal :: "string \<Rightarrow> string \<Rightarrow> pyval \<Rightarrow> string \<Rightarrow> pdict" where
  "refusal tool status request_id reason = jarvis_receipt tool status request_id (PStr reason) None []"

definition unsupported :: "string \<Rightarrow> string \<Rightarrow> pdict" where
  "unsupported tool reason = refusal tool ''unsupported'' PNone reason"

text \<open>\<open>try: m except Exception\<close> and \<open>except ValueError\<close>: a refusal.\<close>

definition or_failed :: "('w, pdict) io \<Rightarrow> (string \<Rightarrow> pdict) \<Rightarrow> ('w, pdict) io" where
  "or_failed m f = io_catch m (\<lambda>e. io_return (f (exc_text e)))"

definition or_invalid :: "('w, pdict) io \<Rightarrow> (string \<Rightarrow> pdict) \<Rightarrow> ('w, pdict) io" where
  "or_invalid m f = io_catch m (\<lambda>e. if is_value_error e then io_return (f (exc_text e)) else io_raise e)"

section \<open>Create, resume, hold\<close>

definition provision_receipt :: "string \<Rightarrow> task_receipt \<Rightarrow> pdict \<Rightarrow> pdict" where
  "provision_receipt tool p readback =
     full_receipt tool (rc_status p) (PStr (rc_request_id p)) (opt_str (rc_thread_id p)) (opt_str (rc_turn_id p))
       (opt_str (rc_reason p)) (Some (task_receipt_dict p)) readback"

definition control_create :: "('w, 'j) control \<Rightarrow> task_provision_request \<Rightarrow> ('w, 'j, pdict) control_io" where
  "control_create jc q =
     (case jc_provisioner jc of
        None \<Rightarrow> io_return (unsupported ''jarvis_create'' ''no task-creation adapter is configured'')
      | Some pv \<Rightarrow> or_invalid
          (io_bind (io_lift (check_provision_request (jc_paths jc) q)) (\<lambda>q1.
           io_bind (pv_provision pv q1) (\<lambda>p.
           io_return (provision_receipt ''jarvis_create'' p
             (readback_of (rc_status p \<in> {''holding'', ''running'', ''completed''}) (rc_status p = ''completed''))))))
          (refusal ''jarvis_create'' ''invalid_request'' (PStr (tp_request_id q))))"

definition control_resume :: "('w, 'j) control \<Rightarrow> task_resume_request \<Rightarrow> ('w, 'j, pdict) control_io" where
  "control_resume jc q =
     (case check_task_resume (jc_paths jc) q of
        Inl e \<Rightarrow> if is_value_error e then io_return (refusal ''jarvis_resume'' ''invalid_request'' (PStr (ts_request_id q)) (exc_text e))
                 else io_raise e
      | Inr q1 \<Rightarrow>
          (case pv_attr jc pv_resume of
             None \<Rightarrow> io_return (unsupported ''jarvis_resume'' ''no monitor-owned resume adapter is configured'')
           | Some starter \<Rightarrow> or_invalid
               (io_bind (starter q1) (\<lambda>p.
                io_return (provision_receipt ''jarvis_resume'' p
                  (readback_of (rc_status p \<in> {''holding'', ''running''}) False))))
               (refusal ''jarvis_resume'' ''invalid_request'' (PStr (ts_request_id q)))))"

definition resume_of_hold :: "hold_call \<Rightarrow> string \<Rightarrow> task_resume_request" where
  "resume_of_hold c task_id =
     \<lparr> ts_request_id = hc_request_id c, ts_task_id = task_id, ts_prompt = hc_prompt c, ts_source_ref = hc_source_ref c,
       ts_monitor_id = None, ts_hold_id = hc_hold_id c, ts_max_turns = hc_max_turns c, ts_model = hc_model c,
       ts_effort = hc_effort c, ts_auto_continue = hc_auto_continue c, ts_continue_prompt = hc_continue c,
       ts_notifications = hc_notifications c, ts_input_binding = hc_binding c \<rparr>"

definition provision_of_hold :: "hold_call \<Rightarrow> string \<Rightarrow> string \<Rightarrow> task_provision_request" where
  "provision_of_hold c project title =
     \<lparr> tp_request_id = hc_request_id c, tp_project = project, tp_title = title, tp_prompt = hc_prompt c,
       tp_source_ref = hc_source_ref c, tp_model = hc_model c, tp_effort = hc_effort c, tp_max_turns = hc_max_turns c,
       tp_auto_continue = hc_auto_continue c, tp_continue_prompt = hc_continue c, tp_hold_id = hc_hold_id c,
       tp_notifications = hc_notifications c, tp_input_binding = hc_binding c \<rparr>"

definition as_hold_receipt :: "pdict \<Rightarrow> pdict" where
  "as_hold_receipt receipt = dset receipt ''tool'' (PStr ''jarvis_hold'')"

definition control_hold :: "('w, 'j) control \<Rightarrow> hold_call \<Rightarrow> ('w, 'j, pdict) control_io" where
  "control_hold jc c =
     (let task = (case hc_task_id c of None \<Rightarrow> [] | Some t \<Rightarrow> t) in
      if task \<noteq> [] then io_bind (control_resume jc (resume_of_hold c task)) (\<lambda>r. io_return (as_hold_receipt r))
      else (case (hc_project c, hc_title c) of
          (Some project, Some title) \<Rightarrow>
            io_bind (control_create jc (provision_of_hold c project title)) (\<lambda>r. io_return (as_hold_receipt r))
        | _ \<Rightarrow> io_return (refusal ''jarvis_hold'' ''invalid_request'' (PStr (hc_request_id c))
            ''project and title are required when task_id is omitted'')))"

section \<open>Reading\<close>

definition available :: "bool \<Rightarrow> pdict \<Rightarrow> pyval" where
  "available b extra = PDict ((''available'', PBool b) # extra)"

definition missing_reason :: "bool \<Rightarrow> string \<Rightarrow> (string \<times> pyval) list" where
  "missing_reason b reason = [(''reason'', if b then PNone else PStr reason)]"

definition capability_table :: "('w, 'j) control \<Rightarrow> pdict" where
  "capability_table jc =
     (let provisioned = jc_provisioner jc \<noteq> None; notified = jc_notifier jc \<noteq> None in
      [(''jarvis_create'', available provisioned (missing_reason provisioned ''no task-creation adapter is configured'')),
       (''jarvis_hold'', available provisioned
          [(''owns_execution'', PBool True), (''monitor_controls_continuation'', PBool True)]),
       (''jarvis_loop'', available (jc_has_loop jc) [(''requires_hold_monitor'', PBool True)]),
       (''jarvis_read'', available True [(''read_only'', PBool True)]),
       (''jarvis_resume'', available (pv_attr jc pv_resume \<noteq> None) [(''requires_monitor'', PBool True)]),
       (''jarvis_monitor'', available True []),
       (''jarvis_heartbeat'', available (heartbeat_available (jc_port jc)) [(''requires_scheduler'', PBool True)]),
       (''jarvis_update'', available (pv_attr jc pv_update \<noteq> None) [(''scope'', PStr ''codex_runtime'')]),
       (''jarvis_notify'', available notified (missing_reason notified ''no notification adapter is configured''))])"

definition turn_view :: "turn_state \<Rightarrow> pyval" where
  "turn_view t = PDict [(''turn_id'', PStr (tn_turn_id t)), (''status'', PStr (tn_status t)), (''error'', opt_str (tn_error t)),
     (''execution_status'', PStr (turn_effective_status t)), (''execution_source'', PStr (tn_execution_source t))]"

definition thread_view :: "thread_state \<Rightarrow> pdict" where
  "thread_view s = [(''thread_id'', PStr (th_thread_id s)), (''status'', PStr (th_status s)),
     (''read_source'', PStr (th_read_source s)), (''execution_status'', PStr (thread_effective_status s)),
     (''execution_source'', PStr (th_execution_source s)),
     (''execution_evidence'', case th_execution_evidence s of None \<Rightarrow> PNone | Some d \<Rightarrow> PDict d),
     (''turns'', PList (map turn_view (th_turns s)))]"

text \<open>An operation of the capability port, in the world of the control.\<close>

definition in_port :: "(('w, 'j) monitor_world \<Rightarrow> 'a result \<times> ('w, 'j) monitor_world) \<Rightarrow> ('w, 'j, 'a) control_io" where
  "in_port f x = (case f (lw_world x) of (r, mw) \<Rightarrow> (r, x\<lparr> lw_world := mw \<rparr>))"

definition observe_thread :: "('w, 'j) control \<Rightarrow> string \<Rightarrow> ('w, 'j, thread_state) control_io" where
  "observe_thread jc tid = in_port (\<lambda>mw. case tr_read_thread (pt_transport (jc_port jc)) tid (mw_world mw) of
     (r, w1) \<Rightarrow> (r, mw\<lparr> mw_world := w1 \<rparr>))"

definition blank_option :: "string option \<Rightarrow> bool" where
  "blank_option z = (case z of None \<Rightarrow> True | Some s \<Rightarrow> py_strip s = [])"

definition read_thread :: "('w, 'j) control \<Rightarrow> string option \<Rightarrow> ('w, 'j, pdict) control_io" where
  "read_thread jc task_id =
     (if blank_option task_id
      then io_return (refusal ''jarvis_read'' ''invalid_request'' PNone ''task_id is required for subject=thread'')
      else or_failed
        (io_bind (observe_thread jc (the task_id)) (\<lambda>s.
         io_return (full_receipt ''jarvis_read'' ''completed'' PNone (PStr (th_thread_id s)) PNone PNone (Some (thread_view s)) [])))
        (\<lambda>reason. full_receipt ''jarvis_read'' ''failed'' PNone (opt_str task_id) PNone (PStr reason) None []))"

definition read_hold :: "('w, 'j) control \<Rightarrow> string option \<Rightarrow> ('w, 'j, pdict) control_io" where
  "read_hold jc hold_id =
     (if blank_option hold_id
      then io_return (refusal ''jarvis_read'' ''invalid_request'' PNone ''hold_id is required for subject=hold'')
      else (case pv_attr jc pv_hold_status of
          None \<Rightarrow> io_return (refusal ''jarvis_read'' ''unsupported'' PNone ''no managed-hold status adapter is configured'')
        | Some reader \<Rightarrow> or_failed
            (io_bind (reader (the hold_id)) (\<lambda>d. io_return (jarvis_receipt ''jarvis_read'' ''completed'' PNone PNone (Some d) [])))
            (refusal ''jarvis_read'' ''failed'' PNone)))"

definition read_history ::
    "('w, 'j) control \<Rightarrow> string option \<Rightarrow> string option \<Rightarrow> string option \<Rightarrow> string option \<Rightarrow> ('w, 'j, pdict) control_io"
where
  "read_history jc task_id hold_id thread_id turn_id =
     (case pv_attr jc pv_turn_history of
        None \<Rightarrow> io_return (refusal ''jarvis_read'' ''unsupported'' PNone ''no managed-hold history adapter is configured'')
      | Some reader \<Rightarrow> io_catch
          (io_bind (reader task_id hold_id thread_id turn_id) (\<lambda>turns.
           io_return (jarvis_receipt ''jarvis_read'' ''completed'' PNone PNone (Some [(''turns'', turns)]) [])))
          (\<lambda>e. if is_runtime_error e \<or> is_value_error e
               then io_return (refusal ''jarvis_read'' ''invalid_request'' PNone (exc_text e)) else io_raise e))"

definition control_read ::
    "('w, 'j) control \<Rightarrow> string \<Rightarrow> string option \<Rightarrow> string option \<Rightarrow> string option \<Rightarrow> string option \<Rightarrow> ('w, 'j, pdict) control_io"
where
  "control_read jc subject task_id hold_id thread_id turn_id =
     (if subject = ''capabilities''
      then io_return (jarvis_receipt ''jarvis_read'' ''completed'' PNone PNone (Some (capability_table jc)) [])
      else if subject = ''thread'' then read_thread jc task_id
      else if subject = ''hold'' then read_hold jc hold_id
      else if subject = ''history'' then read_history jc task_id hold_id thread_id turn_id
      else io_return (refusal ''jarvis_read'' ''invalid_request'' PNone ''subject must be capabilities, thread, hold, or history''))"

definition control_update :: "('w, 'j) control \<Rightarrow> string \<Rightarrow> string \<Rightarrow> ('w, 'j, pdict) control_io" where
  "control_update jc action request_id =
     (case pv_attr jc pv_update of
        None \<Rightarrow> io_return (unsupported ''jarvis_update'' ''no Codex runtime update adapter is configured'')
      | Some updater \<Rightarrow> io_try (updater action request_id)
          (\<lambda>e. io_return (refusal ''jarvis_update'' (if is_value_error e then ''invalid_request'' else ''failed'')
             (PStr request_id) (exc_text e)))
          (\<lambda>d. let status = py_str (py_or (dget d ''status'') (PStr ''failed'')) in
             io_return (jarvis_receipt ''jarvis_update'' status (PStr request_id) (dget d ''reason'')
               (case dget d ''data'' of PDict x \<Rightarrow> Some x | _ \<Rightarrow> None) (readback_of (status = ''completed'') True))))"


section \<open>Monitoring\<close>

definition control_invoke ::
    "('w, 'j) control \<Rightarrow> instant \<Rightarrow> string \<Rightarrow> string \<Rightarrow> string \<Rightarrow> string \<Rightarrow> pdict \<Rightarrow> ('w, 'j, pdict) control_io"
where
  "control_invoke jc now tool capability request_id source_ref arguments =
     io_catch
       (io_bind (io_lift (check_capability_request \<lparr> cq_request_id = request_id, cq_capability = capability,
            cq_source_ref = source_ref, cq_arguments = PDict arguments, cq_schema = capability_schema \<rparr>)) (\<lambda>q.
        io_bind (in_port (port_invoke (jc_port jc) now q)) (\<lambda>r.
        io_return (full_receipt tool (cp_status r) (PStr (cp_request_id r)) (opt_str (cp_target r)) (opt_str (cp_turn_id r))
          (opt_str (cp_reason r)) (cp_data r) [(''verified'', PBool (cp_status r = ''completed''))]))))
       (\<lambda>e. if is_runtime_error e \<or> is_value_error e
            then io_return (refusal tool ''invalid_request'' (PStr request_id) (exc_text e)) else io_raise e)"

record monitor_args =
  ma_action :: string
  ma_request_id :: string
  ma_monitor_id :: "string option"
  ma_source_ref :: string
  ma_observed :: "string option"
  ma_receipt :: "string option"
  ma_resume :: "string option"
  ma_prompt :: "string option"
  ma_model :: "string option"
  ma_effort :: "string option"
  ma_hold_id :: "string option"
  ma_event_type :: "string option"

definition truthy_option :: "string option \<Rightarrow> string option" where
  "truthy_option z = (case z of None \<Rightarrow> None | Some s \<Rightarrow> if s = [] then None else Some s)"

definition terminal_words :: "string list" where
  "terminal_words = [''completed'', ''failed'', ''interrupted'', ''cancelled'', ''canceled'', ''turn_limit_reached'', ''blocked'']"

definition status_verified :: "pdict \<Rightarrow> bool" where
  "status_verified d \<longleftrightarrow> py_lower (text_or_empty (data_lifecycle d)) \<in> set terminal_words \<and>
     stripped (dget d ''thread_id'') \<noteq> [] \<and> stripped (dget d ''turn_id'') \<noteq> [] \<and>
     dget_or d ''terminal_confirmed'' (PBool True) = PBool True"

definition status_reader :: "('w, 'j) control \<Rightarrow> (string \<Rightarrow> ('w, 'j, pdict) control_io) option" where
  "status_reader jc = (case pv_attr jc pv_hold_status of Some f \<Rightarrow> Some f | None \<Rightarrow> pv_attr jc pv_monitor_status)"

definition monitor_status :: "('w, 'j) control \<Rightarrow> monitor_args \<Rightarrow> ('w, 'j, pdict) control_io" where
  "monitor_status jc a =
     (case status_reader jc of
        None \<Rightarrow> io_return (refusal ''jarvis_monitor'' ''unsupported'' (PStr (ma_request_id a)) ''no task monitor status adapter is configured'')
      | Some reader \<Rightarrow>
          (case (case truthy_option (ma_hold_id a) of Some h \<Rightarrow> Some h | None \<Rightarrow> truthy_option (ma_monitor_id a)) of
             None \<Rightarrow> io_return (refusal ''jarvis_monitor'' ''invalid_request'' (PStr (ma_request_id a)) ''hold_id is required for action=status'')
           | Some target \<Rightarrow> io_try (reader target)
               (\<lambda>e. io_return (refusal ''jarvis_monitor'' ''failed'' (PStr (ma_request_id a)) (exc_text e)))
               (\<lambda>d. io_return (jarvis_receipt ''jarvis_monitor'' ''completed'' (PStr (ma_request_id a)) PNone (Some d)
                  (readback_of (status_verified d) (status_verified d))))))"

text \<open>One pending notification event of a hold: delivered through the notifier, and recorded.\<close>

definition event_id_of :: "pdict \<Rightarrow> string" where
  "event_id_of event = stripped (dget event ''event_id'')"

definition event_selected :: "string option \<Rightarrow> pdict \<Rightarrow> bool" where
  "event_selected kind event \<longleftrightarrow>
     (case kind of None \<Rightarrow> True | Some k \<Rightarrow> text_or_empty (dget event ''event_type'') = k) \<and> event_id_of event \<noteq> []"

definition failed_delivery :: "pyexc \<Rightarrow> pdict" where
  "failed_delivery e = [(''delivery_status'', PStr ''failed''), (''reason'', PStr (exc_text e))]"

definition deliver_event ::
    "(string \<Rightarrow> string \<Rightarrow> string \<Rightarrow> ('w, 'j, pdict) control_io) \<Rightarrow> (string \<Rightarrow> string \<Rightarrow> pdict \<Rightarrow> ('w, 'j, unit) control_io) \<Rightarrow>
     monitor_args \<Rightarrow> string \<Rightarrow> pdict \<Rightarrow> ('w, 'j, pdict) control_io"
where
  "deliver_event notifier recorder a hold event =
     (let event_id = event_id_of event in
      io_bind (io_catch (notifier (ma_request_id a @ '':'' @ event_id) (ma_source_ref a) (text_or_empty (dget event ''message'')))
        (\<lambda>e. io_return (failed_delivery e))) (\<lambda>delivery.
      io_bind (io_catch (io_then (recorder hold event_id delivery) (io_return delivery))
        (\<lambda>e. io_return (failed_delivery e))) (\<lambda>kept.
      io_return (dmerge [(''event_id'', PStr event_id)] kept))))"

definition delivered :: "pdict \<Rightarrow> bool" where
  "delivered d \<longleftrightarrow> dget d ''delivery_status'' = PStr ''delivered'' \<and> truthy (dget d ''message_id'')"

definition delivery_receipt :: "monitor_args \<Rightarrow> string \<Rightarrow> pdict list \<Rightarrow> pdict" where
  "delivery_receipt a hold deliveries =
     (let verified = list_all delivered deliveries in
      jarvis_receipt ''jarvis_monitor'' (if verified then ''completed'' else ''requires_readback'') (PStr (ma_request_id a)) PNone
        (Some [(''hold_id'', PStr hold), (''deliveries'', PList (map PDict deliveries))]) (readback_of verified False))"

definition with_lock :: "('w, unit) io \<times> ('w, unit) io \<Rightarrow> ('w, 'a) io \<Rightarrow> ('w, 'a) io" where
  "with_lock l m = io_then (fst l) (io_finally m (snd l))"

definition deliver_pending ::
    "('w, 'j) control \<Rightarrow> (string \<Rightarrow> string \<Rightarrow> string \<Rightarrow> ('w, 'j, pdict) control_io) \<Rightarrow> (string \<Rightarrow> ('w, 'j, pdict list) control_io) \<Rightarrow>
     (string \<Rightarrow> string \<Rightarrow> pdict \<Rightarrow> ('w, 'j, unit) control_io) \<Rightarrow> monitor_args \<Rightarrow> string \<Rightarrow> ('w, 'j, pdict list) control_io"
where
  "deliver_pending jc notifier pending recorder a hold =
     with_lock (case pv_attr jc pv_delivery_lock of None \<Rightarrow> (io_return (), io_return ()) | Some f \<Rightarrow> f hold)
       (io_bind (pending hold) (\<lambda>events.
        io_map (deliver_event notifier recorder a hold) (filter (event_selected (ma_event_type a)) events)))"

definition deliver_notifications :: "('w, 'j) control \<Rightarrow> monitor_args \<Rightarrow> ('w, 'j, pdict) control_io" where
  "deliver_notifications jc a =
     (case truthy_option (ma_hold_id a) of
        None \<Rightarrow> io_return (refusal ''jarvis_monitor'' ''invalid_request'' (PStr (ma_request_id a)) ''hold_id is required for action=deliver_hold_notifications'')
      | Some hold \<Rightarrow> (case jc_notifier jc of
          None \<Rightarrow> io_return (unsupported ''jarvis_monitor'' ''no verified notification adapter is configured'')
        | Some notifier \<Rightarrow> (case (pv_attr jc pv_pending, pv_attr jc pv_record_delivery) of
            (Some pending, Some recorder) \<Rightarrow>
              io_try (deliver_pending jc notifier pending recorder a hold)
                (\<lambda>e. io_return (jarvis_receipt ''jarvis_monitor'' ''failed'' (PStr (ma_request_id a)) (PStr (exc_text e)) None
                   (readback_of False False)))
                (\<lambda>ds. io_return (delivery_receipt a hold ds))
          | _ \<Rightarrow> io_return (refusal ''jarvis_monitor'' ''unsupported'' (PStr (ma_request_id a))
              ''no managed-hold notification event adapter is configured''))))"

definition monitor_capability :: "string \<Rightarrow> string option" where
  "monitor_capability action = map_of [(''observe'', ''monitor.observe''), (''terminal_resume'', ''monitor.terminal_resume'')] action"

definition monitor_arguments :: "monitor_args \<Rightarrow> pdict" where
  "monitor_arguments a =
     [(''monitor_id'', opt_str (ma_monitor_id a)), (''observed_thread_id'', opt_str (ma_observed a)),
      (''receipt_target_thread_id'', opt_str (ma_receipt a)), (''resume_target_thread_id'', opt_str (ma_resume a)),
      (''prompt'', opt_str (ma_prompt a)), (''model'', opt_str (ma_model a)), (''reasoning_effort'', opt_str (ma_effort a))]"

definition control_monitor :: "('w, 'j) control \<Rightarrow> instant \<Rightarrow> monitor_args \<Rightarrow> ('w, 'j, pdict) control_io" where
  "control_monitor jc now a =
     (if ma_action a = ''status'' then monitor_status jc a
      else if ma_action a = ''deliver_hold_notifications'' then deliver_notifications jc a
      else (case monitor_capability (ma_action a) of
          None \<Rightarrow> io_return (refusal ''jarvis_monitor'' ''invalid_request'' (PStr (ma_request_id a))
            ''action must be observe, terminal_resume, status, or deliver_hold_notifications'')
        | Some capability \<Rightarrow>
            if blank_option (ma_monitor_id a)
            then io_return (refusal ''jarvis_monitor'' ''invalid_request'' (PStr (ma_request_id a))
              (''monitor_id is required for action='' @ ma_action a))
            else if truthy_option (ma_observed a) = None \<or> truthy_option (ma_receipt a) = None
            then io_return (refusal ''jarvis_monitor'' ''invalid_request'' (PStr (ma_request_id a))
              ''observed_task_id and receipt_task_id are required'')
            else control_invoke jc now ''jarvis_monitor'' capability (ma_request_id a) (ma_source_ref a) (monitor_arguments a)))"

text \<open>\<open>deliver_pending_hold_notifications\<close>: the terminal events of every hold that has some.\<close>

definition terminal_delivery_args :: "string \<Rightarrow> string \<Rightarrow> string \<Rightarrow> monitor_args" where
  "terminal_delivery_args request_id source_ref hold =
     \<lparr> ma_action = ''deliver_hold_notifications'', ma_request_id = request_id @ '':'' @ hold, ma_monitor_id = None,
       ma_source_ref = source_ref, ma_observed = None, ma_receipt = None, ma_resume = None, ma_prompt = None,
       ma_model = None, ma_effort = None, ma_hold_id = Some hold, ma_event_type = Some ''terminal'' \<rparr>"

definition drain_hold ::
    "('w, 'j) control \<Rightarrow> instant \<Rightarrow> string \<Rightarrow> string \<Rightarrow> string \<Rightarrow> ('w, 'j, pyval list \<times> bool) control_io"
where
  "drain_hold jc now request_id source_ref hold =
     io_bind (io_catch (control_monitor jc now (terminal_delivery_args request_id source_ref hold))
       (\<lambda>e. io_return (jarvis_receipt ''jarvis_monitor'' ''failed'' (PStr (request_id @ '':'' @ hold)) (PStr (exc_text e)) None
          (readback_of False False)))) (\<lambda>receipt.
     io_return
       (map (\<lambda>d. PDict (dmerge [(''hold_id'', PStr hold)] (as_dict d)))
          (as_list (dget (as_dict (dget receipt ''data'')) ''deliveries'')),
        truthy (dget (as_dict (dget receipt ''readback'')) ''verified'')))"

definition deliver_all_pending :: "('w, 'j) control \<Rightarrow> instant \<Rightarrow> string \<Rightarrow> string \<Rightarrow> ('w, 'j, pdict) control_io" where
  "deliver_all_pending jc now request_id source_ref =
     (case jc_notifier jc of
        None \<Rightarrow> io_return (unsupported ''jarvis_monitor'' ''no verified notification adapter is configured'')
      | Some notifier \<Rightarrow> (case pv_attr jc pv_pending_holds of
          None \<Rightarrow> io_return (refusal ''jarvis_monitor'' ''unsupported'' (PStr request_id)
            ''no managed-hold notification discovery adapter is configured'')
        | Some holds \<Rightarrow> io_try holds
            (\<lambda>e. io_return (refusal ''jarvis_monitor'' ''failed'' (PStr request_id) (exc_text e)))
            (\<lambda>hold_ids. io_bind (io_map (drain_hold jc now request_id source_ref) hold_ids) (\<lambda>rs.
               let verified = list_all snd rs in
               io_return (jarvis_receipt ''jarvis_monitor'' (if verified then ''completed'' else ''requires_readback'')
                 (PStr request_id) PNone
                 (Some [(''hold_ids'', PList (map PStr hold_ids)), (''deliveries'', PList (concat (map fst rs)))])
                 (readback_of verified False))))))"

section \<open>Heartbeat, notification, close\<close>

definition heartbeat_capability :: "string \<Rightarrow> string option" where
  "heartbeat_capability action = map_of [(''create'', ''heartbeat.create''), (''update'', ''heartbeat.update''),
     (''cancel'', ''heartbeat.cancel''), (''health'', ''heartbeat.health'')] action"

definition control_heartbeat ::
    "('w, 'j) control \<Rightarrow> instant \<Rightarrow> string \<Rightarrow> string \<Rightarrow> string \<Rightarrow> string option \<Rightarrow> pdict \<Rightarrow> ('w, 'j, pdict) control_io"
where
  "control_heartbeat jc now action request_id source_ref heartbeat_id options =
     (case heartbeat_capability action of
        None \<Rightarrow> io_return (refusal ''jarvis_heartbeat'' ''invalid_request'' (PStr request_id) ''unknown heartbeat action'')
      | Some capability \<Rightarrow>
          if \<not> heartbeat_available (jc_port jc)
          then io_return (refusal ''jarvis_heartbeat'' ''unsupported'' (PStr request_id)
            ''no scheduler-owned heartbeat adapter is configured'')
          else control_invoke jc now ''jarvis_heartbeat'' capability request_id source_ref
            (case heartbeat_id of None \<Rightarrow> options | Some h \<Rightarrow> dset options ''heartbeat_id'' (PStr h)))"

definition control_notify :: "('w, 'j) control \<Rightarrow> string \<Rightarrow> string \<Rightarrow> string \<Rightarrow> ('w, 'j, pdict) control_io" where
  "control_notify jc request_id source_ref message =
     (case jc_notifier jc of
        None \<Rightarrow> io_return (unsupported ''jarvis_notify'' ''no notification adapter is configured'')
      | Some notifier \<Rightarrow> io_try (notifier request_id source_ref message)
          (\<lambda>e. io_return (refusal ''jarvis_notify'' ''failed'' (PStr request_id) (exc_text e)))
          (\<lambda>d. io_return (jarvis_receipt ''jarvis_notify'' (py_str (py_or (dget d ''status'') (PStr ''failed'')))
             (PStr request_id) (dget d ''reason'') (Some d) [(''verified'', PBool (delivered d))])))"

definition control_stop_hold :: "('w, 'j) control \<Rightarrow> string \<Rightarrow> ('w, 'j, pdict) control_io" where
  "control_stop_hold jc hold =
     (case pv_attr jc pv_hold_stop of
        None \<Rightarrow> io_return [(''status'', PStr ''unsupported''), (''reason'', PStr ''persistent Hold stop is unavailable'')]
      | Some stopper \<Rightarrow> or_failed (stopper hold) (\<lambda>reason. [(''status'', PStr ''failed''), (''reason'', PStr reason)]))"

definition control_close_hold :: "('w, 'j) control \<Rightarrow> string \<Rightarrow> string option \<Rightarrow> pdict option \<Rightarrow> ('w, 'j, pdict) control_io" where
  "control_close_hold jc hold request_id parent =
     (case pv_attr jc pv_close_hold of
        None \<Rightarrow> io_raise (RuntimeError ''durable Hold closure is unavailable'')
      | Some closer \<Rightarrow> closer hold request_id parent)"

text \<open>\<open>close()\<close> of the control itself.\<close>

definition control_shutdown :: "('w, 'j) control \<Rightarrow> ('w, 'j, unit) control_io" where
  "control_shutdown jc = (case pv_attr jc pv_close of None \<Rightarrow> io_return () | Some m \<Rightarrow> m)"

section \<open>The control as the runtime of its loops\<close>

definition loop_monitor_args :: "string \<Rightarrow> string \<Rightarrow> string \<Rightarrow> monitor_args" where
  "loop_monitor_args request_id source_ref hold =
     \<lparr> ma_action = ''status'', ma_request_id = request_id, ma_monitor_id = None, ma_source_ref = source_ref,
       ma_observed = None, ma_receipt = None, ma_resume = None, ma_prompt = None, ma_model = None, ma_effort = None,
       ma_hold_id = Some hold, ma_event_type = None \<rparr>"

definition control_runtime :: "('w, 'j) control \<Rightarrow> instant \<Rightarrow> ('w, 'j) monitor_world loop_runtime" where
  "control_runtime jc now =
     \<lparr> rt_hold = control_hold jc,
       rt_monitor = (\<lambda>rid src hold. control_monitor jc now (loop_monitor_args rid src hold)),
       rt_heartbeat_create = (\<lambda>rid src options. control_heartbeat jc now ''create'' rid src None options),
       rt_heartbeat_cancel = (\<lambda>rid src hid. control_heartbeat jc now ''cancel'' rid src (Some hid) []),
       rt_stop_hold = Some (control_stop_hold jc),
       rt_close_hold = Some (\<lambda>hold rid parent. control_close_hold jc hold (Some rid) (Some parent)) \<rparr>"

datatype control_reply =
    Plain pdict
  | Loop_Reply string pyval pyval loop_result pdict
  | Reconciled pyval "(string \<times> string) list"

text \<open>The reply of a loop operation: status, request, reason, the loop's result, readback.\<close>

definition loop_reply :: "pdict \<Rightarrow> loop_result \<Rightarrow> control_reply" where
  "loop_reply options r =
     Loop_Reply (lr_status r) (dget options ''request_id'') (opt_str (lr_reason r)) r
       (readback_of (lr_status r \<notin> {''invalid_request'', ''blocked''}) (lr_status r \<in> {''completed'', ''stopped'', ''expired''}))"

definition required_workers :: "pdict \<Rightarrow> int" where
  "required_workers options = (case int_instance (dget options ''target_thread_count'') of
      Some n \<Rightarrow> if 0 < n then n else 1 | None \<Rightarrow> 1)"

definition host_health :: "('w, 'j) control \<Rightarrow> pdict \<Rightarrow> ('w, 'j, pdict) control_io" where
  "host_health jc options =
     (case jc_provisioner jc of
        None \<Rightarrow> io_return [(''status'', PStr ''host_not_ready''), (''reason'', PStr ''no HoldHost health adapter is configured'')]
      | Some pv \<Rightarrow> pv_ensure_ready pv (required_workers options))"

definition control_loop_start :: "('w, 'j) control \<Rightarrow> instant \<Rightarrow> pdict \<Rightarrow> ('w, 'j, control_reply) control_io" where
  "control_loop_start jc now options =
     (case validate_start (jc_paths jc) (jc_schema jc) now options of
        Inl e \<Rightarrow> if is_value_error e
          then io_return (Plain (refusal ''jarvis_loop'' ''invalid_request'' (dget options ''request_id'') (exc_text e)))
          else io_raise e
      | Inr q \<Rightarrow>
          io_bind (host_health jc options) (\<lambda>health.
          if dget health ''status'' \<noteq> PStr ''ready''
          then io_return (Plain (jarvis_receipt ''jarvis_loop'' ''host_not_ready'' (dget options ''request_id'')
            (PStr (py_str (py_or (dget health ''reason'') (PStr ''HoldHost is not ready'')))) (Some health) (readback_of False False)))
          else io_bind (loop_start (jc_paths jc) (jc_schema jc) now (control_runtime jc now) options)
            (\<lambda>r. io_return (loop_reply options r))))"

definition loop_preflight :: "('w, 'j) control \<Rightarrow> pdict \<Rightarrow> ('w, 'j, pdict) control_io" where
  "loop_preflight jc options =
     (case pv_attr jc pv_projects of
        None \<Rightarrow> io_return (unsupported ''jarvis_loop'' ''no loop preflight adapter is configured'')
      | Some projects \<Rightarrow> io_try projects
          (\<lambda>e. io_return (refusal ''jarvis_loop'' ''failed'' (dget options ''request_id'') (exc_text e)))
          (\<lambda>ps. io_return (jarvis_receipt ''jarvis_loop'' ''completed'' (dget options ''request_id'') PNone
             (Some (preflight_contract ps)) (readback_of True False))))"

definition control_loop ::
    "('w, 'j) control \<Rightarrow> instant \<Rightarrow> string \<Rightarrow> string option \<Rightarrow> pdict \<Rightarrow> ('w, 'j, control_reply) control_io"
where
  "control_loop jc now action loop_id options =
     (let i = (case loop_id of None \<Rightarrow> [] | Some s \<Rightarrow> s); rt = control_runtime jc now in
      if \<not> jc_has_loop jc then io_return (Plain (unsupported ''jarvis_loop'' ''no loop controller is configured''))
      else if action = ''preflight'' then io_bind (loop_preflight jc options) (\<lambda>r. io_return (Plain r))
      else if action = ''start'' then control_loop_start jc now options
      else if action = ''tick'' \<or> action = ''status''
      then io_bind (loop_status_of (jc_paths jc) now rt i) (\<lambda>r. io_return (loop_reply options r))
      else if action = ''reconcile''
      then io_bind (loop_reconcile (jc_paths jc) now rt) (\<lambda>rs. io_return (Reconciled (dget options ''request_id'') rs))
      else if action = ''stop'' then io_bind (loop_stop rt i) (\<lambda>r. io_return (loop_reply options r))
      else io_return (Plain (refusal ''jarvis_loop'' ''invalid_request'' PNone ''action must be preflight, start, status, or stop'')))"

text \<open>\<open>jarvis_close\<close> of a loop and of a hold.\<close>

definition close_reason :: "bool \<Rightarrow> bool \<Rightarrow> pyval" where
  "close_reason closed unconfirmed =
     (if closed then PNone
      else if unconfirmed then PStr ''local management closed; external execution remains unconfirmed''
      else PStr ''stop requested; awaiting terminal evidence and resource release'')"

definition close_status :: "bool \<Rightarrow> bool \<Rightarrow> string" where
  "close_status closed unconfirmed =
     (if closed then ''closed'' else if unconfirmed then ''closed_unconfirmed'' else ''closing'')"

definition close_report_failed :: "loop_result \<Rightarrow> string option option" where
  "close_report_failed r = (case Option.bind (lr_state r) ls_close of
      None \<Rightarrow> None | Some cl \<Rightarrow> if cl_report_status cl = ''failed'' then Some (cl_reason cl) else None)"

definition close_loop_reply :: "pyval \<Rightarrow> loop_result \<Rightarrow> control_reply" where
  "close_loop_reply request_id r =
     (if lr_status r \<in> {''invalid_request'', ''failed''}
      then Loop_Reply (lr_status r) request_id (opt_str (lr_reason r)) r no_readback
      else (case close_report_failed r of
          Some reason \<Rightarrow> Loop_Reply ''failed'' request_id (opt_str reason) r (readback_of False False)
        | None \<Rightarrow>
            (let closed = (case lr_state r of None \<Rightarrow> False | Some s \<Rightarrow> cleanup_done s);
                 unconfirmed = (lr_status r = ''closed_unconfirmed'') in
             Loop_Reply (close_status closed unconfirmed) request_id (close_reason closed unconfirmed) r
               (readback_of True closed))))"

definition close_hold_reply :: "pyval \<Rightarrow> string \<Rightarrow> pdict \<Rightarrow> control_reply" where
  "close_hold_reply request_id hold d =
     (if in_words (dget d ''status'') [''failed'', ''unsupported'', ''invalid_request'']
      then Plain (jarvis_receipt ''jarvis_close'' (py_str (dget d ''status'')) request_id (dget d ''reason'') (Some d) (readback_of False False))
      else
        let closed = (dget d ''status'' = PStr ''closed''); unconfirmed = (dget d ''status'' = PStr ''closed_unconfirmed'') in
        Plain (jarvis_receipt ''jarvis_close'' (close_status closed unconfirmed) request_id (close_reason closed unconfirmed)
          (Some (dset d ''close_target'' (PDict [(''hold_id'', PStr hold)]))) (readback_of True closed)))"

definition jarvis_close ::
    "('w, 'j) control \<Rightarrow> instant \<Rightarrow> string option \<Rightarrow> string option \<Rightarrow> string option \<Rightarrow> ('w, 'j, control_reply) control_io"
where
  "jarvis_close jc now hold_id loop_id request_id =
     (case (truthy_option hold_id, truthy_option loop_id) of
        (None, Some l) \<Rightarrow> io_catch
          (if \<not> jc_has_loop jc then io_return (Plain (unsupported ''jarvis_close'' ''no loop controller is configured''))
           else io_bind (loop_close_of now (control_runtime jc now) l request_id) (\<lambda>r.
             io_return (close_loop_reply (opt_str request_id) r)))
          (\<lambda>e. io_return (Plain (refusal ''jarvis_close'' ''failed'' (opt_str request_id) (exc_text e))))
      | (Some h, None) \<Rightarrow> io_catch
          (io_bind (control_close_hold jc h request_id None) (\<lambda>d. io_return (close_hold_reply (opt_str request_id) h d)))
          (\<lambda>e. io_return (Plain (refusal ''jarvis_close'' ''failed'' (opt_str request_id) (exc_text e))))
      | _ \<Rightarrow> io_return (Plain (refusal ''jarvis_close'' ''invalid_request'' (opt_str request_id)
          ''provide exactly one of hold_id or loop_id'')))"

section \<open>Every failure has a receipt\<close>

definition io_total :: "('w, 'a) io \<Rightarrow> bool" where
  "io_total m \<longleftrightarrow> (\<forall>w. \<exists>x w'. m w = (Inr x, w'))"

named_theorems total_rules "rules for operations that always return"

lemma io_total_return [total_rules]: "io_total (io_return x)"
  by (simp add: io_total_def)

lemma io_total_bind [total_rules]: "io_total m \<Longrightarrow> (\<And>x. io_total (f x)) \<Longrightarrow> io_total (io_bind m f)"
  unfolding io_total_def by (metis io_bind_step(1))

lemma io_total_catch [total_rules]: "(\<And>e. io_total (h e)) \<Longrightarrow> io_total (io_catch m h)"
  unfolding io_total_def io_catch_def by (auto split: prod.splits sum.splits)

lemma io_total_try [total_rules]: "(\<And>e. io_total (h e)) \<Longrightarrow> (\<And>x. io_total (k x)) \<Longrightarrow> io_total (io_try m h k)"
  unfolding io_total_def io_try_def by (auto split: prod.splits sum.splits) 

lemma io_total_if [total_rules]: "io_total m \<Longrightarrow> io_total n \<Longrightarrow> io_total (if b then m else n)"
  by simp

lemma io_total_option [total_rules]:
  "io_total m \<Longrightarrow> (\<And>x. io_total (f x)) \<Longrightarrow> io_total (case z of None \<Rightarrow> m | Some x \<Rightarrow> f x)"
  by (cases z) simp_all

lemma io_total_prod [total_rules]: "(\<And>x y. io_total (f x y)) \<Longrightarrow> io_total (case z of (x, y) \<Rightarrow> f x y)"
  by (cases z) simp

lemma io_total_map [total_rules]: "(\<And>x. io_total (f x)) \<Longrightarrow> io_total (io_map f xs)"
  by (induction xs) (auto intro!: total_rules)

lemma or_failed_total [total_rules]: "io_total (or_failed m f)"
  unfolding or_failed_def by (intro total_rules)


section \<open>Where the release evidence of a loop comes from\<close>



text \<open>A control whose provisioner reports every hold as released, and whose threads have all ended.\<close>

definition demo_provisioner :: "(nat, journal) provisioner" where
  "demo_provisioner = \<lparr> pv_provision = (\<lambda>q. io_raise (RuntimeError ''offline'')), pv_ensure_ready = (\<lambda>n. io_return []),
     pv_projects = None, pv_hold_stop = None, pv_close_hold = None, pv_resume = None,
     pv_hold_status = Some (\<lambda>h. io_return (receipt_data demo_released)), pv_monitor_status = None,
     pv_turn_history = None, pv_update = None,
     pv_pending = Some (\<lambda>h. io_return [[(''event_id'', PStr ''e1''), (''message'', PStr ''done'')]]),
     pv_record_delivery = Some (\<lambda>h e d. io_return ()), pv_delivery_lock = None, pv_pending_holds = None, pv_close = None \<rparr>"

definition demo_control :: "(nat, journal) control" where
  "demo_control = \<lparr> jc_port = demo_port, jc_provisioner = Some demo_provisioner,
     jc_notifier = Some (\<lambda>r s m. io_return [(''delivery_status'', PStr ''delivered''), (''message_id'', PStr ''m'')]),
     jc_has_loop = True, jc_paths = demo_paths, jc_schema = (\<lambda>v. Inr ()) \<rparr>"

definition demo_world :: "(nat, journal) control_world" where
  "demo_world = \<lparr> lw_files = [], lw_world = \<lparr> mw_world = 1, mw_monitor = [], mw_journal = [] \<rparr> \<rparr>"


section \<open>Delivered notifications\<close>

lemma dget_dmerge_distinct: "distinct (map fst e) \<Longrightarrow> dget (dmerge d e) k = (case map_of e k of None \<Rightarrow> dget d k | Some v \<Rightarrow> v)"
proof -
  assume "distinct (map fst e)"
  then have "map_of (rev e) = map_of e" by (subst map_of_inject_set) (simp_all add: rev_map [symmetric])
  then show ?thesis by (simp add: dget_def map_of_dmerge split: option.splits)
qed

lemma delivered_merge: "distinct (map fst e) \<Longrightarrow> delivered (dmerge [(''event_id'', v)] e) = delivered e"
  by (simp add: delivered_def dget_dmerge_distinct del: dmerge.simps) (auto simp: dget_def split: option.splits)

lemma not_delivered_failed: "\<not> delivered (failed_delivery e)"
  by (simp add: delivered_def failed_delivery_def)

lemma deliver_event_delivered:
  assumes "deliver_event notifier recorder a hold event w = (Inr d, w')" "delivered d"
    and dicts: "\<And>r s m v x v'. notifier r s m v = (Inr x, v') \<Longrightarrow> distinct (map fst x)"
  shows "\<exists>x v v'. notifier (ma_request_id a @ '':'' @ event_id_of event) (ma_source_ref a) (text_or_empty (dget event ''message'')) w
      = (Inr x, v) \<and> delivered x \<and> recorder hold (event_id_of event) x v = (Inr (), v')"
proof -
  let ?n = "notifier (ma_request_id a @ '':'' @ event_id_of event) (ma_source_ref a) (text_or_empty (dget event ''message''))"
  have fd: "distinct (map fst (failed_delivery e))" for e by (simp add: failed_delivery_def)
  obtain r v where n: "?n w = (r, v)" by (cases "?n w")
  show ?thesis
  proof (cases r)
    case (Inl e)
    then show ?thesis using assms(1,2) n fd
      by (auto simp: deliver_event_def Let_def io_bind_def io_catch_def io_then_def delivered_merge not_delivered_failed
          split: prod.splits sum.splits)
  next
    case (Inr x)
    then show ?thesis using assms(1,2) n fd dicts
      by (auto simp: deliver_event_def Let_def io_bind_def io_catch_def io_then_def delivered_merge not_delivered_failed
          split: prod.splits sum.splits)
  qed
qed

lemma io_map_Inr_all:
  "io_map f xs w = (Inr ys, w') \<Longrightarrow> list_all2 (\<lambda>x y. \<exists>w0 w1. f x w0 = (Inr y, w1)) xs ys"
proof (induction xs arbitrary: ys w)
  case (Cons x xs)
  then show ?case by (auto simp: io_bind_Inr)
qed simp

lemma with_lock_Inr:
  assumes "with_lock l m w = (Inr x, w')"
  shows "\<exists>w1 w2. m w1 = (Inr x, w2)"
proof -
  obtain w1 where "io_finally m (snd l) w1 = (Inr x, w')"
    using assms by (auto simp: with_lock_def io_then_Inr)
  then show ?thesis by (cases "m w1") (auto simp: io_finally_def split: prod.splits sum.splits)
qed

text \<open>
  a verified delivery receipt tells the truth: when \<open>deliver_hold_notifications\<close> answers
  \<open>completed\<close>, every pending event of the hold that was asked for was handed to the notifier,
  which reported it delivered with a message id, and that delivery was recorded.
\<close>

theorem verified_delivery_is_complete:
  assumes "deliver_pending jc notifier pending recorder a hold w = (Inr ds, w')"
    and "dget (delivery_receipt a hold ds) ''status'' = PStr ''completed''"
    and "\<And>r s m v x v'. notifier r s m v = (Inr x, v') \<Longrightarrow> distinct (map fst x)"
  shows "\<exists>events v0 v1. pending hold v0 = (Inr events, v1) \<and>
    (\<forall>event \<in> set (filter (event_selected (ma_event_type a)) events).
       \<exists>x u v v'. notifier (ma_request_id a @ '':'' @ event_id_of event) (ma_source_ref a) (text_or_empty (dget event ''message'')) u
         = (Inr x, v) \<and> delivered x \<and> recorder hold (event_id_of event) x v = (Inr (), v'))"
proof -
  have all: "list_all delivered ds"
    using assms(2) by (simp add: delivery_receipt_def jarvis_receipt_def full_receipt_def Let_def split: if_splits)
  obtain w1 w2 where "io_bind (pending hold) (\<lambda>events.
      io_map (deliver_event notifier recorder a hold) (filter (event_selected (ma_event_type a)) events)) w1 = (Inr ds, w2)"
    using with_lock_Inr [OF assms(1) [unfolded deliver_pending_def]] by blast
  then obtain events w3 where p: "pending hold w1 = (Inr events, w3)"
    and m: "io_map (deliver_event notifier recorder a hold) (filter (event_selected (ma_event_type a)) events) w3 = (Inr ds, w2)"
    by (auto simp: io_bind_Inr)
  have "\<exists>d w0 w1. deliver_event notifier recorder a hold event w0 = (Inr d, w1) \<and> delivered d"
    if event: "event \<in> set (filter (event_selected (ma_event_type a)) events)" for event
    using io_map_Inr_all [OF m] all event unfolding list_all2_conv_all_nth list_all_length in_set_conv_nth by metis
  moreover have "\<exists>x u v v'. notifier (ma_request_id a @ '':'' @ event_id_of event) (ma_source_ref a) (text_or_empty (dget event ''message'')) u
         = (Inr x, v) \<and> delivered x \<and> recorder hold (event_id_of event) x v = (Inr (), v')"
    if d: "deliver_event notifier recorder a hold event w0 = (Inr d, w1)" "delivered d" for event d w0 w1
    using deliver_event_delivered [OF d] assms(3) by blast
  ultimately have "\<forall>event \<in> set (filter (event_selected (ma_event_type a)) events).
       \<exists>x u v v'. notifier (ma_request_id a @ '':'' @ event_id_of event) (ma_source_ref a) (text_or_empty (dget event ''message'')) u
         = (Inr x, v) \<and> delivered x \<and> recorder hold (event_id_of event) x v = (Inr (), v')"
    by blast
  with p show ?thesis by blast
qed

lemma verified_delivery_is_complete_witness:
  "\<exists>ds w'. deliver_pending demo_control (\<lambda>r s m. io_return [(''delivery_status'', PStr ''delivered''), (''message_id'', PStr ''m'')])
     (\<lambda>h. io_return [[(''event_id'', PStr ''e1''), (''message'', PStr ''done'')]]) (\<lambda>h e d. io_return ())
     (terminal_delivery_args ''r'' ''s'' ''h''\<lparr> ma_event_type := None \<rparr>) ''h'' demo_world = (Inr ds, w') \<and> length ds = 1"
    (is "\<exists>ds w'. deliver_pending _ ?n ?p ?r ?a _ _ = _ \<and> _")
proof -
  have id: "event_id_of [(''event_id'', PStr ''e1''), (''message'', PStr ''done'')] = ''e1''" by code_simp
  obtain ds w' where run: "deliver_pending demo_control ?n ?p ?r ?a ''h'' demo_world = (Inr ds, w')"
    and ds: "length ds = 1" "list_all delivered ds"
    by (simp add: deliver_pending_def with_lock_def pv_attr_def demo_control_def demo_provisioner_def io_finally_def
        io_then_def io_bind_def terminal_delivery_args_def event_selected_def id deliver_event_def Let_def io_catch_def
        delivered_def)
  have "dget (delivery_receipt ?a ''h'' ds) ''status'' = PStr ''completed''"
    using ds(2) by (simp add: delivery_receipt_def jarvis_receipt_def full_receipt_def)
  from verified_delivery_is_complete [OF run this] run ds(1) show ?thesis by auto
qed


section \<open>A terminal resume without a target\<close>

definition terminal_request :: "monitor_args \<Rightarrow> capability_request" where
  "terminal_request a = \<lparr> cq_request_id = ma_request_id a, cq_capability = ''monitor.terminal_resume'',
     cq_source_ref = ma_source_ref a, cq_arguments = PDict (monitor_arguments a), cq_schema = capability_schema \<rparr>"

lemma None_text: "py_strip ''None'' = ''None''"
  by code_simp

lemma py_strip_Cons: "\<not> is_space c \<Longrightarrow> py_strip (c # s) \<noteq> []"
  by (simp add: py_strip_def dropWhile_append)

lemma arg_text_None: "ma_resume a = None \<Longrightarrow> arg_text (terminal_request a) ''resume_target_thread_id'' = ''None''"
  "ma_prompt a = None \<Longrightarrow> arg_text (terminal_request a) ''prompt'' = ''None''"
  by (simp_all add: arg_text_def terminal_request_def monitor_arguments_def py_str_def)

lemma terminal_request_accepted:
  assumes "ma_resume a = None" "ma_prompt a = None" "ma_monitor_id a = Some m" "py_strip m \<noteq> []"
    and "ma_observed a = Some obs" "py_strip obs \<noteq> []" "ma_receipt a = Some rec" "py_strip rec \<noteq> []"
    and "py_strip (ma_request_id a) \<noteq> []" "py_strip (ma_source_ref a) \<noteq> []"
  shows "check_capability_request (terminal_request a) = Inr (terminal_request a)"
  using assms
  by (simp add: check_capability_request_def terminal_request_def required_arguments_def missing_arguments_def
      monitor_arguments_def py_str_def None_text Let_def)

lemma port_observe_receipt:
  "port_observe pt now q mw = (Inr r, mw1) \<Longrightarrow>
     mr_monitor_id r = arg_text q ''monitor_id'' \<and> mr_thread_id r = arg_text q ''observed_thread_id''"
  by (auto simp: port_observe_def Let_def check_receipt_route_def dest!: monitor_observe_cases
      split: sum.splits prod.splits if_splits)

text \<open>
  \<open>monitor(action="terminal_resume")\<close> accepts a call without \<open>resume_task_id\<close> and without
  \<open>prompt\<close>: the port reads the missing values with \<open>str(None)\<close>, so a changed terminal of the observed
  thread resumes the thread \<open>None\<close> with the prompt \<open>None\<close>.
\<close>

theorem terminal_resume_without_target:
  assumes "ma_action a = ''terminal_resume''" "ma_resume a = None" "ma_prompt a = None"
    and "ma_monitor_id a = Some m" "py_strip m \<noteq> []" "ma_observed a = Some obs" "py_strip obs \<noteq> []"
    and "ma_receipt a = Some rec" "py_strip rec \<noteq> []"
    and "py_strip (ma_request_id a) \<noteq> []" "py_strip (ma_source_ref a) \<noteq> []"
    and "port_observe (jc_port jc) now (terminal_request a) (lw_world x) = (Inr r, mw1)" "mr_state r = ''terminal_changed''"
  shows "\<exists>rq. rq_thread_id rq = ''None'' \<and> rq_prompt rq = ''None'' \<and>
    lw_world (snd (control_monitor jc now a x)) = snd (port_bridge (jc_port jc) now (terminal_request a) rq (Some r) mw1)"
proof -
  note q = terminal_request_accepted [OF assms(2-11)]
  have strip: "z \<noteq> []" if "py_strip z \<noteq> []" for z using that by (auto simp: py_strip_def)
  let ?rule = "request_rule (terminal_request a)"
  have rule: "check_continuation_rule ?rule = Inr ?rule" "cr_target ?rule = ''None''" "cr_prompt ?rule = ''None''"
    using assms(4-11) arg_text_None [of a] assms(2,3)
    by (simp_all add: check_continuation_rule_def missing_fields_def request_rule_def None_text)
      (simp_all add: arg_text_def terminal_request_def monitor_arguments_def)
  note r = port_observe_receipt [OF assms(12)]
  obtain rq where rq: "rule_resume_request ?rule r = Inr rq" "rq_thread_id rq = ''None''" "rq_prompt rq = ''None''"
    using r rule(2,3) assms(13) by (simp add: rule_resume_request_def request_rule_def check_resume_request_def None_text py_strip_Cons
        is_space_def char_in_def)
  have "port_invoke (jc_port jc) now (terminal_request a) (lw_world x) = port_bridge (jc_port jc) now (terminal_request a) rq (Some r) mw1"
    using assms(12,13) rule(1) rq(1) by (simp add: port_invoke_def terminal_request_def)
  then have "lw_world (snd (control_invoke jc now ''jarvis_monitor'' ''monitor.terminal_resume'' (ma_request_id a)
      (ma_source_ref a) (monitor_arguments a) x)) = snd (port_bridge (jc_port jc) now (terminal_request a) rq (Some r) mw1)"
    using q by (simp add: control_invoke_def terminal_request_def io_catch_def io_bind_def in_port_def
        split: prod.splits sum.splits)
  moreover have "control_monitor jc now a = control_invoke jc now ''jarvis_monitor'' ''monitor.terminal_resume''
      (ma_request_id a) (ma_source_ref a) (monitor_arguments a)"
    using assms(1,4-9) strip by (simp add: control_monitor_def monitor_capability_def blank_option_def truthy_option_def)
  ultimately show ?thesis using rq(2,3) by auto
qed


definition demo_terminal_args :: monitor_args where
  "demo_terminal_args = \<lparr> ma_action = ''terminal_resume'', ma_request_id = ''r'', ma_monitor_id = Some ''m'', ma_source_ref = ''s'',
     ma_observed = Some ''t'', ma_receipt = Some ''t'', ma_resume = None, ma_prompt = None, ma_model = None, ma_effort = None,
     ma_hold_id = None, ma_event_type = None \<rparr>"

lemma terminal_resume_without_target_witness:
  "\<exists>rq mw1 r. rq_thread_id rq = ''None'' \<and> lw_world (snd (control_monitor demo_control 0 demo_terminal_args
     (demo_world\<lparr> lw_world := \<lparr> mw_world = 1, mw_monitor = [(''version'', PInt 2)], mw_journal = [] \<rparr> \<rparr>))) =
     snd (port_bridge demo_port 0 (terminal_request demo_terminal_args) rq (Some r) mw1)"
proof -
  have s: "py_strip ''m'' \<noteq> []" "py_strip ''t'' \<noteq> []" "py_strip ''r'' \<noteq> []" "py_strip ''s'' \<noteq> []"
    by (simp_all add: py_strip_Cons is_space_def char_in_def)
  let ?mw = "\<lparr> mw_world = 1, mw_monitor = [(''version'', PInt 2)], mw_journal = [] \<rparr>"
  obtain r mw1 where o: "port_observe demo_port 0 (terminal_request demo_terminal_args) ?mw = (Inr r, mw1)"
    "mr_state r = ''terminal_changed''"
    by (simp add: port_observe_def terminal_request_def demo_terminal_args_def arg_text_def monitor_arguments_def
        check_receipt_route_def s demo_port_def monitor_observe_def demo_eval Let_def classify_event_def)
  show ?thesis
    using terminal_resume_without_target [of demo_terminal_args "''m''" "''t''" "''t''" demo_control 0
        "demo_world\<lparr> lw_world := ?mw \<rparr>" r mw1] o s
    by (auto simp: demo_terminal_args_def demo_control_def)
qed

end
