(* ===== verification/Hold_Task.thy ===== *)
theory Hold_Task
  imports Hold_Turn_Monitor Lane_Provisioning
begin

text \<open>
  The holder of one task, \<open>packages/adapters/codex_app_server/jarvis_task_hold_host.py\<close>: the
  process that dispatches the first turn of a task, waits for its terminal, records it, and
  continues under the decisions of the turn monitor until one of them stops it.

  The locals that \<open>hold_task\<close> and its closures share (\<open>nonlocal\<close>) are the record \<open>hold_state\<close>;
  the files, the clock and the App Server client are ports over the rest of the world (\<open>hs_world\<close>),
  so they cannot touch the locals. A client call that reports back while it runs (\<open>on_phase\<close>,
  \<open>control_poll\<close>) is a \<open>client_run\<close>: it ends, or it calls back and goes on from the world the
  callback leaves. The retries of \<open>_write_json\<close> are in the port.
\<close>

section \<open>The client that calls back\<close>

datatype ('w, 'c) client_run =
    Finish "pdict result" 'w
  | Call 'c 'w "'w \<Rightarrow> ('w, 'c) client_run"

type_synonym phase = "string \<times> pdict"

record 'w hold_state =
  hs_phase :: string
  hs_confirmed :: bool
  hs_thread :: string
  hs_turn :: string
  hs_turn_count :: int
  hs_total :: int
  hs_verification :: pdict
  hs_failed_items :: int
  hs_interrupt_at :: "int option"
  hs_host_stop :: bool
  hs_dispatch :: string
  hs_client :: bool
  hs_world :: 'w

primrec run_client :: "('c \<Rightarrow> ('w hold_state, unit) io) \<Rightarrow> ('w, 'c) client_run \<Rightarrow> ('w hold_state, pdict) io" where
  "run_client back (Finish r w) = (\<lambda>s. (r, s\<lparr> hs_world := w \<rparr>))"
| "run_client back (Call c w k) = (\<lambda>s. case back c (s\<lparr> hs_world := w \<rparr>) of
      (Inl e, s1) \<Rightarrow> (Inl e, s1)
    | (Inr u, s1) \<Rightarrow> run_client back (k (hs_world s1)) s1)"

text \<open>A port operation, in the state of the holder.\<close>

definition ext :: "('w, 'a) io \<Rightarrow> ('w hold_state, 'a) io" where
  "ext m s = (case m (hs_world s) of (r, w) \<Rightarrow> (r, s\<lparr> hs_world := w \<rparr>))"

record turn_call =
  tc_thread :: string
  tc_prompt :: string
  tc_message_id :: string
  tc_model :: pyval
  tc_effort :: pyval
  tc_binding :: pdict

record 'w hold_ports =
  hp_pid :: int
  hp_now :: "'w \<Rightarrow> instant"
  hp_monotonic :: "'w \<Rightarrow> int"
  hp_lock :: "('w, unit) io"
  hp_unlock :: "('w, unit) io"
  hp_read_request :: "('w, pdict) io"
  hp_write_request :: "pdict \<Rightarrow> ('w, unit) io"
  hp_read_close :: "('w, pdict) io"
  hp_write_ack :: "pdict \<Rightarrow> ('w, unit) io"
  hp_write_result :: "pdict \<Rightarrow> ('w, unit) io"
  hp_read_result :: "('w, pdict option) io"
  hp_append_events :: "pdict list \<Rightarrow> ('w, unit) io"
  hp_append_history :: "string option \<Rightarrow> pdict \<Rightarrow> ('w, unit) io"
  hp_read_history :: "string option \<Rightarrow> string \<Rightarrow> ('w, pdict list) io"
  hp_verify :: "pdict \<Rightarrow> int \<Rightarrow> ('w, pdict) io"
  hp_receive :: "pdict \<Rightarrow> int \<Rightarrow> string \<Rightarrow> string \<Rightarrow> string \<Rightarrow> ('w, pdict) io"
  hp_launch :: "pyval \<Rightarrow> bool \<Rightarrow> ('w, unit) io"
  hp_start_client :: "('w, unit) io"
  hp_resume_turn :: "turn_call \<Rightarrow> 'w \<Rightarrow> ('w, phase) client_run"
  hp_create_task :: "pdict \<Rightarrow> 'w \<Rightarrow> ('w, phase) client_run"
  hp_start_turn :: "turn_call \<Rightarrow> 'w \<Rightarrow> ('w, phase) client_run"
  hp_wait_terminal :: "string \<Rightarrow> string \<Rightarrow> 'w \<Rightarrow> ('w, unit) client_run"
  hp_wait_readback :: "string \<Rightarrow> string \<Rightarrow> bool \<Rightarrow> ('w, pyval) io"
  hp_thread_read :: "string \<Rightarrow> ('w, pdict) io"
  hp_interrupt :: "string \<Rightarrow> string \<Rightarrow> ('w, pdict) io"
  hp_close_client :: "('w, unit) io"
  hp_has_process :: "'w \<Rightarrow> bool"
  hp_process_exited :: "'w \<Rightarrow> bool"
  hp_user_claim :: "'w \<Rightarrow> bool"
  hp_refresh_close :: "pdict \<Rightarrow> ('w, unit) io"

section \<open>Helpers\<close>

definition int_list :: "pyval list \<Rightarrow> int list result" where
  "int_list xs = rmap py_int xs"

definition notification_policy_of :: "pyval \<Rightarrow> notification_policy result" where
  "notification_policy_of value =
     (let raw = as_dict value; milestones = py_or (dget raw ''milestones'') (PList []) in
      if \<not> is_list milestones then Inl (RuntimeError ''notifications.milestones must be a list'')
      else (case int_list (as_list milestones) of
          Inl e \<Rightarrow> Inl (RuntimeError ''notifications.milestones must contain integers'')
        | Inr ns \<Rightarrow> (case dget_or raw ''terminal'' (PBool False) of
            PBool b \<Rightarrow> check_notification_policy
              \<lparr> milestone_turns = map PInt (sort (remdups ns)), np_terminal = b \<rparr>
          | _ \<Rightarrow> Inl (RuntimeError ''notifications.terminal must be a boolean''))))"

definition event_row :: "instant \<Rightarrow> notification_event \<Rightarrow> pdict" where
  "event_row now e =
     [(''event_id'', PStr (ne_event_id e)), (''event_type'', PStr (ne_event_type e)), (''hold_id'', PStr (ne_hold_id e)),
      (''thread_id'', PStr (ne_thread_id e)), (''turn_id'', PStr (ne_turn_id e)), (''turn_count'', PInt (ne_turn_count e)),
      (''status'', PStr (ne_status e)), (''message'', PStr (ne_message e)), (''observed_at'', PStr (isoformat now))]"

definition append_monitor_events :: "'w hold_ports \<Rightarrow> hold_turn_decision \<Rightarrow> ('w hold_state, unit) io" where
  "append_monitor_events p d =
     (if hd_notification_events d = [] then io_return ()
      else io_bind (io_get (\<lambda>s. hp_now p (hs_world s))) (\<lambda>now.
        ext (hp_append_events p (map (event_row now) (hd_notification_events d)))))"

definition validate_monitor_command :: "hold_turn_decision \<Rightarrow> string \<Rightarrow> string \<Rightarrow> unit result" where
  "validate_monitor_command d hold_id turn_id =
     (if hd_hold_id d \<noteq> hold_id then Inl (RuntimeError ''monitor command hold_id does not match active hold'')
      else if hd_expected_turn_id d \<noteq> turn_id
        then Inl (RuntimeError ''monitor command expected_turn_id does not match active turn'')
      else raise_if (py_strip (hd_command_id d) = []) (RuntimeError ''monitor command_id is required''))"

definition schema_part :: "pdict \<Rightarrow> pdict" where
  "schema_part contract = (if dhas contract ''output_schema''
     then [(''output_schema'', dget contract ''output_schema'')] else [])"

text \<open>\<open>contract["receipt_paths"][str(candidate)]\<close>.\<close>

definition receipt_entry :: "pdict \<Rightarrow> int \<Rightarrow> pyval result" where
  "receipt_entry contract i = rbind (dindex contract ''receipt_paths'') (\<lambda>ps. dindex (as_dict ps) (id_key i))"

text \<open>The contract a worker sees for the items of its turn.\<close>

definition turn_contract :: "pdict \<Rightarrow> pdict \<Rightarrow> int list \<Rightarrow> int \<Rightarrow> int \<Rightarrow> pdict result" where
  "turn_contract request contract ids sz turn =
     rbind (if ids = [] then Inl (IndexError ''list index out of range'') else Inr ()) (\<lambda>_.
     rbind (if sz = 1
            then rbind (receipt_entry contract (hd ids)) (\<lambda>v. Inr (''receipt_path'', v))
            else rbind (rmap (\<lambda>i. rbind (receipt_entry contract i) (\<lambda>v. Inr (id_key i, v))) ids)
              (\<lambda>ps. Inr (''receipt_paths'', PDict ps))) (\<lambda>receipts.
     rbind (dindex contract ''terminal_statuses'') (\<lambda>statuses.
     rbind (dindex request ''request_id'') (\<lambda>rid.
     Inr (schema_part contract @ [receipts, (''terminal_statuses'', statuses), (''request_id'', rid),
            (''turn_number'', PInt turn)])))))"

definition turn_input_binding :: "path_lib \<Rightarrow> pdict \<Rightarrow> int \<Rightarrow> pdict result" where
  "turn_input_binding pl request turn =
     (let binding = as_dict (dget request ''input_binding'') in
      if \<not> dhas binding ''lane_item_count'' then Inr binding
      else
        rbind (final_answer_mode pl binding) (\<lambda>pocket.
        rbind (lane_batch_ids binding turn) (\<lambda>ids.
        let slice = dset binding ''candidate_ids'' (PList (map PInt ids)) in
        if \<not> is_dict (dget binding ''result_verification'') then Inr slice
        else let contract = as_dict (dget binding ''result_verification'') in
          if pocket then Inr (dset slice ''result_verification''
            (PDict ((''mode'', PStr ''final_answer_json'') # schema_part contract)))
          else rbind (lane_batch_size binding) (\<lambda>sz.
            rbind (turn_contract request contract ids sz turn) (\<lambda>c.
            Inr (dset slice ''result_verification'' (PDict c)))))))"

definition loop_task_prefix :: string where
  "loop_task_prefix = ''jarvis_loop_task:''"

text \<open>\<open>s.rsplit(":", 1)[0]\<close> of a text with a colon.\<close>

definition before_last_colon :: "string \<Rightarrow> string" where
  "before_last_colon s = rev (drop 1 (dropWhile (\<lambda>c. c \<noteq> CHR '':'') (rev s)))"

definition task_id_of :: "pdict \<Rightarrow> string \<Rightarrow> string" where
  "task_id_of request hold_id =
     (let source = text_or_empty (dget request ''source_ref'') in
      if prefix loop_task_prefix source then drop (length loop_task_prefix) source
      else if prefix ''loop-'' hold_id \<and> CHR '':'' \<in> set hold_id then before_last_colon hold_id
      else hold_id)"

definition candidate_id_of :: "path_lib \<Rightarrow> pdict \<Rightarrow> int \<Rightarrow> pyval result" where
  "candidate_id_of pl request turn =
     (let binding = as_dict (dget request ''input_binding'') in
      rbind (if dhas binding ''lane_item_count'' then lane_batch_size binding else Inr 1) (\<lambda>sz.
      if 1 < sz then Inr PNone
      else rbind (turn_input_binding pl request turn) (\<lambda>b. Inr (case dget b ''candidate_ids'' of
          PList [v] \<Rightarrow> (case int_instance v of Some i \<Rightarrow> v | None \<Rightarrow> PNone)
        | _ \<Rightarrow> PNone))))"

section \<open>The job and its closures\<close>

record hold_job =
  hj_paths :: path_lib
  hj_request :: pdict
  hj_request_id :: string
  hj_max_turns :: int
  hj_auto_continue :: bool
  hj_continue_prompt :: string
  hj_hold_id :: string
  hj_turn0 :: int
  hj_total0 :: int
  hj_mode :: string

definition at_least_one :: "pyval \<Rightarrow> pyval \<Rightarrow> int result" where
  "at_least_one v fallback = rbind (py_int (py_or v fallback)) (\<lambda>n. Inr (max n 1))"

text \<open>The default text is \<open>jixu\<close>, continue, in Chinese.\<close>

definition default_continue :: string where
  "default_continue = map char_of [231::nat, 187, 167, 231, 187, 173]"

definition hold_job_of :: "path_lib \<Rightarrow> pdict \<Rightarrow> hold_job result" where
  "hold_job_of pl request =
     (let rid = stripped (dget request ''request_id'');
          prompt = py_strip (py_str (py_or (dget request ''continue_prompt'') (PStr default_continue))) in
      rbind (at_least_one (dget request ''max_turns'') (PInt 1)) (\<lambda>max_turns.
      rbind (at_least_one (dget request ''initial_turn_count'') (PInt 1)) (\<lambda>turn0.
      rbind (at_least_one (dget request ''initial_total_turn_count'') (PInt turn0)) (\<lambda>total0.
      Inr \<lparr> hj_paths = pl, hj_request = request, hj_request_id = rid, hj_max_turns = max_turns,
            hj_auto_continue = truthy (dget request ''auto_continue''),
            hj_continue_prompt = (if prompt = [] then default_continue else prompt),
            hj_hold_id = py_str (py_or (dget request ''hold_id'') (py_or (dget request ''monitor_id'') (PStr (''hold-'' @ rid)))),
            hj_turn0 = turn0, hj_total0 = total0,
            hj_mode = py_str (py_or (dget request ''mode'') (PStr ''create'')) \<rparr>))))"

definition recovering :: "hold_job \<Rightarrow> bool" where
  "recovering j \<longleftrightarrow> dget (hj_request j) ''mode'' = PStr ''recover''"

definition initial_hold_state :: "hold_job \<Rightarrow> 'w \<Rightarrow> 'w hold_state" where
  "initial_hold_state j w =
     \<lparr> hs_phase = ''hold_started'', hs_confirmed = (\<not> recovering j),
       hs_thread = stripped (dget (hj_request j) ''thread_id''),
       hs_turn = (if recovering j then stripped (dget (hj_request j) ''turn_id'') else []),
       hs_turn_count = hj_turn0 j, hs_total = hj_total0 j, hs_verification = [(''status'', PStr ''not_checked'')],
       hs_failed_items = 0, hs_interrupt_at = None, hs_host_stop = False,
       hs_dispatch = (if recovering j then ''unknown'' else ''not_sent''), hs_client = False, hs_world = w \<rparr>"

definition now_text :: "'w hold_ports \<Rightarrow> 'w hold_state \<Rightarrow> pyval" where
  "now_text p s = PStr (isoformat (hp_now p (hs_world s)))"

definition phase_dispatch :: "string \<Rightarrow> string \<Rightarrow> string" where
  "phase_dispatch ph old = (if ph = ''turn_starting'' then ''possibly_sent''
     else if ph = ''turn_started'' then ''sent'' else old)"

definition bind_phase :: "string \<Rightarrow> pdict \<Rightarrow> 'w hold_state \<Rightarrow> 'w hold_state" where
  "bind_phase ph details s = s\<lparr> hs_phase := ph, hs_dispatch := phase_dispatch ph (hs_dispatch s),
     hs_thread := (if truthy (dget details ''thread_id'') then py_str (dget details ''thread_id'') else hs_thread s),
     hs_turn := (if truthy (dget details ''turn_id'') then py_str (dget details ''turn_id'') else hs_turn s) \<rparr>"

definition report_row :: "'w hold_ports \<Rightarrow> hold_job \<Rightarrow> 'w hold_state \<Rightarrow> pdict" where
  "report_row p j s =
     [(''request_id'', PStr (hj_request_id j)), (''status'', PStr ''accepted''), (''phase'', PStr (hs_phase s)),
      (''dispatch_evidence'', PStr (hs_dispatch s)), (''pid'', PInt (hp_pid p)), (''hold_id'', PStr (hj_hold_id j)),
      (''thread_id'', PStr (hs_thread s)), (''turn_id'', PStr (hs_turn s)), (''turn_count'', PInt (hj_turn0 j)),
      (''session_turn_count'', PInt (hj_turn0 j)), (''total_turn_count'', PInt (hj_total0 j)),
      (''max_turns'', PInt (hj_max_turns j)), (''observed_at'', now_text p s)]"

definition hold_report :: "'w hold_ports \<Rightarrow> hold_job \<Rightarrow> phase \<Rightarrow> ('w hold_state, unit) io" where
  "hold_report p j ph =
     io_then (io_modify (bind_phase (fst ph) (snd ph)))
       (io_bind (io_get (report_row p j)) (\<lambda>row. ext (hp_write_ack p (dmerge row (snd ph)))))"

text \<open>The host stop a request file selects: its own record, or the identity of a recovery.\<close>

definition identity_keys :: "string list" where
  "identity_keys = [''request_id'', ''hold_id'', ''thread_id'', ''turn_id'']"

definition host_stop_of :: "pdict \<Rightarrow> pyval option" where
  "host_stop_of current =
     (if dget current ''host_stop'' \<noteq> PNone then Some (dget current ''host_stop'')
      else if dget current ''mode'' = PStr ''recover'' \<and> dget current ''stop_requested'' = PBool True
      then Some (PDict (map (\<lambda>k. (k, dget current k)) identity_keys))
      else None)"

definition stop_identity_ok :: "hold_job \<Rightarrow> 'w hold_state \<Rightarrow> pdict \<Rightarrow> pyval \<Rightarrow> bool" where
  "stop_identity_ok j s current control \<longleftrightarrow>
     dget current ''request_id'' = PStr (hj_request_id j) \<and> is_dict control \<and>
     dget (as_dict control) ''request_id'' = PStr (hj_request_id j) \<and>
     dget (as_dict control) ''hold_id'' = PStr (hj_hold_id j) \<and>
     dget (as_dict control) ''thread_id'' = PStr (hs_thread s) \<and>
     dget (as_dict control) ''turn_id'' = PStr (hs_turn s)"

definition ended_statuses :: "string list" where
  "ended_statuses = [''completed'', ''failed'', ''interrupted'', ''cancelled'', ''canceled'']"

text \<open>The exact terminal a recovering holder reads back, if there is one.\<close>

definition exact_terminal :: "pdict \<Rightarrow> string \<Rightarrow> string \<Rightarrow> string option" where
  "exact_terminal readback thread_id turn_id =
     (let thread = as_dict (dget readback ''thread'');
          turns = map as_dict (filter is_dict (as_list (dget thread ''turns'')));
          exact = filter (\<lambda>t. dget t ''id'' = PStr turn_id) turns in
      case exact of
        [t] \<Rightarrow> (case dget t ''status'' of
            PStr st \<Rightarrow> if dget thread ''id'' = PStr thread_id \<and> st \<in> set ended_statuses
                \<and> \<not> list_ex (\<lambda>u. dget u ''status'' = PStr ''inProgress'') turns
              then Some st else None
          | _ \<Rightarrow> None)
      | _ \<Rightarrow> None)"

definition recover_poll :: "'w hold_ports \<Rightarrow> ('w hold_state, unit) io" where
  "recover_poll p =
     io_bind (io_get (\<lambda>s. (hs_thread s, hs_turn s))) (\<lambda>(thread_id, turn_id).
     io_bind (ext (hp_thread_read p thread_id)) (\<lambda>readback.
     case exact_terminal readback thread_id turn_id of
       Some st \<Rightarrow> io_raise (RecoveredTurnTerminal st)
     | None \<Rightarrow> io_raise (HolderStopUnknown ''Recovered observer stopped; original execution terminal remains unknown'')))"

definition stop_timeout_us :: int where
  "stop_timeout_us = 5000000"

definition interrupt_poll :: "'w hold_ports \<Rightarrow> hold_job \<Rightarrow> pyval \<Rightarrow> ('w hold_state, unit) io" where
  "interrupt_poll p j control =
     io_bind (io_get (\<lambda>s. (hs_interrupt_at s, hp_monotonic p (hs_world s)))) (\<lambda>(at, mono). case at of
       None \<Rightarrow>
         io_then (io_modify (\<lambda>s. s\<lparr> hs_interrupt_at := Some mono \<rparr>))
         (io_then (hold_report p j (''host_stop_interrupting'', [(''host_stop'', control)]))
         (io_bind (io_get (\<lambda>s. (hs_thread s, hs_turn s))) (\<lambda>(thread_id, turn_id).
          io_then (ext (hp_interrupt p thread_id turn_id)) (io_return ()))))
     | Some t \<Rightarrow> io_check (stop_timeout_us \<le> mono - t)
         (HolderStopUnknown ''Owner stop timed out without exact turn/completed evidence''))"

definition control_poll :: "'w hold_ports \<Rightarrow> hold_job \<Rightarrow> ('w hold_state, unit) io" where
  "control_poll p j =
     io_try (ext (hp_read_request p))
       (\<lambda>e. if is_permission_error e then io_return () else io_raise e)
       (\<lambda>current. case host_stop_of current of
          None \<Rightarrow> io_return ()
        | Some control \<Rightarrow>
            io_bind (io_get (\<lambda>s. stop_identity_ok j s current control)) (\<lambda>ok.
            io_then (io_check (\<not> ok) (HolderStopUnknown ''Host stop identity conflict; no execution interrupt sent''))
            (io_then (io_modify (\<lambda>s. s\<lparr> hs_host_stop := True \<rparr>))
              (if recovering j then recover_poll p else interrupt_poll p j control))))"

definition stop_asked :: "'w hold_ports \<Rightarrow> hold_job \<Rightarrow> ('w hold_state, bool) io" where
  "stop_asked p j =
     io_bind (ext (hp_read_request p)) (\<lambda>current.
     io_then (io_check (\<not> py_eq (dget current ''request_id'') (dget (hj_request j) ''request_id''))
       (RuntimeError ''Hold request changed while a turn was owned''))
     (io_bind (ext (hp_read_close p)) (\<lambda>close.
      io_return (dget current ''stop_requested'' = PBool True \<or> dget close ''request_id'' = PStr (hj_request_id j)))))"

definition keep_verification :: "('w hold_state, pdict) io \<Rightarrow> ('w hold_state, pdict) io" where
  "keep_verification m = io_bind m (\<lambda>v. io_then (io_modify (\<lambda>s. s\<lparr> hs_verification := v \<rparr>)) (io_return v))"

definition verify_output :: "'w hold_ports \<Rightarrow> hold_job \<Rightarrow> ('w hold_state, pdict) io" where
  "verify_output p j = keep_verification
     (io_bind (io_get hs_total) (\<lambda>n. ext (hp_verify p (hj_request j) n)))"

definition receive_final_answer :: "'w hold_ports \<Rightarrow> hold_job \<Rightarrow> string \<Rightarrow> ('w hold_state, pdict) io" where
  "receive_final_answer p j raw = keep_verification
     (io_bind (io_get (\<lambda>s. (hs_total s, hs_thread s, hs_turn s))) (\<lambda>(n, thread_id, turn_id).
      ext (hp_receive p (hj_request j) n thread_id turn_id raw)))"

text \<open>\<open>with ProcessLock(...)\<close>: the lock is given back however the block ends.\<close>

definition locked :: "'w hold_ports \<Rightarrow> ('w hold_state, 'a) io \<Rightarrow> ('w hold_state, 'a) io" where
  "locked p m = io_then (ext (hp_lock p)) (io_finally m (ext (hp_unlock p)))"

section \<open>The first dispatch\<close>

definition hold_pocket :: "hold_job \<Rightarrow> bool result" where
  "hold_pocket j =
     (let binding = as_dict (dget (hj_request j) ''input_binding'') in
      rbind (final_answer_mode (hj_paths j) binding) (\<lambda>pocket.
      rbind (raise_if (pocket \<and> \<not> dhas binding ''lane_item_count'')
        (ValueError ''final_answer_json requires a finite lane binding'')) (\<lambda>_. Inr pocket)))"

definition cancelled_row :: "'w hold_ports \<Rightarrow> hold_job \<Rightarrow> 'w hold_state \<Rightarrow> pdict" where
  "cancelled_row p j s =
     [(''request_id'', PStr (hj_request_id j)), (''hold_id'', PStr (hj_hold_id j)), (''status'', PStr ''cancelled''),
      (''phase'', PStr ''stopped_before_dispatch''), (''terminal_confirmed'', PBool True),
      (''total_turn_count'', PInt 0), (''observed_at'', now_text p s)]"

definition holding_row :: "'w hold_ports \<Rightarrow> hold_job \<Rightarrow> 'w hold_state \<Rightarrow> pdict" where
  "holding_row p j s =
     [(''request_id'', PStr (hj_request_id j)), (''status'', PStr ''holding''), (''phase'', PStr ''turn_holding''),
      (''pid'', PInt (hp_pid p)), (''thread_id'', PStr (hs_thread s)), (''turn_id'', PStr (hs_turn s)),
      (''hold_id'', PStr (hj_hold_id j)), (''turn_count'', PInt (hs_turn_count s)),
      (''session_turn_count'', PInt (hs_turn_count s)), (''total_turn_count'', PInt (hs_total s)),
      (''max_turns'', PInt (hj_max_turns j)), (''observed_at'', now_text p s)]"

definition write_row :: "(pdict \<Rightarrow> ('w, unit) io) \<Rightarrow> ('w hold_state \<Rightarrow> pdict) \<Rightarrow> ('w hold_state, unit) io" where
  "write_row put f = io_bind (io_get f) (\<lambda>row. ext (put row))"

definition client_call ::
  "'w hold_ports \<Rightarrow> hold_job \<Rightarrow> ('w \<Rightarrow> ('w, phase) client_run) \<Rightarrow> ('w hold_state, pdict) io" where
  "client_call p j f = io_bind (io_get (\<lambda>s. f (hs_world s))) (run_client (hold_report p j))"

definition dispatch_recover :: "'w hold_ports \<Rightarrow> hold_job \<Rightarrow> ('w hold_state, unit) io" where
  "dispatch_recover p j =
     (let thread = stripped (dget (hj_request j) ''thread_id''); turn = stripped (dget (hj_request j) ''turn_id'') in
      io_then (io_modify (\<lambda>s. s\<lparr> hs_thread := thread, hs_turn := turn \<rparr>))
      (io_then (io_check (thread = [] \<or> turn = []) (RuntimeError ''hold recovery requires thread_id and turn_id''))
      (io_then (ext (hp_start_client p))
        (hold_report p j (''recovery_attached'', [(''thread_id'', PStr thread), (''turn_id'', PStr turn)])))))"

definition dispatch_resume :: "'w hold_ports \<Rightarrow> hold_job \<Rightarrow> pdict \<Rightarrow> ('w hold_state, unit) io" where
  "dispatch_resume p j binding =
     (let request = hj_request j; thread = stripped (dget request ''thread_id'') in
      io_then (io_modify (\<lambda>s. s\<lparr> hs_thread := thread \<rparr>))
      (io_then (io_check (thread = []) (RuntimeError ''hold resume requires thread_id''))
      (io_then (io_modify (\<lambda>s. s\<lparr> hs_confirmed := False \<rparr>))
      (io_bind (client_call p j (hp_resume_turn p
          \<lparr> tc_thread = thread, tc_prompt = stripped (dget request ''prompt''), tc_message_id = hj_request_id j,
            tc_model = dget request ''model'', tc_effort = dget request ''reasoning_effort'', tc_binding = binding \<rparr>))
        (\<lambda>created. io_modify (\<lambda>s. s\<lparr> hs_turn := stripped (dget created ''turn_id'') \<rparr>))))))"

definition dispatch_create :: "'w hold_ports \<Rightarrow> hold_job \<Rightarrow> pdict \<Rightarrow> ('w hold_state, unit) io" where
  "dispatch_create p j binding =
     io_then (io_modify (\<lambda>s. s\<lparr> hs_confirmed := False \<rparr>))
     (io_bind (client_call p j (hp_create_task p (dset (hj_request j) ''input_binding'' (PDict binding))))
       (\<lambda>created. io_modify (\<lambda>s. s\<lparr> hs_thread := stripped (dget created ''thread_id''),
                                     hs_turn := stripped (dget created ''turn_id'') \<rparr>)))"

text \<open>\<open>False\<close> is the early \<open>return 0\<close> of a hold that was stopped before its dispatch.\<close>

definition dispatch_first :: "'w hold_ports \<Rightarrow> hold_job \<Rightarrow> ('w hold_state, bool) io" where
  "dispatch_first p j =
     io_bind (stop_asked p j) (\<lambda>stop.
     if stop \<and> \<not> recovering j then
       io_bind (io_get (cancelled_row p j)) (\<lambda>row.
         io_then (ext (hp_write_result p row)) (io_then (ext (hp_write_ack p row)) (io_return False)))
     else
       io_then (ext (hp_launch p (dget (hj_request j) ''model'') (hj_mode j \<noteq> ''recover'')))
       (io_then (io_modify (\<lambda>s. s\<lparr> hs_client := True \<rparr>))
       (io_then (hold_report p j (''launcher_config_loaded'', []))
       (io_bind (io_lift (turn_input_binding (hj_paths j) (hj_request j) (hj_total0 j))) (\<lambda>binding.
        io_then (if hj_mode j = ''recover'' then dispatch_recover p j
                 else if hj_mode j = ''resume'' then dispatch_resume p j binding
                 else dispatch_create p j binding)
        (io_bind (io_get (\<lambda>s. hs_thread s = [] \<or> hs_turn s = [])) (\<lambda>missing.
         io_then (io_check missing
             (RuntimeError ''App Server task creation did not return thread_id and turn_id''))
           (io_return True))))))))"

section \<open>One turn\<close>

definition hold_client :: "'w hold_ports \<Rightarrow> 'w hold_state held_turn_client" where
  "hold_client p =
     \<lparr> wait_for_turn_terminal = (\<lambda>thread turn poll.
         io_bind (io_get (\<lambda>s. hp_wait_terminal p thread turn (hs_world s)))
           (run_client (\<lambda>_. case poll of None \<Rightarrow> io_return () | Some m \<Rightarrow> m))),
       wait_for_turn_readback = (\<lambda>thread turn complete. ext (hp_wait_readback p thread turn complete)) \<rparr>"

definition monitor_request ::
  "'w hold_ports \<Rightarrow> hold_job \<Rightarrow> bool \<Rightarrow> notification_policy \<Rightarrow> 'w hold_state \<Rightarrow> ('w hold_state) hold_turn_request" where
  "monitor_request p j pocket policy s =
     \<lparr> hr_hold_id = hj_hold_id j, hr_thread_id = hs_thread s, hr_turn_id = hs_turn s,
       hr_turn_count = hs_turn_count s, hr_max_turns = hj_max_turns j,
       hr_continuation_enabled = hj_auto_continue j, hr_continue_prompt = hj_continue_prompt j,
       hr_notification_policy = policy, hr_verify_output = Some (verify_output p j),
       hr_stop_requested = Some (stop_asked p j), hr_control_poll = Some (control_poll p j),
       hr_receive_final_answer = (if pocket then Some (receive_final_answer p j) else None) \<rparr>"

definition confirmed_statuses :: "string list" where
  "confirmed_statuses = [''holding'', ''completed'', ''turn_limit_reached'', ''failed'', ''blocked'',
     ''cancelled'', ''canceled'', ''interrupted'']"

definition stop_override ::
  "'w hold_ports \<Rightarrow> hold_job \<Rightarrow> ('w hold_state) hold_turn_request \<Rightarrow> hold_turn_decision \<Rightarrow>
     ('w hold_state, hold_turn_decision) io" where
  "stop_override p j r d =
     (if hd_action d \<noteq> ''CONTINUE'' then io_return d
      else io_bind (stop_asked p j) (\<lambda>stop. io_return
        (if stop then turn_stop r (hd_command_id d) ''cancelled'' (hd_final_message d) ''stop_requested'' PNone
         else d)))"

definition history_path_of :: "pdict \<Rightarrow> string option" where
  "history_path_of request = (if truthy (dget request ''turn_history_path'')
     then Some (py_str (dget request ''turn_history_path'')) else None)"

text \<open>The candidate ids of a lane that hands out more than one item per turn.\<close>

definition history_batch :: "pdict \<Rightarrow> int \<Rightarrow> pyval result" where
  "history_batch binding n =
     (if \<not> dhas binding ''lane_item_count'' then Inr PNone
      else rbind (lane_batch_size binding) (\<lambda>sz.
        if sz \<le> 1 then Inr PNone else rbind (lane_batch_ids binding n) (\<lambda>ids. Inr (PList (map PInt ids)))))"

definition history_row :: "'w hold_ports \<Rightarrow> hold_job \<Rightarrow> hold_turn_decision \<Rightarrow> 'w hold_state \<Rightarrow> pdict result" where
  "history_row p j d s =
     (let request = hj_request j; binding = as_dict (dget request ''input_binding'') in
      rbind (candidate_id_of (hj_paths j) request (hs_total s)) (\<lambda>candidate.
      rbind (history_batch binding (hs_total s)) (\<lambda>batch.
      Inr [(''task_id'', PStr (task_id_of request (hj_hold_id j))), (''hold_id'', PStr (hj_hold_id j)),
           (''request_id'', PStr (hj_request_id j)), (''thread_id'', PStr (hs_thread s)), (''turn_id'', PStr (hs_turn s)),
           (''turn_number'', PInt (hs_total s)), (''candidate_id'', candidate),
           (''status'', PStr (if dget (hs_verification s) ''status'' = PStr ''review'' then ''failed'' else hd_result_status d)),
           (''final_answer'', PStr (hd_final_message d)), (''completed_at'', now_text p s),
           (''candidate_ids'', batch),
           (''output_verification'', if dhas binding ''lane_item_count'' then PDict (hs_verification s) else PNone)])))"

definition review_items :: "pdict \<Rightarrow> int" where
  "review_items row =
     (let checked = dget_or row ''output_verification'' (PDict []) in
      int (length (filter (\<lambda>item. dget (as_dict item) ''status'' = PStr ''review'')
        (as_list (dget_or (as_dict checked) ''items'' (PList [checked]))))))"

definition record_history :: "'w hold_ports \<Rightarrow> hold_job \<Rightarrow> hold_turn_decision \<Rightarrow> ('w hold_state, unit) io" where
  "record_history p j d =
     (let path = history_path_of (hj_request j) in
      io_then (io_modify (\<lambda>s. s\<lparr> hs_phase := ''history_recording'' \<rparr>))
      (io_bind (io_get (history_row p j d)) (\<lambda>r. io_bind (io_lift r) (\<lambda>row.
       io_then (ext (hp_append_history p path row))
       (io_bind (ext (hp_read_history p path (hj_hold_id j))) (\<lambda>rows.
        io_modify (\<lambda>s. s\<lparr> hs_failed_items := sum_list (map review_items rows) \<rparr>)))))))"

definition decision_row :: "'w hold_ports \<Rightarrow> hold_job \<Rightarrow> hold_turn_decision \<Rightarrow> 'w hold_state \<Rightarrow> pdict" where
  "decision_row p j d s =
     [(''request_id'', PStr (hj_request_id j)),
      (''status'', PStr (if hd_action d = ''CONTINUE'' then ''holding'' else hd_result_status d)),
      (''phase'', PStr ''monitor_decision''), (''pid'', PInt (hp_pid p)), (''hold_id'', PStr (hj_hold_id j)),
      (''thread_id'', PStr (hs_thread s)), (''turn_id'', PStr (hs_turn s)), (''turn_count'', PInt (hs_turn_count s)),
      (''session_turn_count'', PInt (hs_turn_count s)), (''total_turn_count'', PInt (hs_total s)),
      (''max_turns'', PInt (hj_max_turns j)),
      (''monitor_command'', PDict [(''action'', PStr (hd_action d)), (''command_id'', PStr (hd_command_id d)),
         (''expected_turn_id'', PStr (hd_expected_turn_id d)), (''reason'', PStr (hd_reason d))]),
      (''reason'', PStr (hd_reason d)), (''error'', hd_error d), (''observed_at'', now_text p s)]"

text \<open>A failed next dispatch must not reuse the turn that ended.\<close>

definition forget_turn :: "'w hold_state \<Rightarrow> 'w hold_state" where
  "forget_turn s = s\<lparr> hs_confirmed := False, hs_turn := [], hs_dispatch := ''not_sent'' \<rparr>"

definition next_call :: "hold_job \<Rightarrow> hold_turn_decision \<Rightarrow> pdict \<Rightarrow> string \<Rightarrow> turn_call" where
  "next_call j d binding thread =
     \<lparr> tc_thread = thread,
       tc_prompt = (case hd_continue_prompt d of
           Some c \<Rightarrow> (if c = [] then hj_continue_prompt j else c) | None \<Rightarrow> hj_continue_prompt j),
       tc_message_id = hd_command_id d, tc_model = dget (hj_request j) ''model'',
       tc_effort = dget (hj_request j) ''reasoning_effort'', tc_binding = binding \<rparr>"

text \<open>The request of a recovery is an exact binding: it follows the turn that was dispatched.\<close>

definition advance_recovery :: "'w hold_ports \<Rightarrow> hold_job \<Rightarrow> ('w hold_state, unit) io" where
  "advance_recovery p j =
     (if hj_mode j \<noteq> ''recover'' then io_return ()
      else io_bind (ext (hp_read_request p)) (\<lambda>current.
        io_then (io_check (dget current ''request_id'' \<noteq> PStr (hj_request_id j))
          (RuntimeError ''Hold request changed during continuation''))
        (write_row (hp_write_request p) (\<lambda>s. dset (dset current ''thread_id'' (PStr (hs_thread s)))
           ''turn_id'' (PStr (hs_turn s))))))"

definition continue_turn :: "'w hold_ports \<Rightarrow> hold_job \<Rightarrow> hold_turn_decision \<Rightarrow> ('w hold_state, unit) io" where
  "continue_turn p j d =
     io_then (io_modify forget_turn)
     (io_bind (io_get (\<lambda>s. turn_input_binding (hj_paths j) (hj_request j) (hs_total s + 1))) (\<lambda>b.
      io_bind (io_lift b) (\<lambda>binding.
      io_bind (io_get hs_thread) (\<lambda>thread.
      io_bind (client_call p j (hp_start_turn p (next_call j d binding thread))) (\<lambda>started.
      io_then (io_modify (\<lambda>s. s\<lparr> hs_turn := stripped (dget started ''turn_id'') \<rparr>))
      (io_then (io_check (stripped (dget started ''turn_id'') = [])
          (RuntimeError ''monitor continuation command did not return turn_id''))
      (io_then (io_modify (\<lambda>s. s\<lparr> hs_turn_count := hs_turn_count s + 1, hs_total := hs_total s + 1 \<rparr>))
      (io_then (write_row (hp_write_ack p) (holding_row p j))
        (advance_recovery p j)))))))))"

text \<open>What happens to a decision under the lock; \<open>True\<close> when the next turn was dispatched.\<close>

definition settle_confirmed ::
  "'w hold_ports \<Rightarrow> hold_job \<Rightarrow> hold_turn_decision \<Rightarrow> ('w hold_state, bool) io" where
  "settle_confirmed p j d =
     io_then (record_history p j d)
     (io_then (write_row (hp_write_ack p) (decision_row p j d))
       (if hd_action d \<noteq> ''CONTINUE'' then io_return False
        else io_then (continue_turn p j d) (io_return True)))"

definition settle_turn ::
  "'w hold_ports \<Rightarrow> hold_job \<Rightarrow> ('w hold_state) hold_turn_request \<Rightarrow> hold_turn_decision \<Rightarrow>
     ('w hold_state, hold_turn_decision \<times> bool) io" where
  "settle_turn p j r d0 =
     io_bind (io_get hs_turn) (\<lambda>turn.
     io_then (io_lift (validate_monitor_command d0 (hj_hold_id j) turn))
     (io_bind (stop_override p j r d0) (\<lambda>d.
      io_then (append_monitor_events p d)
      (io_bind (io_get hs_confirmed) (\<lambda>confirmed.
       if \<not> confirmed then io_return (d, False)
       else io_bind (settle_confirmed p j d) (\<lambda>more. io_return (d, more)))))))"

definition observe_turn ::
  "'w hold_ports \<Rightarrow> ('w hold_state) hold_turn_request \<Rightarrow> ('w hold_state, hold_turn_decision) io" where
  "observe_turn p r =
     io_then (io_modify (\<lambda>s. s\<lparr> hs_verification := [(''status'', PStr ''not_checked'')] \<rparr>))
     (io_bind (turn_observe (hold_client p) r) (\<lambda>d.
      io_then (io_modify (\<lambda>s. s\<lparr> hs_confirmed := hd_result_status d \<in> set confirmed_statuses \<rparr>))
        (io_return d)))"

text \<open>The loop, with the number of turns it may observe; \<open>None\<close> when that ran out.\<close>

primrec hold_turns ::
  "nat \<Rightarrow> 'w hold_ports \<Rightarrow> hold_job \<Rightarrow> bool \<Rightarrow> notification_policy \<Rightarrow> ('w hold_state, hold_turn_decision option) io" where
  "hold_turns 0 p j pocket policy = io_return None"
| "hold_turns (Suc n) p j pocket policy =
     io_bind (io_get (monitor_request p j pocket policy)) (\<lambda>r.
     io_bind (observe_turn p r) (\<lambda>d0.
     io_bind (locked p (settle_turn p j r d0)) (\<lambda>(d, again).
     if again then hold_turns n p j pocket policy else io_return (Some d))))"

section \<open>The ends of a hold\<close>

definition result_row :: "'w hold_ports \<Rightarrow> hold_job \<Rightarrow> hold_turn_decision \<Rightarrow> 'w hold_state \<Rightarrow> pdict" where
  "result_row p j d s =
     [(''request_id'', PStr (hj_request_id j)), (''status'', PStr (hd_result_status d)),
      (''phase'', PStr ''turn_terminal''), (''pid'', PInt (hp_pid p)), (''thread_id'', PStr (hs_thread s)),
      (''turn_id'', PStr (hs_turn s)), (''hold_id'', PStr (hj_hold_id j)), (''turn_count'', PInt (hs_turn_count s)),
      (''session_turn_count'', PInt (hs_turn_count s)), (''total_turn_count'', PInt (hs_total s)),
      (''max_turns'', PInt (hj_max_turns j)), (''final_message'', PStr (hd_final_message d)),
      (''reason'', PStr (hd_reason d)), (''error'', hd_error d),
      (''output_verification'', PDict (hs_verification s)), (''scheduler_failed_items'', PInt (hs_failed_items s)),
      (''terminal_confirmed'', PBool (hs_confirmed s)), (''host_stop'', PBool (hs_interrupt_at s \<noteq> None)),
      (''terminal_evidence'', PStr ''owner_turn_completed''), (''observed_at'', now_text p s)]"

definition hold_body :: "nat \<Rightarrow> 'w hold_ports \<Rightarrow> hold_job \<Rightarrow> ('w hold_state, int option) io" where
  "hold_body n p j =
     io_bind (io_lift (hold_pocket j)) (\<lambda>pocket.
     io_then (hold_report p j (''hold_started'', []))
     (io_bind (locked p (dispatch_first p j)) (\<lambda>dispatched.
      if \<not> dispatched then io_return (Some 0) else
      io_then (io_modify (\<lambda>s. s\<lparr> hs_turn_count := hj_turn0 j, hs_total := hj_total0 j \<rparr>))
      (io_then (write_row (hp_write_ack p) (holding_row p j))
      (io_bind (io_lift (notification_policy_of (dget (hj_request j) ''notifications''))) (\<lambda>policy.
       io_bind (hold_turns n p j pocket policy) (\<lambda>ended. case ended of
          None \<Rightarrow> io_return None
        | Some d \<Rightarrow> io_then (write_row (hp_write_result p) (result_row p j d)) (io_return (Some 0)))))))))"

definition stop_selected :: "'w hold_state \<Rightarrow> bool" where
  "stop_selected s \<longleftrightarrow> hs_host_stop s \<or> hs_interrupt_at s \<noteq> None"

text \<open>What the exception adds to the failure record.\<close>

definition failure_of_exception :: "'w hold_ports \<Rightarrow> pyexc \<Rightarrow> 'w hold_state \<Rightarrow> pdict" where
  "failure_of_exception p e s = (case e of
      RecoveredTurnTerminal st \<Rightarrow>
        [(''status'', PStr (if st = ''completed'' then ''cancelled'' else st)), (''phase'', PStr ''host_stop_exit_pending''),
         (''terminal_confirmed'', PBool False), (''host_stop'', PBool True),
         (''execution_evidence'', PStr ''holder_exact_terminal_readback''),
         (''owner_terminal_readback'', PDict [(''thread_id'', PStr (hs_thread s)), (''turn_id'', PStr (hs_turn s)),
            (''status'', PStr st), (''observed_at'', now_text p s)])]
    | HolderStopUnknown m \<Rightarrow>
        [(''status'', PStr ''unknown''), (''phase'', PStr ''host_stop_unknown''), (''terminal_confirmed'', PBool False),
         (''execution_evidence'', PStr ''requires_owner_terminal''), (''host_stop'', PBool True)]
    | _ \<Rightarrow> [])"

definition failure_row :: "'w hold_ports \<Rightarrow> hold_job \<Rightarrow> pyexc \<Rightarrow> 'w hold_state \<Rightarrow> pdict" where
  "failure_row p j e s =
     dmerge (dmerge
      [(''request_id'', PStr (hj_request_id j)), (''hold_id'', PStr (hj_hold_id j)), (''status'', PStr ''failed''),
       (''phase'', PStr (hs_phase s)), (''pid'', PInt (hp_pid p)), (''error_code'', exc_code e),
       (''thread_id'', PStr (hs_thread s)), (''turn_id'', PStr (hs_turn s)), (''turn_count'', PInt (hs_turn_count s)),
       (''total_turn_count'', PInt (hs_total s)), (''max_turns'', PInt (hj_max_turns j)),
       (''terminal_confirmed'', PBool (hs_confirmed s)), (''reason'', PStr (exc_text e)),
       (''observed_at'', now_text p s), (''dispatch_evidence'', PStr (hs_dispatch s))]
      (if stop_selected s then [(''host_stop'', PBool True), (''execution_evidence'', PStr ''requires_owner_terminal'')]
       else []))
      (failure_of_exception p e s)"

definition hold_failure :: "'w hold_ports \<Rightarrow> hold_job \<Rightarrow> pyexc \<Rightarrow> ('w hold_state, int option) io" where
  "hold_failure p j e =
     io_bind (io_get (failure_row p j e)) (\<lambda>row.
     io_then (ext (hp_write_result p row))
     (io_then (ext (hp_write_ack p row)) (io_return (Some 1))))"

text \<open>The \<open>finally\<close> clause: whether the client this process owned is gone.\<close>

definition close_owned_client :: "'w hold_ports \<Rightarrow> ('w hold_state, bool) io" where
  "close_owned_client p =
     io_bind (io_get (\<lambda>s. hp_has_process p (hs_world s))) (\<lambda>owned.
     io_then (ext (hp_close_client p))
     (io_bind (io_get (\<lambda>s. hp_process_exited p (hs_world s))) (\<lambda>exited.
      io_bind (ext (hp_read_result p)) (\<lambda>result.
      io_then (case result of
          None \<Rightarrow> io_return ()
        | Some saved \<Rightarrow>
            if truthy (dget saved ''host_stop'') then
              ext (hp_write_result p (dset saved ''holder_client_exit_confirmed'' (PBool (owned \<and> exited))))
            else io_return ())
        (io_return (\<not> owned \<or> exited))))))"

definition mark_observer_stopped :: "'w hold_ports \<Rightarrow> hold_job \<Rightarrow> ('w hold_state, unit) io" where
  "mark_observer_stopped p j =
     io_bind (ext (hp_read_result p)) (\<lambda>result. case result of
       None \<Rightarrow> io_return ()
     | Some saved \<Rightarrow> io_bind (ext (hp_read_request p)) (\<lambda>current.
         if dget saved ''request_id'' = PStr (hj_request_id j) \<and> dget current ''request_id'' = PStr (hj_request_id j) then
           io_then (ext (hp_write_result p (dset saved ''local_observer_stopped'' (PBool True))))
           (io_bind (io_get (\<lambda>s. hp_user_claim p (hs_world s))) (\<lambda>claimed.
            ext (hp_refresh_close p (dset (dset saved ''local_observer_stopped'' (PBool True)) ''hold_released''
              (PBool (dget saved ''terminal_confirmed'' = PBool True \<and> \<not> claimed))))))
         else io_return ()))"

definition hold_cleanup :: "'w hold_ports \<Rightarrow> hold_job \<Rightarrow> ('w hold_state, unit) io" where
  "hold_cleanup p j =
     io_bind (io_get hs_client) (\<lambda>client.
     io_bind (if client then close_owned_client p else io_return True) (\<lambda>stopped.
     if stopped then mark_observer_stopped p j else io_return ()))"

definition hold_run :: "nat \<Rightarrow> 'w hold_ports \<Rightarrow> hold_job \<Rightarrow> ('w hold_state, int option) io" where
  "hold_run n p j = io_finally (io_catch (hold_body n p j) (hold_failure p j)) (hold_cleanup p j)"

definition hold_task :: "nat \<Rightarrow> path_lib \<Rightarrow> 'w hold_ports \<Rightarrow> ('w, int option) io" where
  "hold_task n pl p =
     io_bind (hp_read_request p) (\<lambda>request. io_bind (io_lift (hold_job_of pl request)) (\<lambda>j.
       \<lambda>w. (case hold_run n p j (initial_hold_state j w) of (r, s) \<Rightarrow> (r, hs_world s))))"

end
