(* ===== verification/Hold_Safety.thy ===== *)
theory Hold_Safety
  imports Hold_Task
begin

text \<open>
  What the holder of a task guarantees: it ends within its turn budget and reports, it respects a
  stop between two turns, it interrupts a turn at most once, a failed continuation claims no
  terminal, and a worker is shown the slice of its turn only.
\<close>

section \<open>What the operations leave alone\<close>

named_theorems hold_rules "the locals an operation of the holder keeps"

text \<open>A property of the locals only: the files and the client cannot change it.\<close>

definition of_locals :: "('w hold_state \<Rightarrow> bool) \<Rightarrow> bool" where
  "of_locals P \<longleftrightarrow> (\<forall>s w. P (s\<lparr> hs_world := w \<rparr>) = P s)"

lemma keeps_ext [hold_rules]: "of_locals P \<Longrightarrow> io_keeps P (ext m)"
  by (auto simp: io_keeps_def ext_def of_locals_def split: prod.splits)

lemma keeps_run_client:
  assumes "of_locals P" "\<And>c. io_keeps P (back c)"
  shows "io_keeps P (run_client back run)"
proof (induction run)
  case (Finish r w)
  then show ?case using assms(1) by (simp add: io_keeps_def of_locals_def)
next
  case (Call c w k)
  show ?case
  proof (rule io_keepsI)
    fix s assume "P s"
    then have 1: "P (s\<lparr> hs_world := w \<rparr>)" using assms(1) by (simp add: of_locals_def)
    obtain r s1 where call: "back c (s\<lparr> hs_world := w \<rparr>) = (r, s1)" by fastforce
    then have "P s1" using io_keepsD [OF assms(2) 1] by blast
    then show "P (snd (run_client back (Call c w k) s))"
      using call Call.IH [of "k (hs_world s1)"] by (cases r) (auto simp: io_keeps_def)
  qed
qed

lemma keeps_locked [hold_rules]: "of_locals P \<Longrightarrow> io_keeps P m \<Longrightarrow> io_keeps P (locked p m)"
  unfolding locked_def by (intro io_rules hold_rules)

lemma keeps_write_row [hold_rules]: "of_locals P \<Longrightarrow> io_keeps P (write_row put f)"
  unfolding write_row_def by (intro io_rules hold_rules)

text \<open>The turn counters are only written by the loop and before it.\<close>

definition counters :: "int \<times> int \<Rightarrow> 'w hold_state \<Rightarrow> bool" where
  "counters c s \<longleftrightarrow> (hs_turn_count s, hs_total s) = c"

lemma counters_local [simp]: "of_locals (counters c)"
  by (simp add: of_locals_def counters_def)

lemma counters_bind_phase [simp]: "counters c (bind_phase ph d s) = counters c s"
  by (simp add: counters_def bind_phase_def)

lemma keeps_report [hold_rules]:
  "(\<And>ph d s. P s \<Longrightarrow> P (bind_phase ph d s)) \<Longrightarrow> of_locals P \<Longrightarrow> io_keeps P (hold_report p j x)"
  unfolding hold_report_def by (intro io_rules hold_rules)

lemma keeps_client_call [hold_rules]:
  "(\<And>ph d s. P s \<Longrightarrow> P (bind_phase ph d s)) \<Longrightarrow> of_locals P \<Longrightarrow> io_keeps P (client_call p j f)"
  unfolding client_call_def by (intro io_rules keeps_run_client hold_rules)

lemma keeps_stop_asked [hold_rules]: "of_locals P \<Longrightarrow> io_keeps P (stop_asked p j)"
  unfolding stop_asked_def by (intro io_rules hold_rules)

lemma keeps_events [hold_rules]: "of_locals P \<Longrightarrow> io_keeps P (append_monitor_events p d)"
  unfolding append_monitor_events_def by (intro io_rules hold_rules)

lemma keeps_override [hold_rules]: "of_locals P \<Longrightarrow> io_keeps P (stop_override p j r d)"
  unfolding stop_override_def by (intro io_rules hold_rules)

text \<open>A property that no step of observing a turn touches.\<close>

definition unobserved :: "('w hold_state \<Rightarrow> bool) \<Rightarrow> bool" where
  "unobserved P \<longleftrightarrow> of_locals P \<and> (\<forall>ph d s. P s \<longrightarrow> P (bind_phase ph d s)) \<and>
     (\<forall>s t. P s \<longrightarrow> P (s\<lparr> hs_interrupt_at := Some t \<rparr>)) \<and> (\<forall>s. P s \<longrightarrow> P (s\<lparr> hs_host_stop := True \<rparr>)) \<and>
     (\<forall>s v. P s \<longrightarrow> P (s\<lparr> hs_verification := v \<rparr>)) \<and> (\<forall>s b. P s \<longrightarrow> P (s\<lparr> hs_confirmed := b \<rparr>))"

lemma unobservedD:
  assumes "unobserved P"
  shows "of_locals P" "P s \<Longrightarrow> P (bind_phase ph d s)" "P s \<Longrightarrow> P (s\<lparr> hs_interrupt_at := Some t \<rparr>)"
    "P s \<Longrightarrow> P (s\<lparr> hs_host_stop := True \<rparr>)" "P s \<Longrightarrow> P (s\<lparr> hs_verification := v \<rparr>)"
    "P s \<Longrightarrow> P (s\<lparr> hs_confirmed := b \<rparr>)"
  using assms by (auto simp: unobserved_def)

lemma keeps_interrupt [hold_rules]:
  assumes P: "unobserved P"
  shows "io_keeps P (interrupt_poll p j control)"
  unfolding interrupt_poll_def
  by (intro io_rules hold_rules unobservedD [OF P] keeps_report [OF unobservedD(2) [OF P] unobservedD(1) [OF P]])

lemma keeps_recover_poll [hold_rules]: "of_locals P \<Longrightarrow> io_keeps P (recover_poll p)"
  unfolding recover_poll_def by (intro io_rules hold_rules)

lemma keeps_control_poll:
  assumes P: "unobserved P"
  shows "io_keeps P (control_poll p j)"
  unfolding control_poll_def
  by (intro io_rules keeps_ext keeps_recover_poll keeps_interrupt unobservedD [OF P] P)

lemma keeps_keep_verification:
  assumes P: "unobserved P" and "io_keeps P m"
  shows "io_keeps P (keep_verification m)"
  unfolding keep_verification_def by (intro io_rules assms unobservedD [OF P])

lemma keeps_verify:
  assumes P: "unobserved P"
  shows "io_keeps P (verify_output p j)" "io_keeps P (receive_final_answer p j raw)"
  unfolding verify_output_def receive_final_answer_def
  by (intro keeps_keep_verification P io_rules keeps_ext unobservedD [OF P])+

lemma keeps_observe:
  assumes P: "unobserved P"
  shows "io_keeps P (observe_turn p (monitor_request p j pocket policy s0))"
proof -
  let ?r = "monitor_request p j pocket policy s0"
  have sel: "hr_control_poll ?r = Some (control_poll p j)" "hr_stop_requested ?r = Some (stop_asked p j)"
    "hr_verify_output ?r = Some (verify_output p j)"
    "hr_receive_final_answer ?r = (if pocket then Some (receive_final_answer p j) else None)"
    by (simp_all add: monitor_request_def)
  have wait: "io_keeps P (wait_for_turn_terminal (hold_client p) a b (hr_control_poll ?r))" for a b
    unfolding hold_client_def sel
    by (simp, intro io_rules keeps_run_client keeps_control_poll P unobservedD [OF P])
  have readback: "io_keeps P (wait_for_turn_readback (hold_client p) a b c)" for a b c
    unfolding hold_client_def by (simp, intro keeps_ext unobservedD [OF P])
  have gates: "io_keeps P (turn_gates ?r msg v)" for msg v
    unfolding turn_gates_def sel option.case
    by (intro io_rules keeps_stop_asked unobservedD [OF P])
  have verify: "io_keeps P (turn_verify ?r msg)" for msg
    unfolding turn_verify_def sel by (intro io_rules keeps_verify P) (auto split: if_splits intro: keeps_verify P)
  have completed: "io_keeps P (turn_completed ?r msg)" for msg
    unfolding turn_completed_def by (intro io_rules gates verify)
  have "io_keeps P (turn_observe (hold_client p) ?r)"
    unfolding turn_observe_def Let_def by (intro io_rules wait readback completed)
  then show ?thesis
    unfolding observe_turn_def by (intro io_rules unobservedD [OF P])
qed

lemma unobserved_counters [simp]: "unobserved (counters c)"
  by (simp add: unobserved_def) (simp add: counters_def)

section \<open>The budget of a hold\<close>

abbreviation at_count :: "int \<Rightarrow> int \<Rightarrow> 'w hold_state \<Rightarrow> bool" where
  "at_count c t \<equiv> counters (c, t)"

lemma keeps_counters [hold_rules]: "io_keeps (counters c) (hold_report p j x)" "io_keeps (counters c) (client_call p j f)"
  by (rule keeps_report keeps_client_call; simp)+

definition count_le :: "int \<Rightarrow> 'w hold_state \<Rightarrow> bool" where
  "count_le m s \<longleftrightarrow> hs_turn_count s \<le> m"

lemma counters_le: "at_count c t s \<Longrightarrow> c \<le> m \<Longrightarrow> count_le m s"
  by (simp add: counters_def count_le_def)

lemma count_advance: "at_count c t s \<Longrightarrow> at_count (c + 1) (t + 1) (s\<lparr> hs_turn_count := hs_turn_count s + 1, hs_total := hs_total s + 1 \<rparr>)"
  by (simp add: counters_def)

lemma counters_update [simp]:
  "counters c (forget_turn s) = counters c s" "counters c (s\<lparr> hs_turn := x \<rparr>) = counters c s"
  "counters c (s\<lparr> hs_phase := x \<rparr>) = counters c s" "counters c (s\<lparr> hs_failed_items := i \<rparr>) = counters c s"
  "counters c (s\<lparr> hs_confirmed := b \<rparr>) = counters c s"
  by (simp_all add: counters_def forget_turn_def)

lemma keeps_advance: "io_keeps (counters c) (advance_recovery p j)"
  unfolding advance_recovery_def by (intro io_rules hold_rules counters_local)

lemma post_continue:
  "io_post (at_count c t) (continue_turn p j d) (\<lambda>_. at_count (c + 1) (t + 1)) (\<lambda>_. count_le (c + 1))"
proof -
  have low: "at_count c t s \<Longrightarrow> count_le (c + 1) s" "at_count (c + 1) (t + 1) s \<Longrightarrow> count_le (c + 1) s" for s :: "'a hold_state"
    by (auto intro: counters_le)
  have rest: "io_post (at_count (c + 1) (t + 1))
      (io_then (write_row (hp_write_ack p) (holding_row p j)) (advance_recovery p j))
      (\<lambda>_. at_count (c + 1) (t + 1)) (\<lambda>_. count_le (c + 1))"
    by (rule io_post_keeps) (auto intro!: io_rules hold_rules keeps_advance intro: low)
  show ?thesis
    unfolding continue_turn_def
    by (intro io_post_modify [where R = "at_count c t"] io_post_modify [where R = "at_count (c + 1) (t + 1)"]
        io_post_bind_keeps io_post_check io_rules hold_rules count_advance rest)
      (auto intro: low)
qed


definition budget_left :: "hold_job \<Rightarrow> int \<Rightarrow> hold_turn_decision \<Rightarrow> bool" where
  "budget_left j c d \<longleftrightarrow> (hd_action d = ''CONTINUE'' \<longrightarrow> c < hj_max_turns j)"

definition within :: "hold_job \<Rightarrow> int \<Rightarrow> 'w hold_state \<Rightarrow> bool" where
  "within j c = count_le (max (hj_max_turns j) c)"

definition settled :: "hold_job \<Rightarrow> int \<Rightarrow> int \<Rightarrow> bool \<Rightarrow> 'w hold_state \<Rightarrow> bool" where
  "settled j c t again s \<longleftrightarrow> (if again then c < hj_max_turns j \<and> at_count (c + 1) (t + 1) s else at_count c t s)"

lemma counters_within: "at_count c t s \<Longrightarrow> within j c s"
  by (simp add: within_def counters_le)

lemma settled_within: "settled j c t again s \<Longrightarrow> within j c s"
  by (auto simp: settled_def within_def counters_def count_le_def split: if_splits)

lemma settled_stays: "settled j c t False s = at_count c t s"
  by (simp add: settled_def)

lemma of_locals_settled [simp]: "of_locals (settled j c t again)" "of_locals (within j c)"
  by (simp_all add: of_locals_def settled_def within_def counters_def count_le_def)

lemma post_settle_confirmed:
  assumes "budget_left j c d"
  shows "io_post (at_count c t) (settle_confirmed p j d) (settled j c t) (\<lambda>_. within j c)"
proof -
  have history: "io_keeps (at_count c t) (record_history p j d)"
    unfolding record_history_def Let_def by (intro io_rules hold_rules) simp_all
  have continued: "hd_action d = ''CONTINUE'' \<Longrightarrow>
      io_post (at_count c t) (io_then (continue_turn p j d) (io_return True)) (settled j c t) (\<lambda>_. within j c)"
    by (rule io_post_then, rule io_post_weaken [OF post_continue], assumption, assumption)
      (use assms in \<open>auto simp: budget_left_def settled_def within_def count_le_def intro: io_post_pure\<close>)
  show ?thesis
    unfolding settle_confirmed_def
    by (rule io_post_then_keeps [OF history counters_within], assumption,
        rule io_post_then_keeps [OF keeps_write_row [OF counters_local] counters_within], assumption,
        rule io_post_if)
      (auto intro: io_post_pure continued simp: settled_stays)
qed

lemma post_override:
  assumes "budget_left j c d"
  shows "io_post (at_count c t) (stop_override p j r d) (\<lambda>d' s. budget_left j c d' \<and> at_count c t s) (\<lambda>_. within j c)"
  unfolding stop_override_def
  by (intro post_rules hold_rules) (use assms in \<open>auto simp: budget_left_def intro: counters_within\<close>)

lemma post_settle:
  assumes "budget_left j c d0"
  shows "io_post (at_count c t) (locked p (settle_turn p j r d0))
    (\<lambda>x. settled j c t (snd x)) (\<lambda>_. within j c)"
proof -
  have tail: "io_post (\<lambda>s. budget_left j c d \<and> at_count c t s)
     (io_then (append_monitor_events p d)
     (io_bind (io_get hs_confirmed) (\<lambda>confirmed.
       if \<not> confirmed then io_return (d, False)
       else io_bind (settle_confirmed p j d) (\<lambda>more. io_return (d, more)))))
     (\<lambda>x. settled j c t (snd x)) (\<lambda>_. within j c)" for d
  proof (cases "budget_left j c d")
    case True
    have "io_post (at_count c t) (io_bind (settle_confirmed p j d) (\<lambda>more. io_return (d, more)))
        (\<lambda>x. settled j c t (snd x)) (\<lambda>_. within j c)"
      by (rule io_post_bind [OF post_settle_confirmed [OF True]]) (auto intro: io_post_pure)
    then show ?thesis
      using True
      by simp (intro io_post_then_keeps io_post_get io_post_if io_post_pure hold_rules;
        auto intro: counters_within simp: settled_stays elim: io_post_weaken)
  qed (simp add: io_post_def)
  have body: "io_post (at_count c t) (settle_turn p j r d0) (\<lambda>x. settled j c t (snd x)) (\<lambda>_. within j c)"
    unfolding settle_turn_def
    by (intro io_post_bind_keeps io_post_then_keeps io_rules io_post_bind [OF post_override [OF assms]] tail)
      (auto intro: counters_within)
  show ?thesis
    unfolding locked_def
    by (intro io_post_then_keeps hold_rules io_post_finally body) (auto intro: counters_within settled_within)
qed

lemma observe_sound: "observe_turn p r s1 = (Inr d, s2) \<Longrightarrow> sound_decision r d"
  by (auto simp: observe_turn_def io_then_def io_bind_def split: sum.splits prod.splits dest: sound_observe)

lemma post_observe:
  "io_post (at_count c t) (observe_turn p (monitor_request p j pocket policy s))
     (\<lambda>d s'. at_count c t s' \<and> (hs_turn_count s = c \<longrightarrow> budget_left j c d)) (\<lambda>_. within j c)"
proof -
  let ?r = "monitor_request p j pocket policy s"
  have "budget_left j c d" if "observe_turn p ?r s1 = (Inr d, s2)" "hs_turn_count s = c" for s1 s2 d
  proof -
    have "sound_decision ?r d" using that(1) by (rule observe_sound)
    then show ?thesis
      using that(2) by (auto simp: sound_decision_def may_continue_def budget_left_def monitor_request_def)
  qed
  then show ?thesis
    using keeps_observe [OF unobserved_counters, of "(c, t)" p j pocket policy s]
    by (intro io_postI) (auto dest: io_keepsD intro: counters_within)
qed

text \<open>The fuel: a hold observes its first turn and one more for each turn of the budget left.\<close>

definition fuel_ok :: "nat \<Rightarrow> hold_job \<Rightarrow> int \<Rightarrow> bool" where
  "fuel_ok n j c \<longleftrightarrow> nat (hj_max_turns j - c) < n"

lemma post_turns:
  assumes "fuel_ok n j c"
  shows "io_post (at_count c t) (hold_turns n p j pocket policy) (\<lambda>r s. r \<noteq> None \<and> within j c s) (\<lambda>_. within j c)"
  using assms
proof (induction n arbitrary: c t)
  case 0
  then show ?case by (simp add: fuel_ok_def)
next
  case (Suc n)
  have again: "io_post (settled j c t again) (if again then hold_turns n p j pocket policy else io_return (Some d))
      (\<lambda>r s. r \<noteq> None \<and> within j c s) (\<lambda>_. within j c)" for again d
  proof (cases "again \<and> c < hj_max_turns j")
    case True
    then have "fuel_ok n j (c + 1)" using Suc.prems by (auto simp: fuel_ok_def)
    moreover have "max (hj_max_turns j) (c + 1) = max (hj_max_turns j) c" using True by simp
    ultimately show ?thesis
      using True Suc.IH [of "c + 1" "t + 1"] by (simp add: settled_def [abs_def] within_def)
  next
    case False
    then show ?thesis
      by (cases again) (auto simp: settled_def io_post_def intro: counters_within)
  qed
  have turn: "io_post (\<lambda>s. at_count c t s \<and> monitor_request p j pocket policy s = r)
      (io_bind (observe_turn p r) (\<lambda>d0. io_bind (locked p (settle_turn p j r d0)) (\<lambda>(d, again).
         if again then hold_turns n p j pocket policy else io_return (Some d))))
      (\<lambda>r s. r \<noteq> None \<and> within j c s) (\<lambda>_. within j c)" for r
  proof (unfold io_post_def, intro allI impI, elim conjE)
    fix s assume s: "at_count c t s" and r: "monitor_request p j pocket policy s = r"
    have "io_post (at_count c t) (observe_turn p r) (\<lambda>d s'. budget_left j c d \<and> at_count c t s') (\<lambda>_. within j c)"
      using s unfolding r [symmetric] by (intro io_post_weaken [OF post_observe]) (auto simp: counters_def)
    moreover have "io_post (\<lambda>s. budget_left j c d0 \<and> at_count c t s)
        (io_bind (locked p (settle_turn p j r d0)) (\<lambda>(d, again).
          if again then hold_turns n p j pocket policy else io_return (Some d)))
        (\<lambda>r s. r \<noteq> None \<and> within j c s) (\<lambda>_. within j c)" for d0
    proof (cases "budget_left j c d0")
      case True
      have "io_post (at_count c t)
        (io_bind (locked p (settle_turn p j r d0)) (\<lambda>(d, again).
          if again then hold_turns n p j pocket policy else io_return (Some d)))
        (\<lambda>r s. r \<noteq> None \<and> within j c s) (\<lambda>_. within j c)"
        by (rule io_post_bind [OF post_settle [OF True]]) (simp only: case_prod_beta again)
      then show ?thesis using True by simp
    qed (simp add: io_post_def)
    ultimately have "io_post (at_count c t) (io_bind (observe_turn p r) (\<lambda>d0.
        io_bind (locked p (settle_turn p j r d0)) (\<lambda>(d, again).
         if again then hold_turns n p j pocket policy else io_return (Some d))))
      (\<lambda>r s. r \<noteq> None \<and> within j c s) (\<lambda>_. within j c)"
      by (rule io_post_bind)
    then show "case io_bind (observe_turn p r) (\<lambda>d0. io_bind (locked p (settle_turn p j r d0)) (\<lambda>(d, again).
         if again then hold_turns n p j pocket policy else io_return (Some d))) s of
      (Inr x, w') \<Rightarrow> x \<noteq> None \<and> within j c w' | (Inl e, w') \<Rightarrow> within j c w'"
      using s by (rule io_post_case)
  qed
  show ?case
    unfolding hold_turns.simps by (rule io_post_get, rule turn)
qed


section \<open>The exits\<close>

lemma initial_counts [simp]: "at_count (hj_turn0 j) (hj_total0 j) (initial_hold_state j w)"
  by (simp add: counters_def initial_hold_state_def)

lemma keeps_dispatch: "io_keeps (counters c) (dispatch_first p j)"
  unfolding dispatch_first_def dispatch_recover_def dispatch_resume_def dispatch_create_def Let_def
  by (intro io_rules hold_rules counters_local) (simp_all add: counters_def)

definition exited :: "int option \<Rightarrow> bool" where
  "exited r \<longleftrightarrow> r = Some 0 \<or> r = Some 1"

lemma post_body:
  assumes "fuel_ok n j (hj_turn0 j)"
  shows "io_post (at_count (hj_turn0 j) (hj_total0 j)) (hold_body n p j)
    (\<lambda>r s. r = Some 0 \<and> within j (hj_turn0 j) s) (\<lambda>_. within j (hj_turn0 j))"
proof -
  let ?c = "at_count (hj_turn0 j) (hj_total0 j)" and ?W = "within j (hj_turn0 j)"
  have finish: "io_post (\<lambda>s. r \<noteq> None \<and> ?W s) (case r of None \<Rightarrow> io_return None
      | Some d \<Rightarrow> io_then (write_row (hp_write_result p) (result_row p j d)) (io_return (Some 0)))
      (\<lambda>r s. r = Some 0 \<and> ?W s) (\<lambda>_. ?W)" for r
    by (cases r) (auto simp: io_post_def [of "\<lambda>_. False"] intro!: io_post_then_keeps hold_rules io_post_pure)
  show ?thesis
    unfolding hold_body_def
    by (rule io_post_lift, erule counters_within,
        rule io_post_then_keeps [OF keeps_counters(1) counters_within], assumption,
        rule io_post_bind_keeps [OF keeps_locked [OF counters_local keeps_dispatch] counters_within], assumption,
        rule io_post_if, rule io_post_pure, simp add: counters_within,
        rule io_post_modify [where R = ?c], simp add: counters_def,
        rule io_post_then_keeps [OF keeps_write_row [OF counters_local] counters_within], assumption,
        rule io_post_lift, erule counters_within,
        rule io_post_bind [OF post_turns [OF assms] finish])
qed

lemma keeps_cleanup: "of_locals P \<Longrightarrow> io_keeps P (hold_cleanup p j)"
  unfolding hold_cleanup_def close_owned_client_def mark_observer_stopped_def by (intro io_rules hold_rules)

lemma post_run:
  assumes "fuel_ok n j (hj_turn0 j)"
  shows "io_post (at_count (hj_turn0 j) (hj_total0 j)) (hold_run n p j)
    (\<lambda>r s. exited r \<and> within j (hj_turn0 j) s) (\<lambda>_. within j (hj_turn0 j))"
proof -
  let ?W = "within j (hj_turn0 j)"
  have "io_post ?W (hold_failure p j e) (\<lambda>r s. exited r \<and> ?W s) (\<lambda>_. ?W)" for e
    unfolding hold_failure_def
    by (intro io_post_bind_keeps io_post_then_keeps io_post_pure io_rules hold_rules) (auto simp: exited_def)
  then have "io_post (at_count (hj_turn0 j) (hj_total0 j)) (io_catch (hold_body n p j) (hold_failure p j))
      (\<lambda>r s. exited r \<and> ?W s) (\<lambda>_. ?W)"
    by (rule io_post_catch [OF io_post_weaken [OF post_body [OF assms]], rotated 3]) (auto simp: exited_def)
  then show ?thesis
    unfolding hold_run_def
    by (rule io_post_finally) (auto intro!: keeps_cleanup simp: of_locals_def within_def count_le_def)
qed

text \<open>Write ports that never raise, and the reads and calls of the \<open>finally\<close> clause.\<close>

definition never_raises :: "('w, 'a) io \<Rightarrow> bool" where
  "never_raises m \<longleftrightarrow> (\<forall>w e w'. m w \<noteq> (Inl e, w'))"

definition reliable_files :: "'w hold_ports \<Rightarrow> bool" where
  "reliable_files p \<longleftrightarrow> (\<forall>row. never_raises (hp_write_result p row)) \<and> (\<forall>row. never_raises (hp_write_ack p row)) \<and>
     (\<forall>row. never_raises (hp_refresh_close p row)) \<and> never_raises (hp_close_client p) \<and>
     never_raises (hp_read_result p) \<and> never_raises (hp_read_request p)"

lemma never_raises_ext: "never_raises m \<Longrightarrow> never_raises (ext m)"
  by (auto simp: never_raises_def ext_def split: prod.splits)

lemma never_raises_rules:
  "never_raises m \<Longrightarrow> (\<And>x. never_raises (k x)) \<Longrightarrow> never_raises (io_bind m k)"
  "never_raises m \<Longrightarrow> never_raises n \<Longrightarrow> never_raises (io_then m n)"
  "never_raises (io_return x)" "never_raises (io_get g)"
  "(\<And>e. never_raises (h e)) \<Longrightarrow> never_raises (io_catch m0 h)"
  "never_raises a \<Longrightarrow> never_raises b \<Longrightarrow> never_raises (io_finally a b)"
  by (fastforce simp: never_raises_def io_bind_def io_then_def io_catch_def io_finally_def
      split: prod.splits sum.splits)+

lemma never_raises_cases:
  "(b \<Longrightarrow> never_raises m) \<Longrightarrow> (\<not> b \<Longrightarrow> never_raises n) \<Longrightarrow> never_raises (if b then m else n)"
  "(z = None \<Longrightarrow> never_raises m) \<Longrightarrow> (\<And>x. z = Some x \<Longrightarrow> never_raises (f x)) \<Longrightarrow>
   never_raises (case z of None \<Rightarrow> m | Some x \<Rightarrow> f x)"
  by (cases b; simp) (cases z; simp)

lemma run_never_raises:
  assumes "reliable_files p"
  shows "never_raises (hold_run n p j)"
proof -
  note files = assms [unfolded reliable_files_def]
  have "never_raises (hold_failure p j e)" for e
    unfolding hold_failure_def by (intro never_raises_rules never_raises_cases never_raises_ext) (use files in auto)
  moreover have "never_raises (hold_cleanup p j)"
    unfolding hold_cleanup_def close_owned_client_def mark_observer_stopped_def
    by (intro never_raises_rules never_raises_cases never_raises_ext) (use files in auto)
  ultimately show ?thesis
    unfolding hold_run_def by (intro never_raises_rules)
qed

text \<open>A holder whose client completes its only turn and whose files always answer.\<close>

definition demo_hold_request :: pdict where
  "demo_hold_request = [(''request_id'', PStr ''r1''), (''hold_id'', PStr ''loop-l:1''), (''prompt'', PStr ''go''),
     (''auto_continue'', PBool True), (''max_turns'', PInt 2)]"

definition demo_hold_ports :: "unit hold_ports" where
  "demo_hold_ports =
     \<lparr> hp_pid = 7, hp_now = (\<lambda>_. 0), hp_monotonic = (\<lambda>_. 0), hp_lock = io_return (),
       hp_unlock = io_return (), hp_read_request = io_return demo_hold_request, hp_write_request = (\<lambda>_. io_return ()),
       hp_read_close = io_return [], hp_write_ack = (\<lambda>_. io_return ()), hp_write_result = (\<lambda>_. io_return ()),
       hp_read_result = io_return None, hp_append_events = (\<lambda>_. io_return ()),
       hp_append_history = (\<lambda>_ _. io_return ()), hp_read_history = (\<lambda>_ _. io_return []),
       hp_verify = (\<lambda>_ _. io_return [(''status'', PStr ''verified'')]),
       hp_receive = (\<lambda>_ _ _ _ _. io_return [(''status'', PStr ''verified'')]), hp_launch = (\<lambda>_ _. io_return ()),
       hp_start_client = io_return (), hp_resume_turn = (\<lambda>_ w. Finish (Inr [(''turn_id'', PStr ''u1'')]) w),
       hp_create_task = (\<lambda>_ w. Finish (Inr [(''thread_id'', PStr ''t''), (''turn_id'', PStr ''u1'')]) w),
       hp_start_turn = (\<lambda>_ w. Finish (Inr [(''turn_id'', PStr ''u2'')]) w),
       hp_wait_terminal = (\<lambda>_ _ w. Finish (Inr [(''status'', PStr ''completed'')]) w),
       hp_wait_readback = (\<lambda>_ _ _. io_return (PStr ''done'')), hp_thread_read = (\<lambda>_. io_return []),
       hp_interrupt = (\<lambda>_ _. io_return []), hp_close_client = io_return (), hp_has_process = (\<lambda>_. True),
       hp_process_exited = (\<lambda>_. True), hp_user_claim = (\<lambda>_. False), hp_refresh_close = (\<lambda>_. io_return ()) \<rparr>"

definition demo_hold_job :: hold_job where
  "demo_hold_job = \<lparr> hj_paths = demo_paths, hj_request = demo_hold_request, hj_request_id = ''r1'', hj_max_turns = 2,
     hj_auto_continue = True, hj_continue_prompt = default_continue, hj_hold_id = ''loop-l:1'', hj_turn0 = 1,
     hj_total0 = 1, hj_mode = ''create'' \<rparr>"

text \<open>
  C33: a hold ends. With fuel for the turns its budget has left, it observes until the monitor stops
  it and never runs out of fuel; it then leaves by exit code 0 or 1, or by an exception of the
  files. The turn counter never passes the larger of \<open>max_turns\<close> and its initial value.
\<close>

theorem hold_ends_within_budget:
  assumes "hp_read_request p w = (Inr request, w1)" "hold_job_of pl request = Inr j"
    and "nat (hj_max_turns j - hj_turn0 j) < n"
    and "hold_run n p j (initial_hold_state j w1) = (r, s)"
  shows "hold_task n pl p w = (r, hs_world s) \<and> hs_turn_count s \<le> max (hj_max_turns j) (hj_turn0 j) \<and>
    (case r of Inl e \<Rightarrow> True | Inr x \<Rightarrow> x = Some 0 \<or> x = Some 1)"
proof -
  have "io_post (at_count (hj_turn0 j) (hj_total0 j)) (hold_run n p j)
      (\<lambda>r s. exited r \<and> within j (hj_turn0 j) s) (\<lambda>_. within j (hj_turn0 j))"
    by (rule post_run) (simp add: fuel_ok_def assms(3))
  from io_post_case [OF this initial_counts [of j w1]]
  have "case r of Inl e \<Rightarrow> within j (hj_turn0 j) s | Inr x \<Rightarrow> exited x \<and> within j (hj_turn0 j) s"
    by (simp add: assms(4))
  then show ?thesis
    using assms by (auto simp: hold_task_def exited_def within_def count_le_def split: sum.splits)
qed

lemma demo_hold_job_ok:
  "\<exists>j. hold_job_of demo_paths demo_hold_request = Inr j \<and> hj_max_turns j = 2 \<and> hj_turn0 j = 1 \<and>
    hj_request_id j = ''r1'' \<and> hj_request j = demo_hold_request"
proof -
  have "case hold_job_of demo_paths demo_hold_request of
      Inr j \<Rightarrow> hj_max_turns j = 2 \<and> hj_turn0 j = 1 \<and> hj_request_id j = ''r1'' \<and> hj_request j = demo_hold_request
    | Inl e \<Rightarrow> False"
    by code_simp
  then show ?thesis by (auto split: sum.splits)
qed

lemma hold_ends_within_budget_witness:
  "\<exists>r s j. hold_task 2 demo_paths demo_hold_ports () = (r, ()) \<and> hs_turn_count (s :: unit hold_state) \<le> 2 \<and>
     hold_run 2 demo_hold_ports j (initial_hold_state j ()) = (r, s) \<and>
     (case r of Inl e \<Rightarrow> True | Inr x \<Rightarrow> x = Some 0 \<or> x = Some 1)"
proof -
  obtain j where j: "hold_job_of demo_paths demo_hold_request = Inr j" "hj_max_turns j = 2" "hj_turn0 j = 1"
    using demo_hold_job_ok by blast
  have "hp_read_request demo_hold_ports () = (Inr demo_hold_request, ())"
    by (simp add: demo_hold_ports_def)
  from hold_ends_within_budget [OF this j(1), of 2] j show ?thesis
    by (cases "hold_run 2 demo_hold_ports j (initial_hold_state j ())") auto
qed


lemma demo_hold_reliable: "reliable_files demo_hold_ports"
  by (simp add: reliable_files_def never_raises_def demo_hold_ports_def)


section \<open>The owner's stop\<close>

text \<open>The ports with another way to start a turn; the operations before it do not use it.\<close>

lemma start_port_irrelevant [simp]:
  "stop_asked (p\<lparr> hp_start_turn := f \<rparr>) j = stop_asked p j"
  "append_monitor_events (p\<lparr> hp_start_turn := f \<rparr>) d = append_monitor_events p d"
  "stop_override (p\<lparr> hp_start_turn := f \<rparr>) j r d = stop_override p j r d"
  "now_text (p\<lparr> hp_start_turn := f \<rparr>) = now_text p"
  by (auto simp: stop_asked_def append_monitor_events_def stop_override_def now_text_def fun_eq_iff)

lemma settle_stopped:
  assumes "hd_action d \<noteq> ''CONTINUE''"
  shows "settle_confirmed (p\<lparr> hp_start_turn := f \<rparr>) j d = settle_confirmed p j d"
    and "settle_confirmed p j d s = (Inr again, s') \<Longrightarrow> \<not> again"
proof -
  have "record_history (p\<lparr> hp_start_turn := f \<rparr>) j d = record_history p j d"
    by (simp add: record_history_def history_row_def [abs_def])
  then show "settle_confirmed (p\<lparr> hp_start_turn := f \<rparr>) j d = settle_confirmed p j d"
    using assms by (simp add: settle_confirmed_def decision_row_def [abs_def])
  show "settle_confirmed p j d s = (Inr again, s') \<Longrightarrow> \<not> again"
    using assms by (auto simp: settle_confirmed_def io_then_Inr)
qed

lemma override_stopped:
  assumes "hd_action d0 = ''CONTINUE'' \<Longrightarrow> \<exists>s1. stop_asked p j s = (Inr True, s1)"
  shows "\<exists>d s1. stop_override p j r d0 s = (Inr d, s1) \<and> hd_action d \<noteq> ''CONTINUE''"
proof (cases "hd_action d0 = ''CONTINUE''")
  case True
  then show ?thesis using assms by (auto simp: stop_override_def turn_stop_def)
qed (simp add: stop_override_def)

text \<open>
  C4: a stop that was asked for is respected between two turns. When the request, read again under
  the lock, asks for the stop (or the monitor's decision is a stop), the settled decision is not
  CONTINUE and the hold does not go on; whatever starting a turn would do is irrelevant, so no
  turn is started.
\<close>

theorem stop_prevents_next_turn:
  assumes "hd_action d0 = ''CONTINUE'' \<Longrightarrow> \<exists>s1. stop_asked p j s = (Inr True, s1)"
  shows "settle_turn (p\<lparr> hp_start_turn := f \<rparr>) j r d0 s = settle_turn p j r d0 s \<and>
    (\<forall>d again s'. settle_turn p j r d0 s = (Inr (d, again), s') \<longrightarrow> \<not> again \<and> hd_action d \<noteq> ''CONTINUE'')"
proof -
  obtain d s1 where ov: "stop_override p j r d0 s = (Inr d, s1)" and d: "hd_action d \<noteq> ''CONTINUE''"
    using override_stopped [OF assms] by blast
  show ?thesis
  proof (cases "validate_monitor_command d0 (hj_hold_id j) (hs_turn s)")
    case (Inl e)
    then show ?thesis by (simp add: settle_turn_def io_then_def)
  next
    case (Inr u)
    have step: "settle_turn q j r d0 s = io_then (append_monitor_events q d) (io_bind (io_get hs_confirmed) (\<lambda>c.
        if \<not> c then io_return (d, False) else io_bind (settle_confirmed q j d) (\<lambda>more. io_return (d, more)))) s1"
      if "stop_override q j r d0 s = (Inr d, s1)" for q
      using Inr that by (simp add: settle_turn_def)
    have "settle_turn (p\<lparr> hp_start_turn := f \<rparr>) j r d0 s = settle_turn p j r d0 s"
      by (simp add: step [of p] step [of "p\<lparr> hp_start_turn := f \<rparr>"] ov settle_stopped(1) [OF d] cong: if_cong)
    moreover have "\<not> again \<and> d' = d" if "settle_turn p j r d0 s = (Inr (d', again), s')" for d' again s'
      using that unfolding step [OF ov] io_then_Inr io_bind_Inr
      by (auto split: if_splits dest!: settle_stopped(2) [OF d] simp: io_bind_Inr)
    ultimately show ?thesis using d by blast
  qed
qed

definition demo_stop_ports :: "unit hold_ports" where
  "demo_stop_ports = demo_hold_ports\<lparr> hp_read_close := io_return [(''request_id'', PStr ''r1'')] \<rparr>"

lemma stop_prevents_next_turn_witness:
  "\<exists>j. hold_job_of demo_paths demo_hold_request = Inr j \<and>
     (\<forall>r s d again s'. settle_turn demo_stop_ports j r (turn_continue r ''c'' ''m'') s = (Inr (d, again), s') \<longrightarrow>
        \<not> again \<and> hd_action d \<noteq> ''CONTINUE'')"
proof -
  obtain j where j: "hold_job_of demo_paths demo_hold_request = Inr j"
    and id: "hj_request_id j = ''r1''" "hj_request j = demo_hold_request" using demo_hold_job_ok by blast
  have "stop_asked demo_stop_ports j s = (Inr True, s)" for s
    by (simp add: stop_asked_def demo_stop_ports_def demo_hold_ports_def ext_def id demo_hold_request_def)
  then have asked: "\<exists>s1. stop_asked demo_stop_ports j s = (Inr True, s1)" for s by blast
  show ?thesis
    using j stop_prevents_next_turn [OF asked] by blast
qed

section \<open>A failed continuation\<close>

text \<open>No report of the client, and no answer, names the turn \<open>t\<close>.\<close>

primrec never_names :: "string \<Rightarrow> ('w, phase) client_run \<Rightarrow> bool" where
  "never_names t (Finish r w) = (case r of Inl e \<Rightarrow> True | Inr d \<Rightarrow> stripped (dget d ''turn_id'') \<noteq> t)"
| "never_names t (Call c w k) =
     ((truthy (dget (snd c) ''turn_id'') \<longrightarrow> py_str (dget (snd c) ''turn_id'') \<noteq> t) \<and> (\<forall>w'. never_names t (k w')))"

definition other_turn :: "string \<Rightarrow> 'w hold_state \<Rightarrow> bool" where
  "other_turn t s \<longleftrightarrow> \<not> hs_confirmed s \<and> hs_turn s \<noteq> t"

lemma other_turn_local [simp]: "of_locals (other_turn t)"
  by (simp add: of_locals_def other_turn_def)

lemma report_other_turn:
  assumes "truthy (dget (snd c) ''turn_id'') \<longrightarrow> py_str (dget (snd c) ''turn_id'') \<noteq> t"
  shows "io_keeps (other_turn t) (hold_report p j c)"
  unfolding hold_report_def
  by (intro io_rules keeps_ext) (use assms in \<open>auto simp: other_turn_def bind_phase_def\<close>)

lemma run_other_turn:
  assumes "never_names t run"
  shows "io_post (other_turn t) (run_client (hold_report p j) run)
    (\<lambda>d s. other_turn t s \<and> stripped (dget d ''turn_id'') \<noteq> t) (\<lambda>_. other_turn t)"
  using assms
proof (induction run)
  case (Finish r w)
  then show ?case by (cases r) (auto simp: io_post_def other_turn_def)
next
  case (Call c w k)
  have "io_keeps (other_turn t) (hold_report p j c)"
    using Call.prems by (intro report_other_turn) simp
  then have step: "io_post (other_turn t) (hold_report p j c) (\<lambda>_. other_turn t) (\<lambda>_. other_turn t)"
    by (rule io_post_keeps)
  have later: "io_post (other_turn t) (run_client (hold_report p j) (k w'))
      (\<lambda>d s. other_turn t s \<and> stripped (dget d ''turn_id'') \<noteq> t) (\<lambda>_. other_turn t)" for w'
    using Call.IH Call.prems by auto
  have "case run_client (hold_report p j) (Call c w k) s of (Inr x, s') \<Rightarrow> other_turn t s' \<and> stripped (dget x ''turn_id'') \<noteq> t
      | (Inl e, s') \<Rightarrow> other_turn t s'" if "other_turn t s" for s
  proof -
    have "other_turn t (s\<lparr> hs_world := w \<rparr>)" using that by (simp add: other_turn_def)
    then have first: "case hold_report p j c (s\<lparr> hs_world := w \<rparr>) of (Inr x, s') \<Rightarrow> other_turn t s'
        | (Inl e, s') \<Rightarrow> other_turn t s'"
      by (rule io_post_case [OF step])
    obtain r s1 where r: "hold_report p j c (s\<lparr> hs_world := w \<rparr>) = (r, s1)" by fastforce
    show ?thesis
    proof (cases r)
      case (Inl e)
      then show ?thesis using first r by simp
    next
      case (Inr u)
      then have "other_turn t s1" using first r by simp
      from io_post_case [OF later this] show ?thesis using r Inr by simp
    qed
  qed
  then show ?case by (simp add: io_post_def)
qed

lemma continue_other_turn:
  assumes "t \<noteq> []" "\<And>c w. never_names t (hp_start_turn p c w)"
  shows "io_post (\<lambda>_. True) (continue_turn p j d) (\<lambda>_. other_turn t) (\<lambda>_. other_turn t)"
proof -
  have call: "io_post (other_turn t) (client_call p j (hp_start_turn p c))
      (\<lambda>d s. other_turn t s \<and> stripped (dget d ''turn_id'') \<noteq> t) (\<lambda>_. other_turn t)" for c
    unfolding client_call_def
  proof (rule io_post_get)
    fix run
    show "io_post (\<lambda>s. other_turn t s \<and> hp_start_turn p c (hs_world s) = run) (run_client (hold_report p j) run)
      (\<lambda>d s. other_turn t s \<and> stripped (dget d ''turn_id'') \<noteq> t) (\<lambda>_. other_turn t)"
    proof (cases "never_names t run")
      case True
      then show ?thesis by (rule io_post_weaken [OF run_other_turn]) auto
    next
      case False
      then show ?thesis using assms(2) by (auto simp: io_post_def)
    qed
  qed
  have tail: "io_keeps (other_turn t) (io_then (io_check b e)
      (io_then (io_modify (\<lambda>s. s\<lparr> hs_turn_count := hs_turn_count s + 1, hs_total := hs_total s + 1 \<rparr>))
      (io_then (write_row (hp_write_ack p) (holding_row p j)) (advance_recovery p j))))" for b e
    unfolding advance_recovery_def by (intro io_rules hold_rules other_turn_local) (simp add: other_turn_def)
  show ?thesis
    unfolding continue_turn_def
    by (rule io_post_modify [where R = "other_turn t"], simp add: other_turn_def forget_turn_def assms(1) [symmetric],
        rule io_post_bind_keeps [OF io_keeps_get], assumption,
        rule io_post_bind_keeps [OF io_keeps_lift], assumption,
        rule io_post_bind_keeps [OF io_keeps_get], assumption,
        rule io_post_bind [OF call],
        rule io_post_modify [where R = "other_turn t"], simp add: other_turn_def,
        rule io_post_keeps [OF tail], assumption)
qed


text \<open>
  C5: a continuation that fails leaves no claim about a turn. However dispatching the next turn
  ends by an exception, the record written for it says that no terminal is confirmed, and it does
  not carry the id of the turn that ended before, unless the App Server itself reported that id
  again.
\<close>

theorem failed_continuation_unconfirmed:
  assumes "continue_turn p j d s = (Inl e, s')"
    and "hs_turn s \<noteq> []" "\<And>c w. never_names (hs_turn s) (hp_start_turn p c w)"
  shows "dget (failure_row p j e s') ''terminal_confirmed'' = PBool False \<and>
    dget (failure_row p j e s') ''turn_id'' = PStr (hs_turn s') \<and> hs_turn s' \<noteq> hs_turn s"
proof -
  have "other_turn (hs_turn s) s'"
    using io_postD(2) [OF continue_other_turn [OF assms(2,3)] TrueI assms(1)] .
  then show ?thesis
    by (cases e) (auto simp: other_turn_def failure_row_def failure_of_exception_def)
qed

definition demo_refusing_ports :: "unit hold_ports" where
  "demo_refusing_ports = demo_hold_ports\<lparr> hp_start_turn := (\<lambda>_ w. Finish (Inl (RuntimeError ''refused'')) w) \<rparr>"

lemma failed_continuation_unconfirmed_witness:
  "\<exists>j s e s'. continue_turn demo_refusing_ports j (turn_continue (monitor_request demo_hold_ports j False
       \<lparr> milestone_turns = [], np_terminal = False \<rparr> s) ''c'' ''m'') s = (Inl e, s') \<and> hs_turn s = ''u1'' \<and>
     dget (failure_row demo_refusing_ports j e s') ''terminal_confirmed'' = PBool False \<and> hs_turn s' \<noteq> ''u1''"
proof -
  obtain j where "hold_job_of demo_paths demo_hold_request = Inr j"
    and req: "hj_request j = demo_hold_request" using demo_hold_job_ok by blast
  define s where "s = (initial_hold_state j ())\<lparr> hs_turn := ''u1'' \<rparr>"
  define d where "d = turn_continue (monitor_request demo_hold_ports j False
       \<lparr> milestone_turns = [], np_terminal = False \<rparr> s) ''c'' ''m''"
  have "turn_input_binding (hj_paths j) (hj_request j) n = Inr []" for n
    by (simp add: req demo_hold_request_def turn_input_binding_def)
  then obtain e s' where run: "continue_turn demo_refusing_ports j d s = (Inl e, s')"
    by (simp add: continue_turn_def io_then_def client_call_def demo_refusing_ports_def demo_hold_ports_def io_bind_def)
  have turn: "hs_turn s = ''u1''" by (simp add: s_def)
  have named: "never_names (hs_turn s) (hp_start_turn demo_refusing_ports c w)" for c w
    by (simp add: demo_refusing_ports_def)
  from failed_continuation_unconfirmed [OF run _ named] turn run show ?thesis
    unfolding d_def by auto
qed

section \<open>The interrupt of the owner\<close>

lemma io_same_run_client:
  assumes "of_locals P" "\<And>c. io_same P (back c) (back' c)"
  shows "io_same P (run_client back run) (run_client back' run)"
proof (induction run)
  case (Finish r w)
  then show ?case using assms(1) by (simp add: io_same_def of_locals_def)
next
  case (Call c w k)
  have "run_client back (Call c w k) s = run_client back' (Call c w k) s \<and> P (snd (run_client back' (Call c w k) s))"
    if "P s" for s
  proof -
    have 1: "P (s\<lparr> hs_world := w \<rparr>)" using assms(1) that by (simp add: of_locals_def)
    obtain r s1 where call: "back' c (s\<lparr> hs_world := w \<rparr>) = (r, s1)" by fastforce
    then have "back c (s\<lparr> hs_world := w \<rparr>) = (r, s1)" "P s1" using io_sameD [OF assms(2) 1] by auto
    then show ?thesis using call Call.IH [of "k (hs_world s1)"] by (cases r) (auto simp: io_same_def)
  qed
  then show ?case unfolding io_same_def by blast
qed

definition latched :: "'w hold_state \<Rightarrow> bool" where
  "latched s \<longleftrightarrow> hs_interrupt_at s \<noteq> None"

lemma latched_update [simp]:
  "latched (s\<lparr> hs_interrupt_at := Some t \<rparr>)" "latched (s\<lparr> hs_turn := x \<rparr>) = latched s"
  "latched (s\<lparr> hs_phase := x \<rparr>) = latched s" "latched (s\<lparr> hs_failed_items := i \<rparr>) = latched s"
  "latched (s\<lparr> hs_confirmed := b \<rparr>) = latched s" "latched (s\<lparr> hs_verification := v \<rparr>) = latched s"
  "latched (s\<lparr> hs_host_stop := b \<rparr>) = latched s" "latched (forget_turn s) = latched s"
  "latched (s\<lparr> hs_turn_count := i, hs_total := k \<rparr>) = latched s" "latched (bind_phase ph d s) = latched s"
  "latched (s\<lparr> hs_world := w \<rparr>) = latched s"
  by (simp_all add: latched_def forget_turn_def bind_phase_def)

lemma latched_local [simp]: "of_locals latched" "unobserved latched"
  by (simp_all add: of_locals_def unobserved_def)

abbreviation reinterrupt :: "'w hold_ports \<Rightarrow> (string \<Rightarrow> string \<Rightarrow> ('w, pdict) io) \<Rightarrow> 'w hold_ports" where
  "reinterrupt p f \<equiv> p\<lparr> hp_interrupt := f \<rparr>"

lemma interrupt_port_irrelevant [simp]:
  "stop_asked (reinterrupt p f) j = stop_asked p j"
  "append_monitor_events (reinterrupt p f) d = append_monitor_events p d"
  "stop_override (reinterrupt p f) j r d = stop_override p j r d"
  "now_text (reinterrupt p f) = now_text p"
  "hold_report (reinterrupt p f) = hold_report p"
  "recover_poll (reinterrupt p f) = recover_poll p"
  "verify_output (reinterrupt p f) = verify_output p"
  "receive_final_answer (reinterrupt p f) = receive_final_answer p"
  "hold_client (reinterrupt p f) = hold_client p"
  "record_history (reinterrupt p f) j d = record_history p j d"
  "decision_row (reinterrupt p f) = decision_row p"
  "holding_row (reinterrupt p f) = holding_row p"
  "advance_recovery (reinterrupt p f) = advance_recovery p"
  by (auto simp: stop_asked_def append_monitor_events_def stop_override_def now_text_def fun_eq_iff hold_report_def
      report_row_def [abs_def] recover_poll_def verify_output_def receive_final_answer_def hold_client_def
      record_history_def history_row_def [abs_def] decision_row_def holding_row_def advance_recovery_def)

lemma client_call_reinterrupt [simp]: "client_call (reinterrupt p f) = client_call p"
  by (simp add: client_call_def fun_eq_iff)

lemma locked_reinterrupt [simp]: "locked (reinterrupt p f) = locked p"
  by (simp add: locked_def fun_eq_iff)

lemma settle_reinterrupt:
  "settle_turn (reinterrupt p f) j r d = settle_turn p j r d"
  by (simp add: settle_turn_def settle_confirmed_def continue_turn_def cong: if_cong)


lemma interrupt_poll_same: "io_same latched (interrupt_poll (reinterrupt p f) j control) (interrupt_poll p j control)"
  by (auto simp: io_same_def interrupt_poll_def latched_def)

lemma control_poll_same: "io_same latched (control_poll (reinterrupt p f) j) (control_poll p j)"
proof -
  have recover: "io_keeps latched (recover_poll p)" by (intro keeps_recover_poll) simp
  have read: "hp_read_request (reinterrupt p f) = hp_read_request p" by simp
  show ?thesis
    unfolding control_poll_def interrupt_port_irrelevant read
    by (intro io_same_try io_same_option io_same_bind io_same_then io_same_if io_same_keeps io_rules
        interrupt_poll_same keeps_ext recover) simp_all
qed

lemma observe_same:
  "io_same latched (observe_turn (reinterrupt p f) (monitor_request (reinterrupt p f) j pocket policy s))
     (observe_turn p (monitor_request p j pocket policy s))"
proof -
  let ?r = "monitor_request p j pocket policy s" and ?q = "monitor_request (reinterrupt p f) j pocket policy s"
  have poll: "hr_control_poll ?r = Some (control_poll p j)" "hr_control_poll ?q = Some (control_poll (reinterrupt p f) j)"
    and q: "?q = ?r\<lparr> hr_control_poll := Some (control_poll (reinterrupt p f) j) \<rparr>"
    by (simp_all add: monitor_request_def)
  have wait: "io_same latched (wait_for_turn_terminal (hold_client p) a b (hr_control_poll ?q))
      (wait_for_turn_terminal (hold_client p) a b (hr_control_poll ?r))" for a b
    unfolding hold_client_def poll
    by simp (intro same_rules io_same_keeps io_keeps_get io_same_run_client control_poll_same; simp)
  have completed: "turn_completed ?q msg = turn_completed ?r msg" for msg
    by (simp add: q turn_completed_def turn_gates_def turn_verify_def turn_command_id_def turn_stop_def
        milestone_events_def terminal_event_def turn_continue_def cong: if_cong option.case_cong)
  have keeps: "io_keeps latched (observe_turn p ?r)" by (rule keeps_observe) simp
  have sel: "hr_thread_id ?q = hr_thread_id ?r" "hr_turn_id ?q = hr_turn_id ?r"
    "hr_receive_final_answer ?q = hr_receive_final_answer ?r" "turn_stop ?q = turn_stop ?r"
    "turn_command_id ?q = turn_command_id ?r"
    by (simp_all add: q turn_command_id_def turn_stop_def milestone_events_def terminal_event_def fun_eq_iff)
  have "observe_turn (reinterrupt p f) ?q s' = observe_turn p ?r s'" if "latched s'" for s'
  proof -
    have "turn_observe (hold_client p) ?q s2 = turn_observe (hold_client p) ?r s2" if "latched s2" for s2
      unfolding turn_observe_def sel completed by (simp add: io_bind_def io_sameD(1) [OF wait that] sel)
    then show ?thesis using that by (simp add: observe_turn_def io_then_def io_bind_def)
  qed
  then show ?thesis using keeps by (simp add: io_same_def io_keeps_def)
qed


lemma interrupt_poll_latches: "latched (snd (interrupt_poll p j control s))"
proof -
  have "io_keeps latched (io_then (hold_report p j (''host_stop_interrupting'', [(''host_stop'', control)]))
         (io_bind (io_get (\<lambda>s. (hs_thread s, hs_turn s))) (\<lambda>(thread_id, turn_id).
          io_then (ext (hp_interrupt p thread_id turn_id)) (io_return ()))))"
    by (intro io_rules hold_rules) simp_all
  from this [unfolded io_keeps_def, rule_format, OF latched_update(1)] show ?thesis
    by (cases "hs_interrupt_at s") (simp_all add: interrupt_poll_def io_then_def io_bind_def latched_def)
qed

lemma keeps_settle_latched: "io_keeps latched (settle_turn p j r d)"
proof -
  have history: "io_keeps latched (record_history p j d)" for d
    unfolding record_history_def Let_def by (intro io_rules hold_rules) simp_all
  have continued: "io_keeps latched (continue_turn p j d)" for d
    unfolding continue_turn_def advance_recovery_def by (intro io_rules hold_rules) simp_all
  have "io_keeps latched (settle_confirmed p j d)" for d
    unfolding settle_confirmed_def by (intro io_rules history continued hold_rules) simp
  then show ?thesis
    unfolding settle_turn_def by (intro io_rules hold_rules) simp_all
qed

lemma turns_same:
  "io_same latched (hold_turns n (reinterrupt p f) j pocket policy) (hold_turns n p j pocket policy)"
proof (induction n)
  case 0
  show ?case by (simp add: io_same_def)
next
  case (Suc n)
  have "io_same latched (locked p (settle_turn p j r d)) (locked p (settle_turn p j r d))" for r d
    by (intro io_same_keeps keeps_locked keeps_settle_latched) simp
  then have settle: "io_same latched (io_bind (locked (reinterrupt p f) (settle_turn (reinterrupt p f) j q d))
        (\<lambda>(d, again). if again then hold_turns n (reinterrupt p f) j pocket policy else io_return (Some d)))
      (io_bind (locked p (settle_turn p j r d))
        (\<lambda>(d, again). if again then hold_turns n p j pocket policy else io_return (Some d)))"
    if "settle_turn p j q d = settle_turn p j r d" for q r d
    using that Suc.IH unfolding settle_reinterrupt locked_reinterrupt
    by (intro io_same_bind) (auto simp: io_same_def split: prod.splits)
  have same: "settle_turn p j (monitor_request (reinterrupt p f) j pocket policy s) d =
      settle_turn p j (monitor_request p j pocket policy s) d" for s d
  proof -
    have "turn_stop (monitor_request (reinterrupt p f) j pocket policy s) = turn_stop (monitor_request p j pocket policy s)"
      by (simp add: monitor_request_def turn_stop_def milestone_events_def terminal_event_def fun_eq_iff)
    then have "stop_override p j (monitor_request (reinterrupt p f) j pocket policy s) d =
        stop_override p j (monitor_request p j pocket policy s) d" for d
      by (simp add: stop_override_def cong: if_cong)
    then show ?thesis by (simp add: settle_turn_def)
  qed
  have "hold_turns (Suc n) (reinterrupt p f) j pocket policy s = hold_turns (Suc n) p j pocket policy s \<and>
     latched (snd (hold_turns (Suc n) p j pocket policy s))" if "latched s" for s
  proof -
    have "io_same latched
       (io_bind (observe_turn (reinterrupt p f) (monitor_request (reinterrupt p f) j pocket policy s)) (\<lambda>d0.
          io_bind (locked (reinterrupt p f) (settle_turn (reinterrupt p f) j (monitor_request (reinterrupt p f) j pocket policy s) d0))
          (\<lambda>(d, again). if again then hold_turns n (reinterrupt p f) j pocket policy else io_return (Some d))))
       (io_bind (observe_turn p (monitor_request p j pocket policy s)) (\<lambda>d0.
          io_bind (locked p (settle_turn p j (monitor_request p j pocket policy s) d0))
          (\<lambda>(d, again). if again then hold_turns n p j pocket policy else io_return (Some d))))"
      by (intro io_same_bind [OF observe_same] settle same)
    then show ?thesis using that by (simp add: io_same_def)
  qed
  then show ?case by (simp add: io_same_def)
qed

text \<open>
  C35: the owner interrupts a turn at most once. The latch is set before the interrupt is sent, so
  a poll that leaves it open has sent nothing, and from the moment it is set no later poll of this
  hold, in this turn or in a later one, sends another: the run does not depend on what an
  interrupt would do.
\<close>

theorem interrupt_sent_at_most_once:
  "(hs_interrupt_at (snd (control_poll p j s)) = None \<or> hs_interrupt_at s \<noteq> None \<longrightarrow>
     control_poll (p\<lparr> hp_interrupt := f \<rparr>) j s = control_poll p j s) \<and>
   (hs_interrupt_at s \<noteq> None \<longrightarrow>
     hold_turns n (p\<lparr> hp_interrupt := f \<rparr>) j pocket policy s = hold_turns n p j pocket policy s)"
proof (intro conjI impI)
  assume "hs_interrupt_at s \<noteq> None"
  then have "latched s" by (simp add: latched_def)
  then show "hold_turns n (p\<lparr> hp_interrupt := f \<rparr>) j pocket policy s = hold_turns n p j pocket policy s"
    by (rule io_sameD(1) [OF turns_same])
next
  assume stays: "hs_interrupt_at (snd (control_poll p j s)) = None \<or> hs_interrupt_at s \<noteq> None"
  show "control_poll (p\<lparr> hp_interrupt := f \<rparr>) j s = control_poll p j s"
  proof (cases "hs_interrupt_at s")
    case (Some t)
    then have "latched s" by (simp add: latched_def)
    then show ?thesis by (rule io_sameD(1) [OF control_poll_same])
  next
    case None
    have sets: "(hs_interrupt_at (snd (interrupt_poll p j control s2)) = None) = False" for control s2
      using interrupt_poll_latches [of p j control s2] by (simp add: latched_def)
    show ?thesis
      using stays None unfolding control_poll_def interrupt_port_irrelevant
      by (auto simp: io_try_def io_then_def io_bind_def sets split: prod.splits sum.splits option.splits)
  qed
qed


lemma interrupt_sent_at_most_once_witness:
  "hold_turns 2 (demo_hold_ports\<lparr> hp_interrupt := (\<lambda>_ _. io_raise (RuntimeError ''sent twice'')) \<rparr>) demo_hold_job
      False \<lparr> milestone_turns = [], np_terminal = False \<rparr> ((initial_hold_state demo_hold_job ())\<lparr> hs_interrupt_at := Some 0 \<rparr>) =
   hold_turns 2 demo_hold_ports demo_hold_job
      False \<lparr> milestone_turns = [], np_terminal = False \<rparr> ((initial_hold_state demo_hold_job ())\<lparr> hs_interrupt_at := Some 0 \<rparr>)"
  using interrupt_sent_at_most_once
    [of demo_hold_ports demo_hold_job "(initial_hold_state demo_hold_job ())\<lparr> hs_interrupt_at := Some 0 \<rparr>"
      "\<lambda>_ _. io_raise (RuntimeError ''sent twice'')" 2 False "\<lparr> milestone_turns = [], np_terminal = False \<rparr>"] by simp

section \<open>What a worker is shown\<close>

text \<open>The receipt targets a contract exposes, and those of the items \<open>ids\<close>.\<close>

definition only_slice :: "pdict \<Rightarrow> int list \<Rightarrow> pdict \<Rightarrow> bool" where
  "only_slice contract ids c \<longleftrightarrow>
     (dhas c ''receipt_path'' \<longrightarrow> receipt_entry contract (hd ids) = Inr (dget c ''receipt_path'')) \<and>
     (dhas c ''receipt_paths'' \<longrightarrow> (\<exists>ps. dget c ''receipt_paths'' = PDict ps \<and> map fst ps = map id_key ids \<and>
        list_all2 (\<lambda>i (k, v). receipt_entry contract i = Inr v) ids ps))"

lemma rmap_Inr_all2: "rmap f xs = Inr ys \<Longrightarrow> list_all2 (\<lambda>x y. f x = Inr y) xs ys"
  by (induction xs arbitrary: ys) (auto simp: rbind_def split: sum.splits)

lemma receipts_all2:
  assumes "rmap (\<lambda>i. rbind (receipt_entry contract i) (\<lambda>v. Inr (id_key i, v))) ids = Inr ps"
  shows "map fst ps = map id_key ids" "list_all2 (\<lambda>i (k, v). receipt_entry contract i = Inr v) ids ps"
proof -
  have all: "list_all2 (\<lambda>i kv. rbind (receipt_entry contract i) (\<lambda>v. Inr (id_key i, v)) = Inr kv) ids ps"
    by (rule rmap_Inr_all2 [OF assms])
  then show "map fst ps = map id_key ids"
    by (induction rule: list_all2_induct) (auto simp: rbind_def split: sum.splits)
  show "list_all2 (\<lambda>i (k, v). receipt_entry contract i = Inr v) ids ps"
    by (rule list_all2_mono [OF all]) (auto simp: rbind_def split: sum.splits)
qed

lemma turn_contract_slice:
  assumes "turn_contract request contract ids sz n = Inr c"
  shows "only_slice contract ids c"
  using assms receipts_all2 [of contract ids]
  by (auto simp: turn_contract_def only_slice_def rbind_def schema_part_def raise_if_def split: sum.splits if_splits)

lemma pocket_contract:
  "only_slice contract ids ((''mode'', m) # schema_part contract)"
  "\<not> dhas ((''mode'', m) # schema_part contract) ''receipt_path''"
  "\<not> dhas ((''mode'', m) # schema_part contract) ''receipt_paths''"
  by (simp_all add: only_slice_def schema_part_def dhas_def)

text \<open>
  the full lane stays with the holder. The binding a worker gets for turn \<open>n\<close> of a lane lists
  exactly the batch of that turn, and its contract names receipt targets of that batch only, each
  the one the lane has for that item; under a final-answer contract it names none.
\<close>

theorem worker_sees_only_its_slice:
  assumes "turn_input_binding pl request n = Inr b"
    and "dget request ''input_binding'' = PDict lane" "dhas lane ''lane_item_count''"
    and "dget lane ''result_verification'' = PDict contract"
  shows "\<exists>ids c. lane_batch_ids lane n = Inr ids \<and> dget b ''candidate_ids'' = PList (map PInt ids) \<and>
    dget b ''result_verification'' = PDict c \<and> only_slice contract ids c \<and>
    (final_answer_mode pl lane = Inr True \<longrightarrow> \<not> dhas c ''receipt_path'' \<and> \<not> dhas c ''receipt_paths'')"
proof -
  obtain pocket where pocket: "final_answer_mode pl lane = Inr pocket"
    using assms by (auto simp: turn_input_binding_def rbind_Inr_iff)
  obtain ids where ids: "lane_batch_ids lane n = Inr ids"
    using assms by (auto simp: turn_input_binding_def rbind_Inr_iff)
  show ?thesis
  proof (cases pocket)
    case True
    then have "b = dset (dset lane ''candidate_ids'' (PList (map PInt ids))) ''result_verification''
        (PDict ((''mode'', PStr ''final_answer_json'') # schema_part contract))"
      using assms pocket ids by (simp add: turn_input_binding_def)
    then show ?thesis using ids pocket_contract by simp
  next
    case False
    then obtain sz c where "turn_contract request contract ids sz n = Inr c"
      and "b = dset (dset lane ''candidate_ids'' (PList (map PInt ids))) ''result_verification'' (PDict c)"
      using assms pocket ids by (auto simp: turn_input_binding_def rbind_Inr_iff)
    then show ?thesis using ids pocket False turn_contract_slice by simp
  qed
qed

definition demo_lane_request :: pdict where
  "demo_lane_request = [(''request_id'', PStr ''r1''), (''input_binding'', PDict
     [(''lane_item_count'', PInt 3), (''candidate_ids'', PList [PInt 4, PInt 5, PInt 6]), (''batch_size'', PInt 2),
      (''result_verification'', PDict [(''receipt_paths'', PDict [(''4'', PStr ''a''), (''5'', PStr ''b''), (''6'', PStr ''c'')]),
         (''terminal_statuses'', PList [PStr ''received''])])])]"

lemma worker_sees_only_its_slice_witness:
  "\<exists>b. turn_input_binding demo_paths demo_lane_request 2 = Inr b \<and> dget b ''candidate_ids'' = PList [PInt 6] \<and>
     (\<exists>c. dget b ''result_verification'' = PDict c \<and>
        only_slice (as_dict (dget (as_dict (dget demo_lane_request ''input_binding'')) ''result_verification'')) [6] c)"
proof -
  let ?lane = "as_dict (dget demo_lane_request ''input_binding'')"
  have "case turn_input_binding demo_paths demo_lane_request 2 of Inr b \<Rightarrow> True | Inl e \<Rightarrow> False" by code_simp
  then obtain b where b: "turn_input_binding demo_paths demo_lane_request 2 = Inr b" by (auto split: sum.splits)
  have ids: "lane_batch_ids ?lane 2 = Inr [6]" by code_simp
  have "dget demo_lane_request ''input_binding'' = PDict ?lane" "dhas ?lane ''lane_item_count''"
    "dget ?lane ''result_verification'' = PDict (as_dict (dget ?lane ''result_verification''))"
    by (simp_all add: demo_lane_request_def)
  from worker_sees_only_its_slice [OF b this] b ids show ?thesis by auto
qed

end
