(* ===== verification/Output_Receipts.thy ===== *)
theory Output_Receipts
  imports Hold_Task Py_Json
begin

text \<open>
  The output evidence of a held turn and its history:
  \<open>verify_candidate_output\<close>, \<open>receive_candidate_final_answer\<close>, \<open>append_terminal_turn_history\<close> and
  \<open>read_turn_history\<close> of \<open>packages/adapters/codex_app_server/task_provisioning_adapter.py\<close>.

  The files under the output boundary are a map from resolved paths to their bytes
  (\<open>output_files\<close>). Path resolution, \<open>json.loads\<close>, the digest, the schema validator and whether a
  directory exists or a file can be written are parameters (\<open>output_lib\<close>). The SQLite table is the
  list of its rows; a JSON column holds the value its text encodes.
\<close>

section \<open>The files of the output boundary\<close>

type_synonym output_files = "(string \<times> string) list"

record output_lib =
  ol_paths :: path_lib
  ol_sibling :: "string \<Rightarrow> string \<Rightarrow> string"
  ol_loads :: "string \<Rightarrow> pyval result"
  ol_loads_strict :: "string \<Rightarrow> pyval result"
  ol_digest :: "string \<Rightarrow> string"
  ol_dir_exists :: "string \<Rightarrow> bool"
  ol_writable :: "string \<Rightarrow> bool"
  ol_validate :: "pyval \<Rightarrow> pyval \<Rightarrow> unit result"

text \<open>What \<open>except (OSError, ValueError, KeyError, TypeError, IndexError)\<close> takes.\<close>

fun is_data_error :: "pyexc \<Rightarrow> bool" where
  "is_data_error (KeyError s) = True"
| "is_data_error (TypeError s) = True"
| "is_data_error (IndexError s) = True"
| "is_data_error e = (is_os_error e \<or> is_value_error e)"

text \<open>\<open>Path(v)\<close> takes a text only.\<close>

definition path_text :: "pyval \<Rightarrow> string result" where
  "path_text v = (case v of PStr s \<Rightarrow> Inr s
     | _ \<Rightarrow> Inl (TypeError ''argument should be a str or an os.PathLike object''))"

definition output_target :: "path_lib \<Rightarrow> string \<Rightarrow> string \<Rightarrow> string" where
  "output_target pl boundary v = pl_resolve pl (if pl_absolute pl v then v else pl_join pl boundary v)"

text \<open>\<open>utf-8-sig\<close> drops a byte order mark.\<close>

definition drop_bom :: "string \<Rightarrow> string" where
  "drop_bom s = (if prefix (map char_of [239::nat, 187, 191]) s then drop 3 s else s)"

section \<open>The verification of one candidate\<close>

record item_local =
  il_evidence :: pdict
  il_unsafe :: bool

definition unsafe_error :: "string \<Rightarrow> (item_local, 'a) io" where
  "unsafe_error msg = io_then (io_modify (\<lambda>l. l\<lparr> il_unsafe := True \<rparr>)) (io_raise (ValueError msg))"

text \<open>A saved \<open>candidate_id\<close> is an integer or its text.\<close>

definition candidate_matches :: "pdict \<Rightarrow> int \<Rightarrow> bool" where
  "candidate_matches data candidate = (case dget data ''candidate_id'' of
      PInt i \<Rightarrow> i = candidate | PStr s \<Rightarrow> s = id_key candidate | _ \<Rightarrow> False)"

definition read_text :: "output_files \<Rightarrow> string \<Rightarrow> string result" where
  "read_text files path = (case map_of files path of
      None \<Rightarrow> Inl (OSError ''No such file or directory'') | Some s \<Rightarrow> Inr s)"

definition read_output ::
    "output_lib \<Rightarrow> output_files \<Rightarrow> string \<Rightarrow> int \<Rightarrow> pyval \<Rightarrow> bool \<Rightarrow> (item_local, string \<times> pyval) io"
where
  "read_output lib files boundary candidate v require_object =
     io_bind (io_lift (path_text v)) (\<lambda>text.
     let path = output_target (ol_paths lib) boundary text in
     if \<not> pl_within (ol_paths lib) path boundary then unsafe_error ''output path is outside the allowed boundary''
     else io_bind (io_lift (read_text files path)) (\<lambda>content.
       io_then (io_modify (\<lambda>l. l\<lparr> il_evidence := dset (il_evidence l) path (PStr (drop_bom content)) \<rparr>))
       (io_bind (io_lift (ol_loads lib (drop_bom content))) (\<lambda>data.
        io_then (io_check (require_object \<and> \<not> is_dict data) (ValueError ''saved output must be a JSON object''))
         (if require_object \<and> \<not> candidate_matches (as_dict data) candidate
          then unsafe_error ''saved candidate_id does not match current candidate''
          else io_return (path, data))))))"

definition expected_identity :: "pdict \<Rightarrow> int \<Rightarrow> int \<Rightarrow> pdict result" where
  "expected_identity request n candidate = rbind (dindex request ''request_id'') (\<lambda>rid.
     Inr [(''candidate_id'', PInt candidate), (''request_id'', rid), (''turn_number'', PInt n)])"

text \<open>The first expected entry that the data do not have, with its exact type.\<close>

definition check_identity :: "string \<Rightarrow> pdict \<Rightarrow> pdict \<Rightarrow> unit result" where
  "check_identity label expected data = (case find (\<lambda>(k, v). dget data k \<noteq> v) expected of
      None \<Rightarrow> Inr ()
    | Some (k, v) \<Rightarrow> Inl (ValueError (label @ '' '' @ k @ '' does not match current candidate/run/turn'')))"

definition open_words :: "string list" where
  "open_words = [''accepted'', ''holding'', ''running'', ''pending'', ''inprogress'', ''queued'']"

definition failure_words :: "string list" where
  "failure_words = [''failed'', ''blocked'', ''partial'', ''partially_completed'', ''incomplete'', ''error'',
     ''cancelled'', ''canceled'', ''interrupted'']"

definition terminal_statuses_ok :: "pyval \<Rightarrow> bool" where
  "terminal_statuses_ok allowed \<longleftrightarrow> is_list allowed \<and> as_list allowed \<noteq> [] \<and>
     list_all (\<lambda>v. case v of PStr s \<Rightarrow> py_strip s \<noteq> [] \<and> py_lower s \<notin> set open_words | _ \<Rightarrow> False) (as_list allowed)"

definition check_saved :: "string \<Rightarrow> pyval \<Rightarrow> pdict \<Rightarrow> pdict \<Rightarrow> unit result" where
  "check_saved label allowed expected data =
     rbind (check_identity label expected data) (\<lambda>_.
       raise_if (\<not> list_ex (py_eq (dget data ''status'')) (as_list allowed))
         (ValueError (label @ '' has no allowed terminal status'')))"

definition check_schema :: "output_lib \<Rightarrow> pdict \<Rightarrow> pyval \<Rightarrow> unit result" where
  "check_schema lib contract output =
     (if dhas contract ''output_schema'' then ol_validate lib (dget contract ''output_schema'') output else Inr ())"

definition filled_text :: "pyval \<Rightarrow> bool" where
  "filled_text v = (case v of PStr s \<Rightarrow> s \<noteq> [] | _ \<Rightarrow> False)"

definition intake_receipt_ok :: "pdict \<Rightarrow> bool" where
  "intake_receipt_ok r \<longleftrightarrow> dget r ''schema'' = PStr ''jarvis-final-answer-receipt/v1'' \<and>
     dget r ''status'' = PStr ''received'' \<and> dget r ''received'' = PBool True \<and>
     filled_text (dget r ''thread_id'') \<and> filled_text (dget r ''turn_id'') \<and>
     dget r ''review_needed'' = PBool True \<and> dget r ''verification_status'' = PStr ''not_verified'' \<and>
     dget r ''research_completion'' = PStr ''not_assessed''"

definition file_digest :: "output_lib \<Rightarrow> output_files \<Rightarrow> string \<Rightarrow> pyval result" where
  "file_digest lib files path = rbind (read_text files path) (\<lambda>s. Inr (PStr (ol_digest lib s)))"

text \<open>A receipt of \<open>final_answer_json\<close>: the evidence files it names are inside and unchanged.\<close>

definition verify_intake ::
    "output_lib \<Rightarrow> output_files \<Rightarrow> string \<Rightarrow> int \<Rightarrow> pdict \<Rightarrow> string \<Rightarrow> pdict \<Rightarrow> (item_local, pdict) io"
where
  "verify_intake lib files boundary candidate expected receipt_path receipt =
     io_then (io_lift (check_identity ''receipt'' expected receipt))
     (io_then (io_check (\<not> intake_receipt_ok receipt)
       (ValueError ''final answer receipt has no bound unverified intake identity''))
     (io_bind (io_lift (dindex receipt ''output_path'')) (\<lambda>v.
      io_bind (read_output lib files boundary candidate v False) (\<lambda>(output_path, data).
      io_bind (io_lift (rbind (dindex receipt ''raw_path'') path_text)) (\<lambda>raw.
      let raw_path = pl_resolve (ol_paths lib) raw in
      io_then (io_lift (rbind (read_text files raw_path) (\<lambda>_. Inr ())))
      (io_then (io_check (\<not> pl_within (ol_paths lib) raw_path boundary) (ValueError ''raw path is outside the allowed boundary''))
      (io_bind (io_lift (file_digest lib files output_path)) (\<lambda>od.
       io_bind (io_lift (file_digest lib files raw_path)) (\<lambda>rd.
       io_then (io_check (od \<noteq> dget receipt ''output_sha256'' \<or> rd \<noteq> dget receipt ''raw_sha256'')
           (ValueError ''final answer evidence hash mismatch''))
        (io_return ([(''status'', PStr ''verified'')] @ expected @
          [(''receipt_path'', PStr receipt_path), (''output_path'', PStr output_path),
           (''terminal_status'', PStr ''received''), (''thread_id'', dget receipt ''thread_id''),
           (''turn_id'', dget receipt ''turn_id''), (''review_needed'', PBool True),
           (''verification_status'', PStr ''not_verified'')])))))))))))"

text \<open>A business receipt and the saved output it names.\<close>

definition verify_business ::
    "output_lib \<Rightarrow> output_files \<Rightarrow> string \<Rightarrow> int \<Rightarrow> pdict \<Rightarrow> pdict \<Rightarrow> string \<Rightarrow> pdict \<Rightarrow> (item_local, pdict) io"
where
  "verify_business lib files boundary candidate contract expected receipt_path receipt =
     io_bind (io_lift (dindex receipt ''output_path'')) (\<lambda>v.
     io_bind (read_output lib files boundary candidate v True) (\<lambda>(output_path, output).
     io_bind (io_lift (dindex contract ''terminal_statuses'')) (\<lambda>allowed.
     io_then (io_check (\<not> terminal_statuses_ok allowed)
       (ValueError ''terminal_statuses must explicitly name valid business terminal states''))
     (io_then (io_lift (check_saved ''receipt'' allowed expected receipt))
     (io_then (io_lift (check_saved ''output'' allowed expected (as_dict output)))
     (io_then (io_check (dget receipt ''status'' \<noteq> dget (as_dict output) ''status'')
       (ValueError ''receipt and output terminal status mismatch''))
     (io_then (io_lift (check_schema lib contract output))
     (io_then (io_check (py_lower (py_strip (py_str (dget receipt ''status''))) \<in> set failure_words)
       (ValueError (''business terminal status: '' @ py_str (dget receipt ''status''))))
      (io_return ([(''status'', PStr ''verified'')] @ expected @
        [(''receipt_path'', PStr receipt_path), (''output_path'', PStr output_path),
         (''terminal_status'', dget receipt ''status'')]))))))))))"

definition verify_bound ::
    "output_lib \<Rightarrow> output_files \<Rightarrow> pdict \<Rightarrow> pdict \<Rightarrow> int \<Rightarrow> pdict \<Rightarrow> (item_local, pdict) io"
where
  "verify_bound lib files binding contract candidate expected =
     io_bind (io_lift (rbind (dindex binding ''output_boundary'') path_text)) (\<lambda>b.
     let boundary = pl_resolve (ol_paths lib) b in
     io_then (io_check (\<not> ol_dir_exists lib boundary) (OSError ''No such file or directory''))
     (io_bind (io_lift (rbind (dindex contract ''receipt_paths'') (\<lambda>ps. dindex (as_dict ps) (id_key candidate)))) (\<lambda>v.
      io_bind (read_output lib files boundary candidate v True) (\<lambda>(receipt_path, receipt).
      io_bind (io_lift (final_answer_mode (ol_paths lib) binding)) (\<lambda>pocket.
      if pocket then verify_intake lib files boundary candidate expected receipt_path (as_dict receipt)
      else verify_business lib files boundary candidate contract expected receipt_path (as_dict receipt))))))"

definition unverified_item :: "pdict \<Rightarrow> bool \<Rightarrow> pyexc \<Rightarrow> pdict \<Rightarrow> pdict" where
  "unverified_item expected unsafe e evidence =
     [(''status'', PStr (if unsafe then ''blocked'' else ''review''))] @ expected @
     [(''scheduler_outcome'', PStr (if unsafe then ''blocked'' else ''failed'')),
      (''reason'', PStr (''candidate_output_unverified: '' @ exc_text e)), (''original_evidence'', PDict evidence)]"

definition legacy_item :: pdict where
  "legacy_item = [(''status'', PStr ''legacy_unverified''),
     (''reason'', PStr ''bound request predates saved-output verification'')]"

definition verify_item :: "output_lib \<Rightarrow> output_files \<Rightarrow> pdict \<Rightarrow> int \<Rightarrow> int \<Rightarrow> pdict result" where
  "verify_item lib files request n candidate =
     (let binding = as_dict (dget request ''input_binding''); contract = dget binding ''result_verification'' in
      if \<not> dhas binding ''lane_item_count'' then Inr [(''status'', PStr ''not_required'')]
      else if contract = PNone then Inr legacy_item
      else rbind (expected_identity request n candidate) (\<lambda>expected.
        case verify_bound lib files binding (as_dict contract) candidate expected \<lparr> il_evidence = [], il_unsafe = False \<rparr> of
          (Inr d, l) \<Rightarrow> Inr d
        | (Inl e, l) \<Rightarrow> if \<not> is_data_error e then Inl e
            else rbind (if il_unsafe l then Inr True else final_answer_mode (ol_paths lib) binding) (\<lambda>unsafe.
              Inr (unverified_item expected unsafe e (il_evidence l)))))"

section \<open>The verification of a turn\<close>

text \<open>The items of a batch in order, up to the first blocked one.\<close>

fun verify_items :: "output_lib \<Rightarrow> output_files \<Rightarrow> pdict \<Rightarrow> int \<Rightarrow> int list \<Rightarrow> (pdict list \<times> (int \<times> pdict) option) result" where
  "verify_items lib files request n [] = Inr ([], None)"
| "verify_items lib files request n (c # cs) = rbind (verify_item lib files request n c) (\<lambda>checked.
     if dget checked ''status'' = PStr ''blocked'' then Inr ([checked], Some (c, checked))
     else rbind (verify_items lib files request n cs) (\<lambda>(items, blocked). Inr (checked # items, blocked)))"

definition blocked_words :: "pdict \<Rightarrow> string" where
  "blocked_words checked = py_str (py_or (dget checked ''reason'') (py_or (dget checked ''terminal_status'') (dget checked ''status'')))"

definition batch_report :: "pdict \<Rightarrow> pdict list \<times> (int \<times> pdict) option \<Rightarrow> pdict" where
  "batch_report identity result = (case result of
      (items, Some (c, checked)) \<Rightarrow> [(''status'', PStr ''blocked'')] @ identity @
        [(''items'', PList (map PDict items)),
         (''reason'', PStr (''batch candidate '' @ id_key c @ '' unverified: '' @ blocked_words checked))]
    | (items, None) \<Rightarrow>
        [(''status'', PStr (if list_ex (\<lambda>i. dget i ''status'' = PStr ''review'') items then ''review'' else ''verified''))] @
        identity @ [(''items'', PList (map PDict items))])"

definition verify_lane :: "output_lib \<Rightarrow> output_files \<Rightarrow> pdict \<Rightarrow> pdict \<Rightarrow> int \<Rightarrow> pdict result" where
  "verify_lane lib files request binding n =
     rbind (lane_batch_ids binding n) (\<lambda>ids. rbind (lane_batch_size binding) (\<lambda>sz.
     if sz = 1 then rbind (if ids = [] then Inl (IndexError ''list index out of range'') else Inr (hd ids))
       (verify_item lib files request n)
     else rbind (dindex request ''request_id'') (\<lambda>rid.
       rbind (verify_items lib files request n ids) (\<lambda>result.
       Inr (batch_report [(''candidate_ids'', PList (map PInt ids)), (''request_id'', rid), (''turn_number'', PInt n)] result)))))"

definition verify_candidate_output :: "output_lib \<Rightarrow> output_files \<Rightarrow> pdict \<Rightarrow> int \<Rightarrow> pdict result" where
  "verify_candidate_output lib files request n =
     (let binding = as_dict (dget request ''input_binding'') in
      if \<not> dhas binding ''lane_item_count'' then Inr [(''status'', PStr ''not_required'')]
      else case verify_lane lib files request binding n of
          Inr d \<Rightarrow> Inr d
        | Inl e \<Rightarrow> if is_data_error e
            then Inr [(''status'', PStr ''blocked''), (''reason'', PStr (''candidate_output_unverified: '' @ exc_text e))]
            else Inl e)"

section \<open>The intake of a final answer\<close>

definition receive_handled :: "(output_files, pdict) io \<Rightarrow> (output_files, pdict) io" where
  "receive_handled m = io_catch m (\<lambda>e. if is_data_error e
     then io_return [(''status'', PStr ''blocked''), (''reason'', PStr (''final_answer_intake_failed: '' @ exc_text e))]
     else io_raise e)"

text \<open>A write replaces the file or raises.\<close>

definition write_output :: "output_lib \<Rightarrow> string \<Rightarrow> string \<Rightarrow> (output_files, unit) io" where
  "write_output lib path content =
     io_then (io_check (\<not> ol_writable lib path) (OSError ''Permission denied''))
       (io_modify (AList.update path content))"

definition save_evidence :: "output_lib \<Rightarrow> string \<Rightarrow> string \<Rightarrow> (output_files, unit) io" where
  "save_evidence lib path content =
     io_bind (io_get (\<lambda>files. map_of files path)) (\<lambda>old. case old of
       None \<Rightarrow> write_output lib path content
     | Some s \<Rightarrow> io_check (s \<noteq> content) (ValueError ''existing evidence differs''))"

text \<open>\<open>json.dumps(v, ensure_ascii=False)\<close>.\<close>

definition json_plain :: "pyval \<Rightarrow> string" where
  "json_plain v = json_text ('', '', '': '') v"

text \<open>The payload of the answer, whether it parsed, and what is wrong with it.\<close>

definition parse_payload :: "output_lib \<Rightarrow> pdict \<Rightarrow> string \<Rightarrow> (pyval \<times> bool \<times> string list) result" where
  "parse_payload lib contract raw =
     (case ol_loads_strict lib raw of
        Inl e \<Rightarrow> Inr (PNone, False, [''JSON parse failed: '' @ exc_text e])
      | Inr v \<Rightarrow> (case check_schema lib contract v of
            Inr u \<Rightarrow> Inr (v, True, [])
          | Inl e \<Rightarrow> if is_value_error e then Inr (v, True, [exc_text e]) else Inl e))"

definition intake_identity :: "pdict \<Rightarrow> int \<Rightarrow> int \<Rightarrow> string \<Rightarrow> string \<Rightarrow> pdict result" where
  "intake_identity request n candidate thread turn = rbind (dindex request ''request_id'') (\<lambda>rid.
     Inr [(''candidate_id'', PInt candidate), (''request_id'', rid), (''turn_number'', PInt n),
          (''thread_id'', PStr thread), (''turn_id'', PStr turn)])"

definition intake_receipt :: "pdict \<Rightarrow> string \<Rightarrow> string \<Rightarrow> string \<Rightarrow> string \<Rightarrow> bool \<Rightarrow> string list \<Rightarrow> pdict" where
  "intake_receipt identity raw_path raw_hash payload_path payload_hash parsed issues =
     [(''schema'', PStr ''jarvis-final-answer-receipt/v1'')] @ identity @
     [(''status'', PStr ''received''), (''received'', PBool True), (''raw_path'', PStr raw_path),
      (''raw_sha256'', PStr raw_hash), (''output_path'', PStr payload_path), (''output_sha256'', PStr payload_hash),
      (''payload_parsed'', PBool parsed), (''schema_issues'', PList (map PStr issues)), (''review_needed'', PBool True),
      (''verification_status'', PStr ''not_verified''), (''research_completion'', PStr ''not_assessed'')]"

record intake_slot =
  sl_boundary :: string
  sl_receipt :: string
  sl_contract :: pdict
  sl_identity :: pdict

text \<open>The checks before anything is written: the slot of the answer.\<close>

definition intake_slot_of ::
    "output_lib \<Rightarrow> pdict \<Rightarrow> int \<Rightarrow> string \<Rightarrow> string \<Rightarrow> string \<Rightarrow> intake_slot result" where
  "intake_slot_of lib request n thread turn raw =
     (let pl = ol_paths lib; binding = as_dict (dget request ''input_binding'') in
      rbind (final_answer_mode pl binding) (\<lambda>pocket.
      rbind (raise_if (\<not> pocket \<or> \<not> dhas binding ''lane_item_count'')
        (ValueError ''final answer intake requires an explicit finite single-item lane'')) (\<lambda>_.
      rbind (raise_if (thread = [] \<or> turn = [] \<or> raw = [])
        (ValueError ''exact completed turn and final answer are required'')) (\<lambda>_.
      rbind (lane_batch_ids binding n) (\<lambda>ids.
      rbind (if ids = [] then Inl (IndexError ''list index out of range'') else Inr (hd ids)) (\<lambda>candidate.
      rbind (dindex binding ''result_verification'') (\<lambda>contract.
      rbind (rbind (dindex binding ''output_boundary'') path_text) (\<lambda>b.
      let boundary = pl_resolve pl b in
      rbind (rbind (receipt_entry (as_dict contract) candidate) path_text) (\<lambda>slot.
      let path = output_target pl boundary slot in
      rbind (raise_if (\<not> pl_within pl path boundary) (ValueError ''receipt path is outside the allowed boundary'')) (\<lambda>_.
      rbind (intake_identity request n candidate thread turn) (\<lambda>identity.
      Inr \<lparr> sl_boundary = boundary, sl_receipt = path, sl_contract = as_dict contract, sl_identity = identity \<rparr>)))))))))))"

definition evidence_key :: "output_lib \<Rightarrow> pdict \<Rightarrow> string \<Rightarrow> string" where
  "evidence_key lib identity raw_hash = ol_digest lib (json_default (PDict identity) @ raw_hash)"

definition evidence_path :: "output_lib \<Rightarrow> intake_slot \<Rightarrow> string \<Rightarrow> string \<Rightarrow> string" where
  "evidence_path lib slot raw_hash ending =
     ol_sibling lib (sl_receipt slot) (''.'' @ evidence_key lib (sl_identity slot) raw_hash @ ending)"

definition evidence_inside :: "output_lib \<Rightarrow> intake_slot \<Rightarrow> string \<Rightarrow> bool" where
  "evidence_inside lib slot path \<longleftrightarrow> pl_within (ol_paths lib) (pl_resolve (ol_paths lib) path) (sl_boundary slot)"

definition store_answer :: "output_lib \<Rightarrow> intake_slot \<Rightarrow> string \<Rightarrow> (output_files, unit) io" where
  "store_answer lib slot raw =
     (let raw_hash = ol_digest lib raw;
          raw_path = evidence_path lib slot raw_hash ''.raw.txt'';
          payload_path = evidence_path lib slot raw_hash ''.payload.json'' in
      io_then (io_check (\<not> evidence_inside lib slot raw_path \<or> \<not> evidence_inside lib slot payload_path)
        (ValueError ''evidence path is outside the allowed boundary''))
      (io_then (save_evidence lib raw_path raw)
      (io_bind (io_lift (parse_payload lib (sl_contract slot) raw)) (\<lambda>(payload, parsed, issues).
       io_then (save_evidence lib payload_path (json_plain payload))
        (write_output lib (sl_receipt slot) (json_plain (PDict (intake_receipt (sl_identity slot) raw_path raw_hash
           payload_path (ol_digest lib (json_plain payload)) parsed issues))))))))"

definition same_turn :: "pdict \<Rightarrow> pdict \<Rightarrow> bool" where
  "same_turn identity verified \<longleftrightarrow> list_all (\<lambda>(k, v). py_eq (dget verified k) v) identity"

definition receive_candidate_final_answer ::
    "output_lib \<Rightarrow> pdict \<Rightarrow> int \<Rightarrow> string \<Rightarrow> string \<Rightarrow> string \<Rightarrow> (output_files, pdict) io" where
  "receive_candidate_final_answer lib request n thread turn raw =
     receive_handled (io_bind (io_lift (intake_slot_of lib request n thread turn raw)) (\<lambda>slot.
       io_then (store_answer lib slot raw)
       (io_bind (io_get (\<lambda>files. verify_candidate_output lib files request n)) (\<lambda>r.
        io_bind (io_lift r) (\<lambda>verified.
        io_then (io_check (dget verified ''status'' = PStr ''verified'' \<and> \<not> same_turn (sl_identity slot) verified)
          (ValueError ''saved receipt does not match the owning native turn''))
        (io_return verified))))))"

section \<open>The turn history\<close>

record turn_row =
  th_hold :: string
  th_turn :: string
  th_task :: string
  th_request :: string
  th_thread :: string
  th_number :: int
  th_candidate :: "int option"
  th_status :: string
  th_answer :: "string option"
  th_has_answer :: bool
  th_completed :: string
  th_recorded :: string
  th_ids :: "int list option"
  th_verification :: "pdict option"

text \<open>\<open>INSERT OR IGNORE\<close>, with the primary key \<open>(hold_id, turn_id)\<close>.\<close>

definition row_key :: "turn_row \<Rightarrow> string \<times> string" where
  "row_key r = (th_hold r, th_turn r)"

definition insert_row :: "turn_row \<Rightarrow> turn_row list \<Rightarrow> turn_row list" where
  "insert_row r rows = (if row_key r \<in> row_key ` set rows then rows else rows @ [r])"

definition append_terminal_turn_history ::
    "instant \<Rightarrow> string \<Rightarrow> string \<Rightarrow> string \<Rightarrow> string \<Rightarrow> string \<Rightarrow> int \<Rightarrow> int option \<Rightarrow> string \<Rightarrow> string \<Rightarrow> string \<Rightarrow>
       int list option \<Rightarrow> pdict option \<Rightarrow> turn_row list \<Rightarrow> turn_row list" where
  "append_terminal_turn_history now task hold request thread turn n candidate status answer completed ids verification rows =
     insert_row \<lparr> th_hold = hold, th_turn = turn, th_task = task, th_request = request, th_thread = thread, th_number = n,
        th_candidate = candidate, th_status = status, th_answer = (if answer = [] then None else Some answer),
        th_has_answer = (answer \<noteq> []), th_completed = completed, th_recorded = isoformat now, th_ids = ids,
        th_verification = verification \<rparr> rows"

definition row_dict :: "turn_row \<Rightarrow> pdict" where
  "row_dict r =
     [(''task_id'', PStr (th_task r)), (''hold_id'', PStr (th_hold r)), (''request_id'', PStr (th_request r)),
      (''thread_id'', PStr (th_thread r)), (''turn_id'', PStr (th_turn r)), (''turn_number'', PInt (th_number r)),
      (''candidate_id'', opt_int (th_candidate r)), (''status'', PStr (th_status r)),
      (''final_answer'', opt_str (th_answer r)), (''has_final_answer'', PInt (if th_has_answer r then 1 else 0)),
      (''completed_at'', PStr (th_completed r)), (''recorded_at'', PStr (th_recorded r))] @
     (case th_ids r of None \<Rightarrow> [] | Some ids \<Rightarrow> [(''candidate_ids'', PList (map PInt ids))]) @
     (case th_verification r of None \<Rightarrow> [] | Some v \<Rightarrow> [(''output_verification'', PDict v)])"

text \<open>A filter that was not given, or is blank, selects every row.\<close>

definition selects :: "string option \<Rightarrow> string \<Rightarrow> bool" where
  "selects filter_value column = (case filter_value of
      None \<Rightarrow> True | Some v \<Rightarrow> py_strip v = [] \<or> column = py_strip v)"

text \<open>\<open>ORDER BY recorded_at, turn_number\<close>.\<close>

definition row_order :: "turn_row list \<Rightarrow> turn_row list" where
  "row_order rows = sort_key th_recorded (sort_key th_number rows)"

definition read_turn_history ::
    "string option \<Rightarrow> string option \<Rightarrow> string option \<Rightarrow> string option \<Rightarrow> turn_row list \<Rightarrow> pdict list" where
  "read_turn_history task hold thread turn rows =
     map row_dict (row_order (filter (\<lambda>r. selects task (th_task r) \<and> selects hold (th_hold r) \<and>
       selects thread (th_thread r) \<and> selects turn (th_turn r)) rows))"

end
