(* ===== verification/Output_Safety.thy ===== *)
theory Output_Safety
  imports Output_Receipts
begin

text \<open>
  What the output evidence of a turn guarantees: a turn reported as verified rests on files inside the
  output boundary, an accepted final answer is verified and overwrites no evidence, and the history
  keeps the first record of every turn.
\<close>

section \<open>What a verified turn rests on\<close>

definition saved_at :: "output_lib \<Rightarrow> output_files \<Rightarrow> string \<Rightarrow> pyval \<Rightarrow> string \<Rightarrow> pyval \<Rightarrow> bool" where
  "saved_at lib files boundary v path data \<longleftrightarrow>
     (\<exists>text content. v = PStr text \<and> path = output_target (ol_paths lib) boundary text \<and>
        pl_within (ol_paths lib) path boundary \<and> map_of files path = Some content \<and>
        ol_loads lib (drop_bom content) = Inr data)"

definition identity_of :: "pdict \<Rightarrow> pdict \<Rightarrow> bool" where
  "identity_of expected data \<longleftrightarrow> list_all (\<lambda>(k, v). dget data k = v) expected"

text \<open>A business receipt and its output agree on an allowed, successful terminal status.\<close>

definition business_evidence ::
    "output_lib \<Rightarrow> output_files \<Rightarrow> string \<Rightarrow> pdict \<Rightarrow> pdict \<Rightarrow> int \<Rightarrow> pdict \<Rightarrow> bool" where
  "business_evidence lib files boundary contract expected candidate receipt \<longleftrightarrow>
     (\<exists>path output st. saved_at lib files boundary (dget receipt ''output_path'') path (PDict output) \<and>
        candidate_matches output candidate \<and> identity_of expected output \<and>
        dget receipt ''status'' = PStr st \<and> dget output ''status'' = PStr st \<and>
        PStr st \<in> set (as_list (dget contract ''terminal_statuses'')) \<and>
        py_lower st \<notin> set open_words \<and> py_lower (py_strip st) \<notin> set failure_words)"

text \<open>A final-answer receipt names a turn and two files inside the boundary with the digests it states.\<close>

definition intake_evidence ::
    "output_lib \<Rightarrow> output_files \<Rightarrow> string \<Rightarrow> pdict \<Rightarrow> bool" where
  "intake_evidence lib files boundary receipt \<longleftrightarrow> intake_receipt_ok receipt \<and>
     (\<exists>path data. saved_at lib files boundary (dget receipt ''output_path'') path data \<and>
        file_digest lib files path = Inr (dget receipt ''output_sha256'')) \<and>
     (\<exists>raw. dget receipt ''raw_path'' = PStr raw \<and>
        pl_within (ol_paths lib) (pl_resolve (ol_paths lib) raw) boundary \<and>
        file_digest lib files (pl_resolve (ol_paths lib) raw) = Inr (dget receipt ''raw_sha256''))"

definition bound_evidence :: "output_lib \<Rightarrow> output_files \<Rightarrow> pdict \<Rightarrow> pdict \<Rightarrow> int \<Rightarrow> bool" where
  "bound_evidence lib files binding expected candidate \<longleftrightarrow>
     (let contract = as_dict (dget binding ''result_verification'') in
      \<exists>b v path receipt. dget binding ''output_boundary'' = PStr b \<and> receipt_entry contract candidate = Inr v \<and>
        saved_at lib files (pl_resolve (ol_paths lib) b) v path (PDict receipt) \<and>
        candidate_matches receipt candidate \<and> identity_of expected receipt \<and>
        (if final_answer_mode (ol_paths lib) binding = Inr True
         then intake_evidence lib files (pl_resolve (ol_paths lib) b) receipt
         else business_evidence lib files (pl_resolve (ol_paths lib) b) contract expected candidate receipt))"

lemma path_text_Inr [simp]: "path_text v = Inr s \<longleftrightarrow> v = PStr s"
  by (auto simp: path_text_def split: pyval.splits)

lemma dindex_Inr: "dindex d k = Inr v \<Longrightarrow> dget d k = v"
  by (auto simp: dindex_def dget_def split: option.splits)

lemma check_identity_Inr: "check_identity l expected data = Inr u \<Longrightarrow> identity_of expected data"
  by (auto simp: check_identity_def identity_of_def list_all_iff find_None_iff split: option.splits)

lemma read_output_Inr:
  assumes "read_output lib files boundary candidate v require l = (Inr (path, data), l')"
  shows "saved_at lib files boundary v path data \<and>
    (require \<longrightarrow> is_dict data \<and> candidate_matches (as_dict data) candidate)"
  using assms
  by (auto simp: read_output_def Let_def io_bind_Inr io_then_Inr unsafe_error_def saved_at_def read_text_def
      split: if_splits option.splits)

lemma is_dict_PDict: "is_dict v \<Longrightarrow> v = PDict (as_dict v)"
  by (cases v) auto

lemma terminal_status_word:
  assumes "terminal_statuses_ok allowed" "list_ex (py_eq v) (as_list allowed)"
  shows "\<exists>st. v = PStr st \<and> PStr st \<in> set (as_list allowed) \<and> py_lower st \<notin> set open_words"
proof -
  obtain w where w: "w \<in> set (as_list allowed)" "py_eq v w" using assms(2) by (auto simp: list_ex_iff)
  then have "case w of PStr s \<Rightarrow> py_strip s \<noteq> [] \<and> py_lower s \<notin> set open_words | _ \<Rightarrow> False"
    using assms(1) by (auto simp: terminal_statuses_ok_def list_all_iff)
  then show ?thesis using w by (cases w) auto
qed

lemma verify_business_Inr:
  assumes "verify_business lib files boundary candidate contract expected rp receipt l = (Inr d, l')"
  shows "identity_of expected receipt \<and> business_evidence lib files boundary contract expected candidate receipt"
proof -
  obtain v path out l1 l2 allowed where 1: "dindex receipt ''output_path'' = Inr v"
    "read_output lib files boundary candidate v True l1 = (Inr (path, out), l2)"
    "dindex contract ''terminal_statuses'' = Inr allowed" "terminal_statuses_ok allowed"
    "check_saved ''receipt'' allowed expected receipt = Inr ()"
    "check_saved ''output'' allowed expected (as_dict out) = Inr ()"
    "dget receipt ''status'' = dget (as_dict out) ''status''"
    "py_lower (py_strip (py_str (dget receipt ''status''))) \<notin> set failure_words"
    using assms by (auto simp: verify_business_def io_bind_Inr io_then_Inr split: if_splits)
  have found: "saved_at lib files boundary v path (PDict (as_dict out))" "candidate_matches (as_dict out) candidate"
    using read_output_Inr [OF 1(2)] is_dict_PDict [of out] by auto
  have ids: "identity_of expected receipt" "identity_of expected (as_dict out)"
    and status: "list_ex (py_eq (dget receipt ''status'')) (as_list allowed)"
    using 1(5,6) by (auto simp: check_saved_def rbind_Inr_iff raise_if_def dest: check_identity_Inr split: if_splits)
  obtain st where st: "dget receipt ''status'' = PStr st" "PStr st \<in> set (as_list allowed)" "py_lower st \<notin> set open_words"
    using terminal_status_word [OF 1(4) status] by blast
  have "business_evidence lib files boundary contract expected candidate receipt"
    unfolding business_evidence_def
    using found ids st 1(7,8) dindex_Inr [OF 1(1)] dindex_Inr [OF 1(3)] by (intro exI) auto
  then show ?thesis using ids by blast
qed

lemma verify_intake_Inr:
  assumes "verify_intake lib files boundary candidate expected rp receipt l = (Inr d, l')"
  shows "identity_of expected receipt \<and> intake_evidence lib files boundary receipt"
proof -
  obtain v path data l1 l2 raw od rd where 1: "check_identity ''receipt'' expected receipt = Inr ()"
    "intake_receipt_ok receipt" "dindex receipt ''output_path'' = Inr v"
    "read_output lib files boundary candidate v False l1 = (Inr (path, data), l2)"
    "rbind (dindex receipt ''raw_path'') path_text = Inr raw"
    "pl_within (ol_paths lib) (pl_resolve (ol_paths lib) raw) boundary"
    "file_digest lib files path = Inr od" "file_digest lib files (pl_resolve (ol_paths lib) raw) = Inr rd"
    "od = dget receipt ''output_sha256''" "rd = dget receipt ''raw_sha256''"
    using assms by (auto simp: verify_intake_def Let_def io_bind_Inr io_then_Inr split: if_splits)
  have "dget receipt ''raw_path'' = PStr raw"
    using 1(5) by (auto simp: rbind_Inr_iff dest: dindex_Inr)
  then show ?thesis
    using 1 read_output_Inr [OF 1(4)] dindex_Inr [OF 1(3)] check_identity_Inr [OF 1(1)]
    unfolding intake_evidence_def by auto
qed

lemma verify_item_bound:
  assumes "verify_item lib files request n candidate = Inr d" "dget d ''status'' = PStr ''verified''"
    and binding: "binding = as_dict (dget request ''input_binding'')"
    and expected: "expected_identity request n candidate = Inr expected"
  shows "bound_evidence lib files binding expected candidate"
proof -
  let ?c = "dget binding ''result_verification''" and ?l = "\<lparr> il_evidence = [], il_unsafe = False \<rparr>"
  obtain l where "verify_bound lib files binding (as_dict ?c) candidate expected ?l = (Inr d, l)"
    using assms
    by (auto simp: verify_item_def Let_def legacy_item_def unverified_item_def rbind_Inr_iff
        split: if_splits prod.splits sum.splits)
  then obtain b v rp receipt l1 l2 pocket where 1: "dget binding ''output_boundary'' = PStr b"
    "receipt_entry (as_dict ?c) candidate = Inr v"
    "read_output lib files (pl_resolve (ol_paths lib) b) candidate v True l1 = (Inr (rp, receipt), l2)"
    "final_answer_mode (ol_paths lib) binding = Inr pocket"
    "pocket \<Longrightarrow> \<exists>l3. verify_intake lib files (pl_resolve (ol_paths lib) b) candidate expected rp (as_dict receipt) l2 = (Inr d, l3)"
    "\<not> pocket \<Longrightarrow> \<exists>l3. verify_business lib files (pl_resolve (ol_paths lib) b) candidate (as_dict ?c) expected rp (as_dict receipt) l2 = (Inr d, l3)"
    by (fastforce simp: verify_bound_def Let_def io_bind_Inr io_then_Inr rbind_Inr_iff receipt_entry_def
        dest: dindex_Inr split: if_splits)
  have read: "saved_at lib files (pl_resolve (ol_paths lib) b) v rp (PDict (as_dict receipt))"
    "candidate_matches (as_dict receipt) candidate"
    using read_output_Inr [OF 1(3)] is_dict_PDict [of receipt] by auto
  show ?thesis
    unfolding bound_evidence_def Let_def
    using read 1 verify_intake_Inr verify_business_Inr by (cases pocket) fastforce+
qed

lemma lane_batch_ids_nonempty: "lane_batch_ids b n = Inr ids \<Longrightarrow> ids \<noteq> []"
  and lane_batch_ids_length: "lane_batch_ids b n = Inr ids \<Longrightarrow> lane_batch_size b = Inr sz \<Longrightarrow> length ids \<le> nat sz"
proof -
  assume "lane_batch_ids b n = Inr ids"
  then obtain sz cs where sz: "lane_batch_size b = Inr sz"
    and n: "1 \<le> n" "n \<le> lane_rounds (length cs) sz"
    and ids: "ids = take (nat sz) (drop (nat ((n - 1) * sz)) cs)"
    by (auto simp: lane_batch_ids_def rbind_Inr_iff split: option.splits if_splits)
  have pos: "1 \<le> sz" using sz by (rule lane_batch_size_pos)
  have "n * sz \<le> (int (length cs) + sz - 1) div sz * sz"
    using n(2) pos unfolding lane_rounds_def by (intro mult_right_mono) simp_all
  also have "\<dots> \<le> int (length cs) + sz - 1"
    using div_mult_mod_eq [of "int (length cs) + sz - 1" sz] pos_mod_sign [of sz "int (length cs) + sz - 1"] pos by linarith
  finally have "n * sz \<le> int (length cs) + sz - 1" .
  then have "(n - 1) * sz < int (length cs)" by (simp add: algebra_simps)
  moreover have "0 \<le> (n - 1) * sz" using n(1) pos by simp
  ultimately have "nat ((n - 1) * sz) < length cs" by (simp add: nat_less_iff)
  then show "ids \<noteq> []" using pos ids by simp
next
  assume "lane_batch_ids b n = Inr ids" "lane_batch_size b = Inr sz"
  then show "length ids \<le> nat sz"
    by (auto simp: lane_batch_ids_def split: option.splits if_splits)
qed

definition item_status :: "pdict \<Rightarrow> bool" where
  "item_status d \<longleftrightarrow> dget d ''status'' \<in> PStr ` {''verified'', ''blocked'', ''review''}"

lemma verify_bound_status:
  assumes "verify_bound lib files binding contract c expected l = (Inr d, l')"
  shows "dget d ''status'' = PStr ''verified''"
  using assms
  by (auto simp: verify_bound_def verify_intake_def verify_business_def Let_def io_bind_Inr io_then_Inr
      split: if_splits)

lemma verify_item_status:
  assumes "verify_item lib files request n c = Inr d" "binding = as_dict (dget request ''input_binding'')"
    "dhas binding ''lane_item_count''" "dget binding ''result_verification'' \<noteq> PNone"
  shows "item_status d" "\<exists>expected. expected_identity request n c = Inr expected"
proof -
  let ?start = "\<lparr> il_evidence = [], il_unsafe = False \<rparr>" and ?contract = "as_dict (dget binding ''result_verification'')"
  from assms show "\<exists>expected. expected_identity request n c = Inr expected"
    by (auto simp: verify_item_def Let_def rbind_Inr_iff)
  then obtain expected where expected: "expected_identity request n c = Inr expected" ..
  obtain r l where run: "verify_bound lib files binding ?contract c expected ?start = (r, l)" by fastforce
  show "item_status d"
  proof (cases r)
    case (Inl e)
    then show ?thesis
      using assms expected run
      by (auto simp: verify_item_def Let_def item_status_def unverified_item_def rbind_Inr_iff split: if_splits)
  next
    case (Inr x)
    then show ?thesis
      using assms expected run verify_bound_status [OF run [unfolded Inr]]
      by (auto simp: verify_item_def Let_def item_status_def)
  qed
qed

lemma verify_items_all:
  assumes "verify_items lib files request n cs = Inr (items, None)"
  shows "list_all2 (\<lambda>c d. verify_item lib files request n c = Inr d \<and> dget d ''status'' \<noteq> PStr ''blocked'') cs items"
  using assms
proof (induction cs arbitrary: items)
  case (Cons c cs)
  then obtain d where d: "verify_item lib files request n c = Inr d"
    by (auto simp: rbind_Inr_iff)
  then show ?case using Cons by (auto simp: rbind_Inr_iff split: if_splits)
qed simp

lemma verified_batch:
  assumes "verify_items lib files request n ids = Inr result" "dget (batch_report identity result) ''status'' = PStr ''verified''"
    and binding: "binding = as_dict (dget request ''input_binding'')" "dhas binding ''lane_item_count''"
      "dget binding ''result_verification'' \<noteq> PNone"
    and c: "c \<in> set ids"
  shows "\<exists>d. verify_item lib files request n c = Inr d \<and> dget d ''status'' = PStr ''verified''"
proof -
  obtain items where result: "result = (items, None)" and "\<not> list_ex (\<lambda>i. dget i ''status'' = PStr ''review'') items"
    using assms(2) by (cases result; cases "snd result") (auto simp: batch_report_def split: if_splits)
  then have no_review: "d \<in> set items \<Longrightarrow> dget d ''status'' \<noteq> PStr ''review''" for d
    by (auto simp: list_ex_iff)
  have all: "list_all2 (\<lambda>c d. verify_item lib files request n c = Inr d \<and> dget d ''status'' \<noteq> PStr ''blocked'') ids items"
    using verify_items_all assms(1) result by blast
  obtain k where k: "k < length ids" "c = ids ! k" using c by (metis in_set_conv_nth)
  then have item: "verify_item lib files request n c = Inr (items ! k)" "dget (items ! k) ''status'' \<noteq> PStr ''blocked''"
    and "items ! k \<in> set items"
    using list_all2_nthD [OF all k(1)] list_all2_lengthD [OF all] by auto
  then have "dget (items ! k) ''status'' = PStr ''verified''"
    using verify_item_status(1) [OF item(1) binding] no_review by (auto simp: item_status_def)
  then show ?thesis using item(1) by blast
qed



text \<open>A lane with the files of its first turn, for the witnesses; paths resolve to themselves.\<close>

definition demo_output_paths :: path_lib where
  "demo_output_paths = \<lparr> pl_resolve = id, pl_absolute = (\<lambda>s. prefix ''/'' s),
     pl_join = (\<lambda>a b. a @ ''/'' @ b), pl_within = (\<lambda>p b. prefix (b @ ''/'') p) \<rparr>"

definition demo_output_data :: "string \<Rightarrow> pdict" where
  "demo_output_data path = [(''candidate_id'', PInt 4), (''request_id'', PStr ''r''), (''turn_number'', PInt 1),
     (''status'', PStr ''done''), (''output_path'', PStr path)]"

definition demo_output_lib :: output_lib where
  "demo_output_lib = \<lparr> ol_paths = demo_output_paths, ol_sibling = (\<lambda>p s. p @ s),
     ol_loads = (\<lambda>s. Inr (PDict (demo_output_data s))), ol_loads_strict = (\<lambda>s. Inr (PStr s)), ol_digest = rev,
     ol_dir_exists = (\<lambda>_. True), ol_writable = (\<lambda>_. True), ol_validate = (\<lambda>_ _. Inr ()) \<rparr>"

definition demo_output_lane :: pdict where
  "demo_output_lane = [(''lane_item_count'', PInt 1), (''candidate_ids'', PList [PInt 4]), (''output_boundary'', PStr ''/o''),
     (''result_verification'', PDict [(''receipt_paths'', PDict [(''4'', PStr ''receipt'')]),
       (''terminal_statuses'', PList [PStr ''done''])])]"

definition demo_output_request :: pdict where
  "demo_output_request = [(''request_id'', PStr ''r''), (''input_binding'', PDict demo_output_lane)]"

definition demo_output_files :: output_files where
  "demo_output_files = [(''/o/receipt'', ''out''), (''/o/out'', ''x'')]"



text \<open>
  The batch rule does not look for items that were not verified: for a lane with more than one item
  per turn and no result contract, every item is \<open>legacy_unverified\<close> and the turn is \<open>verified\<close>.
\<close>

lemma legacy_batch_counts_as_verified:
  assumes "binding = as_dict (dget request ''input_binding'')" "dhas binding ''lane_item_count''"
    and "dget binding ''result_verification'' = PNone" "lane_batch_size binding = Inr sz" "sz \<noteq> 1"
    and "lane_batch_ids binding n = Inr ids" "dindex request ''request_id'' = Inr rid"
  shows "\<exists>d. verify_candidate_output lib files request n = Inr d \<and> dget d ''status'' = PStr ''verified'' \<and>
    dget d ''items'' = PList (map (\<lambda>_. PDict legacy_item) ids)"
proof -
  have item: "verify_item lib files request n c = Inr legacy_item" for c
    using assms by (simp add: verify_item_def)
  have not_blocked: "dget legacy_item ''status'' = PStr ''legacy_unverified''" by (simp add: legacy_item_def)
  have items: "verify_items lib files request n cs = Inr (map (\<lambda>_. legacy_item) cs, None)" for cs
    by (induction cs) (simp_all add: item not_blocked)
  have "\<not> list_ex (\<lambda>i. dget i ''status'' = PStr ''review'') (map (\<lambda>_. legacy_item) ids)"
    by (auto simp: list_ex_iff not_blocked)
  then show ?thesis
    using assms items by (simp add: verify_candidate_output_def verify_lane_def batch_report_def o_def)
qed

section \<open>Evidence is never overwritten\<close>

text \<open>The files of \<open>fs0\<close> are kept, the path \<open>slot\<close> apart.\<close>

definition kept_but :: "string option \<Rightarrow> output_files \<Rightarrow> output_files \<Rightarrow> bool" where
  "kept_but slot fs0 fs \<longleftrightarrow> (\<forall>p c. map_of fs0 p = Some c \<and> slot \<noteq> Some p \<longrightarrow> map_of fs p = Some c)"

lemma kept_refl: "kept_but slot fs fs"
  by (simp add: kept_but_def)

definition evidence_inv :: "string \<Rightarrow> output_files \<Rightarrow> output_files \<Rightarrow> bool" where
  "evidence_inv slot fs0 fs \<longleftrightarrow> kept_but (Some slot) fs0 fs \<and> (\<forall>p. map_of fs0 p \<noteq> None \<longrightarrow> map_of fs p \<noteq> None)"

lemma save_keeps: "io_keeps (evidence_inv slot fs0) (save_evidence lib path content)"
  by (auto simp: io_keeps_def save_evidence_def write_output_def io_then_def io_bind_def kept_but_def evidence_inv_def
      update_conv' split: option.splits)

lemma slot_keeps: "io_keeps (evidence_inv slot fs0) (write_output lib slot content)"
  by (auto simp: io_keeps_def write_output_def io_then_def io_bind_def kept_but_def evidence_inv_def update_conv')

lemma store_keeps: "io_keeps (evidence_inv (sl_receipt slot) fs0) (store_answer lib slot raw)"
  unfolding store_answer_def Let_def by (intro io_rules save_keeps slot_keeps)

text \<open>
  the intake of a final answer never overwrites evidence. Whatever it answers, and also when it
  fails half-way, every file that was there is still there; only the receipt slot of the candidate
  may have new content.
\<close>

theorem intake_keeps_evidence:
  assumes "receive_candidate_final_answer lib request n thread turn raw fs = (r, fs')" "map_of fs p = Some c"
  shows "\<exists>c'. map_of fs' p = Some c' \<and>
    (c' = c \<or> (\<exists>slot. intake_slot_of lib request n thread turn raw = Inr slot \<and> p = sl_receipt slot))"
proof (cases "intake_slot_of lib request n thread turn raw")
  case (Inl e)
  then show ?thesis
    using assms by (auto simp: receive_candidate_final_answer_def receive_handled_def io_catch_def split: if_splits)
next
  case (Inr slot)
  have "io_keeps (evidence_inv (sl_receipt slot) fs) (receive_candidate_final_answer lib request n thread turn raw)"
    unfolding receive_candidate_final_answer_def receive_handled_def Inr io_lift_bind
    by (intro io_rules store_keeps)
  moreover have "evidence_inv (sl_receipt slot) fs fs" by (simp add: evidence_inv_def kept_refl)
  ultimately have "evidence_inv (sl_receipt slot) fs fs'" using assms(1) by (rule io_keepsD)
  then show ?thesis
    using assms(2) Inr by (cases "p = sl_receipt slot") (auto simp: evidence_inv_def kept_but_def)
qed

section \<open>Intake and verification\<close>

text \<open>The evidence files lie where they were put, can be written and are new.\<close>

definition fixed_path :: "output_lib \<Rightarrow> intake_slot \<Rightarrow> string \<Rightarrow> bool" where
  "fixed_path lib slot p \<longleftrightarrow> pl_absolute (ol_paths lib) p \<and> pl_resolve (ol_paths lib) p = p \<and>
     pl_within (ol_paths lib) p (sl_boundary slot) \<and> ol_writable lib p"

definition fresh_slot :: "output_lib \<Rightarrow> intake_slot \<Rightarrow> string \<Rightarrow> output_files \<Rightarrow> bool" where
  "fresh_slot lib slot raw files \<longleftrightarrow>
     (let rp = evidence_path lib slot (ol_digest lib raw) ''.raw.txt'';
          pp = evidence_path lib slot (ol_digest lib raw) ''.payload.json'' in
      fixed_path lib slot rp \<and> fixed_path lib slot pp \<and> ol_writable lib (sl_receipt slot) \<and>
      ol_dir_exists lib (sl_boundary slot) \<and> distinct [rp, pp, sl_receipt slot] \<and>
      map_of files rp = None \<and> map_of files pp = None)"

lemma int_str_head: "\<exists>c cs. int_str i = c # cs \<and> c \<noteq> CHR 0xEF"
proof -
  have digit: "digit_char n \<noteq> CHR 0xEF" for n
  proof
    assume "digit_char n = CHR 0xEF"
    then have "(of_char (digit_char n) :: nat) = of_char CHR 0xEF" by simp
    then show False by (simp add: digit_char_def)
  qed
  have digits: "\<exists>c cs. nat_str n = c # cs \<and> c \<noteq> CHR 0xEF" for n
    by (induction n rule: nat_str.induct) (subst nat_str.simps, auto simp: digit)
  show ?thesis using digits [of "nat i"] by (cases "i < 0") (auto simp: int_str_def)
qed

lemma json_plain_head: "\<exists>c cs. json_plain v = c # cs \<and> c \<noteq> CHR 0xEF"
proof (cases v)
  case (PInt i)
  then show ?thesis using int_str_head by (simp add: json_plain_def)
qed (auto simp: json_plain_def json_string_def dquote_def)

lemma drop_bom_json [simp]: "drop_bom (json_plain v) = json_plain v"
proof -
  obtain c cs where "json_plain v = c # cs" "c \<noteq> CHR 0xEF" using json_plain_head by blast
  moreover have "char_of (239::nat) = CHR 0xEF" by code_simp
  ultimately show ?thesis by (auto simp: drop_bom_def)
qed

lemma pocket_lane:
  assumes "final_answer_mode pl binding = Inr True"
  shows "lane_batch_size binding = Inr 1" "dget binding ''result_verification'' \<noteq> PNone"
  using assms
  by (auto simp: final_answer_mode_def Let_def py_or_def rbind_Inr_iff split: if_splits option.splits)

lemma intake_slotE:
  assumes "intake_slot_of lib request n thread turn raw = Inr slot"
  obtains binding ids rid v b where "binding = as_dict (dget request ''input_binding'')"
    "final_answer_mode (ol_paths lib) binding = Inr True" "dhas binding ''lane_item_count''"
    "thread \<noteq> []" "turn \<noteq> []" "raw \<noteq> []" "lane_batch_ids binding n = Inr ids" "ids \<noteq> []"
    "sl_contract slot = as_dict (dget binding ''result_verification'')" "dget binding ''output_boundary'' = PStr b"
    "dindex binding ''output_boundary'' = Inr (PStr b)"
    "sl_boundary slot = pl_resolve (ol_paths lib) b" "receipt_entry (sl_contract slot) (hd ids) = Inr (PStr v)"
    "sl_receipt slot = output_target (ol_paths lib) (sl_boundary slot) v"
    "pl_within (ol_paths lib) (sl_receipt slot) (sl_boundary slot)" "dindex request ''request_id'' = Inr rid"
    "sl_identity slot = [(''candidate_id'', PInt (hd ids)), (''request_id'', rid), (''turn_number'', PInt n),
       (''thread_id'', PStr thread), (''turn_id'', PStr turn)]"
proof -
  define binding where "binding = as_dict (dget request ''input_binding'')"
  obtain ids contract b v rid where
    "final_answer_mode (ol_paths lib) binding = Inr True" "dhas binding ''lane_item_count''"
    "thread \<noteq> []" "turn \<noteq> []" "raw \<noteq> []" "lane_batch_ids binding n = Inr ids" "ids \<noteq> []"
    "dindex binding ''result_verification'' = Inr contract" "dindex binding ''output_boundary'' = Inr (PStr b)"
    "receipt_entry (as_dict contract) (hd ids) = Inr (PStr v)" "dindex request ''request_id'' = Inr rid"
    "pl_within (ol_paths lib) (output_target (ol_paths lib) (pl_resolve (ol_paths lib) b) v) (pl_resolve (ol_paths lib) b)"
    "slot = \<lparr> sl_boundary = pl_resolve (ol_paths lib) b,
       sl_receipt = output_target (ol_paths lib) (pl_resolve (ol_paths lib) b) v, sl_contract = as_dict contract,
       sl_identity = [(''candidate_id'', PInt (hd ids)), (''request_id'', rid), (''turn_number'', PInt n),
       (''thread_id'', PStr thread), (''turn_id'', PStr turn)] \<rparr>"
    using assms unfolding intake_slot_of_def Let_def binding_def [symmetric]
    by (auto simp: rbind_Inr_iff raise_if_def intake_identity_def split: if_splits)
  then show thesis
    by (intro that [of binding ids b v rid]) (auto simp: binding_def dest: dindex_Inr)
qed

definition stored_receipt :: "output_lib \<Rightarrow> intake_slot \<Rightarrow> string \<Rightarrow> pyval \<times> bool \<times> string list \<Rightarrow> pyval" where
  "stored_receipt lib slot raw result =
     (let h = ol_digest lib raw; (payload, parsed, issues) = result in
      PDict (intake_receipt (sl_identity slot) (evidence_path lib slot h ''.raw.txt'') h
        (evidence_path lib slot h ''.payload.json'') (ol_digest lib (json_plain payload)) parsed issues))"

definition stored_files :: "output_lib \<Rightarrow> intake_slot \<Rightarrow> string \<Rightarrow> pyval \<times> bool \<times> string list \<Rightarrow> output_files \<Rightarrow> output_files" where
  "stored_files lib slot raw result files =
     (let h = ol_digest lib raw in
      AList.update (sl_receipt slot) (json_plain (stored_receipt lib slot raw result))
       (AList.update (evidence_path lib slot h ''.payload.json'') (json_plain (fst result))
         (AList.update (evidence_path lib slot h ''.raw.txt'') raw files)))"

text \<open>The JSON texts the intake wrote read back.\<close>

definition reads_back :: "output_lib \<Rightarrow> intake_slot \<Rightarrow> string \<Rightarrow> pyval \<times> bool \<times> string list \<Rightarrow> bool" where
  "reads_back lib slot raw result \<longleftrightarrow> ol_loads lib (json_plain (fst result)) = Inr (fst result) \<and>
     ol_loads lib (json_plain (stored_receipt lib slot raw result)) = Inr (stored_receipt lib slot raw result)"

lemma write_ok: "ol_writable lib p \<Longrightarrow> write_output lib p c fs = (Inr (), AList.update p c fs)"
  by (simp add: write_output_def)

lemma save_new: "map_of fs p = None \<Longrightarrow> ol_writable lib p \<Longrightarrow> save_evidence lib p c fs = (Inr (), AList.update p c fs)"
  by (simp add: save_evidence_def write_ok)

lemma store_answer_run:
  assumes "fresh_slot lib slot raw files" "parse_payload lib (sl_contract slot) raw = Inr result"
  shows "store_answer lib slot raw files = (Inr (), stored_files lib slot raw result files)"
proof -
  obtain payload parsed issues where result: "result = (payload, parsed, issues)" by (cases result)
  let ?rp = "evidence_path lib slot (ol_digest lib raw) ''.raw.txt''"
    and ?pp = "evidence_path lib slot (ol_digest lib raw) ''.payload.json''"
  have f: "evidence_inside lib slot ?rp" "evidence_inside lib slot ?pp" "map_of files ?rp = None" "?rp \<noteq> ?pp"
    "map_of files ?pp = None" "ol_writable lib ?rp" "ol_writable lib ?pp" "ol_writable lib (sl_receipt slot)"
    using assms(1) by (simp_all add: fresh_slot_def fixed_path_def evidence_inside_def Let_def)
  have second: "save_evidence lib ?pp c (AList.update ?rp raw files) = (Inr (), AList.update ?pp c (AList.update ?rp raw files))" for c
    using f by (intro save_new) (simp_all add: update_conv')
  show ?thesis
    using f assms(2) by (simp add: store_answer_def Let_def result save_new second write_ok stored_files_def stored_receipt_def)
qed

lemma stored_file:
  assumes "fresh_slot lib slot raw files"
  shows "map_of (stored_files lib slot raw (payload, parsed, issues) files) (evidence_path lib slot (ol_digest lib raw) ''.raw.txt'') = Some raw"
    and "map_of (stored_files lib slot raw (payload, parsed, issues) files) (evidence_path lib slot (ol_digest lib raw) ''.payload.json'') = Some (json_plain payload)"
    and "map_of (stored_files lib slot raw (payload, parsed, issues) files) (sl_receipt slot) = Some (json_plain (PDict
      (intake_receipt (sl_identity slot) (evidence_path lib slot (ol_digest lib raw) ''.raw.txt'') (ol_digest lib raw)
       (evidence_path lib slot (ol_digest lib raw) ''.payload.json'') (ol_digest lib (json_plain payload)) parsed issues)))"
  using assms by (auto simp: fresh_slot_def stored_files_def stored_receipt_def Let_def update_conv')

lemma verify_stored:
  assumes slot: "intake_slot_of lib request n thread turn raw = Inr slot"
    and fresh: "fresh_slot lib slot raw files" and reads: "reads_back lib slot raw (payload, parsed, issues)"
  shows "\<exists>d. verify_candidate_output lib (stored_files lib slot raw (payload, parsed, issues) files) request n = Inr d \<and>
    dget d ''status'' = PStr ''verified'' \<and> list_all (\<lambda>(k, v). dget d k = v) (sl_identity slot)"
proof -
  let ?fs = "stored_files lib slot raw (payload, parsed, issues) files"
    and ?rp = "evidence_path lib slot (ol_digest lib raw) ''.raw.txt''"
    and ?pp = "evidence_path lib slot (ol_digest lib raw) ''.payload.json''"
  let ?r = "intake_receipt (sl_identity slot) ?rp (ol_digest lib raw) ?pp (ol_digest lib (json_plain payload)) parsed issues"
  from slot obtain binding ids rid v b where s: "binding = as_dict (dget request ''input_binding'')"
    "final_answer_mode (ol_paths lib) binding = Inr True" "dhas binding ''lane_item_count''"
    "thread \<noteq> []" "turn \<noteq> []" "lane_batch_ids binding n = Inr ids" "ids \<noteq> []"
    "sl_contract slot = as_dict (dget binding ''result_verification'')" "dindex binding ''output_boundary'' = Inr (PStr b)"
    "sl_boundary slot = pl_resolve (ol_paths lib) b" "receipt_entry (sl_contract slot) (hd ids) = Inr (PStr v)"
    "sl_receipt slot = output_target (ol_paths lib) (sl_boundary slot) v"
    "pl_within (ol_paths lib) (sl_receipt slot) (sl_boundary slot)" "dindex request ''request_id'' = Inr rid"
    "sl_identity slot = [(''candidate_id'', PInt (hd ids)), (''request_id'', rid), (''turn_number'', PInt n),
       (''thread_id'', PStr thread), (''turn_id'', PStr turn)]"
    by (rule intake_slotE) blast
  define expected where "expected = [(''candidate_id'', PInt (hd ids)), (''request_id'', rid), (''turn_number'', PInt n)]"
  have loads: "ol_loads lib (json_plain payload) = Inr payload" "ol_loads lib (json_plain (PDict ?r)) = Inr (PDict ?r)"
    using reads by (simp_all add: reads_back_def stored_receipt_def Let_def)
  have fixed: "fixed_path lib slot ?rp" "fixed_path lib slot ?pp" "ol_dir_exists lib (sl_boundary slot)"
    using fresh by (simp_all add: fresh_slot_def Let_def)
  note stored = stored_file [OF fresh, of payload parsed issues]
  have receipt: "read_output lib ?fs (sl_boundary slot) (hd ids) (PStr v) True l =
      (Inr (sl_receipt slot, PDict ?r), l\<lparr> il_evidence := dset (il_evidence l) (sl_receipt slot) (PStr (json_plain (PDict ?r))) \<rparr>)" for l
    using s(12) [symmetric] s(13) stored(3) loads
    by (simp add: read_output_def path_text_def read_text_def candidate_matches_def intake_receipt_def s(15) Let_def)
  have payload: "\<exists>l'. read_output lib ?fs (sl_boundary slot) (hd ids) (PStr ?pp) False l = (Inr (?pp, payload), l')" for l
    using fixed(2) stored(2) loads
    by (simp add: read_output_def path_text_def read_text_def Let_def output_target_def fixed_path_def)
  have ok: "check_identity ''receipt'' expected ?r = Inr ()" "intake_receipt_ok ?r"
    using s(4,5) by (simp_all add: check_identity_def expected_def intake_receipt_ok_def intake_receipt_def s(15) filled_text_def)
  have sel: "dindex ?r ''output_path'' = Inr (PStr ?pp)" "dindex ?r ''raw_path'' = Inr (PStr ?rp)"
    "dget ?r ''output_sha256'' = PStr (ol_digest lib (json_plain payload))" "dget ?r ''raw_sha256'' = PStr (ol_digest lib raw)"
    "dget ?r ''thread_id'' = PStr thread" "dget ?r ''turn_id'' = PStr turn"
    by (simp_all add: intake_receipt_def s(15) dindex_def)
  let ?d = "[(''status'', PStr ''verified'')] @ expected @
          [(''receipt_path'', PStr (sl_receipt slot)), (''output_path'', PStr ?pp),
           (''terminal_status'', PStr ''received''), (''thread_id'', PStr thread),
           (''turn_id'', PStr turn), (''review_needed'', PBool True), (''verification_status'', PStr ''not_verified'')]"
  have intake: "\<exists>l'. verify_intake lib ?fs (sl_boundary slot) (hd ids) expected (sl_receipt slot) ?r l = (Inr ?d, l')" for l
  proof -
    obtain l' where "read_output lib ?fs (sl_boundary slot) (hd ids) (PStr ?pp) False l = (Inr (?pp, payload), l')"
      using payload by blast
    then show ?thesis
      using ok sel fixed(1) stored(1,2)
      by (simp add: verify_intake_def Let_def fixed_path_def read_text_def file_digest_def)
  qed
  have "\<exists>l'. verify_bound lib ?fs binding (sl_contract slot) (hd ids) expected l = (Inr ?d, l')" for l
    using receipt intake s(2,9,10,11) fixed(3)
    by (simp add: verify_bound_def Let_def receipt_entry_def)
  then obtain l' where bound: "verify_bound lib ?fs binding (sl_contract slot) (hd ids) expected
      \<lparr> il_evidence = [], il_unsafe = False \<rparr> = (Inr ?d, l')" by blast
  have "verify_item lib ?fs request n (hd ids) = Inr ?d"
    using s(1,3) pocket_lane(2) [OF s(2)] bound s(8,14)
    by (simp add: verify_item_def Let_def expected_identity_def expected_def)
  then have "verify_candidate_output lib ?fs request n = Inr ?d"
    using s(1,3,6,7) pocket_lane(1) [OF s(2)] by (simp add: verify_candidate_output_def verify_lane_def Let_def)
  then show ?thesis by (auto simp: expected_def s(15))
qed

text \<open>
  C32: what the intake of a final answer stores, the verification accepts. For an answer whose slot
  is admissible and whose content-addressed evidence files are new, and with a JSON reader that
  reads back what was printed, the intake answers \<open>verified\<close> for exactly this candidate, request,
  turn number, thread and turn, and the raw answer is saved byte for byte.
\<close>

theorem intake_is_verified:
  assumes "intake_slot_of lib request n thread turn raw = Inr slot" "fresh_slot lib slot raw files"
    and "reads_back lib slot raw result" "parse_payload lib (sl_contract slot) raw = Inr result" "dget request ''request_id'' = PStr rid"
  shows "\<exists>d files'. receive_candidate_final_answer lib request n thread turn raw files = (Inr d, files') \<and>
    dget d ''status'' = PStr ''verified'' \<and> list_all (\<lambda>(k, v). dget d k = v) (sl_identity slot) \<and>
    map_of files' (evidence_path lib slot (ol_digest lib raw) ''.raw.txt'') = Some raw"
proof -
  obtain payload parsed issues where result: "result = (payload, parsed, issues)" by (cases result)
  let ?fs = "stored_files lib slot raw result files"
  obtain d where d: "verify_candidate_output lib ?fs request n = Inr d" "dget d ''status'' = PStr ''verified''"
    "list_all (\<lambda>(k, v). dget d k = v) (sl_identity slot)"
    using verify_stored [OF assms(1,2)] assms(3) result by blast
  have "same_turn (sl_identity slot) d"
  proof -
    from assms(1) obtain ids r where "dindex request ''request_id'' = Inr r"
      "sl_identity slot = [(''candidate_id'', PInt (hd ids)), (''request_id'', r), (''turn_number'', PInt n),
       (''thread_id'', PStr thread), (''turn_id'', PStr turn)]"
      by (rule intake_slotE) blast
    then show ?thesis using d(3) assms(5) by (auto simp: same_turn_def dest: dindex_Inr)
  qed
  then have "receive_candidate_final_answer lib request n thread turn raw files = (Inr d, ?fs)"
    using d store_answer_run [OF assms(2,4)]
    by (simp add: receive_candidate_final_answer_def receive_handled_def assms(1) io_catch_def io_then_def io_bind_def)
  then show ?thesis using d stored_file(1) [OF assms(2)] result by blast
qed


definition demo_final_request :: pdict where
  "demo_final_request = [(''request_id'', PStr ''r''), (''input_binding'', PDict
     [(''lane_item_count'', PInt 1), (''candidate_ids'', PList [PInt 4]), (''output_boundary'', PStr ''/o''),
      (''result_verification'', PDict [(''mode'', PStr ''final_answer_json''),
        (''receipt_paths'', PDict [(''4'', PStr ''4'')]), (''terminal_statuses'', PList [PStr ''received''])])])]"

definition demo_intake_slot :: intake_slot where
  "demo_intake_slot = \<lparr> sl_boundary = ''/o'', sl_receipt = ''/o/4'',
     sl_contract = [(''mode'', PStr ''final_answer_json''),
        (''receipt_paths'', PDict [(''4'', PStr ''4'')]), (''terminal_statuses'', PList [PStr ''received''])],
     sl_identity = [(''candidate_id'', PInt 4), (''request_id'', PStr ''r''), (''turn_number'', PInt 1),
       (''thread_id'', PStr ''t''), (''turn_id'', PStr ''u'')] \<rparr>"

definition demo_stored :: pyval where
  "demo_stored = PDict (intake_receipt (sl_identity demo_intake_slot) ''/o/4.d.raw.txt'' ''d'' ''/o/4.d.payload.json'' ''d'' True [])"

definition demo_intake_lib :: output_lib where
  "demo_intake_lib = demo_output_lib\<lparr> ol_digest := (\<lambda>_. ''d''), ol_loads_strict := (\<lambda>_. Inr PNone),
     ol_loads := (\<lambda>s. if s = ''null'' then Inr PNone else Inr demo_stored) \<rparr>"

lemma demo_intake:
  "intake_slot_of demo_intake_lib demo_final_request 1 ''t'' ''u'' ''x'' = Inr demo_intake_slot"
  "fresh_slot demo_intake_lib demo_intake_slot ''x'' []"
  "reads_back demo_intake_lib demo_intake_slot ''x'' (PNone, True, [])"
  "parse_payload demo_intake_lib (sl_contract demo_intake_slot) ''x'' = Inr (PNone, True, [])"
  by code_simp+

lemma intake_is_verified_witness:
  "\<exists>d files'. receive_candidate_final_answer demo_intake_lib demo_final_request 1 ''t'' ''u'' ''x'' [] = (Inr d, files') \<and>
    dget d ''status'' = PStr ''verified'' \<and> dget d ''turn_id'' = PStr ''u'' \<and>
    map_of files' ''/o/4.d.raw.txt'' = Some ''x''"
proof -
  have "evidence_path demo_intake_lib demo_intake_slot (ol_digest demo_intake_lib ''x'') ''.raw.txt'' = ''/o/4.d.raw.txt''"
    by code_simp
  moreover have "dget demo_final_request ''request_id'' = PStr ''r''" by (simp add: demo_final_request_def)
  ultimately show ?thesis
    using intake_is_verified [OF demo_intake] by (fastforce simp: demo_intake_slot_def)
qed

lemma intake_keeps_evidence_witness:
  "\<exists>r fs'. receive_candidate_final_answer demo_intake_lib demo_final_request 1 ''t'' ''u'' ''x'' [(''/o/9'', ''old'')] = (r, fs') \<and>
     map_of fs' ''/o/9'' = Some ''old''"
proof -
  obtain r fs' where run: "receive_candidate_final_answer demo_intake_lib demo_final_request 1 ''t'' ''u'' ''x'' [(''/o/9'', ''old'')] = (r, fs')"
    by fastforce
  have "map_of [(''/o/9'', ''old'')] ''/o/9'' = Some ''old''" by simp
  from intake_keeps_evidence [OF run this] run demo_intake(1) show ?thesis
    by (auto simp: demo_intake_slot_def)
qed

section \<open>The history keeps the first record of a turn\<close>

lemma insert_rows_find:
  "find (\<lambda>r. row_key r = k) (fold insert_row rs rows) =
     (case find (\<lambda>r. row_key r = k) rows of Some r \<Rightarrow> Some r | None \<Rightarrow> find (\<lambda>r. row_key r = k) rs)"
proof (induction rs arbitrary: rows)
  case Nil
  then show ?case by (simp split: option.splits)
next
  case (Cons r rs)
  have "find (\<lambda>r. row_key r = k) (insert_row r rows) =
     (case find (\<lambda>r. row_key r = k) rows of Some x \<Rightarrow> Some x | None \<Rightarrow> if row_key r = k then Some r else None)"
  proof (cases "row_key r \<in> row_key ` set rows")
    case True
    then show ?thesis
      by (auto simp: insert_row_def find_None_iff split: option.splits)
  next
    case False
    have "find P (xs @ [r]) = (case find P xs of Some x \<Rightarrow> Some x | None \<Rightarrow> if P r then Some r else None)" for P xs
      by (induction xs) (auto split: option.splits)
    then show ?thesis using False by (simp add: insert_row_def)
  qed
  then show ?case using Cons by (auto split: option.splits)
qed

lemma insert_rows_distinct: "distinct (map row_key rows) \<Longrightarrow> distinct (map row_key (fold insert_row rs rows))"
  by (induction rs arbitrary: rows) (auto simp: insert_row_def)

lemma row_order_set [simp]: "set (row_order rows) = set rows" "length (row_order rows) = length rows"
  by (simp_all add: row_order_def)

text \<open>
  the turn history is a map from turns to their first record. Whatever is appended in whatever
  order, reading one turn of one hold returns the first row appended for it and nothing else, so
  a repeated or a later append never changes what a turn was recorded as.
\<close>

theorem history_keeps_first_record:
  assumes "py_strip hold = hold" "hold \<noteq> []" "py_strip turn = turn" "turn \<noteq> []"
  shows "read_turn_history None (Some hold) None (Some turn) (fold insert_row rs []) =
    (case find (\<lambda>r. row_key r = (hold, turn)) rs of None \<Rightarrow> [] | Some r \<Rightarrow> [row_dict r])"
proof -
  let ?rows = "fold insert_row rs []" and ?P = "\<lambda>r. row_key r = (hold, turn)"
  have sel: "(selects None (th_task r) \<and> selects (Some hold) (th_hold r) \<and> selects None (th_thread r) \<and>
      selects (Some turn) (th_turn r)) = ?P r" for r
    using assms by (auto simp: selects_def row_key_def)
  have dist: "distinct (map row_key ?rows)" by (rule insert_rows_distinct) simp
  have "filter ?P xs = (case find ?P xs of None \<Rightarrow> [] | Some r \<Rightarrow> [r])" if "distinct (map row_key xs)" for xs
    using that
  proof (induction xs)
    case (Cons x xs)
    show ?case
    proof (cases "?P x")
      case True
      then have "filter ?P xs = []" using Cons.prems by (force simp: filter_empty_conv)
      then show ?thesis using True by simp
    next
      case False
      then show ?thesis using Cons by simp
    qed
  qed simp
  then have "filter ?P ?rows = (case find ?P rs of None \<Rightarrow> [] | Some r \<Rightarrow> [r])"
    using dist insert_rows_find [of "(hold, turn)" rs "[]"] by simp
  then show ?thesis
    by (simp add: read_turn_history_def sel row_order_def split: option.splits)
qed

definition demo_turn_row :: "string \<Rightarrow> turn_row" where
  "demo_turn_row status = \<lparr> th_hold = ''h'', th_turn = ''u'', th_task = ''k'', th_request = ''r'', th_thread = ''t'', th_number = 1,
     th_candidate = None, th_status = status, th_answer = None, th_has_answer = False, th_completed = ''c'',
     th_recorded = ''1'', th_ids = None, th_verification = None \<rparr>"

lemma history_keeps_first_record_witness:
  "read_turn_history None (Some ''h'') None (Some ''u'') (fold insert_row [demo_turn_row ''failed'', demo_turn_row ''completed''] []) =
    [row_dict (demo_turn_row ''failed'')]"
proof -
  have strip: "py_strip ''h'' = ''h''" "py_strip ''u'' = ''u''" by code_simp+
  have keys: "row_key (demo_turn_row status) = (''h'', ''u'')" for status
    by (simp add: row_key_def demo_turn_row_def)
  show ?thesis
    using history_keeps_first_record [OF strip(1) _ strip(2), of "[demo_turn_row ''failed'', demo_turn_row ''completed'']"]
    by (simp add: keys del: fold.simps)
qed

end
