(* ===== verification/Hold_Files.thy ===== *)
theory Hold_Files
  imports Loop_State Output_Receipts
begin

text \<open>
  The durable files that the provisioning adapter, the hold host and the holders share: one directory
  per hold under \<open>task-holds\<close> or the older \<open>task-monitors\<close>, the health file of the host, the launcher
  configuration and the turn history; and the close report of a hold, \<open>refresh_close_report\<close> of
  \<open>packages/adapters/codex_app_server/task_provisioning_adapter.py\<close>.

  A JSON file is absent, not JSON, or a value; a JSONL file is the list of its lines. The files live
  in the world of the loop files, because a close report is also merged into the loop of its parent.
  Other processes change the files too: acquiring a lock, and \<open>he_pause\<close> between two reads, may change
  everything. A write may raise, and then changes nothing. The dead owner of a lock and its timeout
  are inside the lock port.
\<close>

section \<open>Files\<close>

datatype hold_parent = Task_Holds | Task_Monitors

type_synonym hold_root = "hold_parent \<times> string"

datatype hold_file = Request_File | Ack_File | Result_File | Close_File | Owner_File

record hold_dir =
  fd_request :: saved
  fd_ack :: saved
  fd_result :: saved
  fd_close :: saved
  fd_claim :: bool
  fd_owner :: saved
  fd_events :: "pyval option list"
  fd_deliveries :: "pyval option list"
  fd_archive :: "(string \<times> saved) list"

definition empty_dir :: hold_dir where
  "empty_dir = \<lparr> fd_request = Absent, fd_ack = Absent, fd_result = Absent, fd_close = Absent, fd_claim = False,
     fd_owner = Absent, fd_events = [], fd_deliveries = [], fd_archive = [] \<rparr>"

primrec file_of :: "hold_file \<Rightarrow> hold_dir \<Rightarrow> saved" where
  "file_of Request_File d = fd_request d"
| "file_of Ack_File d = fd_ack d"
| "file_of Result_File d = fd_result d"
| "file_of Close_File d = fd_close d"
| "file_of Owner_File d = fd_owner d"

primrec set_file :: "hold_file \<Rightarrow> saved \<Rightarrow> hold_dir \<Rightarrow> hold_dir" where
  "set_file Request_File v d = d\<lparr> fd_request := v \<rparr>"
| "set_file Ack_File v d = d\<lparr> fd_ack := v \<rparr>"
| "set_file Result_File v d = d\<lparr> fd_result := v \<rparr>"
| "set_file Close_File v d = d\<lparr> fd_close := v \<rparr>"
| "set_file Owner_File v d = d\<lparr> fd_owner := v \<rparr>"

text \<open>\<open>_read_json_file\<close> of the adapter, and \<open>_read_json_file(path) or {}\<close>.\<close>

definition object_of :: "saved \<Rightarrow> pdict option" where
  "object_of s = (case s of Saved (PDict d) \<Rightarrow> Some d | _ \<Rightarrow> None)"

definition read_object :: "saved \<Rightarrow> pdict" where
  "read_object s = (case object_of s of None \<Rightarrow> [] | Some d \<Rightarrow> d)"

text \<open>\<open>_read_json\<close> of the host: text that is not JSON raises.\<close>

definition strict_object :: "saved \<Rightarrow> pdict option result" where
  "strict_object s = (if s = Garbled then Inl (ValueError ''Expecting value: line 1 column 1 (char 0)'') else Inr (object_of s))"

definition strict_read :: "saved \<Rightarrow> pdict result" where
  "strict_read s = rbind (strict_object s) (\<lambda>v. Inr (case v of None \<Rightarrow> [] | Some d \<Rightarrow> d))"

record 'w hold_files =
  hf_dirs :: "(hold_root \<times> hold_dir) list"
  hf_health :: saved
  hf_config :: saved
  hf_backups :: "(string \<times> saved) list"
  hf_history :: "turn_row list"
  hf_outputs :: output_files
  hf_active :: "string list"
  hf_bootstrap :: bool
  hf_env :: 'w

type_synonym 'w hold_world = "'w hold_files loop_world"

type_synonym ('w, 'a) hold_io = "('w hold_world, 'a) io"

datatype hold_lock = Request_Lock | Close_Lock

record 'w hold_env =
  he_pid :: int
  he_now :: "'w \<Rightarrow> instant"
  he_alive :: "'w \<Rightarrow> int \<Rightarrow> bool"
  he_started :: "'w \<Rightarrow> int \<Rightarrow> instant option"
  he_norm :: "string \<Rightarrow> string option"
  he_state_dir :: string
  he_write :: "hold_root \<Rightarrow> hold_file \<Rightarrow> ('w, unit) io"
  he_lock :: "hold_lock \<Rightarrow> hold_root \<Rightarrow> ('w, unit) hold_io"
  he_unlock :: "hold_lock \<Rightarrow> hold_root \<Rightarrow> ('w, unit) hold_io"
  he_pause :: "('w, unit) hold_io"
  he_unlink_owner :: "hold_root \<Rightarrow> ('w, unit) io"
  he_rmdir_claim :: "hold_root \<Rightarrow> ('w, unit) io"
  he_write_health :: "('w, unit) io"
  he_monotonic :: "'w \<Rightarrow> int"
  he_start_host :: "int \<Rightarrow> ('w, unit) hold_io"
  he_stop_host :: "int \<Rightarrow> ('w, unit) hold_io"
  he_read_thread :: "string \<Rightarrow> ('w, pdict) io"
  he_read_routed :: "pyval \<Rightarrow> string \<Rightarrow> ('w, pdict) io"

definition dir_of :: "hold_root \<Rightarrow> 'w hold_world \<Rightarrow> hold_dir" where
  "dir_of root w = (case map_of (hf_dirs (lw_world w)) root of None \<Rightarrow> empty_dir | Some d \<Rightarrow> d)"

definition has_dir :: "hold_root \<Rightarrow> 'w hold_world \<Rightarrow> bool" where
  "has_dir root w \<longleftrightarrow> map_of (hf_dirs (lw_world w)) root \<noteq> None"

definition change_files :: "('w hold_files \<Rightarrow> 'w hold_files) \<Rightarrow> 'w hold_world \<Rightarrow> 'w hold_world" where
  "change_files f w = w\<lparr> lw_world := f (lw_world w) \<rparr>"

definition change_dir :: "hold_root \<Rightarrow> (hold_dir \<Rightarrow> hold_dir) \<Rightarrow> 'w hold_world \<Rightarrow> 'w hold_world" where
  "change_dir root f w = change_files (\<lambda>h. h\<lparr> hf_dirs := AList.update root (f (dir_of root w)) (hf_dirs h) \<rparr>) w"

definition env_io :: "('w, 'a) io \<Rightarrow> ('w, 'a) hold_io" where
  "env_io m w = (case m (hf_env (lw_world w)) of (r, e) \<Rightarrow> (r, change_files (\<lambda>h. h\<lparr> hf_env := e \<rparr>) w))"

definition hold_now :: "'w hold_env \<Rightarrow> 'w hold_world \<Rightarrow> instant" where
  "hold_now env w = he_now env (hf_env (lw_world w))"

definition now_str :: "'w hold_env \<Rightarrow> 'w hold_world \<Rightarrow> pyval" where
  "now_str env w = PStr (isoformat (hold_now env w))"

definition pid_alive :: "'w hold_env \<Rightarrow> 'w hold_world \<Rightarrow> int \<Rightarrow> bool" where
  "pid_alive env w pid = he_alive env (hf_env (lw_world w)) pid"

text \<open>\<open>_write_json\<close>, \<open>mkdir(exist_ok=True)\<close> and \<open>with ProcessLock(...)\<close>.\<close>

definition write_file :: "'w hold_env \<Rightarrow> hold_root \<Rightarrow> hold_file \<Rightarrow> pdict \<Rightarrow> ('w, unit) hold_io" where
  "write_file env root f v =
     io_then (env_io (he_write env root f)) (io_modify (change_dir root (set_file f (Saved (PDict v)))))"

definition make_dir :: "hold_root \<Rightarrow> ('w, unit) hold_io" where
  "make_dir root = io_modify (change_dir root (\<lambda>d. d))"

definition with_file_lock :: "'w hold_env \<Rightarrow> hold_lock \<Rightarrow> hold_root \<Rightarrow> ('w, 'a) hold_io \<Rightarrow> ('w, 'a) hold_io" where
  "with_file_lock env l root m = io_then (he_lock env l root) (io_finally m (he_unlock env l root))"

section \<open>The close report\<close>

definition dispatch_not_sent :: "pdict \<Rightarrow> bool \<Rightarrow> bool" where
  "dispatch_not_sent evidence no_claim \<longleftrightarrow>
     dget evidence ''dispatch_evidence'' = PStr ''not_sent'' \<and> \<not> truthy (dget evidence ''turn_id'') \<and>
     dget evidence ''local_observer_stopped'' = PBool True \<and> no_claim"

text \<open>Whether the turn is terminal, whether the hold is released, whether the observer is gone.\<close>

definition close_facts :: "pdict \<Rightarrow> pdict \<Rightarrow> bool \<Rightarrow> bool \<times> bool \<times> bool" where
  "close_facts report evidence no_claim =
     (let undispatched = dispatch_not_sent evidence no_claim \<or> dget report ''non_dispatch_confirmed'' = PBool True in
      (undispatched \<or> dget evidence ''terminal_confirmed'' = PBool True,
       if undispatched then no_claim else dget evidence ''hold_released'' = PBool True,
       dget evidence ''local_observer_stopped'' = PBool True \<and>
         (no_claim \<or> dget evidence ''holder_exit_confirmed'' = PBool True)))"

definition report_status :: "string \<Rightarrow> bool \<Rightarrow> bool \<Rightarrow> string" where
  "report_status failure completed settled =
     (if failure \<noteq> [] then ''failed'' else if completed then ''completed''
      else if settled then ''unresolved'' else ''pending'')"

definition close_fields :: "pdict \<Rightarrow> pdict \<Rightarrow> pdict \<Rightarrow> bool \<Rightarrow> pdict option \<Rightarrow> string \<Rightarrow> pdict" where
  "close_fields request report evidence no_claim action failure =
     (case close_facts report evidence no_claim of (terminal, released, stopped) \<Rightarrow>
      let not_sent = dispatch_not_sent evidence no_claim;
          completed = (terminal \<and> released);
          unknown = (\<not> terminal \<and> in_words (dget evidence ''status'') [''failed'', ''unknown'', ''interrupted'']) in
      [(''scheduling_closed'', PBool (dget request ''stop_requested'' = PBool True \<or> completed)),
       (''lifecycle_status'', py_or (dget evidence ''lifecycle_status'') (dget evidence ''status'')),
       (''execution_state'', PStr (if not_sent then ''not_started'' else if terminal then ''terminal''
          else if unknown then ''unknown'' else ''running'')),
       (''terminal_confirmed'', PBool terminal), (''hold_released'', PBool released),
       (''management_closed'', PBool (completed \<or> stopped)),
       (''external_execution_unresolved'', PBool (\<not> terminal \<and> stopped)),
       (''report_status'', PStr (report_status failure completed (unknown \<or> terminal))),
       (''thread_id'', dget evidence ''thread_id''), (''turn_id'', dget evidence ''turn_id''),
       (''reason'', py_or (PStr failure) (dget evidence ''reason''))] @
      (if not_sent then [(''non_dispatch_confirmed'', PBool True)] else []) @
      (case action of None \<Rightarrow> [] | Some a \<Rightarrow> [(''last_action'', PDict a)]))"

text \<open>\<open>LoopStore(...).record_child_close(report)\<close>, for the hold of a closing loop.\<close>

definition tell_parent :: "pdict \<Rightarrow> ('w, unit) hold_io" where
  "tell_parent report = (if truthy (dget report ''parent_close'') then record_child_close report else io_return ())"

definition update_report :: "'w hold_env \<Rightarrow> hold_root \<Rightarrow> pdict \<Rightarrow> pdict \<Rightarrow> ('w, pdict) hold_io" where
  "update_report env root report changes =
     (if list_ex (\<lambda>(k, v). \<not> py_eq (dget report k) v) changes then
        io_bind (io_get (now_str env)) (\<lambda>now.
        let report1 = dset (dmerge report changes) ''observed_at'' now in
        io_then (write_file env root Close_File report1) (io_return report1))
      else io_return report)"

definition refresh_locked :: "'w hold_env \<Rightarrow> hold_root \<Rightarrow> pdict \<Rightarrow> pdict option \<Rightarrow> string \<Rightarrow> ('w, pdict) hold_io" where
  "refresh_locked env root evidence action failure =
     io_bind (io_get (dir_of root)) (\<lambda>d.
     let report = read_object (fd_close d); request = read_object (fd_request d) in
     if \<not> py_eq (dget report ''request_id'') (dget request ''request_id'') \<or>
        \<not> py_eq (dget evidence ''request_id'') (dget request ''request_id'') then io_return report
     else if dget report ''report_status'' = PStr ''completed'' \<and> failure = [] then
       io_then (tell_parent report) (io_return report)
     else io_bind (update_report env root report (close_fields request report evidence (\<not> fd_claim d) action failure))
       (\<lambda>report1. io_then (tell_parent report1) (io_return report1)))"

definition refresh_close_report ::
    "'w hold_env \<Rightarrow> hold_root \<Rightarrow> pdict \<Rightarrow> pdict option \<Rightarrow> string \<Rightarrow> ('w, pdict) hold_io" where
  "refresh_close_report env root evidence action failure =
     io_bind (io_get (dir_of root)) (\<lambda>d. if fd_close d = Absent then io_return []
       else with_file_lock env Close_Lock root (refresh_locked env root evidence action failure))"

end
