(* ===== verification/Hold_Host.thy ===== *)
theory Hold_Host
  imports Hold_Files
begin

text \<open>
  The hold host, \<open>packages/adapters/codex_app_server/jarvis_hold_host_service.py\<close>: the process that
  claims queued holds, runs their holder, recovers the claims of dead hosts, stops and reconciles
  single holds; and \<open>initialize_user_host\<close>, which starts it. The set of active holds of the running
  host is \<open>hf_active\<close>. The App Server behind \<open>reconcile_hold\<close>, the process table and the start and
  stop of processes are ports. The threads of \<open>run_forever\<close> are not modelled: they call \<open>run_once\<close>.
\<close>

section \<open>Health\<close>

definition health_instant :: "pyval \<Rightarrow> instant option" where
  "health_instant v = parse_instant (py_str v)"

definition same_path :: "'w hold_env \<Rightarrow> pyval \<Rightarrow> string \<Rightarrow> bool" where
  "same_path env l r = (case (he_norm env (py_str l), he_norm env r) of (Some a, Some b) \<Rightarrow> a = b | _ \<Rightarrow> False)"

definition health_max_age :: int where "health_max_age = 30 * 1000000"

definition start_slack :: int where "start_slack = 5 * 1000000"

definition health_fresh :: "instant \<Rightarrow> pdict \<Rightarrow> bool" where
  "health_fresh now h = (case health_instant (dget h ''observed_at'') of None \<Rightarrow> False | Some t \<Rightarrow> now - t \<le> health_max_age)"

definition same_start :: "'w hold_env \<Rightarrow> 'w hold_world \<Rightarrow> pdict \<Rightarrow> int \<Rightarrow> bool" where
  "same_start env w h pid = (case (health_instant (dget h ''host_started_at''), he_started env (hf_env (lw_world w)) pid) of
      (Some reported, Some started) \<Rightarrow> started - reported \<le> start_slack | _ \<Rightarrow> False)"

definition enough_workers :: "int \<Rightarrow> pdict \<Rightarrow> bool" where
  "enough_workers required h = (case py_int (py_or (dget h ''worker_capacity'') (PInt 1)) of
      Inl e \<Rightarrow> False | Inr c \<Rightarrow> max required 1 \<le> max c 1)"

definition live_process :: "'w hold_env \<Rightarrow> 'w hold_world \<Rightarrow> int \<Rightarrow> pdict \<Rightarrow> bool" where
  "live_process env w required h = (case py_int (dget h ''pid'') of
      Inl e \<Rightarrow> False
    | Inr pid \<Rightarrow> 0 < pid \<and> pid_alive env w pid \<and> enough_workers required h \<and> same_start env w h pid)"

definition health_matches :: "'w hold_env \<Rightarrow> string \<Rightarrow> string \<Rightarrow> int \<Rightarrow> 'w hold_world \<Rightarrow> pdict \<Rightarrow> bool" where
  "health_matches env profile home required w h \<longleftrightarrow>
     text_or_empty (dget h ''status'') \<in> {''ready'', ''holding''} \<and> health_fresh (hold_now env w) h \<and>
     live_process env w required h \<and> stripped (dget h ''profile'') = profile \<and>
     same_path env (dget h ''codex_home'') home \<and> same_path env (dget h ''state_dir'') (he_state_dir env)"

definition matching_health :: "'w hold_env \<Rightarrow> string \<Rightarrow> string \<Rightarrow> int \<Rightarrow> ('w, bool) hold_io" where
  "matching_health env profile home required =
     io_bind (io_get (\<lambda>w. rbind (strict_object (hf_health (lw_world w))) (\<lambda>v.
        Inr (case v of None \<Rightarrow> False | Some h \<Rightarrow> health_matches env profile home required w h)))) io_lift"

record hold_host =
  ho_profile :: string
  ho_home :: string
  ho_started :: string
  ho_workers :: int

definition host_of_launcher :: "pdict \<Rightarrow> string \<Rightarrow> int \<Rightarrow> hold_host" where
  "host_of_launcher launcher started workers =
     \<lparr> ho_profile = stripped (dget launcher ''profile''), ho_home = stripped (dget launcher ''expected_codex_home''),
       ho_started = started, ho_workers = max workers 1 \<rparr>"

definition new_host :: "'w hold_env \<Rightarrow> int \<Rightarrow> ('w, hold_host) hold_io" where
  "new_host env workers =
     io_bind (io_get (\<lambda>w. strict_read (hf_config (lw_world w)))) (\<lambda>r. io_bind (io_lift r) (\<lambda>launcher.
     io_bind (io_get (hold_now env)) (\<lambda>now. io_return (host_of_launcher launcher (isoformat now) workers))))"

definition health_row :: "'w hold_env \<Rightarrow> hold_host \<Rightarrow> string \<Rightarrow> pyval \<Rightarrow> 'w hold_world \<Rightarrow> pdict" where
  "health_row env host status request_id w =
     (let active = sort (hf_active (lw_world w)) in
      [(''profile'', PStr (ho_profile host)), (''codex_home'', PStr (ho_home host)),
       (''state_dir'', PStr (case he_norm env (he_state_dir env) of None \<Rightarrow> he_state_dir env | Some d \<Rightarrow> d)),
       (''status'', PStr (if active \<noteq> [] then ''holding'' else status)), (''pid'', PInt (he_pid env)),
       (''host_started_at'', PStr (ho_started host)), (''request_id'', request_id),
       (''worker_capacity'', PInt (ho_workers host)), (''active_count'', PInt (int (length active))),
       (''active_hold_ids'', PList (map PStr active)), (''capabilities'', PList [PStr ''exact_hold_stop_v1'']),
       (''observed_at'', now_str env w)])"

definition write_health :: "'w hold_env \<Rightarrow> hold_host \<Rightarrow> string \<Rightarrow> pyval \<Rightarrow> ('w, unit) hold_io" where
  "write_health env host status request_id = io_catch
     (io_then (env_io (he_write_health env))
       (\<lambda>w. (Inr (), change_files (\<lambda>h. h\<lparr> hf_health := Saved (PDict (health_row env host status request_id w)) \<rparr>) w)))
     (\<lambda>e. if is_permission_error e then io_return () else io_raise e)"

definition mark_active :: "string \<Rightarrow> ('w, unit) hold_io" where
  "mark_active hold = io_modify (change_files (\<lambda>h. h\<lparr> hf_active := List.insert hold (hf_active h) \<rparr>))"

definition mark_inactive :: "string \<Rightarrow> ('w, unit) hold_io" where
  "mark_inactive hold = io_modify (change_files (\<lambda>h. h\<lparr> hf_active := removeAll hold (hf_active h) \<rparr>))"

section \<open>Claims\<close>

text \<open>A denied deletion is tried again, twenty times in all.\<close>

definition release_once :: "'w hold_env \<Rightarrow> hold_root \<Rightarrow> ('w, unit) hold_io" where
  "release_once env root =
     io_then (env_io (he_unlink_owner env root))
     (io_then (io_modify (change_dir root (\<lambda>d. d\<lparr> fd_owner := Absent \<rparr>)))
     (io_bind (io_get (dir_of root)) (\<lambda>d.
      if \<not> fd_claim d then io_return ()
      else io_then (env_io (he_rmdir_claim env root)) (io_modify (change_dir root (\<lambda>d. d\<lparr> fd_claim := False \<rparr>))))))"

primrec release_attempts :: "nat \<Rightarrow> 'w hold_env \<Rightarrow> hold_root \<Rightarrow> ('w, unit) hold_io" where
  "release_attempts 0 env root = release_once env root"
| "release_attempts (Suc n) env root = io_catch (release_once env root) (\<lambda>e.
     if is_permission_error e then io_then (he_pause env) (release_attempts n env root) else io_raise e)"

definition release_claim :: "'w hold_env \<Rightarrow> hold_root \<Rightarrow> ('w, unit) hold_io" where
  "release_claim env root = release_attempts 19 env root"

definition queued_ack :: "pdict \<Rightarrow> bool" where
  "queued_ack ack \<longleftrightarrow> dget ack ''status'' = PStr ''accepted'' \<and> dget ack ''phase'' = PStr ''queued_for_user_host''"

text \<open>The recheck of the claimer: the hold is still the queued one that was scanned.\<close>

definition claim_valid :: "hold_dir \<Rightarrow> pdict option \<Rightarrow> pdict \<Rightarrow> pdict option \<Rightarrow> bool" where
  "claim_valid d current current_ack expected =
     (case (current, expected) of
        (Some c, Some e) \<Rightarrow> fd_result d = Absent \<and> py_eq (dget c ''request_id'') (dget e ''request_id'') \<and>
          py_eq (dget c ''hold_id'') (dget e ''hold_id'') \<and>
          py_eq (dget_or current_ack ''request_id'' (dget c ''request_id'')) (dget c ''request_id'') \<and> queued_ack current_ack
      | _ \<Rightarrow> False)"

definition claim_body :: "'w hold_env \<Rightarrow> hold_root \<Rightarrow> pdict option \<Rightarrow> ('w, bool) hold_io" where
  "claim_body env root request =
     io_bind (io_get (now_str env)) (\<lambda>now.
     io_then (write_file env root Owner_File [(''pid'', PInt (he_pid env)), (''observed_at'', now)])
     (io_bind (io_get (dir_of root)) (\<lambda>d.
      io_bind (io_lift (strict_object (fd_request d))) (\<lambda>current.
      io_bind (io_lift (strict_read (fd_ack d))) (\<lambda>current_ack.
      if \<not> claim_valid d current current_ack (if request = None then current else request) then io_return False
      else io_then (write_file env root Ack_File (dmerge current_ack
          [(''phase'', PStr ''claimed_by_user_host''), (''host_pid'', PInt (he_pid env)), (''observed_at'', now)]))
        (io_return True))))))"

definition claim_hold :: "'w hold_env \<Rightarrow> hold_root \<Rightarrow> pdict option \<Rightarrow> ('w, bool) hold_io" where
  "claim_hold env root request =
     io_then (he_pause env)
     (io_bind (io_get (dir_of root)) (\<lambda>d.
      if fd_claim d then io_return False
      else io_then (io_modify (change_dir root (\<lambda>d. d\<lparr> fd_claim := True \<rparr>)))
        (io_try (claim_body env root request)
          (\<lambda>e. io_then (release_claim env root) (io_raise e))
          (\<lambda>claimed. if claimed then io_return True else io_then (release_claim env root) (io_return False)))))"

text \<open>\<open>str(v.get("hold_id") or v.get("monitor_id") or root.name)\<close>.\<close>

definition owner_hold_id :: "hold_root \<Rightarrow> pdict \<Rightarrow> string" where
  "owner_hold_id root request = py_str (py_or (dget request ''hold_id'') (py_or (dget request ''monitor_id'') (PStr (snd root))))"

definition lost_claim_row :: "hold_root \<Rightarrow> pdict \<Rightarrow> int \<Rightarrow> pyval \<Rightarrow> pdict" where
  "lost_claim_row root request owner_pid now =
     [(''request_id'', PStr (text_or_empty (dget request ''request_id''))), (''status'', PStr ''failed''),
      (''phase'', PStr ''recovery_failed''), (''hold_id'', PStr (owner_hold_id root request)),
      (''recovered_from_pid'', PInt owner_pid),
      (''reason'', PStr ''dead HoldHost claim has no durable thread identity''), (''observed_at'', now)]"

definition requeued_row :: "hold_root \<Rightarrow> pdict \<Rightarrow> int \<Rightarrow> pyval \<Rightarrow> pdict" where
  "requeued_row root request owner_pid now =
     [(''request_id'', PStr (text_or_empty (dget request ''request_id''))), (''status'', PStr ''accepted''),
      (''phase'', PStr ''queued_for_user_host''), (''hold_id'', PStr (owner_hold_id root request)),
      (''recovered_from_pid'', PInt owner_pid), (''observed_at'', now)]"

definition at_least_1 :: "pyval \<Rightarrow> int result" where
  "at_least_1 v = rbind (py_int (py_or v (PInt 1))) (\<lambda>i. Inr (max i 1))"

definition recovered_request :: "pdict \<Rightarrow> pdict \<Rightarrow> string \<Rightarrow> string \<Rightarrow> pdict result" where
  "recovered_request request ack thread turn =
     rbind (at_least_1 (dget ack ''turn_count'')) (\<lambda>session.
     rbind (at_least_1 (py_or (dget ack ''total_turn_count'') (dget ack ''turn_count''))) (\<lambda>total.
     rbind (at_least_1 (py_or (dget ack ''max_turns'') (dget request ''max_turns''))) (\<lambda>limit.
     Inr (dmerge request [(''mode'', PStr ''recover''), (''thread_id'', PStr thread), (''turn_id'', PStr turn),
       (''initial_turn_count'', PInt session), (''initial_total_turn_count'', PInt total), (''max_turns'', PInt limit)]))))"

definition owner_pid_of :: "pdict \<Rightarrow> int option" where
  "owner_pid_of owner = (case py_int (dget owner ''pid'') of Inl e \<Rightarrow> None | Inr pid \<Rightarrow> if 0 < pid then Some pid else None)"

definition requeue_locked :: "'w hold_env \<Rightarrow> hold_root \<Rightarrow> pdict \<Rightarrow> pdict \<Rightarrow> int \<Rightarrow> ('w, bool) hold_io" where
  "requeue_locked env root request recovered owner_pid =
     io_bind (io_get (dir_of root)) (\<lambda>d.
     io_bind (io_lift (strict_read (fd_owner d))) (\<lambda>owner.
     if \<not> py_eq (dget owner ''pid'') (PInt owner_pid) then io_return False
     else io_bind (io_lift (strict_read (fd_request d))) (\<lambda>current.
       if \<not> py_eq (dget current ''request_id'') (dget request ''request_id'') then io_return False
       else io_then (write_file env root Request_File
           (if truthy (dget current ''stop_requested'') then dset recovered ''stop_requested'' (PBool True) else recovered))
         (io_bind (io_get (now_str env)) (\<lambda>now.
          io_then (write_file env root Ack_File (requeued_row root request owner_pid now))
          (io_then (release_claim env root) (io_return True)))))))"

definition requeue_dead_claim :: "'w hold_env \<Rightarrow> hold_root \<Rightarrow> pdict \<Rightarrow> pdict \<Rightarrow> ('w, bool) hold_io" where
  "requeue_dead_claim env root request ack = io_catch
     (io_bind (io_get (dir_of root)) (\<lambda>d.
      io_bind (io_lift (strict_read (fd_owner d))) (\<lambda>owner.
      case owner_pid_of owner of
        None \<Rightarrow> io_return False
      | Some owner_pid \<Rightarrow>
          let thread = stripped (py_or (dget ack ''thread_id'') (dget request ''thread_id''));
              turn = stripped (py_or (dget ack ''turn_id'') (dget request ''turn_id'')) in
          io_bind (io_get (\<lambda>w. pid_alive env w owner_pid)) (\<lambda>alive.
          if alive then io_return False
          else if thread = [] \<or> turn = [] then
            (if text_or_empty (dget ack ''phase'') \<notin> {''claimed_by_user_host'', ''queued_for_user_host'', ''thread_starting''} \<or>
                py_str (py_or (dget request ''mode'') (PStr ''create'')) \<noteq> ''create'' then io_return False
             else io_bind (io_get (now_str env)) (\<lambda>now.
               io_then (write_file env root Ack_File (lost_claim_row root request owner_pid now))
               (io_then (release_claim env root) (io_return True))))
          else io_bind (io_lift (recovered_request request ack thread turn)) (\<lambda>recovered.
            with_file_lock env Request_Lock root (requeue_locked env root request recovered owner_pid))))))
     (\<lambda>e. if is_close_error e then io_return False else io_raise e)"

section \<open>One scheduling pass\<close>

definition controlled_stop_intent :: "pdict \<Rightarrow> bool" where
  "controlled_stop_intent request \<longleftrightarrow> dget request ''host_stop'' \<noteq> PNone \<or>
     dget request ''mode'' = PStr ''recover'' \<and> dget request ''stop_requested'' = PBool True"

text \<open>The closure \<open>controlled_intent\<close>: changed ownership counts as an intent.\<close>

definition controlled_intent :: "hold_root \<Rightarrow> pdict \<Rightarrow> ('w, bool) hold_io" where
  "controlled_intent root request =
     io_bind (io_get (\<lambda>w. strict_read (fd_request (dir_of root w)))) (\<lambda>r. io_bind (io_lift r) (\<lambda>current.
     io_return (\<not> py_eq (dget current ''request_id'') (dget request ''request_id'') \<or>
       controlled_stop_intent request \<or> controlled_stop_intent current)))"

text \<open>The record of a holder that raised; what it saved itself goes before it.\<close>

definition host_failure_row :: "string \<Rightarrow> pdict \<Rightarrow> pdict \<Rightarrow> pdict \<Rightarrow> pyexc \<Rightarrow> pyval \<Rightarrow> bool \<Rightarrow> pdict" where
  "host_failure_row hold request ack persisted e now controlled =
     (let confirmed = (dget persisted ''terminal_confirmed'' = PBool True);
          base = dmerge (dmerge (dmerge
            [(''request_id'', dget request ''request_id''), (''hold_id'', PStr hold),
             (''thread_id'', dget_or request ''thread_id'' (PStr []))] ack) persisted)
            [(''host_error'', PStr (exc_text e)), (''observed_at'', now), (''terminal_confirmed'', PBool confirmed)];
          row = (if confirmed then base else dmerge base
            [(''status'', PStr ''failed''), (''phase'', PStr ''host_execution_error''),
             (''reason'', py_or (dget persisted ''reason'') (PStr (''Hold execution failed: '' @ exc_text e)))]) in
      if controlled then dmerge row [(''host_stop'', PBool True), (''execution_evidence'', PStr ''requires_owner_terminal''),
        (''terminal_confirmed'', PBool False)]
      else row)"

definition holder_failed :: "'w hold_env \<Rightarrow> hold_root \<Rightarrow> string \<Rightarrow> pdict \<Rightarrow> pdict \<Rightarrow> pyexc \<Rightarrow> ('w, unit) hold_io" where
  "holder_failed env root hold request ack e =
     io_bind (io_get (dir_of root)) (\<lambda>d.
     io_bind (io_lift (strict_read (fd_result d))) (\<lambda>persisted.
     io_bind (io_lift (strict_read (fd_ack d))) (\<lambda>latest.
     io_bind (io_get (now_str env)) (\<lambda>now.
     io_bind (controlled_intent root request) (\<lambda>controlled.
     let row = host_failure_row hold request (if latest = [] then ack else latest) persisted e now controlled in
     io_then (write_file env root Result_File row) (write_file env root Ack_File row))))))"

text \<open>A controlled stop is confirmed by the holder's own readback and exit only.\<close>

definition own_terminal :: "pdict \<Rightarrow> bool" where
  "own_terminal saved \<longleftrightarrow> (let evidence = as_dict (dget saved ''owner_terminal_readback'') in
     dget saved ''holder_client_exit_confirmed'' = PBool True \<and>
     py_eq (dget evidence ''thread_id'') (dget saved ''thread_id'') \<and>
     py_eq (dget evidence ''turn_id'') (dget saved ''turn_id'') \<and>
     in_words (dget evidence ''status'') [''completed'', ''failed'', ''interrupted'', ''cancelled'', ''canceled''])"

definition controlled_row :: "int \<Rightarrow> bool \<Rightarrow> pdict \<Rightarrow> pdict" where
  "controlled_row pid returned saved =
     (let base = dmerge saved [(''host_stop'', PBool True), (''holder_exit_confirmed'', PBool returned), (''holder_owner_pid'', PInt pid)] in
      if \<not> returned then dmerge base [(''terminal_confirmed'', PBool False), (''execution_evidence'', PStr ''requires_owner_terminal'')]
      else if own_terminal base then dmerge base [(''terminal_confirmed'', PBool True), (''phase'', PStr ''host_stop_reconciled''),
        (''terminal_evidence'', PStr ''holder_readback_and_owned_exit'')]
      else base)"

definition may_release :: "bool \<Rightarrow> pdict \<Rightarrow> bool" where
  "may_release returned saved \<longleftrightarrow> dget saved ''terminal_confirmed'' = PBool True \<and> returned \<and>
     dget saved ''holder_client_exit_confirmed'' = PBool True"

definition settle_claim :: "'w hold_env \<Rightarrow> hold_root \<Rightarrow> pdict \<Rightarrow> bool \<Rightarrow> ('w, unit) hold_io" where
  "settle_claim env root request returned =
     io_bind (io_get (\<lambda>w. strict_read (fd_result (dir_of root w)))) (\<lambda>r. io_bind (io_lift r) (\<lambda>saved.
     io_bind (if dget saved ''host_stop'' = PBool True then io_return True
              else if returned then io_return False else controlled_intent root request) (\<lambda>controlled.
     if \<not> controlled then release_claim env root
     else let row = controlled_row (he_pid env) returned saved in
       io_then (write_file env root Result_File row)
       (io_then (write_file env root Ack_File row)
         (if may_release returned row then release_claim env root else io_return ())))))"

definition cleanup_failed :: "'w hold_env \<Rightarrow> hold_root \<Rightarrow> pdict option \<Rightarrow> pyexc \<Rightarrow> ('w, unit) hold_io" where
  "cleanup_failed env root owner e =
     io_bind (io_get (\<lambda>w. strict_object (fd_result (dir_of root w)))) (\<lambda>r. io_bind (io_lift r) (\<lambda>result.
     case result of None \<Rightarrow> io_return ()
     | Some saved \<Rightarrow>
         let row = dmerge saved [(''cleanup_error'', PStr (exc_text e)),
               (''cleanup_owner'', case owner of None \<Rightarrow> PNone | Some x \<Rightarrow> PDict x)] in
         io_then (write_file env root Result_File row)
           (if truthy (dget saved ''host_stop'') then write_file env root Ack_File row else io_return ())))"

definition report_close :: "'w hold_env \<Rightarrow> hold_host \<Rightarrow> hold_root \<Rightarrow> bool \<Rightarrow> ('w, unit) hold_io" where
  "report_close env host root returned =
     io_then (write_health env host ''ready'' PNone)
     (io_bind (io_get (\<lambda>w. strict_read (fd_result (dir_of root w)))) (\<lambda>r. io_bind (io_lift r) (\<lambda>evidence.
      io_bind (io_get (\<lambda>w. fd_claim (dir_of root w))) (\<lambda>claimed.
      io_then (refresh_close_report env root (dmerge evidence [(''holder_exit_confirmed'', PBool returned),
         (''hold_released'', PBool (dget evidence ''terminal_confirmed'' = PBool True \<and> \<not> claimed))]) None [])
        (io_return ())))))"

text \<open>The inner \<open>finally\<close> clause of \<open>run_once\<close>.\<close>

definition after_holder :: "'w hold_env \<Rightarrow> hold_host \<Rightarrow> hold_root \<Rightarrow> string \<Rightarrow> pdict \<Rightarrow> bool \<Rightarrow> ('w, unit) hold_io" where
  "after_holder env host root hold request returned =
     io_then (mark_inactive hold)
     (io_bind (io_get (\<lambda>w. strict_object (fd_owner (dir_of root w)))) (\<lambda>r. io_bind (io_lift r) (\<lambda>owner.
      io_finally (io_catch (settle_claim env root request returned)
          (\<lambda>e. if is_os_error e then cleanup_failed env root owner e else io_raise e))
        (report_close env host root returned))))"

text \<open>\<open>finally\<close> with the outcome of the \<open>try\<close> block.\<close>

definition io_always :: "('w, bool) io \<Rightarrow> (bool \<Rightarrow> ('w, unit) io) \<Rightarrow> ('w, unit) io" where
  "io_always m n w = (case m w of (r, w1) \<Rightarrow> (case n (r = Inr True) w1 of
      (Inl e, w2) \<Rightarrow> (Inl e, w2) | (Inr u, w2) \<Rightarrow> (case r of Inl e \<Rightarrow> (Inl e, w2) | Inr b \<Rightarrow> (Inr (), w2))))"

text \<open>A claimed hold: \<open>holder\<close> is the call of \<open>hold_task\<close>.\<close>

definition run_claimed ::
    "'w hold_env \<Rightarrow> hold_host \<Rightarrow> (hold_root \<Rightarrow> ('w, unit) hold_io) \<Rightarrow> hold_root \<Rightarrow> pdict \<Rightarrow> pdict \<Rightarrow> ('w, unit) hold_io" where
  "run_claimed env host holder root request ack =
     (let hold = owner_hold_id root request in
      io_then (mark_active hold)
      (io_then (write_health env host ''holding'' (PStr (text_or_empty (dget request ''request_id''))))
       (io_always (io_try (holder root)
            (\<lambda>e. io_then (holder_failed env root hold request ack e) (io_return False)) (\<lambda>u. io_return True))
         (after_holder env host root hold request))))"

definition run_root ::
    "'w hold_env \<Rightarrow> hold_host \<Rightarrow> (hold_root \<Rightarrow> ('w, unit) hold_io) \<Rightarrow> hold_root \<Rightarrow> ('w, bool) hold_io" where
  "run_root env host holder root =
     io_bind (io_get (dir_of root)) (\<lambda>d.
     if fd_result d \<noteq> Absent then io_return False
     else io_bind (io_lift (strict_object (fd_request d))) (\<lambda>request.
       io_bind (io_lift (strict_object (fd_ack d))) (\<lambda>ack.
       case (request, ack) of
         (Some q, Some a) \<Rightarrow>
           if text_or_empty (dget a ''status'') \<noteq> ''accepted'' \<or> text_or_empty (dget a ''phase'') \<noteq> ''queued_for_user_host''
           then requeue_dead_claim env root q a
           else io_bind (claim_hold env root (Some q)) (\<lambda>claimed.
             if \<not> claimed then requeue_dead_claim env root q a
             else io_then (run_claimed env host holder root q a) (io_return True))
       | _ \<Rightarrow> io_return False)))"

primrec run_roots ::
    "'w hold_env \<Rightarrow> hold_host \<Rightarrow> (hold_root \<Rightarrow> ('w, unit) hold_io) \<Rightarrow> hold_root list \<Rightarrow> ('w, bool) hold_io" where
  "run_roots env host holder [] = io_return False"
| "run_roots env host holder (root # roots) = io_bind (run_root env host holder root) (\<lambda>ran.
     if ran then io_return True else run_roots env host holder roots)"

definition roots_in :: "hold_parent \<Rightarrow> 'w hold_world \<Rightarrow> hold_root list" where
  "roots_in parent w = filter (\<lambda>r. fst r = parent) (map fst (hf_dirs (lw_world w)))"

definition host_run_once ::
    "'w hold_env \<Rightarrow> hold_host \<Rightarrow> (hold_root \<Rightarrow> ('w, unit) hold_io) \<Rightarrow> hold_root option \<Rightarrow> ('w, bool) hold_io" where
  "host_run_once env host holder only =
     io_then (write_health env host ''ready'' PNone)
     (case only of
        Some root \<Rightarrow> run_roots env host holder [root]
      | None \<Rightarrow> io_bind (io_get (\<lambda>w. sort_key snd (roots_in Task_Holds w))) (\<lambda>roots.
          io_bind (run_roots env host holder roots) (\<lambda>ran.
          if ran then io_return True
          else io_bind (io_get (\<lambda>w. sort_key snd (roots_in Task_Monitors w))) (run_roots env host holder))))"

text \<open>\<open>_run_worker\<close>: a pass that raises only refreshes the health.\<close>

definition worker_pass ::
    "'w hold_env \<Rightarrow> hold_host \<Rightarrow> (hold_root \<Rightarrow> ('w, unit) hold_io) \<Rightarrow> hold_root \<Rightarrow> ('w, unit) hold_io" where
  "worker_pass env host holder root =
     io_try (host_run_once env host holder (Some root)) (\<lambda>e. write_health env host ''ready'' PNone) (\<lambda>ran. io_return ())"

section \<open>Stopping one holder\<close>

definition hold_matches :: "(pdict \<Rightarrow> bool) \<Rightarrow> ('w, hold_root list) hold_io" where
  "hold_matches P = io_bind (io_get (\<lambda>w. rmap (\<lambda>root. rbind (strict_read (fd_request (dir_of root w))) (\<lambda>q. Inr (root, P q)))
        (roots_in Task_Holds w @ roots_in Task_Monitors w)))
     (\<lambda>r. io_bind (io_lift r) (\<lambda>found. io_return (map fst (filter snd found))))"

definition all_equal :: "pdict \<Rightarrow> pdict \<Rightarrow> bool" where
  "all_equal identity value \<longleftrightarrow> list_all (\<lambda>(k, v). py_eq (dget value k) v) identity"

definition stop_rejected :: "string \<Rightarrow> string \<Rightarrow> pdict" where
  "stop_rejected hold reason = [(''status'', PStr ''rejected''), (''hold_id'', PStr hold), (''hold_released'', PBool False),
     (''reason'', PStr reason)]"

definition stop_identity :: "string \<Rightarrow> pdict \<Rightarrow> string \<Rightarrow> string \<Rightarrow> pdict" where
  "stop_identity hold request thread turn =
     [(''hold_id'', PStr hold), (''request_id'', dget request ''request_id''), (''thread_id'', PStr thread), (''turn_id'', PStr turn)]"

definition confirmed_repeat :: "pdict \<Rightarrow> pdict \<Rightarrow> pdict \<Rightarrow> pdict \<Rightarrow> string \<Rightarrow> string \<Rightarrow> bool" where
  "confirmed_repeat identity request ack result thread turn \<longleftrightarrow>
     py_eq (dget request ''host_stop'') (PDict identity) \<and>
     in_words (dget result ''status'') [''completed'', ''failed'', ''interrupted'', ''cancelled'', ''canceled''] \<and>
     py_eq (dget ack ''status'') (dget result ''status'') \<and>
     list_all (\<lambda>value. list_all (\<lambda>key. dget value key = PBool True)
         [''host_stop'', ''terminal_confirmed'', ''holder_exit_confirmed'', ''holder_client_exit_confirmed''] \<and>
       dget (as_dict (dget value ''owner_terminal_readback'')) ''thread_id'' = PStr thread \<and>
       dget (as_dict (dget value ''owner_terminal_readback'')) ''turn_id'' = PStr turn) [ack, result]"

definition stop_refusal :: "string \<Rightarrow> string \<Rightarrow> string \<Rightarrow> pdict \<Rightarrow> pdict \<Rightarrow> pdict \<Rightarrow> string option" where
  "stop_refusal hold thread turn request ack result =
     (let identity = stop_identity hold request thread turn in
      if \<not> truthy (dget request ''request_id'') \<or> dget request ''hold_id'' \<noteq> PStr hold \<or> \<not> all_equal identity ack \<or>
         result \<noteq> [] \<and> \<not> all_equal identity result then Some ''Current owner receipt identity mismatch''
      else if dget request ''host_stop'' \<noteq> PNone \<and> \<not> py_eq (dget request ''host_stop'') (PDict identity)
        then Some ''Conflicting existing host stop binding''
      else if dget request ''mode'' = PStr ''recover'' \<and> (dget request ''thread_id'' \<noteq> PStr thread \<or>
          dget request ''turn_id'' \<noteq> PStr turn \<and> \<not> confirmed_repeat identity request ack result thread turn)
        then Some ''Recover request/receipt identity conflict''
      else None)"

text \<open>The owning host advertises the exact stop, and is the live matching one.\<close>

definition owner_can_stop :: "string \<Rightarrow> pdict \<Rightarrow> pdict \<Rightarrow> bool" where
  "owner_can_stop hold health owner \<longleftrightarrow>
     list_ex (\<lambda>c. c = PStr ''exact_hold_stop_v1'') (as_list (dget health ''capabilities'')) \<and>
     py_eq (dget health ''pid'') (dget owner ''pid'') \<and>
     list_ex (\<lambda>c. c = PStr hold) (as_list (dget health ''active_hold_ids''))"

definition ask_owner ::
    "'w hold_env \<Rightarrow> hold_host \<Rightarrow> hold_root \<Rightarrow> string \<Rightarrow> pdict \<Rightarrow> pdict \<Rightarrow> ('w, pdict) hold_io" where
  "ask_owner env host root hold identity request =
     io_bind (io_get (\<lambda>w. rbind (strict_read (hf_health (lw_world w))) (\<lambda>h.
        rbind (strict_read (fd_owner (dir_of root w))) (\<lambda>x. Inr (owner_can_stop hold h x))))) (\<lambda>r. io_bind (io_lift r) (\<lambda>able.
     io_bind (if able then matching_health env (ho_profile host) (ho_home host) 1 else io_return False) (\<lambda>matches.
     if \<not> matches then io_return (stop_rejected hold ''Owning Host does not advertise fresh exact-stop capability; no hot update'')
     else io_then (if dget request ''host_stop'' \<noteq> PNone then io_return ()
         else write_file env root Request_File (dmerge request [(''stop_requested'', PBool True), (''host_stop'', PDict identity)]))
       (io_return ([(''status'', PStr ''stop_requested'')] @ identity @
          [(''terminal_confirmed'', PBool False), (''hold_released'', PBool False)])))))"

definition stop_locked ::
    "'w hold_env \<Rightarrow> hold_host \<Rightarrow> hold_root \<Rightarrow> string \<Rightarrow> string \<Rightarrow> string \<Rightarrow> ('w, pdict) hold_io" where
  "stop_locked env host root hold thread turn =
     io_bind (io_get (dir_of root)) (\<lambda>d.
     io_bind (io_lift (strict_read (fd_request d))) (\<lambda>request.
     io_bind (io_lift (strict_read (fd_ack d))) (\<lambda>ack.
     io_bind (io_lift (strict_read (fd_result d))) (\<lambda>result.
     case stop_refusal hold thread turn request ack result of
       Some reason \<Rightarrow> io_return (stop_rejected hold reason)
     | None \<Rightarrow>
         if result \<noteq> [] then io_return (dset result ''hold_released''
           (PBool (dget result ''terminal_confirmed'' = PBool True \<and> \<not> fd_claim d)))
         else ask_owner env host root hold (stop_identity hold request thread turn) request))))"

definition request_host_stop :: "'w hold_env \<Rightarrow> hold_host \<Rightarrow> string \<Rightarrow> string \<Rightarrow> string \<Rightarrow> ('w, pdict) hold_io" where
  "request_host_stop env host hold thread turn =
     io_bind (hold_matches (\<lambda>q. dget q ''hold_id'' = PStr hold)) (\<lambda>roots.
     case roots of
       [root] \<Rightarrow>
         if thread = [] \<or> turn = [] then io_return (stop_rejected hold ''Exact Hold/thread/turn required'')
         else io_catch (with_file_lock env Request_Lock root (stop_locked env host root hold thread turn))
           (\<lambda>e. if is_close_error e then io_return (stop_rejected hold (exc_text e)) else io_raise e)
     | _ \<Rightarrow> io_return (stop_rejected hold ''Exact Hold/thread/turn required''))"

section \<open>Reconciling one hold\<close>

definition needs_readback :: "string \<Rightarrow> pdict" where
  "needs_readback hold = [(''status'', PStr ''requires_readback''), (''hold_id'', PStr hold), (''terminal_confirmed'', PBool False),
     (''hold_released'', PBool False)]"

definition unknown_because :: "string \<Rightarrow> string \<Rightarrow> pdict" where
  "unknown_because hold reason = dset (needs_readback hold) ''reason'' (PStr reason)"

definition flags_true :: "string list \<Rightarrow> pdict \<Rightarrow> bool" where
  "flags_true keys d \<longleftrightarrow> list_all (\<lambda>k. dget d k = PBool True) keys"

definition turn_end_words :: "string list" where
  "turn_end_words = [''completed'', ''failed'', ''interrupted'', ''cancelled'', ''canceled'']"

definition hold_id_of :: "pdict \<Rightarrow> pyval" where
  "hold_id_of request = py_or (dget request ''hold_id'') (dget request ''monitor_id'')"

text \<open>The checks that answer before anything is read from the App Server.\<close>

definition reconcile_refusal :: "string \<Rightarrow> pdict \<Rightarrow> pdict \<Rightarrow> pdict \<Rightarrow> pdict option" where
  "reconcile_refusal hold request ack result =
     (if result = [] then Some (unknown_because hold ''No exception/terminal result; live execution not reconciled'')
      else if controlled_stop_intent request \<and> \<not> flags_true
          [''host_stop'', ''holder_exit_confirmed'', ''holder_client_exit_confirmed'', ''terminal_confirmed''] result
        then Some (unknown_because hold
          ''Controlled request lacks owned terminal/exit proof; receipt fallback is not legacy evidence'')
      else if dget result ''execution_evidence'' = PStr ''requires_owner_terminal''
        then Some (dmerge (needs_readback hold)
          [(''holder_exit_confirmed'', dget_or result ''holder_exit_confirmed'' (PBool False)),
           (''reason'', PStr ''Holder exited but execution remains unknown; external interrupted is not owner terminal evidence'')])
      else if truthy (dget result ''host_stop'') \<and> \<not> flags_true [''holder_exit_confirmed'', ''holder_client_exit_confirmed''] result
        then Some (unknown_because hold ''Host-owned exit not yet confirmed'')
      else if \<not> truthy (dget request ''request_id'') \<or> hold_id_of request \<noteq> PStr hold \<or>
          list_ex (\<lambda>v. \<not> py_eq (dget v ''request_id'') (dget request ''request_id'')) [ack, result] \<or>
          list_ex (\<lambda>v. dget_or v ''hold_id'' (PStr hold) \<noteq> PStr hold) [ack, result]
        then Some (unknown_because hold ''Current request/receipt identity mismatch'')
      else None)"

text \<open>The host that wrote the receipt is alive, matches, and has reported since without this hold.\<close>

definition reported_later :: "bool \<Rightarrow> pdict \<Rightarrow> pdict \<Rightarrow> bool" where
  "reported_later strictly health result = (case (health_instant (dget health ''observed_at''), health_instant (dget result ''observed_at'')) of
      (Some a, Some b) \<Rightarrow> if strictly then b < a else b \<le> a | _ \<Rightarrow> False)"

definition owner_inactive :: "'w hold_env \<Rightarrow> hold_host \<Rightarrow> string \<Rightarrow> bool \<Rightarrow> pyval \<Rightarrow> pdict \<Rightarrow> 'w hold_world \<Rightarrow> pdict \<Rightarrow> bool" where
  "owner_inactive env host hold strictly pid result w health \<longleftrightarrow>
     py_eq (dget health ''pid'') pid \<and> health_matches env (ho_profile host) (ho_home host) 1 w health \<and>
     is_list (dget health ''active_hold_ids'') \<and> \<not> list_ex (\<lambda>v. v = PStr hold) (as_list (dget health ''active_hold_ids'')) \<and>
     reported_later strictly health result"

definition owner_proof :: "'w hold_env \<Rightarrow> hold_host \<Rightarrow> string \<Rightarrow> bool \<Rightarrow> pyval \<Rightarrow> pdict \<Rightarrow> ('w, bool) hold_io" where
  "owner_proof env host hold strictly pid result =
     io_bind (io_get (\<lambda>w. rbind (strict_read (hf_health (lw_world w))) (\<lambda>health.
        Inr (owner_inactive env host hold strictly pid result w health)))) io_lift"

text \<open>The exact local validation error that proves that no turn was started.\<close>

definition undispatched_model :: "pdict \<Rightarrow> pdict \<Rightarrow> pdict \<Rightarrow> bool \<Rightarrow> bool" where
  "undispatched_model request ack result claimed \<longleftrightarrow>
     dget request ''mode'' = PStr ''create'' \<and> truthy (dget request ''model'') \<and>
     \<not> truthy (dget request ''thread_id'') \<and> \<not> truthy (dget request ''turn_id'') \<and>
     py_eq (dget_or request ''initial_turn_count'' (PInt 1)) (PInt 1) \<and>
     py_eq (dget_or request ''initial_total_turn_count'' (PInt 1)) (PInt 1) \<and>
     dget result ''status'' = PStr ''failed'' \<and> dget result ''phase'' = PStr ''model_selecting'' \<and>
     prefix (''requested model is not supported by this CLI: '' @ py_str (dget request ''model'') @ ''; available='')
       (py_str (dget_or result ''reason'' (PStr []))) \<and>
     truthy (dget result ''thread_id'') \<and> \<not> truthy (dget result ''turn_id'') \<and>
     py_eq (dget result ''total_turn_count'') (PInt 1) \<and>
     list_all (\<lambda>k. py_eq (dget ack k) (dget result k)) [''status'', ''phase'', ''reason'', ''thread_id'', ''turn_id'', ''pid''] \<and>
     \<not> claimed"

definition undispatched_row :: "pdict \<Rightarrow> pyval \<Rightarrow> pdict" where
  "undispatched_row result now = dmerge result
     [(''terminal_confirmed'', PBool True), (''execution_evidence'', PStr ''model_validation_rejected_before_turn_start''),
      (''recovery'', PDict [(''source'', PStr ''pre_dispatch_model_validation''), (''observed_at'', now), (''turn_started'', PBool False)])]"

definition reconcile_undispatched ::
    "'w hold_env \<Rightarrow> hold_host \<Rightarrow> hold_root \<Rightarrow> string \<Rightarrow> pdict \<Rightarrow> pdict \<Rightarrow> ('w, pdict) hold_io" where
  "reconcile_undispatched env host root hold ack result =
     io_bind (owner_proof env host hold True (dget result ''pid'') result) (\<lambda>inactive.
     if \<not> inactive then io_return (unknown_because hold ''Pre-dispatch failure owner inactivity is unproven'')
     else io_bind (io_get (now_str env)) (\<lambda>now.
       let row = undispatched_row result now in
       io_then (write_file env root Result_File row)
       (io_then (write_file env root Ack_File (dmerge ack row)) (io_return (dset row ''hold_released'' (PBool True))))))"

text \<open>One identity that all receipts that name it agree on.\<close>

definition exact_identity :: "string \<Rightarrow> string \<Rightarrow> pdict list \<Rightarrow> (pdict, string) sum" where
  "exact_identity hold key receipts =
     (case remdups (map (\<lambda>v. py_str (dget v key)) (filter (\<lambda>v. truthy (dget v key)) receipts)) of
        [x] \<Rightarrow> Inr x
      | _ \<Rightarrow> Inl (unknown_because hold (''Exact '' @ key @ '' missing or conflicting; never guess latest turn'')))"

definition active_turns :: "pdict \<Rightarrow> pyval list" where
  "active_turns thread = map (\<lambda>t. dget (as_dict t) ''id'')
     (filter (\<lambda>t. is_dict t \<and> dget (as_dict t) ''status'' = PStr ''inProgress'') (as_list (dget thread ''turns'')))"

text \<open>A thread without a durable turn is only looked at.\<close>

definition inspect_thread :: "'w hold_env \<Rightarrow> string \<Rightarrow> pdict \<Rightarrow> string \<Rightarrow> ('w, pdict) hold_io" where
  "inspect_thread env hold request thread =
     io_bind (env_io (he_read_routed env (dget request ''model'') thread)) (\<lambda>readback.
     let observed = as_dict (dget readback ''thread''); matched = (dget observed ''id'' = PStr thread) in
     io_return (dmerge (needs_readback hold)
       [(''thread_id'', PStr thread), (''thread_readback_matched'', PBool matched),
        (''active_turn_ids'', PList (if matched then active_turns observed else [])),
        (''reason'', PStr ''Thread inspected; no durable turn ownership binding, no interrupt or release'')]))"

definition missing_identity :: "string \<Rightarrow> string \<Rightarrow> pdict" where
  "missing_identity hold key = unknown_because hold (''Exact result '' @ key @ '' missing; never reuse a prior turn'')"

text \<open>Why the owner of an existing claim may still be at work.\<close>

definition claim_block :: "'w hold_env \<Rightarrow> hold_host \<Rightarrow> string \<Rightarrow> hold_dir \<Rightarrow> pdict \<Rightarrow> ('w, pdict option) hold_io" where
  "claim_block env host hold d result =
     io_bind (io_lift (strict_read (fd_owner d))) (\<lambda>saved.
     let owner = (if saved \<noteq> [] then saved else as_dict (dget result ''cleanup_owner'')); pid = int_instance (dget owner ''pid'');
         empty_terminal = (fd_owner d = Absent \<and> dget result ''terminal_confirmed'' = PBool True) in
     if \<not> fd_claim d \<or> empty_terminal then io_return None
     else (case pid of
         None \<Rightarrow> io_return (Some (unknown_because hold ''Claim owner identity unavailable''))
       | Some p \<Rightarrow>
           if p \<le> 0 then io_return (Some (unknown_because hold ''Claim owner identity unavailable''))
           else io_bind (io_get (\<lambda>w. pid_alive env w p)) (\<lambda>alive.
             if \<not> alive then io_return None
             else io_bind (owner_proof env host hold False (PInt p) result) (\<lambda>inactive. io_return
               (if inactive then None else Some (unknown_because hold ''Claim owner is active or inactivity is unproven''))))))"

definition exact_turn_status :: "pdict \<Rightarrow> string \<Rightarrow> string \<Rightarrow> pyval option" where
  "exact_turn_status readback thread turn =
     (let t = as_dict (dget readback ''thread'') in
      case filter (\<lambda>x. is_dict x \<and> dget (as_dict x) ''id'' = PStr turn) (as_list (dget t ''turns'')) of
        [x] \<Rightarrow> if dget t ''id'' = PStr thread \<and> in_words (dget (as_dict x) ''status'') turn_end_words
               then Some (dget (as_dict x) ''status'') else None
      | _ \<Rightarrow> None)"

definition reconciled_row :: "pdict \<Rightarrow> string \<Rightarrow> string \<Rightarrow> pyval \<Rightarrow> pyval \<Rightarrow> pdict" where
  "reconciled_row result thread turn status now =
     filter (\<lambda>(k, v). k \<notin> {''cleanup_error'', ''cleanup_owner''}) (dmerge result
       [(''thread_id'', PStr thread), (''turn_id'', PStr turn), (''terminal_confirmed'', PBool True),
        (''status'', if in_words (dget result ''status'') loop_terminal then dget result ''status'' else PStr ''failed''),
        (''recovery'', PDict [(''source'', PStr ''app_server_thread_read''), (''turn_status'', status), (''observed_at'', now)])])"

definition release_reconciled :: "'w hold_env \<Rightarrow> hold_root \<Rightarrow> pdict \<Rightarrow> ('w, pdict) hold_io" where
  "release_reconciled env root row =
     io_try (release_claim env root)
       (\<lambda>e. if \<not> is_os_error e then io_raise e
         else let row1 = dset row ''cleanup_error'' (PStr (exc_text e)) in
           io_then (write_file env root Result_File row1) (io_return (dset row1 ''hold_released'' (PBool False))))
       (\<lambda>u. io_bind (io_get (dir_of root)) (\<lambda>d. io_return (dset row ''hold_released'' (PBool (\<not> fd_claim d)))))"

definition settle_readback ::
    "'w hold_env \<Rightarrow> hold_root \<Rightarrow> string \<Rightarrow> pdict \<Rightarrow> pdict \<Rightarrow> string \<Rightarrow> string \<Rightarrow> pdict \<Rightarrow> ('w, pdict) hold_io" where
  "settle_readback env root hold ack result thread turn readback =
     (case exact_turn_status readback thread turn of
        None \<Rightarrow> io_return (dmerge (needs_readback hold) [(''thread_id'', PStr thread), (''turn_id'', PStr turn),
          (''reason'', PStr ''Exact turn has no authoritative terminal readback'')])
      | Some status \<Rightarrow> io_bind (io_get (now_str env)) (\<lambda>now.
          let row = reconciled_row result thread turn status now in
          io_then (write_file env root Result_File row)
          (io_then (write_file env root Ack_File (dmerge ack row)) (release_reconciled env root row))))"

definition reconcile_turn ::
    "'w hold_env \<Rightarrow> hold_host \<Rightarrow> hold_root \<Rightarrow> string \<Rightarrow> hold_dir \<Rightarrow> pdict \<Rightarrow> pdict \<Rightarrow> string \<Rightarrow> string \<Rightarrow> ('w, pdict) hold_io" where
  "reconcile_turn env host root hold d ack result thread turn =
     io_bind (claim_block env host hold d result) (\<lambda>blocked. case blocked of
       Some r \<Rightarrow> io_return r
     | None \<Rightarrow> io_bind (env_io (he_read_thread env thread)) (settle_readback env root hold ack result thread turn))"

definition reconcile_identities ::
    "'w hold_env \<Rightarrow> hold_host \<Rightarrow> hold_root \<Rightarrow> string \<Rightarrow> hold_dir \<Rightarrow> pdict \<Rightarrow> pdict \<Rightarrow> pdict \<Rightarrow> ('w, pdict) hold_io" where
  "reconcile_identities env host root hold d request ack result =
     (if \<not> truthy (dget result ''thread_id'') then io_return (missing_identity hold ''thread_id'')
      else case exact_identity hold ''thread_id'' [request, ack, result] of
        Inl r \<Rightarrow> io_return r
      | Inr thread \<Rightarrow>
          if \<not> truthy (dget result ''turn_id'') then
            io_bind (io_lift (strict_read (fd_close d))) (\<lambda>close.
            if close \<noteq> [] \<and> py_eq (dget close ''request_id'') (dget request ''request_id'') \<and> thread \<noteq> []
            then inspect_thread env hold request thread
            else io_return (missing_identity hold ''turn_id''))
          else (case exact_identity hold ''turn_id'' [request, ack, result] of
              Inl r \<Rightarrow> io_return r
            | Inr turn \<Rightarrow> reconcile_turn env host root hold d ack result thread turn))"

definition reconcile_locked :: "'w hold_env \<Rightarrow> hold_host \<Rightarrow> hold_root \<Rightarrow> string \<Rightarrow> ('w, pdict) hold_io" where
  "reconcile_locked env host root hold =
     io_bind (io_get (dir_of root)) (\<lambda>d.
     io_bind (io_lift (strict_read (fd_request d))) (\<lambda>request.
     io_bind (io_lift (strict_read (fd_ack d))) (\<lambda>ack.
     io_bind (io_lift (strict_read (fd_result d))) (\<lambda>result.
     case reconcile_refusal hold request ack result of
       Some r \<Rightarrow> io_return r
     | None \<Rightarrow>
         if dget result ''terminal_confirmed'' = PBool True \<and> in_words (dget result ''status'') loop_terminal \<and> \<not> fd_claim d
         then io_return (dset result ''hold_released'' (PBool True))
         else if undispatched_model request ack result (fd_claim d) then reconcile_undispatched env host root hold ack result
         else reconcile_identities env host root hold d request ack result))))"

definition reconcile_root :: "'w hold_env \<Rightarrow> hold_host \<Rightarrow> string \<Rightarrow> hold_root list \<Rightarrow> ('w, pdict) hold_io" where
  "reconcile_root env host hold roots = (case roots of
       [root] \<Rightarrow> io_catch (with_file_lock env Request_Lock root (reconcile_locked env host root hold))
         (\<lambda>e. if is_close_error e then io_return (unknown_because hold (''Reconciliation incomplete: '' @ exc_text e)) else io_raise e)
     | _ \<Rightarrow> io_return (unknown_because hold ''Hold identity missing or ambiguous''))"

definition reconcile_hold :: "'w hold_env \<Rightarrow> hold_host \<Rightarrow> string \<Rightarrow> ('w, pdict) hold_io" where
  "reconcile_hold env host hold = io_bind (hold_matches (\<lambda>q. hold_id_of q = PStr hold)) (reconcile_root env host hold)"

section \<open>Starting the host\<close>

text \<open>The two waits, with the number of polls they may take; \<open>None\<close> when that ran out.\<close>

definition host_clock :: "'w hold_env \<Rightarrow> 'w hold_world \<Rightarrow> int" where
  "host_clock env w = he_monotonic env (hf_env (lw_world w))"

primrec wait_stopped :: "nat \<Rightarrow> 'w hold_env \<Rightarrow> int \<Rightarrow> int \<Rightarrow> ('w, bool option) hold_io" where
  "wait_stopped 0 env deadline pid = io_return None"
| "wait_stopped (Suc n) env deadline pid =
     io_bind (io_get (\<lambda>w. pid_alive env w pid)) (\<lambda>alive.
     if \<not> alive then io_return (Some True)
     else io_bind (io_get (host_clock env)) (\<lambda>t.
       if deadline \<le> t then io_return (Some False) else io_then (he_pause env) (wait_stopped n env deadline pid)))"

primrec wait_matching :: "nat \<Rightarrow> 'w hold_env \<Rightarrow> string \<Rightarrow> string \<Rightarrow> int \<Rightarrow> int \<Rightarrow> ('w, bool option) hold_io" where
  "wait_matching 0 env profile home workers deadline = io_return None"
| "wait_matching (Suc n) env profile home workers deadline =
     io_bind (matching_health env profile home workers) (\<lambda>ready.
     if ready then io_return (Some True)
     else io_bind (io_get (host_clock env)) (\<lambda>t.
       if deadline \<le> t then io_return (Some False)
       else io_then (he_pause env) (wait_matching n env profile home workers deadline)))"

definition host_reply :: "string \<Rightarrow> string \<Rightarrow> string \<Rightarrow> pdict" where
  "host_reply status key value = [(''status'', PStr status), (key, PStr value)]"

definition start_and_wait ::
    "nat \<Rightarrow> 'w hold_env \<Rightarrow> string \<Rightarrow> string \<Rightarrow> int \<Rightarrow> int \<Rightarrow> bool \<Rightarrow> ('w, pdict option) hold_io" where
  "start_and_wait n env profile home workers wait upgraded =
     io_then (he_start_host env workers)
     (io_bind (io_get (host_clock env)) (\<lambda>t.
      io_bind (wait_matching n env profile home workers (t + max wait 0)) (\<lambda>r. io_return (case r of
         None \<Rightarrow> None
       | Some True \<Rightarrow> Some (host_reply ''ready'' ''phase'' (if upgraded then ''capacity_upgraded'' else ''started''))
       | Some False \<Rightarrow> Some (host_reply ''failed'' ''reason'' ''HoldHost did not report matching health before timeout'')))))"

text \<open>A live host with too few workers is replaced, but only while it is idle.\<close>

definition upgrade_host ::
    "nat \<Rightarrow> 'w hold_env \<Rightarrow> string \<Rightarrow> string \<Rightarrow> int \<Rightarrow> int \<Rightarrow> ('w, pdict option) hold_io" where
  "upgrade_host n env profile home workers wait =
     io_bind (io_get (\<lambda>w. strict_read (hf_health (lw_world w)))) (\<lambda>r. io_bind (io_lift r) (\<lambda>health.
     if py_int (dget health ''active_count'') \<noteq> Inr 0 then
       io_return (Some (host_reply ''blocked'' ''reason'' ''HoldHost capacity upgrade requires an idle Host''))
     else (case py_int (dget health ''pid'') of
         Inl e \<Rightarrow> io_return (Some (host_reply ''failed'' ''reason'' ''HoldHost capacity upgrade cannot identify the existing Host''))
       | Inr pid \<Rightarrow>
           io_then (he_stop_host env pid)
           (io_bind (io_get (host_clock env)) (\<lambda>t.
            io_bind (wait_stopped n env (t + max wait 0) pid) (\<lambda>stopped. case stopped of
               None \<Rightarrow> io_return None
             | Some False \<Rightarrow> io_return (Some (host_reply ''failed'' ''reason'' ''HoldHost capacity upgrade did not stop the existing Host''))
             | Some True \<Rightarrow> start_and_wait n env profile home workers wait True))))))"

definition bootstrap_host ::
    "nat \<Rightarrow> 'w hold_env \<Rightarrow> string \<Rightarrow> string \<Rightarrow> int \<Rightarrow> int \<Rightarrow> ('w, pdict option) hold_io" where
  "bootstrap_host n env profile home workers wait =
     io_bind (matching_health env profile home 1) (\<lambda>existing.
     if \<not> existing then start_and_wait n env profile home workers wait False
     else io_bind (matching_health env profile home workers) (\<lambda>enough.
       if enough then io_return (Some (host_reply ''ready'' ''phase'' ''already_running''))
       else upgrade_host n env profile home workers wait))"

definition initialize_user_host :: "nat \<Rightarrow> 'w hold_env \<Rightarrow> int \<Rightarrow> int \<Rightarrow> ('w, pdict option) hold_io" where
  "initialize_user_host n env workers wait =
     io_bind (io_get (\<lambda>w. strict_object (hf_config (lw_world w)))) (\<lambda>r. io_bind (io_lift r) (\<lambda>launcher.
     case launcher of
       None \<Rightarrow> io_return (Some (host_reply ''failed'' ''reason'' ''HoldHost launcher config is unreadable''))
     | Some l \<Rightarrow>
         let profile = stripped (dget l ''profile''); home = stripped (dget l ''expected_codex_home'') in
         if profile = [] \<or> home = [] then
           io_return (Some (host_reply ''failed'' ''reason'' ''HoldHost launcher config requires profile and expected_codex_home''))
         else io_bind (matching_health env profile home 1) (\<lambda>existing.
           io_bind (if existing then matching_health env profile home workers else io_return False) (\<lambda>enough.
           if enough then io_return (Some (host_reply ''ready'' ''phase'' ''already_running''))
           else io_then (he_pause env)
             (io_bind (io_get (\<lambda>w. hf_bootstrap (lw_world w))) (\<lambda>busy.
              if busy then io_return (Some (host_reply ''blocked'' ''reason'' ''HoldHost bootstrap is already in progress''))
              else io_then (io_modify (change_files (\<lambda>h. h\<lparr> hf_bootstrap := True \<rparr>)))
                (io_finally (bootstrap_host n env profile home workers wait)
                  (io_modify (change_files (\<lambda>h. h\<lparr> hf_bootstrap := False \<rparr>))))))))))"

end
