(* ===== verification/Hold_Store.thy ===== *)
theory Hold_Store
  imports Hold_Host
begin

text \<open>
  The provisioning adapter, \<open>CodexAppServerTaskProvisioningAdapter\<close> of
  \<open>packages/adapters/codex_app_server/task_provisioning_adapter.py\<close>: queueing a hold, its status, its
  stop and close, its notifications, the health of the host and the launcher policy. The loader of
  the launcher configuration and the resolver of the Codex runtime are ports (\<open>provision_env\<close>).
\<close>

section \<open>Where a hold is\<close>

definition safe_char :: "char \<Rightarrow> bool" where
  "safe_char c \<longleftrightarrow> char_in 48 57 c \<or> char_in 65 90 c \<or> char_in 97 122 c \<or> c \<in> set ''._-''"

lemma length_drop_bad [termination_simp]: "length (dropWhile P cs) < Suc (length cs)"
  by (simp add: length_dropWhile_le le_imp_less_Suc)

fun collapse_bad :: "string \<Rightarrow> string" where
  "collapse_bad [] = []"
| "collapse_bad (c # cs) = (if safe_char c then c # collapse_bad cs
     else CHR ''_'' # collapse_bad (dropWhile (\<lambda>x. \<not> safe_char x) cs))"

definition safe_id :: "string \<Rightarrow> string" where
  "safe_id value = (let s = trim_chars ''._'' (collapse_bad value) in if s = [] then ''request'' else s)"

text \<open>\<open>_hold_id_from_state\<close>: the first file that names the hold.\<close>

definition hold_id_from_state :: "hold_dir \<Rightarrow> string option" where
  "hold_id_from_state d = (case filter (\<lambda>s. s \<noteq> [])
      (map (\<lambda>f. stripped (dget (read_object (file_of f d)) ''hold_id'')) [Request_File, Ack_File, Result_File]) of
      [] \<Rightarrow> None | s # ss \<Rightarrow> Some s)"

definition find_in :: "hold_parent \<Rightarrow> string \<Rightarrow> 'w hold_world \<Rightarrow> hold_root option" where
  "find_in parent hold w =
     (if has_dir (parent, safe_id hold) w then Some (parent, safe_id hold)
      else find (\<lambda>root. hold_id_from_state (dir_of root w) = Some hold) (roots_in parent w))"

definition existing_root :: "string \<Rightarrow> 'w hold_world \<Rightarrow> hold_root option" where
  "existing_root hold w = (case find_in Task_Holds hold w of Some root \<Rightarrow> Some root | None \<Rightarrow> find_in Task_Monitors hold w)"

definition hold_path :: "string \<Rightarrow> hold_root" where
  "hold_path hold = (Task_Holds, safe_id hold)"

section \<open>The status of a hold\<close>

definition legacy_output :: "pdict \<Rightarrow> pdict \<Rightarrow> pdict" where
  "legacy_output request value =
     (let binding = as_dict (dget request ''input_binding'') in
      if dhas binding ''lane_item_count'' \<and> \<not> dhas binding ''result_verification'' \<and> \<not> dhas value ''output_verification''
      then dset value ''output_verification'' (PDict [(''status'', PStr ''legacy_unverified'')]) else value)"

definition status_mismatch :: "pdict \<Rightarrow> pdict \<Rightarrow> pdict \<Rightarrow> bool" where
  "status_mismatch current close value \<longleftrightarrow>
     truthy (dget current ''request_id'') \<and> \<not> py_eq (dget value ''request_id'') (dget current ''request_id'') \<and>
     (truthy (dget value ''request_id'') \<or> py_eq (dget close ''request_id'') (dget current ''request_id''))"

definition non_dispatch :: "pdict \<Rightarrow> pdict \<Rightarrow> pdict \<Rightarrow> bool" where
  "non_dispatch current close value \<longleftrightarrow>
     py_eq (dget close ''request_id'') (dget current ''request_id'') \<and>
     py_eq (dget current ''request_id'') (dget value ''request_id'') \<and>
     dget close ''non_dispatch_confirmed'' = PBool True"

definition status_view :: "hold_dir \<Rightarrow> bool \<Rightarrow> pdict \<Rightarrow> pdict" where
  "status_view d is_result value0 =
     (let current = read_object (fd_request d); close = read_object (fd_close d); value = legacy_output current value0;
          terminal = (text_or_empty (dget value ''status'') \<in> set loop_terminal);
          undispatched = non_dispatch current close value in
      if status_mismatch current close value then
        dmerge value [(''terminal_confirmed'', PBool False), (''hold_released'', PBool False),
          (''reason'', PStr ''lifecycle evidence is not bound to the current request_id'')]
      else dset (if undispatched then dset value ''terminal_confirmed'' (PBool True) else value) ''hold_released''
        (PBool (terminal \<and> is_result \<and> (dget value ''terminal_confirmed'' = PBool True \<or> undispatched) \<and> \<not> fd_claim d)))"

text \<open>The first of the files that holds an object; text that is not JSON raises.\<close>

fun first_status :: "(hold_dir \<times> bool) list \<Rightarrow> pdict result" where
  "first_status [] = Inl (RuntimeError ''hold state was not found'')"
| "first_status ((d, is_result) # rest) = rbind (strict_object (if is_result then fd_result d else fd_ack d)) (\<lambda>v.
     case v of None \<Rightarrow> first_status rest | Some value \<Rightarrow> Inr (status_view d is_result value))"

definition hold_status :: "string \<Rightarrow> 'w hold_world \<Rightarrow> pdict result" where
  "hold_status hold w = first_status (concat (map (\<lambda>parent. let d = dir_of (parent, safe_id hold) w in [(d, True), (d, False)])
     [Task_Holds, Task_Monitors]))"

section \<open>Evidence of one turn\<close>

record owner_row =
  or_root :: hold_root
  or_request :: pdict
  or_ack :: pdict
  or_result :: pdict

definition owner_row_of :: "hold_root \<Rightarrow> hold_dir \<Rightarrow> owner_row" where
  "owner_row_of root d = \<lparr> or_root = root, or_request = read_object (fd_request d), or_ack = read_object (fd_ack d),
     or_result = read_object (fd_result d) \<rparr>"

definition names_thread :: "string \<Rightarrow> owner_row \<Rightarrow> bool" where
  "names_thread thread r \<longleftrightarrow> list_ex (\<lambda>v. dget v ''thread_id'' = PStr thread) [or_request r, or_ack r, or_result r]"

definition receipt_identity :: "pdict \<Rightarrow> string \<Rightarrow> pyval \<Rightarrow> pdict" where
  "receipt_identity request thread turn =
     [(''request_id'', dget request ''request_id''), (''thread_id'', PStr thread), (''turn_id'', turn)] @
     (if truthy (dget request ''hold_id'') then [(''hold_id'', dget request ''hold_id'')] else [])"

text \<open>The receipts as they were read first are still the saved ones.\<close>

definition unchanged :: "owner_row \<Rightarrow> hold_dir \<Rightarrow> bool" where
  "unchanged r d \<longleftrightarrow> object_of (fd_request d) = Some (or_request r) \<and> object_of (fd_ack d) = Some (or_ack r)"

definition released_older :: "string \<Rightarrow> string \<Rightarrow> owner_row \<Rightarrow> bool" where
  "released_older thread turn r \<longleftrightarrow>
     (let request = or_request r; ack = or_ack r; result = or_result r in
      turn \<noteq> [] \<and> truthy (dget ack ''turn_id'') \<and> dget ack ''turn_id'' \<noteq> PStr turn \<and>
      truthy (dget request ''request_id'') \<and> dget request ''thread_id'' \<in> {PNone, PStr [], PStr thread} \<and>
      all_equal (receipt_identity request thread (dget ack ''turn_id'')) ack \<and>
      all_equal (receipt_identity request thread (dget ack ''turn_id'')) result \<and>
      dget result ''terminal_confirmed'' = PBool True \<and> in_words (dget result ''status'') loop_terminal)"

text \<open>Scanning the directories: a released older hold does not own a later turn.\<close>

primrec owner_rows :: "'w hold_env \<Rightarrow> string \<Rightarrow> string \<Rightarrow> hold_root list \<Rightarrow> ('w, owner_row list) hold_io" where
  "owner_rows env thread turn [] = io_return []"
| "owner_rows env thread turn (root # roots) =
     io_bind (io_get (\<lambda>w. owner_row_of root (dir_of root w))) (\<lambda>r.
     io_then (he_pause env)
     (io_bind (io_get (dir_of root)) (\<lambda>d.
      io_bind (owner_rows env thread turn roots) (\<lambda>rest. io_return
        (if \<not> names_thread thread r \<or> released_older thread turn r \<and> \<not> fd_claim d \<and> unchanged r d then rest else r # rest)))))"

definition unknown_evidence :: "string \<Rightarrow> string \<Rightarrow> pdict" where
  "unknown_evidence thread turn =
     [(''status'', PStr ''unknown''), (''source'', PStr ''hold_evidence''), (''thread_id'', PStr thread), (''turn_id'', PStr turn),
      (''reason'', PStr ''no unambiguous current owner terminal evidence'')]"

definition evidence_words :: "string list" where
  "evidence_words = [''completed'', ''failed'', ''cancelled'', ''canceled'', ''interrupted'', ''blocked'']"

definition evidence_status :: "pdict \<Rightarrow> string" where
  "evidence_status result =
     (let status = py_lower (text_or_empty (dget result ''status'')) in
      if dget (as_dict (dget result ''output_verification'')) ''status'' = PStr ''blocked'' then ''blocked''
      else if status = ''turn_limit_reached'' then ''completed'' else status)"

definition owner_view :: "owner_row \<Rightarrow> string \<Rightarrow> string \<Rightarrow> pyval \<Rightarrow> pyval \<Rightarrow> pdict" where
  "owner_view r thread turn pid alive =
     (let base = dmerge (unknown_evidence thread turn)
        [(''hold_id'', hold_id_of (or_request r)), (''owner_pid'', pid), (''owner_alive'', alive),
         (''owner_status'', dget (or_ack r) ''status'')] in
      if alive = PBool False then dset base ''reason'' (PStr ''owner process is not alive; current turn outcome is unknown'')
      else base)"

definition bound_terminal :: "string \<Rightarrow> string \<Rightarrow> owner_row \<Rightarrow> bool" where
  "bound_terminal thread turn r \<longleftrightarrow>
     (let identity = receipt_identity (or_request r) thread (PStr turn) in
      truthy (dget (or_request r) ''request_id'') \<and> all_equal identity (or_ack r) \<and> all_equal identity (or_result r) \<and>
      dget (or_result r) ''terminal_confirmed'' = PBool True)"

definition exact_evidence :: "'w hold_env \<Rightarrow> string \<Rightarrow> string \<Rightarrow> owner_row \<Rightarrow> ('w, pdict) hold_io" where
  "exact_evidence env thread turn r =
     io_bind (io_get (\<lambda>w. let pid = dget (read_object (fd_owner (dir_of (or_root r) w))) ''pid'' in
        (pid, case int_instance pid of None \<Rightarrow> PNone | Some p \<Rightarrow> if 0 < p then PBool (pid_alive env w p) else PNone))) (\<lambda>(pid, alive).
     let evidence = owner_view r thread turn pid alive; result = or_result r in
     if \<not> bound_terminal thread turn r then io_return evidence
     else io_then (he_pause env) (io_bind (io_get (dir_of (or_root r))) (\<lambda>d.
       if \<not> unchanged r d
       then io_return (dset (unknown_evidence thread turn) ''reason'' (PStr ''owner state changed during read''))
       else if evidence_status result \<notin> set evidence_words then io_return evidence
       else io_return (dmerge evidence
         [(''status'', PStr (evidence_status result)), (''source'', PStr ''hold_terminal_result''), (''reason'', dget result ''reason''),
          (''output_verification'', py_or (dget result ''output_verification'') (PDict [])), (''terminal_confirmed'', PBool True)]))))"

definition thread_execution_evidence :: "'w hold_env \<Rightarrow> string \<Rightarrow> string \<Rightarrow> ('w, pdict option) hold_io" where
  "thread_execution_evidence env thread turn =
     io_bind (io_get (\<lambda>w. roots_in Task_Holds w @ roots_in Task_Monitors w)) (\<lambda>roots.
     io_bind (owner_rows env thread turn roots) (\<lambda>matches.
     if matches = [] then io_return None
     else if list_ex (\<lambda>r. truthy (dget (or_request r) ''thread_id'') \<and> dget (or_request r) ''thread_id'' \<noteq> PStr thread) matches
       then io_return (Some (dset (unknown_evidence thread turn) ''reason'' (PStr ''current Hold request thread identity mismatch'')))
     else (case filter (\<lambda>r. dget (or_ack r) ''turn_id'' = PStr turn) matches of
         [r] \<Rightarrow>
           if turn = [] \<or> list_ex (\<lambda>x. or_root x \<noteq> or_root r \<and> \<not> truthy (dget (or_result x) ''terminal_confirmed'')) matches
           then io_return (Some (unknown_evidence thread turn))
           else io_bind (exact_evidence env thread turn r) (\<lambda>e. io_return (Some e))
       | _ \<Rightarrow> io_return (Some (unknown_evidence thread turn)))))"

section \<open>Stopping and notifications\<close>

definition not_found :: pyexc where
  "not_found = RuntimeError ''hold state was not found''"

definition the_root :: "string \<Rightarrow> ('w, hold_root) hold_io" where
  "the_root hold = io_bind (io_get (existing_root hold)) (\<lambda>r. case r of None \<Rightarrow> io_raise not_found | Some root \<Rightarrow> io_return root)"

text \<open>\<open>json.loads(path.read_text())\<close> of a file that must be there.\<close>

definition required_read :: "saved \<Rightarrow> pdict result" where
  "required_read s = (if s = Absent then Inl (OSError ''No such file or directory'') else strict_read s)"

definition latch_stop :: "'w hold_env \<Rightarrow> hold_root \<Rightarrow> pdict \<Rightarrow> ('w, unit) hold_io" where
  "latch_stop env root request = write_file env root Request_File (dset request ''stop_requested'' (PBool True))"

definition request_hold_stop :: "'w hold_env \<Rightarrow> string \<Rightarrow> ('w, pdict) hold_io" where
  "request_hold_stop env hold =
     io_bind (the_root hold) (\<lambda>root.
     io_then (with_file_lock env Request_Lock root
       (io_bind (io_get (\<lambda>w. required_read (fd_request (dir_of root w)))) (\<lambda>r. io_bind (io_lift r) (\<lambda>request.
        io_then (io_check (text_or_empty (hold_id_of request) \<noteq> hold) (RuntimeError ''stop request hold identity mismatch''))
          (if truthy (dget request ''stop_requested'') then io_return () else latch_stop env root request)))))
     (io_return [(''status'', PStr ''stop_requested''), (''hold_id'', PStr hold)]))"

text \<open>\<open>_read_jsonl\<close>: the lines that are objects.\<close>

definition jsonl_rows :: "pyval option list \<Rightarrow> pdict list" where
  "jsonl_rows ls = map as_dict (filter is_dict (List.map_filter (\<lambda>x. x) ls))"

definition delivered_ids :: "pyval option list \<Rightarrow> string list" where
  "delivered_ids ls = map (\<lambda>row. text_or_empty (dget row ''event_id''))
     (filter (\<lambda>row. text_or_empty (dget row ''delivery_status'') = ''delivered'' \<and> stripped (dget row ''message_id'') \<noteq> [])
       (jsonl_rows ls))"

definition wanted_event :: "string option \<Rightarrow> pdict \<Rightarrow> bool" where
  "wanted_event kind row \<longleftrightarrow> (case kind of None \<Rightarrow> True | Some k \<Rightarrow> text_or_empty (dget row ''event_type'') = k)"

definition pending_rows :: "string option \<Rightarrow> hold_dir \<Rightarrow> pdict list" where
  "pending_rows kind d = filter (\<lambda>row. text_or_empty (dget row ''event_id'') \<notin> set (delivered_ids (fd_deliveries d)) \<and> wanted_event kind row)
     (jsonl_rows (fd_events d))"

definition pending_hold_notifications :: "string \<Rightarrow> string option \<Rightarrow> 'w hold_world \<Rightarrow> pdict list" where
  "pending_hold_notifications hold kind w =
     (case existing_root hold w of None \<Rightarrow> [] | Some root \<Rightarrow> pending_rows kind (dir_of root w))"

definition pending_hold_notification_holds :: "string option \<Rightarrow> 'w hold_world \<Rightarrow> string list" where
  "pending_hold_notification_holds kind w = sort (remdups (List.map_filter (\<lambda>root. let d = dir_of root w in
     if list_ex (\<lambda>row. text_or_empty (dget row ''event_id'') \<noteq> []) (pending_rows kind d) then hold_id_from_state d else None)
     (roots_in Task_Holds w @ roots_in Task_Monitors w)))"

definition delivery_row :: "string \<Rightarrow> pdict \<Rightarrow> pyval \<Rightarrow> pdict" where
  "delivery_row event delivery now =
     [(''event_id'', PStr event),
      (''delivery_status'', PStr (py_str (py_or (dget delivery ''delivery_status'') (py_or (dget delivery ''status'') (PStr ''failed''))))),
      (''message_id'', dget delivery ''message_id''), (''outbox_id'', dget delivery ''outbox_id''),
      (''reason'', dget delivery ''reason''), (''observed_at'', now)]"

definition record_hold_notification_delivery :: "'w hold_env \<Rightarrow> string \<Rightarrow> string \<Rightarrow> pdict \<Rightarrow> ('w, unit) hold_io" where
  "record_hold_notification_delivery env hold event delivery =
     io_bind (io_get (existing_root hold)) (\<lambda>found.
     io_bind (io_get (now_str env)) (\<lambda>now.
     let root = (case found of Some r \<Rightarrow> r | None \<Rightarrow> hold_path hold) in
     io_modify (change_dir root (\<lambda>d. d\<lparr> fd_deliveries := fd_deliveries d @ [Some (PDict (delivery_row event delivery now))] \<rparr>))))"

section \<open>Closing\<close>

definition new_report :: "string \<Rightarrow> pyval \<Rightarrow> string option \<Rightarrow> pyval \<Rightarrow> pdict \<Rightarrow> pdict" where
  "new_report hold binding request_id now report =
     [(''schema'', PStr ''jarvis-close-report/v1''), (''hold_id'', PStr hold), (''request_id'', binding),
      (''close_request_id'', case request_id of Some r \<Rightarrow> if r = [] then PStr (''close:'' @ py_str binding) else PStr r
         | None \<Rightarrow> PStr (''close:'' @ py_str binding)),
      (''requested_at'', now), (''report_status'', PStr ''pending''), (''scheduling_closed'', PBool False),
      (''execution_state'', PStr ''unknown''), (''terminal_confirmed'', PBool False), (''hold_released'', PBool False),
      (''prior_attempts'', PList (if report = [] then [] else as_list (dget report ''prior_attempts'') @
         [PDict (filter (\<lambda>(k, v). k \<noteq> ''prior_attempts'') report)]))]"

definition bind_parent :: "'w hold_env \<Rightarrow> hold_root \<Rightarrow> pdict \<Rightarrow> pdict \<Rightarrow> ('w, unit) hold_io" where
  "bind_parent env root parent report =
     (if parent = [] \<or> py_eq (dget report ''parent_close'') (PDict parent) then io_return ()
      else io_then (io_check (truthy (dget report ''parent_close'')) (RuntimeError ''conflicting parent Loop close binding''))
        (write_file env root Close_File (dset report ''parent_close'' (PDict parent))))"

text \<open>The durable close request; the id of the request it is bound to.\<close>

definition record_close :: "'w hold_env \<Rightarrow> hold_root \<Rightarrow> string \<Rightarrow> string option \<Rightarrow> pdict \<Rightarrow> ('w, pyval) hold_io" where
  "record_close env root hold request_id parent =
     io_bind (io_get (dir_of root)) (\<lambda>d.
     let current = read_object (fd_request d); binding = dget current ''request_id''; report = read_object (fd_close d) in
     io_then (io_check (text_or_empty (hold_id_of current) \<noteq> hold) (RuntimeError ''close request hold identity mismatch''))
     (io_then (io_check (\<not> truthy binding) (RuntimeError ''close requires durable request_id''))
     (io_bind (io_get (now_str env)) (\<lambda>now.
      if py_eq (dget report ''request_id'') binding then io_then (bind_parent env root parent report) (io_return binding)
      else let fresh = new_report hold binding request_id now report in
        io_then (write_file env root Close_File fresh) (io_then (bind_parent env root parent fresh) (io_return binding))))))"

definition unclaimed_queued :: "hold_dir \<Rightarrow> pyval \<Rightarrow> pdict \<Rightarrow> pdict \<Rightarrow> bool" where
  "unclaimed_queued d binding saved ack \<longleftrightarrow>
     saved = [] \<and> py_eq (dget ack ''request_id'') binding \<and> queued_ack ack \<and> \<not> fd_claim d"

definition stopped_row :: "string \<Rightarrow> pyval \<Rightarrow> pdict \<Rightarrow> pyval \<Rightarrow> pdict" where
  "stopped_row hold binding current now =
     (let observing = (dget current ''mode'' = PStr ''recover'' \<or> truthy (dget current ''turn_id'')) in
      [(''request_id'', binding), (''hold_id'', PStr hold), (''status'', PStr (if observing then ''unknown'' else ''cancelled'')),
       (''phase'', PStr (if observing then ''observation_stopped_before_dispatch'' else ''stopped_before_dispatch'')),
       (''terminal_confirmed'', PBool (\<not> observing)), (''total_turn_count'', PInt 0), (''local_observer_stopped'', PBool True),
       (''observed_at'', now)] @
      (if observing then [(''thread_id'', dget current ''thread_id''), (''turn_id'', dget current ''turn_id''),
         (''reason'', PStr ''queued local observation stopped; existing external execution is unconfirmed'')] else []))"

definition conflicting_evidence :: "pyval \<Rightarrow> pdict \<Rightarrow> bool" where
  "conflicting_evidence binding evidence \<longleftrightarrow>
     truthy (dget evidence ''request_id'') \<and> \<not> py_eq (dget evidence ''request_id'') binding"

text \<open>The stop of what the request still names, under the lock of the request.\<close>

definition stop_current :: "'w hold_env \<Rightarrow> hold_root \<Rightarrow> string \<Rightarrow> pyval \<Rightarrow> ('w, unit) hold_io" where
  "stop_current env root hold binding =
     io_bind (io_get (dir_of root)) (\<lambda>d.
     let current = read_object (fd_request d); saved = read_object (fd_result d); ack = read_object (fd_ack d) in
     io_then (io_check (\<not> py_eq (dget current ''request_id'') binding)
       (RuntimeError ''Hold binding changed after close was recorded; no stop applied''))
     (io_then (io_check (conflicting_evidence binding saved)
       (RuntimeError ''result request_id conflicts with current Hold binding; no stop applied''))
     (io_then (io_check (conflicting_evidence binding ack)
       (RuntimeError ''ack request_id conflicts with current Hold binding; no stop applied''))
     (if unclaimed_queued d binding saved ack then
        io_bind (io_get (now_str env)) (\<lambda>now.
        let row = stopped_row hold binding current now in
        io_then (latch_stop env root current)
        (io_then (write_file env root Result_File row) (write_file env root Ack_File row)))
      else if (saved = [] \<or> dget saved ''terminal_confirmed'' \<noteq> PBool True) \<and> dget current ''stop_requested'' \<noteq> PBool True
        then latch_stop env root current
      else io_return ()))))"

definition status_now :: "string \<Rightarrow> ('w, pdict) hold_io" where
  "status_now hold = io_bind (io_get (hold_status hold)) io_lift"

definition observer_cancelled :: "pdict \<Rightarrow> bool" where
  "observer_cancelled data \<longleftrightarrow> dget data ''phase'' = PStr ''observation_stopped_before_dispatch'' \<and>
     dget data ''local_observer_stopped'' = PBool True"

text \<open>What the host is asked: an exact stop, or a reconciliation.\<close>

definition close_action :: "'w hold_env \<Rightarrow> hold_root \<Rightarrow> string \<Rightarrow> pdict \<Rightarrow> ('w, pdict \<times> pdict option) hold_io" where
  "close_action env root hold data =
     (if observer_cancelled data then io_return (data, None)
      else if \<not> truthy (dget data ''hold_released'') \<and> truthy (dget data ''thread_id'') \<and> truthy (dget data ''turn_id'') then
        io_bind (new_host env 5) (\<lambda>host.
        io_bind (request_host_stop env host hold (py_str (dget data ''thread_id'')) (py_str (dget data ''turn_id''))) (\<lambda>asked.
        io_bind (io_get (dir_of root)) (\<lambda>d.
        io_bind (if fd_result d \<noteq> Absent \<and> dget data ''terminal_confirmed'' \<noteq> PBool True
          then reconcile_hold env host hold else io_return asked) (\<lambda>action.
        io_bind (status_now hold) (\<lambda>data1. io_return (data1, Some action))))))
      else io_bind (io_get (\<lambda>w. fd_result (dir_of root w) \<noteq> Absent \<and> hf_config (lw_world w) \<noteq> Absent)) (\<lambda>files.
        if truthy (dget data ''thread_id'') \<and> files \<and> dget data ''dispatch_evidence'' \<noteq> PStr ''not_sent'' then
          io_bind (new_host env 5) (\<lambda>host.
          io_bind (reconcile_hold env host hold) (\<lambda>action. io_return (data, Some action)))
        else io_return (data, None)))"

definition close_evidence :: "pyval \<Rightarrow> pdict \<Rightarrow> pdict" where
  "close_evidence binding data = (if truthy (dget data ''request_id'') then data else
     [(''request_id'', binding), (''status'', if in_words (dget data ''status'') loop_active then dget data ''status'' else PStr ''unknown''),
      (''reason'', PStr ''legacy lifecycle evidence has no request_id; execution remains unconfirmed'')])"

definition close_reply :: "pdict \<Rightarrow> pdict \<Rightarrow> pdict" where
  "close_reply data report = dmerge data
     [(''status'', PStr (if dget report ''report_status'' = PStr ''completed'' then ''closed''
         else if truthy (dget report ''management_closed'') then ''closed_unconfirmed'' else ''closing'')),
      (''lifecycle_status'', dget data ''status''), (''close_report'', PDict report)]"

definition apply_close :: "'w hold_env \<Rightarrow> hold_root \<Rightarrow> string \<Rightarrow> pyval \<Rightarrow> ('w, pdict) hold_io" where
  "apply_close env root hold binding =
     io_then (with_file_lock env Request_Lock root (stop_current env root hold binding))
     (io_bind (status_now hold) (\<lambda>data0.
      io_bind (close_action env root hold data0) (\<lambda>(data, action).
      io_bind (refresh_close_report env root (close_evidence binding data) action []) (\<lambda>report.
      io_bind (status_now hold) (\<lambda>final. io_return (close_reply final report))))))"

definition close_hold :: "'w hold_env \<Rightarrow> string \<Rightarrow> string option \<Rightarrow> pdict \<Rightarrow> ('w, pdict) hold_io" where
  "close_hold env hold request_id parent =
     io_bind (the_root hold) (\<lambda>root.
     io_bind (with_file_lock env Close_Lock root (record_close env root hold request_id parent)) (\<lambda>binding.
     io_catch (apply_close env root hold binding) (\<lambda>e.
       io_then (refresh_close_report env root [(''request_id'', binding), (''status'', PStr ''failed'')] None (exc_text e))
         (io_raise e))))"

section \<open>Queueing a hold\<close>

record task_config =
  tc_projects :: "string list"
  tc_resolve :: "string \<Rightarrow> (string \<times> string) result"
  tc_profile :: pyval
  tc_home :: pyval

record 'w provision_env =
  pe_hold :: "'w hold_env"
  pe_config :: "('w, task_config) io"
  pe_paths :: path_lib
  pe_output :: output_lib
  pe_history_path :: string
  pe_resolver :: "string \<Rightarrow> ('w, pdict) io"
  pe_write_config :: "('w, unit) io"
  pe_backup_path :: "instant \<Rightarrow> string"
  pe_archive :: "hold_root \<Rightarrow> ('w, unit) io"

definition accepted_ack :: "string \<Rightarrow> string \<Rightarrow> int \<Rightarrow> int \<Rightarrow> pyval \<Rightarrow> pyval \<Rightarrow> pdict" where
  "accepted_ack request_id hold turns tot limit now =
     [(''request_id'', PStr request_id), (''status'', PStr ''accepted''), (''phase'', PStr ''queued_for_user_host''),
      (''hold_id'', PStr hold), (''turn_count'', PInt turns), (''session_turn_count'', PInt turns),
      (''total_turn_count'', PInt tot), (''max_turns'', limit), (''observed_at'', now)]"

definition failed_receipt :: "'w hold_env \<Rightarrow> string \<Rightarrow> pyexc \<Rightarrow> 'w hold_world \<Rightarrow> task_receipt" where
  "failed_receipt env request_id e w =
     \<lparr> rc_request_id = request_id, rc_status = ''failed'', rc_observed_at = hold_now env w, rc_thread_id = None, rc_turn_id = None,
       rc_output = None, rc_reason = Some (exc_text e), rc_error_code = None, rc_phase = None, rc_monitor_id = None,
       rc_hold_id = None, rc_turn_count = None, rc_total_turn_count = None, rc_max_turns = None \<rparr>"

definition queued_receipt :: "'w hold_env \<Rightarrow> string \<Rightarrow> string \<Rightarrow> int \<Rightarrow> int \<Rightarrow> pyval \<Rightarrow> 'w hold_world \<Rightarrow> task_receipt" where
  "queued_receipt env request_id hold turns tot limit w =
     \<lparr> rc_request_id = request_id, rc_status = ''accepted'', rc_observed_at = hold_now env w, rc_thread_id = None, rc_turn_id = None,
       rc_output = None, rc_reason = None, rc_error_code = None, rc_phase = Some ''queued_for_user_host'', rc_monitor_id = Some hold,
       rc_hold_id = Some hold, rc_turn_count = Some turns, rc_total_turn_count = Some tot, rc_max_turns = int_instance limit \<rparr>"

text \<open>\<open>dict(v or {})\<close>.\<close>

definition dict_or_empty :: "pyval \<Rightarrow> pyval" where
  "dict_or_empty v = PDict (as_dict v)"

definition given :: "string option \<Rightarrow> string option" where
  "given s = (case s of Some (c # cs) \<Rightarrow> Some (c # cs) | _ \<Rightarrow> None)"

definition create_request :: "'w provision_env \<Rightarrow> task_provision_request \<Rightarrow> string \<Rightarrow> string \<Rightarrow> string \<Rightarrow> pdict" where
  "create_request pe q hold project project_path =
     [(''mode'', PStr ''create''), (''request_id'', PStr (tp_request_id q)), (''source_ref'', PStr (tp_source_ref q)),
      (''hold_id'', PStr hold), (''project'', PStr project), (''project_path'', PStr project_path), (''title'', PStr (tp_title q)),
      (''prompt'', PStr (tp_prompt q)), (''model'', opt_str (tp_model q)), (''reasoning_effort'', opt_str (tp_effort q)),
      (''max_turns'', tp_max_turns q), (''auto_continue'', PBool (tp_auto_continue q)),
      (''continue_prompt'', PStr (tp_continue_prompt q)), (''notifications'', dict_or_empty (tp_notifications q)),
      (''input_binding'', dict_or_empty (tp_input_binding q)), (''turn_history_path'', PStr (pe_history_path pe)),
      (''initial_turn_count'', PInt 1), (''initial_total_turn_count'', PInt 1)]"

definition provision :: "'w provision_env \<Rightarrow> task_provision_request \<Rightarrow> ('w, task_receipt) hold_io" where
  "provision pe q =
     (let env = pe_hold pe; hold = (case given (tp_hold_id q) of Some h \<Rightarrow> h | None \<Rightarrow> ''hold-'' @ tp_request_id q); root = hold_path hold in
      io_catch
        (io_bind (env_io (pe_config pe)) (\<lambda>config.
         io_bind (io_lift (tc_resolve config (tp_project q))) (\<lambda>(project, project_path).
         io_then (make_dir root)
         (io_then (write_file env root Request_File (create_request pe q hold project project_path))
         (io_bind (io_get (now_str env)) (\<lambda>now.
          io_then (write_file env root Ack_File (accepted_ack (tp_request_id q) hold 1 1 (tp_max_turns q) now))
          (io_get (queued_receipt env (tp_request_id q) hold 1 1 (tp_max_turns q)))))))))
        (\<lambda>e. io_get (failed_receipt env (tp_request_id q) e)))"

section \<open>Resuming a hold\<close>

definition positive_of :: "pyval \<Rightarrow> int option" where
  "positive_of v = (case py_int v of Inl e \<Rightarrow> None | Inr i \<Rightarrow> if 0 < i then Some i else None)"

text \<open>The earlier terminal result is moved to the history of the hold.\<close>

definition archive_name :: "pdict option \<Rightarrow> string" where
  "archive_name value = (case value of None \<Rightarrow> ''previous''
     | Some d \<Rightarrow> safe_id (py_str (py_or (dget d ''request_id'') (PStr ''previous''))))"

definition archive_target :: "hold_dir \<Rightarrow> string \<Rightarrow> instant \<Rightarrow> string" where
  "archive_target d name now =
     (if map_of (fd_archive d) (name @ ''.result.json'') \<noteq> None
      then name @ ''-'' @ int_str (now div 1000000) @ ''.result.json'' else name @ ''.result.json'')"

definition archive_terminal_result :: "'w provision_env \<Rightarrow> hold_root \<Rightarrow> ('w, unit) hold_io" where
  "archive_terminal_result pe root =
     io_bind (io_get (dir_of root)) (\<lambda>d.
     if fd_result d = Absent then io_return ()
     else io_bind (io_lift (strict_object (fd_result d))) (\<lambda>value.
       io_bind (io_get (hold_now (pe_hold pe))) (\<lambda>now.
       io_then (env_io (pe_archive pe root))
         (io_modify (change_dir root (\<lambda>d. d\<lparr>
            fd_archive := AList.update (archive_target d (archive_name value) now) (fd_result d) (fd_archive d),
            fd_result := Absent \<rparr>))))))"

text \<open>What the resumed request takes from the hold: binding, turn limit, total turn count.\<close>

record resume_plan =
  rp_binding :: pdict
  rp_limit :: pyval
  rp_total :: int

definition previous_total :: "pdict \<Rightarrow> int" where
  "previous_total previous = (case positive_of (dget previous ''total_turn_count'') of Some n \<Rightarrow> n
     | None \<Rightarrow> (case positive_of (dget previous ''turn_count'') of Some n \<Rightarrow> n | None \<Rightarrow> 0))"

definition resumable :: "string \<Rightarrow> pdict \<Rightarrow> unit result" where
  "resumable task previous =
     (if text_or_empty (dget previous ''status'') \<in> set loop_active then Inl (RuntimeError ''hold already owns an active turn'')
      else raise_if (dget previous ''thread_id'' \<noteq> PStr task \<or> dget previous ''hold_released'' \<noteq> PBool True)
        (RuntimeError ''existing Hold identity or terminal release is unverified''))"

definition unverified_candidate :: "output_lib \<Rightarrow> output_files \<Rightarrow> pdict option \<Rightarrow> pdict \<Rightarrow> int \<Rightarrow> bool result" where
  "unverified_candidate lib files saved previous n =
     (case saved of
        None \<Rightarrow> Inr True
      | Some q \<Rightarrow>
          if q = [] \<or> \<not> dhas (as_dict (dget q ''input_binding'')) ''result_verification'' \<or>
             dget (as_dict (dget previous ''output_verification'')) ''status'' \<noteq> PStr ''verified'' then Inr True
          else rbind (verify_candidate_output lib files q n) (\<lambda>v. Inr (dget v ''status'' \<noteq> PStr ''verified'')))"

definition check_candidate :: "output_lib \<Rightarrow> output_files \<Rightarrow> pdict option \<Rightarrow> pdict \<Rightarrow> pdict \<Rightarrow> int \<Rightarrow> unit result" where
  "check_candidate lib files saved wanted previous n =
     (let binding = as_dict (dget (case saved of None \<Rightarrow> [] | Some q \<Rightarrow> q) ''input_binding'') in
      if dhas binding ''result_verification'' \<or> dhas wanted ''result_verification'' then
        rbind (unverified_candidate lib files saved previous n) (\<lambda>bad. raise_if bad
          (RuntimeError ''bound Hold current candidate is unverified; use a new request including the unfinished item''))
      else Inr ())"

text \<open>A lane or an output schema stays bound to the hold.\<close>

definition resumed_binding :: "pdict \<Rightarrow> pdict \<Rightarrow> pdict result" where
  "resumed_binding saved wanted =
     (if dhas (as_dict (dget saved ''result_verification'')) ''output_schema'' \<or> dhas saved ''lane_item_count'' then
        if wanted \<noteq> [] \<and> \<not> py_eq (PDict wanted) (PDict saved)
        then Inl (RuntimeError ''existing Hold batch/output_schema binding cannot change on resume; use a new request'')
        else Inr saved
      else Inr wanted)"

text \<open>The budget of a finite lane is what is left of it.\<close>

definition lane_limit :: "pdict \<Rightarrow> pyval \<Rightarrow> int \<Rightarrow> pyval result" where
  "lane_limit binding limit done_turns =
     (if dhas binding ''lane_item_count'' then
        rbind (lane_batch_ids binding (done_turns + 1)) (\<lambda>ids. rbind (lane_batch_size binding) (\<lambda>sz.
        Inr (PInt (lane_rounds (length (as_list (dget binding ''candidate_ids''))) sz - done_turns))))
      else Inr limit)"

definition resume_plan_of ::
    "output_lib \<Rightarrow> output_files \<Rightarrow> task_resume_request \<Rightarrow> pdict \<Rightarrow> pdict option \<Rightarrow> resume_plan result" where
  "resume_plan_of lib files q previous saved =
     (let wanted = as_dict (ts_input_binding q); n = previous_total previous;
          kept = as_dict (dget (case saved of None \<Rightarrow> [] | Some s \<Rightarrow> s) ''input_binding'') in
      rbind (resumable (ts_task_id q) previous) (\<lambda>_.
      rbind (check_candidate lib files saved wanted previous n) (\<lambda>_.
      rbind (resumed_binding kept wanted) (\<lambda>binding.
      rbind (lane_limit binding (case positive_of (dget previous ''max_turns'') of Some m \<Rightarrow> PInt m | None \<Rightarrow> ts_max_turns q) n)
        (\<lambda>limit. Inr \<lparr> rp_binding = binding, rp_limit = limit, rp_total = n + 1 \<rparr>)))))"

definition resume_named :: "task_resume_request \<Rightarrow> string option" where
  "resume_named q = (case given (ts_hold_id q) of Some h \<Rightarrow> Some h | None \<Rightarrow> given (ts_monitor_id q))"

definition plan_resume :: "'w provision_env \<Rightarrow> task_resume_request \<Rightarrow> ('w, resume_plan) hold_io" where
  "plan_resume pe q =
     (case resume_named q of
        None \<Rightarrow> io_return \<lparr> rp_binding = as_dict (ts_input_binding q), rp_limit = ts_max_turns q, rp_total = 1 \<rparr>
      | Some hold \<Rightarrow>
          io_bind (status_now hold) (\<lambda>previous.
          io_bind (io_get (\<lambda>w. (case existing_root hold w of None \<Rightarrow> None | Some root \<Rightarrow> object_of (fd_request (dir_of root w))))) (\<lambda>saved.
          io_bind (io_get (\<lambda>w. hf_outputs (lw_world w))) (\<lambda>files.
          io_lift (resume_plan_of (pe_output pe) files q previous saved)))))"

definition resume_request_row :: "'w provision_env \<Rightarrow> task_resume_request \<Rightarrow> string \<Rightarrow> resume_plan \<Rightarrow> pdict" where
  "resume_request_row pe q hold plan =
     [(''mode'', PStr ''resume''), (''request_id'', PStr (ts_request_id q)), (''source_ref'', PStr (ts_source_ref q)),
      (''hold_id'', PStr hold), (''thread_id'', PStr (ts_task_id q)), (''prompt'', PStr (ts_prompt q)),
      (''model'', opt_str (ts_model q)), (''reasoning_effort'', opt_str (ts_effort q)), (''max_turns'', rp_limit plan),
      (''auto_continue'', PBool (ts_auto_continue q)), (''continue_prompt'', PStr (ts_continue_prompt q)),
      (''notifications'', dict_or_empty (ts_notifications q)), (''input_binding'', PDict (rp_binding plan)),
      (''turn_history_path'', PStr (pe_history_path pe)), (''initial_turn_count'', PInt 1),
      (''initial_total_turn_count'', PInt (rp_total plan))]"

definition resume_with_monitor :: "'w provision_env \<Rightarrow> task_resume_request \<Rightarrow> ('w, task_receipt) hold_io" where
  "resume_with_monitor pe q =
     (let env = pe_hold pe; hold = (case resume_named q of Some h \<Rightarrow> h | None \<Rightarrow> ''hold-'' @ ts_request_id q); root = hold_path hold in
      io_catch
        (io_bind (env_io (pe_config pe)) (\<lambda>config.
         io_bind (plan_resume pe q) (\<lambda>plan.
         io_then (make_dir root)
         (io_then (archive_terminal_result pe root)
         (io_then (write_file env root Request_File (resume_request_row pe q hold plan))
         (io_bind (io_get (now_str env)) (\<lambda>now.
          io_then (write_file env root Ack_File (accepted_ack (ts_request_id q) hold 1 (rp_total plan) (rp_limit plan) now))
          (io_get (queued_receipt env (ts_request_id q) hold 1 (rp_total plan) (rp_limit plan))))))))))
        (\<lambda>e. io_get (failed_receipt env (ts_request_id q) e)))"

section \<open>The host before a loop\<close>

definition not_ready :: "string \<Rightarrow> pdict" where
  "not_ready reason = [(''status'', PStr ''host_not_ready''), (''reason'', PStr reason)]"

text \<open>The first check of the health file that fails.\<close>

definition process_problem :: "'w hold_env \<Rightarrow> 'w hold_world \<Rightarrow> pdict \<Rightarrow> string option" where
  "process_problem env w h = (case positive_of (dget h ''pid'') of
      None \<Rightarrow> Some ''HoldHost PID is not live''
    | Some pid \<Rightarrow>
        if \<not> pid_alive env w pid then Some ''HoldHost PID is not live''
        else if health_instant (dget h ''host_started_at'') = None then Some ''HoldHost PID health identity is missing''
        else if \<not> same_start env w h pid then Some ''HoldHost PID does not match health identity''
        else None)"

definition health_problem :: "'w hold_env \<Rightarrow> task_config \<Rightarrow> int \<Rightarrow> 'w hold_world \<Rightarrow> pdict \<Rightarrow> string option" where
  "health_problem env config required w h =
     (let capacity = (case positive_of (dget h ''worker_capacity'') of Some c \<Rightarrow> c | None \<Rightarrow> 1);
          profile = stripped (tc_profile config); home = stripped (tc_home config) in
      if text_or_empty (dget h ''status'') \<notin> {''ready'', ''holding''} then Some ''HoldHost status is not ready''
      else if health_instant (dget h ''observed_at'') = None then Some ''HoldHost observed_at is invalid''
      else if \<not> health_fresh (hold_now env w) h then Some ''HoldHost observed_at is stale''
      else if process_problem env w h \<noteq> None then process_problem env w h
      else if capacity < max required 1 then Some ''HoldHost worker capacity is insufficient''
      else if profile = [] \<or> stripped (dget h ''profile'') \<noteq> profile then Some ''HoldHost profile does not match''
      else if home = [] \<or> \<not> same_path env (dget h ''codex_home'') home then Some ''HoldHost CODEX_HOME does not match''
      else if \<not> same_path env (dget h ''state_dir'') (he_state_dir env) then Some ''HoldHost state_dir does not match''
      else None)"

definition hold_health :: "'w hold_env \<Rightarrow> task_config \<Rightarrow> int \<Rightarrow> 'w hold_world \<Rightarrow> pdict" where
  "hold_health env config required w = (case object_of (hf_health (lw_world w)) of
      None \<Rightarrow> not_ready ''HoldHost health file is unreadable''
    | Some h \<Rightarrow> (case health_problem env config required w h of
        Some reason \<Rightarrow> not_ready reason | None \<Rightarrow> [(''status'', PStr ''ready'')]))"

definition hold_host_health :: "'w provision_env \<Rightarrow> int \<Rightarrow> ('w, pdict) hold_io" where
  "hold_host_health pe required = io_try (env_io (pe_config pe))
     (\<lambda>e. io_return (not_ready (''HoldHost config is unreadable: '' @ exc_text e)))
     (\<lambda>config. io_get (hold_health (pe_hold pe) config required))"

definition is_ready :: "pdict \<Rightarrow> bool" where
  "is_ready h \<longleftrightarrow> dget h ''status'' = PStr ''ready''"

text \<open>\<open>ensure_hold_host_ready\<close>, starting the host with a wait of 15 seconds; \<open>None\<close> when the polls ran out.\<close>

definition ensure_hold_host_ready :: "nat \<Rightarrow> 'w provision_env \<Rightarrow> int \<Rightarrow> ('w, pdict option) hold_io" where
  "ensure_hold_host_ready n pe required0 =
     (let required = max required0 1 in
      io_bind (hold_host_health pe required) (\<lambda>health.
      if is_ready health then io_return (Some [(''status'', PStr ''ready''), (''phase'', PStr ''already_running'')])
      else io_try (initialize_user_host n (pe_hold pe) required (15 * 1000000))
        (\<lambda>e. io_return (Some (not_ready (''HoldHost self-healing failed: '' @ exc_text e))))
        (\<lambda>started. case started of
            None \<Rightarrow> io_return None
          | Some s \<Rightarrow> io_bind (hold_host_health pe required) (\<lambda>again.
              io_return (Some (if \<not> is_ready again then again
                else [(''status'', PStr ''ready''), (''phase'', PStr (py_str (py_or (dget s ''phase'') (PStr ''started''))))]))))))"

definition preflight_projects :: "'w provision_env \<Rightarrow> ('w, string list) hold_io" where
  "preflight_projects pe = io_bind (env_io (pe_config pe)) (\<lambda>config. io_return (sort (tc_projects config)))"

section \<open>The launcher policy\<close>

definition update_data :: "string \<Rightarrow> string \<Rightarrow> pdict \<Rightarrow> pdict \<Rightarrow> int \<Rightarrow> string list \<Rightarrow> pdict" where
  "update_data action configured selected health active holds =
     [(''action'', PStr action), (''configured'', PStr configured), (''selected'', PDict selected),
      (''update_required'', PBool (configured \<noteq> ''desktop_auto'')), (''changed'', PBool False),
      (''hold_host'', PDict [(''status'', dget health ''status''), (''pid'', dget health ''pid''), (''active_count'', PInt active),
         (''active_hold_ids'', PList (map PStr holds))])]"

definition policy_reply :: "string \<Rightarrow> pdict \<Rightarrow> pdict" where
  "policy_reply status data = [(''status'', PStr status), (''data'', PDict data)]"

text \<open>The new policy is read back; anything else puts the backup in place again.\<close>

definition apply_policy :: "'w provision_env \<Rightarrow> pdict \<Rightarrow> pdict \<Rightarrow> string \<Rightarrow> ('w, pdict) hold_io" where
  "apply_policy pe raw data stamp =
     io_bind (io_get (\<lambda>w. hf_config (lw_world w))) (\<lambda>before.
     io_bind (io_get (\<lambda>w. map_of (hf_backups (lw_world w)) stamp)) (\<lambda>taken.
     io_then (io_check (taken \<noteq> None) (OSError ''File exists''))
     (io_then (io_modify (change_files (\<lambda>h. h\<lparr> hf_backups := (stamp, before) # hf_backups h \<rparr>)))
     (io_then (env_io (pe_write_config pe))
     (io_then (io_modify (change_files (\<lambda>h. h\<lparr> hf_config := Saved (PDict (dset raw ''codex_cli'' (PStr ''desktop_auto''))) \<rparr>)))
     (io_then (he_pause (pe_hold pe))
     (io_bind (io_get (\<lambda>w. read_object (hf_config (lw_world w)))) (\<lambda>readback.
      if dget readback ''codex_cli'' \<noteq> PStr ''desktop_auto'' then
        io_then (io_modify (change_files (\<lambda>h. h\<lparr> hf_config := before \<rparr>)))
          (io_raise (RuntimeError ''launcher config update failed readback and was rolled back''))
      else io_bind (env_io (pe_resolver pe ''desktop_auto'')) (\<lambda>verified.
        io_return (policy_reply ''completed'' (dmerge data
          [(''configured'', PStr ''desktop_auto''), (''selected'', PDict verified), (''update_required'', PBool False),
           (''changed'', PBool True), (''backup_path'', PStr stamp)])))))))))))"

definition update_runtime :: "'w provision_env \<Rightarrow> string \<Rightarrow> ('w, pdict) hold_io" where
  "update_runtime pe action =
     io_then (io_check (action \<notin> {''check'', ''apply''}) (ValueError ''action must be check or apply''))
     (io_bind (io_get (\<lambda>w. object_of (hf_config (lw_world w)))) (\<lambda>config. case config of
        None \<Rightarrow> io_raise (RuntimeError ''launcher config is unreadable'')
      | Some raw \<Rightarrow>
          io_bind (env_io (pe_resolver pe ''desktop_auto'')) (\<lambda>selected.
          io_bind (io_get (\<lambda>w. read_object (hf_health (lw_world w)))) (\<lambda>health.
          io_bind (io_lift (py_int (py_or (dget health ''active_count'') (PInt 0)))) (\<lambda>active.
          let configured = py_str (py_or (dget raw ''codex_cli'') (PStr ''auto''));
              holds = map py_str (as_list (dget health ''active_hold_ids''));
              data = update_data action configured selected health active holds in
          if action = ''check'' \<or> configured = ''desktop_auto'' then io_return (policy_reply ''completed'' data)
          else if active \<noteq> 0 \<or> holds \<noteq> [] then io_return
            [(''status'', PStr ''blocked''), (''reason'', PStr ''active Jarvis holds prevent a launcher policy update''),
             (''data'', PDict data)]
          else io_bind (io_get (hold_now (pe_hold pe))) (\<lambda>now. apply_policy pe raw data (pe_backup_path pe now)))))))"

section \<open>The holder on the shared files\<close>

text \<open>
  \<open>hold_task\<close> runs on the same files: its file ports are the operations above, \<open>p\<close> has the App
  Server client and the turn history.
\<close>

definition holder_object :: "saved \<Rightarrow> pdict result" where
  "holder_object s = (case s of
      Absent \<Rightarrow> Inl (OSError ''No such file or directory'')
    | Garbled \<Rightarrow> Inl (ValueError ''Expecting value: line 1 column 1 (char 0)'')
    | Saved v \<Rightarrow> (case v of PDict d \<Rightarrow> Inr d | _ \<Rightarrow> Inl (RuntimeError ''task-monitor request must be a JSON object'')))"

definition holder_read :: "hold_root \<Rightarrow> hold_file \<Rightarrow> ('w, pdict) hold_io" where
  "holder_read root f = io_bind (io_get (\<lambda>w. holder_object (file_of f (dir_of root w)))) io_lift"

definition holder_read_if :: "hold_root \<Rightarrow> hold_file \<Rightarrow> ('w, pdict option) hold_io" where
  "holder_read_if root f = io_bind (io_get (\<lambda>w. file_of f (dir_of root w))) (\<lambda>s.
     if s = Absent then io_return None else io_bind (io_lift (holder_object s)) (\<lambda>d. io_return (Some d)))"

definition output_io :: "(output_files, 'a) io \<Rightarrow> ('w, 'a) hold_io" where
  "output_io m w = (case m (hf_outputs (lw_world w)) of (r, fs) \<Rightarrow> (r, change_files (\<lambda>h. h\<lparr> hf_outputs := fs \<rparr>) w))"

definition holder_ports :: "'w provision_env \<Rightarrow> hold_root \<Rightarrow> 'w hold_world hold_ports \<Rightarrow> 'w hold_world hold_ports" where
  "holder_ports pe root p = (let env = pe_hold pe in p\<lparr>
     hp_pid := he_pid env, hp_now := hold_now env, hp_monotonic := host_clock env,
     hp_lock := he_lock env Request_Lock root, hp_unlock := he_unlock env Request_Lock root,
     hp_read_request := holder_read root Request_File, hp_write_request := write_file env root Request_File,
     hp_read_close := io_bind (holder_read_if root Close_File) (\<lambda>c. io_return (case c of None \<Rightarrow> [] | Some d \<Rightarrow> d)),
     hp_write_ack := write_file env root Ack_File, hp_write_result := write_file env root Result_File,
     hp_read_result := holder_read_if root Result_File,
     hp_append_events := (\<lambda>rows. io_modify (change_dir root (\<lambda>d. d\<lparr> fd_events := fd_events d @ map (\<lambda>r. Some (PDict r)) rows \<rparr>))),
     hp_verify := (\<lambda>request n. output_io (\<lambda>fs. (verify_candidate_output (pe_output pe) fs request n, fs))),
     hp_receive := (\<lambda>request n thread turn raw.
        output_io (receive_candidate_final_answer (pe_output pe) request n thread turn raw)),
     hp_user_claim := (\<lambda>w. fd_claim (dir_of root w)),
     hp_refresh_close := (\<lambda>evidence. io_then (refresh_close_report env root evidence None []) (io_return ())) \<rparr>)"

text \<open>The call of \<open>hold_task\<close> by the host, with the number of turns it may observe.\<close>

definition run_holder :: "nat \<Rightarrow> 'w provision_env \<Rightarrow> 'w hold_world hold_ports \<Rightarrow> hold_root \<Rightarrow> ('w, unit) hold_io" where
  "run_holder n pe p root = io_then (hold_task n (pe_paths pe) (holder_ports pe root p)) (io_return ())"

end
