(* ===== verification/Hold_World.thy ===== *)
theory Hold_World
  imports Hold_Task
begin

text \<open>
  What the holder leaves of the world of its ports: an assertion that every port keeps, is kept by
  the whole of \<open>hold_task\<close>, however the client calls back.
\<close>

primrec run_keeps :: "('w \<Rightarrow> bool) \<Rightarrow> ('w, 'c) client_run \<Rightarrow> bool" where
  "run_keeps Q (Finish r w) \<longleftrightarrow> Q w"
| "run_keeps Q (Call c w k) \<longleftrightarrow> Q w \<and> (\<forall>w'. Q w' \<longrightarrow> run_keeps Q (k w'))"

definition client_keeps :: "('w \<Rightarrow> bool) \<Rightarrow> ('w \<Rightarrow> ('w, 'c) client_run) \<Rightarrow> bool" where
  "client_keeps Q f \<longleftrightarrow> (\<forall>w. Q w \<longrightarrow> run_keeps Q (f w))"

text \<open>The ports of the files, and those of the client and the history.\<close>

definition file_ports_keep :: "('w \<Rightarrow> bool) \<Rightarrow> 'w hold_ports \<Rightarrow> bool" where
  "file_ports_keep Q p \<longleftrightarrow> io_keeps Q (hp_lock p) \<and> io_keeps Q (hp_unlock p) \<and> io_keeps Q (hp_read_request p) \<and>
     (\<forall>v. io_keeps Q (hp_write_request p v)) \<and> io_keeps Q (hp_read_close p) \<and> (\<forall>v. io_keeps Q (hp_write_ack p v)) \<and>
     (\<forall>v. io_keeps Q (hp_write_result p v)) \<and> io_keeps Q (hp_read_result p) \<and> (\<forall>es. io_keeps Q (hp_append_events p es)) \<and>
     (\<forall>q n. io_keeps Q (hp_verify p q n)) \<and> (\<forall>q n a b r. io_keeps Q (hp_receive p q n a b r)) \<and>
     (\<forall>d. io_keeps Q (hp_refresh_close p d))"

definition client_ports_keep :: "('w \<Rightarrow> bool) \<Rightarrow> 'w hold_ports \<Rightarrow> bool" where
  "client_ports_keep Q p \<longleftrightarrow> (\<forall>path row. io_keeps Q (hp_append_history p path row)) \<and>
     (\<forall>path h. io_keeps Q (hp_read_history p path h)) \<and> (\<forall>m b. io_keeps Q (hp_launch p m b)) \<and> io_keeps Q (hp_start_client p) \<and>
     (\<forall>c. client_keeps Q (hp_resume_turn p c)) \<and> (\<forall>d. client_keeps Q (hp_create_task p d)) \<and>
     (\<forall>c. client_keeps Q (hp_start_turn p c)) \<and> (\<forall>a b. client_keeps Q (hp_wait_terminal p a b)) \<and>
     (\<forall>a b c. io_keeps Q (hp_wait_readback p a b c)) \<and> (\<forall>t. io_keeps Q (hp_thread_read p t)) \<and>
     (\<forall>a b. io_keeps Q (hp_interrupt p a b)) \<and> io_keeps Q (hp_close_client p)"

definition in_world :: "('w \<Rightarrow> bool) \<Rightarrow> 'w hold_state \<Rightarrow> bool" where
  "in_world Q s \<longleftrightarrow> Q (hs_world s)"

lemma world_ext: "io_keeps Q m \<Longrightarrow> io_keeps (in_world Q) (ext m)"
  by (auto simp: io_keeps_def ext_def in_world_def split: prod.splits)

lemma world_modify: "(\<And>s. hs_world (f s) = hs_world s) \<Longrightarrow> io_keeps (in_world Q) (io_modify f)"
  by (simp add: io_keeps_def in_world_def)

lemma world_run_client:
  assumes "\<And>c. io_keeps (in_world Q) (back c)" "run_keeps Q run"
  shows "io_keeps (in_world Q) (run_client back run)"
  using assms(2)
proof (induction run)
  case (Finish r w)
  then show ?case by (simp add: io_keeps_def in_world_def)
next
  case (Call c w k)
  show ?case
  proof (rule io_keepsI)
    fix s assume "in_world Q s"
    from Call.prems have 1: "in_world Q (s\<lparr> hs_world := w \<rparr>)" by (simp add: in_world_def)
    obtain r s1 where call: "back c (s\<lparr> hs_world := w \<rparr>) = (r, s1)" by fastforce
    then have s1: "in_world Q s1" using io_keepsD [OF assms(1) 1] by blast
    then have "run_keeps Q (k (hs_world s1))" using Call.prems by (simp add: in_world_def)
    then show "in_world Q (snd (run_client back (Call c w k) s))"
      using call s1 Call.IH [of "k (hs_world s1)"] by (cases r) (auto simp: io_keeps_def)
  qed
qed

lemma world_call:
  assumes "\<And>c. io_keeps (in_world Q) (back c)" "client_keeps Q f"
  shows "io_keeps (in_world Q) (io_bind (io_get (\<lambda>s. f (hs_world s))) (run_client back))"
proof (rule io_keepsI)
  fix s assume s: "in_world Q s"
  then have "run_keeps Q (f (hs_world s))" using assms(2) by (simp add: client_keeps_def in_world_def)
  from world_run_client [OF assms(1) this] show "in_world Q (snd (io_bind (io_get (\<lambda>s. f (hs_world s))) (run_client back) s))"
    using s by (simp add: io_keeps_def)
qed

lemma world_row: "(\<And>v. io_keeps Q (put v)) \<Longrightarrow> io_keeps (in_world Q) (write_row put f)"
  unfolding write_row_def by (intro io_rules world_ext)

lemma read_first: "(\<And>s. io_keeps P (k (f s))) \<Longrightarrow> io_keeps P (io_bind (io_get f) k)"
  by (simp add: io_keeps_def)

locale kept_ports =
  fixes Q :: "'w \<Rightarrow> bool" and p :: "'w hold_ports"
  assumes filed: "file_ports_keep Q p" and called: "client_ports_keep Q p"
begin

lemma ports:
  "io_keeps Q (hp_lock p)" "io_keeps Q (hp_unlock p)" "io_keeps Q (hp_read_request p)" "io_keeps Q (hp_write_request p v)"
  "io_keeps Q (hp_read_close p)" "io_keeps Q (hp_write_ack p v)" "io_keeps Q (hp_write_result p v)" "io_keeps Q (hp_read_result p)"
  "io_keeps Q (hp_append_events p es)" "io_keeps Q (hp_verify p q n)" "io_keeps Q (hp_receive p q n a b r)"
  "io_keeps Q (hp_refresh_close p d)" "io_keeps Q (hp_append_history p path d)" "io_keeps Q (hp_read_history p path h)"
  "io_keeps Q (hp_launch p m c)" "io_keeps Q (hp_start_client p)" "client_keeps Q (hp_resume_turn p call)"
  "client_keeps Q (hp_create_task p d)" "client_keeps Q (hp_start_turn p call)" "client_keeps Q (hp_wait_terminal p a b)"
  "io_keeps Q (hp_wait_readback p a b c)" "io_keeps Q (hp_thread_read p t)" "io_keeps Q (hp_interrupt p a b)"
  "io_keeps Q (hp_close_client p)"
  using filed called by (simp_all add: file_ports_keep_def client_ports_keep_def)

lemmas world_rules = io_rules world_ext world_row world_modify ports

lemma report: "io_keeps (in_world Q) (hold_report p j ph)"
  unfolding hold_report_def by (intro world_rules) (simp add: bind_phase_def)

lemma call: "client_keeps Q f \<Longrightarrow> io_keeps (in_world Q) (client_call p j f)"
  unfolding client_call_def by (rule world_call [OF report])

lemma asked: "io_keeps (in_world Q) (stop_asked p j)"
  unfolding stop_asked_def by (intro world_rules)

lemma under_lock: "io_keeps (in_world Q) m \<Longrightarrow> io_keeps (in_world Q) (locked p m)"
  unfolding locked_def by (intro world_rules)

lemma polled: "io_keeps (in_world Q) (control_poll p j)"
  unfolding control_poll_def recover_poll_def interrupt_poll_def by (intro world_rules report) simp_all

lemma kept_verification: "io_keeps (in_world Q) m \<Longrightarrow> io_keeps (in_world Q) (keep_verification m)"
  unfolding keep_verification_def by (intro world_rules) simp_all

lemma verified: "io_keeps (in_world Q) (verify_output p j)" "io_keeps (in_world Q) (receive_final_answer p j raw)"
  unfolding verify_output_def receive_final_answer_def by (intro kept_verification world_rules)+

lemma observed: "io_keeps (in_world Q) (observe_turn p (monitor_request p j pocket policy s0))"
proof -
  let ?r = "monitor_request p j pocket policy s0"
  have sel: "hr_control_poll ?r = Some (control_poll p j)" "hr_stop_requested ?r = Some (stop_asked p j)"
    "hr_verify_output ?r = Some (verify_output p j)"
    "hr_receive_final_answer ?r = (if pocket then Some (receive_final_answer p j) else None)"
    by (simp_all add: monitor_request_def)
  have wait: "io_keeps (in_world Q) (wait_for_turn_terminal (hold_client p) a b (hr_control_poll ?r))" for a b
    unfolding hold_client_def sel by (simp, intro world_call ports polled)
  have readback: "io_keeps (in_world Q) (wait_for_turn_readback (hold_client p) a b c)" for a b c
    unfolding hold_client_def by (simp, intro world_rules)
  have gates: "io_keeps (in_world Q) (turn_gates ?r msg v)" for msg v
    unfolding turn_gates_def sel option.case by (intro io_rules asked)
  have verify: "io_keeps (in_world Q) (turn_verify ?r msg)" for msg
    unfolding turn_verify_def sel by (intro io_rules verified) (auto split: if_splits intro: verified)
  have completed: "io_keeps (in_world Q) (turn_completed ?r msg)" for msg
    unfolding turn_completed_def by (intro io_rules gates verify)
  have "io_keeps (in_world Q) (turn_observe (hold_client p) ?r)"
    unfolding turn_observe_def Let_def by (intro io_rules wait readback completed)
  then show ?thesis unfolding observe_turn_def by (intro world_rules) simp_all
qed

lemma dispatched: "io_keeps (in_world Q) (dispatch_first p j)"
  unfolding dispatch_first_def dispatch_recover_def dispatch_resume_def dispatch_create_def Let_def
  by (intro world_rules call report asked) simp_all

lemma settled: "io_keeps (in_world Q) (settle_turn p j r d)"
  unfolding settle_turn_def stop_override_def append_monitor_events_def settle_confirmed_def record_history_def
    continue_turn_def advance_recovery_def Let_def
  by (intro world_rules call report asked) (simp_all add: forget_turn_def)

lemma turns: "io_keeps (in_world Q) (hold_turns n p j pocket policy)"
proof (induction n)
  case 0
  then show ?case by (simp only: hold_turns.simps io_keeps_return)
next
  case (Suc n)
  show ?case
    unfolding hold_turns.simps by (rule read_first) (intro io_rules observed under_lock settled Suc)
qed

lemma run: "io_keeps (in_world Q) (hold_run n p j)"
  unfolding hold_run_def hold_body_def hold_failure_def hold_cleanup_def close_owned_client_def mark_observer_stopped_def
  by (intro world_rules report under_lock dispatched turns) simp_all

lemma task: "io_keeps Q (hold_task n pl p)"
proof (rule io_keepsI)
  fix w assume w: "Q w"
  obtain r w1 where read: "hp_read_request p w = (r, w1)" by fastforce
  have w1: "Q w1" using io_keepsD [OF ports(3) w read] .
  have "Q (snd (case hold_run n p j (initial_hold_state j w1) of (r, s) \<Rightarrow> (r, hs_world s)))" for j
  proof -
    have "in_world Q (initial_hold_state j w1)" using w1 by (simp add: in_world_def initial_hold_state_def)
    then have "in_world Q (snd (hold_run n p j (initial_hold_state j w1)))" using run by (simp add: io_keeps_def)
    then show ?thesis by (cases "hold_run n p j (initial_hold_state j w1)") (simp add: in_world_def)
  qed
  then show "Q (snd (hold_task n pl p w))"
    using read w1 by (cases r) (auto simp: hold_task_def io_bind_def split: sum.splits)
qed

end

end
