(* ===== verification/Hold_Invariants.thy ===== *)
theory Hold_Invariants
  imports Hold_Store Hold_World
begin

text \<open>
  What every operation on the shared files of the holds keeps. \<open>file_view\<close> and \<open>close_view\<close> are the
  contracts an assertion about the files has to meet (the writes that it must survive); under them
  every operation of the adapter, the host and the holders keeps it. The close reports are one such view:
  a completed report stands on confirmed evidence after any interleaving of the operations.
\<close>

section \<open>Reading what was written\<close>

lemma file_set_file [simp]: "file_of f (set_file g v d) = (if f = g then v else file_of f d)"
  by (cases f; cases g) simp_all

lemma set_file_frame [simp]: "fd_claim (set_file f v d) = fd_claim d" "fd_events (set_file f v d) = fd_events d"
    "fd_deliveries (set_file f v d) = fd_deliveries d" "fd_archive (set_file f v d) = fd_archive d"
  by (cases f; simp)+

lemma fd_set_file [simp]:
  "fd_request (set_file f v d) = (if f = Request_File then v else fd_request d)"
  "fd_ack (set_file f v d) = (if f = Ack_File then v else fd_ack d)"
  "fd_result (set_file f v d) = (if f = Result_File then v else fd_result d)"
  "fd_close (set_file f v d) = (if f = Close_File then v else fd_close d)"
  "fd_owner (set_file f v d) = (if f = Owner_File then v else fd_owner d)"
  by (cases f; simp)+

lemma change_files_world [simp]: "lw_world (change_files f w) = f (lw_world w)" "lw_files (change_files f w) = lw_files w"
  by (simp_all add: change_files_def)

lemma dir_of_change [simp]: "dir_of r (change_dir root f w) = (if r = root then f (dir_of r w) else dir_of r w)"
  by (auto simp: change_dir_def dir_of_def update_conv')

lemma has_dir_change [simp]: "has_dir r (change_dir root f w) \<longleftrightarrow> r = root \<or> has_dir r w"
  by (simp add: change_dir_def has_dir_def update_conv')

lemma change_dir_frame [simp]:
  "hf_health (lw_world (change_dir root f w)) = hf_health (lw_world w)"
  "hf_config (lw_world (change_dir root f w)) = hf_config (lw_world w)"
  "hf_env (lw_world (change_dir root f w)) = hf_env (lw_world w)"
  "hf_outputs (lw_world (change_dir root f w)) = hf_outputs (lw_world w)"
  "hf_active (lw_world (change_dir root f w)) = hf_active (lw_world w)"
  "lw_files (change_dir root f w) = lw_files w"
  by (simp_all add: change_dir_def)

lemma read_object_simps [simp]: "read_object (Saved (PDict d)) = d" "object_of (Saved (PDict d)) = Some d"
    "read_object Absent = []" "read_object Garbled = []" "object_of Absent = None" "object_of Garbled = None"
  by (simp_all add: read_object_def object_of_def)

lemma strict_read_simps [simp]: "strict_read (Saved (PDict d)) = Inr d" "strict_read Absent = Inr []"
    "strict_object (Saved (PDict d)) = Inr (Some d)" "strict_object Absent = Inr None"
  by (simp_all add: strict_read_def strict_object_def)

lemma strict_object_Inr: "strict_object s = Inr v \<Longrightarrow> v = object_of s"
  by (simp add: strict_object_def split: if_splits)

lemma strict_read_Inr: "strict_read s = Inr d \<Longrightarrow> d = read_object s"
  by (auto simp: strict_read_def strict_object_def read_object_def rbind_def split: if_splits option.splits)

lemma object_of_Some: "object_of s = Some d \<longleftrightarrow> s = Saved (PDict d)"
  by (auto simp: object_of_def split: saved.splits pyval.splits)

lemma read_object_filled: "read_object s \<noteq> [] \<Longrightarrow> s = Saved (PDict (read_object s))"
  by (auto simp: read_object_def object_of_def split: option.splits saved.splits pyval.splits)

text \<open>A step on the processes only leaves the files.\<close>

lemma env_io_dirs:
  assumes "env_io m w = (r, w1)"
  shows "dir_of root w1 = dir_of root w" "hf_dirs (lw_world w1) = hf_dirs (lw_world w)"
    "hf_health (lw_world w1) = hf_health (lw_world w)" "hf_config (lw_world w1) = hf_config (lw_world w)"
    "lw_files w1 = lw_files w" "hf_outputs (lw_world w1) = hf_outputs (lw_world w)"
  using assms by (auto simp: env_io_def dir_of_def split: prod.splits)

lemma write_file_Inr:
  assumes "write_file env root f v w = (Inr u, w1)"
  shows "dir_of r w1 = (if r = root then set_file f (Saved (PDict v)) (dir_of r w) else dir_of r w)"
    "hf_health (lw_world w1) = hf_health (lw_world w)" "hf_config (lw_world w1) = hf_config (lw_world w)"
    "lw_files w1 = lw_files w" "hf_outputs (lw_world w1) = hf_outputs (lw_world w)"
proof -
  obtain x w0 where w0: "env_io (he_write env root f) w = (Inr x, w0)"
    and w1: "w1 = change_dir root (set_file f (Saved (PDict v))) w0"
    using assms by (auto simp: write_file_def io_then_Inr)
  show "dir_of r w1 = (if r = root then set_file f (Saved (PDict v)) (dir_of r w) else dir_of r w)"
    "hf_health (lw_world w1) = hf_health (lw_world w)" "hf_config (lw_world w1) = hf_config (lw_world w)"
    "lw_files w1 = lw_files w" "hf_outputs (lw_world w1) = hf_outputs (lw_world w)"
    using env_io_dirs [OF w0] by (simp_all add: w1)
qed

text \<open>
  What the shared files guarantee: close reports, claims, reconciliation, resumption and notifications.
  The other processes come in through the ports: \<open>steady P env\<close> says that they keep \<open>P\<close>.
\<close>

section \<open>Assertions about some of the files\<close>

definition steady :: "('w hold_world \<Rightarrow> bool) \<Rightarrow> 'w hold_env \<Rightarrow> bool" where
  "steady P env \<longleftrightarrow> (\<forall>l r. io_keeps P (he_lock env l r) \<and> io_keeps P (he_unlock env l r)) \<and> io_keeps P (he_pause env) \<and>
     (\<forall>n. io_keeps P (he_start_host env n)) \<and> (\<forall>p. io_keeps P (he_stop_host env p))"

lemma steadyD:
  assumes "steady P env"
  shows "io_keeps P (he_lock env l r)" "io_keeps P (he_unlock env l r)" "io_keeps P (he_pause env)"
    "io_keeps P (he_start_host env n)" "io_keeps P (he_stop_host env p)"
  using assms unfolding steady_def by blast+

lemma io_keeps_sum [io_rules]:
  "(\<And>x. z = Inl x \<Longrightarrow> io_keeps P (f x)) \<Longrightarrow> (\<And>x. z = Inr x \<Longrightarrow> io_keeps P (g x)) \<Longrightarrow>
   io_keeps P (case z of Inl x \<Rightarrow> f x | Inr x \<Rightarrow> g x)"
  by (cases z) simp_all

lemma io_keeps_list [io_rules]:
  "io_keeps P m \<Longrightarrow> (\<And>x xs. io_keeps P (f x xs)) \<Longrightarrow> io_keeps P (case z of [] \<Rightarrow> m | x # xs \<Rightarrow> f x xs)"
  by (cases z) simp_all

lemma io_keeps_bool [io_rules]: "(b \<Longrightarrow> io_keeps P m) \<Longrightarrow> (\<not> b \<Longrightarrow> io_keeps P n) \<Longrightarrow> io_keeps P (case b of True \<Rightarrow> m | False \<Rightarrow> n)"
  by (cases b) simp_all

lemma with_file_lock_keeps: "steady P env \<Longrightarrow> io_keeps P m \<Longrightarrow> io_keeps P (with_file_lock env l root m)"
  unfolding with_file_lock_def by (intro io_rules) (simp_all add: steadyD)

lemma io_keeps_always [io_rules]:
  assumes "io_keeps P m" "\<And>b. io_keeps P (n b)"
  shows "io_keeps P (io_always m n)"
proof (rule io_keepsI)
  fix w assume "P w"
  moreover obtain r w1 where m: "m w = (r, w1)" by fastforce
  moreover obtain r2 w2 where n: "n (r = Inr True) w1 = (r2, w2)" by fastforce
  ultimately have "P w2" using io_keepsD [OF assms(1)] io_keepsD [OF assms(2)] by blast
  then show "P (snd (io_always m n w))" using m n by (auto simp: io_always_def split: sum.splits)
qed

text \<open>\<open>P\<close> looks at the files \<open>F\<close> of the directories only.\<close>

locale file_view =
  fixes P :: "'w hold_world \<Rightarrow> bool" and F :: "hold_file set"
  assumes frame: "(\<And>r f. f \<in> F \<Longrightarrow> file_of f (dir_of r w') = file_of f (dir_of r w)) \<Longrightarrow> P w \<Longrightarrow> P w'"
begin

lemma env_keeps: "io_keeps P (env_io m)"
proof (rule io_keepsI)
  fix w assume "P w"
  then show "P (snd (env_io m w))"
    by (rule frame [rotated]) (simp add: env_io_dirs [OF surjective_pairing])
qed

lemma change_keeps: "(\<And>f d. f \<in> F \<Longrightarrow> file_of f (g d) = file_of f d) \<Longrightarrow> io_keeps P (io_modify (change_dir root g))"
  by (rule io_keeps_modify) (rule frame, simp_all)

lemma files_keeps: "(\<And>h. hf_dirs (g h) = hf_dirs h) \<Longrightarrow> io_keeps P (io_modify (change_files g))"
  by (rule io_keeps_modify) (rule frame, simp_all add: dir_of_def)

lemma write_keeps: "f \<notin> F \<Longrightarrow> io_keeps P (write_file env root f v)"
  unfolding write_file_def by (intro io_keeps_then env_keeps change_keeps) auto

lemma parent_keeps: "io_keeps P (tell_parent report)"
  unfolding tell_parent_def
  by (intro io_rules) (rule io_keepsI, rule frame, auto simp: record_child_close_apply dir_of_def Let_def split: option.splits)

lemma health_keeps: "io_keeps P (write_health env host status request_id)"
proof -
  have "io_keeps P (\<lambda>w. (Inr (), change_files (\<lambda>h. h\<lparr> hf_health := v w \<rparr>) w))" for v :: "'w hold_world \<Rightarrow> saved"
    by (rule io_keepsI) (rule frame, simp_all add: dir_of_def)
  then show ?thesis unfolding write_health_def by (intro io_rules env_keeps)
qed

lemma release_keeps:
  assumes "steady P env" "Owner_File \<notin> F"
  shows "io_keeps P (release_claim env root)"
proof -
  have g: "io_keeps P (io_modify (change_dir root (\<lambda>d. d\<lparr> fd_claim := False \<rparr>)))"
    by (rule change_keeps) (case_tac f, auto)
  have o: "io_keeps P (io_modify (change_dir root (\<lambda>d. d\<lparr> fd_owner := Absent \<rparr>)))"
    by (rule change_keeps) (case_tac f, auto simp: assms(2))
  have once: "io_keeps P (release_once env root)"
    unfolding release_once_def by (intro io_keeps_then io_keeps_bind io_keeps_if io_keeps_get io_keeps_return env_keeps g o)
  have "io_keeps P (release_attempts n env root)" for n
    by (induction n) (auto intro!: io_keeps_catch io_keeps_if io_keeps_then io_keeps_raise once steadyD [OF assms(1)])
  then show ?thesis by (simp add: release_claim_def)
qed

end

text \<open>
  \<open>P\<close> looks at the close reports only, and the two operations that write a report keep it; then every
  operation of the adapter and of the host keeps it.
\<close>

locale close_view = file_view P "{Close_File}" for P :: "'w hold_world \<Rightarrow> bool" +
  assumes refresh: "steady P env \<Longrightarrow> io_keeps P (refresh_close_report env root evidence action failure)"
    and recording: "steady P env \<Longrightarrow> io_keeps P (record_close env root hold request_id parent)"
begin

lemma other_write: "f \<noteq> Close_File \<Longrightarrow> io_keeps P (write_file env root f v)"
  by (rule write_keeps) simp

lemma dir_change: "(\<And>d. fd_close (g d) = fd_close d) \<Longrightarrow> io_keeps P (io_modify (change_dir root g))"
  by (rule change_keeps) simp

lemmas view_rules = io_rules env_keeps other_write files_keeps parent_keeps health_keeps with_file_lock_keeps

lemma release: "steady P env \<Longrightarrow> io_keeps P (release_claim env root)"
  by (rule release_keeps) simp_all

lemma claiming: "steady P env \<Longrightarrow> io_keeps P (claim_hold env root request)"
  unfolding claim_hold_def claim_body_def Let_def
  by (intro view_rules dir_change release) (simp_all add: steadyD)

lemma requeueing: "steady P env \<Longrightarrow> io_keeps P (requeue_dead_claim env root request ack)"
  unfolding requeue_dead_claim_def requeue_locked_def Let_def
  by (intro view_rules release) simp_all

lemma after: "steady P env \<Longrightarrow> io_keeps P (after_holder env host root hold request returned)"
  unfolding after_holder_def settle_claim_def controlled_intent_def cleanup_failed_def report_close_def mark_inactive_def Let_def
  by (intro view_rules release refresh) simp_all

lemma running:
  assumes "steady P env" "\<And>r. io_keeps P (holder r)"
  shows "io_keeps P (host_run_once env host holder only)"
proof -
  have claimed: "io_keeps P (run_claimed env host holder root q a)" for root q a
    unfolding run_claimed_def holder_failed_def controlled_intent_def mark_active_def Let_def
    by (intro view_rules after assms) simp_all
  have root: "io_keeps P (run_root env host holder root)" for root
    unfolding run_root_def by (intro view_rules claiming requeueing claimed assms)
  have roots: "io_keeps P (run_roots env host holder rs)" for rs
    by (induction rs) (auto intro!: io_rules root)
  show ?thesis unfolding host_run_once_def by (intro view_rules roots)
qed

lemma stopping: "steady P env \<Longrightarrow> io_keeps P (request_host_stop env host hold thread turn)"
  unfolding request_host_stop_def hold_matches_def stop_locked_def ask_owner_def matching_health_def Let_def
  by (intro view_rules) simp_all

lemma reconciling: "steady P env \<Longrightarrow> io_keeps P (reconcile_hold env host hold)"
  unfolding reconcile_hold_def reconcile_root_def hold_matches_def reconcile_locked_def reconcile_undispatched_def owner_proof_def
    reconcile_identities_def inspect_thread_def reconcile_turn_def settle_readback_def claim_block_def release_reconciled_def Let_def
  by (intro view_rules release) simp_all

lemma latching: "steady P env \<Longrightarrow> io_keeps P (request_hold_stop env hold)"
  unfolding request_hold_stop_def the_root_def latch_stop_def
  by (intro view_rules) simp_all

lemma closing: "steady P env \<Longrightarrow> io_keeps P (close_hold env hold request_id parent)"
  unfolding close_hold_def apply_close_def close_action_def stop_current_def latch_stop_def status_now_def new_host_def the_root_def Let_def
  by (intro view_rules recording refresh stopping reconciling) simp_all

lemma queueing: "io_keeps P (provision pe q)"
  unfolding provision_def make_dir_def Let_def
  by (intro view_rules dir_change) simp_all

lemma resuming: "io_keeps P (resume_with_monitor pe q)"
  unfolding resume_with_monitor_def plan_resume_def status_now_def archive_terminal_result_def make_dir_def Let_def
  by (intro view_rules dir_change) simp_all

lemma delivering: "io_keeps P (record_hold_notification_delivery env hold event delivery)"
  unfolding record_hold_notification_delivery_def Let_def
  by (intro view_rules dir_change) simp_all

end

section \<open>A completed report rests on evidence\<close>

definition report_ok :: "pdict \<Rightarrow> bool" where
  "report_ok r \<longleftrightarrow> (dget r ''report_status'' = PStr ''completed'' \<longrightarrow>
     dget r ''terminal_confirmed'' = PBool True \<and> dget r ''hold_released'' = PBool True \<and>
     dget r ''management_closed'' = PBool True \<and> dget r ''external_execution_unresolved'' = PBool False)"

definition reports_ok :: "'w hold_world \<Rightarrow> bool" where
  "reports_ok w \<longleftrightarrow> (\<forall>root. report_ok (read_object (fd_close (dir_of root w))))"

lemma dget_dmerge: "dget (dmerge d e) k = (case map_of (rev e) k of None \<Rightarrow> dget d k | Some v \<Rightarrow> v)"
  by (simp add: dget_def map_of_dmerge split: option.splits)

lemma close_fields_ok: "report_ok (dset (dmerge report (close_fields request report evidence no_claim action failure)) ''observed_at'' now)"
  by (cases "dispatch_not_sent evidence no_claim"; cases action)
    (auto simp: report_ok_def close_fields_def close_facts_def report_status_def Let_def dget_dmerge split: if_splits)

lemma report_ok_other: "k \<notin> {''report_status'', ''terminal_confirmed'', ''hold_released'', ''management_closed'',
    ''external_execution_unresolved''} \<Longrightarrow> report_ok (dset r k v) = report_ok r"
  by (auto simp: report_ok_def)

lemma reports_okD: "reports_ok w \<Longrightarrow> report_ok (read_object (fd_close (dir_of root w)))"
  unfolding reports_ok_def by blast

interpretation report_files: file_view reports_ok "{Close_File}"
  by unfold_locales (simp add: reports_ok_def)

lemma write_report:
  assumes "report_ok v"
  shows "io_keeps reports_ok (write_file env root Close_File v)"
  unfolding write_file_def
  by (intro io_keeps_then report_files.env_keeps io_keeps_modify) (use assms in \<open>auto simp: reports_ok_def\<close>)

text \<open>Steps that read a file and then write, with what was read.\<close>

lemma io_post_get_last: "(\<And>s. P s \<Longrightarrow> Q (f s) s) \<Longrightarrow> io_post P (io_get f) Q E"
  by (simp add: io_post_def)

lemma io_post_lock:
  assumes "steady P env" "io_post P m (\<lambda>x s. P s \<and> Q x) (\<lambda>e. P)"
  shows "io_post P (with_file_lock env l root m) (\<lambda>x s. P s \<and> Q x) (\<lambda>e. P)"
  unfolding with_file_lock_def
proof (rule io_post_then [OF io_post_keeps])
  show "io_keeps P (he_lock env l root)" by (rule steadyD(1) [OF assms(1)])
  have u: "io_keeps P (he_unlock env l root)" by (rule steadyD(2) [OF assms(1)])
  show "io_post P (io_finally m (he_unlock env l root)) (\<lambda>x s. P s \<and> Q x) (\<lambda>e. P)"
    by (rule io_post_finally [OF assms(2)]) (use u in \<open>auto simp: io_keeps_def\<close>)
qed

lemma io_post_know:
  assumes "\<And>s. P s \<Longrightarrow> A (f s)" "\<And>v. A v \<Longrightarrow> io_post P (k v) Q E"
  shows "io_post P (io_bind (io_get f) k) Q E"
  using assms by (simp add: io_post_def)

lemma io_post_told: "(\<And>x. R x \<Longrightarrow> io_post P (k x) Q E) \<Longrightarrow> io_post (\<lambda>w. P w \<and> R x) (k x) Q E"
  by (auto simp: io_post_def)

lemma io_post_to_keeps:
  assumes "io_post P m (\<lambda>r w. P w \<and> Q r) (\<lambda>e. P)"
  shows "io_keeps P m"
proof (rule io_keepsI)
  fix w assume w: "P w"
  obtain r w1 where m: "m w = (r, w1)" by fastforce
  then show "P (snd (m w))" using io_postD [OF assms w] by (cases r) auto
qed

lemma update_report_ok:
  assumes "report_ok report"
  shows "io_post reports_ok (update_report env root report (close_fields request report evidence no_claim action failure))
    (\<lambda>r w. reports_ok w \<and> report_ok r) (\<lambda>e. reports_ok)"
proof -
  have "io_post reports_ok (io_bind (io_get (now_str env)) (\<lambda>now.
      io_then (write_file env root Close_File (dset (dmerge report changes) ''observed_at'' now))
        (io_return (dset (dmerge report changes) ''observed_at'' now))))
    (\<lambda>r w. reports_ok w \<and> report_ok r) (\<lambda>e. reports_ok)"
    if "\<And>now. report_ok (dset (dmerge report changes) ''observed_at'' now)" for changes
    by (rule io_post_know [where A = "\<lambda>_. True"], rule TrueI, rule io_post_then_keeps [OF write_report [OF that]])
      (auto intro: io_post_pure simp: that)
  from this [OF close_fields_ok] show ?thesis
    unfolding update_report_def Let_def by (intro io_post_if io_post_pure) (simp_all add: assms)
qed

lemma refresh_locked_ok:
  "io_post reports_ok (refresh_locked env root evidence action failure) (\<lambda>r w. reports_ok w \<and> report_ok r) (\<lambda>e. reports_ok)"
proof -
  have told: "io_post reports_ok (io_then (tell_parent r) (io_return r)) (\<lambda>r w. reports_ok w \<and> report_ok r) (\<lambda>e. reports_ok)"
    if "report_ok r" for r
    by (rule io_post_then_keeps [OF report_files.parent_keeps]) (auto intro: io_post_pure simp: that)
  show ?thesis
    unfolding refresh_locked_def Let_def
    by (rule io_post_know [where A = "\<lambda>d. report_ok (read_object (fd_close d))"], erule reports_okD)
      (intro io_post_if io_post_pure told io_post_bind [OF update_report_ok] io_post_told, simp_all)
qed

lemma refresh_report_ok:
  assumes "steady reports_ok env"
  shows "io_post reports_ok (refresh_close_report env root evidence action failure)
    (\<lambda>r w. reports_ok w \<and> report_ok r) (\<lambda>e. reports_ok)"
  unfolding refresh_close_report_def
  by (rule io_post_know [where A = "\<lambda>_. True"], rule TrueI)
    (intro io_post_if io_post_pure io_post_lock [OF assms] refresh_locked_ok, simp_all add: report_ok_def)

lemma bind_parent_ok: "report_ok r \<Longrightarrow> io_keeps reports_ok (bind_parent env root parent r)"
  unfolding bind_parent_def by (intro io_rules write_report) (simp add: report_ok_other)

lemma new_report_ok: "report_ok (new_report hold binding request_id now report)"
  by (simp add: report_ok_def new_report_def)

lemma record_close_ok: "io_keeps reports_ok (record_close env root hold request_id parent)"
proof (rule io_post_to_keeps)
  show "io_post reports_ok (record_close env root hold request_id parent) (\<lambda>b w. reports_ok w \<and> True) (\<lambda>e. reports_ok)"
    unfolding record_close_def Let_def simp_thms
    by (rule io_post_know [where A = "\<lambda>d. report_ok (read_object (fd_close d))"], erule reports_okD, rule io_post_keeps)
      (intro io_keeps_if io_keeps_then io_keeps_bind io_keeps_get io_keeps_check io_keeps_return bind_parent_ok write_report
         new_report_ok, assumption)
qed

interpretation reports: close_view reports_ok
  by unfold_locales (rule io_post_to_keeps [OF refresh_report_ok], assumption, rule record_close_ok)

section \<open>The operations on the shared files\<close>

datatype hold_op =
    Queue task_provision_request
  | Resume task_resume_request
  | Stop_hold string
  | Close_hold string "string option" pdict
  | Host_stop string string string
  | Reconcile string
  | Host_pass "hold_root option"
  | Deliver string string pdict
  | Start_host int int

fun hold_step :: "nat \<Rightarrow> 'w provision_env \<Rightarrow> hold_host \<Rightarrow> 'w hold_world hold_ports \<Rightarrow> hold_op \<Rightarrow> ('w, unit) hold_io" where
  "hold_step n pe host p (Queue q) = io_then (provision pe q) (io_return ())"
| "hold_step n pe host p (Resume q) = io_then (resume_with_monitor pe q) (io_return ())"
| "hold_step n pe host p (Stop_hold h) = io_then (request_hold_stop (pe_hold pe) h) (io_return ())"
| "hold_step n pe host p (Close_hold h rid parent) = io_then (close_hold (pe_hold pe) h rid parent) (io_return ())"
| "hold_step n pe host p (Host_stop h thread turn) = io_then (request_host_stop (pe_hold pe) host h thread turn) (io_return ())"
| "hold_step n pe host p (Reconcile h) = io_then (reconcile_hold (pe_hold pe) host h) (io_return ())"
| "hold_step n pe host p (Host_pass only) = io_then (host_run_once (pe_hold pe) host (run_holder n pe p) only) (io_return ())"
| "hold_step n pe host p (Deliver h e d) = record_hold_notification_delivery (pe_hold pe) h e d"
| "hold_step n pe host p (Start_host workers wait) = io_then (initialize_user_host n (pe_hold pe) workers wait) (io_return ())"

text \<open>One operation of some process, in an environment that keeps \<open>P\<close>.\<close>

definition hold_change :: "('w hold_world \<Rightarrow> bool) \<Rightarrow> 'w hold_world \<Rightarrow> 'w hold_world \<Rightarrow> bool" where
  "hold_change P w w' \<longleftrightarrow> (\<exists>n pe host p op. steady P (pe_hold pe) \<and> client_ports_keep P p \<and> w' = snd (hold_step n pe host p op w))"

context close_view
begin

lemma files_change: "P w \<Longrightarrow> (\<And>h. hf_dirs (g h) = hf_dirs h) \<Longrightarrow> P (change_files g w)"
  using files_keeps [of g] by (simp add: io_keeps_def)

lemma starting: "steady P env \<Longrightarrow> io_keeps P (initialize_user_host n env workers wait)"
proof -
  assume s: "steady P env"
  have st: "io_keeps P (wait_stopped k env d pid)" for k d pid
    by (induction k) (auto intro!: io_keeps_bind io_keeps_if io_keeps_get io_keeps_return io_keeps_then steadyD [OF s]
        simp del: io_get_apply io_return_apply)
  have wm: "io_keeps P (wait_matching k env profile home m d)" for k profile home m d
    unfolding matching_health_def
    by (induction k) (auto intro!: io_keeps_bind io_keeps_if io_keeps_get io_keeps_return io_keeps_lift io_keeps_then io_keeps_Pair steadyD [OF s]
        simp: matching_health_def)
  show "io_keeps P (initialize_user_host n env workers wait)"
    unfolding initialize_user_host_def bootstrap_host_def upgrade_host_def start_and_wait_def matching_health_def Let_def
    by (intro view_rules st wm steadyD [OF s]; (erule files_change)?; simp)
qed

lemma holding:
  assumes "steady P (pe_hold pe)" "client_ports_keep P p"
  shows "io_keeps P (run_holder n pe p root)"
proof -
  have out: "io_keeps P (output_io m)" for m :: "(output_files, 'b) io"
  proof (rule io_keepsI)
    fix w assume w: "P w"
    obtain r fs where "m (hf_outputs (lw_world w)) = (r, fs)" by fastforce
    then show "P (snd (output_io m w))" by (auto simp: output_io_def dir_of_def intro!: frame [OF _ w])
  qed
  have append: "io_keeps P (io_modify (change_dir root (\<lambda>d. d\<lparr> fd_events := f d \<rparr>)))" for f
    by (rule dir_change) simp
  have "kept_ports P (holder_ports pe root p)"
  proof
    show "client_ports_keep P (holder_ports pe root p)"
      using assms(2) by (simp add: client_ports_keep_def holder_ports_def Let_def)
    show "file_ports_keep P (holder_ports pe root p)"
      unfolding file_ports_keep_def holder_ports_def Let_def holder_read_def holder_read_if_def
      by (simp, intro conjI allI view_rules steadyD [OF assms(1)] out append refresh [OF assms(1)]) simp_all
  qed
  then show ?thesis unfolding run_holder_def by (intro io_rules kept_ports.task)
qed

lemma stepping:
  assumes "steady P (pe_hold pe)" "client_ports_keep P p"
  shows "io_keeps P (hold_step n pe host p op)"
  by (cases op) (auto intro!: io_keeps_then io_keeps_return queueing resuming latching closing stopping reconciling running
      delivering starting holding assms)

lemma changing: "P w \<Longrightarrow> hold_change P w w' \<Longrightarrow> P w'"
  using stepping unfolding hold_change_def io_keeps_def by blast

end

interpretation report_steps: step_system "hold_change reports_ok" reports_ok
  by unfold_locales (rule reports.changing)

text \<open>
  C23: a completed close report rests on evidence. After any sequence of operations of the adapter, the
  host and the holders it runs, by any number of processes, every close report that says \<open>completed\<close>
  says so with the terminal confirmed, the hold released and nothing left outside.
\<close>

theorem completed_report_has_evidence:
  assumes "(hold_change reports_ok)\<^sup>*\<^sup>* w w'" "reports_ok w"
    and "dget (read_object (fd_close (dir_of root w'))) ''report_status'' = PStr ''completed''"
  shows "dget (read_object (fd_close (dir_of root w'))) ''terminal_confirmed'' = PBool True \<and>
    dget (read_object (fd_close (dir_of root w'))) ''hold_released'' = PBool True \<and>
    dget (read_object (fd_close (dir_of root w'))) ''external_execution_unresolved'' = PBool False"
  using reports_okD [OF report_steps.reach_inv [OF assms(1,2)], of root] assms(3) by (simp add: report_ok_def)

end
