(* ===== verification/Hold_Claims.thy ===== *)
theory Hold_Claims
  imports Hold_Invariants
begin

text \<open>
  Claims of a hold: what a host has claimed, how the claim of a dead host is recovered without starting a
  turn again, and what a reconciliation has proved when it reports a hold released.
\<close>

section \<open>Without interference\<close>

text \<open>The other processes leave the directories alone while an operation runs.\<close>

definition calm :: "'w hold_env \<Rightarrow> bool" where
  "calm env \<longleftrightarrow> (\<forall>D. steady (\<lambda>w. hf_dirs (lw_world w) = D) env)"

lemma same_dirs: "hf_dirs (lw_world w1) = hf_dirs (lw_world w) \<Longrightarrow> dir_of r w1 = dir_of r w"
  by (simp add: dir_of_def)

lemma calmD:
  assumes "calm env"
  shows "he_lock env l root w = (x, w1) \<Longrightarrow> dir_of r w1 = dir_of r w"
    "he_unlock env l root w = (x, w1) \<Longrightarrow> dir_of r w1 = dir_of r w"
    "he_pause env w = (x, w1) \<Longrightarrow> dir_of r w1 = dir_of r w"
proof -
  have s: "steady (\<lambda>v. hf_dirs (lw_world v) = hf_dirs (lw_world w)) env" using assms by (simp add: calm_def)
  show "he_lock env l root w = (x, w1) \<Longrightarrow> dir_of r w1 = dir_of r w"
    by (rule same_dirs, rule io_keepsD [OF steadyD(1) [OF s] refl])
  show "he_unlock env l root w = (x, w1) \<Longrightarrow> dir_of r w1 = dir_of r w"
    by (rule same_dirs, rule io_keepsD [OF steadyD(2) [OF s] refl])
  show "he_pause env w = (x, w1) \<Longrightarrow> dir_of r w1 = dir_of r w"
    by (rule same_dirs, rule io_keepsD [OF steadyD(3) [OF s] refl])
qed

lemma with_file_lock_Inr:
  assumes "with_file_lock env l root m w = (Inr x, w')" "calm env"
  shows "\<exists>w1 w2. m w1 = (Inr x, w2) \<and> (\<forall>r. dir_of r w1 = dir_of r w) \<and> (\<forall>r. dir_of r w' = dir_of r w2)"
proof -
  obtain u w1 where lock: "he_lock env l root w = (Inr u, w1)" and fin: "io_finally m (he_unlock env l root) w1 = (Inr x, w')"
    using assms(1) by (auto simp: with_file_lock_def io_then_Inr)
  obtain r w2 where m: "m w1 = (r, w2)" by fastforce
  with fin have "r = Inr x" and "\<exists>y. he_unlock env l root w2 = (Inr y, w')"
    by (auto simp: io_finally_def split: prod.splits sum.splits)
  then obtain y where unlock: "he_unlock env l root w2 = (Inr y, w')" by blast
  have "\<forall>r. dir_of r w1 = dir_of r w" "\<forall>r. dir_of r w' = dir_of r w2"
    using calmD(1) [OF assms(2) lock] calmD(2) [OF assms(2) unlock] by simp_all
  then show ?thesis using m \<open>r = Inr x\<close> by blast
qed

definition released :: "hold_dir \<Rightarrow> hold_dir" where
  "released d = d\<lparr> fd_owner := Absent, fd_claim := False \<rparr>"

definition unowned :: "hold_dir \<Rightarrow> hold_dir" where
  "unowned d = d\<lparr> fd_owner := Absent \<rparr>"

lemma released_simps [simp]: "released (released d) = released d" "released (unowned d) = released d"
  "\<not> fd_claim d \<Longrightarrow> unowned d = released d" "\<not> fd_claim (released d)" "fd_claim (unowned d) = fd_claim d"
  "fd_request (released d) = fd_request d" "fd_ack (released d) = fd_ack d" "fd_result (released d) = fd_result d"
  "fd_close (released d) = fd_close d" "fd_owner (released d) = Absent"
  by (simp_all add: released_def unowned_def)

lemma release_once_cases:
  assumes "release_once env root w = (r, w')"
  shows "dir_of r' w' = (if r' \<noteq> root then dir_of r' w else dir_of root w')"
    "r = Inr u \<Longrightarrow> dir_of root w' = released (dir_of root w)"
    "dir_of root w' = dir_of root w \<or> dir_of root w' = unowned (dir_of root w) \<or> dir_of root w' = released (dir_of root w)"
proof -
  obtain x w0 where 0: "env_io (he_unlink_owner env root) w = (x, w0)" by fastforce
  define w1 where "w1 = change_dir root (\<lambda>d. d\<lparr> fd_owner := Absent \<rparr>) w0"
  have d1: "dir_of q w1 = (if q = root then unowned (dir_of q w) else dir_of q w)" for q
    by (simp add: w1_def unowned_def env_io_dirs(1) [OF 0])
  obtain y w2 where 2: "env_io (he_rmdir_claim env root) w1 = (y, w2)" by fastforce
  define w3 where "w3 = change_dir root (\<lambda>d. d\<lparr> fd_claim := False \<rparr>) w2"
  have d3: "dir_of q w3 = (if q = root then released (dir_of q w) else dir_of q w)" for q
    by (simp add: w3_def env_io_dirs(1) [OF 2] d1 released_def unowned_def)
  consider (unlink) e where "x = Inl e" "r = Inl e" "w' = w0" | (free) "\<not> fd_claim (dir_of root w1)" "r = Inr ()" "w' = w1"
    | (rmdir) e where "r = Inl e" "w' = w2" | (done_) "r = Inr ()" "w' = w3"
  proof (cases x)
    case (Inl e)
    then show thesis using unlink assms 0 by (simp add: release_once_def)
  next
    case (Inr z)
    then have run: "(if \<not> fd_claim (dir_of root w1) then io_return () else io_then (env_io (he_rmdir_claim env root))
        (io_modify (change_dir root (\<lambda>d. d\<lparr> fd_claim := False \<rparr>)))) w1 = (r, w')"
      using assms 0 by (simp add: release_once_def w1_def)
    then show thesis using free rmdir done_ 2 by (cases y) (auto simp: w3_def split: if_splits)
  qed
  note cases = this
  show "dir_of r' w' = (if r' \<noteq> root then dir_of r' w else dir_of root w')"
    by (rule cases) (auto simp: d1 d3 env_io_dirs(1) [OF 0] env_io_dirs(1) [OF 2])
  show "r = Inr u \<Longrightarrow> dir_of root w' = released (dir_of root w)"
    by (rule cases) (auto simp: d1 d3)
  show "dir_of root w' = dir_of root w \<or> dir_of root w' = unowned (dir_of root w) \<or> dir_of root w' = released (dir_of root w)"
    by (rule cases) (auto simp: d1 d3 env_io_dirs(1) [OF 0] env_io_dirs(1) [OF 2])
qed

lemma release_claim_Inr:
  assumes "calm env" "release_claim env root w = (Inr u, w')"
  shows "dir_of r w' = (if r = root then released (dir_of root w) else dir_of r w)"
proof -
  have "release_attempts n env root w = (Inr u, w') \<Longrightarrow>
      dir_of r w' = (if r = root then released (dir_of root w) else dir_of r w)" for n w
  proof (induction n arbitrary: w)
    case 0
    then have "release_once env root w = (Inr u, w')" by simp
    from release_once_cases(1) [OF this, of r] release_once_cases(2) [OF this refl] show ?case by simp
  next
    case (Suc n)
    obtain x w1 where once: "release_once env root w = (x, w1)" by fastforce
    show ?case
    proof (cases x)
      case (Inr y)
      then have "w' = w1" using Suc.prems once by (simp add: io_catch_def)
      then show ?thesis using release_once_cases(1) [OF once, of r] release_once_cases(2) [OF once Inr] by simp
    next
      case (Inl e)
      then obtain v w2 where pause: "he_pause env w1 = (Inr v, w2)" and again: "release_attempts n env root w2 = (Inr u, w')"
        using Suc.prems once by (auto simp: io_catch_def io_then_Inr split: if_splits)
      have d2: "dir_of q w2 = dir_of q w1" for q by (rule calmD(3) [OF assms(1) pause])
      show ?thesis
        using Suc.IH [OF again] release_once_cases(1) [OF once, of r] release_once_cases(3) [OF once]
        by (auto simp: d2)
    qed
  qed
  then show ?thesis using assms(2) by (simp add: release_claim_def)
qed

section \<open>Claims\<close>

text \<open>
  C24: a host claims only what is queued. When \<open>_claim\<close> succeeds, the claim directory is its own, names
  its process, and the hold it claimed is still the one it scanned: same request and hold, no result,
  and the acknowledgement was the queued one, whatever other hosts did between the scan and the claim.
\<close>

theorem claim_is_of_queued_hold:
  assumes "claim_hold env root (Some request) w = (Inr True, w')"
  shows "fd_claim (dir_of root w') \<and> dget (read_object (fd_owner (dir_of root w'))) ''pid'' = PInt (he_pid env) \<and>
    fd_result (dir_of root w') = Absent \<and>
    py_eq (dget (read_object (fd_request (dir_of root w'))) ''request_id'') (dget request ''request_id'') \<and>
    py_eq (dget (read_object (fd_request (dir_of root w'))) ''hold_id'') (dget request ''hold_id'') \<and>
    dget (read_object (fd_ack (dir_of root w'))) ''status'' = PStr ''accepted'' \<and>
    dget (read_object (fd_ack (dir_of root w'))) ''phase'' = PStr ''claimed_by_user_host''"
proof -
  obtain w1 where free: "\<not> fd_claim (dir_of root w1)"
    and body: "claim_body env root (Some request) (change_dir root (\<lambda>d. d\<lparr> fd_claim := True \<rparr>) w1) = (Inr True, w')"
    using assms by (auto simp: claim_hold_def io_then_Inr io_bind_Inr io_try_def split: if_splits prod.splits sum.splits)
  define w2 where "w2 = change_dir root (\<lambda>d. d\<lparr> fd_claim := True \<rparr>) w1"
  obtain u w3 where owner: "write_file env root Owner_File [(''pid'', PInt (he_pid env)), (''observed_at'', now_str env w2)] w2 = (Inr u, w3)"
    and rest: "\<exists>current ack. strict_object (fd_request (dir_of root w3)) = Inr current \<and>
      strict_read (fd_ack (dir_of root w3)) = Inr ack \<and> claim_valid (dir_of root w3) current ack (Some request) \<and>
      (\<exists>v. write_file env root Ack_File (dmerge ack
          [(''phase'', PStr ''claimed_by_user_host''), (''host_pid'', PInt (he_pid env)), (''observed_at'', now_str env w2)]) w3 = (Inr v, w'))"
    using body unfolding w2_def [symmetric]
    by (auto simp: claim_body_def io_then_Inr io_bind_Inr split: if_splits)
  then obtain current ack v where current: "strict_object (fd_request (dir_of root w3)) = Inr current"
    and ack: "strict_read (fd_ack (dir_of root w3)) = Inr ack" and valid: "claim_valid (dir_of root w3) current ack (Some request)"
    and wrote: "write_file env root Ack_File (dmerge ack
          [(''phase'', PStr ''claimed_by_user_host''), (''host_pid'', PInt (he_pid env)), (''observed_at'', now_str env w2)]) w3 = (Inr v, w')"
    by blast
  have d3: "dir_of root w3 = set_file Owner_File (Saved (PDict [(''pid'', PInt (he_pid env)), (''observed_at'', now_str env w2)])) (dir_of root w2)"
    using write_file_Inr(1) [OF owner, of root] by simp
  have d': "dir_of root w' = set_file Ack_File (Saved (PDict (dmerge ack
      [(''phase'', PStr ''claimed_by_user_host''), (''host_pid'', PInt (he_pid env)), (''observed_at'', now_str env w2)]))) (dir_of root w3)"
    using write_file_Inr(1) [OF wrote, of root] by simp
  obtain q where q: "current = Some q" using valid by (auto simp: claim_valid_def split: option.splits)
  then have "read_object (fd_request (dir_of root w3)) = q" using strict_object_Inr [OF current] by (simp add: read_object_def)
  then show ?thesis using valid by (simp add: d' d3 claim_valid_def queued_ack_def q w2_def)
qed

lemma strict_read_filled: "strict_read s = Inr d \<Longrightarrow> read_object s = d"
  by (rule strict_read_Inr [symmetric])

lemma recovered_request_Inr:
  assumes "recovered_request request ack thread turn = Inr recovered"
  shows "dget recovered ''mode'' = PStr ''recover''" "dget recovered ''thread_id'' = PStr thread"
    "dget recovered ''turn_id'' = PStr turn" "dget recovered ''request_id'' = dget request ''request_id''"
proof -
  obtain a b c where "recovered = dmerge request [(''mode'', PStr ''recover''), (''thread_id'', PStr thread), (''turn_id'', PStr turn),
       (''initial_turn_count'', PInt a), (''initial_total_turn_count'', PInt b), (''max_turns'', PInt c)]"
    using assms by (auto simp: recovered_request_def rbind_def split: sum.splits)
  then show "dget recovered ''mode'' = PStr ''recover''" "dget recovered ''thread_id'' = PStr thread"
    "dget recovered ''turn_id'' = PStr turn" "dget recovered ''request_id'' = dget request ''request_id''"
    by simp_all
qed

text \<open>What a recovered claim leaves: the same turn to observe, never one to start.\<close>

definition observes_turn :: "pdict \<Rightarrow> hold_dir \<Rightarrow> hold_dir \<Rightarrow> bool" where
  "observes_turn request d d' \<longleftrightarrow> (let q = read_object (fd_request d') in
     dget q ''mode'' = PStr ''recover'' \<and> (\<exists>thread. dget q ''thread_id'' = PStr thread \<and> thread \<noteq> []) \<and>
     (\<exists>turn. dget q ''turn_id'' = PStr turn \<and> turn \<noteq> []) \<and> dget q ''request_id'' = dget request ''request_id'' \<and>
     (truthy (dget (read_object (fd_request d)) ''stop_requested'') \<longrightarrow> dget q ''stop_requested'' = PBool True) \<and>
     queued_ack (read_object (fd_ack d')))"

definition gave_up :: "hold_dir \<Rightarrow> hold_dir \<Rightarrow> bool" where
  "gave_up d d' \<longleftrightarrow> fd_request d' = fd_request d \<and> dget (read_object (fd_ack d')) ''status'' = PStr ''failed''"

lemma requeue_locked_True:
  assumes "calm env" "requeue_locked env root request recovered pid w = (Inr True, w')"
    and "recovered_request request ack thread turn = Inr recovered" "thread \<noteq> []" "turn \<noteq> []"
  shows "observes_turn request (dir_of root w) (dir_of root w') \<and> \<not> fd_claim (dir_of root w')"
proof -
  obtain current where current: "strict_read (fd_request (dir_of root w)) = Inr current"
    and run: "io_then (write_file env root Request_File
           (if truthy (dget current ''stop_requested'') then dset recovered ''stop_requested'' (PBool True) else recovered))
         (io_bind (io_get (now_str env)) (\<lambda>now.
          io_then (write_file env root Ack_File (requeued_row root request pid now))
          (io_then (release_claim env root) (io_return True)))) w = (Inr True, w')"
    using assms(2) by (auto simp: requeue_locked_def io_bind_Inr split: if_splits)
  obtain u v x w1 w2 where 1: "write_file env root Request_File
           (if truthy (dget current ''stop_requested'') then dset recovered ''stop_requested'' (PBool True) else recovered) w = (Inr u, w1)"
    and 2: "write_file env root Ack_File (requeued_row root request pid (now_str env w1)) w1 = (Inr v, w2)"
    and 3: "release_claim env root w2 = (Inr x, w')"
    using run by (auto simp: io_bind_Inr io_then_Inr)
  show ?thesis
    using recovered_request_Inr [OF assms(3)] assms(4,5) strict_read_filled [OF current]
    by (simp add: observes_turn_def release_claim_Inr [OF assms(1) 3, of root] write_file_Inr(1) [OF 2] write_file_Inr(1) [OF 1]
        queued_ack_def requeued_row_def Let_def)
qed


section \<open>Reconciliation\<close>

lemma dget_drop: "dget (filter (\<lambda>(k, v). k \<notin> S) d) k = (if k \<in> S then PNone else dget d k)"
  by (induction d) (auto split: if_splits)

definition unreleased :: "pdict \<Rightarrow> bool" where
  "unreleased r \<longleftrightarrow> dget r ''hold_released'' = PBool False"

lemma unreleased_rows [simp]: "unreleased (needs_readback hold)" "unreleased (unknown_because hold reason)"
    "unreleased (missing_identity hold key)"
  by (simp_all add: unreleased_def unknown_because_def missing_identity_def needs_readback_def)

lemma unreleased_dset [simp]: "k \<noteq> ''hold_released'' \<Longrightarrow> unreleased (dset d k v) = unreleased d"
  by (simp add: unreleased_def)

lemma reconcile_refusal_unreleased: "reconcile_refusal hold request ack result = Some r \<Longrightarrow> unreleased r"
  unfolding reconcile_refusal_def by (auto split: if_splits)

text \<open>The files of a hold that is over: its current request, a confirmed terminal, no claim.\<close>

definition settled_hold :: "string \<Rightarrow> hold_dir \<Rightarrow> bool" where
  "settled_hold hold d \<longleftrightarrow> (let request = read_object (fd_request d); result = read_object (fd_result d) in
     hold_id_of request = PStr hold \<and> truthy (dget request ''request_id'') \<and>
     py_eq (dget result ''request_id'') (dget request ''request_id'') \<and>
     dget result ''terminal_confirmed'' = PBool True \<and> in_words (dget result ''status'') loop_terminal \<and> \<not> fd_claim d)"

lemma reconcile_refusal_None:
  assumes "reconcile_refusal hold request ack result = None"
  shows "hold_id_of request = PStr hold" "truthy (dget request ''request_id'')"
    "py_eq (dget result ''request_id'') (dget request ''request_id'')"
  using assms unfolding reconcile_refusal_def by (auto split: if_splits)

lemma claim_block_unreleased: "claim_block env host hold d result w = (Inr (Some r), w') \<Longrightarrow> unreleased r"
  unfolding claim_block_def Let_def by (auto simp: io_bind_Inr split: if_splits option.splits)

lemma claim_block_dirs: "claim_block env host hold d result w = (x, w') \<Longrightarrow> w' = w"
  unfolding claim_block_def Let_def owner_proof_def
  by (auto simp: io_bind_def split: if_splits option.splits sum.splits)

lemma reconcile_undispatched_settled:
  assumes "reconcile_undispatched env host root hold ack result w = (Inr r, w')" "\<not> unreleased r"
    and "undispatched_model request ack result (fd_claim (dir_of root w))"
    and "read_object (fd_request (dir_of root w)) = request" "reconcile_refusal hold request ack result = None"
  shows "settled_hold hold (dir_of root w')"
proof -
  obtain u v w1 now where 1: "write_file env root Result_File (undispatched_row result now) w = (Inr u, w1)"
    and 2: "write_file env root Ack_File (dmerge ack (undispatched_row result now)) w1 = (Inr v, w')"
    using assms(1,2) by (auto simp: reconcile_undispatched_def io_bind_Inr io_then_Inr owner_proof_def Let_def split: if_splits)
  show ?thesis
    using reconcile_refusal_None [OF assms(5)] assms(3,4)
    by (simp add: settled_hold_def write_file_Inr(1) [OF 2] write_file_Inr(1) [OF 1] undispatched_row_def Let_def
        undispatched_model_def in_words_def loop_terminal_def)
qed

lemma dget_reconciled:
  assumes "k \<notin> {''cleanup_error'', ''cleanup_owner''}"
  shows "dget (reconciled_row result thread turn status now) k = dget (dmerge result
       [(''thread_id'', PStr thread), (''turn_id'', PStr turn), (''terminal_confirmed'', PBool True),
        (''status'', if in_words (dget result ''status'') loop_terminal then dget result ''status'' else PStr ''failed''),
        (''recovery'', PDict [(''source'', PStr ''app_server_thread_read''), (''turn_status'', status), (''observed_at'', now)])]) k"
  unfolding reconciled_row_def using assms by (subst dget_drop) (simp only: if_False)

lemma reconcile_turn_settled:
  assumes "reconcile_turn env host root hold d ack result thread turn w = (Inr r, w')" "\<not> unreleased r" "calm env"
    and "read_object (fd_request (dir_of root w)) = request" "reconcile_refusal hold request ack result = None"
  shows "settled_hold hold (dir_of root w')"
proof -
  obtain b w0 where block: "claim_block env host hold d result w = (Inr b, w0)"
    and run: "(case b of Some r \<Rightarrow> io_return r | None \<Rightarrow> io_bind (env_io (he_read_thread env thread))
        (settle_readback env root hold ack result thread turn)) w0 = (Inr r, w')"
    using assms(1) unfolding reconcile_turn_def io_bind_Inr by blast
  have w0: "w0 = w" by (rule claim_block_dirs [OF block])
  have b: "b = None"
  proof (cases b)
    case (Some r1)
    then have "r1 = r" using run by simp
    then show ?thesis using claim_block_unreleased [OF block [unfolded Some]] assms(2) by simp
  qed
  obtain readback w1 where read: "env_io (he_read_thread env thread) w = (Inr readback, w1)"
    and run1: "settle_readback env root hold ack result thread turn readback w1 = (Inr r, w')"
    using run b w0 by (auto simp: io_bind_Inr)
  obtain status where "exact_turn_status readback thread turn = Some status"
    using run1 assms(2) by (cases "exact_turn_status readback thread turn") (auto simp: settle_readback_def)
  with run1 obtain w2 w3 row u v where row: "row = reconciled_row result thread turn status (now_str env w1)" and
    1: "write_file env root Result_File row w1 = (Inr u, w2)" and
    2: "write_file env root Ack_File (dmerge ack row) w2 = (Inr v, w3)" and
    3: "release_reconciled env root row w3 = (Inr r, w')"
    by (auto simp: settle_readback_def io_bind_Inr io_then_Inr Let_def)
  obtain x w4 where rel: "release_claim env root w3 = (x, w4)" by fastforce
  have x: "x = Inr ()" "w4 = w'"
    using 3 assms(2) rel by (cases x; auto simp: release_reconciled_def io_try_def io_then_Inr unreleased_def Let_def split: if_splits)+
  have kept: "dget row ''terminal_confirmed'' = PBool True" "in_words (dget row ''status'') loop_terminal"
      "dget row ''request_id'' = dget result ''request_id''"
    by (simp_all add: row dget_reconciled) (simp add: in_words_def loop_terminal_def)
  show ?thesis
    using reconcile_refusal_None [OF assms(5)] assms(4) kept
    by (simp add: settled_hold_def release_claim_Inr [OF assms(3) rel [unfolded x], of root] write_file_Inr(1) [OF 2]
        write_file_Inr(1) [OF 1] env_io_dirs(1) [OF read] Let_def)
qed

lemma reconcile_locked_settled:
  assumes "reconcile_locked env host root hold w = (Inr r, w')" "dget r ''hold_released'' = PBool True" "calm env"
  shows "settled_hold hold (dir_of root w')"
proof -
  obtain request ack result where
    read: "strict_read (fd_request (dir_of root w)) = Inr request" "strict_read (fd_ack (dir_of root w)) = Inr ack"
      "strict_read (fd_result (dir_of root w)) = Inr result"
    and run: "(case reconcile_refusal hold request ack result of
       Some r \<Rightarrow> io_return r
     | None \<Rightarrow>
         if dget result ''terminal_confirmed'' = PBool True \<and> in_words (dget result ''status'') loop_terminal \<and> \<not> fd_claim (dir_of root w)
         then io_return (dset result ''hold_released'' (PBool True))
         else if undispatched_model request ack result (fd_claim (dir_of root w)) then reconcile_undispatched env host root hold ack result
         else reconcile_identities env host root hold (dir_of root w) request ack result) w = (Inr r, w')"
    using assms(1) by (auto simp: reconcile_locked_def io_bind_Inr)
  have r: "\<not> unreleased r" using assms(2) by (simp add: unreleased_def)
  have request: "read_object (fd_request (dir_of root w)) = request" and result: "read_object (fd_result (dir_of root w)) = result"
    using read strict_read_filled by blast+
  have none: "reconcile_refusal hold request ack result = None"
    using run r by (auto dest: reconcile_refusal_unreleased split: option.splits)
  consider (known) "dget result ''terminal_confirmed'' = PBool True \<and> in_words (dget result ''status'') loop_terminal \<and>
      \<not> fd_claim (dir_of root w)" "w' = w"
    | (undispatched) "undispatched_model request ack result (fd_claim (dir_of root w))"
      "reconcile_undispatched env host root hold ack result w = (Inr r, w')"
    | (identities) "reconcile_identities env host root hold (dir_of root w) request ack result w = (Inr r, w')"
    using run none by (auto split: if_splits)
  then show ?thesis
  proof cases
    case known
    then show ?thesis using reconcile_refusal_None [OF none] by (simp add: settled_hold_def request result)
  next
    case undispatched
    then show ?thesis using reconcile_undispatched_settled [OF _ r _ request none] by blast
  next
    case identities
    have exact: "exact_identity hold key vs = Inl x \<Longrightarrow> unreleased x" for key vs x
      by (auto simp: exact_identity_def split: list.splits)
    from identities obtain thread turn where
      "reconcile_turn env host root hold (dir_of root w) ack result thread turn w = (Inr r, w')"
      using r by (auto simp: reconcile_identities_def inspect_thread_def io_bind_Inr Let_def
          dest: exact split: if_splits sum.splits)
    then show ?thesis by (rule reconcile_turn_settled [OF _ r assms(3) request none])
  qed
qed


end
