(* ===== verification/Hold_Release.thy ===== *)
theory Hold_Release
  imports Hold_Claims
begin

text \<open>
  The adapter's answers: health of the host, delivery of notifications, status, evidence and close of a hold, the
  release of a controlled stop, queueing and resuming.
\<close>

section \<open>The health of the host\<close>

lemma str_int_Nil: "str_int [] = None"
  by code_simp

lemma capacity_agrees:
  assumes "py_int (py_or (dget h ''worker_capacity'') (PInt 1)) = Inr c"
  shows "(case positive_of (dget h ''worker_capacity'') of Some c \<Rightarrow> c | None \<Rightarrow> 1) = max c 1"
  using assms by (cases "dget h ''worker_capacity''") (auto simp: positive_of_def py_or_def str_int_Nil split: if_splits option.splits sum.splits)

text \<open>
  the two checks of the host's health agree. The adapter (\<open>hold_host_health\<close>, before a loop
  is created) and the host (\<open>_matching_health\<close>, before another host is started) accept the same
  health file, for a configuration with a profile and a home and a worker capacity that is a number.
\<close>

theorem host_health_agrees:
  assumes "stripped (tc_profile config) = profile" "profile \<noteq> []" "stripped (tc_home config) = home" "home \<noteq> []"
    and "hf_health (lw_world w) = Saved (PDict h)" "py_int (py_or (dget h ''worker_capacity'') (PInt 1)) = Inr c"
  shows "is_ready (hold_health env config required w) = health_matches env profile home required w h"
proof -
  have cap: "enough_workers required h = (\<not> max c 1 < max required 1)"
    using assms(6) by (auto simp: enough_workers_def)
  have live: "live_process env w required h = (process_problem env w h = None \<and> enough_workers required h)"
    by (cases "py_int (dget h ''pid'')")
      (auto simp: live_process_def process_problem_def positive_of_def same_start_def split: option.splits)
  have ready: "is_ready (not_ready reason) = False" "is_ready [(''status'', PStr ''ready'')]" for reason
    by (simp_all add: is_ready_def not_ready_def)
  have fresh: "health_fresh (hold_now env w) h \<Longrightarrow> health_instant (dget h ''observed_at'') \<noteq> None"
    by (auto simp: health_fresh_def split: option.splits)
  show ?thesis
    unfolding hold_health_def assms(5) read_object_simps option.case health_problem_def capacity_agrees [OF assms(6)] Let_def
      health_matches_def live cap assms(1,3)
    using assms(2,4) fresh by (auto simp: ready split: option.splits)
qed

section \<open>Notifications\<close>

lemma jsonl_rows_append [simp]: "jsonl_rows (ls @ [Some (PDict r)]) = jsonl_rows ls @ [r]"
  by (simp add: jsonl_rows_def List.map_filter_def)

lemma existing_root_frame:
  assumes "\<And>r. has_dir r w' = has_dir r w" "\<And>p. roots_in p w' = roots_in p w"
    and "\<And>r. hold_id_from_state (dir_of r w') = hold_id_from_state (dir_of r w)"
  shows "existing_root hold w' = existing_root hold w"
proof -
  have "find_in p hold w' = find_in p hold w" for p by (simp add: find_in_def assms)
  then show ?thesis by (simp only: existing_root_def)
qed

lemma find_in_set: "find P xs = Some x \<Longrightarrow> x \<in> set xs"
  by (metis find_Some_iff nth_mem)

lemma existing_root_dir: "existing_root hold w = Some root \<Longrightarrow> has_dir root w"
proof -
  have member: "root \<in> set (roots_in p w) \<Longrightarrow> has_dir root w" for p
    by (auto simp: roots_in_def has_dir_def map_of_eq_None_iff)
  have found: "find_in p hold w = Some root \<Longrightarrow> has_dir root w" for p
    using member by (auto simp: find_in_def dest!: find_in_set split: if_splits)
  show "existing_root hold w = Some root \<Longrightarrow> has_dir root w"
    unfolding existing_root_def by (cases "find_in Task_Holds hold w") (simp_all add: found)
qed

lemma update_keys: "k \<in> fst ` set xs \<Longrightarrow> map fst (AList.update k v xs) = map fst xs"
  by (induction xs) auto

lemma roots_in_change: "has_dir root w \<Longrightarrow> roots_in p (change_dir root f w) = roots_in p w"
  by (simp add: roots_in_def change_dir_def has_dir_def map_of_eq_None_iff update_keys)

text \<open>
  a delivered notification is not pending any more, and nothing else changes. After a delivery
  is recorded, the pending notifications of the hold are those of before, without the event when the
  delivery carries the status \<open>delivered\<close> and a message id, and all of them when it does not.
\<close>

theorem delivery_settles_event:
  assumes "existing_root hold w = Some root" "record_hold_notification_delivery env hold event delivery w = (Inr u, w')"
  shows "pending_hold_notifications hold kind w' =
    (if py_str (py_or (dget delivery ''delivery_status'') (py_or (dget delivery ''status'') (PStr ''failed''))) = ''delivered'' \<and>
        stripped (dget delivery ''message_id'') \<noteq> []
     then filter (\<lambda>row. text_or_empty (dget row ''event_id'') \<noteq> event) (pending_hold_notifications hold kind w)
     else pending_hold_notifications hold kind w)"
proof -
  define row where "row = delivery_row event delivery (now_str env w)"
  have w': "w' = change_dir root (\<lambda>d. d\<lparr> fd_deliveries := fd_deliveries d @ [Some (PDict row)] \<rparr>) w"
    using assms by (simp add: record_hold_notification_delivery_def row_def)
  have state: "hold_id_from_state (d\<lparr> fd_deliveries := x \<rparr>) = hold_id_from_state d" for d x
    by (simp add: hold_id_from_state_def)
  have root: "existing_root hold w' = Some root"
    using existing_root_dir [OF assms(1)] unfolding assms(1) [symmetric] w'
    by (intro existing_root_frame) (auto simp: roots_in_change state)
  have ids: "delivered_ids (ls @ [Some (PDict row)]) = delivered_ids ls @
      (if py_str (py_or (dget delivery ''delivery_status'') (py_or (dget delivery ''status'') (PStr ''failed''))) = ''delivered'' \<and>
        stripped (dget delivery ''message_id'') \<noteq> [] then [event] else [])" for ls
    by (auto simp: delivered_ids_def row_def delivery_row_def text_or_empty_def)
  show ?thesis
    unfolding pending_hold_notifications_def root assms(1) option.case pending_rows_def
    by (auto simp: w' ids intro!: filter_cong)
qed

section \<open>The status of a hold\<close>

text \<open>What stands behind a status that says the hold is released.\<close>

definition release_evidence :: "hold_dir \<Rightarrow> bool" where
  "release_evidence d \<longleftrightarrow> (\<exists>value. fd_result d = Saved (PDict value) \<and> text_or_empty (dget value ''status'') \<in> set loop_terminal \<and>
     (dget value ''terminal_confirmed'' = PBool True \<or>
        non_dispatch (read_object (fd_request d)) (read_object (fd_close d)) value) \<and>
     \<not> status_mismatch (read_object (fd_request d)) (read_object (fd_close d)) value \<and> \<not> fd_claim d)"

lemma legacy_output_frame [simp]: "k \<noteq> ''output_verification'' \<Longrightarrow> dget (legacy_output q value) k = dget value k"
  by (simp add: legacy_output_def Let_def)

lemma legacy_output_status [simp]: "status_mismatch q c (legacy_output q v) = status_mismatch q c v"
    "non_dispatch q c (legacy_output q v) = non_dispatch q c v"
  by (simp_all add: status_mismatch_def non_dispatch_def)

lemma status_view_released:
  assumes "dget (status_view d is_result value) ''hold_released'' = PBool True" "object_of (if is_result then fd_result d else fd_ack d) = Some value"
  shows "release_evidence d"
  using assms by (auto simp: status_view_def Let_def release_evidence_def object_of_Some split: if_splits)

lemma first_status_released:
  "first_status xs = Inr d \<Longrightarrow> dget d ''hold_released'' = PBool True \<Longrightarrow> \<exists>x \<in> fst ` set xs. release_evidence x"
proof (induction xs)
  case (Cons x xs)
  obtain d0 b where x: "x = (d0, b)" by (cases x)
  show ?case
  proof (cases "object_of (if b then fd_result d0 else fd_ack d0)")
    case None
    then have "first_status xs = Inr d"
      using Cons.prems(1) strict_object_Inr by (cases "strict_object (if b then fd_result d0 else fd_ack d0)") (auto simp: x rbind_def)
    then show ?thesis using Cons.IH Cons.prems(2) by auto
  next
    case (Some v)
    then have "d = status_view d0 b v"
      using Cons.prems(1) strict_object_Inr by (cases "strict_object (if b then fd_result d0 else fd_ack d0)") (auto simp: x rbind_def)
    then show ?thesis using status_view_released [OF _ Some] Cons.prems(2) by (simp add: x)
  qed
qed simp

text \<open>
  A hold is reported released only on its own evidence: a result file of the hold with a terminal status
  that is confirmed (or whose close confirmed that nothing was dispatched), not bound to another
  request than the current one, and no claim of a host.
\<close>

theorem released_status:
  assumes "hold_status hold w = Inr d" "dget d ''hold_released'' = PBool True"
  shows "\<exists>parent. release_evidence (dir_of (parent, safe_id hold) w)"
  using first_status_released [OF assms(1) [unfolded hold_status_def] assms(2)] by (auto simp: Let_def)

section \<open>Closing\<close>

definition closed_ok :: "pdict \<Rightarrow> bool" where
  "closed_ok r \<longleftrightarrow> (dget r ''status'' = PStr ''closed'' \<longrightarrow> (\<exists>report. dget r ''close_report'' = PDict report \<and>
     dget report ''terminal_confirmed'' = PBool True \<and> dget report ''hold_released'' = PBool True))"

lemma close_reply_ok: "report_ok report \<Longrightarrow> closed_ok (close_reply final report)"
  by (auto simp: closed_ok_def close_reply_def report_ok_def split: if_splits)

lemma apply_close_ok:
  assumes "steady reports_ok env"
  shows "io_post reports_ok (apply_close env root hold binding) (\<lambda>r w. closed_ok r) (\<lambda>e. reports_ok)"
proof -
  have stop: "io_keeps reports_ok (with_file_lock env Request_Lock root (stop_current env root hold binding))"
    unfolding stop_current_def latch_stop_def Let_def
    by (intro reports.view_rules assms) simp_all
  have status: "io_keeps reports_ok (status_now hold)"
    unfolding status_now_def by (intro io_rules)
  have action: "io_keeps reports_ok (close_action env root hold data)" for data
    unfolding close_action_def status_now_def new_host_def
    by (intro reports.view_rules reports.stopping reports.reconciling assms)
  have last: "io_post (\<lambda>w. reports_ok w \<and> report_ok report)
      (io_bind (status_now hold) (\<lambda>final. io_return (close_reply final report))) (\<lambda>r w. closed_ok r) (\<lambda>e. reports_ok)" for report
    by (rule io_post_told, rule io_post_bind_keeps [OF status], assumption, rule io_post_pure(1), erule close_reply_ok)
  have inner: "io_post reports_ok (case z of (data, action) \<Rightarrow>
      io_bind (refresh_close_report env root (close_evidence binding data) action []) (\<lambda>report.
      io_bind (status_now hold) (\<lambda>final. io_return (close_reply final report)))) (\<lambda>r w. closed_ok r) (\<lambda>e. reports_ok)" for z
    by (cases z) (auto intro!: io_post_bind [OF refresh_report_ok [OF assms] last])
  show ?thesis
    unfolding apply_close_def
    by (rule io_post_then_keeps [OF stop], assumption, rule io_post_bind_keeps [OF status], assumption,
        rule io_post_bind_keeps [OF action], assumption, rule inner)
qed

text \<open>
  \<open>closed\<close> means closed. When \<open>close_hold\<close> answers \<open>closed\<close>, the report it carries has the
  terminal confirmed and the hold released; everything less is \<open>closing\<close> or \<open>closed_unconfirmed\<close>.
\<close>

theorem closed_reply_is_released:
  assumes "steady reports_ok env" "reports_ok w" "close_hold env hold request_id parent w = (Inr r, w')"
    and "dget r ''status'' = PStr ''closed''"
  shows "\<exists>report. dget r ''close_report'' = PDict report \<and> dget report ''terminal_confirmed'' = PBool True \<and>
    dget report ''hold_released'' = PBool True"
proof -
  have root: "io_keeps reports_ok (the_root hold)" unfolding the_root_def by (intro io_rules)
  have recorded: "io_keeps reports_ok (with_file_lock env Close_Lock root (record_close env root hold request_id parent))" for root
    by (intro with_file_lock_keeps assms(1) record_close_ok)
  have failed: "io_post reports_ok (io_then (refresh_close_report env root ev None f) (io_raise e)) (\<lambda>r w. closed_ok r) (\<lambda>e. reports_ok)" for root ev f e
    by (rule io_post_then_keeps [OF io_post_to_keeps [OF refresh_report_ok [OF assms(1)]]]) (auto intro: io_post_pure)
  have "io_post reports_ok (close_hold env hold request_id parent) (\<lambda>r w. closed_ok r) (\<lambda>e. reports_ok)"
    unfolding close_hold_def
    by (rule io_post_bind_keeps [OF root], assumption, rule io_post_bind_keeps [OF recorded], assumption,
        rule io_post_catch [OF apply_close_ok [OF assms(1)] failed])
  from io_postD(1) [OF this assms(2,3)] assms(4) show ?thesis by (simp add: closed_ok_def)
qed

lemma calm_steady:
  assumes "calm env" "\<And>w w'. hf_dirs (lw_world w') = hf_dirs (lw_world w) \<Longrightarrow> P w \<Longrightarrow> P w'"
  shows "steady P env"
proof -
  have keeps: "io_keeps P m" if "\<And>D. io_keeps (\<lambda>w. hf_dirs (lw_world w) = D) m" for m :: "('a, unit) hold_io"
  proof (rule io_keepsI)
    fix w assume "P w"
    moreover have "hf_dirs (lw_world (snd (m w))) = hf_dirs (lw_world w)" using that by (simp add: io_keeps_def)
    ultimately show "P (snd (m w))" by (rule assms(2) [rotated])
  qed
  show ?thesis
    using assms(1) unfolding steady_def calm_def by (intro conjI allI keeps) blast+
qed

text \<open>An assertion about one directory that the acknowledgement and the close report do not matter for.\<close>

definition dir_holds :: "hold_root \<Rightarrow> (hold_dir \<Rightarrow> bool) \<Rightarrow> 'w hold_world \<Rightarrow> bool" where
  "dir_holds root Q w \<longleftrightarrow> Q (dir_of root w)"

lemma dir_holds_same: "hf_dirs (lw_world w') = hf_dirs (lw_world w) \<Longrightarrow> dir_holds root Q w \<Longrightarrow> dir_holds root Q w'"
  by (simp add: dir_holds_def dir_of_def)

lemma dir_holds_env: "io_keeps (dir_holds root Q) (env_io m)"
  by (rule io_keepsI) (auto simp: dir_holds_def env_io_dirs [OF surjective_pairing])

lemma dir_holds_write:
  "(\<And>d. Q d \<Longrightarrow> Q (set_file f (Saved (PDict v)) d)) \<Longrightarrow> io_keeps (dir_holds root Q) (write_file env r f v)"
  unfolding write_file_def by (intro io_keeps_then dir_holds_env io_keeps_modify) (auto simp: dir_holds_def)

lemma dir_holds_parent: "io_keeps (dir_holds root Q) (tell_parent report)"
  unfolding tell_parent_def
  by (intro io_rules) (rule io_keepsI, auto simp: dir_holds_def record_child_close_apply dir_of_def Let_def split: option.splits)

lemma dir_holds_health: "io_keeps (dir_holds root Q) (write_health env host status request_id)"
proof -
  have "io_keeps (dir_holds root Q) (\<lambda>w. (Inr (), change_files (\<lambda>h. h\<lparr> hf_health := v w \<rparr>) w))" for v :: "'a hold_world \<Rightarrow> saved"
    by (rule io_keepsI) (auto simp: dir_holds_def dir_of_def)
  then show ?thesis unfolding write_health_def by (intro io_rules dir_holds_env)
qed

lemma dir_holds_refresh:
  assumes "calm env" "\<And>d v. Q d \<Longrightarrow> Q (d\<lparr> fd_close := v \<rparr>)"
  shows "io_keeps (dir_holds root Q) (refresh_close_report env r evidence action failure)"
  unfolding refresh_close_report_def refresh_locked_def update_report_def Let_def
  by (intro io_rules with_file_lock_keeps calm_steady [OF assms(1)] dir_holds_write dir_holds_parent)
    (simp_all add: assms(2) dir_holds_same)

definition stop_flags :: "string list" where
  "stop_flags = [''host_stop'', ''terminal_confirmed'', ''holder_exit_confirmed'', ''holder_client_exit_confirmed'']"

definition exit_proven :: "hold_dir \<Rightarrow> bool" where
  "exit_proven d \<longleftrightarrow> flags_true stop_flags (read_object (fd_result d))"

definition claimed_stop :: "hold_dir \<Rightarrow> bool" where
  "claimed_stop d \<longleftrightarrow> fd_claim d \<and> dget (read_object (fd_result d)) ''host_stop'' = PBool True"

definition guarded_stop :: "hold_dir \<Rightarrow> bool" where
  "guarded_stop d \<longleftrightarrow> claimed_stop d \<or> exit_proven d"

lemma exit_release:
  assumes "calm env"
  shows "io_keeps (dir_holds root exit_proven) (release_claim env root)"
proof -
  have "file_view (dir_holds root exit_proven) {Result_File}"
    by unfold_locales (simp add: dir_holds_def exit_proven_def)
  then show ?thesis
    by (rule file_view.release_keeps [OF _ calm_steady [OF assms]]) (simp_all add: dir_holds_same)
qed

lemma controlled_row_flags:
  "dget (controlled_row pid returned saved) ''host_stop'' = PBool True"
  "may_release returned (controlled_row pid returned saved) \<Longrightarrow> flags_true stop_flags (controlled_row pid returned saved)"
  by (auto simp: controlled_row_def may_release_def flags_true_def stop_flags_def Let_def split: if_splits)

abbreviation "at_guard root \<equiv> dir_holds root guarded_stop"

lemma claimed_guarded: "dir_holds root claimed_stop w \<Longrightarrow> at_guard root w"
  by (simp add: dir_holds_def guarded_stop_def)

lemma exit_guarded: "dir_holds root exit_proven w \<Longrightarrow> at_guard root w"
  by (simp add: dir_holds_def guarded_stop_def)

lemma write_row_claimed:
  assumes "dget row ''host_stop'' = PBool True"
  shows "io_keeps (dir_holds root claimed_stop) (write_file env root Result_File row)"
    "io_keeps (dir_holds root claimed_stop) (write_file env root Ack_File v)"
  by (rule dir_holds_write; simp add: claimed_stop_def assms)+

lemma write_row_exit:
  assumes "flags_true stop_flags row" "dget row ''host_stop'' = PBool True"
  shows "io_post (dir_holds root claimed_stop) (write_file env root Result_File row)
    (\<lambda>u. dir_holds root exit_proven) (\<lambda>e. at_guard root)"
proof (rule io_postI)
  fix w u w'
  assume "write_file env root Result_File row w = (Inr u, w')"
  from write_file_Inr(1) [OF this, of root] show "dir_holds root exit_proven w'"
    using assms(1) by (simp add: dir_holds_def exit_proven_def)
next
  fix w e w'
  assume "dir_holds root claimed_stop w" "write_file env root Result_File row w = (Inl e, w')"
  from io_keepsD [OF write_row_claimed(1) [OF assms(2)] this] show "at_guard root w'" by (rule claimed_guarded)
qed

lemma settle_row_guarded:
  assumes "calm env" "row = controlled_row (he_pid env) returned saved"
  shows "io_post (dir_holds root claimed_stop)
      (io_then (write_file env root Result_File row) (io_then (write_file env root Ack_File row)
         (if may_release returned row then release_claim env root else io_return ())))
      (\<lambda>u. at_guard root) (\<lambda>e. at_guard root)"
proof (cases "may_release returned row")
  case True
  have flags: "flags_true stop_flags row" "dget row ''host_stop'' = PBool True"
    using controlled_row_flags True by (simp_all add: assms(2))
  have "io_keeps (dir_holds root exit_proven) (io_then (write_file env root Ack_File row)
      (if may_release returned row then release_claim env root else io_return ()))"
    by (intro io_rules exit_release [OF assms(1)] dir_holds_write) (simp add: exit_proven_def)
  then have "io_post (dir_holds root exit_proven) (io_then (write_file env root Ack_File row)
      (if may_release returned row then release_claim env root else io_return ())) (\<lambda>u. at_guard root) (\<lambda>e. at_guard root)"
    by (rule io_post_weaken [OF io_post_keeps [where E = "\<lambda>e. dir_holds root exit_proven"]]) (simp_all only: exit_guarded)
  then show ?thesis by (rule io_post_then [OF write_row_exit [OF flags]])
next
  case False
  have stop: "dget row ''host_stop'' = PBool True" using controlled_row_flags(1) by (simp add: assms(2))
  have "io_keeps (dir_holds root claimed_stop) (io_then (write_file env root Result_File row)
      (io_then (write_file env root Ack_File row) (if may_release returned row then release_claim env root else io_return ())))"
    using False by (intro io_keeps_then io_keeps_if write_row_claimed [OF stop] io_keeps_return) simp_all
  then show ?thesis by (rule io_post_weaken [OF io_post_keeps]) (auto intro: claimed_guarded)
qed

lemma settle_claim_guarded:
  assumes "calm env"
  shows "io_post (dir_holds root claimed_stop) (settle_claim env root request returned) (\<lambda>u. at_guard root) (\<lambda>e. at_guard root)"
  unfolding settle_claim_def Let_def
proof (rule io_post_know [where A = "\<lambda>r. \<forall>saved. r = Inr saved \<longrightarrow> dget saved ''host_stop'' = PBool True"], goal_cases)
  case (1 w)
  then show ?case by (auto simp: dir_holds_def claimed_stop_def dest: strict_read_Inr)
next
  case (2 r)
  show ?case
  proof (rule io_post_lift, rule claimed_guarded, assumption)
    fix saved assume "r = Inr saved"
    with 2 have stop: "dget saved ''host_stop'' = PBool True" by blast
    show "io_post (dir_holds root claimed_stop)
         (io_bind (if dget saved ''host_stop'' = PBool True then io_return True
              else if returned then io_return False else controlled_intent root request) (\<lambda>controlled.
           if \<not> controlled then release_claim env root
           else io_then (write_file env root Result_File (controlled_row (he_pid env) returned saved))
             (io_then (write_file env root Ack_File (controlled_row (he_pid env) returned saved))
               (if may_release returned (controlled_row (he_pid env) returned saved) then release_claim env root else io_return ()))))
         (\<lambda>u. at_guard root) (\<lambda>e. at_guard root)"
      using settle_row_guarded [OF assms refl] by (simp only: stop simp_thms if_True io_lift_bind if_False)
  qed
qed

lemma cleanup_failed_guarded: "io_keeps (at_guard root) (cleanup_failed env root owner e)"
proof (rule io_post_to_keeps [where Q = "\<lambda>u. True"])
  have row: "io_keeps (at_guard root) (write_file env root Ack_File v)" for v
    by (rule dir_holds_write) (simp add: guarded_stop_def claimed_stop_def exit_proven_def)
  have result: "io_post (\<lambda>w. at_guard root w \<and> strict_object (fd_result (dir_of root w)) = Inr (Some saved))
      (write_file env root Result_File (dmerge saved [(''cleanup_error'', a), (''cleanup_owner'', b)]))
      (\<lambda>u. at_guard root) (\<lambda>e. at_guard root)" for saved a b
  proof (rule io_postI)
    fix w u w'
    assume w: "at_guard root w \<and> strict_object (fd_result (dir_of root w)) = Inr (Some saved)"
      and "write_file env root Result_File (dmerge saved [(''cleanup_error'', a), (''cleanup_owner'', b)]) w = (Inr u, w')"
    moreover have "read_object (fd_result (dir_of root w)) = saved"
      using w strict_object_Inr by (fastforce simp: read_object_def)
    ultimately show "at_guard root w'"
      using write_file_Inr(1) [of env root Result_File _ w u w' root]
      by (simp add: dir_holds_def guarded_stop_def claimed_stop_def exit_proven_def flags_true_def stop_flags_def)
  next
    fix w e w'
    assume "at_guard root w \<and> strict_object (fd_result (dir_of root w)) = Inr (Some saved)"
      and fail: "write_file env root Result_File (dmerge saved [(''cleanup_error'', a), (''cleanup_owner'', b)]) w = (Inl e, w')"
    then show "at_guard root w'"
      by (auto simp: write_file_def io_then_def io_bind_def dir_holds_def split: prod.splits sum.splits dest: env_io_dirs(1) [where root = root])
  qed
  show "io_post (at_guard root) (cleanup_failed env root owner e) (\<lambda>u w. at_guard root w \<and> True) (\<lambda>e. at_guard root)"
    unfolding cleanup_failed_def Let_def simp_thms
  proof (rule io_post_get, rule io_post_lift, blast, goal_cases)
    case (1 r x)
    show ?case
    proof (cases x)
      case None
      then show ?thesis by (auto intro: io_post_pure)
    next
      case (Some saved)
      show ?thesis
        unfolding Some option.case
      proof (rule io_post_then [where R = "at_guard root"])
        show "io_post (\<lambda>w. at_guard root w \<and> strict_object (fd_result (dir_of root w)) = r)
            (write_file env root Result_File (dmerge saved [(''cleanup_error'', PStr (exc_text e)),
               (''cleanup_owner'', case owner of None \<Rightarrow> PNone | Some x \<Rightarrow> PDict x)])) (\<lambda>u. at_guard root) (\<lambda>e. at_guard root)"
          by (rule io_post_weaken [OF result]) (use 1 Some in auto)
        show "io_post (at_guard root) (if truthy (dget saved ''host_stop'') then write_file env root Ack_File
            (dmerge saved [(''cleanup_error'', PStr (exc_text e)), (''cleanup_owner'', case owner of None \<Rightarrow> PNone | Some x \<Rightarrow> PDict x)])
            else io_return ()) (\<lambda>u. at_guard root) (\<lambda>e. at_guard root)"
          by (rule io_post_keeps) (intro io_keeps_if io_keeps_return row)
      qed
    qed
  qed
qed

lemma report_close_guarded: "calm env \<Longrightarrow> io_keeps (at_guard root) (report_close env host root returned)"
  unfolding report_close_def
  by (intro io_rules dir_holds_health dir_holds_refresh) (simp_all add: guarded_stop_def claimed_stop_def exit_proven_def)

text \<open>
  C27: a claim under a controlled stop is given back only on the holder's own exit. When a stop was
  recorded in the result, then whatever happens after the holder ended, and also when the cleanup
  fails, the claim is either kept or the result has the terminal confirmed, the holder's exit and the exit
  of its client confirmed.
\<close>

theorem controlled_claim_needs_exit:
  assumes "calm env" "fd_claim (dir_of root w)" "dget (read_object (fd_result (dir_of root w))) ''host_stop'' = PBool True"
    and "after_holder env host root hold request returned w = (r, w')" "\<not> fd_claim (dir_of root w')"
  shows "flags_true stop_flags (read_object (fd_result (dir_of root w')))"
proof -
  have claimed: "dir_holds root claimed_stop w" using assms(2,3) by (simp add: dir_holds_def claimed_stop_def)
  have inactive: "io_keeps (dir_holds root claimed_stop) (mark_inactive hold)"
    unfolding mark_inactive_def by (rule io_keeps_modify) (simp add: dir_holds_def dir_of_def)
  have handled: "io_post (at_guard root) (if is_os_error e then cleanup_failed env root owner e else io_raise e)
      (\<lambda>u. at_guard root) (\<lambda>e. at_guard root)" for e owner
    by (rule io_post_keeps) (intro io_rules cleanup_failed_guarded)
  have settled: "io_post (dir_holds root claimed_stop)
      (io_finally (io_catch (settle_claim env root request returned)
          (\<lambda>e. if is_os_error e then cleanup_failed env root owner e else io_raise e))
        (report_close env host root returned)) (\<lambda>u. at_guard root) (\<lambda>e. at_guard root)" for owner
    by (rule io_post_finally [OF io_post_catch [OF settle_claim_guarded [OF assms(1)] handled]])
      (auto intro: report_close_guarded [OF assms(1)])
  have "io_post (dir_holds root claimed_stop) (after_holder env host root hold request returned)
      (\<lambda>u. at_guard root) (\<lambda>e. at_guard root)"
    unfolding after_holder_def
    by (rule io_post_then_keeps [OF inactive claimed_guarded], assumption, rule io_post_know [where A = "\<lambda>x. True"], rule TrueI,
        rule io_post_lift, erule claimed_guarded, rule settled)
  from io_postD [OF this claimed] assms(4) have "at_guard root w'" by (cases r) auto
  then show ?thesis using assms(5) by (simp add: dir_holds_def guarded_stop_def claimed_stop_def exit_proven_def)
qed

section \<open>Queueing and resuming\<close>

lemma dir_of_hf: "hf_dirs (lw_world w1) = hf_dirs (lw_world w) \<Longrightarrow> dir_of r w1 = dir_of r w"
  by (simp add: dir_of_def)

lemma status_frame:
  assumes "hf_dirs (lw_world w1) = hf_dirs (lw_world w)"
  shows "hold_status hold w1 = hold_status hold w"
  by (simp add: hold_status_def dir_of_hf [OF assms])

lemma io_catch_receipt:
  assumes "io_catch m (\<lambda>e. io_get (failed_receipt env rid e)) w = (Inr r, w')" "rc_status r = ''accepted''"
  shows "m w = (Inr r, w')"
  using assms by (auto simp: io_catch_def failed_receipt_def split: prod.splits sum.splits)

lemma make_dir_same: "make_dir root w = (Inr u, w') \<Longrightarrow> dir_of r w' = dir_of r w"
  by (auto simp: make_dir_def)

text \<open>What the holder is told, and what the request said.\<close>

definition job_matches :: "hold_job \<Rightarrow> task_provision_request \<Rightarrow> string \<Rightarrow> bool" where
  "job_matches j q hold \<longleftrightarrow> hj_request_id j = stripped (PStr (tp_request_id q)) \<and> hj_hold_id j = hold \<and>
     Some (hj_max_turns j) = int_instance (tp_max_turns q) \<and> hj_auto_continue j = tp_auto_continue q \<and>
     hj_mode j = ''create'' \<and> hj_turn0 j = 1 \<and> hj_total0 j = 1"

definition hold_name :: "task_provision_request \<Rightarrow> string" where
  "hold_name q = (case given (tp_hold_id q) of Some h \<Rightarrow> h | None \<Rightarrow> ''hold-'' @ tp_request_id q)"

lemma provision_files:
  assumes "provision pe q w = (Inr r, w')" "rc_status r = ''accepted''"
  shows "\<exists>project path now. dir_of (hold_path (hold_name q)) w' = (dir_of (hold_path (hold_name q)) w)
    \<lparr> fd_request := Saved (PDict (create_request pe q (hold_name q) project path)),
      fd_ack := Saved (PDict (accepted_ack (tp_request_id q) (hold_name q) 1 1 (tp_max_turns q) now)) \<rparr>"
proof -
  obtain config w1 project path u w2 v w3 x where
    1: "env_io (pe_config pe) w = (Inr config, w1)" and
    2: "make_dir (hold_path (hold_name q)) w1 = (Inr u, w2)" and
    3: "write_file (pe_hold pe) (hold_path (hold_name q)) Request_File (create_request pe q (hold_name q) project path) w2 = (Inr v, w3)" and
    4: "write_file (pe_hold pe) (hold_path (hold_name q)) Ack_File
          (accepted_ack (tp_request_id q) (hold_name q) 1 1 (tp_max_turns q) (now_str (pe_hold pe) w3)) w3 = (Inr x, w')"
    using io_catch_receipt [OF assms(1) [unfolded provision_def Let_def] assms(2)]
    by (auto simp: io_bind_Inr io_then_Inr hold_name_def [symmetric] split: prod.splits)
  show ?thesis
    by (intro exI [of _ project] exI [of _ path] exI [of _ "now_str (pe_hold pe) w3"])
      (simp add: write_file_Inr(1) [OF 4] write_file_Inr(1) [OF 3] make_dir_same [OF 2] env_io_dirs(1) [OF 1])
qed

lemma named_hold: "hold_name q \<noteq> []"
  by (auto simp: hold_name_def given_def split: option.splits list.splits)

text \<open>
  C28: what is queued is what the holder runs. An accepted provision leaves a request and an acknowledgement
  that the host's claim accepts as they are, while the hold has no result, and the holder reads from it
  the hold, the turn limit, the mode and the counters that were asked for.
\<close>

theorem queued_hold_reaches_holder:
  assumes "provision pe q w = (Inr r, w')" "rc_status r = ''accepted''" "fd_result (dir_of (hold_path (hold_name q)) w) = Absent"
    and "int_instance (tp_max_turns q) = Some m" "1 \<le> m"
  shows "\<exists>request ack j. fd_request (dir_of (hold_path (hold_name q)) w') = Saved (PDict request) \<and>
    fd_ack (dir_of (hold_path (hold_name q)) w') = Saved (PDict ack) \<and> queued_ack ack \<and>
    claim_valid (dir_of (hold_path (hold_name q)) w') (Some request) ack (Some request) \<and>
    hold_job_of pl request = Inr j \<and> job_matches j q (hold_name q)"
proof -
  obtain project path now where d: "dir_of (hold_path (hold_name q)) w' = (dir_of (hold_path (hold_name q)) w)
    \<lparr> fd_request := Saved (PDict (create_request pe q (hold_name q) project path)),
      fd_ack := Saved (PDict (accepted_ack (tp_request_id q) (hold_name q) 1 1 (tp_max_turns q) now)) \<rparr>"
    using provision_files [OF assms(1,2)] by blast
  let ?request = "create_request pe q (hold_name q) project path"
  have limit: "py_int (py_or (tp_max_turns q) (PInt 1)) = Inr m" "py_int (tp_max_turns q) = Inr m" "truthy (tp_max_turns q)"
    using assms(4,5) by (cases "tp_max_turns q"; auto simp: py_or_def split: if_splits)+
  have "\<exists>j. hold_job_of pl ?request = Inr j \<and> job_matches j q (hold_name q)"
    using assms(4,5) named_hold limit
    by (simp add: hold_job_of_def Let_def at_least_one_def create_request_def job_matches_def rbind_def py_or_def)
  moreover have "claim_valid (dir_of (hold_path (hold_name q)) w') (Some ?request)
      (accepted_ack (tp_request_id q) (hold_name q) 1 1 (tp_max_turns q) now) (Some ?request)"
    by (simp add: claim_valid_def d assms(3) queued_ack_def accepted_ack_def create_request_def)
  moreover have "queued_ack (accepted_ack (tp_request_id q) (hold_name q) 1 1 (tp_max_turns q) now)"
    by (simp add: queued_ack_def accepted_ack_def)
  ultimately show ?thesis by (auto simp: d)
qed

lemma lane_limit_left:
  assumes "lane_limit binding limit0 n = Inr limit" "dhas binding ''lane_item_count''"
  shows "\<exists>sz m. lane_batch_size binding = Inr sz \<and> limit = PInt m \<and> 1 \<le> m \<and>
    n + m = lane_rounds (length (as_list (dget binding ''candidate_ids''))) sz"
proof -
  obtain ids sz where sz: "lane_batch_size binding = Inr sz" and ids: "lane_batch_ids binding (n + 1) = Inr ids"
    and limit: "limit = PInt (lane_rounds (length (as_list (dget binding ''candidate_ids''))) sz - n)"
    using assms by (auto simp: lane_limit_def rbind_def split: sum.splits)
  obtain xs where "candidate_list (dget binding ''candidate_ids'') = Some xs" and "n + 1 \<le> lane_rounds (length xs) sz"
    using ids sz by (auto simp: lane_batch_ids_def split: option.splits if_splits)
  then have "n + 1 \<le> lane_rounds (length (as_list (dget binding ''candidate_ids''))) sz"
    using candidate_list_Some(1) by fastforce
  then show ?thesis using sz limit by simp
qed

lemma resume_plan_checked:
  assumes "resume_plan_of lib files q previous saved = Inr plan"
  shows "dget previous ''thread_id'' = PStr (ts_task_id q)" "dget previous ''hold_released'' = PBool True"
    "rp_total plan = previous_total previous + 1"
    "\<exists>limit0. lane_limit (rp_binding plan) limit0 (previous_total previous) = Inr (rp_limit plan)"
  using assms by (auto simp: resume_plan_of_def resumable_def raise_if_def rbind_def Let_def split: if_splits sum.splits)

text \<open>
  C29: a hold is resumed only after its release, and goes on where it was. An accepted resume of a
  named hold means that the hold had release evidence for the same thread, that the turns are counted on
  from the last one, and that a lane gets exactly the turns that are left of it, at least one.
\<close>

theorem resume_needs_release:
  assumes "resume_with_monitor pe q w = (Inr r, w')" "rc_status r = ''accepted''" "resume_named q = Some hold"
  shows "\<exists>previous. hold_status hold w = Inr previous \<and> (\<exists>parent. release_evidence (dir_of (parent, safe_id hold) w)) \<and>
    dget previous ''thread_id'' = PStr (ts_task_id q) \<and> rc_total_turn_count r = Some (previous_total previous + 1) \<and>
    (let binding = as_dict (dget (read_object (fd_request (dir_of (hold_path hold) w'))) ''input_binding'') in
     dhas binding ''lane_item_count'' \<longrightarrow> (\<exists>sz m. lane_batch_size binding = Inr sz \<and> rc_max_turns r = Some m \<and> 1 \<le> m \<and>
       previous_total previous + m = lane_rounds (length (as_list (dget binding ''candidate_ids''))) sz))"
proof -
  obtain config w1 plan w2 w3 w4 w5 u v x where
    1: "env_io (pe_config pe) w = (Inr config, w1)" and
    2: "plan_resume pe q w1 = (Inr plan, w2)" and
    5: "write_file (pe_hold pe) (hold_path hold) Request_File (resume_request_row pe q hold plan) w4 = (Inr v, w5)" and
    6: "write_file (pe_hold pe) (hold_path hold) Ack_File
          (accepted_ack (ts_request_id q) hold 1 (rp_total plan) (rp_limit plan) (now_str (pe_hold pe) w5)) w5 = (Inr x, w')" and
    r: "r = queued_receipt (pe_hold pe) (ts_request_id q) hold 1 (rp_total plan) (rp_limit plan) w'"
    using io_catch_receipt [OF assms(1) [unfolded resume_with_monitor_def Let_def assms(3) option.case] assms(2)]
    by (auto simp: io_bind_Inr io_then_Inr)
  obtain previous saved files where status: "hold_status hold w1 = Inr previous"
    and plan: "resume_plan_of (pe_output pe) files q previous saved = Inr plan"
    using 2 by (auto simp: plan_resume_def assms(3) status_now_def io_bind_Inr)
  have status0: "hold_status hold w = Inr previous"
    using status status_frame [OF env_io_dirs(2) [OF 1]] by simp
  note checked = resume_plan_checked [OF plan]
  have request: "read_object (fd_request (dir_of (hold_path hold) w')) = resume_request_row pe q hold plan"
    by (simp add: write_file_Inr(1) [OF 6] write_file_Inr(1) [OF 5])
  have binding: "as_dict (dget (resume_request_row pe q hold plan) ''input_binding'') = rp_binding plan"
    by (simp add: resume_request_row_def)
  have "dhas (rp_binding plan) ''lane_item_count'' \<longrightarrow> (\<exists>sz m. lane_batch_size (rp_binding plan) = Inr sz \<and>
      rc_max_turns r = Some m \<and> 1 \<le> m \<and>
      previous_total previous + m = lane_rounds (length (as_list (dget (rp_binding plan) ''candidate_ids''))) sz)"
    using lane_limit_left checked(4) by (fastforce simp: r queued_receipt_def)
  then show ?thesis
    using status0 released_status [OF status0 checked(2)] checked(1,3)
    by (simp add: r queued_receipt_def request binding)
qed

section \<open>Evidence of a turn\<close>


end
