(* ===== verification/Hold_Runs.thy ===== *)
theory Hold_Runs
  imports Hold_Release
begin

text \<open>
  Concrete runs of the operations on the shared files of the holds, at which the theorems about them apply: one hold,
  queued, claimed by a dead host, stopped, over, closed and resumed, in an environment where every port answers.
\<close>

section \<open>Concrete runs\<close>

text \<open>One hold, \<open>h\<close>, in a directory of its own; process 7 looks at it, and no other process does anything.\<close>

definition demo_hold_env :: "unit hold_env" where
  "demo_hold_env = \<lparr> he_pid = 7, he_now = (\<lambda>e. 0), he_alive = (\<lambda>e p. p = 7), he_started = (\<lambda>e p. Some 0), he_norm = Some,
     he_state_dir = ''/s'', he_write = (\<lambda>r f e. (Inr (), e)), he_lock = (\<lambda>l r w. (Inr (), w)), he_unlock = (\<lambda>l r w. (Inr (), w)),
     he_pause = (\<lambda>w. (Inr (), w)), he_unlink_owner = (\<lambda>r e. (Inr (), e)), he_rmdir_claim = (\<lambda>r e. (Inr (), e)),
     he_write_health = (\<lambda>e. (Inr (), e)), he_monotonic = (\<lambda>e. 0), he_start_host = (\<lambda>n w. (Inr (), w)),
     he_stop_host = (\<lambda>p w. (Inr (), w)), he_read_thread = (\<lambda>t e. (Inr [], e)), he_read_routed = (\<lambda>m t e. (Inr [], e)) \<rparr>"

abbreviation demo_hold_root :: hold_root where "demo_hold_root \<equiv> (Task_Holds, ''h'')"

definition demo_hold_world :: "hold_dir \<Rightarrow> unit hold_world" where
  "demo_hold_world d = \<lparr> lw_files = [], lw_world = \<lparr> hf_dirs = [(demo_hold_root, d)], hf_health = Absent,
     hf_config = Saved (PDict [(''profile'', PStr ''p''), (''expected_codex_home'', PStr ''/c'')]), hf_backups = [],
     hf_history = [], hf_outputs = [], hf_active = [], hf_bootstrap = False, hf_env = () \<rparr> \<rparr>"

definition demo_row :: "pdict \<Rightarrow> saved" where
  "demo_row d = Saved (PDict ([(''request_id'', PStr ''r''), (''hold_id'', PStr ''h'')] @ d))"

definition demo_turn :: pdict where
  "demo_turn = [(''thread_id'', PStr ''t''), (''turn_id'', PStr ''u'')]"

definition demo_over :: pdict where
  "demo_over = demo_turn @ [(''status'', PStr ''completed''), (''terminal_confirmed'', PBool True), (''total_turn_count'', PInt 1)]"

definition demo_queued_dir :: hold_dir where
  "demo_queued_dir = empty_dir\<lparr> fd_request := demo_row [(''mode'', PStr ''create'')],
     fd_ack := demo_row [(''status'', PStr ''accepted''), (''phase'', PStr ''queued_for_user_host'')] \<rparr>"

definition demo_over_dir :: hold_dir where
  "demo_over_dir = empty_dir\<lparr> fd_request := demo_row demo_turn, fd_ack := demo_row demo_over, fd_result := demo_row demo_over \<rparr>"

definition demo_dead_dir :: hold_dir where
  "demo_dead_dir = empty_dir\<lparr> fd_request := demo_row [], fd_ack := demo_row demo_turn, fd_claim := True,
     fd_owner := Saved (PDict [(''pid'', PInt 9)]) \<rparr>"

definition demo_stopped :: pdict where
  "demo_stopped = demo_over @ [(''host_stop'', PBool True), (''holder_client_exit_confirmed'', PBool True),
     (''owner_terminal_readback'', PDict (demo_turn @ [(''status'', PStr ''completed'')]))]"

definition demo_stopped_dir :: hold_dir where
  "demo_stopped_dir = demo_over_dir\<lparr> fd_result := demo_row demo_stopped, fd_claim := True, fd_owner := Saved (PDict [(''pid'', PInt 7)]) \<rparr>"

lemma demo_calm: "calm demo_hold_env"
  by (simp add: calm_def steady_def demo_hold_env_def io_keeps_def)

lemma demo_steady: "steady reports_ok demo_hold_env"
  by (simp add: steady_def demo_hold_env_def io_keeps_def)

lemma io_ran: "fst z = Inr x \<Longrightarrow> z = (Inr x, snd z)"
  by (cases z) simp

lemma demo_ports [simp]:
  "he_lock demo_hold_env l r w = (Inr (), w)" "he_unlock demo_hold_env l r w = (Inr (), w)" "he_pause demo_hold_env w = (Inr (), w)"
  "env_io (he_write demo_hold_env r f) w = (Inr (), w)" "env_io (he_unlink_owner demo_hold_env r) w = (Inr (), w)"
  "env_io (he_rmdir_claim demo_hold_env r) w = (Inr (), w)" "env_io (he_write_health demo_hold_env) w = (Inr (), w)"
  "pid_alive demo_hold_env w p \<longleftrightarrow> p = 7" "he_pid demo_hold_env = 7"
  by (simp_all add: demo_hold_env_def env_io_def pid_alive_def change_files_def)

lemma demo_dir [simp]: "dir_of demo_hold_root (demo_hold_world d) = d"
  by (simp add: demo_hold_world_def dir_of_def)

lemma demo_release [simp]: "release_claim demo_hold_env r w = (Inr (), snd (release_once demo_hold_env r w))"
  by (simp add: release_claim_def eval_nat_numeral release_once_def io_catch_def)

lemma demo_released [simp]: "dir_of q (snd (release_once demo_hold_env r w)) = (if q = r then released (dir_of q w) else dir_of q w)"
  by (simp add: release_once_def released_def)

lemma demo_health [simp]: "dir_of r (change_files (\<lambda>h. h\<lparr> hf_active := f h \<rparr>) w) = dir_of r w"
    "dir_of r (change_files (\<lambda>h. h\<lparr> hf_health := g h \<rparr>) w) = dir_of r w"
    "write_health demo_hold_env host s q w =
      (Inr (), change_files (\<lambda>h. h\<lparr> hf_health := Saved (PDict (health_row demo_hold_env host s q w)) \<rparr>) w)"
  by (simp_all add: dir_of_def write_health_def io_catch_def change_files_def)

lemma demo_stripped: "stripped (PStr ''t'') = ''t''" "stripped (PStr ''u'') = ''u''"
  by code_simp+

lemma claim_is_of_queued_hold_witness:
  "\<exists>w'. claim_hold demo_hold_env demo_hold_root (Some (read_object (fd_request demo_queued_dir))) (demo_hold_world demo_queued_dir) = (Inr True, w') \<and>
    fd_claim (dir_of demo_hold_root w') \<and> fd_result (dir_of demo_hold_root w') = Absent"
proof -
  have "fst (claim_hold demo_hold_env demo_hold_root (Some (read_object (fd_request demo_queued_dir))) (demo_hold_world demo_queued_dir)) = Inr True"
    by (simp add: claim_hold_def claim_body_def io_try_def write_file_def demo_queued_dir_def demo_row_def claim_valid_def queued_ack_def empty_dir_def)
  from claim_is_of_queued_hold [OF io_ran [OF this]] io_ran [OF this] show ?thesis by blast
qed




lemma controlled_claim_needs_exit_witness:
  "\<exists>w'. snd (after_holder demo_hold_env (host_of_launcher [] [] 1) demo_hold_root ''h'' (read_object (fd_request demo_stopped_dir)) True
      (demo_hold_world demo_stopped_dir)) = w' \<and> \<not> fd_claim (dir_of demo_hold_root w') \<and>
    flags_true stop_flags (read_object (fd_result (dir_of demo_hold_root w')))"
proof -
  let ?m = "after_holder demo_hold_env (host_of_launcher [] [] 1) demo_hold_root ''h'' (read_object (fd_request demo_stopped_dir)) True
      (demo_hold_world demo_stopped_dir)"
  have "fd_claim (dir_of demo_hold_root (demo_hold_world demo_stopped_dir))"
    "dget (read_object (fd_result (dir_of demo_hold_root (demo_hold_world demo_stopped_dir)))) ''host_stop'' = PBool True"
    by (simp_all add: demo_stopped_dir_def demo_row_def demo_stopped_def demo_over_def demo_turn_def)
  note start = this
  have free: "\<not> fd_claim (dir_of demo_hold_root (snd ?m))"
    by (simp add: after_holder_def mark_inactive_def io_finally_def io_catch_def settle_claim_def write_file_def Let_def demo_stopped_dir_def demo_over_dir_def demo_row_def
        demo_stopped_def demo_over_def demo_turn_def empty_dir_def controlled_row_def own_terminal_def may_release_def report_close_def
        in_words_def refresh_close_report_def)
  show ?thesis
    by (intro exI conjI) (rule refl, rule free, rule controlled_claim_needs_exit [OF demo_calm start prod.collapse [symmetric] free])
qed

definition demo_hold_client :: "unit hold_world hold_ports" where
  "demo_hold_client = \<lparr> hp_pid = 7, hp_now = (\<lambda>w. 0), hp_monotonic = (\<lambda>w. 0), hp_lock = io_return (), hp_unlock = io_return (),
     hp_read_request = io_return [], hp_write_request = (\<lambda>v. io_return ()), hp_read_close = io_return [],
     hp_write_ack = (\<lambda>v. io_return ()), hp_write_result = (\<lambda>v. io_return ()), hp_read_result = io_return None,
     hp_append_events = (\<lambda>rows. io_return ()), hp_append_history = (\<lambda>p row. io_return ()), hp_read_history = (\<lambda>p t. io_return []),
     hp_verify = (\<lambda>q n. io_return []), hp_receive = (\<lambda>q n t u raw. io_return []), hp_launch = (\<lambda>m b. io_return ()),
     hp_start_client = io_return (), hp_resume_turn = (\<lambda>c w. Finish (Inl (OSError ''closed'')) w),
     hp_create_task = (\<lambda>q w. Finish (Inl (OSError ''closed'')) w), hp_start_turn = (\<lambda>c w. Finish (Inl (OSError ''closed'')) w),
     hp_wait_terminal = (\<lambda>t u w. Finish (Inl (OSError ''closed'')) w), hp_wait_readback = (\<lambda>t u b. io_return PNone),
     hp_thread_read = (\<lambda>t. io_return []), hp_interrupt = (\<lambda>t u. io_return []), hp_close_client = io_return (),
     hp_has_process = (\<lambda>w. False), hp_process_exited = (\<lambda>w. True), hp_user_claim = (\<lambda>w. False),
     hp_refresh_close = (\<lambda>v. io_return ()) \<rparr>"

lemma demo_client_keeps: "client_ports_keep P demo_hold_client"
  by (auto simp: client_ports_keep_def demo_hold_client_def client_keeps_def intro: io_keeps_return)

definition demo_closing_world :: "unit hold_world" where
  "demo_closing_world = change_files (\<lambda>h. h\<lparr> hf_config := Absent \<rparr>) (demo_hold_world demo_over_dir)"

lemma demo_closing_dir [simp]: "dir_of demo_hold_root demo_closing_world = demo_over_dir" "has_dir demo_hold_root demo_closing_world"
    "dir_of (Task_Monitors, h) demo_closing_world = empty_dir" "hf_config (lw_world demo_closing_world) = Absent"
  by (simp_all add: demo_closing_world_def demo_hold_world_def dir_of_def change_files_def has_dir_def)

lemma demo_safe [simp]: "safe_id ''h'' = ''h''"
  by code_simp

lemma demo_over_files [simp]: "fd_request demo_over_dir = demo_row demo_turn" "fd_ack demo_over_dir = demo_row demo_over"
   "fd_result demo_over_dir = demo_row demo_over" "fd_close demo_over_dir = Absent" "\<not> fd_claim demo_over_dir"
  by (simp_all add: demo_over_dir_def empty_dir_def)

lemma demo_recorded: "record_close demo_hold_env demo_hold_root ''h'' None [] demo_closing_world = (Inr (PStr ''r''),
    change_dir demo_hold_root (set_file Close_File (Saved (PDict (new_report ''h'' (PStr ''r'') None (now_str demo_hold_env demo_closing_world) []))))
      demo_closing_world)"
  by (simp add: record_close_def Let_def demo_row_def demo_turn_def hold_id_of_def py_or_def text_or_empty_def write_file_def bind_parent_def
    io_bind_def io_then_def)

definition demo_status_row :: pdict where
  "demo_status_row = dset ([(''request_id'', PStr ''r''), (''hold_id'', PStr ''h'')] @ demo_over) ''hold_released'' (PBool True)"

lemma demo_status: "fd_result (dir_of demo_hold_root w) = demo_row demo_over \<Longrightarrow> fd_request (dir_of demo_hold_root w) = demo_row demo_turn \<Longrightarrow>
    \<not> fd_claim (dir_of demo_hold_root w) \<Longrightarrow> dget (read_object (fd_close (dir_of demo_hold_root w))) ''non_dispatch_confirmed'' = PNone \<Longrightarrow>
    status_now ''h'' w = (Inr demo_status_row, w)"
  by (simp add: status_now_def hold_status_def demo_row_def rbind_def status_view_def Let_def legacy_output_def demo_turn_def demo_over_def
    status_mismatch_def non_dispatch_def text_or_empty_def io_bind_def
    demo_status_row_def loop_terminal_def)

definition demo_close_report :: pdict where
  "demo_close_report = new_report ''h'' (PStr ''r'') None (now_str demo_hold_env demo_closing_world) []"

lemma demo_report_simps [simp]: "dget demo_close_report ''request_id'' = PStr ''r''" "dget demo_close_report ''report_status'' = PStr ''pending''"
   "dget demo_close_report ''parent_close'' = PNone" "dget demo_close_report ''non_dispatch_confirmed'' = PNone"
   "dget demo_close_report ''scheduling_closed'' = PBool False"
  by (simp_all add: demo_close_report_def new_report_def)

definition demo_recorded_world :: "unit hold_world" where
  "demo_recorded_world = change_dir demo_hold_root (set_file Close_File (Saved (PDict demo_close_report))) demo_closing_world"

lemma demo_recorded_dir [simp]: "dir_of demo_hold_root demo_recorded_world = set_file Close_File (Saved (PDict demo_close_report)) demo_over_dir"
   "hf_config (lw_world demo_recorded_world) = Absent"
  by (simp_all add: demo_recorded_world_def)

definition demo_final_report :: pdict where
  "demo_final_report = dset (dmerge demo_close_report (close_fields ([(''request_id'', PStr ''r''), (''hold_id'', PStr ''h'')] @ demo_turn)
     demo_close_report demo_status_row True None []))
     ''observed_at'' (now_str demo_hold_env demo_recorded_world)"

lemma demo_final: "dget demo_final_report ''report_status'' = PStr ''completed''" "dget demo_final_report ''parent_close'' = PNone"
   "dget demo_final_report ''non_dispatch_confirmed'' = PNone"
  by (simp_all add: demo_final_report_def close_fields_def close_facts_def dispatch_not_sent_def Let_def demo_status_row_def demo_over_def demo_turn_def report_status_def in_words_def)

lemma demo_row_simps [simp]: "dget demo_status_row ''request_id'' = PStr ''r''" "dget demo_status_row ''hold_released'' = PBool True"
    "dget demo_status_row ''thread_id'' = PStr ''t''" "dget demo_status_row ''phase'' = PNone"
  by (simp_all add: demo_status_row_def demo_over_def demo_turn_def)

lemma demo_refreshed: "refresh_close_report demo_hold_env demo_hold_root
     demo_status_row None [] demo_recorded_world =
   (Inr demo_final_report, change_dir demo_hold_root (set_file Close_File (Saved (PDict demo_final_report))) demo_recorded_world)"
proof -
  have "\<not> py_eq (dget demo_close_report ''scheduling_closed'') (PBool True)" by simp
  then have "list_ex (\<lambda>(k, v). \<not> py_eq (dget demo_close_report k) v) (close_fields ([(''request_id'', PStr ''r''), (''hold_id'', PStr ''h'')] @ demo_turn)
     demo_close_report demo_status_row True None [])"
    by (simp add: close_fields_def close_facts_def dispatch_not_sent_def Let_def demo_status_row_def demo_over_def demo_turn_def)
  then show ?thesis
    using demo_final(2)
    by (simp add: refresh_close_report_def with_file_lock_def io_then_def io_bind_def io_finally_def refresh_locked_def demo_row_def Let_def
      update_report_def write_file_def tell_parent_def demo_final_report_def)
qed

definition demo_closed_world :: "unit hold_world" where
  "demo_closed_world = change_dir demo_hold_root (set_file Close_File (Saved (PDict demo_final_report))) demo_recorded_world"

lemma demo_stop: "with_file_lock demo_hold_env Request_Lock demo_hold_root (stop_current demo_hold_env demo_hold_root ''h'' (PStr ''r'')) demo_recorded_world
   = (Inr (), demo_recorded_world)"
  by (simp add: with_file_lock_def stop_current_def io_then_def io_bind_def io_finally_def Let_def demo_row_def demo_over_def demo_turn_def
    conflicting_evidence_def unclaimed_queued_def)

lemma demo_closed: "close_hold demo_hold_env ''h'' None [] demo_closing_world = (Inr (close_reply demo_status_row demo_final_report), demo_closed_world)"
proof -
  have root: "the_root ''h'' demo_closing_world = (Inr demo_hold_root, demo_closing_world)"
    by (simp add: the_root_def existing_root_def find_in_def io_bind_def)
  have action: "close_action demo_hold_env demo_hold_root ''h'' demo_status_row demo_recorded_world = (Inr (demo_status_row, None), demo_recorded_world)"
    by (simp add: close_action_def observer_cancelled_def io_bind_def)
  have evidence: "close_evidence (PStr ''r'') demo_status_row = demo_status_row" by (simp add: close_evidence_def)
  have final: "status_now ''h'' demo_closed_world = (Inr demo_status_row, demo_closed_world)"
    using demo_final(3) by (intro demo_status) (simp_all add: demo_closed_world_def)
  have status: "status_now ''h'' demo_recorded_world = (Inr demo_status_row, demo_recorded_world)"
    by (intro demo_status) simp_all
  have "apply_close demo_hold_env demo_hold_root ''h'' (PStr ''r'') demo_recorded_world =
      (Inr (close_reply demo_status_row demo_final_report), demo_closed_world)"
    by (simp add: apply_close_def io_then_def io_bind_def demo_stop status action evidence demo_refreshed [folded demo_closed_world_def] final)
  then show ?thesis
    by (simp add: close_hold_def io_bind_def io_catch_def io_then_def root with_file_lock_def io_finally_def
      demo_recorded [folded demo_close_report_def demo_recorded_world_def])
qed

lemma demo_closing_ok: "reports_ok demo_closing_world"
  by (auto simp: reports_ok_def demo_closing_world_def demo_hold_world_def change_files_def dir_of_def report_ok_def demo_over_dir_def empty_dir_def)

lemma closed_reply_is_released_witness:
  "\<exists>r w' report. close_hold demo_hold_env ''h'' None [] demo_closing_world = (Inr r, w') \<and>
    dget r ''close_report'' = PDict report \<and> dget report ''hold_released'' = PBool True"
proof -
  have "dget (close_reply demo_status_row demo_final_report) ''status'' = PStr ''closed''"
    by (simp add: close_reply_def demo_final)
  from closed_reply_is_released [OF demo_steady demo_closing_ok demo_closed this] demo_closed show ?thesis by blast
qed

definition demo_provision_env :: "unit provision_env" where
  "demo_provision_env = \<lparr> pe_hold = demo_hold_env,
     pe_config = io_return \<lparr> tc_projects = [''p''], tc_resolve = (\<lambda>p. Inr (p, ''/p'')), tc_profile = PStr ''p'', tc_home = PStr ''/c'' \<rparr>,
     pe_paths = \<lparr> pl_resolve = id, pl_absolute = (\<lambda>s. True), pl_join = (\<lambda>p s. p @ s), pl_within = (\<lambda>a b. True) \<rparr>,
     pe_output = \<lparr> ol_paths = \<lparr> pl_resolve = id, pl_absolute = (\<lambda>s. True), pl_join = (\<lambda>p s. p @ s), pl_within = (\<lambda>a b. True) \<rparr>,
       ol_sibling = (\<lambda>p s. p @ s), ol_loads = (\<lambda>s. Inr (PStr s)), ol_loads_strict = (\<lambda>s. Inr (PStr s)), ol_digest = id,
       ol_dir_exists = (\<lambda>d. True), ol_writable = (\<lambda>d. True), ol_validate = (\<lambda>s v. Inr ()) \<rparr>,
     pe_history_path = ''/s/history'', pe_resolver = (\<lambda>p. io_return []), pe_write_config = io_return (),
     pe_backup_path = isoformat, pe_archive = (\<lambda>r. io_return ()) \<rparr>"

lemma completed_report_has_evidence_witness:
  "\<exists>w'. (hold_change reports_ok)\<^sup>*\<^sup>* demo_closing_world w' \<and>
    dget (read_object (fd_close (dir_of demo_hold_root w'))) ''report_status'' = PStr ''completed'' \<and>
    dget (read_object (fd_close (dir_of demo_hold_root w'))) ''terminal_confirmed'' = PBool True"
proof -
  have "hold_step 0 demo_provision_env (host_of_launcher [] [] 1) demo_hold_client (Close_hold ''h'' None []) demo_closing_world = (Inr (), demo_closed_world)"
    by (simp add: demo_provision_env_def io_then_def io_bind_def demo_closed)
  moreover have "steady reports_ok (pe_hold demo_provision_env)" using demo_steady by (simp add: demo_provision_env_def)
  ultimately have step: "hold_change reports_ok demo_closing_world demo_closed_world"
    using demo_client_keeps unfolding hold_change_def by (metis snd_conv)
  have completed: "dget (read_object (fd_close (dir_of demo_hold_root demo_closed_world))) ''report_status'' = PStr ''completed''"
    by (simp add: demo_closed_world_def demo_final)
  from completed_report_has_evidence [OF r_into_rtranclp [of "hold_change reports_ok", OF step] demo_closing_ok completed] completed step show ?thesis by blast
qed

definition demo_event_dir :: hold_dir where
  "demo_event_dir = demo_over_dir\<lparr> fd_events := [Some (PDict [(''event_id'', PStr ''e'')]), Some (PDict [(''event_id'', PStr ''f'')])] \<rparr>"

lemma delivery_settles_event_witness:
  "\<exists>w'. record_hold_notification_delivery demo_hold_env ''h'' ''e'' [(''status'', PStr ''delivered''), (''message_id'', PStr ''t'')]
      (demo_hold_world demo_event_dir) = (Inr (), w') \<and>
    pending_hold_notifications ''h'' None w' = [[(''event_id'', PStr ''f'')]]"
proof -
  let ?d = "[(''status'', PStr ''delivered''), (''message_id'', PStr ''t'')]"
  have root: "existing_root ''h'' (demo_hold_world demo_event_dir) = Some demo_hold_root"
    by (simp add: existing_root_def find_in_def has_dir_def demo_hold_world_def)
  obtain w' where w': "record_hold_notification_delivery demo_hold_env ''h'' ''e'' ?d (demo_hold_world demo_event_dir) = (Inr (), w')"
    by (simp add: record_hold_notification_delivery_def io_bind_def Let_def)
  have "pending_hold_notifications ''h'' None (demo_hold_world demo_event_dir) = [[(''event_id'', PStr ''e'')], [(''event_id'', PStr ''f'')]]"
    using root by (simp add: pending_hold_notifications_def pending_rows_def demo_event_dir_def demo_over_dir_def empty_dir_def jsonl_rows_def
      delivered_ids_def wanted_event_def)
  then have "pending_hold_notifications ''h'' None w' = [[(''event_id'', PStr ''f'')]]"
    using delivery_settles_event [OF root w', of None] by (simp add: py_or_def demo_stripped text_or_empty_def)
  with w' show ?thesis by blast
qed

definition demo_health :: pdict where
  "demo_health = [(''status'', PStr ''ready''), (''pid'', PInt 7), (''profile'', PStr ''t''), (''codex_home'', PStr ''u''),
     (''state_dir'', PStr ''/s''), (''observed_at'', PStr (isoformat 0)),
     (''host_started_at'', PStr (isoformat 0)), (''worker_capacity'', PInt 3)]"

definition demo_ready_world :: "unit hold_world" where
  "demo_ready_world = change_files (\<lambda>h. h\<lparr> hf_health := Saved (PDict demo_health) \<rparr>) demo_closing_world"

definition demo_config :: task_config where
  "demo_config = \<lparr> tc_projects = [], tc_resolve = (\<lambda>p. Inr (p, p)), tc_profile = PStr ''t'', tc_home = PStr ''u'' \<rparr>"

lemma host_health_agrees_witness:
  "is_ready (hold_health demo_hold_env demo_config 2 demo_ready_world) \<and>
   \<not> is_ready (hold_health demo_hold_env demo_config 4 demo_ready_world)"
proof -
  have "is_ready (hold_health demo_hold_env demo_config n demo_ready_world) = health_matches demo_hold_env ''t'' ''u'' n demo_ready_world demo_health" for n
    by (rule host_health_agrees [where c = 3]) (simp_all add: demo_stripped demo_health_def py_or_def demo_config_def demo_ready_world_def)
  then show ?thesis
    by (simp add: health_matches_def demo_health_def demo_stripped text_or_empty_def health_fresh_def health_instant_def parse_isoformat
      valid_instant_def hold_now_def health_max_age_def live_process_def enough_workers_def py_or_def same_start_def start_slack_def same_path_def
      demo_hold_env_def pid_alive_def)
qed

definition demo_provision :: task_provision_request where
  "demo_provision = \<lparr> tp_request_id = ''q'', tp_project = ''p'', tp_title = ''t'', tp_prompt = ''do'', tp_source_ref = ''s'', tp_model = None,
     tp_effort = None, tp_max_turns = PInt 3, tp_auto_continue = True, tp_continue_prompt = ''go'', tp_hold_id = Some ''h'',
     tp_notifications = PNone, tp_input_binding = PNone \<rparr>"

lemma demo_io [simp]: "env_io (io_return x) w = (Inr x, w)"
  by (simp add: env_io_def change_files_def)

lemma queued_hold_reaches_holder_witness:
  "\<exists>r w' request j. provision demo_provision_env demo_provision (demo_hold_world empty_dir) = (Inr r, w') \<and>
    fd_request (dir_of (hold_path ''h'') w') = Saved (PDict request) \<and> hold_job_of (pe_paths demo_provision_env) request = Inr j \<and>
    hj_max_turns j = 3"
proof -
  obtain r w' where run: "provision demo_provision_env demo_provision (demo_hold_world empty_dir) = (Inr r, w')" "rc_status r = ''accepted''"
    by (simp add: provision_def Let_def demo_provision_env_def demo_provision_def given_def io_catch_def io_bind_def io_then_def make_dir_def write_file_def
      queued_receipt_def)
  have "fd_result (dir_of (hold_path (hold_name demo_provision)) (demo_hold_world empty_dir)) = Absent"
    by (simp add: hold_name_def demo_provision_def given_def hold_path_def empty_dir_def)
  moreover have "int_instance (tp_max_turns demo_provision) = Some 3" by (simp add: demo_provision_def)
  ultimately show ?thesis
    using queued_hold_reaches_holder [OF run, of 3 "pe_paths demo_provision_env"] run(1)
    by (auto simp: job_matches_def hold_name_def demo_provision_def given_def)
qed

definition demo_resume :: task_resume_request where
  "demo_resume = \<lparr> ts_request_id = ''q'', ts_task_id = ''t'', ts_prompt = ''go on'', ts_source_ref = ''s'', ts_monitor_id = None, ts_hold_id = Some ''h'',
     ts_max_turns = PInt 3, ts_model = None, ts_effort = None, ts_auto_continue = True, ts_continue_prompt = ''go'', ts_notifications = PNone,
     ts_input_binding = PNone \<rparr>"

lemma resume_needs_release_witness:
  "\<exists>r w' parent. resume_with_monitor demo_provision_env demo_resume demo_closing_world = (Inr r, w') \<and>
    release_evidence (dir_of (parent, safe_id ''h'') demo_closing_world) \<and> rc_total_turn_count r = Some 2"
proof -
  have status: "status_now ''h'' demo_closing_world = (Inr demo_status_row, demo_closing_world)"
    by (intro demo_status) simp_all
  have root: "existing_root ''h'' demo_closing_world = Some demo_hold_root"
    by (simp add: existing_root_def find_in_def)
  have total: "previous_total demo_status_row = 1"
    by (simp add: previous_total_def positive_of_def demo_status_row_def demo_over_def demo_turn_def)
  have row: "dget demo_status_row ''status'' = PStr ''completed''" "dget demo_status_row ''max_turns'' = PNone"
    by (simp_all add: demo_status_row_def demo_over_def demo_turn_def)
  have plan: "plan_resume demo_provision_env demo_resume demo_closing_world =
      (Inr \<lparr> rp_binding = [], rp_limit = PInt 3, rp_total = 2 \<rparr>, demo_closing_world)"
    by (simp add: plan_resume_def resume_named_def demo_resume_def given_def io_bind_def status root resume_plan_of_def Let_def resumable_def
      raise_if_def rbind_def check_candidate_def resumed_binding_def lane_limit_def total text_or_empty_def loop_active_def demo_row_def demo_turn_def row positive_of_def)
  have named: "resume_named demo_resume = Some ''h''" by (simp add: resume_named_def demo_resume_def given_def)
  have ports: "pe_hold demo_provision_env = demo_hold_env" "env_io (pe_archive demo_provision_env q) w = (Inr (), w)"
    for q w by (simp_all add: demo_provision_env_def)
  obtain c where "pe_config demo_provision_env = io_return c" by (simp add: demo_provision_env_def)
  note ports = ports this
  obtain r w' where run: "resume_with_monitor demo_provision_env demo_resume demo_closing_world = (Inr r, w')" "rc_status r = ''accepted''"
      "rc_total_turn_count r = Some 2"
    by (simp add: resume_with_monitor_def Let_def named ports io_catch_def io_bind_def io_then_def plan make_dir_def archive_terminal_result_def
      hold_path_def write_file_def queued_receipt_def demo_row_def)
  from resume_needs_release [OF run(1,2) named] run show ?thesis by blast
qed

end
