(* ===== verification/Beat_Request.thy ===== *)
theory Beat_Request
  imports Lane_Provisioning Py_Json Iso_Time
begin

text \<open>
  The request side of \<open>packages/jarvis_runtime/jarvis_heartbeat_service.py\<close>: the configuration of
  the heartbeat service, the reading of times, thread ids and percentages, and
  \<open>HeartbeatStore.validate_request\<close> with its six kinds of probe.

  A path is text; what \<open>pathlib\<close>, \<open>urlparse\<close> and SHA-256 compute is a field of \<open>beat_lib\<close>. Numbers
  the code reads with \<open>float\<close> (percentages, seconds) are whole numbers, as everywhere in the
  development. \<open>HeartbeatError\<close> is a \<open>RuntimeError\<close>. A column that holds JSON text is kept as the
  value whose text the code stores and reads back.
\<close>

section \<open>Libraries and configuration\<close>

record beat_lib =
  bl_paths :: path_lib
  bl_expand :: "string \<Rightarrow> string"
  bl_is_file :: "string \<Rightarrow> bool"
  bl_is_dir :: "string \<Rightarrow> bool"
  bl_workspace :: string
  bl_urlparse :: "string \<Rightarrow> (string \<times> string option) result"
  bl_digest :: "string \<Rightarrow> string"

record beat_config =
  bc_db_path :: string
  bc_health_path :: string
  bc_lock_path :: string
  bc_launcher_path :: string
  bc_poll_seconds :: int
  bc_retry_seconds :: int
  bc_max_failures :: int
  bc_min_interval :: int
  bc_max_interval :: int
  bc_max_prompt :: int
  bc_desktop_recovery :: bool
  bc_desktop_exe :: "string option"
  bc_desktop_app :: "string option"
  bc_desktop_start :: int
  bc_turn_timeout :: int
  bc_max_concurrent :: int
  bc_max_runs_default :: int
  bc_stale_rounds :: int
  bc_require_receipt :: bool
  bc_prohibited :: "string list"
  bc_double_read_delay :: int
  bc_payload_mode :: string
  bc_contracts_dir :: string
  bc_max_envelope :: int
  bc_bridge_root :: "string option"

text \<open>\<open>float(v)\<close> of a whole number.\<close>

fun whole_float :: "pyval \<Rightarrow> int result" where
  "whole_float (PInt i) = Inr i"
| "whole_float (PBool b) = Inr (if b then 1 else 0)"
| "whole_float (PStr s) = (case str_int s of
     Some i \<Rightarrow> Inr i
   | None \<Rightarrow> Inl (ValueError (''could not convert string to float: '' @ str_repr s)))"
| "whole_float _ = Inl (TypeError ''float() argument must be a string or a real number'')"

definition beat_path :: "beat_lib \<Rightarrow> string \<Rightarrow> pyval \<Rightarrow> string \<Rightarrow> string" where
  "beat_path lib base v fallback =
     (let candidate = (if truthy v then py_str v else fallback) in
      if pl_absolute (bl_paths lib) candidate then pl_resolve (bl_paths lib) candidate
      else pl_resolve (bl_paths lib) (pl_join (bl_paths lib) base candidate))"

definition none_if_empty :: "string \<Rightarrow> string option" where
  "none_if_empty s = (if s = [] then None else Some s)"

text \<open>\<open>max(int(raw.get(key, default)), least)\<close>.\<close>

definition int_setting :: "pdict \<Rightarrow> string \<Rightarrow> int \<Rightarrow> int \<Rightarrow> int result" where
  "int_setting raw key fallback least =
     rbind (py_int (dget_or raw key (PInt fallback))) (\<lambda>i. Inr (max i least))"

definition float_setting :: "pdict \<Rightarrow> string \<Rightarrow> int \<Rightarrow> int \<Rightarrow> int result" where
  "float_setting raw key fallback least =
     rbind (whole_float (dget_or raw key (PInt fallback))) (\<lambda>i. Inr (max i least))"

definition in_workspace :: "beat_lib \<Rightarrow> string \<Rightarrow> string" where
  "in_workspace lib relative = pl_join (bl_paths lib) (bl_workspace lib) relative"

text \<open>
  \<open>HeartbeatConfig.load\<close>, from the object read from the file and the directory of the file. The
  settings are read in the order of the fields.
\<close>

definition load_beat_config :: "beat_lib \<Rightarrow> string \<Rightarrow> pdict \<Rightarrow> beat_config result" where
  "load_beat_config lib base raw =
     (let desktop = stripped (dget raw ''desktop_exe_path'');
          path = (\<lambda>key fallback. beat_path lib base (dget raw key) (in_workspace lib fallback)) in
      rbind (float_setting raw ''poll_seconds'' 5 1) (\<lambda>poll.
      rbind (int_setting raw ''retry_seconds'' 60 5) (\<lambda>retry.
      rbind (int_setting raw ''max_failures'' 5 1) (\<lambda>failures.
      rbind (int_setting raw ''min_interval_seconds'' 30 10) (\<lambda>least.
      rbind (int_setting raw ''max_interval_seconds'' 2592000 60) (\<lambda>greatest.
      rbind (int_setting raw ''max_prompt_chars'' 20000 1000) (\<lambda>prompt.
      rbind (int_setting raw ''desktop_start_timeout_seconds'' 30 5) (\<lambda>start.
      rbind (int_setting raw ''turn_completion_timeout_seconds'' 1800 30) (\<lambda>turn.
      rbind (int_setting raw ''max_concurrent_runs'' 4 1) (\<lambda>concurrent.
      rbind (int_setting raw ''max_runs_without_explicit_override'' 48 1) (\<lambda>runs.
      rbind (int_setting raw ''receipt_stale_round_limit'' 3 1) (\<lambda>stale.
      rbind (float_setting raw ''quota_probe_double_read_delay_seconds'' 1 0) (\<lambda>delay.
      rbind (int_setting raw ''max_wake_envelope_chars'' 512 256) (\<lambda>envelope.
      let c = \<lparr> bc_db_path = path ''db_path'' ''coo_state/dispatcher/jarvis-heartbeats.sqlite'',
        bc_health_path = path ''health_path'' ''coo_state/dispatcher/jarvis-heartbeat-health.json'',
        bc_lock_path = path ''lock_path'' ''coo_state/dispatcher/jarvis-heartbeat-service.lock'',
        bc_launcher_path = path ''native_task_launcher_config''
          ''coo_state/dispatcher/native_task_launcher.config.json'',
        bc_poll_seconds = poll, bc_retry_seconds = retry, bc_max_failures = failures,
        bc_min_interval = least, bc_max_interval = greatest, bc_max_prompt = prompt,
        bc_desktop_recovery = truthy (dget_or raw ''desktop_recovery_enabled'' (PBool True)),
        bc_desktop_exe = (if desktop = [] then None
                          else Some (beat_path lib base (PStr desktop) (bl_workspace lib))),
        bc_desktop_app = none_if_empty (stripped (dget raw ''desktop_app_user_model_id'')),
        bc_desktop_start = start, bc_turn_timeout = turn, bc_max_concurrent = concurrent,
        bc_max_runs_default = runs, bc_stale_rounds = stale,
        bc_require_receipt = truthy (dget_or raw ''require_prompt_continuation_receipt'' (PBool False)),
        bc_prohibited = filter (\<lambda>t. t \<noteq> []) (map (\<lambda>v. py_strip (py_str v))
          (as_list (dget raw ''prohibited_target_thread_ids''))),
        bc_double_read_delay = delay,
        bc_payload_mode = py_strip (py_str (py_or (dget raw ''wake_payload_mode'') (PStr ''inline''))),
        bc_contracts_dir = path ''heartbeat_contracts_dir'' ''coo_state/dispatcher/heartbeat_contracts'',
        bc_max_envelope = envelope,
        bc_bridge_root = (if stripped (dget raw ''standard_bridge_package_root'') = [] then None
          else Some (pl_resolve (bl_paths lib)
            (bl_expand lib (py_str (dget raw ''standard_bridge_package_root''))))) \<rparr> in
      rbind (raise_if (bc_max_interval c < bc_min_interval c)
        (RuntimeError ''max_interval_seconds is below min_interval_seconds'')) (\<lambda>_.
      rbind (raise_if (\<not> bl_is_file lib (bc_launcher_path c))
        (RuntimeError (''native task launcher config not found: '' @ bc_launcher_path c))) (\<lambda>_.
      rbind (raise_if (bc_payload_mode c \<notin> {''inline'', ''contract_ref''})
        (RuntimeError ''wake_payload_mode must be inline or contract_ref'')) (\<lambda>_.
      rbind (raise_if (case bc_bridge_root c of None \<Rightarrow> False | Some root \<Rightarrow>
          \<not> bl_is_dir lib (pl_join (bl_paths lib) root ''jarvis_codex_bridge''))
        (RuntimeError ''standard_bridge_package_root has no jarvis_codex_bridge package'')) (\<lambda>_.
      Inr c))))))))))))))))))"

section \<open>Thread ids, heartbeat ids, times\<close>

text \<open>\<open>hex.replace(pattern, '')\<close> and \<open>hex.strip(chars)\<close>.\<close>

function py_delete :: "string \<Rightarrow> string \<Rightarrow> string" where
  "py_delete pat s =
     (if pat \<noteq> [] \<and> prefix pat s then py_delete pat (drop (length pat) s)
      else (case s of [] \<Rightarrow> [] | c # cs \<Rightarrow> c # py_delete pat cs))"
  by auto

termination
  by (relation "measure (\<lambda>(pat, s). length s)") (auto simp: prefix_def)

declare py_delete.simps [simp del]

definition strip_of :: "string \<Rightarrow> string \<Rightarrow> string" where
  "strip_of chars s =
     rev (dropWhile (\<lambda>c. c \<in> set chars) (rev (dropWhile (\<lambda>c. c \<in> set chars) s)))"

definition is_hex :: "char \<Rightarrow> bool" where
  "is_hex c \<longleftrightarrow> char_in 48 57 c \<or> char_in 65 70 c \<or> char_in 97 102 c"

text \<open>\<open>str(uuid.UUID(text))\<close>: 32 hexadecimal digits, printed in lower case in five groups.\<close>

definition uuid_text :: "string \<Rightarrow> string" where
  "uuid_text h = take 8 h @ ''-'' @ take 4 (drop 8 h) @ ''-'' @ take 4 (drop 12 h) @ ''-''
     @ take 4 (drop 16 h) @ ''-'' @ drop 20 h"

definition parse_uuid :: "string \<Rightarrow> string option" where
  "parse_uuid s =
     (let h = py_delete ''-'' (strip_of ''{}'' (py_delete ''uuid:'' (py_delete ''urn:'' s))) in
      if length h = 32 \<and> list_all is_hex h then Some (uuid_text (py_lower h)) else None)"

definition validate_thread_id :: "pyval \<Rightarrow> string result" where
  "validate_thread_id v = (case parse_uuid (stripped v) of
      None \<Rightarrow> Inl (RuntimeError ''target_thread_id must be a UUID'')
    | Some t \<Rightarrow> Inr t)"

definition is_alnum :: "char \<Rightarrow> bool" where
  "is_alnum c \<longleftrightarrow> char_in 48 57 c \<or> char_in 65 90 c \<or> char_in 97 122 c"

fun safe_beat_id :: "string \<Rightarrow> bool" where
  "safe_beat_id [] = False"
| "safe_beat_id (c # cs) =
     (is_alnum c \<and> length cs \<le> 127 \<and> list_all (\<lambda>d. is_alnum d \<or> d \<in> set ''._:-'') cs)"

definition beat_time :: "pyval \<Rightarrow> instant option result" where
  "beat_time v =
     (if v = PNone \<or> v = PStr [] then Inr None
      else case parse_instant (py_str v) of
        None \<Rightarrow> Inl (RuntimeError (''invalid ISO timestamp: '' @ py_str v))
      | Some t \<Rightarrow> Inr (Some t))"

definition canonical_hash :: "beat_lib \<Rightarrow> pdict \<Rightarrow> string" where
  "canonical_hash lib payload = bl_digest lib (json_compact (PDict payload))"

text \<open>\<open>len(text)\<close> counts code points.\<close>

definition py_len :: "string \<Rightarrow> nat" where
  "py_len s = length (filter (\<lambda>c. \<not> char_in 128 191 c) s)"

section \<open>The probes\<close>

definition quota_probe :: "pdict \<Rightarrow> pdict result" where
  "quota_probe raw =
     rbind (whole_float (dget raw ''threshold_percent'')) (\<lambda>threshold.
     rbind (raise_if (\<not> (0 \<le> threshold \<and> threshold \<le> 100))
       (RuntimeError ''probe threshold_percent must be between 0 and 100'')) (\<lambda>_.
     rbind (raise_if (dget raw ''double_read'' \<noteq> PBool True)
       (RuntimeError ''quota threshold probe requires double_read=true'')) (\<lambda>_.
     Inr [(''type'', PStr ''codex_weekly_remaining_gte''), (''threshold_percent'', PInt threshold),
       (''double_read'', PBool True)])))"

definition attendance_probe :: "pdict \<Rightarrow> pdict result" where
  "attendance_probe raw =
     rbind (py_int (dget_or raw ''lead_minutes'' (PInt 10))) (\<lambda>lead.
     rbind (py_int (dget_or raw ''grace_minutes'' (PInt 5))) (\<lambda>grace.
     rbind (raise_if (\<not> (1 \<le> lead \<and> lead \<le> 120))
       (RuntimeError ''probe lead_minutes must be between 1 and 120'')) (\<lambda>_.
     rbind (raise_if (\<not> (0 \<le> grace \<and> grace \<le> 120))
       (RuntimeError ''probe grace_minutes must be between 0 and 120'')) (\<lambda>_.
     Inr [(''type'', PStr ''attendance_end_of_day_memo''), (''lead_minutes'', PInt lead),
       (''grace_minutes'', PInt grace)]))))"

definition expected_ids :: "pyval \<Rightarrow> int list result" where
  "expected_ids v =
     rbind (raise_if (\<not> is_list v \<or> as_list v = [])
       (RuntimeError ''expected_draft_ids must be a nonempty list'')) (\<lambda>_.
     case rmap py_int (as_list v) of
       Inl e \<Rightarrow> Inl (RuntimeError ''expected_draft_ids must contain integers'')
     | Inr ids \<Rightarrow>
         rbind (raise_if (list_ex (\<lambda>i. i \<le> 0) ids \<or> \<not> distinct ids)
           (RuntimeError ''expected_draft_ids must be positive and unique'')) (\<lambda>_.
         rbind (raise_if (2000 < length ids)
           (RuntimeError ''expected_draft_ids exceeds 2000'')) (\<lambda>_. Inr ids)))"

definition workbench_probe :: "beat_lib \<Rightarrow> pdict \<Rightarrow> pdict result" where
  "workbench_probe lib raw =
     (let pl = bl_paths lib;
          database = bl_expand lib (text_or_empty (dget raw ''workbench_db''));
          state_path = bl_expand lib (text_or_empty (dget raw ''state_path''));
          health_url = stripped (dget raw ''health_url'');
          batch_label = stripped (dget raw ''batch_label'') in
      rbind (raise_if (\<not> pl_absolute pl database \<or> \<not> bl_is_file lib database)
        (RuntimeError ''workbench_db must be an existing absolute file'')) (\<lambda>_.
      rbind (raise_if (\<not> pl_absolute pl state_path
          \<or> \<not> pl_within pl (pl_resolve pl state_path) (bl_workspace lib))
        (RuntimeError ''state_path must be an absolute path under the Jarvis workspace'')) (\<lambda>_.
      rbind (bl_urlparse lib health_url) (\<lambda>(scheme, host).
      rbind (raise_if (scheme \<noteq> ''http''
          \<or> host \<notin> {Some ''127.0.0.1'', Some ''localhost'', Some ''::1''})
        (RuntimeError ''health_url must be a loopback http URL'')) (\<lambda>_.
      rbind (raise_if (batch_label = [] \<or> 120 < py_len batch_label)
        (RuntimeError ''batch_label is required and must be at most 120 characters'')) (\<lambda>_.
      rbind (expected_ids (dget raw ''expected_draft_ids'')) (\<lambda>ids.
      rbind (py_int (dget_or raw ''overdue_grace_seconds'' (PInt 300))) (\<lambda>grace.
      rbind (raise_if (\<not> (60 \<le> grace \<and> grace \<le> 3600))
        (RuntimeError ''overdue_grace_seconds must be between 60 and 3600'')) (\<lambda>_.
      Inr [(''type'', PStr ''workbench_queue_progress''),
        (''workbench_db'', PStr (pl_resolve pl database)),
        (''state_path'', PStr (pl_resolve pl state_path)), (''health_url'', PStr health_url),
        (''batch_label'', PStr batch_label), (''expected_draft_ids'', PList (map PInt ids)),
        (''overdue_grace_seconds'', PInt grace)])))))))))"

definition terminal_kinds :: "string list" where
  "terminal_kinds = [''codex_thread_terminal'', ''codex_thread_terminal_continue'']"

definition optional_thread_id :: "pyval \<Rightarrow> string option result" where
  "optional_thread_id v =
     (if stripped v = [] then Inr None
      else rbind (validate_thread_id (PStr (stripped v))) (\<lambda>t. Inr (Some t)))"

definition optional_entry :: "string \<Rightarrow> string option \<Rightarrow> pdict" where
  "optional_entry k v = (case v of None \<Rightarrow> [] | Some s \<Rightarrow> [(k, PStr s)])"

text \<open>The probe and the parent thread of a terminal probe.\<close>

definition terminal_probe :: "string \<Rightarrow> string \<Rightarrow> pdict \<Rightarrow> pdict \<Rightarrow> (pdict \<times> string) result" where
  "terminal_probe kind thread request raw =
     (let candidate = py_or (dget request ''parent_thread_id'') (dget request ''source_thread_id'') in
      rbind (raise_if (\<not> truthy candidate)
        (RuntimeError ''terminal probe requires parent_thread_id or source_thread_id'')) (\<lambda>_.
      rbind (validate_thread_id candidate) (\<lambda>parent.
      rbind (raise_if (parent = thread)
        (RuntimeError ''parent_thread_id must differ from target_thread_id'')) (\<lambda>_.
      rbind (optional_thread_id (dget raw ''receipt_target_thread_id'')) (\<lambda>receipt.
      rbind (optional_thread_id (dget raw ''continuation_target_thread_id'')) (\<lambda>continuation.
      Inr ([(''type'', PStr kind)] @ optional_entry ''receipt_target_thread_id'' receipt
        @ optional_entry ''continuation_target_thread_id'' continuation
        @ optional_entry ''continuation_prompt''
            (none_if_empty (stripped (dget raw ''continuation_prompt''))), parent)))))))"

definition nonempty_text :: "pyval \<Rightarrow> bool" where
  "nonempty_text v = (case v of PStr s \<Rightarrow> py_strip s \<noteq> [] | _ \<Rightarrow> False)"

definition text_set :: "pyval \<Rightarrow> pyval" where
  "text_set v = PList (map PStr (sort (remdups (map py_str (as_list v)))))"

definition queue_probe :: "beat_lib \<Rightarrow> pdict \<Rightarrow> pdict result" where
  "queue_probe lib raw =
     (let pl = bl_paths lib; path = bl_expand lib (text_or_empty (dget raw ''master_queue_path''));
          receipt = as_dict (dget raw ''terminal_receipt'');
          statuses = dget receipt ''terminal_statuses''; items = dget receipt ''required_item_fields'';
          artifacts = dget receipt ''required_artifact_fields'' in
      rbind (raise_if (\<not> pl_absolute pl path) (RuntimeError ''master_queue_path must be absolute'')) (\<lambda>_.
      rbind (raise_if (\<not> is_dict (dget raw ''terminal_receipt''))
        (RuntimeError ''master_queue_continuation requires terminal_receipt'')) (\<lambda>_.
      rbind (raise_if (\<not> is_list statuses \<or> as_list statuses = [] \<or> \<not> is_list items \<or> as_list items = []
          \<or> \<not> is_list artifacts)
        (RuntimeError (''terminal_receipt requires terminal_statuses, required_item_fields, '' @
           ''and required_artifact_fields''))) (\<lambda>_.
      rbind (raise_if (\<not> list_all nonempty_text (as_list statuses @ as_list items @ as_list artifacts))
        (RuntimeError ''terminal_receipt fields must be nonempty strings'')) (\<lambda>_.
      Inr [(''type'', PStr ''master_queue_continuation''), (''master_queue_path'', PStr (pl_resolve pl path)),
        (''terminal_receipt'', PDict [(''terminal_statuses'', text_set statuses),
           (''required_item_fields'', text_set items), (''required_artifact_fields'', text_set artifacts)])])))))"

text \<open>
  The probe of a \<open>native_probe\<close> request, with the parent thread only a terminal probe has; a
  \<open>prompt\<close> request has neither.
\<close>

definition request_probe ::
  "beat_lib \<Rightarrow> string \<Rightarrow> string \<Rightarrow> pdict \<Rightarrow> (pdict option \<times> string option) result" where
  "request_probe lib mode thread request =
     (let v = dget request ''probe''; raw = as_dict v; kind = stripped (dget raw ''type'') in
      if mode = ''native_probe'' then
        rbind (raise_if (\<not> is_dict v) (RuntimeError ''native_probe requires a probe object'')) (\<lambda>_.
        if kind = ''codex_weekly_remaining_gte'' then rbind (quota_probe raw) (\<lambda>p. Inr (Some p, None))
        else if kind = ''attendance_end_of_day_memo'' then rbind (attendance_probe raw) (\<lambda>p. Inr (Some p, None))
        else if kind = ''workbench_queue_progress'' then rbind (workbench_probe lib raw) (\<lambda>p. Inr (Some p, None))
        else if kind \<in> set terminal_kinds then
          rbind (terminal_probe kind thread request raw) (\<lambda>(p, parent). Inr (Some p, Some parent))
        else if kind = ''master_queue_continuation'' then rbind (queue_probe lib raw) (\<lambda>p. Inr (Some p, None))
        else Inl (RuntimeError ''unsupported native probe type''))
      else rbind (raise_if (v \<noteq> PNone \<and> v \<noteq> PDict [])
        (RuntimeError ''prompt heartbeat cannot include probe configuration'')) (\<lambda>_. Inr (None, None)))"

section \<open>The whole request\<close>

record beat_request =
  bq_id :: string
  bq_name :: string
  bq_thread :: string
  bq_parent :: "string option"
  bq_prompt :: string
  bq_mode :: string
  bq_probe_type :: "string option"
  bq_threshold :: "int option"
  bq_probe :: "pdict option"
  bq_trigger :: string
  bq_interval :: int
  bq_max_runs :: int
  bq_expires :: string
  bq_override :: "string option"
  bq_model :: "string option"
  bq_effort :: "string option"
  bq_desktop :: bool
  bq_source :: string
  bq_confirmation :: string
  bq_next :: instant
  bq_hash :: string

text \<open>The normalized object that is hashed: everything but the next run.\<close>

definition request_object :: "beat_request \<Rightarrow> pdict" where
  "request_object r =
    [(''heartbeat_id'', PStr (bq_id r)), (''name'', PStr (bq_name r)),
     (''target_thread_id'', PStr (bq_thread r)), (''parent_thread_id'', opt_str (bq_parent r)),
     (''prompt'', PStr (bq_prompt r)), (''execution_mode'', PStr (bq_mode r)),
     (''probe_type'', opt_str (bq_probe_type r)), (''probe_threshold_percent'', opt_int (bq_threshold r)),
     (''probe_config_json'', opt_str (map_option (\<lambda>d. json_default (PDict d)) (bq_probe r))),
     (''trigger_state'', PStr (bq_trigger r)), (''interval_seconds'', PInt (bq_interval r)),
     (''max_runs'', PInt (bq_max_runs r)), (''expires_at'', PStr (bq_expires r)),
     (''max_runs_override_evidence'', opt_str (bq_override r)), (''model'', opt_str (bq_model r)),
     (''reasoning_effort'', opt_str (bq_effort r)), (''ensure_desktop'', PBool (bq_desktop r)),
     (''source_event_key'', PStr (bq_source r)), (''confirmation_evidence'', PStr (bq_confirmation r))]"

definition probe_kind :: "pdict option \<Rightarrow> string option" where
  "probe_kind p = map_option (\<lambda>d. py_str (dget d ''type'')) p"

definition probe_threshold :: "pdict option \<Rightarrow> int option" where
  "probe_threshold p = Option.bind p (\<lambda>d. int_instance (dget d ''threshold_percent''))"

text \<open>The limits of a schedule: interval, evidence, number of runs, end and first run.\<close>

definition request_max_runs :: "beat_config \<Rightarrow> pdict \<Rightarrow> int result" where
  "request_max_runs c request =
     (let v = dget request ''max_runs'' in
      rbind (raise_if (v = PNone \<or> v = PStr []) (RuntimeError ''max_runs is required'')) (\<lambda>_.
      rbind (py_int v) (\<lambda>max_runs.
      rbind (raise_if (max_runs < 1) (RuntimeError ''max_runs must be positive'')) (\<lambda>_.
      rbind (raise_if (bc_max_runs_default c < max_runs \<and> stripped (dget request ''max_runs_override_evidence'') = [])
        (RuntimeError (''max_runs exceeds the default limit; explicit max_runs_override_evidence '' @
           ''is required''))) (\<lambda>_. Inr max_runs)))))"

definition request_interval :: "beat_config \<Rightarrow> pdict \<Rightarrow> int result" where
  "request_interval c request =
     rbind (py_int (py_or (dget request ''interval_seconds'') (PInt 0))) (\<lambda>interval.
     rbind (raise_if (\<not> (bc_min_interval c \<le> interval \<and> interval \<le> bc_max_interval c))
       (RuntimeError (''interval_seconds must be between '' @ int_str (bc_min_interval c) @ '' and ''
          @ int_str (bc_max_interval c)))) (\<lambda>_. Inr interval))"

definition request_times :: "instant \<Rightarrow> int \<Rightarrow> pdict \<Rightarrow> (instant \<times> instant) result" where
  "request_times now interval request =
     rbind (beat_time (dget request ''expires_at'')) (\<lambda>expires.
     rbind (beat_time (dget request ''start_at'')) (\<lambda>start.
     case expires of
       None \<Rightarrow> Inl (RuntimeError ''expires_at is required'')
     | Some e \<Rightarrow>
         rbind (raise_if (e \<le> now) (RuntimeError ''expires_at must be in the future'')) (\<lambda>_.
         Inr (e, case start of
             Some s \<Rightarrow> s
           | None \<Rightarrow> if truthy (dget request ''start_immediately'') then now else now + seconds interval))))"

definition validate_request :: "beat_lib \<Rightarrow> beat_config \<Rightarrow> instant \<Rightarrow> pdict \<Rightarrow> beat_request result" where
  "validate_request lib c now request =
     (let hid = stripped (dget request ''heartbeat_id''); name = stripped (dget request ''name'');
          prompt = stripped (dget request ''prompt'');
          mode = py_strip (py_str (py_or (dget request ''execution_mode'') (PStr ''prompt'')));
          source = stripped (dget request ''source_event_key'');
          confirmation = stripped (dget request ''confirmation_evidence'') in
      rbind (raise_if (\<not> safe_beat_id hid) (RuntimeError ''heartbeat_id is missing or unsafe'')) (\<lambda>_.
      rbind (raise_if (name = []) (RuntimeError ''name is required'')) (\<lambda>_.
      rbind (validate_thread_id (dget request ''target_thread_id'')) (\<lambda>thread.
      rbind (raise_if (thread \<in> set (bc_prohibited c))
        (RuntimeError ''target_thread_id is retired from Heartbeat routing'')) (\<lambda>_.
      rbind (raise_if (prompt = []) (RuntimeError ''prompt is required'')) (\<lambda>_.
      rbind (raise_if (bc_max_prompt c < int (py_len prompt))
        (RuntimeError ''prompt exceeds max_prompt_chars'')) (\<lambda>_.
      rbind (raise_if (mode \<notin> {''prompt'', ''native_probe''})
        (RuntimeError ''execution_mode must be prompt or native_probe'')) (\<lambda>_.
      rbind (request_probe lib mode thread request) (\<lambda>(probe, parent).
      rbind (request_interval c request) (\<lambda>interval.
      rbind (raise_if (source = []) (RuntimeError ''source_event_key is required'')) (\<lambda>_.
      rbind (raise_if (confirmation = [])
        (RuntimeError ''confirmation_evidence is required for schedule changes'')) (\<lambda>_.
      rbind (request_max_runs c request) (\<lambda>max_runs.
      rbind (request_times now interval request) (\<lambda>(expires, next_run).
      let r = \<lparr> bq_id = hid, bq_name = py_take 160 name, bq_thread = thread, bq_parent = parent,
        bq_prompt = prompt, bq_mode = mode, bq_probe_type = probe_kind probe,
        bq_threshold = probe_threshold probe,
        bq_probe = map_option (\<lambda>d. as_dict (json_sorted (PDict d))) probe,
        bq_trigger = (if probe = None then ''not_applicable'' else ''monitoring''),
        bq_interval = interval, bq_max_runs = max_runs, bq_expires = isoformat expires,
        bq_override = none_if_empty (py_take 500 (stripped (dget request ''max_runs_override_evidence''))),
        bq_model = none_if_empty (stripped (dget request ''model'')),
        bq_effort = none_if_empty (stripped (dget request ''reasoning_effort'')),
        bq_desktop = truthy (dget request ''ensure_desktop''), bq_source = source,
        bq_confirmation = py_take 500 confirmation, bq_next = next_run, bq_hash = [] \<rparr> in
      Inr (r\<lparr> bq_hash := canonical_hash lib (request_object r) \<rparr>)))))))))))))))"

section \<open>What a validated request is\<close>

lemma request_probe_Inr:
  assumes "request_probe lib mode thread request = Inr (probe, parent)" "mode \<in> {''prompt'', ''native_probe''}"
  shows "probe = None \<longleftrightarrow> mode = ''prompt''" "parent \<noteq> Some thread" "parent \<noteq> None \<Longrightarrow> probe_kind probe \<in> Some ` set terminal_kinds"
  using assms
  by (auto simp: request_probe_def terminal_probe_def rbind_Inr_iff Let_def probe_kind_def
      split: if_splits)

lemma times_Inr:
  "request_times now interval request = Inr (e, n) \<Longrightarrow> now < e"
  unfolding request_times_def by (auto elim!: rbind_InrE split: option.splits)

lemma request_max_runs_Inr:
  "request_max_runs c request = Inr m \<Longrightarrow> 1 \<le> m"
  by (auto simp: request_max_runs_def rbind_Inr_iff Let_def)

lemma request_interval_Inr:
  "request_interval c request = Inr i \<Longrightarrow> bc_min_interval c \<le> i \<and> i \<le> bc_max_interval c"
  by (auto simp: request_interval_def rbind_Inr_iff)

text \<open>The facts of a validated request the table of heartbeats rests on.\<close>

lemma validated:
  assumes "validate_request lib c now request = Inr r"
  shows "bq_mode r \<in> {''prompt'', ''native_probe''}"
    "bq_trigger r = (if bq_mode r = ''prompt'' then ''not_applicable'' else ''monitoring'')"
    "bq_probe r = None \<longleftrightarrow> bq_mode r = ''prompt''"
    "1 \<le> bq_max_runs r" "bc_min_interval c \<le> bq_interval r" "bq_interval r \<le> bc_max_interval c"
    "bq_parent r \<noteq> Some (bq_thread r)" "bq_source r \<noteq> []" "safe_beat_id (bq_id r)"
    "bq_thread r \<notin> set (bc_prohibited c)"
  using assms
  by (auto simp: validate_request_def rbind_Inr_iff Let_def request_probe_Inr
      dest: request_max_runs_Inr request_interval_Inr)

end
