(* ===== verification/Beat_Store.thy ===== *)
theory Beat_Store
  imports Store_Machine Beat_Request
begin

text \<open>
  \<open>HeartbeatStore\<close> of \<open>packages/jarvis_runtime/jarvis_heartbeat_service.py\<close>: the tables
  \<open>heartbeats\<close>, \<open>heartbeat_runs\<close> and \<open>heartbeat_audit\<close> and every operation on them.

  A row is a record, a table the list of its rows in insertion order; epochs are instants in
  microseconds. An operation runs in one SQLite transaction (\<open>session\<close>): when it raises, the three
  tables are what they were. The keys of the schema are checked where the code inserts: a run id
  is unique and the heartbeat of a run exists, otherwise SQLite raises its \<open>IntegrityError\<close>. The
  clock is one reading \<open>now\<close> per operation; \<open>fresh\<close> is \<open>uuid4\<close>, which works on the state
  outside the database.
\<close>

section \<open>Rows\<close>

definition beat_terminal :: "string list" where
  "beat_terminal = [''COMPLETED'', ''CANCELLED'', ''FAILED'']"

record beat =
  bt_id :: string
  bt_name :: string
  bt_thread :: string
  bt_parent :: "string option"
  bt_prompt :: string
  bt_interval :: int
  bt_status :: string
  bt_next :: "instant option"
  bt_run_count :: int
  bt_max_runs :: "int option"
  bt_expires :: "string option"
  bt_model :: "string option"
  bt_effort :: "string option"
  bt_desktop :: bool
  bt_source :: string
  bt_confirmation :: string
  bt_hash :: string
  bt_mode :: string
  bt_probe_type :: "string option"
  bt_threshold :: "int option"
  bt_probe :: "pdict option"
  bt_trigger :: string
  bt_trigger_run :: "string option"
  bt_trigger_percent :: "int option"
  bt_triggered :: "string option"
  bt_message :: "string option"
  bt_receipt_mark :: "string option"
  bt_receipt_status :: string
  bt_receipt_turn :: pyval
  bt_last_run :: "string option"
  bt_last_turn :: pyval
  bt_last_thread_status :: pyval
  bt_failures :: int
  bt_last_error :: pyval
  bt_progress :: "string option"
  bt_unchanged :: int
  bt_busy_since :: "instant option"
  bt_busy_notice :: bool
  bt_quiet_mark :: "string option"
  bt_alert_mark :: "string option"
  bt_created :: string
  bt_updated :: string

record beat_run =
  br_id :: string
  br_beat :: "string option"
  br_source :: "string option"
  br_client :: pyval
  br_thread :: string
  br_scheduled :: "string option"
  br_started :: string
  br_completed :: "string option"
  br_outcome :: string
  br_desktop :: pyval
  br_thread_status :: pyval
  br_turn :: pyval
  br_error :: pyval
  br_probe :: pyval

record beat_audit =
  ba_at :: string
  ba_action :: string
  ba_beat :: "string option"
  ba_source :: "string option"
  ba_detail :: pdict

record 'w beat_state =
  bs_beats :: "beat list"
  bs_runs :: "beat_run list"
  bs_audit :: "beat_audit list"
  bs_world :: 'w

text \<open>\<open>with self.session() as connection\<close>: commit on a return, roll back on an exception.\<close>

definition session :: "('w beat_state, 'a) io \<Rightarrow> ('w beat_state, 'a) io" where
  "session m s = (case m s of
      (Inr x, s') \<Rightarrow> (Inr x, s')
    | (Inl e, s') \<Rightarrow> (Inl e, s'\<lparr> bs_beats := bs_beats s, bs_runs := bs_runs s, bs_audit := bs_audit s \<rparr>))"

text \<open>An effect outside the database.\<close>

definition outside :: "('w, 'a) io \<Rightarrow> ('w beat_state, 'a) io" where
  "outside m s = (case m (bs_world s) of (r, w) \<Rightarrow> (r, s\<lparr> bs_world := w \<rparr>))"

definition fresh_id :: "('w \<Rightarrow> string \<times> 'w) \<Rightarrow> ('w beat_state, string) io" where
  "fresh_id fresh s = (case fresh (bs_world s) of (i, w) \<Rightarrow> (Inr i, s\<lparr> bs_world := w \<rparr>))"

definition audit :: "instant \<Rightarrow> string \<Rightarrow> string option \<Rightarrow> string option \<Rightarrow> pdict \<Rightarrow> ('w beat_state, unit) io" where
  "audit now action hid source detail = io_modify (\<lambda>s. s\<lparr> bs_audit := bs_audit s @
     [\<lparr> ba_at = isoformat now, ba_action = action, ba_beat = hid, ba_source = source,
        ba_detail = as_dict (json_sorted (PDict detail)) \<rparr>] \<rparr>)"

definition find_beat :: "string \<Rightarrow> beat list \<Rightarrow> beat option" where
  "find_beat hid rows = find (\<lambda>b. bt_id b = hid) rows"

text \<open>\<open>UPDATE heartbeats SET ... WHERE ...\<close> and the same for the runs, with the row count.\<close>

definition update_beats :: "(beat \<Rightarrow> bool) \<Rightarrow> (beat \<Rightarrow> beat) \<Rightarrow> ('w beat_state, nat) io" where
  "update_beats p f s = (Inr (length (filter p (bs_beats s))),
     s\<lparr> bs_beats := map (\<lambda>b. if p b then f b else b) (bs_beats s) \<rparr>)"

definition update_runs :: "(beat_run \<Rightarrow> bool) \<Rightarrow> (beat_run \<Rightarrow> beat_run) \<Rightarrow> ('w beat_state, nat) io" where
  "update_runs p f s = (Inr (length (filter p (bs_runs s))),
     s\<lparr> bs_runs := map (\<lambda>r. if p r then f r else r) (bs_runs s) \<rparr>)"

text \<open>\<open>INSERT INTO heartbeat_runs\<close> with the keys of the schema.\<close>

definition insert_run :: "beat_run \<Rightarrow> ('w beat_state, unit) io" where
  "insert_run r =
     io_bind (io_get (\<lambda>s. br_id r \<in> br_id ` set (bs_runs s))) (\<lambda>taken.
     io_bind (io_get (\<lambda>s. \<exists>h \<in> set_option (br_beat r). h \<notin> bt_id ` set (bs_beats s))) (\<lambda>orphan.
     io_then (io_check taken (CodedError ''IntegrityError'' ''UNIQUE constraint failed: heartbeat_runs.run_id''))
     (io_then (io_check orphan (CodedError ''IntegrityError'' ''FOREIGN KEY constraint failed''))
     (io_modify (\<lambda>s. s\<lparr> bs_runs := bs_runs s @ [r] \<rparr>)))))"

definition beat_missing :: "string \<Rightarrow> pyexc" where
  "beat_missing hid = RuntimeError (''heartbeat not found: '' @ hid)"

definition run_inflight :: "beat_run \<Rightarrow> bool" where
  "run_inflight r \<longleftrightarrow> br_completed r = None \<and> br_outcome r = ''inflight''"

text \<open>\<open>ORDER BY started_at DESC, run_id DESC LIMIT 1\<close>.\<close>

definition latest_run :: "beat_run list \<Rightarrow> beat_run option" where
  "latest_run rs = (if rs = [] then None else Some (last (sort_key br_started (sort_key br_id rs))))"

section \<open>Reading\<close>

definition beat_get :: "string \<Rightarrow> ('w beat_state, beat \<times> beat_run option \<times> beat_run option) io" where
  "beat_get hid s =
     (let runs = filter (\<lambda>r. br_beat r = Some hid) (bs_runs s) in
      (case find_beat hid (bs_beats s) of
         None \<Rightarrow> Inl (beat_missing hid)
       | Some b \<Rightarrow> Inr (b, latest_run (filter run_inflight runs), latest_run runs), s))"

definition upper_char :: "char \<Rightarrow> char" where
  "upper_char c = (if char_in 97 122 c then char_of ((of_char c :: nat) - 32) else c)"

definition py_upper :: "string \<Rightarrow> string" where
  "py_upper s = map upper_char s"

definition beat_list :: "string option \<Rightarrow> 'w beat_state \<Rightarrow> beat list" where
  "beat_list status s = sort_key bt_created (case status of
      None \<Rightarrow> bs_beats s
    | Some t \<Rightarrow> if t = [] then bs_beats s else filter (\<lambda>b. bt_status b = py_upper t) (bs_beats s))"

definition inflight_runs :: "'w beat_state \<Rightarrow> beat_run list" where
  "inflight_runs s = sort_key br_started (sort_key br_id (filter run_inflight (bs_runs s)))"

text \<open>\<open>integrity\<close>; the first entry is SQLite's own check of the file.\<close>

definition integrity :: "string \<Rightarrow> 'w beat_state \<Rightarrow> pdict" where
  "integrity check s =
    [(''integrity_check'', PStr check),
     (''foreign_key_violations'', PInt (int (length (filter
        (\<lambda>r. \<exists>h \<in> set_option (br_beat r). h \<notin> bt_id ` set (bs_beats s)) (bs_runs s))))),
     (''heartbeat_counts'', PDict (map (\<lambda>t. (t, PInt (int (length (filter (\<lambda>b. bt_status b = t) (bs_beats s))))))
        [''ACTIVE'', ''PAUSED'', ''COMPLETED'', ''CANCELLED'', ''FAILED''])),
     (''run_count'', PInt (int (length (bs_runs s))))]"

section \<open>Creating, updating, changing the status\<close>

definition new_beat :: "instant \<Rightarrow> beat_request \<Rightarrow> beat" where
  "new_beat now v =
    \<lparr> bt_id = bq_id v, bt_name = bq_name v, bt_thread = bq_thread v, bt_parent = bq_parent v,
      bt_prompt = bq_prompt v, bt_interval = bq_interval v, bt_status = ''ACTIVE'',
      bt_next = Some (bq_next v), bt_run_count = 0, bt_max_runs = Some (bq_max_runs v),
      bt_expires = Some (bq_expires v), bt_model = bq_model v, bt_effort = bq_effort v,
      bt_desktop = bq_desktop v, bt_source = bq_source v, bt_confirmation = bq_confirmation v,
      bt_hash = bq_hash v, bt_mode = bq_mode v, bt_probe_type = bq_probe_type v,
      bt_threshold = bq_threshold v, bt_probe = bq_probe v, bt_trigger = bq_trigger v,
      bt_trigger_run = None, bt_trigger_percent = None, bt_triggered = None, bt_message = None,
      bt_receipt_mark = None, bt_receipt_status = ''not_applicable'', bt_receipt_turn = PNone,
      bt_last_run = None, bt_last_turn = PNone, bt_last_thread_status = PNone, bt_failures = 0,
      bt_last_error = PNone, bt_progress = None, bt_unchanged = 0, bt_busy_since = None,
      bt_busy_notice = False, bt_quiet_mark = None, bt_alert_mark = None,
      bt_created = isoformat now, bt_updated = isoformat now \<rparr>"

text \<open>The outcome of \<open>create\<close>: whether a row was created (otherwise the call was idempotent), the row.\<close>

definition beat_create :: "beat_lib \<Rightarrow> beat_config \<Rightarrow> instant \<Rightarrow> pdict \<Rightarrow> ('w beat_state, bool \<times> beat) io" where
  "beat_create lib c now request =
     io_bind (io_lift (validate_request lib c now request)) (\<lambda>v.
     session (
       io_bind (io_get (\<lambda>s. find_beat (bq_id v) (bs_beats s))) (\<lambda>existing.
       case existing of
         Some b \<Rightarrow>
           if bt_hash b = bq_hash v then io_return (False, b)
           else io_raise (RuntimeError ''heartbeat_id already exists with different content'')
       | None \<Rightarrow>
           io_then (io_modify (\<lambda>s. s\<lparr> bs_beats := bs_beats s @ [new_beat now v] \<rparr>))
           (io_then (audit now ''heartbeat_created'' (Some (bq_id v)) (Some (bq_source v))
              [(''request_hash'', PStr (bq_hash v))])
           (io_return (True, new_beat now v))))))"

definition updated_beat :: "instant \<Rightarrow> beat_request \<Rightarrow> bool \<Rightarrow> beat \<Rightarrow> beat" where
  "updated_beat now v reactivate b =
     (let status = (if reactivate then ''ACTIVE'' else bt_status b) in
      b\<lparr> bt_name := bq_name v, bt_thread := bq_thread v, bt_parent := bq_parent v,
         bt_prompt := bq_prompt v, bt_interval := bq_interval v, bt_status := status,
         bt_next := (if status = ''ACTIVE'' then Some (bq_next v) else bt_next b),
         bt_max_runs := Some (bq_max_runs v), bt_expires := Some (bq_expires v),
         bt_model := bq_model v, bt_effort := bq_effort v, bt_desktop := bq_desktop v,
         bt_source := bq_source v, bt_confirmation := bq_confirmation v, bt_hash := bq_hash v,
         bt_mode := bq_mode v, bt_probe_type := bq_probe_type v, bt_threshold := bq_threshold v,
         bt_probe := bq_probe v, bt_trigger := bq_trigger v, bt_trigger_run := None,
         bt_trigger_percent := None, bt_triggered := None, bt_message := None,
         bt_failures := 0, bt_last_error := PNone, bt_updated := isoformat now \<rparr>)"

text \<open>The transaction of an update.\<close>

definition replace_beat :: "instant \<Rightarrow> beat_request \<Rightarrow> bool \<Rightarrow> ('w beat_state, unit) io" where
  "replace_beat now v reactivate =
     (let hid = bq_id v in
      io_bind (io_get (\<lambda>s. find_beat hid (bs_beats s))) (\<lambda>found.
      case found of None \<Rightarrow> io_raise (beat_missing hid) | Some current \<Rightarrow>
      io_bind (io_get (\<lambda>s. list_ex (\<lambda>r. br_beat r = Some hid \<and> run_inflight r) (bs_runs s))) (\<lambda>inflight.
      io_then (io_check inflight (RuntimeError ''heartbeat cannot be updated while a run is inflight''))
      (io_then (io_check (bt_status current \<in> set beat_terminal \<and> \<not> reactivate)
         (RuntimeError ''terminal heartbeat update requires reactivate=true''))
      (io_bind (update_beats (\<lambda>b. bt_id b = hid) (updated_beat now v reactivate)) (\<lambda>_.
       audit now ''heartbeat_updated'' (Some hid) (Some (bq_source v))
         [(''previous_request_hash'', PStr (bt_hash current)), (''request_hash'', PStr (bq_hash v)),
          (''previous_status'', PStr (bt_status current)),
          (''status'', PStr (bt_status (updated_beat now v reactivate current))),
          (''reactivated'', PBool reactivate)]))))))"

definition beat_update ::
  "beat_lib \<Rightarrow> beat_config \<Rightarrow> instant \<Rightarrow> pdict
    \<Rightarrow> ('w beat_state, beat \<times> beat_run option \<times> beat_run option) io" where
  "beat_update lib c now request =
     io_bind (io_lift (validate_request lib c now request)) (\<lambda>v.
     io_then (session (replace_beat now v (dget request ''reactivate'' = PBool True)))
     (beat_get (bq_id v)))"

definition status_beat :: "instant \<Rightarrow> string \<Rightarrow> string \<Rightarrow> string \<Rightarrow> beat \<Rightarrow> beat" where
  "status_beat now desired source confirmation b =
     b\<lparr> bt_status := desired,
        bt_next := (if desired = ''ACTIVE'' then Some (now + seconds (bt_interval b)) else bt_next b),
        bt_source := source, bt_confirmation := py_take 500 confirmation, bt_updated := isoformat now \<rparr>"

definition beat_set_status ::
  "instant \<Rightarrow> string \<Rightarrow> string \<Rightarrow> string \<Rightarrow> string
    \<Rightarrow> ('w beat_state, beat \<times> beat_run option \<times> beat_run option) io" where
  "beat_set_status now hid status source confirmation =
     (let desired = py_upper status in
      io_then (io_check (desired \<notin> {''ACTIVE'', ''PAUSED'', ''CANCELLED''})
        (RuntimeError ''unsupported heartbeat status transition''))
      (io_then (io_check (source = [] \<or> confirmation = [])
        (RuntimeError ''source event and confirmation evidence are required''))
      (io_then (session (
        io_bind (io_get (\<lambda>s. find_beat hid (bs_beats s))) (\<lambda>found.
        case found of None \<Rightarrow> io_raise (beat_missing hid) | Some current \<Rightarrow>
        io_then (io_check (bt_status current \<in> set beat_terminal \<and> bt_status current \<noteq> desired)
          (RuntimeError ''terminal heartbeat cannot be resumed''))
        (io_bind (update_beats (\<lambda>b. bt_id b = hid) (status_beat now desired source confirmation)) (\<lambda>_.
         audit now (''heartbeat_'' @ py_lower desired) (Some hid) (Some source)
           [(''previous_status'', PStr (bt_status current))])))))
      (beat_get hid))))"

section \<open>The one handoff of a native probe\<close>

definition armed_beat :: "instant \<Rightarrow> string \<Rightarrow> int \<Rightarrow> beat \<Rightarrow> beat" where
  "armed_beat now run_id percent b =
     b\<lparr> bt_trigger := ''handoff_inflight'', bt_trigger_run := Some run_id,
        bt_trigger_percent := Some percent, bt_triggered := Some (isoformat now), bt_next := None,
        bt_updated := isoformat now \<rparr>"

definition can_arm :: "string \<Rightarrow> beat \<Rightarrow> bool" where
  "can_arm hid b \<longleftrightarrow> bt_id b = hid \<and> bt_status b = ''ACTIVE'' \<and> bt_mode b = ''native_probe'' \<and>
     bt_trigger b = ''monitoring'' \<and> bt_trigger_run b = None"

definition arm_trigger_handoff ::
  "instant \<Rightarrow> string \<Rightarrow> string \<Rightarrow> int \<Rightarrow> string option \<Rightarrow> ('w beat_state, bool) io" where
  "arm_trigger_handoff now hid run_id percent source = session (
     io_bind (update_beats (can_arm hid) (armed_beat now run_id percent)) (\<lambda>changed.
     io_then (if changed = 1
        then audit now ''heartbeat_probe_trigger_armed'' (Some hid) source
          [(''run_id'', PStr run_id), (''remaining_percent'', PInt percent)]
        else io_return ())
     (io_return (changed = 1))))"

definition handoff_beat :: "instant \<Rightarrow> bool \<Rightarrow> beat \<Rightarrow> beat" where
  "handoff_beat now started b =
     b\<lparr> bt_trigger := (if started then ''handoff_pending_delivery'' else ''monitoring''),
        bt_trigger_run := (if started then bt_trigger_run b else None),
        bt_trigger_percent := (if started then bt_trigger_percent b else None),
        bt_triggered := (if started then bt_triggered b else None), bt_updated := isoformat now \<rparr>"

definition finish_trigger_handoff ::
  "instant \<Rightarrow> string \<Rightarrow> string \<Rightarrow> bool \<Rightarrow> string option \<Rightarrow> ('w beat_state, unit) io" where
  "finish_trigger_handoff now hid run_id started source = session (
     io_bind (update_beats (\<lambda>b. bt_id b = hid \<and> bt_trigger_run b = Some run_id
         \<and> bt_trigger b = ''handoff_inflight'') (handoff_beat now started)) (\<lambda>changed.
     io_then (io_check (changed \<noteq> 1) (RuntimeError ''native probe trigger handoff state conflict''))
     (audit now (if started then ''heartbeat_probe_handoff_started'' else ''heartbeat_probe_handoff_released'')
        (Some hid) source
        [(''run_id'', PStr run_id), (''trigger_state'', PStr
           (if started then ''handoff_pending_delivery'' else ''monitoring''))])))"

definition delivered_beat :: "instant \<Rightarrow> string \<Rightarrow> beat \<Rightarrow> beat" where
  "delivered_beat now message b =
     b\<lparr> bt_status := ''CANCELLED'', bt_trigger := ''delivered_cancelled'', bt_message := Some message,
        bt_next := None, bt_updated := isoformat now \<rparr>"

definition awaits_delivery :: "string \<Rightarrow> beat \<Rightarrow> bool" where
  "awaits_delivery hid b \<longleftrightarrow> bt_id b = hid \<and> bt_status b = ''ACTIVE'' \<and>
     bt_trigger b = ''handoff_pending_delivery''"

definition complete_delivery ::
  "instant \<Rightarrow> string \<Rightarrow> pyval \<Rightarrow> string \<Rightarrow> ('w beat_state, beat \<times> beat_run option \<times> beat_run option) io" where
  "complete_delivery now hid message source =
     (let delivered = stripped message in
      io_then (io_check (delivered = []) (RuntimeError ''delivered message_id is required''))
      (io_then (io_check (256 < py_len delivered) (RuntimeError ''delivered message_id is too long''))
      (io_then (io_check (py_strip source = []) (RuntimeError ''source_event_key is required''))
      (io_then (session (
        io_bind (update_beats (awaits_delivery hid) (delivered_beat now delivered)) (\<lambda>changed.
        io_then (io_check (changed \<noteq> 1)
          (RuntimeError ''heartbeat is not awaiting a delivered trigger notification''))
        (audit now ''heartbeat_probe_delivery_completed'' (Some hid) (Some source)
          [(''message_id'', PStr delivered)]))))
      (beat_get hid)))))"

section \<open>One receipt per terminal state\<close>

definition receipt_claimed :: "instant \<Rightarrow> string \<Rightarrow> beat \<Rightarrow> beat" where
  "receipt_claimed now mark b =
     b\<lparr> bt_receipt_mark := Some mark, bt_receipt_status := ''inflight'', bt_receipt_turn := PNone,
        bt_updated := isoformat now \<rparr>"

definition can_claim_receipt :: "string \<Rightarrow> string \<Rightarrow> beat \<Rightarrow> bool" where
  "can_claim_receipt hid mark b \<longleftrightarrow> bt_id b = hid \<and> bt_status b = ''ACTIVE'' \<and> bt_receipt_mark b \<noteq> Some mark"

definition claim_terminal_receipt ::
  "instant \<Rightarrow> string \<Rightarrow> string \<Rightarrow> string option \<Rightarrow> ('w beat_state, bool) io" where
  "claim_terminal_receipt now hid mark source = session (
     io_bind (update_beats (can_claim_receipt hid mark) (receipt_claimed now mark)) (\<lambda>changed.
     io_then (if changed \<noteq> 0
        then audit now ''heartbeat_terminal_receipt_claimed'' (Some hid) source
          [(''terminal_fingerprint'', PStr mark)]
        else io_return ())
     (io_return (changed = 1))))"

definition receipt_finished :: "instant \<Rightarrow> bool \<Rightarrow> pyval \<Rightarrow> pyval \<Rightarrow> beat \<Rightarrow> beat" where
  "receipt_finished now delivered turn err b =
     (if delivered
      then b\<lparr> bt_receipt_status := ''delivered'', bt_receipt_turn := turn, bt_next := None,
              bt_updated := isoformat now \<rparr>
      else b\<lparr> bt_receipt_mark := None, bt_receipt_status := ''retry'', bt_last_error := err,
              bt_updated := isoformat now \<rparr>)"

definition finish_terminal_receipt ::
  "instant \<Rightarrow> string \<Rightarrow> bool \<Rightarrow> pyval \<Rightarrow> string option \<Rightarrow> pyval \<Rightarrow> ('w beat_state, unit) io" where
  "finish_terminal_receipt now hid delivered turn source err = session (
     io_bind (update_beats (\<lambda>b. bt_id b = hid \<and> bt_receipt_status b = ''inflight'')
        (receipt_finished now delivered turn err)) (\<lambda>_.
     audit now (if delivered then ''heartbeat_terminal_receipt_delivered'' else ''heartbeat_terminal_receipt_retry'')
       (Some hid) source [(''turn_id'', turn), (''error'', err)]))"

section \<open>Recovery after a restart\<close>

definition interrupted :: "beat \<Rightarrow> bool" where
  "interrupted b \<longleftrightarrow> bt_status b = ''ACTIVE'' \<and> bt_mode b = ''native_probe'' \<and> bt_trigger b = ''handoff_inflight''"

definition close_run :: "string \<Rightarrow> instant \<Rightarrow> string \<Rightarrow> string \<Rightarrow> ('w beat_state, nat) io" where
  "close_run run_id now outcome err =
     update_runs (\<lambda>r. br_id r = run_id \<and> br_completed r = None)
       (\<lambda>r. r\<lparr> br_completed := Some (isoformat now), br_outcome := outcome, br_error := PStr err \<rparr>)"

definition pending_beat :: "instant \<Rightarrow> beat \<Rightarrow> beat" where
  "pending_beat now b = b\<lparr> bt_trigger := ''handoff_pending_delivery'', bt_next := None,
     bt_updated := isoformat now \<rparr>"

definition no_turn_error :: string where
  "no_turn_error = ''service restarted before trigger turn was persisted''"

definition retried_beat :: "beat_config \<Rightarrow> instant \<Rightarrow> beat \<Rightarrow> beat" where
  "retried_beat c now b =
     b\<lparr> bt_trigger := ''monitoring'', bt_trigger_run := None, bt_trigger_percent := None,
        bt_triggered := None, bt_next := Some (now + seconds (bc_retry_seconds c)),
        bt_failures := bt_failures b + 1, bt_last_error := PStr no_turn_error,
        bt_updated := isoformat now \<rparr>"

text \<open>One row of the join of the interrupted heartbeats with the runs of their triggers.\<close>

definition recover_one ::
  "beat_config \<Rightarrow> instant \<Rightarrow> beat \<times> beat_run option \<Rightarrow> ('w beat_state, pdict) io" where
  "recover_one c now row =
     (case row of (b, run) \<Rightarrow>
      let hid = bt_id b; run_id = (case bt_trigger_run b of None \<Rightarrow> [] | Some i \<Rightarrow> i);
          turn = (case run of None \<Rightarrow> [] | Some r \<Rightarrow> stripped (br_turn r));
          completed = (case run of None \<Rightarrow> None | Some r \<Rightarrow> br_completed r);
          state = (if turn \<noteq> [] then ''handoff_pending_delivery'' else ''monitoring'');
          turn_value = opt_str (none_if_empty turn) in
      io_then
        (if turn \<noteq> [] then
           io_bind (update_beats (\<lambda>x. bt_id x = hid) (pending_beat now)) (\<lambda>_.
           if completed = None
           then io_then (close_run run_id now ''probe_trigger_handoff_recovered''
                  ''service restarted after trigger turn was persisted'') (io_return ())
           else io_return ())
         else
           io_then (if run_id \<noteq> [] then io_then (close_run run_id now ''failed'' no_turn_error) (io_return ())
                    else io_return ())
           (io_then (update_beats (\<lambda>x. bt_id x = hid) (retried_beat c now)) (io_return ())))
      (io_then (audit now (if turn \<noteq> [] then ''heartbeat_probe_handoff_recovered_pending_delivery''
           else ''heartbeat_probe_handoff_recovered_for_retry'') (Some hid) (Some (bt_source b))
           [(''run_id'', PStr run_id), (''turn_id'', turn_value)])
      (io_return [(''heartbeat_id'', PStr hid), (''run_id'', PStr run_id), (''trigger_state'', PStr state),
         (''turn_id'', turn_value)])))"

definition interrupted_rows :: "'w beat_state \<Rightarrow> (beat \<times> beat_run option) list" where
  "interrupted_rows s = map (\<lambda>b. (b, find (\<lambda>r. bt_trigger_run b = Some (br_id r)) (bs_runs s)))
     (filter interrupted (bs_beats s))"

definition recover_native_probe_handoffs ::
  "beat_config \<Rightarrow> instant \<Rightarrow> ('w beat_state, pdict list) io" where
  "recover_native_probe_handoffs c now = session (
     io_bind (io_get interrupted_rows) (io_map (recover_one c now)))"

section \<open>Due heartbeats\<close>

definition beat_expired :: "instant \<Rightarrow> beat \<Rightarrow> bool" where
  "beat_expired current b \<longleftrightarrow> bt_status b = ''ACTIVE'' \<and>
     (case bt_expires b of None \<Rightarrow> False | Some e \<Rightarrow> e \<le> isoformat current)"

definition expire_one :: "instant \<Rightarrow> instant \<Rightarrow> beat \<Rightarrow> ('w beat_state, unit) io" where
  "expire_one now stamp row =
     io_bind (update_beats (\<lambda>b. bt_id b = bt_id row)
       (\<lambda>b. b\<lparr> bt_status := ''COMPLETED'', bt_updated := isoformat stamp \<rparr>)) (\<lambda>_.
     audit now ''heartbeat_expired'' (Some (bt_id row)) None [])"

text \<open>Every expired row is completed; \<open>stamp\<close> is what the code writes as its update time.\<close>

definition expire_all :: "instant \<Rightarrow> instant \<Rightarrow> instant \<Rightarrow> ('w beat_state, unit list) io" where
  "expire_all now stamp current =
     io_bind (io_get (\<lambda>s. filter (beat_expired current) (bs_beats s))) (io_map (expire_one now stamp))"

definition beat_due :: "instant \<Rightarrow> beat \<Rightarrow> bool" where
  "beat_due current b \<longleftrightarrow> bt_status b = ''ACTIVE'' \<and>
     (case bt_next b of None \<Rightarrow> False | Some t \<Rightarrow> t \<le> current) \<and>
     (case bt_max_runs b of None \<Rightarrow> True | Some m \<Rightarrow> bt_run_count b < m)"

definition due_rows :: "instant \<Rightarrow> 'w beat_state \<Rightarrow> beat list" where
  "due_rows current s = sort_key (\<lambda>b. the (bt_next b)) (sort_key bt_id (filter (beat_due current) (bs_beats s)))"

definition advanced :: "instant \<Rightarrow> beat \<Rightarrow> beat" where
  "advanced current b = b\<lparr> bt_next := Some (current + seconds (bt_interval b)),
     bt_last_run := Some (isoformat current), bt_updated := isoformat current \<rparr>"

text \<open>\<open>UPDATE ... WHERE heartbeat_id=? AND status='ACTIVE'\<close> with the values of the row read.\<close>

definition advance_row :: "instant \<Rightarrow> beat \<Rightarrow> ('w beat_state, nat) io" where
  "advance_row current row = update_beats (\<lambda>b. bt_id b = bt_id row \<and> bt_status b = ''ACTIVE'')
     (\<lambda>b. b\<lparr> bt_next := bt_next (advanced current row), bt_last_run := Some (isoformat current),
             bt_updated := isoformat current \<rparr>)"

text \<open>
  \<open>due\<close>: the rows it returns keep their other columns and carry the scheduled instant beside the
  next one.
\<close>

definition due :: "instant \<Rightarrow> instant \<Rightarrow> ('w beat_state, (beat \<times> instant) list) io" where
  "due now current = session (
     io_then (expire_all now now current)
     (io_bind (io_get (due_rows current)) (io_map (\<lambda>row.
       io_then (advance_row current row)
       (io_return (row\<lparr> bt_next := bt_next (advanced current row) \<rparr>, the (bt_next row)))))))"

record beat_claim =
  bm_beat :: beat
  bm_scheduled :: instant
  bm_run :: string
  bm_started :: string

definition claimed_run :: "instant \<Rightarrow> string \<Rightarrow> beat \<Rightarrow> beat_run" where
  "claimed_run current run_id row =
    \<lparr> br_id = run_id, br_beat = Some (bt_id row), br_source = Some (bt_source row), br_client = PNone,
      br_thread = bt_thread row, br_scheduled = Some (isoformat (the (bt_next row))),
      br_started = isoformat current, br_completed = None, br_outcome = ''inflight'',
      br_desktop = PNone, br_thread_status = PStr ''claim_recorded'', br_turn = PNone,
      br_error = PNone, br_probe = PNone \<rparr>"

definition claim_one ::
  "('w \<Rightarrow> string \<times> 'w) \<Rightarrow> instant \<Rightarrow> instant \<Rightarrow> beat \<Rightarrow> ('w beat_state, beat_claim) io" where
  "claim_one fresh now current row =
     io_bind (fresh_id fresh) (\<lambda>run_id.
     io_then (advance_row current row)
     (io_then (insert_run (claimed_run current run_id row))
     (io_then (audit now ''heartbeat_run_claimed'' (Some (bt_id row)) (Some (bt_source row))
        [(''run_id'', PStr run_id), (''scheduled_at'', PStr (isoformat (the (bt_next row))))])
     (io_return \<lparr> bm_beat = row\<lparr> bt_next := bt_next (advanced current row) \<rparr>,
        bm_scheduled = the (bt_next row), bm_run = run_id, bm_started = isoformat current \<rparr>))))"

definition beat_claim_due ::
  "('w \<Rightarrow> string \<times> 'w) \<Rightarrow> instant \<Rightarrow> instant \<Rightarrow> ('w beat_state, beat_claim list) io" where
  "beat_claim_due fresh now current = session (
     io_then (expire_all now current current)
     (io_bind (io_get (due_rows current)) (io_map (claim_one fresh now current))))"

definition begin_run ::
  "('w \<Rightarrow> string \<times> 'w) \<Rightarrow> instant \<Rightarrow> string \<Rightarrow> string \<Rightarrow> string \<Rightarrow> string option
    \<Rightarrow> ('w beat_state, pdict) io" where
  "begin_run fresh now hid source thread scheduled =
     io_bind (fresh_id fresh) (\<lambda>run_id.
     io_then (session (
       io_then (insert_run \<lparr> br_id = run_id, br_beat = Some hid, br_source = Some source, br_client = PNone,
         br_thread = thread, br_scheduled = scheduled, br_started = isoformat now, br_completed = None,
         br_outcome = ''inflight'', br_desktop = PNone, br_thread_status = PStr ''claim_recorded'',
         br_turn = PNone, br_error = PNone, br_probe = PNone \<rparr>)
       (audit now ''heartbeat_run_claimed'' (Some hid) (Some source)
         [(''run_id'', PStr run_id), (''scheduled_at'', opt_str scheduled)])))
     (io_return [(''run_id'', PStr run_id), (''started_at'', PStr (isoformat now)),
        (''outcome'', PStr ''inflight'')]))"

definition record_inflight_turn ::
  "instant \<Rightarrow> string \<Rightarrow> string \<Rightarrow> string \<Rightarrow> string \<Rightarrow> string \<Rightarrow> string option \<Rightarrow> ('w beat_state, unit) io" where
  "record_inflight_turn now hid run_id turn thread_status desktop source =
     io_then (io_check (py_strip turn = []) (RuntimeError ''inflight turn receipt requires turn_id''))
     (session (
       io_bind (update_runs (\<lambda>r. br_id r = run_id \<and> br_beat r = Some hid \<and> br_completed r = None)
         (\<lambda>r. r\<lparr> br_turn := PStr turn, br_thread_status := PStr thread_status, br_desktop := PStr desktop \<rparr>))
         (\<lambda>changed.
       io_then (io_check (changed \<noteq> 1) (RuntimeError ''inflight heartbeat run receipt conflict''))
       (io_bind (update_beats (\<lambda>b. bt_id b = hid)
         (\<lambda>b. b\<lparr> bt_last_turn := PStr turn, bt_last_thread_status := PStr thread_status,
                 bt_updated := isoformat now \<rparr>)) (\<lambda>_.
       audit now ''heartbeat_turn_started'' (Some hid) source
         [(''run_id'', PStr run_id), (''turn_id'', PStr turn), (''thread_status'', PStr thread_status)])))))"

end
