(* ===== verification/Beat_Record.thy ===== *)
theory Beat_Record
  imports Beat_Store
begin

text \<open>
  \<open>HeartbeatStore.record_run\<close> of \<open>packages/jarvis_runtime/jarvis_heartbeat_service.py\<close>: how the
  outcome of a run settles its heartbeat. The run is inserted or completed first; then the
  continuation receipt, the busy bookkeeping, the counters, the status, the marks of a quiet queue
  and the next run are computed in the order of the code. The code changes the dictionary
  \<open>result\<close> as it goes; here each stage returns the dictionary it leaves.
\<close>

definition success_outcomes :: "string list" where
  "success_outcomes =
    [''turn_completed'', ''thread_resumed'', ''probe_below_threshold'', ''probe_trigger_handoff'',
     ''probe_not_due'', ''probe_notification_queued'', ''probe_thread_status'',
     ''workbench_probe_progress'', ''workbench_probe_completed'', ''parent_terminal_receipt_delivered'',
     ''terminal_continuation_completed'', ''queue_continuation_released'', ''queue_no_change_silent'',
     ''queue_exhausted_silent'', ''queue_terminal_queue_exhausted'']"

definition needs_receipt :: "beat_config \<Rightarrow> beat \<Rightarrow> bool" where
  "needs_receipt c h \<longleftrightarrow> bc_require_receipt c \<and> bt_mode h = ''prompt''"

text \<open>Outcome, result, success, status and fingerprint of the continuation receipt.\<close>

definition read_receipt ::
  "beat_config \<Rightarrow> beat \<Rightarrow> string \<Rightarrow> pdict \<Rightarrow> string \<times> pdict \<times> bool \<times> string \<times> string" where
  "read_receipt c h outcome result =
     (let receipt = dget result ''continuation_receipt'' in
      if \<not> needs_receipt c h then (outcome, result, outcome \<in> set success_outcomes, [], [])
      else if \<not> is_dict receipt then
        (''continuation_receipt_missing'',
         dset (dset result ''outcome'' (PStr ''continuation_receipt_missing''))
           ''error'' (PStr ''required continuation receipt is missing''), False, [], [])
      else
        let status = stripped (dget (as_dict receipt) ''continuation_status'');
            mark = stripped (dget (as_dict receipt) ''progress_fingerprint'') in
        (outcome, result, status = ''CONTINUE_SAFE'' \<and> mark \<noteq> [], status, mark))"

definition busy_deferral :: "string \<Rightarrow> bool" where
  "busy_deferral outcome \<longleftrightarrow> outcome \<in> {''already_active'', ''deferred_busy''}"

text \<open>Since when the target is busy, for how long, and whether that was noticed.\<close>

definition busy_start :: "instant \<Rightarrow> string \<Rightarrow> beat \<Rightarrow> instant option" where
  "busy_start now outcome current =
     (if busy_deferral outcome
      then Some (case bt_busy_since current of None \<Rightarrow> now | Some t \<Rightarrow> t) else None)"

definition busy_elapsed :: "instant \<Rightarrow> string \<Rightarrow> beat \<Rightarrow> int" where
  "busy_elapsed now outcome current =
     max (now - (case bt_busy_since current of None \<Rightarrow> now | Some t \<Rightarrow> t)) 0"

definition busy_over :: "instant \<Rightarrow> string \<Rightarrow> beat \<Rightarrow> beat \<Rightarrow> bool" where
  "busy_over now outcome h current \<longleftrightarrow> busy_deferral outcome \<and>
     seconds (bt_interval h) \<le> busy_elapsed now outcome current \<and> \<not> bt_busy_notice current"

definition busy_noticed :: "instant \<Rightarrow> string \<Rightarrow> beat \<Rightarrow> beat \<Rightarrow> bool" where
  "busy_noticed now outcome h current \<longleftrightarrow>
     busy_deferral outcome \<and> (bt_busy_notice current \<or> busy_over now outcome h current)"

definition failures_after :: "string \<Rightarrow> bool \<Rightarrow> beat \<Rightarrow> int" where
  "failures_after outcome success current =
     (if busy_deferral outcome then bt_failures current
      else if success then 0 else bt_failures current + 1)"

text \<open>How often the fingerprint of the receipt repeated.\<close>

definition repeated :: "string \<Rightarrow> beat \<Rightarrow> int" where
  "repeated mark current =
     (if (case bt_progress current of None \<Rightarrow> [] | Some p \<Rightarrow> p) = mark then bt_unchanged current + 1 else 1)"

text \<open>The status the result and the receipt ask for, the repetitions, and the result.\<close>

definition asked_status ::
  "beat_config \<Rightarrow> beat \<Rightarrow> beat \<Rightarrow> string \<Rightarrow> string \<Rightarrow> string \<Rightarrow> pdict \<Rightarrow> string \<times> int \<times> pdict" where
  "asked_status c h current outcome receipt_status mark result =
     (if dget result ''complete_heartbeat'' = PBool True then (''COMPLETED'', 0, result)
      else if receipt_status = ''TERMINAL'' then (''COMPLETED'', 0, result)
      else if needs_receipt c h \<and> \<not> busy_deferral outcome then
        (if receipt_status \<noteq> ''CONTINUE_SAFE'' then (''PAUSED'', 0, result)
         else if bc_stale_rounds c \<le> repeated mark current then
           (''PAUSED'', repeated mark current,
            dset (dset result ''outcome'' (PStr ''continuation_receipt_stale''))
              ''error'' (PStr ''progress fingerprint unchanged for configured receipt rounds''))
         else (''ACTIVE'', repeated mark current, result))
      else (''ACTIVE'', 0, result))"

definition settled_status :: "beat_config \<Rightarrow> beat \<Rightarrow> string \<Rightarrow> int \<Rightarrow> int \<Rightarrow> string" where
  "settled_status c h asked run_count failures =
     (if asked = ''ACTIVE'' \<and> (case bt_max_runs h of None \<Rightarrow> False | Some m \<Rightarrow> m \<le> run_count) then ''COMPLETED''
      else if bc_max_failures c \<le> failures then ''FAILED'' else asked)"

text \<open>
  The marks of a queue that stays quiet: the first quiet reading of a fingerprint marks it, the
  second one is the alert, given once. \<open>Some\<close> is the alert of this run.
\<close>

definition queue_marks ::
  "pdict \<Rightarrow> beat \<Rightarrow> string option \<times> string option \<times> string option" where
  "queue_marks result current =
     (let mark = text_or_empty (dget result ''queue_fingerprint'') in
      if mark = [] then (bt_quiet_mark current, bt_alert_mark current, None)
      else if \<not> truthy (dget result ''queue_quiet'') then (None, None, None)
      else if bt_quiet_mark current \<noteq> Some mark then (Some mark, None, None)
      else if bt_alert_mark current = Some mark then (Some mark, Some mark, None)
      else (Some mark, Some mark, Some mark))"

definition alert_code :: string where
  "alert_code = ''HEARTBEAT_ABNORMAL_PERSISTENCE''"

definition alert_result :: "string \<Rightarrow> pdict \<Rightarrow> pdict" where
  "alert_result mark result =
     dset (dset result ''outcome'' (PStr alert_code)) ''alert''
       (PDict [(''code'', PStr alert_code), (''queue_fingerprint'', PStr mark),
          (''action'', PStr ''await_cooper_decision'')])"

text \<open>When an active heartbeat that did not succeed is tried again.\<close>

definition retry_at :: "beat_config \<Rightarrow> instant \<Rightarrow> string \<Rightarrow> beat \<Rightarrow> beat \<Rightarrow> instant" where
  "retry_at c now outcome h current =
     (if busy_deferral outcome \<and> seconds (bt_interval h) \<le> 2 * busy_elapsed now outcome current
      then now + seconds (max (bc_retry_seconds c) (bt_interval h div 2))
      else now + seconds (bc_retry_seconds c))"

text \<open>The settled row, the result the caller sees, the outcome and the busy notice of the audit.\<close>

record settled_run =
  se_beat :: beat
  se_result :: pdict
  se_outcome :: string
  se_busy_notice :: bool

definition settle ::
  "beat_config \<Rightarrow> instant \<Rightarrow> beat \<Rightarrow> string \<Rightarrow> pdict \<Rightarrow> beat \<Rightarrow> settled_run" where
  "settle c now h outcome0 result0 current =
     (case read_receipt c h outcome0 result0 of (outcome, result1, success, receipt_status, mark) \<Rightarrow>
      case asked_status c h current outcome receipt_status mark result1 of (asked, unchanged, result2) \<Rightarrow>
      case queue_marks result2 current of (quiet, alert, alarm) \<Rightarrow>
      let failures = failures_after outcome success current;
          run_count = bt_run_count current + (if success then 1 else 0);
          status = settled_status c h asked run_count failures;
          result = (case alarm of None \<Rightarrow> result2 | Some m \<Rightarrow> alert_result m result2);
          final = (if alarm = None then outcome else alert_code);
          next_run = (if outcome \<in> {''probe_trigger_handoff'', ''parent_terminal_receipt_delivered''} \<or> alarm \<noteq> None
                      then None else bt_next h) in
      \<lparr> se_beat = current\<lparr> bt_status := status, bt_run_count := run_count, bt_failures := failures,
          bt_last_error := dget result ''error'', bt_last_turn := dget result ''turn_id'',
          bt_last_thread_status := dget result ''thread_status'',
          bt_next := (if \<not> success \<and> status = ''ACTIVE'' then Some (retry_at c now outcome h current)
                      else next_run),
          bt_progress := (if mark = [] then bt_progress current else Some mark),
          bt_unchanged := unchanged, bt_busy_since := busy_start now outcome current,
          bt_busy_notice := busy_noticed now outcome h current,
          bt_quiet_mark := quiet, bt_alert_mark := alert, bt_updated := isoformat now \<rparr>,
        se_result = result, se_outcome = final, se_busy_notice = busy_over now outcome h current \<rparr>)"

text \<open>The columns the \<open>UPDATE\<close> of a settled run writes.\<close>

definition settle_columns :: "beat \<Rightarrow> beat \<Rightarrow> beat" where
  "settle_columns e b =
     b\<lparr> bt_status := bt_status e, bt_run_count := bt_run_count e, bt_failures := bt_failures e,
        bt_last_error := bt_last_error e, bt_last_turn := bt_last_turn e,
        bt_last_thread_status := bt_last_thread_status e, bt_next := bt_next e,
        bt_progress := bt_progress e, bt_unchanged := bt_unchanged e, bt_busy_since := bt_busy_since e,
        bt_busy_notice := bt_busy_notice e, bt_quiet_mark := bt_quiet_mark e,
        bt_alert_mark := bt_alert_mark e, bt_updated := bt_updated e \<rparr>"

text \<open>The run itself: a new row, or the claimed row completed once.\<close>

definition coalesce :: "pyval \<Rightarrow> pyval \<Rightarrow> pyval" where
  "coalesce v w = (if v = PNone then w else v)"

definition json_column :: "pyval \<Rightarrow> pyval" where
  "json_column v = json_sorted v"

definition store_run ::
  "instant \<Rightarrow> string option \<Rightarrow> string option \<Rightarrow> string \<Rightarrow> string \<Rightarrow> string \<Rightarrow> pdict \<Rightarrow> string option
    \<Rightarrow> ('w beat_state, unit) io" where
  "store_run now hid source thread run_id outcome result scheduled =
     io_bind (io_get (\<lambda>s. find (\<lambda>r. br_id r = run_id) (bs_runs s))) (\<lambda>existing.
     case existing of
       None \<Rightarrow> insert_run
         \<lparr> br_id = run_id, br_beat = hid, br_source = source, br_client = dget result ''client_user_message_id'',
           br_thread = thread, br_scheduled = scheduled,
           br_started = py_str (py_or (dget result ''started_at'') (PStr (isoformat now))),
           br_completed = Some (isoformat now), br_outcome = outcome,
           br_desktop = dget result ''desktop_status'', br_thread_status = dget result ''thread_status'',
           br_turn = dget result ''turn_id'', br_error = dget result ''error'',
           br_probe = json_column (dget result ''probe_result'') \<rparr>
     | Some r \<Rightarrow>
         io_then (io_check (br_beat r \<noteq> hid \<or> br_thread r \<noteq> thread)
           (RuntimeError ''inflight heartbeat run identity conflict''))
         (io_then (update_runs (\<lambda>x. br_id x = run_id \<and> br_completed x = None) (\<lambda>x.
            x\<lparr> br_completed := Some (isoformat now), br_outcome := outcome,
               br_desktop := dget result ''desktop_status'',
               br_thread_status := dget result ''thread_status'',
               br_turn := coalesce (dget result ''turn_id'') (br_turn x), br_error := dget result ''error'',
               br_probe := json_column (dget result ''probe_result''),
               br_client := coalesce (dget result ''client_user_message_id'') (br_client x) \<rparr>))
         (io_return ())))"

text \<open>What is settled on the heartbeat of the run; a row that is no longer active is left alone.\<close>

definition settle_row ::
  "beat_config \<Rightarrow> instant \<Rightarrow> beat \<Rightarrow> string option \<Rightarrow> string \<Rightarrow> string \<Rightarrow> string \<Rightarrow> pdict
    \<Rightarrow> ('w beat_state, pdict) io" where
  "settle_row c now h source thread run_id outcome result =
     (let hid = bt_id h in
      io_bind (io_get (\<lambda>s. find_beat hid (bs_beats s))) (\<lambda>found.
      case found of None \<Rightarrow> io_raise (RuntimeError (''unknown heartbeat: '' @ hid)) | Some current \<Rightarrow>
      if bt_status current \<noteq> ''ACTIVE'' then
        io_then (audit now ''heartbeat_run_discarded_after_terminal'' (Some hid) source
          [(''run_id'', PStr run_id), (''outcome'', PStr outcome), (''status'', PStr (bt_status current))])
        (io_return result)
      else
        let e = settle c now h outcome result current in
        io_then (if se_busy_notice e
          then audit now ''target_busy_over_interval'' (Some hid) source
            [(''run_id'', PStr run_id), (''busy_seconds'', PInt (busy_elapsed now outcome current div 1000000)),
             (''target_thread_id'', PStr thread)]
          else io_return ())
        (io_then (update_beats (\<lambda>b. bt_id b = hid) (settle_columns (se_beat e)))
        (io_then (audit now ''heartbeat_run_recorded'' (Some hid) source
          [(''run_id'', PStr run_id), (''outcome'', PStr (se_outcome e)), (''status'', PStr (bt_status (se_beat e)))])
        (io_return (se_result e))))))"

definition record_run ::
  "('w \<Rightarrow> string \<times> 'w) \<Rightarrow> beat_config \<Rightarrow> instant \<Rightarrow> beat option \<Rightarrow> string option \<Rightarrow> string \<Rightarrow> pdict
    \<Rightarrow> string option \<Rightarrow> ('w beat_state, pdict) io" where
  "record_run fresh c now h source thread result scheduled =
     (let outcome = py_str (py_or (dget result ''outcome'') (PStr ''failed'')) in
      io_bind (if truthy (dget result ''run_id'') then io_return (py_str (dget result ''run_id''))
               else fresh_id fresh) (\<lambda>run_id.
      io_bind (session (
        io_then (store_run now (map_option bt_id h) source thread run_id outcome result scheduled)
        (case h of None \<Rightarrow> io_return result
         | Some b \<Rightarrow> settle_row c now b source thread run_id outcome result))) (\<lambda>final.
      io_return (dmerge [(''run_id'', PStr run_id)] final))))"

end
