(* ===== verification/Beat_Safety.thy ===== *)
theory Beat_Safety
  imports Beat_Record
begin

text \<open>
  What the tables of \<open>HeartbeatStore\<close> keep: the invariant of the rows and of the keys under every
  operation.
\<close>

section \<open>The invariant of the tables\<close>

text \<open>
  A row: the status and the state of its trigger are the ones the code names; a prompt heartbeat
  has no trigger; a trigger names its run exactly while and after it is handed off; a delivered
  trigger cancelled its heartbeat with the message; a receipt has a fingerprint while it is sent
  and when it is delivered.
\<close>

definition beat_statuses :: "string list" where
  "beat_statuses = [''ACTIVE'', ''PAUSED'', ''COMPLETED'', ''CANCELLED'', ''FAILED'']"

definition handoff_ok :: "beat \<Rightarrow> bool" where
  "handoff_ok b \<longleftrightarrow>
     bt_mode b \<in> {''prompt'', ''native_probe''} \<and>
     (bt_mode b = ''prompt'' \<longleftrightarrow> bt_trigger b = ''not_applicable'') \<and>
     bt_trigger b \<in> {''not_applicable'', ''monitoring'', ''handoff_inflight'', ''handoff_pending_delivery'',
       ''delivered_cancelled''} \<and>
     (bt_trigger_run b = None \<longleftrightarrow> bt_trigger b \<in> {''not_applicable'', ''monitoring''}) \<and>
     (bt_trigger b = ''delivered_cancelled'' \<longrightarrow> bt_message b \<noteq> None) \<and>
     bt_receipt_status b \<in> {''not_applicable'', ''inflight'', ''delivered'', ''retry''} \<and>
     (bt_receipt_mark b \<noteq> None \<longleftrightarrow> bt_receipt_status b \<in> {''inflight'', ''delivered''}) \<and>
     (\<exists>m \<ge> 1. bt_max_runs b = Some m) \<and> 0 < bt_interval b"

definition beat_ok :: "beat \<Rightarrow> bool" where
  "beat_ok b \<longleftrightarrow> bt_status b \<in> set beat_statuses \<and> handoff_ok b \<and>
     (bt_trigger b = ''delivered_cancelled'' \<longrightarrow> bt_status b = ''CANCELLED'') \<and> 0 \<le> bt_run_count b"

definition tables_ok :: "beat list \<Rightarrow> beat_run list \<Rightarrow> bool" where
  "tables_ok beats runs \<longleftrightarrow> distinct (map bt_id beats) \<and> distinct (map br_id runs) \<and>
     (\<forall>b \<in> set beats. beat_ok b) \<and>
     (\<forall>r \<in> set runs. \<forall>h \<in> set_option (br_beat r). h \<in> bt_id ` set beats)"

definition beats_ok :: "'w beat_state \<Rightarrow> bool" where
  "beats_ok s \<longleftrightarrow> tables_ok (bs_beats s) (bs_runs s)"

lemma find_beat_Some: "find_beat hid rows = Some b \<Longrightarrow> b \<in> set rows \<and> bt_id b = hid"
  by (auto simp: find_beat_def find_Some_iff in_set_conv_nth)

lemma find_beat_None: "find_beat hid rows = None \<longleftrightarrow> hid \<notin> bt_id ` set rows"
  by (auto simp: find_beat_def find_None_iff)

lemma find_beat_unique:
  "distinct (map bt_id rows) \<Longrightarrow> b \<in> set rows \<Longrightarrow> find_beat (bt_id b) rows = Some b"
  by (induction rows) (auto simp: find_beat_def)

lemma same_ids_map: "(\<And>b. b \<in> set rows \<Longrightarrow> bt_id (f b) = bt_id b) \<Longrightarrow> map bt_id (map f rows) = map bt_id rows"
  by simp

lemma tables_ok_beats:
  assumes "tables_ok beats runs" "\<And>b. b \<in> set beats \<Longrightarrow> beat_ok b \<Longrightarrow> beat_ok (f b) \<and> bt_id (f b) = bt_id b"
  shows "tables_ok (map f beats) runs"
proof -
  have "map bt_id (map f beats) = map bt_id beats" using assms by (simp add: tables_ok_def)
  moreover from this have "bt_id ` set (map f beats) = bt_id ` set beats" by (metis list.set_map)
  ultimately show ?thesis using assms by (auto simp: tables_ok_def simp del: map_map)
qed

lemma tables_ok_runs:
  assumes "tables_ok beats runs" "\<And>r. br_id (g r) = br_id r" "\<And>r. br_beat (g r) = br_beat r"
  shows "tables_ok beats (map g runs)"
proof -
  have "map br_id (map g runs) = map br_id runs" using assms(2) by simp
  then show ?thesis using assms by (auto simp: tables_ok_def simp del: map_map)
qed

section \<open>Rules for the operations\<close>

text \<open>A statement about the tables survives a rollback.\<close>

definition about_tables :: "('w beat_state \<Rightarrow> bool) \<Rightarrow> bool" where
  "about_tables P \<longleftrightarrow> (\<forall>s w. P (s\<lparr> bs_world := w \<rparr>) = P s)"

lemma about_beats_ok [simp]: "about_tables beats_ok"
  by (simp add: about_tables_def beats_ok_def)

lemma rolled_back:
  fixes s s' :: "'w beat_state"
  shows "s'\<lparr> bs_beats := bs_beats s, bs_runs := bs_runs s, bs_audit := bs_audit s \<rparr> = s\<lparr> bs_world := bs_world s' \<rparr>"
  by (cases s; cases s') simp

lemma session_Inr [simp]: "session m s = (Inr x, s') \<longleftrightarrow> m s = (Inr x, s')"
  by (auto simp: session_def split: prod.splits sum.splits)

lemma from_session:
  assumes "about_tables P" "\<And>s. P s \<Longrightarrow> Q s" "io_from P m Q"
  shows "io_from P (session m) Q"
proof (unfold io_from_def, intro allI impI)
  fix s assume P: "P s"
  obtain r s1 where m: "m s = (r, s1)" by fastforce
  show "Q (snd (session m s))"
  proof (cases r)
    case (Inl e)
    have "P (s\<lparr> bs_world := bs_world s1 \<rparr>)" using assms(1) P by (simp add: about_tables_def)
    then have "Q (s\<lparr> bs_world := bs_world s1 \<rparr>)" by (rule assms(2))
    then show ?thesis using m Inl by (simp add: session_def rolled_back)
  next
    case (Inr x)
    then show ?thesis using m io_fromD [OF assms(3) P m] by (simp add: session_def)
  qed
qed

lemma keeps_session [io_rules]: "about_tables P \<Longrightarrow> io_keeps P m \<Longrightarrow> io_keeps P (session m)"
  unfolding io_keeps_from by (rule from_session)

lemma keeps_outside: "about_tables P \<Longrightarrow> io_keeps P (outside m)"
  by (simp add: io_keeps_def outside_def about_tables_def split: prod.splits)

lemma keeps_fresh [io_rules]: "about_tables P \<Longrightarrow> io_keeps P (fresh_id fresh)"
  by (simp add: io_keeps_def fresh_id_def about_tables_def split: prod.splits)

lemma keeps_audit [io_rules]:
  "(\<And>s a. P (s\<lparr> bs_audit := a \<rparr>) = P s) \<Longrightarrow> io_keeps P (audit now action hid source detail)"
  by (simp add: io_keeps_def audit_def)

lemma beats_ok_audit [simp]: "beats_ok (s\<lparr> bs_audit := a \<rparr>) = beats_ok s"
  by (simp add: beats_ok_def)

lemma keeps_update_beats:
  "(\<And>b. beat_ok b \<Longrightarrow> p b \<Longrightarrow> beat_ok (f b) \<and> bt_id (f b) = bt_id b) \<Longrightarrow> io_keeps beats_ok (update_beats p f)"
  by (auto simp: io_keeps_def update_beats_def beats_ok_def intro!: tables_ok_beats)

lemma keeps_update_runs:
  "(\<And>r. br_id (g r) = br_id r \<and> br_beat (g r) = br_beat r) \<Longrightarrow> io_keeps beats_ok (update_runs p g)"
  by (auto simp: io_keeps_def update_runs_def beats_ok_def intro!: tables_ok_runs)

lemma keeps_insert_run [io_rules]: "io_keeps beats_ok (insert_run r)"
  by (auto simp: io_keeps_def insert_run_def beats_ok_def tables_ok_def io_bind_def io_then_def)

lemma keeps_get [io_rules]: "io_keeps P (beat_get hid)"
  by (simp add: io_keeps_def beat_get_def Let_def)

text \<open>What was read before may be used after.\<close>

lemma io_from_read: "(\<And>s. P s \<Longrightarrow> io_from P m Q) \<Longrightarrow> io_from P m Q"
  by (auto simp: io_from_def)

lemma io_from_weaken: "io_from R m Q \<Longrightarrow> (\<And>s. P s \<Longrightarrow> R s) \<Longrightarrow> io_from P m Q"
  by (simp add: io_from_def)

section \<open>Every operation keeps the invariant\<close>

definition config_ok :: "beat_config \<Rightarrow> bool" where
  "config_ok c \<longleftrightarrow> 0 < bc_min_interval c \<and> 0 < bc_retry_seconds c \<and> 0 < bc_max_failures c"

lemma loaded_config_ok: "load_beat_config lib base raw = Inr c \<Longrightarrow> config_ok c"
  by (auto simp: load_beat_config_def int_setting_def float_setting_def rbind_Inr_iff Let_def config_ok_def)

lemma new_beat_ok:
  assumes "config_ok c" "validate_request lib c now request = Inr v"
  shows "beat_ok (new_beat now v)"
  using validated [OF assms(2)] assms(1) by (auto simp: beat_ok_def handoff_ok_def beat_statuses_def new_beat_def config_ok_def)

lemma updated_beat_ok:
  assumes "config_ok c" "validate_request lib c now request = Inr v" "beat_ok b"
  shows "beat_ok (updated_beat now v reactivate b)"
  using validated [OF assms(2)] assms(1,3)
  by (auto simp: beat_ok_def handoff_ok_def beat_statuses_def updated_beat_def config_ok_def Let_def)

lemma keeps_create [io_rules]: "config_ok c \<Longrightarrow> io_keeps beats_ok (beat_create lib c now request)"
proof -
  assume c: "config_ok c"
  have ins: "beats_ok (s\<lparr> bs_beats := bs_beats s @ [new_beat now v] \<rparr>)"
    if "beats_ok s" "find_beat (bq_id v) (bs_beats s) = None" "validate_request lib c now request = Inr v"
    for s :: "'w beat_state" and v
    using that new_beat_ok [OF c that(3)]
    by (auto simp: beats_ok_def tables_ok_def find_beat_None new_beat_def)
  show ?thesis
    unfolding beat_create_def io_keeps_from
    by (intro from_rules from_session io_from_modify [where R = beats_ok])
       (auto simp: ins io_from_keeps io_rules)
qed

text \<open>Changes that keep the row invariant.\<close>

named_theorems beat_updates "row changes that keep the invariant of a row"

text \<open>A change that leaves the trigger and the receipt of the row alone.\<close>

definition same_handoff :: "beat \<Rightarrow> beat \<Rightarrow> bool" where
  "same_handoff b b' \<longleftrightarrow> bt_mode b' = bt_mode b \<and> bt_trigger b' = bt_trigger b \<and>
     bt_trigger_run b' = bt_trigger_run b \<and> bt_message b' = bt_message b \<and>
     bt_receipt_status b' = bt_receipt_status b \<and> bt_receipt_mark b' = bt_receipt_mark b \<and>
     bt_max_runs b' = bt_max_runs b \<and> bt_interval b' = bt_interval b"

lemma same_handoff_ok: "same_handoff b b' \<Longrightarrow> handoff_ok b' = handoff_ok b"
  by (simp add: same_handoff_def handoff_ok_def)

lemma beat_ok_change:
  assumes "beat_ok b" "same_handoff b b'" "bt_status b' \<in> set beat_statuses" "bt_run_count b \<le> bt_run_count b'"
    and "bt_status b = ''CANCELLED'' \<longrightarrow> bt_status b' = ''CANCELLED''"
  shows "beat_ok b'"
proof -
  have "handoff_ok b'" using assms(1,2) by (simp add: beat_ok_def same_handoff_ok)
  moreover have "bt_trigger b' = bt_trigger b" using assms(2) by (simp add: same_handoff_def)
  ultimately show ?thesis using assms by (simp add: beat_ok_def)
qed

lemma status_beat_ok [beat_updates]:
  "beat_ok b \<Longrightarrow> desired \<in> {''ACTIVE'', ''PAUSED'', ''CANCELLED''} \<Longrightarrow>
   bt_status b \<notin> set beat_terminal \<or> bt_status b = desired \<Longrightarrow>
   beat_ok (status_beat now desired source confirmation b)"
  by (erule beat_ok_change) (auto simp: same_handoff_def status_beat_def beat_terminal_def beat_statuses_def)

lemma beat_ok_same:
  "beat_ok b \<Longrightarrow> same_handoff b b' \<Longrightarrow> bt_status b' = bt_status b \<Longrightarrow> bt_run_count b' = bt_run_count b \<Longrightarrow> beat_ok b'"
  by (rule beat_ok_change) (auto simp: beat_ok_def)

lemma turn_beat_ok [simp]:
  "beat_ok b \<Longrightarrow> beat_ok (b\<lparr> bt_last_turn := x, bt_last_thread_status := y, bt_updated := z \<rparr>)"
  "beat_ok b \<Longrightarrow> beat_ok (b\<lparr> bt_next := n, bt_last_run := r, bt_updated := z \<rparr>)"
  by (erule beat_ok_same, simp_all add: same_handoff_def)+

lemma handoff_change:
  assumes "beat_ok b" "handoff_ok b'" "bt_status b' = bt_status b" "bt_run_count b' = bt_run_count b"
    and "bt_trigger b' = ''delivered_cancelled'' \<longrightarrow> bt_trigger b = ''delivered_cancelled''"
  shows "beat_ok b'"
  using assms by (simp add: beat_ok_def)

lemma armed_beat_ok [beat_updates]: "beat_ok b \<Longrightarrow> can_arm hid b \<Longrightarrow> beat_ok (armed_beat now run_id percent b)"
  by (rule handoff_change, assumption) (auto simp: beat_ok_def handoff_ok_def armed_beat_def can_arm_def)

lemma handoff_beat_ok [beat_updates]:
  "beat_ok b \<Longrightarrow> bt_trigger b = ''handoff_inflight'' \<Longrightarrow> beat_ok (handoff_beat now started b)"
  by (rule handoff_change, assumption) (auto simp: beat_ok_def handoff_ok_def handoff_beat_def)

lemma delivered_beat_ok [beat_updates]:
  "beat_ok b \<Longrightarrow> awaits_delivery hid b \<Longrightarrow> beat_ok (delivered_beat now message b)"
  by (auto simp: beat_ok_def handoff_ok_def beat_statuses_def delivered_beat_def awaits_delivery_def)

lemma receipt_claimed_ok [beat_updates]: "beat_ok b \<Longrightarrow> beat_ok (receipt_claimed now mark b)"
  by (rule handoff_change, assumption) (auto simp: beat_ok_def handoff_ok_def receipt_claimed_def)

lemma receipt_finished_ok [beat_updates]:
  "beat_ok b \<Longrightarrow> bt_receipt_status b = ''inflight'' \<Longrightarrow> beat_ok (receipt_finished now delivered turn err b)"
  by (rule handoff_change, assumption) (auto simp: beat_ok_def handoff_ok_def receipt_finished_def)

lemma settled_status_cases:
  "asked \<in> {''ACTIVE'', ''COMPLETED'', ''PAUSED''} \<Longrightarrow> settled_status c h asked run_count failures \<in> set beat_statuses"
  by (auto simp: settled_status_def beat_statuses_def)

lemma asked_status_cases:
  "asked_status c h current outcome receipt_status mark result = (asked, unchanged, result') \<Longrightarrow>
   asked \<in> {''ACTIVE'', ''COMPLETED'', ''PAUSED''}"
  by (auto simp: asked_status_def split: if_splits)

text \<open>The stages of \<open>settle\<close>, named once.\<close>

lemma settleE:
  obtains outcome1 result1 success receipt_status mark asked unchanged result2 quiet alert alarm where
    "read_receipt c h outcome result = (outcome1, result1, success, receipt_status, mark)"
    "asked_status c h current outcome1 receipt_status mark result1 = (asked, unchanged, result2)"
    "queue_marks result2 current = (quiet, alert, alarm)"
proof -
  obtain outcome1 result1 success receipt_status mark where
    r: "read_receipt c h outcome result = (outcome1, result1, success, receipt_status, mark)"
    by (cases "read_receipt c h outcome result") auto
  obtain asked unchanged result2 where
    a: "asked_status c h current outcome1 receipt_status mark result1 = (asked, unchanged, result2)"
    by (cases "asked_status c h current outcome1 receipt_status mark result1") auto
  obtain quiet alert alarm where "queue_marks result2 current = (quiet, alert, alarm)"
    by (cases "queue_marks result2 current") auto
  then show thesis by (rule that [OF r a])
qed

lemma settle_ok:
  assumes "beat_ok current" "bt_status current = ''ACTIVE''"
  shows "beat_ok (se_beat (settle c now h outcome result current))
     \<and> bt_id (se_beat (settle c now h outcome result current)) = bt_id current"
proof -
  obtain outcome1 result1 success receipt_status mark asked unchanged result2 quiet alert alarm where
    s: "read_receipt c h outcome result = (outcome1, result1, success, receipt_status, mark)"
    "asked_status c h current outcome1 receipt_status mark result1 = (asked, unchanged, result2)"
    "queue_marks result2 current = (quiet, alert, alarm)"
    by (rule settleE)
  note asked = asked_status_cases [OF s(2)]
  show ?thesis
    using assms(2)
    by (intro conjI beat_ok_change [OF assms(1)])
       (simp_all add: settle_def s Let_def same_handoff_def settled_status_cases [OF asked])
qed

lemma settle_columns_current:
  "settle_columns (se_beat (settle c now h outcome result current)) current =
     se_beat (settle c now h outcome result current)"
proof -
  obtain outcome1 result1 success receipt_status mark asked unchanged result2 quiet alert alarm where
    s: "read_receipt c h outcome result = (outcome1, result1, success, receipt_status, mark)"
    "asked_status c h current outcome1 receipt_status mark result1 = (asked, unchanged, result2)"
    "queue_marks result2 current = (quiet, alert, alarm)"
    by (rule settleE)
  show ?thesis by (simp add: settle_columns_def settle_def s Let_def)
qed

lemma updated_ids [simp]:
  "bt_id (updated_beat now v reactivate b) = bt_id b"
  "bt_id (status_beat now desired source confirmation b) = bt_id b"
  "bt_id (armed_beat now run_id percent b) = bt_id b"
  "bt_id (handoff_beat now started b) = bt_id b"
  "bt_id (delivered_beat now message b) = bt_id b"
  "bt_id (receipt_claimed now mark b) = bt_id b"
  "bt_id (receipt_finished now delivered turn err b) = bt_id b"
  "bt_id (pending_beat now b) = bt_id b"
  "bt_id (retried_beat c now b) = bt_id b"
  by (simp_all add: updated_beat_def status_beat_def armed_beat_def handoff_beat_def delivered_beat_def
      receipt_claimed_def receipt_finished_def pending_beat_def retried_beat_def Let_def)

lemma keeps_arm [io_rules]: "io_keeps beats_ok (arm_trigger_handoff now hid run_id percent source)"
  unfolding arm_trigger_handoff_def
  by (intro io_rules keeps_update_beats) (auto intro: beat_updates)

lemma keeps_finish_handoff [io_rules]: "io_keeps beats_ok (finish_trigger_handoff now hid run_id started source)"
  unfolding finish_trigger_handoff_def
  by (intro io_rules keeps_update_beats) (auto intro: beat_updates)

lemma keeps_delivery [io_rules]: "io_keeps beats_ok (complete_delivery now hid message source)"
  unfolding complete_delivery_def Let_def
  by (intro io_rules keeps_update_beats) (auto intro: beat_updates)

lemma keeps_claim_receipt [io_rules]: "io_keeps beats_ok (claim_terminal_receipt now hid mark source)"
  unfolding claim_terminal_receipt_def
  by (intro io_rules keeps_update_beats) (auto intro: beat_updates)

lemma keeps_finish_receipt [io_rules]:
  "io_keeps beats_ok (finish_terminal_receipt now hid delivered turn source err)"
  unfolding finish_terminal_receipt_def
  by (intro io_rules keeps_update_beats) (auto intro: beat_updates)

lemma keeps_advance_row [io_rules]: "io_keeps beats_ok (advance_row current row)"
  unfolding advance_row_def
  by (intro keeps_update_beats) simp

lemma keeps_inflight_turn [io_rules]:
  "io_keeps beats_ok (record_inflight_turn now hid run_id turn thread_status desktop source)"
  unfolding record_inflight_turn_def
  by (intro io_rules keeps_update_beats keeps_update_runs) simp_all

lemma keeps_begin [io_rules]: "io_keeps beats_ok (begin_run fresh now hid source thread scheduled)"
  unfolding begin_run_def by (intro io_rules) auto

text \<open>Changing the row that was read: the row of the table is the row read.\<close>

lemma from_update_read:
  assumes "\<And>s. P s \<Longrightarrow> beats_ok s \<and> find_beat hid (bs_beats s) = Some current"
    and "beat_ok current \<Longrightarrow> beat_ok (f current) \<and> bt_id (f current) = bt_id current"
  shows "io_from P (update_beats (\<lambda>b. bt_id b = hid) f) beats_ok"
proof (unfold io_from_def, intro allI impI)
  fix s assume "P s"
  then have s: "beats_ok s" "find_beat hid (bs_beats s) = Some current" using assms(1) by auto
  have only: "b = current" if "b \<in> set (bs_beats s)" "bt_id b = hid" for b
    using s that find_beat_unique [of "bs_beats s" b] by (auto simp: beats_ok_def tables_ok_def)
  show "beats_ok (snd (update_beats (\<lambda>b. bt_id b = hid) f s))"
    using s(1) assms(2) only by (auto simp: update_beats_def beats_ok_def intro!: tables_ok_beats)
qed

lemma keeps_update [io_rules]: "config_ok c \<Longrightarrow> io_keeps beats_ok (beat_update lib c now request)"
proof -
  assume c: "config_ok c"
  show ?thesis
    unfolding beat_update_def replace_beat_def Let_def io_keeps_from
    by (intro from_rules, simp) (unfold io_keeps_from [symmetric],
        intro io_rules keeps_update_beats, auto intro: updated_beat_ok [OF c])
qed

lemma keeps_set_status [io_rules]: "io_keeps beats_ok (beat_set_status now hid status source confirmation)"
proof -
  have "io_from (\<lambda>s. beats_ok s \<and> find_beat hid (bs_beats s) = Some current)
      (io_bind (update_beats (\<lambda>b. bt_id b = hid) (status_beat now desired source confirmation))
        (\<lambda>_. audit now a h src d)) beats_ok"
    if "desired \<in> {''ACTIVE'', ''PAUSED'', ''CANCELLED''}"
      "bt_status current \<notin> set beat_terminal \<or> bt_status current = desired" for current desired a h src d
    by (rule io_from_bind [where R = beats_ok], rule from_update_read)
       (use that in \<open>auto simp: io_keeps_from [symmetric] intro: io_rules beat_updates\<close>)
  then show ?thesis
    unfolding beat_set_status_def io_keeps_from Let_def
    by (intro from_rules io_from_then [where R = beats_ok] from_session)
       (simp_all add: io_keeps_from [symmetric] io_rules)
qed

section \<open>Loops: expiry, claims, recovery\<close>

lemma expired_beat_ok:
  "beat_ok b \<Longrightarrow> bt_status b = ''ACTIVE'' \<Longrightarrow> beat_ok (b\<lparr> bt_status := ''COMPLETED'', bt_updated := u \<rparr>)"
  by (erule beat_ok_change) (auto simp: same_handoff_def beat_statuses_def)

text \<open>
  The rows a loop still has to change are untouched rows of the table: each step changes only the
  row of its own id.
\<close>

definition untouched :: "beat list \<Rightarrow> 'w beat_state \<Rightarrow> bool" where
  "untouched rows s \<longleftrightarrow> beats_ok s \<and> distinct (map bt_id rows) \<and> set rows \<subseteq> set (bs_beats s)"

lemma untouched_filter: "beats_ok s \<Longrightarrow> untouched (filter p (bs_beats s)) s"
  by (auto simp: untouched_def beats_ok_def tables_ok_def distinct_map_filter)

lemma untouched_later: "untouched (x # xs) s \<Longrightarrow> untouched xs s"
  by (simp add: untouched_def)

lemma untouched_audit: "untouched rows (s\<lparr> bs_audit := a \<rparr>) = untouched rows s"
  by (simp add: untouched_def)

lemma from_untouched:
  assumes "beat_ok row \<Longrightarrow> beat_ok (f row) \<and> bt_id (f row) = bt_id row"
  shows "io_from (untouched (row # rows)) (update_beats (\<lambda>b. bt_id b = bt_id row) f) (untouched rows)"
proof (unfold io_from_def, intro allI impI)
  fix s assume u: "untouched (row # rows) s"
  let ?s = "snd (update_beats (\<lambda>b. bt_id b = bt_id row) f s)"
  have s: "beats_ok s" "row \<in> set (bs_beats s)" using u by (auto simp: untouched_def)
  then have "find_beat (bt_id row) (bs_beats s) = Some row"
    by (intro find_beat_unique) (auto simp: beats_ok_def tables_ok_def)
  then have "beats_ok ?s"
    using io_fromD [OF from_update_read [of "\<lambda>t. t = s" "bt_id row" row f] _ surjective_pairing] assms s(1) by simp
  moreover have "set rows \<subseteq> set (bs_beats ?s)"
  proof
    fix b assume b: "b \<in> set rows"
    then have "b \<in> set (bs_beats s)" "bt_id b \<noteq> bt_id row"
      using u by (auto simp: untouched_def) (metis image_eqI)
    then show "b \<in> set (bs_beats ?s)" by (force simp: update_beats_def)
  qed
  ultimately show "untouched rows ?s" using u by (simp add: untouched_def)
qed

lemma untouched_row: "io_from P m Q \<Longrightarrow> (\<And>s. R s \<Longrightarrow> P s) \<Longrightarrow> (\<And>s. Q s \<Longrightarrow> S s) \<Longrightarrow> io_from R m S"
  by (simp add: io_from_def)

lemma from_audit_untouched: "io_from (untouched rows) (audit now a h src d) (untouched rows)"
  by (simp add: io_from_def audit_def untouched_audit)

lemma keeps_expire_all [io_rules]: "io_keeps beats_ok (expire_all now stamp current)"
proof -
  let ?J = "\<lambda>rows s. untouched rows s \<and> (\<forall>b \<in> set rows. bt_status b = ''ACTIVE'')"
  have step: "io_from (?J (row # rows)) (expire_one now stamp row) (?J rows)" for row rows
  proof (cases "\<forall>b \<in> set (row # rows). bt_status b = ''ACTIVE''")
    case True
    then have "io_from (untouched (row # rows)) (expire_one now stamp row) (untouched rows)"
      unfolding expire_one_def
      by (intro io_from_bind [OF from_untouched _ from_audit_untouched])
         (auto simp: expired_beat_ok untouched_later)
    then show ?thesis by (rule untouched_row) (use True in auto)
  qed (auto simp: io_from_def)
  have "io_from (?J rows) (io_map (expire_one now stamp) rows) (?J [])" for rows
    by (rule io_from_map [where J = ?J, OF step]) (auto dest: untouched_later)
  then have loop: "io_from (?J rows) (io_map (expire_one now stamp) rows) beats_ok" for rows
    by (rule untouched_row) (auto simp: untouched_def)
  show ?thesis
    unfolding expire_all_def io_keeps_from
    by (rule io_from_get, rule untouched_row [OF loop]) (auto simp: untouched_filter beat_expired_def)
qed

lemma keeps_due [io_rules]: "io_keeps beats_ok (due now current)"
  unfolding due_def by (intro io_rules) simp

lemma keeps_claim_one [io_rules]: "io_keeps beats_ok (claim_one fresh now current row)"
  unfolding claim_one_def by (intro io_rules) simp_all

lemma keeps_claim_due [io_rules]: "io_keeps beats_ok (beat_claim_due fresh now current)"
  unfolding beat_claim_due_def by (intro io_rules) simp

lemma pending_beat_ok: "beat_ok b \<Longrightarrow> interrupted b \<Longrightarrow> beat_ok (pending_beat now b)"
  by (rule handoff_change, assumption) (auto simp: beat_ok_def handoff_ok_def pending_beat_def interrupted_def)

lemma retried_beat_ok: "beat_ok b \<Longrightarrow> interrupted b \<Longrightarrow> beat_ok (retried_beat c now b)"
  by (rule handoff_change, assumption) (auto simp: beat_ok_def handoff_ok_def retried_beat_def interrupted_def)

text \<open>What one row of the recovery does to the rows and the runs.\<close>

definition recovered_turn :: "beat_run option \<Rightarrow> string" where
  "recovered_turn run = (case run of None \<Rightarrow> [] | Some r \<Rightarrow> stripped (br_turn r))"

lemma from_close_run:
  "(\<And>s g. (\<And>r. br_id (g r) = br_id r \<and> br_beat (g r) = br_beat r) \<Longrightarrow> P s \<Longrightarrow> P (s\<lparr> bs_runs := map g (bs_runs s) \<rparr>)) \<Longrightarrow>
   io_keeps P (close_run run_id now outcome err)"
  by (simp add: io_keeps_def close_run_def update_runs_def)

lemma untouched_runs:
  "(\<And>r. br_id (g r) = br_id r \<and> br_beat (g r) = br_beat r) \<Longrightarrow> untouched rows s \<Longrightarrow>
   untouched rows (s\<lparr> bs_runs := map g (bs_runs s) \<rparr>)"
  by (simp add: untouched_def beats_ok_def tables_ok_runs)

lemma keeps_close_untouched [io_rules]: "io_keeps (untouched rows) (close_run run_id now outcome err)"
  by (rule from_close_run) (rule untouched_runs)

lemma from_recover_one:
  assumes "interrupted b"
  shows "io_from (untouched (b # rows)) (recover_one c now (b, run)) (untouched rows)"
proof -
  have pending: "io_from (untouched (b # rows)) (update_beats (\<lambda>x. bt_id x = bt_id b) (pending_beat now)) (untouched rows)"
    by (rule from_untouched) (simp add: assms pending_beat_ok)
  have retried: "io_from (untouched (b # rows)) (update_beats (\<lambda>x. bt_id x = bt_id b) (retried_beat c now)) (untouched rows)"
    by (rule from_untouched) (simp add: assms retried_beat_ok)
  have rest: "io_from (untouched rows) (io_then (audit now a h src d) (io_return out)) (untouched rows)"
    for a h src d and out :: pdict
    unfolding io_keeps_from [symmetric] by (intro io_rules) (simp add: untouched_audit)
  have closed: "io_keeps (untouched xs) (if p then io_then (close_run i now o1 e) (io_return ()) else io_return ())"
    for xs p i o1 e
    by (intro io_rules)
  show ?thesis
    unfolding recover_one_def Let_def prod.case
    by (intro io_from_then [OF _ _ rest] io_from_if io_from_bind [OF pending]
        io_from_then [OF closed [unfolded io_keeps_from]] io_from_then [OF retried]
        closed [unfolded io_keeps_from]) (auto simp: io_from_def dest: untouched_later)
qed

lemma keeps_recover [io_rules]: "io_keeps beats_ok (recover_native_probe_handoffs c now)"
proof -
  let ?J = "\<lambda>(rows :: (beat \<times> beat_run option) list) s. untouched (map fst rows) s \<and> (\<forall>x \<in> set rows. interrupted (fst x))"
  have step: "io_from (?J (x # rows)) (recover_one c now x) (?J rows)" for x :: "beat \<times> beat_run option" and rows
  proof (cases "\<forall>y \<in> set (x # rows). interrupted (fst y)")
    case True
    then have "io_from (untouched (map fst (x # rows))) (recover_one c now x) (untouched (map fst rows))"
      using from_recover_one [of "fst x" "map fst rows" c now "snd x"] by simp
    then show ?thesis by (rule untouched_row) (use True in auto)
  qed (auto simp: io_from_def)
  have "io_from (?J rows) (io_map (recover_one c now) rows) (?J [])" for rows
    by (rule io_from_map [where J = ?J and f = "recover_one c now", OF step]) (auto dest: untouched_later)
  then have loop: "io_from (?J rows) (io_map (recover_one c now) rows) beats_ok" for rows
    by (rule untouched_row) (auto simp: untouched_def)
  have "io_from beats_ok (io_bind (io_get interrupted_rows) (io_map (recover_one c now))) beats_ok"
    by (rule io_from_get, rule untouched_row [OF loop])
       (auto simp: interrupted_rows_def o_def untouched_filter)
  then show ?thesis
    unfolding recover_native_probe_handoffs_def io_keeps_from by (intro from_session) simp_all
qed

section \<open>Recording a run\<close>

lemma keeps_store_run [io_rules]:
  "io_keeps beats_ok (store_run now hid source thread run_id outcome result scheduled)"
  unfolding store_run_def by (intro io_rules keeps_update_runs) simp

lemma keeps_settle_row [io_rules]:
  "io_keeps beats_ok (settle_row c now h source thread run_id outcome result)"
proof -
  have active: "io_from (\<lambda>s. beats_ok s \<and> find_beat (bt_id h) (bs_beats s) = Some current)
     (io_then (if q then audit now a x y d else io_return ())
       (io_then (update_beats (\<lambda>b. bt_id b = bt_id h) (settle_columns (se_beat (settle c now h outcome result current))))
         (io_then (audit now a' x' y' d') (io_return r)))) beats_ok"
    (is "io_from ?P _ _")
    if "bt_status current = ''ACTIVE''" for current q a x y d a' x' y' d' and r :: pdict
  proof (rule io_from_then [where R = ?P])
    show "io_from ?P (if q then audit now a x y d else io_return ()) ?P"
      unfolding io_keeps_from [symmetric] by (intro io_rules) simp
    show "io_from ?P (io_then (update_beats (\<lambda>b. bt_id b = bt_id h) (settle_columns (se_beat (settle c now h outcome result current))))
         (io_then (audit now a' x' y' d') (io_return r))) beats_ok"
      by (rule io_from_then [where R = beats_ok], rule from_update_read [where current = current])
         (use that settle_ok [of current] settle_columns_current in \<open>auto simp: io_keeps_from [symmetric] intro!: io_rules\<close>)
  qed auto
  show ?thesis
    unfolding settle_row_def Let_def io_keeps_from
    by (intro from_rules)
       ((erule conjE, assumption) | (rule io_from_weaken, (rule active; simp); simp) |
        (rule io_from_keeps, (intro io_rules; simp); simp))+
qed

lemma keeps_record_run [io_rules]:
  "io_keeps beats_ok (record_run fresh c now h source thread result scheduled)"
  unfolding record_run_def Let_def by (intro io_rules) simp_all

end
