(* ===== verification/Beat_Machine.thy ===== *)
theory Beat_Machine
  imports Beat_Safety
begin

text \<open>
  \<open>HeartbeatStore\<close> as a machine: one datatype of calls, one step function, and what holds over any
  sequence of calls, from however many threads and processes: SQLite runs the calls one after the
  other.
\<close>

section \<open>Calls and steps\<close>

datatype beat_call =
    Create_Beat instant pdict
  | Update_Beat instant pdict
  | Set_Status instant string string string string
  | Arm_Trigger instant string string int "string option"
  | Finish_Trigger instant string string bool "string option"
  | Complete_Delivery instant string pyval string
  | Claim_Receipt instant string string "string option"
  | Finish_Receipt instant string bool pyval "string option" pyval
  | Recover_Handoffs instant
  | Take_Due instant instant
  | Claim_Due instant instant
  | Begin_Run instant string string string "string option"
  | Record_Turn instant string string string string string "string option"
  | Record_Run instant "beat option" "string option" string pdict "string option"

text \<open>The part of a result that the laws below speak about, as a value.\<close>

definition io_as :: "('a \<Rightarrow> pyval) \<Rightarrow> ('w, 'a) io \<Rightarrow> ('w, pyval) io" where
  "io_as g m = io_bind m (\<lambda>x. io_return (g x))"

definition row_status :: "beat \<times> beat_run option \<times> beat_run option \<Rightarrow> pyval" where
  "row_status x = PStr (bt_status (fst x))"

fun beat_call_io ::
  "beat_lib \<Rightarrow> beat_config \<Rightarrow> ('w \<Rightarrow> string \<times> 'w) \<Rightarrow> beat_call \<Rightarrow> ('w beat_state, pyval) io" where
  "beat_call_io lib c fresh (Create_Beat now request) = io_as (\<lambda>x. PBool (fst x)) (beat_create lib c now request)"
| "beat_call_io lib c fresh (Update_Beat now request) = io_as row_status (beat_update lib c now request)"
| "beat_call_io lib c fresh (Set_Status now hid status source confirmation) =
     io_as row_status (beat_set_status now hid status source confirmation)"
| "beat_call_io lib c fresh (Arm_Trigger now hid run_id percent source) =
     io_as PBool (arm_trigger_handoff now hid run_id percent source)"
| "beat_call_io lib c fresh (Finish_Trigger now hid run_id started source) =
     io_as (\<lambda>_. PNone) (finish_trigger_handoff now hid run_id started source)"
| "beat_call_io lib c fresh (Complete_Delivery now hid message source) =
     io_as row_status (complete_delivery now hid message source)"
| "beat_call_io lib c fresh (Claim_Receipt now hid mark source) =
     io_as PBool (claim_terminal_receipt now hid mark source)"
| "beat_call_io lib c fresh (Finish_Receipt now hid delivered turn source err) =
     io_as (\<lambda>_. PNone) (finish_terminal_receipt now hid delivered turn source err)"
| "beat_call_io lib c fresh (Recover_Handoffs now) =
     io_as (\<lambda>rows. PList (map PDict rows)) (recover_native_probe_handoffs c now)"
| "beat_call_io lib c fresh (Take_Due now current) =
     io_as (\<lambda>rows. PList (map (\<lambda>x. PStr (bt_id (fst x))) rows)) (due now current)"
| "beat_call_io lib c fresh (Claim_Due now current) =
     io_as (\<lambda>claims. PList (map (\<lambda>m. PStr (bm_run m)) claims)) (beat_claim_due fresh now current)"
| "beat_call_io lib c fresh (Begin_Run now hid source thread scheduled) =
     io_as PDict (begin_run fresh now hid source thread scheduled)"
| "beat_call_io lib c fresh (Record_Turn now hid run_id turn thread_status desktop source) =
     io_as (\<lambda>_. PNone) (record_inflight_turn now hid run_id turn thread_status desktop source)"
| "beat_call_io lib c fresh (Record_Run now h source thread result scheduled) =
     io_as PDict (record_run fresh c now h source thread result scheduled)"

lemma keeps_as [io_rules]: "io_keeps P m \<Longrightarrow> io_keeps P (io_as g m)"
  unfolding io_as_def by (intro io_rules) simp

definition empty_store :: "'w \<Rightarrow> 'w beat_state" where
  "empty_store w = \<lparr> bs_beats = [], bs_runs = [], bs_audit = [], bs_world = w \<rparr>"

lemma call_keeps_ok: "config_ok c \<Longrightarrow> io_keeps beats_ok (beat_call_io lib c fresh op)"
  by (cases op) (simp_all add: io_rules)

section \<open>A measure of the rows\<close>

text \<open>
  How many rows satisfy a predicate. An operation that changes rows only where the predicate held
  before never raises it; \<open>below Q n\<close> is the statement that is kept.
\<close>

definition below :: "(beat \<Rightarrow> bool) \<Rightarrow> nat \<Rightarrow> 'w beat_state \<Rightarrow> bool" where
  "below Q n s \<longleftrightarrow> length (filter Q (bs_beats s)) \<le> n"

lemma about_below [simp]: "about_tables (below Q n)"
  by (simp add: about_tables_def below_def)

lemma below_audit [simp]: "below Q n (s\<lparr> bs_audit := a \<rparr>) = below Q n s"
  and below_runs [simp]: "below Q n (s\<lparr> bs_runs := r \<rparr>) = below Q n s"
  by (simp_all add: below_def)

lemma filter_map_le:
  "(\<And>b. b \<in> set xs \<Longrightarrow> Q (f b) \<Longrightarrow> Q b) \<Longrightarrow> length (filter Q (map f xs)) \<le> length (filter Q xs)"
  by (induction xs) (auto simp: le_SucI)

lemma below_update:
  assumes "\<And>b. p b \<Longrightarrow> Q (f b) \<Longrightarrow> Q b"
  shows "io_keeps (below Q n) (update_beats p f)"
proof (rule io_keepsI)
  fix s :: "'w beat_state" assume "below Q n s"
  moreover have "length (filter Q (map (\<lambda>b. if p b then f b else b) (bs_beats s))) \<le> length (filter Q (bs_beats s))"
    by (rule filter_map_le) (use assms in \<open>auto split: if_splits\<close>)
  ultimately show "below Q n (snd (update_beats p f s))"
    by (simp add: below_def update_beats_def del: filter_map)
qed

text \<open>Rows of a heartbeat whose trigger is in one of the states \<open>T\<close>.\<close>

definition trig_in :: "string \<Rightarrow> string list \<Rightarrow> beat \<Rightarrow> bool" where
  "trig_in hid T b \<longleftrightarrow> bt_id b = hid \<and> bt_trigger b \<in> set T"

lemma trig_in_simps [simp]:
  "trig_in hid T (b\<lparr> bt_status := s, bt_updated := u \<rparr>) = trig_in hid T b"
  "trig_in hid T (b\<lparr> bt_next := n, bt_last_run := r, bt_updated := u \<rparr>) = trig_in hid T b"
  "trig_in hid T (b\<lparr> bt_last_turn := x, bt_last_thread_status := y, bt_updated := u \<rparr>) = trig_in hid T b"
  "trig_in hid T (status_beat now desired source confirmation b) = trig_in hid T b"
  "trig_in hid T (receipt_claimed now mark b) = trig_in hid T b"
  "trig_in hid T (receipt_finished now delivered turn err b) = trig_in hid T b"
  "trig_in hid T (settle_columns e b) = trig_in hid T b"
  by (simp_all add: trig_in_def status_beat_def receipt_claimed_def receipt_finished_def settle_columns_def)

lemma below_insert_run [io_rules]: "io_keeps (below Q n) (insert_run r)"
  unfolding insert_run_def by (intro io_rules) simp

lemma below_update_runs [io_rules]: "io_keeps (below Q n) (update_runs p g)"
  by (simp add: io_keeps_def update_runs_def)

lemma below_expire_all [io_rules]: "io_keeps (below (trig_in hid T) n) (expire_all now stamp current)"
  unfolding expire_all_def expire_one_def by (intro io_rules below_update) simp_all

lemma below_advance [io_rules]: "io_keeps (below (trig_in hid T) n) (advance_row current row)"
  unfolding advance_row_def by (intro below_update) simp

lemma below_due [io_rules]: "io_keeps (below (trig_in hid T) n) (due now current)"
  unfolding due_def by (intro io_rules) simp

lemma below_claim_due [io_rules]: "io_keeps (below (trig_in hid T) n) (beat_claim_due fresh now current)"
  unfolding beat_claim_due_def claim_one_def by (intro io_rules) simp_all

lemma below_begin [io_rules]: "io_keeps (below (trig_in hid T) n) (begin_run fresh now h source thread scheduled)"
  unfolding begin_run_def by (intro io_rules) simp_all

lemma below_turn [io_rules]:
  "io_keeps (below (trig_in hid T) n) (record_inflight_turn now h run_id turn thread_status desktop source)"
  unfolding record_inflight_turn_def by (intro io_rules below_update) simp_all

lemma below_set_status [io_rules]:
  "io_keeps (below (trig_in hid T) n) (beat_set_status now h status source confirmation)"
  unfolding beat_set_status_def Let_def by (intro io_rules below_update) simp_all

lemma below_claim_receipt [io_rules]:
  "io_keeps (below (trig_in hid T) n) (claim_terminal_receipt now h mark source)"
  unfolding claim_terminal_receipt_def by (intro io_rules below_update) simp_all

lemma below_finish_receipt [io_rules]:
  "io_keeps (below (trig_in hid T) n) (finish_terminal_receipt now h delivered turn source err)"
  unfolding finish_terminal_receipt_def by (intro io_rules below_update) simp_all

lemma below_record_run [io_rules]:
  "io_keeps (below (trig_in hid T) n) (record_run fresh c now h source thread result scheduled)"
  unfolding record_run_def Let_def store_run_def settle_row_def
  by (intro io_rules below_update) simp_all

section \<open>The recovery of interrupted handoffs\<close>

definition recover_out :: "beat \<times> beat_run option \<Rightarrow> pdict" where
  "recover_out x =
    [(''heartbeat_id'', PStr (bt_id (fst x))),
     (''run_id'', PStr (case bt_trigger_run (fst x) of None \<Rightarrow> [] | Some i \<Rightarrow> i)),
     (''trigger_state'', PStr (if recovered_turn (snd x) \<noteq> [] then ''handoff_pending_delivery'' else ''monitoring'')),
     (''turn_id'', opt_str (none_if_empty (recovered_turn (snd x))))]"

definition recovered_beat :: "beat_config \<Rightarrow> instant \<Rightarrow> beat_run option \<Rightarrow> beat \<Rightarrow> beat" where
  "recovered_beat c now run b = (if recovered_turn run \<noteq> [] then pending_beat now b else retried_beat c now b)"

lemma recover_one_step:
  obtains s' where "recover_one c now x s = (Inr (recover_out x), s')"
    "bs_beats s' = map (\<lambda>y. if bt_id y = bt_id (fst x) then recovered_beat c now (snd x) y else y) (bs_beats s)"
proof -
  obtain b run where x: "x = (b, run)" by (cases x)
  have "\<exists>s'. recover_one c now (b, run) s = (Inr (recover_out (b, run)), s') \<and>
      bs_beats s' = map (\<lambda>y. if bt_id y = bt_id b then recovered_beat c now run y else y) (bs_beats s)"
    by (cases "recovered_turn run = []"; cases "(case run of None \<Rightarrow> None | Some r \<Rightarrow> br_completed r) = None";
        cases "(case bt_trigger_run b of None \<Rightarrow> [] | Some i \<Rightarrow> i) = []")
       (simp_all add: recover_one_def recovered_turn_def [symmetric] recover_out_def recovered_beat_def Let_def
          update_beats_def update_runs_def close_run_def audit_def io_bind_def io_then_def)
  then show thesis using that by (auto simp: x)
qed

lemma recover_map_step:
  assumes "untouched (map fst rows) s" "\<And>x. x \<in> set rows \<Longrightarrow> interrupted (fst x)"
    and "\<And>x. x \<in> set rows \<Longrightarrow> Q (recovered_beat c now (snd x) (fst x)) \<Longrightarrow> Q (fst x)" "below Q n s"
  shows "fst (io_map (recover_one c now) rows s) = Inr (map recover_out rows) \<and>
         below Q n (snd (io_map (recover_one c now) rows s))"
  using assms
proof (induction rows arbitrary: s)
  case (Cons x rows)
  obtain s1 where one: "recover_one c now x s = (Inr (recover_out x), s1)"
    and beats: "bs_beats s1 = map (\<lambda>y. if bt_id y = bt_id (fst x) then recovered_beat c now (snd x) y else y) (bs_beats s)"
    by (rule recover_one_step)
  have ok: "beats_ok s" "fst x \<in> set (bs_beats s)" using Cons.prems(1) by (auto simp: untouched_def)
  have only: "y = fst x" if "y \<in> set (bs_beats s)" "bt_id y = bt_id (fst x)" for y
    using that ok find_beat_unique [of "bs_beats s"] by (metis beats_ok_def option.inject tables_ok_def)
  have "length (filter Q (bs_beats s1)) \<le> length (filter Q (bs_beats s))"
    unfolding beats by (rule filter_map_le) (use only Cons.prems(3) [of x] in \<open>auto split: if_splits\<close>)
  then have b: "below Q n s1" using Cons.prems(4) by (simp add: below_def)
  have "untouched (map fst rows) s1"
    using io_fromD [OF from_recover_one [of "fst x" "map fst rows" c now "snd x"], of s] Cons.prems(1,2) one by auto
  then have "fst (io_map (recover_one c now) rows s1) = Inr (map recover_out rows) \<and>
      below Q n (snd (io_map (recover_one c now) rows s1))"
    using Cons.IH [OF _ Cons.prems(2,3) b] by simp
  then show ?case using one by (cases "io_map (recover_one c now) rows s1") simp
qed simp

lemma recover_step:
  assumes "beats_ok s" "\<And>b. Q (pending_beat now b) \<Longrightarrow> interrupted b \<Longrightarrow> Q b"
    and "\<And>b run. (b, run) \<in> set (interrupted_rows s) \<Longrightarrow> recovered_turn run = [] \<Longrightarrow> Q (retried_beat c now b) \<Longrightarrow> Q b"
    and "below Q n s"
  shows "recover_native_probe_handoffs c now s =
      (Inr (map recover_out (interrupted_rows s)), snd (recover_native_probe_handoffs c now s))"
    and "below Q n (snd (recover_native_probe_handoffs c now s))"
proof -
  have "fst (io_map (recover_one c now) (interrupted_rows s) s) = Inr (map recover_out (interrupted_rows s)) \<and>
      below Q n (snd (io_map (recover_one c now) (interrupted_rows s) s))"
  proof (rule recover_map_step)
    show "untouched (map fst (interrupted_rows s)) s"
      using assms(1) by (simp add: interrupted_rows_def o_def untouched_filter)
  next
    fix x assume x: "x \<in> set (interrupted_rows s)"
    then show int: "interrupted (fst x)" by (auto simp: interrupted_rows_def)
    show "Q (fst x)" if "Q (recovered_beat c now (snd x) (fst x))"
      using that assms(2) [OF _ int] assms(3) [of "fst x" "snd x"] x
      by (cases "recovered_turn (snd x) = []") (simp_all add: recovered_beat_def)
  qed (rule assms(4))
  then show "recover_native_probe_handoffs c now s =
      (Inr (map recover_out (interrupted_rows s)), snd (recover_native_probe_handoffs c now s))"
    and "below Q n (snd (recover_native_probe_handoffs c now s))"
    by (cases "io_map (recover_one c now) (interrupted_rows s) s",
        simp add: recover_native_probe_handoffs_def session_def)+
qed

section \<open>Handoffs are counted\<close>

text \<open>At most one row has a given id, so the level of a heartbeat is 0 or 1.\<close>

lemma filter_le_1:
  assumes "distinct (map bt_id xs)" "\<And>b. Q b \<Longrightarrow> bt_id b = hid"
  shows "length (filter Q xs) \<le> 1"
proof -
  have "distinct (map bt_id (filter Q xs))" using assms(1) by (rule distinct_map_filter)
  then have "card (bt_id ` set (filter Q xs)) = length (filter Q xs)" by (metis distinct_card length_map list.set_map)
  moreover have "bt_id ` set (filter Q xs) \<subseteq> {hid}" using assms(2) by auto
  then have "card (bt_id ` set (filter Q xs)) \<le> 1" by (metis card.empty card_insert_disjoint card_mono empty_iff finite.emptyI finite.insertI One_nat_def)
  ultimately show ?thesis by simp
qed

definition trig_level :: "string \<Rightarrow> string list \<Rightarrow> 'w beat_state \<Rightarrow> nat" where
  "trig_level hid T s = length (filter (trig_in hid T) (bs_beats s))"

lemma level_le_1: "beats_ok s \<Longrightarrow> trig_level hid T s \<le> 1"
  unfolding trig_level_def by (rule filter_le_1) (auto simp: beats_ok_def tables_ok_def trig_in_def)

lemma level_below: "io_keeps (below (trig_in hid T) (trig_level hid T s)) m \<Longrightarrow> m s = (r, s') \<Longrightarrow> trig_level hid T s' \<le> trig_level hid T s"
  using io_keepsD [of "below (trig_in hid T) (trig_level hid T s)" m s r s']
  by (simp add: below_def trig_level_def)

text \<open>An update that takes every row it changes out of the states counted.\<close>

lemma update_takes:
  assumes "\<And>b. p b \<Longrightarrow> Q b \<and> \<not> Q (f b)"
  shows "length (filter Q (map (\<lambda>b. if p b then f b else b) xs)) + length (filter p xs) = length (filter Q xs)"
  using assms by (induction xs) auto

lemma update_none: "length (filter p xs) = 0 \<Longrightarrow> map (\<lambda>b. if p b then f b else b) xs = xs"
  by (induction xs) (auto split: if_splits)

lemma as_Inr: "io_as g m s = (Inr v, s') \<longleftrightarrow> (\<exists>x. m s = (Inr x, s') \<and> v = g x)"
  by (auto simp: io_as_def io_bind_Inr)

lemma as_Inl: "io_as g m s = (Inl e, s') \<longleftrightarrow> m s = (Inl e, s')"
  by (auto simp: io_as_def io_bind_def split: prod.splits sum.splits)

lemma session_Inl: "session m s = (Inl e, s') \<Longrightarrow> bs_beats s' = bs_beats s"
  by (auto simp: session_def split: prod.splits sum.splits)

section \<open>Arming, renewing, delivering\<close>

text \<open>
  What is counted for one heartbeat: an armed trigger, a delivered notification, and a renewal, that
  is a call after which a trigger may be armed again: the creation or an update of the heartbeat, the
  release of a handoff that started no turn, or its recovery after a restart.
\<close>

fun arms :: "string \<Rightarrow> beat_call \<Rightarrow> pyval result \<Rightarrow> nat" where
  "arms hid (Arm_Trigger now h run_id percent source) r = (if h = hid \<and> r = Inr (PBool True) then 1 else 0)"
| "arms hid _ r = 0"

fun deliveries :: "string \<Rightarrow> beat_call \<Rightarrow> pyval result \<Rightarrow> nat" where
  "deliveries hid (Complete_Delivery now h message source) (Inr v) = (if h = hid then 1 else 0)"
| "deliveries hid _ r = 0"

definition released_in :: "string \<Rightarrow> pyval \<Rightarrow> bool" where
  "released_in hid v \<longleftrightarrow> dget (as_dict v) ''heartbeat_id'' = PStr hid \<and>
     dget (as_dict v) ''trigger_state'' = PStr ''monitoring''"

fun renewals :: "string \<Rightarrow> beat_call \<Rightarrow> pyval result \<Rightarrow> nat" where
  "renewals hid (Create_Beat now request) r =
     (if stripped (dget request ''heartbeat_id'') = hid \<and> r = Inr (PBool True) then 1 else 0)"
| "renewals hid (Update_Beat now request) (Inr v) =
     (if stripped (dget request ''heartbeat_id'') = hid then 1 else 0)"
| "renewals hid (Finish_Trigger now h run_id started source) (Inr v) = (if h = hid \<and> \<not> started then 1 else 0)"
| "renewals hid (Recover_Handoffs now) (Inr v) = (if list_ex (released_in hid) (as_list v) then 1 else 0)"
| "renewals hid _ r = 0"

abbreviation armable :: "string list" where
  "armable \<equiv> [''monitoring'']"

abbreviation handed :: "string list" where
  "handed \<equiv> [''handoff_inflight'', ''handoff_pending_delivery'']"

lemma validated_id: "validate_request lib c now request = Inr v \<Longrightarrow> bq_id v = stripped (dget request ''heartbeat_id'')"
  unfolding validate_request_def Let_def by (auto elim!: rbind_InrE)

section \<open>What the calls that touch a trigger do to the rows\<close>

lemma arm_rows:
  assumes "arm_trigger_handoff now h run_id percent source s = (r, s')"
  shows "bs_beats s' = map (\<lambda>b. if can_arm h b then armed_beat now run_id percent b else b) (bs_beats s) \<and>
    r = Inr (length (filter (can_arm h) (bs_beats s)) = 1)"
  using assms
  by (cases "length (filter (can_arm h) (bs_beats s)) = Suc 0";
      auto simp: arm_trigger_handoff_def session_def update_beats_def audit_def io_bind_def io_then_def)

lemma finish_rows:
  assumes "finish_trigger_handoff now h run_id started source s = (r, s')"
  shows "(\<exists>e. r = Inl e) \<and> bs_beats s' = bs_beats s \<or>
     r = Inr () \<and> bs_beats s' = map (\<lambda>b. if bt_id b = h \<and> bt_trigger_run b = Some run_id
       \<and> bt_trigger b = ''handoff_inflight'' then handoff_beat now started b else b) (bs_beats s)"
  using assms
  by (auto simp: finish_trigger_handoff_def session_def update_beats_def audit_def io_bind_def io_then_def
      split: if_splits)

lemma create_rows:
  assumes "beat_create lib c now request s = (r, s')"
  obtains (same) "bs_beats s' = bs_beats s" "\<And>b. r \<noteq> Inr (True, b)"
  | (new) v where "validate_request lib c now request = Inr v" "r = Inr (True, new_beat now v)"
      "bs_beats s' = bs_beats s @ [new_beat now v]"
proof (cases "validate_request lib c now request")
  case (Inl e)
  then show thesis using assms by (intro same) (auto simp: beat_create_def io_bind_def)
next
  case (Inr v)
  show thesis
  proof (cases "find_beat (bq_id v) (bs_beats s)")
    case None
    then show thesis using assms Inr
      by (intro new [of v]) (auto simp: beat_create_def session_def audit_def io_bind_def io_then_def)
  next
    case (Some b)
    then show thesis using assms Inr
      by (intro same) (auto simp: beat_create_def session_def io_bind_def split: if_splits)
  qed
qed

lemma get_Inr: "find_beat hid (bs_beats s) \<noteq> None \<Longrightarrow> \<exists>x. beat_get hid s = (Inr x, s)"
  by (auto simp: beat_get_def Let_def)

lemma find_after_map:
  assumes "find_beat hid rows \<noteq> None" "\<And>b. bt_id (f b) = bt_id b"
  shows "find_beat hid (map (\<lambda>b. if p b then f b else b) rows) \<noteq> None"
proof -
  have "map bt_id (map (\<lambda>b. if p b then f b else b) rows) = map bt_id rows"
    by (simp add: assms(2))
  then have "bt_id ` set (map (\<lambda>b. if p b then f b else b) rows) = bt_id ` set rows" by (metis list.set_map)
  then show ?thesis using assms(1) by (metis find_beat_None)
qed

lemma get_same: "beat_get hid s = (r, s') \<Longrightarrow> s' = s"
  by (simp add: beat_get_def Let_def)

lemma replaced_rows:
  "replace_beat now v re s = (Inr u, t) \<Longrightarrow>
   bs_beats t = map (\<lambda>b. if bt_id b = bq_id v then updated_beat now v re b else b) (bs_beats s) \<and>
   find_beat (bq_id v) (bs_beats s) \<noteq> None"
  by (auto simp: replace_beat_def Let_def update_beats_def audit_def io_bind_def io_then_def
      split: option.splits if_splits)

lemma update_rows:
  assumes "beat_update lib c now request s = (r, s')"
  obtains (same) e where "bs_beats s' = bs_beats s" "r = Inl e"
  | (changed) v x reactivate where "validate_request lib c now request = Inr v" "r = Inr x"
      "bs_beats s' = map (\<lambda>b. if bt_id b = bq_id v then updated_beat now v reactivate b else b) (bs_beats s)"
proof (cases "validate_request lib c now request")
  case (Inl e)
  then show thesis using assms by (intro same) (auto simp: beat_update_def io_bind_def)
next
  case (Inr v)
  define re where "re = (dget request ''reactivate'' = PBool True)"
  let ?rows = "map (\<lambda>b. if bt_id b = bq_id v then updated_beat now v re b else b) (bs_beats s)"
  have m: "beat_update lib c now request s = io_then (session (replace_beat now v re)) (beat_get (bq_id v)) s"
    using Inr by (simp add: beat_update_def re_def)
  obtain q t where q: "session (replace_beat now v re) s = (q, t)" by fastforce
  show thesis
  proof (cases q)
    case (Inl e)
    then show thesis using q assms m session_Inl [OF q [unfolded Inl]] by (intro same [of e]) auto
  next
    case (Inr u)
    then have t: "bs_beats t = ?rows" "find_beat (bq_id v) (bs_beats s) \<noteq> None"
      using q replaced_rows [of now v re s u t] by auto
    then have "find_beat (bq_id v) (bs_beats t) \<noteq> None" by (metis find_after_map updated_ids(1))
    then obtain x where "beat_get (bq_id v) t = (Inr x, t)" using get_Inr by blast
    then show thesis using q Inr assms m t \<open>validate_request lib c now request = Inr v\<close>
      by (intro changed [of v x re]) auto
  qed
qed

lemma delivery_rows:
  assumes "complete_delivery now h message source s = (r, s')"
  shows "(\<exists>e. r = Inl e) \<and> bs_beats s' = bs_beats s \<or>
     (\<exists>message'. length (filter (awaits_delivery h) (bs_beats s)) = 1 \<and>
       bs_beats s' = map (\<lambda>b. if awaits_delivery h b then delivered_beat now message' b else b) (bs_beats s))"
  using assms
  by (auto simp: complete_delivery_def Let_def session_def update_beats_def audit_def io_bind_def io_then_def
      beat_get_def split: if_splits option.splits)

section \<open>The two balances\<close>

text \<open>A call that changes no row of the heartbeat, or only lowers the level, is below.\<close>

lemma level_map:
  "bs_beats s' = map (\<lambda>b. if p b then f b else b) (bs_beats s) \<Longrightarrow>
   (\<And>b. p b \<Longrightarrow> trig_in hid T (f b) \<Longrightarrow> trig_in hid T b) \<Longrightarrow> trig_level hid T s' \<le> trig_level hid T s"
  unfolding trig_level_def
  by (simp only:, rule filter_map_le) (auto split: if_splits)

lemma level_taken:
  "bs_beats s' = map (\<lambda>b. if p b then f b else b) (bs_beats s) \<Longrightarrow>
   (\<And>b. p b \<Longrightarrow> trig_in hid T b \<and> \<not> trig_in hid T (f b)) \<Longrightarrow>
   trig_level hid T s' + length (filter p (bs_beats s)) = trig_level hid T s"
  unfolding trig_level_def using update_takes [of p "trig_in hid T" f "bs_beats s"] by (simp del: filter_map)

text \<open>The calls that never raise a level.\<close>

fun quiet_call :: "beat_call \<Rightarrow> bool" where
  "quiet_call (Create_Beat now request) = False"
| "quiet_call (Update_Beat now request) = False"
| "quiet_call (Arm_Trigger now hid run_id percent source) = False"
| "quiet_call (Finish_Trigger now hid run_id started source) = False"
| "quiet_call (Complete_Delivery now hid message source) = False"
| "quiet_call (Recover_Handoffs now) = False"
| "quiet_call _ = True"

lemma quiet_level:
  assumes "quiet_call op" "beat_call_io lib c fresh op s = (r, s')"
  shows "trig_level hid T s' \<le> trig_level hid T s"
proof -
  have "io_keeps (below (trig_in hid T) (trig_level hid T s)) (beat_call_io lib c fresh op)"
    using assms(1) by (cases op) (simp_all add: io_rules)
  then show ?thesis using assms(2) by (rule level_below)
qed

lemma call_result:
  "io_as g m s = (r, s') \<Longrightarrow> \<exists>q. m s = (q, s') \<and> (case q of Inl e \<Rightarrow> r = Inl e | Inr x \<Rightarrow> r = Inr (g x))"
  by (cases r) (auto simp: as_Inr as_Inl)

lemma create_level:
  assumes "beat_call_io lib c fresh (Create_Beat now request) s = (r, s')"
    and "r = Inr (PBool True) \<Longrightarrow> stripped (dget request ''heartbeat_id'') = hid \<Longrightarrow> ''monitoring'' \<notin> set T"
    and "''not_applicable'' \<notin> set T"
  shows "trig_level hid T s' \<le> trig_level hid T s"
proof -
  obtain q where q: "beat_create lib c now request s = (q, s')"
    "case q of Inl e \<Rightarrow> r = Inl e | Inr x \<Rightarrow> r = Inr (PBool (fst x))"
    using call_result [OF assms(1) [unfolded beat_call_io.simps]] by blast
  from q(1) show ?thesis
  proof (cases rule: create_rows)
    case same
    then show ?thesis by (simp add: trig_level_def)
  next
    case (new v)
    have "\<not> trig_in hid T (new_beat now v)"
      using assms(2,3) new(2) q(2) validated(2) [OF new(1)] validated_id [OF new(1)]
      by (auto simp: trig_in_def new_beat_def split: if_splits)
    then show ?thesis using new(3) by (simp add: trig_level_def)
  qed
qed

lemma update_level:
  assumes "beat_call_io lib c fresh (Update_Beat now request) s = (r, s')"
    and "\<And>x. r = Inr x \<Longrightarrow> stripped (dget request ''heartbeat_id'') = hid \<Longrightarrow> ''monitoring'' \<notin> set T"
    and "''not_applicable'' \<notin> set T"
  shows "trig_level hid T s' \<le> trig_level hid T s"
proof -
  obtain q where q: "beat_update lib c now request s = (q, s')"
    "case q of Inl e \<Rightarrow> r = Inl e | Inr x \<Rightarrow> r = Inr (row_status x)"
    using call_result [OF assms(1) [unfolded beat_call_io.simps]] by blast
  from q(1) show ?thesis
  proof (cases rule: update_rows)
    case (same e)
    then show ?thesis by (simp add: trig_level_def)
  next
    case (changed v x re)
    have "\<not> trig_in hid T (updated_beat now v re b)" if "bt_id b = bq_id v" for b
      using assms(2,3) changed(2) q(2) validated(2) [OF changed(1)] validated_id [OF changed(1)] that
      by (auto simp: trig_in_def updated_beat_def Let_def split: if_splits)
    then show ?thesis by (intro level_map [OF changed(3)]) auto
  qed
qed

lemma finish_level:
  assumes "beat_call_io lib c fresh (Finish_Trigger now h run_id started source) s = (r, s')"
    and "\<And>x. r = Inr x \<Longrightarrow> h = hid \<Longrightarrow> \<not> started \<Longrightarrow> ''monitoring'' \<notin> set T"
    and "''handoff_pending_delivery'' \<in> set T \<Longrightarrow> ''handoff_inflight'' \<in> set T"
  shows "trig_level hid T s' \<le> trig_level hid T s"
proof -
  obtain q where q: "finish_trigger_handoff now h run_id started source s = (q, s')"
    "case q of Inl e \<Rightarrow> r = Inl e | Inr x \<Rightarrow> r = Inr PNone"
    using call_result [OF assms(1) [unfolded beat_call_io.simps]] by blast
  from finish_rows [OF q(1)] show ?thesis
  proof
    assume "(\<exists>e. q = Inl e) \<and> bs_beats s' = bs_beats s"
    then show ?thesis by (simp add: trig_level_def)
  next
    assume a: "q = Inr () \<and> bs_beats s' = map (\<lambda>b. if bt_id b = h \<and> bt_trigger_run b = Some run_id
       \<and> bt_trigger b = ''handoff_inflight'' then handoff_beat now started b else b) (bs_beats s)"
    have "trig_in hid T b" if "trig_in hid T (handoff_beat now started b)" "bt_trigger b = ''handoff_inflight''"
      "bt_id b = h" for b
      using that assms(2,3) q(2) a by (auto simp: trig_in_def handoff_beat_def split: if_splits)
    then show ?thesis by (intro level_map [OF conjunct2 [OF a]]) auto
  qed
qed

lemma recover_level:
  assumes "beats_ok s" "beat_call_io lib c fresh (Recover_Handoffs now) s = (r, s')"
    and "\<And>v. r = Inr v \<Longrightarrow> ''monitoring'' \<in> set T \<Longrightarrow> \<not> list_ex (released_in hid) (as_list v)"
    and "''handoff_pending_delivery'' \<in> set T \<Longrightarrow> ''handoff_inflight'' \<in> set T"
  shows "trig_level hid T s' \<le> trig_level hid T s"
proof -
  obtain q where q: "recover_native_probe_handoffs c now s = (q, s')"
    "case q of Inl e \<Rightarrow> r = Inl e | Inr x \<Rightarrow> r = Inr (PList (map PDict x))"
    using call_result [OF assms(2) [unfolded beat_call_io.simps]] by blast
  have below: "below (trig_in hid T) (trig_level hid T s) s" by (simp add: below_def trig_level_def)
  have pending: "trig_in hid T b" if "trig_in hid T (pending_beat now b)" "interrupted b" for b
    using that assms(4) by (auto simp: trig_in_def pending_beat_def interrupted_def)
  have out: "q = Inr (map recover_out (interrupted_rows s))"
    using recover_step(1) [of s "\<lambda>_. True" now c "length (bs_beats s)"] assms(1) q(1) by (simp add: below_def)
  have retried: False
    if "(b, run) \<in> set (interrupted_rows s)" "recovered_turn run = []" "trig_in hid T (retried_beat c now b)" for b run
  proof -
    have "released_in hid (PDict (recover_out (b, run)))"
      using that(2,3) by (simp add: released_in_def recover_out_def trig_in_def)
    moreover have "''monitoring'' \<in> set T" using that(3) by (simp add: trig_in_def retried_beat_def)
    ultimately show False using assms(3) out q(2) that(1) by (auto simp: list_ex_iff)
  qed
  have "below (trig_in hid T) (trig_level hid T s) (snd (recover_native_probe_handoffs c now s))"
    by (rule recover_step(2) [OF assms(1)]) (use pending retried below in blast)+
  then show ?thesis using q(1) by (simp add: below_def trig_level_def)
qed

lemma arm_level:
  assumes "beat_call_io lib c fresh (Arm_Trigger now h run_id percent source) s = (r, s')"
  shows "trig_level hid armable s' + arms hid (Arm_Trigger now h run_id percent source) r \<le> trig_level hid armable s"
    and "beats_ok s \<Longrightarrow> h \<noteq> hid \<or> r \<noteq> Inr (PBool True) \<Longrightarrow> trig_level hid handed s' \<le> trig_level hid handed s"
proof -
  obtain q where q: "arm_trigger_handoff now h run_id percent source s = (q, s')"
    "case q of Inl e \<Rightarrow> r = Inl e | Inr x \<Rightarrow> r = Inr (PBool x)"
    using call_result [OF assms(1) [unfolded beat_call_io.simps]] by blast
  note rows = arm_rows [OF q(1)]
  have r: "r = Inr (PBool (length (filter (can_arm h) (bs_beats s)) = 1))" using rows q(2) by simp
  show "trig_level hid armable s' + arms hid (Arm_Trigger now h run_id percent source) r \<le> trig_level hid armable s"
  proof (cases "h = hid")
    case True
    have "trig_level hid armable s' + length (filter (can_arm h) (bs_beats s)) = trig_level hid armable s"
      by (rule level_taken [OF conjunct1 [OF rows]]) (auto simp: True trig_in_def can_arm_def armed_beat_def)
    then show ?thesis using r by (auto split: if_splits)
  next
    case False
    have "trig_level hid armable s' \<le> trig_level hid armable s"
      by (rule level_map [OF conjunct1 [OF rows]]) (auto simp: trig_in_def armed_beat_def)
    then show ?thesis using False by simp
  qed
  show "trig_level hid handed s' \<le> trig_level hid handed s"
    if ok: "beats_ok s" and other: "h \<noteq> hid \<or> r \<noteq> Inr (PBool True)"
  proof (cases "h = hid")
    case True
    have "length (filter (can_arm h) (bs_beats s)) \<le> 1"
      by (rule filter_le_1 [where hid = h]) (use ok in \<open>auto simp: beats_ok_def tables_ok_def can_arm_def\<close>)
    then have "length (filter (can_arm h) (bs_beats s)) = 0"
      using other True r by (cases "length (filter (can_arm h) (bs_beats s))") auto
    then have "bs_beats s' = bs_beats s" using rows update_none by metis
    then show ?thesis by (simp add: trig_level_def)
  next
    case False
    show ?thesis
      by (rule level_map [OF conjunct1 [OF rows]]) (use False in \<open>auto simp: trig_in_def armed_beat_def can_arm_def\<close>)
  qed
qed

lemma delivery_level:
  assumes "beat_call_io lib c fresh (Complete_Delivery now h message source) s = (r, s')"
  shows "trig_level hid handed s' + deliveries hid (Complete_Delivery now h message source) r \<le> trig_level hid handed s
    \<and> trig_level hid armable s' \<le> trig_level hid armable s"
proof -
  obtain q where q: "complete_delivery now h message source s = (q, s')"
    "case q of Inl e \<Rightarrow> r = Inl e | Inr x \<Rightarrow> r = Inr (row_status x)"
    using call_result [OF assms(1) [unfolded beat_call_io.simps]] by blast
  show ?thesis
  proof (cases "(\<exists>e. q = Inl e) \<and> bs_beats s' = bs_beats s")
    case True
    then show ?thesis using q(2) by (auto simp: trig_level_def)
  next
    case False
    obtain message' where
      one: "length (filter (awaits_delivery h) (bs_beats s)) = 1"
      and rows: "bs_beats s' = map (\<lambda>b. if awaits_delivery h b then delivered_beat now message' b else b) (bs_beats s)"
      using delivery_rows [OF q(1)] by (elim disjE exE conjE) (use False in simp, rule that)
    have "trig_level hid armable s' \<le> trig_level hid armable s"
      by (rule level_map [OF rows]) (auto simp: trig_in_def delivered_beat_def)
    moreover have "trig_level hid handed s' + length (filter (awaits_delivery h) (bs_beats s)) = trig_level hid handed s"
      if "h = hid"
      by (rule level_taken [OF rows]) (auto simp: that trig_in_def awaits_delivery_def delivered_beat_def)
    moreover have "trig_level hid handed s' \<le> trig_level hid handed s"
      by (rule level_map [OF rows]) (auto simp: trig_in_def delivered_beat_def)
    ultimately show ?thesis using one by (cases r; cases "h = hid") auto
  qed
qed

definition machine_ok :: "beat_config \<Rightarrow> 'w beat_state \<Rightarrow> bool" where
  "machine_ok c s \<longleftrightarrow> config_ok c \<and> beats_ok s"

lemma machine_step_ok: "machine_ok c s \<Longrightarrow> machine_ok c (snd (beat_call_io lib c fresh op s))"
  using call_keeps_ok [of c lib fresh op] by (simp add: machine_ok_def io_keeps_def)

lemma arm_balance:
  assumes "machine_ok c s" "beat_call_io lib c fresh op s = (r, s')"
  shows "trig_level hid armable s' + arms hid op r \<le> trig_level hid armable s + renewals hid op r"
proof (cases "1 \<le> renewals hid op r \<and> arms hid op r = 0")
  case True
  have "machine_ok c s'" using machine_step_ok [OF assms(1), of lib fresh op] assms(2) by simp
  then have "trig_level hid armable s' \<le> 1" using level_le_1 by (auto simp: machine_ok_def)
  then show ?thesis using True by linarith
next
  case False
  show ?thesis
  proof (cases op)
    case (Create_Beat now request)
    then show ?thesis using create_level [OF assms(2) [unfolded Create_Beat], of hid armable] False by (auto split: if_splits)
  next
    case (Update_Beat now request)
    then show ?thesis using update_level [OF assms(2) [unfolded Update_Beat], of hid armable] False
      by (cases r) (auto split: if_splits)
  next
    case (Arm_Trigger now h run_id percent source)
    then show ?thesis using arm_level(1) [OF assms(2) [unfolded Arm_Trigger], of hid] by simp
  next
    case (Finish_Trigger now h run_id started source)
    then show ?thesis using finish_level [OF assms(2) [unfolded Finish_Trigger], of hid armable] False
      by (cases r) (auto split: if_splits)
  next
    case (Complete_Delivery now h message source)
    then show ?thesis using delivery_level [OF assms(2) [unfolded Complete_Delivery], of hid] by simp
  next
    case (Recover_Handoffs now)
    then show ?thesis
      using recover_level [OF _ assms(2) [unfolded Recover_Handoffs], of armable hid] False assms(1)
      by (cases r) (auto simp: machine_ok_def split: if_splits)
  qed (use quiet_level [OF _ assms(2), of hid armable] in simp_all)
qed

lemma delivery_balance:
  assumes "machine_ok c s" "beat_call_io lib c fresh op s = (r, s')"
  shows "trig_level hid handed s' + deliveries hid op r \<le> trig_level hid handed s + arms hid op r"
proof (cases "1 \<le> arms hid op r \<and> deliveries hid op r = 0")
  case True
  have "machine_ok c s'" using machine_step_ok [OF assms(1), of lib fresh op] assms(2) by simp
  then have "trig_level hid handed s' \<le> 1" using level_le_1 by (auto simp: machine_ok_def)
  then show ?thesis using True by linarith
next
  case False
  have ok: "beats_ok s" using assms(1) by (simp add: machine_ok_def)
  show ?thesis
  proof (cases op)
    case (Create_Beat now request)
    then show ?thesis using create_level [OF assms(2) [unfolded Create_Beat], of hid handed] by simp
  next
    case (Update_Beat now request)
    then show ?thesis using update_level [OF assms(2) [unfolded Update_Beat], of hid handed] by simp
  next
    case (Arm_Trigger now h run_id percent source)
    then show ?thesis using arm_level(2) [OF assms(2) [unfolded Arm_Trigger] ok, of hid] False by (auto split: if_splits)
  next
    case (Finish_Trigger now h run_id started source)
    then show ?thesis using finish_level [OF assms(2) [unfolded Finish_Trigger], of hid handed] by simp
  next
    case (Complete_Delivery now h message source)
    then show ?thesis using delivery_level [OF assms(2) [unfolded Complete_Delivery], of hid] by simp
  next
    case (Recover_Handoffs now)
    then show ?thesis using recover_level [OF ok assms(2) [unfolded Recover_Handoffs], of handed hid] by simp
  qed (use quiet_level [OF _ assms(2), of hid handed] in simp_all)
qed

section \<open>The machine\<close>

interpretation bt: store_machine "beat_call_io lib c fresh" "machine_ok c" for lib c fresh
  by unfold_locales (rule machine_step_ok)

interpretation ar: counted_machine "beat_call_io lib c fresh" "machine_ok c" "renewals hid" "arms hid"
  "trig_level hid armable" for lib c fresh hid
  by unfold_locales (rule arm_balance)

interpretation dl: counted_machine "beat_call_io lib c fresh" "machine_ok c" "arms hid" "deliveries hid"
  "trig_level hid handed" for lib c fresh hid
  by unfold_locales (rule delivery_balance)

lemma empty_machine [simp]:
  "machine_ok c (empty_store w) \<longleftrightarrow> config_ok c" "trig_level hid T (empty_store w) = 0"
  by (simp_all add: machine_ok_def beats_ok_def tables_ok_def empty_store_def trig_level_def)


text \<open>
  C11: A native probe hands off one AI turn at a time: over any sequence of calls from an empty store,
  the notifications delivered for a heartbeat are at most the triggers armed for it, and these are at
  most its renewals (its creation, its updates, the releases of a handoff that started no turn and the
  recoveries after a restart that found none).
\<close>

theorem one_handoff_per_renewal:
  assumes "config_ok c" "run_ops (beat_call_io lib c fresh) calls (empty_store w) = (rs, s)"
  shows "total (deliveries hid) calls rs \<le> total (arms hid) calls rs \<and>
         total (arms hid) calls rs \<le> total (renewals hid) calls rs"
  using dl.taken_at_most_given [OF assms(2)] ar.taken_at_most_given [OF assms(2)] assms(1) by simp

end
