(* ===== verification/Iso_Order.thy ===== *)
theory Iso_Order
  imports Iso_Time "HOL-Library.List_Lexorder" "HOL-Library.Char_ord"
begin

text \<open>
  The text order of \<open>isoformat\<close> is the order of time. SQLite compares the column \<open>expires_at\<close> with
  the text of the present instant; the comparison is right although the fraction of a second is
  absent when it is zero, because \<open>+\<close> comes before the period in ASCII.
\<close>

section \<open>Numbers of fixed width\<close>

lemma append_le:
  fixes a b :: "'a :: linorder list"
  assumes "length a = length b"
  shows "a @ x \<le> b @ y \<longleftrightarrow> a < b \<or> a = b \<and> x \<le> y"
  using assms by (induction a b rule: list_induct2) auto

lemma digit_less: "m < 10 \<Longrightarrow> n < 10 \<Longrightarrow> digit_char m < digit_char n \<longleftrightarrow> m < n"
  by (simp add: digit_char_def less_char_def)

lemma digit_eq: "m < 10 \<Longrightarrow> n < 10 \<Longrightarrow> digit_char m = digit_char n \<longleftrightarrow> m = n"
  using digit_less [of m n] digit_less [of n m] by (metis less_irrefl linorder_less_linear)

lemma digit_mod: "digit_char n = digit_char (n mod 10)"
  by (simp add: digit_char_def)

text \<open>A number of fixed width: the leading part decides, then the rest.\<close>

lemma lex_digit:
  fixes m n k :: nat
  assumes "0 < k"
  shows "m < n \<longleftrightarrow> m div k < n div k \<or> m div k = n div k \<and> m mod k < n mod k"
proof -
  have "m = m div k * k + m mod k" "n = n div k * k + n mod k" by simp_all
  moreover have "m mod k < k" "n mod k < k" using assms by simp_all
  ultimately show ?thesis
    by (smt (verit) div_le_mono leD less_le_not_le linorder_neqE_nat nat_add_left_cancel_less)
qed

lemma lex_eq: "m = n \<longleftrightarrow> m div k = n div k \<and> m mod k = n mod (k :: nat)"
  by (metis div_mult_mod_eq)

lemma pad2_order:
  assumes "m < 100" "n < 100"
  shows "pad2 m < pad2 n \<longleftrightarrow> m < n" "pad2 m = pad2 n \<longleftrightarrow> m = n"
proof -
  have b: "m div 10 < 10" "n div 10 < 10" "m mod 10 < 10" "n mod 10 < 10" using assms by auto
  have p: "pad2 k = [digit_char (k div 10), digit_char (k mod 10)]" for k
    unfolding pad2_def using digit_mod [of k] by simp
  show less: "pad2 m < pad2 n \<longleftrightarrow> m < n"
    unfolding p lex_digit [of 10 m n, simplified] using b by (simp add: digit_less digit_eq)
  show "pad2 m = pad2 n \<longleftrightarrow> m = n"
    unfolding p using b by (simp add: digit_eq) (metis div_mult_mod_eq)
qed

lemma pad4_pad2: "pad4 n = pad2 (n div 100) @ pad2 (n mod 100)"
proof -
  have "digit_char (n div 10) = digit_char (n mod 100 div 10)" "digit_char n = digit_char (n mod 100)"
    unfolding digit_char_def by (simp_all add: mod_mult2_eq [of n 10 10, simplified] mod_mod_cancel)
  then show ?thesis by (simp add: pad4_def pad2_def div_mult2_eq [symmetric])
qed

lemma pad6_pad2: "pad6 n = pad2 (n div 10000) @ pad4 (n mod 10000)"
proof -
  define q r where "q = n div 10000" and "r = n mod 10000"
  have n: "n = 10000 * q + r" by (simp add: q_def r_def)
  have e: "(k * x + r) div k = x + r div k" if "0 < k" for k x :: nat using that by simp
  have "n div 100000 = q div 10" by (simp add: q_def div_mult2_eq [symmetric])
  moreover have "n div 1000 = 10 * q + r div 1000" "n div 100 = 10 * (10 * q) + r div 100"
    "n div 10 = 10 * (100 * q) + r div 10" "n = 10 * (1000 * q) + r"
    using e [of 1000 "10 * q"] e [of 100 "100 * q"] e [of 10 "1000 * q"] n by simp_all
  moreover have "digit_char (10 * a + b) = digit_char b" for a b by (simp add: digit_char_def)
  ultimately have "pad6 n = [digit_char (q div 10), digit_char q] @ pad4 r"
    unfolding pad6_def pad4_def q_def [symmetric] by metis
  then show ?thesis by (simp add: pad2_def q_def r_def)
qed

text \<open>What each part contributes to the comparison of two texts.\<close>

lemma pad2_le: "m < 100 \<Longrightarrow> n < 100 \<Longrightarrow> pad2 m @ x \<le> pad2 n @ y \<longleftrightarrow> m < n \<or> m = n \<and> x \<le> y"
  by (subst append_le) (simp_all add: pad2_order, simp add: pad2_def)

lemma pad4_le:
  assumes "m < 10000" "n < 10000"
  shows "pad4 m @ x \<le> pad4 n @ y \<longleftrightarrow> m < n \<or> m = n \<and> x \<le> y"
proof -
  have "m div 100 < 100" "n div 100 < 100" using assms by (simp_all add: less_mult_imp_div_less)
  then have "pad4 m @ x \<le> pad4 n @ y \<longleftrightarrow> m div 100 < n div 100 \<or> m div 100 = n div 100 \<and>
     (m mod 100 < n mod 100 \<or> m mod 100 = n mod 100 \<and> x \<le> y)"
    unfolding pad4_pad2 append_assoc by (simp only: pad2_le mod_less_divisor zero_less_numeral)
  moreover have "m < n \<longleftrightarrow> m div 100 < n div 100 \<or> m div 100 = n div 100 \<and> m mod 100 < n mod 100"
    by (rule lex_digit) simp
  ultimately show ?thesis using lex_eq [of m n 100] by blast
qed

lemma pad6_le:
  assumes "m < 1000000" "n < 1000000"
  shows "pad6 m @ x \<le> pad6 n @ y \<longleftrightarrow> m < n \<or> m = n \<and> x \<le> y"
proof -
  have "m div 10000 < 100" "n div 10000 < 100" using assms by (simp_all add: less_mult_imp_div_less)
  then have "pad6 m @ x \<le> pad6 n @ y \<longleftrightarrow> m div 10000 < n div 10000 \<or> m div 10000 = n div 10000 \<and>
     (m mod 10000 < n mod 10000 \<or> m mod 10000 = n mod 10000 \<and> x \<le> y)"
    unfolding pad6_pad2 append_assoc by (simp only: pad2_le pad4_le mod_less_divisor zero_less_numeral)
  moreover have "m < n \<longleftrightarrow> m div 10000 < n div 10000 \<or> m div 10000 = n div 10000 \<and> m mod 10000 < n mod 10000"
    by (rule lex_digit) simp
  ultimately show ?thesis using lex_eq [of m n 10000] by blast
qed

section \<open>Dates and clocks\<close>

lemma suc_div: "Suc p div k = p div k + (if Suc p mod k = 0 then 1 else (0 :: nat))"
  by (simp add: div_Suc)

lemma leap_count:
  fixes a b c p :: nat
  assumes "b \<le> a" "l100 \<longrightarrow> l4" "l400 \<longrightarrow> l100"
  shows "Suc p * 365 + (a + (if l4 then 1 else 0)) + (c + (if l400 then 1 else 0)) - (b + (if l100 then 1 else 0))
     = p * 365 + a + c - b + (if l4 \<and> (\<not> l100 \<or> l400) then 366 else 365)"
  using assms by (cases l4; cases l100; cases l400) simp_all

lemma days_next_year:
  assumes "1 \<le> y"
  shows "days_before_year (Suc y) = days_before_year y + (if is_leap y then 366 else 365)"
proof -
  obtain p where y: "y = Suc p" using assms by (cases y) auto
  have le: "p div 100 \<le> p div 4" by (simp add: div_le_mono2)
  have "Suc p mod 100 = 0 \<longrightarrow> Suc p mod 4 = 0" "Suc p mod 400 = 0 \<longrightarrow> Suc p mod 100 = 0" by presburger+
  from leap_count [OF le this, of p "p div 400"] show ?thesis
    unfolding days_before_year_def Let_def y is_leap_def diff_Suc_1 suc_div [of p 4] suc_div [of p 100] suc_div [of p 400] .
qed

lemma days_years_mono: "1 \<le> y \<Longrightarrow> y \<le> z \<Longrightarrow> days_before_year y \<le> days_before_year z"
proof (induction z rule: nat_less_induct)
  case (1 z)
  show ?case
  proof (cases "y = z")
    case False
    then obtain w where w: "z = Suc w" "y \<le> w" using 1 by (cases z) auto
    then have "days_before_year y \<le> days_before_year w" "1 \<le> w" using 1 by auto
    then show ?thesis using days_next_year [of w] w by simp
  qed simp
qed

definition valid_date :: "nat \<Rightarrow> nat \<Rightarrow> nat \<Rightarrow> bool" where
  "valid_date y m d \<longleftrightarrow> 1 \<le> y \<and> 1 \<le> m \<and> m \<le> 12 \<and> 1 \<le> d \<and> d \<le> month_lengths (is_leap y) ! (m - 1)"

lemma sum_take_mono: "i \<le> j \<Longrightarrow> sum_list (take i xs) \<le> sum_list (take j (xs :: nat list))"
proof -
  assume "i \<le> j"
  then have "take j xs = take i xs @ take (j - i) (drop i xs)" by (metis le_add_diff_inverse take_add)
  then show ?thesis by simp
qed

lemma month_end:
  assumes "valid_date y m d" "m \<le> k"
  shows "sum_list (take (m - 1) (month_lengths (is_leap y))) + d \<le> sum_list (take k (month_lengths (is_leap y)))"
proof -
  let ?L = "month_lengths (is_leap y)"
  have "m - 1 < length ?L" using assms unfolding valid_date_def length_month_lengths by linarith
  then have "sum_list (take (Suc (m - 1)) ?L) = sum_list (take (m - 1) ?L) + ?L ! (m - 1)"
    by (simp add: take_Suc_conv_app_nth)
  then have "sum_list (take (m - 1) ?L) + d \<le> sum_list (take m ?L)" using assms by (simp add: valid_date_def)
  also have "\<dots> \<le> sum_list (take k ?L)" using assms by (intro sum_take_mono)
  finally show ?thesis .
qed

lemma date_lex:
  assumes "valid_date y m d" "valid_date y' m' d'" "y < y' \<or> y = y' \<and> (m < m' \<or> m = m' \<and> d < d')"
  shows "ymd2ord y m d < ymd2ord y' m' d'"
proof -
  consider "y < y'" | "y = y'" "m < m'" | "y = y'" "m = m'" "d < d'" using assms(3) by blast
  then show ?thesis
  proof cases
    case 1
    have "sum_list (take (m - 1) (month_lengths (is_leap y))) + d \<le> sum_list (take 12 (month_lengths (is_leap y)))"
      using assms(1) by (intro month_end) (simp_all add: valid_date_def)
    then have "ymd2ord y m d \<le> days_before_year (Suc y)"
      using days_next_year [of y] assms(1)
      by (simp add: ymd2ord_def valid_date_def length_month_lengths sum_month_lengths split: if_splits)
    also have "\<dots> \<le> days_before_year y'" using 1 assms(1) by (intro days_years_mono) auto
    also have "\<dots> < ymd2ord y' m' d'" using assms(2) by (simp add: ymd2ord_def valid_date_def)
    finally show ?thesis .
  next
    case 2
    have "sum_list (take (m - 1) (month_lengths (is_leap y))) + d \<le> sum_list (take (m' - 1) (month_lengths (is_leap y)))"
      using assms(1) 2 by (intro month_end) auto
    then show ?thesis using 2 assms(2) by (simp add: ymd2ord_def valid_date_def)
  next
    case 3
    then show ?thesis by (simp add: ymd2ord_def)
  qed
qed

lemma frac_le:
  assumes "f < 1000000" "g < 1000000"
  shows "(if f = 0 then [] else ''.'' @ pad6 f) @ ''+00:00'' \<le> (if g = 0 then [] else ''.'' @ pad6 g) @ ''+00:00'' \<longleftrightarrow> f \<le> g"
proof -
  have "CHR ''+'' < CHR ''.''" by (simp add: less_char_def)
  then show ?thesis using assms pad6_le [of f g "''+00:00''" "''+00:00''"] by (auto simp: less_char_def)
qed

section \<open>The order of texts\<close>

lemma order_by_key:
  fixes t u :: "'a :: linorder" and k l :: "'b :: linorder"
  assumes "k < l \<Longrightarrow> t < u" "l < k \<Longrightarrow> u < t" "k = l \<Longrightarrow> t = u"
  shows "k \<le> l \<longleftrightarrow> t \<le> u"
  using assms by (cases k l rule: linorder_cases) auto

lemma iso_parts:
  assumes "valid_instant t"
  obtains y m d us where "valid_date y m d" "y \<le> 9999" "us < 86400000000"
    "t = (int (ymd2ord y m d) - int epoch_ord) * us_per_day + int us"
    "isoformat t = pad4 y @ ''-'' @ pad2 m @ ''-'' @ pad2 d @ ''T'' @ pad2 (us div 1000000 div 3600) @ '':''
       @ pad2 (us div 1000000 div 60 mod 60) @ '':'' @ pad2 (us div 1000000 mod 60)
       @ (if us mod 1000000 = 0 then [] else ''.'' @ pad6 (us mod 1000000)) @ ''+00:00''"
proof -
  define n where "n = nat (t div us_per_day + int epoch_ord)"
  define us where "us = nat (t mod us_per_day)"
  obtain y m d where ymd: "ord2ymd n = (y, m, d)" by (cases "ord2ymd n") auto
  have "- 719162 \<le> t div us_per_day" "t div us_per_day \<le> 2932896"
    using assms by (auto simp: valid_instant_def us_per_day_def)
  then have n: "1 \<le> n" "n \<le> 3652059" "int n = t div us_per_day + int epoch_ord"
    by (auto simp: n_def epoch_ord_def)
  have us: "us < 86400000000" "int us = t mod us_per_day" by (auto simp: us_def us_per_day_def)
  have c: "valid_date y m d" "y \<le> 9999" "ymd2ord y m d = n"
    using ord2ymd_correct [OF n(1) ymd] n(2) by (auto simp: valid_date_def)
  have "t = (int (ymd2ord y m d) - int epoch_ord) * us_per_day + int us" by (simp add: c(3) n(3) us(2))
  moreover have "isoformat t = pad4 y @ ''-'' @ pad2 m @ ''-'' @ pad2 d @ ''T'' @ pad2 (us div 1000000 div 3600) @ '':''
       @ pad2 (us div 1000000 div 60 mod 60) @ '':'' @ pad2 (us div 1000000 mod 60)
       @ (if us mod 1000000 = 0 then [] else ''.'' @ pad6 (us mod 1000000)) @ ''+00:00''"
    by (simp add: isoformat_def Let_def n_def [symmetric] us_def [symmetric] ymd)
  ultimately show thesis using c us(1) that by blast
qed

lemma valid_date_small: "valid_date y m d \<Longrightarrow> m < 100 \<and> d < 100"
proof -
  assume v: "valid_date y m d"
  then have "m - 1 < length (month_lengths (is_leap y))" unfolding valid_date_def length_month_lengths by linarith
  then have "month_lengths (is_leap y) ! (m - 1) \<in> set (month_lengths (is_leap y))" by (rule nth_mem)
  then have "month_lengths (is_leap y) ! (m - 1) \<le> 31" by (auto simp: month_lengths_def)
  then show ?thesis using v by (simp add: valid_date_def)
qed

lemma hms_lex:
  fixes h k i j s r f g :: nat
  assumes "i < 60" "s < 60" "f < 1000000" "j < 60" "r < 60" "g < 1000000"
    "h < k \<or> h = k \<and> (i < j \<or> i = j \<and> (s < r \<or> s = r \<and> f < g))"
  shows "h * 3600000000 + i * 60000000 + s * 1000000 + f < k * 3600000000 + j * 60000000 + r * 1000000 + g"
proof -
  consider "h < k" | "h = k" "i < j" | "h = k" "i = j" "s < r" | "h = k" "i = j" "s = r" "f < g"
    using assms(7) by blast
  then show ?thesis using assms(1-6) by cases linarith+
qed

lemma clock_lex:
  fixes u v :: nat
  assumes "u < 86400000000" "v < 86400000000"
    "u div 1000000 div 3600 < v div 1000000 div 3600 \<or> u div 1000000 div 3600 = v div 1000000 div 3600 \<and>
     (u div 1000000 div 60 mod 60 < v div 1000000 div 60 mod 60 \<or>
      u div 1000000 div 60 mod 60 = v div 1000000 div 60 mod 60 \<and>
      (u div 1000000 mod 60 < v div 1000000 mod 60 \<or> u div 1000000 mod 60 = v div 1000000 mod 60 \<and>
       u mod 1000000 < v mod 1000000))"
  shows "u < v"
  using hms_lex [OF clock_split(2,3) [OF assms(1)] _ clock_split(2,3) [OF assms(2)] _ assms(3)]
  by (simp only: clock_split(4) [OF assms(1)] clock_split(4) [OF assms(2)] mod_less_divisor zero_less_numeral simp_thms)

lemma day_order:
  assumes "valid_date y m d" "valid_date y' m' d'" "us < 86400000000" "vs < 86400000000"
    "t = (int (ymd2ord y m d) - int epoch_ord) * us_per_day + int us"
    "u = (int (ymd2ord y' m' d') - int epoch_ord) * us_per_day + int vs"
    "y < y' \<or> y = y' \<and> (m < m' \<or> m = m' \<and> (d < d' \<or> d = d' \<and> us \<le> vs))"
  shows "t \<le> u"
proof -
  consider "y < y' \<or> y = y' \<and> (m < m' \<or> m = m' \<and> d < d')" | "y = y'" "m = m'" "d = d'" "us \<le> vs"
    using assms(7) by blast
  then show ?thesis
  proof cases
    case 1
    then have "int (ymd2ord y m d) + 1 \<le> int (ymd2ord y' m' d')" using date_lex [OF assms(1,2)] by linarith
    then show ?thesis using assms(3-6) by (simp add: us_per_day_def)
  next
    case 2
    then show ?thesis using assms(5,6) by simp
  qed
qed

lemma text_le_time:
  assumes "valid_instant t" "valid_instant u" "isoformat t \<le> isoformat u"
  shows "t \<le> u"
proof -
  obtain y m d us where t: "valid_date y m d" "y \<le> 9999" "us < 86400000000"
    "t = (int (ymd2ord y m d) - int epoch_ord) * us_per_day + int us"
    "isoformat t = pad4 y @ ''-'' @ pad2 m @ ''-'' @ pad2 d @ ''T'' @ pad2 (us div 1000000 div 3600) @ '':''
       @ pad2 (us div 1000000 div 60 mod 60) @ '':'' @ pad2 (us div 1000000 mod 60)
       @ (if us mod 1000000 = 0 then [] else ''.'' @ pad6 (us mod 1000000)) @ ''+00:00''"
    by (rule iso_parts [OF assms(1)])
  obtain y' m' d' vs where u: "valid_date y' m' d'" "y' \<le> 9999" "vs < 86400000000"
    "u = (int (ymd2ord y' m' d') - int epoch_ord) * us_per_day + int vs"
    "isoformat u = pad4 y' @ ''-'' @ pad2 m' @ ''-'' @ pad2 d' @ ''T'' @ pad2 (vs div 1000000 div 3600) @ '':''
       @ pad2 (vs div 1000000 div 60 mod 60) @ '':'' @ pad2 (vs div 1000000 mod 60)
       @ (if vs mod 1000000 = 0 then [] else ''.'' @ pad6 (vs mod 1000000)) @ ''+00:00''"
    by (rule iso_parts [OF assms(2)])
  note small = valid_date_small [OF t(1)] valid_date_small [OF u(1)]
  have b: "y < 10000" "y' < 10000" "m < 100" "m' < 100" "d < 100" "d' < 100"
    "us div 1000000 div 3600 < 100" "vs div 1000000 div 3600 < 100"
    "us div 1000000 div 60 mod 60 < 100" "vs div 1000000 div 60 mod 60 < 100"
    "us div 1000000 mod 60 < 100" "vs div 1000000 mod 60 < 100"
    "us mod 1000000 < 1000000" "vs mod 1000000 < 1000000"
    using t(2) u(2) small clock_split(1-3) [OF t(3)] clock_split(1-3) [OF u(3)] by simp_all
  have cons: "c @ x \<le> c @ z \<longleftrightarrow> x \<le> z" for c x z :: string by (simp add: append_le)
  have "y < y' \<or> y = y' \<and> (m < m' \<or> m = m' \<and> (d < d' \<or> d = d' \<and>
     (us div 1000000 div 3600 < vs div 1000000 div 3600 \<or> us div 1000000 div 3600 = vs div 1000000 div 3600 \<and>
     (us div 1000000 div 60 mod 60 < vs div 1000000 div 60 mod 60 \<or>
      us div 1000000 div 60 mod 60 = vs div 1000000 div 60 mod 60 \<and>
      (us div 1000000 mod 60 < vs div 1000000 mod 60 \<or> us div 1000000 mod 60 = vs div 1000000 mod 60 \<and>
       us mod 1000000 \<le> vs mod 1000000)))))"
    using assms(3) unfolding t(5) u(5)
    by (simp only: pad4_le [OF b(1,2)] pad2_le [OF b(3,4)] pad2_le [OF b(5,6)] pad2_le [OF b(7,8)]
        pad2_le [OF b(9,10)] pad2_le [OF b(11,12)] frac_le [OF b(13,14)] cons)
  moreover have "us \<le> vs"
    if "us div 1000000 div 3600 = vs div 1000000 div 3600" "us div 1000000 div 60 mod 60 = vs div 1000000 div 60 mod 60"
      "us div 1000000 mod 60 = vs div 1000000 mod 60" "us mod 1000000 = vs mod 1000000"
    using that clock_split(4) [OF t(3)] clock_split(4) [OF u(3)] by (metis order_refl)
  ultimately have "y < y' \<or> y = y' \<and> (m < m' \<or> m = m' \<and> (d < d' \<or> d = d' \<and> us \<le> vs))"
    using clock_lex [OF t(3) u(3)] by (meson le_neq_implies_less less_or_eq_imp_le)
  then show ?thesis by (rule day_order [OF t(1) u(1) t(3) u(3) t(4) u(4)])
qed

lemma isoformat_order:
  assumes "valid_instant t" "valid_instant u"
  shows "isoformat t \<le> isoformat u \<longleftrightarrow> t \<le> u"
proof -
  have "isoformat t = isoformat u \<Longrightarrow> t = u" using parse_isoformat assms by (metis option.inject)
  then show ?thesis using text_le_time assms by (metis linear order_antisym)
qed

end
