(* ===== verification/Beat_Final.thy ===== *)
theory Beat_Final
  imports Beat_Machine Iso_Order
begin

text \<open>
  What is final in the heartbeat store (terminal heartbeats, completed runs), what a claim takes and
  what a recorded run leaves.
\<close>

section \<open>A fact about one row\<close>

definition row_has :: "string \<Rightarrow> (beat \<Rightarrow> bool) \<Rightarrow> 'w beat_state \<Rightarrow> bool" where
  "row_has hid R s \<longleftrightarrow> hid \<in> bt_id ` set (bs_beats s) \<and> (\<forall>b \<in> set (bs_beats s). bt_id b = hid \<longrightarrow> R b)"

lemma about_row_has [simp]: "about_tables (row_has hid R)"
  by (simp add: about_tables_def row_has_def)

lemma row_has_audit [simp]: "row_has hid R (s\<lparr> bs_audit := a \<rparr>) = row_has hid R s"
  and row_has_runs [simp]: "row_has hid R (s\<lparr> bs_runs := rs \<rparr>) = row_has hid R s"
  by (simp_all add: row_has_def)

lemma row_has_update:
  assumes "\<And>b. p b \<Longrightarrow> bt_id (f b) = bt_id b" "\<And>b. p b \<Longrightarrow> bt_id b = hid \<Longrightarrow> R b \<Longrightarrow> R (f b)"
  shows "io_keeps (row_has hid R) (update_beats p f)"
proof (rule io_keepsI)
  fix s :: "'w beat_state" assume s: "row_has hid R s"
  have "bt_id ` set (map (\<lambda>b. if p b then f b else b) (bs_beats s)) = bt_id ` set (bs_beats s)"
  proof -
    have "map bt_id (map (\<lambda>b. if p b then f b else b) (bs_beats s)) = map bt_id (bs_beats s)"
      using assms(1) by simp
    then show ?thesis by (metis list.set_map)
  qed
  then show "row_has hid R (snd (update_beats p f s))"
    using s assms by (auto simp: row_has_def update_beats_def)
qed

lemma row_has_find: "row_has hid R s \<Longrightarrow> find_beat hid (bs_beats s) = Some b \<Longrightarrow> R b"
  using find_beat_Some [of hid "bs_beats s" b] by (simp add: row_has_def)

lemma row_has_present: "row_has hid R s \<Longrightarrow> find_beat hid (bs_beats s) \<noteq> None"
  by (simp add: row_has_def find_beat_None)

lemma row_has_insert_run [io_rules]: "io_keeps (row_has hid R) (insert_run r)"
  unfolding insert_run_def by (intro io_rules) simp

lemma row_has_update_runs [io_rules]: "io_keeps (row_has hid R) (update_runs p g)"
  by (simp add: io_keeps_def update_runs_def)

section \<open>Terminal heartbeats\<close>

abbreviation in_status :: "string \<Rightarrow> string \<Rightarrow> 'w beat_state \<Rightarrow> bool" where
  "in_status hid t \<equiv> row_has hid (\<lambda>b. bt_status b = t)"

lemma settle_columns_id [simp]: "bt_id (settle_columns e b) = bt_id b"
  by (simp add: settle_columns_def)

lemma changed_status [simp]:
  "bt_status (armed_beat now run_id percent b) = bt_status b"
  "bt_status (handoff_beat now started b) = bt_status b"
  "bt_status (receipt_claimed now mark b) = bt_status b"
  "bt_status (receipt_finished now delivered turn err b) = bt_status b"
  "bt_status (pending_beat now b) = bt_status b"
  "bt_status (retried_beat c now b) = bt_status b"
  by (simp_all add: armed_beat_def handoff_beat_def receipt_claimed_def receipt_finished_def pending_beat_def
      retried_beat_def)

lemma final_arm [io_rules]: "io_keeps (in_status hid t) (arm_trigger_handoff now h run_id percent source)"
  unfolding arm_trigger_handoff_def by (intro io_rules row_has_update) simp_all

lemma final_finish [io_rules]: "io_keeps (in_status hid t) (finish_trigger_handoff now h run_id started source)"
  unfolding finish_trigger_handoff_def by (intro io_rules row_has_update) simp_all

lemma final_claim_receipt [io_rules]: "io_keeps (in_status hid t) (claim_terminal_receipt now h mark source)"
  unfolding claim_terminal_receipt_def by (intro io_rules row_has_update) simp_all

lemma final_finish_receipt [io_rules]:
  "io_keeps (in_status hid t) (finish_terminal_receipt now h delivered turn source err)"
  unfolding finish_terminal_receipt_def by (intro io_rules row_has_update) simp_all

lemma final_advance [io_rules]: "io_keeps (in_status hid t) (advance_row current row)"
  unfolding advance_row_def by (intro row_has_update) simp_all

lemma final_begin [io_rules]: "io_keeps (in_status hid t) (begin_run fresh now h source thread scheduled)"
  unfolding begin_run_def by (intro io_rules) simp_all

lemma final_turn [io_rules]:
  "io_keeps (in_status hid t) (record_inflight_turn now h run_id turn thread_status desktop source)"
  unfolding record_inflight_turn_def by (intro io_rules row_has_update) simp_all

lemma final_recover [io_rules]: "io_keeps (in_status hid t) (recover_native_probe_handoffs c now)"
  unfolding recover_native_probe_handoffs_def
proof (intro io_rules)
  show "io_keeps (in_status hid t) (recover_one c now x)" for x
    by (cases x) (auto simp: recover_one_def Let_def close_run_def intro!: io_rules row_has_update)
qed simp

lemma final_delivery [io_rules]:
  "t \<in> set beat_terminal \<Longrightarrow> io_keeps (in_status hid t) (complete_delivery now h message source)"
  unfolding complete_delivery_def Let_def
  by (intro io_rules row_has_update) (auto simp: awaits_delivery_def beat_terminal_def)

lemma final_expire [io_rules]:
  assumes "t \<in> set beat_terminal"
  shows "io_keeps (in_status hid t) (expire_all now stamp current)"
proof -
  have one: "io_keeps (in_status hid t) (expire_one now stamp row)" if "bt_id row \<noteq> hid" for row
    unfolding expire_one_def by (intro io_rules row_has_update) (use that in auto)
  have other: "bt_id b \<noteq> hid" if "in_status hid t s" "b \<in> set (bs_beats s)" "beat_expired current b" for s :: "'w beat_state" and b
    using that assms by (auto simp: row_has_def beat_expired_def beat_terminal_def)
  then have loop: "io_from (\<lambda>s. in_status hid t s \<and> filter (beat_expired current) (bs_beats s) = rows)
      (io_map (expire_one now stamp) rows) (in_status hid t)" for rows
  proof (cases "\<forall>b \<in> set rows. bt_id b \<noteq> hid")
    case True
    then show ?thesis by (intro io_from_keeps io_keeps_map one) auto
  next
    case False
    then show ?thesis using other by (force simp: io_from_def)
  qed
  show ?thesis
    unfolding expire_all_def io_keeps_from by (rule io_from_get) (rule loop)
qed

lemma final_due [io_rules]: "t \<in> set beat_terminal \<Longrightarrow> io_keeps (in_status hid t) (due now current)"
  unfolding due_def by (intro io_rules) simp_all

lemma final_claim_due [io_rules]:
  "t \<in> set beat_terminal \<Longrightarrow> io_keeps (in_status hid t) (beat_claim_due fresh now current)"
  unfolding beat_claim_due_def claim_one_def by (intro io_rules) simp_all

lemma final_status [io_rules]:
  assumes "t \<in> set beat_terminal"
  shows "io_keeps (in_status hid t) (beat_set_status now h status source confirmation)"
proof -
  have "io_from (\<lambda>s. in_status hid t s \<and> find_beat h (bs_beats s) = v)
     (case v of None \<Rightarrow> io_raise (beat_missing h) | Some current \<Rightarrow>
        io_then (io_check (bt_status current \<in> set beat_terminal \<and> bt_status current \<noteq> desired) e)
        (io_bind (update_beats (\<lambda>b. bt_id b = h) (status_beat now desired source confirmation)) (\<lambda>_. audit now a x y (d current))))
     (in_status hid t)" for v desired e a x y d
  proof (intro from_rules)
    fix current
    assume v: "v = Some current" and ok: "\<not> (bt_status current \<in> set beat_terminal \<and> bt_status current \<noteq> desired)"
    show "io_from (\<lambda>s. in_status hid t s \<and> find_beat h (bs_beats s) = v)
       (io_bind (update_beats (\<lambda>b. bt_id b = h) (status_beat now desired source confirmation)) (\<lambda>_. audit now a x y (d current)))
       (in_status hid t)"
    proof (cases "h = hid \<and> desired \<noteq> t")
      case True
      then have False if "in_status hid t s" "find_beat h (bs_beats s) = v" for s :: "'w beat_state"
        using row_has_find [OF that(1), of current] that(2) v ok assms by auto
      then show ?thesis by (auto simp: io_from_def)
    next
      case False
      then show ?thesis
        by (intro io_from_keeps io_rules row_has_update) (auto simp: status_beat_def)
    qed
  qed auto
  then have body: "io_keeps (in_status hid t) (io_bind (io_get (\<lambda>s. find_beat h (bs_beats s))) (\<lambda>found.
      case found of None \<Rightarrow> io_raise (beat_missing h) | Some current \<Rightarrow>
        io_then (io_check (bt_status current \<in> set beat_terminal \<and> bt_status current \<noteq> desired) e)
        (io_bind (update_beats (\<lambda>b. bt_id b = h) (status_beat now desired source confirmation)) (\<lambda>_. audit now a x y (d current)))))"
    for desired e a x y d
    unfolding io_keeps_from by (intro io_from_get)
  then show ?thesis
    unfolding beat_set_status_def Let_def
    by (intro io_keeps_then io_keeps_check keeps_session keeps_get body) simp_all
qed

lemma final_create [io_rules]: "io_keeps (in_status hid t) (beat_create lib c now request)"
proof (rule io_keepsI)
  fix s :: "'w beat_state" assume s: "in_status hid t s"
  obtain r s' where r: "beat_create lib c now request s = (r, s')" by fastforce
  then show "in_status hid t (snd (beat_create lib c now request s))"
  proof (cases rule: create_rows)
    case same
    then show ?thesis using s r by (simp add: row_has_def)
  next
    case (new v)
    have "find_beat (bq_id v) (bs_beats s) = None"
      using r new by (auto simp: beat_create_def session_def io_bind_def split: option.splits if_splits)
    then have "bq_id v \<noteq> hid" using row_has_present [OF s] by auto
    then show ?thesis using s r new by (auto simp: row_has_def new_beat_def)
  qed
qed

lemma final_update:
  assumes "t \<in> set beat_terminal"
    "stripped (dget request ''heartbeat_id'') = hid \<Longrightarrow> dget request ''reactivate'' \<noteq> PBool True"
  shows "io_keeps (in_status hid t) (beat_update lib c now request)"
proof (rule io_keepsI)
  fix s :: "'w beat_state" assume s: "in_status hid t s"
  obtain r s' where r: "beat_update lib c now request s = (r, s')" by fastforce
  then show "in_status hid t (snd (beat_update lib c now request s))"
  proof (cases rule: update_rows)
    case (same e)
    then show ?thesis using s r by (simp add: row_has_def)
  next
    case (changed v x re)
    have "bq_id v \<noteq> hid"
    proof
      assume h: "bq_id v = hid"
      then have no: "dget request ''reactivate'' \<noteq> PBool True" using assms(2) validated_id [OF changed(1)] by simp
      obtain b where b: "find_beat hid (bs_beats s) = Some b" using row_has_present [OF s] by blast
      then have "bt_status b = t" using row_has_find [OF s] by simp
      then have "\<exists>e. fst (beat_update lib c now request s) = Inl e"
        using b no h assms(1) changed(1)
        by (auto simp: beat_update_def replace_beat_def session_def io_bind_def io_then_def split: if_splits)
      then show False using r changed(2) by auto
    qed
    then show ?thesis using s r changed(3) by (auto simp: row_has_def updated_beat_def Let_def)
  qed
qed

lemma final_settle [io_rules]:
  assumes "t \<in> set beat_terminal"
  shows "io_keeps (in_status hid t) (settle_row c now h source thread run_id outcome result)"
proof (cases "bt_id h = hid")
  case True
  show ?thesis
  proof (rule io_keepsI)
    fix s :: "'w beat_state" assume s: "in_status hid t s"
    obtain b where b: "find_beat hid (bs_beats s) = Some b" using row_has_present [OF s] by blast
    then have "bt_status b \<noteq> ''ACTIVE''" using row_has_find [OF s b] assms by (auto simp: beat_terminal_def)
    then show "in_status hid t (snd (settle_row c now h source thread run_id outcome result s))"
      using s b True by (simp add: settle_row_def Let_def audit_def io_bind_def io_then_def)
  qed
next
  case False
  then show ?thesis
    unfolding settle_row_def Let_def by (intro io_rules row_has_update) simp_all
qed

lemma final_record [io_rules]:
  "t \<in> set beat_terminal \<Longrightarrow> io_keeps (in_status hid t) (record_run fresh c now h source thread result scheduled)"
  unfolding record_run_def Let_def store_run_def by (intro io_rules) simp_all

text \<open>The calls that may make a terminal heartbeat active again.\<close>

fun reactivates :: "string \<Rightarrow> beat_call \<Rightarrow> bool" where
  "reactivates hid (Update_Beat now request) =
     (stripped (dget request ''heartbeat_id'') = hid \<and> dget request ''reactivate'' = PBool True)"
| "reactivates hid _ = False"

lemma final_call:
  "t \<in> set beat_terminal \<Longrightarrow> \<not> reactivates hid op \<Longrightarrow> io_keeps (in_status hid t) (beat_call_io lib c fresh op)"
  by (cases op) (auto intro!: io_rules final_update)

lemma run_keeps_calls:
  assumes "\<And>op. op \<in> set calls \<Longrightarrow> io_keeps P (beat_call_io lib c fresh op)" "P s"
    "run_ops (beat_call_io lib c fresh) calls s = (rs, s')"
  shows "P s'"
  using assms
proof (induction calls arbitrary: s rs s')
  case (Cons op calls)
  obtain r s1 where one: "beat_call_io lib c fresh op s = (r, s1)" by fastforce
  obtain qs s2 where rest: "run_ops (beat_call_io lib c fresh) calls s1 = (qs, s2)" by fastforce
  have "P s1" using io_keepsD [OF Cons.prems(1) Cons.prems(2) one] by simp
  then have "P s2" using Cons.IH [OF _ _ rest] Cons.prems(1) by simp
  then show ?case using Cons.prems(3) one rest by simp
qed simp


section \<open>Completed runs\<close>

definition has_run :: "beat_run \<Rightarrow> 'w beat_state \<Rightarrow> bool" where
  "has_run r s \<longleftrightarrow> r \<in> set (bs_runs s)"

lemma about_has_run [simp]: "about_tables (has_run r)"
  by (simp add: about_tables_def has_run_def)

lemma has_run_audit [simp]: "has_run r (s\<lparr> bs_audit := a \<rparr>) = has_run r s"
  and has_run_beats [simp]: "has_run r (s\<lparr> bs_beats := b \<rparr>) = has_run r s"
  by (simp_all add: has_run_def)

lemma has_run_update [io_rules]: "io_keeps (has_run r) (update_beats p f)"
  by (simp add: io_keeps_def update_beats_def)

lemma has_run_runs: "\<not> p r \<Longrightarrow> io_keeps (has_run r) (update_runs p g)"
  by (force simp: io_keeps_def update_runs_def has_run_def)

lemma has_run_insert [io_rules]: "io_keeps (has_run r) (insert_run r')"
  unfolding insert_run_def by (intro io_rules) (simp add: has_run_def)

lemma has_run_op0 [io_rules]: "io_keeps (has_run r) (beat_create lib c now request)"
  unfolding beat_create_def by (intro io_rules) simp_all

lemma has_run_op1 [io_rules]: "io_keeps (has_run r) (beat_update lib c now request)"
  unfolding beat_update_def replace_beat_def Let_def by (intro io_rules) simp_all

lemma has_run_op2 [io_rules]: "io_keeps (has_run r) (beat_set_status now h status source confirmation)"
  unfolding beat_set_status_def Let_def by (intro io_rules) simp_all

lemma has_run_op3 [io_rules]: "io_keeps (has_run r) (arm_trigger_handoff now h run_id percent source)"
  unfolding arm_trigger_handoff_def by (intro io_rules) simp_all

lemma has_run_op4 [io_rules]: "io_keeps (has_run r) (finish_trigger_handoff now h run_id started source)"
  unfolding finish_trigger_handoff_def by (intro io_rules) simp_all

lemma has_run_op5 [io_rules]: "io_keeps (has_run r) (complete_delivery now h message source)"
  unfolding complete_delivery_def Let_def by (intro io_rules) simp_all

lemma has_run_op6 [io_rules]: "io_keeps (has_run r) (claim_terminal_receipt now h mark source)"
  unfolding claim_terminal_receipt_def by (intro io_rules) simp_all

lemma has_run_op7 [io_rules]: "io_keeps (has_run r) (finish_terminal_receipt now h delivered turn source err)"
  unfolding finish_terminal_receipt_def by (intro io_rules) simp_all

lemma has_run_op8 [io_rules]: "io_keeps (has_run r) (expire_all now stamp current)"
  unfolding expire_all_def expire_one_def by (intro io_rules) simp_all

lemma has_run_op9 [io_rules]: "io_keeps (has_run r) (advance_row current row)"
  unfolding advance_row_def by (rule has_run_update)

lemma has_run_op10 [io_rules]: "io_keeps (has_run r) (due now current)"
  unfolding due_def by (intro io_rules) simp_all

lemma has_run_op11 [io_rules]: "io_keeps (has_run r) (beat_claim_due fresh now current)"
  unfolding beat_claim_due_def claim_one_def by (intro io_rules) simp_all

lemma has_run_op12 [io_rules]: "io_keeps (has_run r) (begin_run fresh now h source thread scheduled)"
  unfolding begin_run_def by (intro io_rules) simp_all

lemma has_run_op13 [io_rules]: "io_keeps (has_run r) (settle_row c now h source thread run_id outcome result)"
  unfolding settle_row_def Let_def by (intro io_rules) simp_all

text \<open>The three places that change a run change it only before it is completed.\<close>

lemma has_run_close [io_rules]:
  "br_completed r \<noteq> None \<Longrightarrow> io_keeps (has_run r) (close_run run_id now outcome err)"
  unfolding close_run_def by (rule has_run_runs) simp

lemma has_run_recover [io_rules]:
  "br_completed r \<noteq> None \<Longrightarrow> io_keeps (has_run r) (recover_native_probe_handoffs c now)"
  unfolding recover_native_probe_handoffs_def recover_one_def Let_def by (intro io_rules) simp_all

lemma has_run_turn [io_rules]:
  "br_completed r \<noteq> None \<Longrightarrow>
   io_keeps (has_run r) (record_inflight_turn now h run_id turn thread_status desktop source)"
  unfolding record_inflight_turn_def by (intro io_rules has_run_runs) simp_all

lemma has_run_record [io_rules]:
  "br_completed r \<noteq> None \<Longrightarrow>
   io_keeps (has_run r) (record_run fresh c now h source thread result scheduled)"
  unfolding record_run_def Let_def store_run_def by (intro io_rules has_run_runs) simp_all

lemma completed_call: "br_completed r \<noteq> None \<Longrightarrow> io_keeps (has_run r) (beat_call_io lib c fresh op)"
  by (cases op) (simp_all add: io_rules)

text \<open>
  C13: The record of a completed run is immutable: over any sequence of calls, recoveries and repeated
  reports of the same run included, its row stays in the table as it is.
\<close>

theorem completed_runs_are_immutable:
  assumes "r \<in> set (bs_runs s)" "br_completed r \<noteq> None"
    "run_ops (beat_call_io lib c fresh) calls s = (rs, s')"
  shows "r \<in> set (bs_runs s')"
  using run_keeps_calls [where P = "has_run r", OF completed_call [OF assms(2)] _ assms(3)] assms(1)
  by (simp add: has_run_def)

section \<open>What a claim takes\<close>

lemma expire_rows:
  "fst (io_map (expire_one now stamp) rows s) = Inr (map (\<lambda>_. ()) rows) \<and>
   bs_beats (snd (io_map (expire_one now stamp) rows s)) =
     map (\<lambda>b. if bt_id b \<in> bt_id ` set rows
       then b\<lparr> bt_status := ''COMPLETED'', bt_updated := isoformat stamp \<rparr> else b) (bs_beats s)"
proof (induction rows arbitrary: s)
  case (Cons row rows)
  let ?f = "\<lambda>b. b\<lparr> bt_status := ''COMPLETED'', bt_updated := isoformat stamp \<rparr>"
  obtain s1 where one: "expire_one now stamp row s = (Inr (), s1)"
    "bs_beats s1 = map (\<lambda>b. if bt_id b = bt_id row then ?f b else b) (bs_beats s)"
    by (auto simp: expire_one_def update_beats_def audit_def io_bind_def)
  obtain r s2 where rest: "io_map (expire_one now stamp) rows s1 = (r, s2)" by fastforce
  have "r = Inr (map (\<lambda>_. ()) rows)"
    "bs_beats s2 = map (\<lambda>b. if bt_id b \<in> bt_id ` set rows then ?f b else b) (bs_beats s1)"
    using Cons.IH [of s1] rest by auto
  then show ?case using one rest by (auto simp: io_bind_def)
qed simp

lemma expired_rows:
  assumes "beats_ok s" "expire_all now stamp current s = (r, s')"
  shows "(\<exists>u. r = Inr u) \<and> bs_beats s' = map (\<lambda>b. if beat_expired current b
       then b\<lparr> bt_status := ''COMPLETED'', bt_updated := isoformat stamp \<rparr> else b) (bs_beats s)"
proof -
  let ?rows = "filter (beat_expired current) (bs_beats s)"
  have "bt_id b \<in> bt_id ` set ?rows \<longleftrightarrow> beat_expired current b" if "b \<in> set (bs_beats s)" for b
    using assms(1) that find_beat_unique [of "bs_beats s"]
    by (auto simp: beats_ok_def tables_ok_def) (metis option.inject)
  then show ?thesis
    using expire_rows [of now stamp ?rows s] assms(2) by (auto simp: expire_all_def io_bind_def cong: map_cong)
qed

text \<open>
  The loop of \<open>claim_due\<close> from the rows still to claim: every due row of the table is one of them,
  and no row of the table has expired.
\<close>

definition left_to_claim :: "instant \<Rightarrow> beat list \<Rightarrow> 'w beat_state \<Rightarrow> bool" where
  "left_to_claim current rows s \<longleftrightarrow> (\<forall>b \<in> set (bs_beats s). 0 < bt_interval b \<and> \<not> beat_expired current b \<and>
     (beat_due current b \<longrightarrow> bt_id b \<in> bt_id ` set rows)) \<and>
   (\<forall>row \<in> set rows. 0 < bt_interval row)"

lemma about_claiming [simp]: "about_tables (left_to_claim current rows)"
  by (simp add: about_tables_def left_to_claim_def)

lemma claiming_audit [simp]: "left_to_claim current rows (s\<lparr> bs_audit := a \<rparr>) = left_to_claim current rows s"
  and claiming_runs [simp]: "left_to_claim current rows (s\<lparr> bs_runs := rs \<rparr>) = left_to_claim current rows s"
  by (simp_all add: left_to_claim_def)

lemma claiming_later: "left_to_claim current (row # rows) s \<Longrightarrow> \<forall>b \<in> set (bs_beats s). bt_id b = bt_id row \<longrightarrow> \<not> beat_due current b \<Longrightarrow>
   left_to_claim current rows s"
  by (auto simp: left_to_claim_def)

lemma claiming_advance: "io_from (left_to_claim current (row # rows)) (advance_row current row) (left_to_claim current rows)"
proof (unfold io_from_def, intro allI impI)
  fix s :: "'w beat_state" assume s: "left_to_claim current (row # rows) s"
  then have i: "0 < bt_interval row" by (simp add: left_to_claim_def)
  show "left_to_claim current rows (snd (advance_row current row s))"
    using s i
    by (auto simp: left_to_claim_def advance_row_def update_beats_def advanced_def beat_due_def beat_expired_def seconds_def
        split: option.splits)
qed

lemma claiming_insert [io_rules]: "io_keeps (left_to_claim current rows) (insert_run r)"
  unfolding insert_run_def by (intro io_rules) simp

lemma io_from_fresh:
  "about_tables P \<Longrightarrow> (\<And>i. io_from P (k i) Q) \<Longrightarrow> io_from P (io_bind (fresh_id fresh) k) Q"
  by (simp add: io_from_def io_bind_def fresh_id_def about_tables_def split: prod.splits)

lemma claiming_step:
  "io_from (left_to_claim current (row # rows)) (claim_one fresh now current row) (left_to_claim current rows)"
proof -
  have rest: "io_from (left_to_claim current rows) (io_then (insert_run r) (io_then (audit now a h src d) (io_return x)))
     (left_to_claim current rows)" for r a h src d and x :: beat_claim
    unfolding io_keeps_from [symmetric] by (intro io_rules) simp
  show ?thesis
    unfolding claim_one_def by (intro io_from_fresh io_from_then [OF claiming_advance _ rest]) simp_all
qed

text \<open>A loop that returned.\<close>

lemma io_map_returned:
  assumes "\<And>x xs s y s'. J (x # xs) s \<Longrightarrow> f x s = (Inr y, s') \<Longrightarrow> J xs s'" "J xs s" "io_map f xs s = (Inr ys, s')"
  shows "J [] s'"
  using assms(2,3) by (induction xs arbitrary: s ys) (auto simp: io_bind_Inr intro: assms(1))

lemma io_map_values:
  assumes "\<And>x s y s'. f x s = (Inr y, s') \<Longrightarrow> g y = h x" "io_map f xs s = (Inr ys, s')"
  shows "map g ys = map h xs"
  using assms(2) by (induction xs arbitrary: s ys) (auto simp: io_bind_Inr dest: assms(1))

lemma io_map_each:
  assumes "\<And>x s y s'. f x s = (Inr y, s') \<Longrightarrow> P y s'" "\<And>x y. io_keeps (P y) (f x)"
    "io_map f xs s = (Inr ys, s')" "y \<in> set ys"
  shows "P y s'"
  using assms(3,4)
proof (induction xs arbitrary: s ys)
  case (Cons x xs)
  then obtain z s1 zs where one: "f x s = (Inr z, s1)" and rest: "io_map f xs s1 = (Inr zs, s')" and ys: "ys = z # zs"
    by (auto simp: io_bind_Inr)
  show ?case
  proof (cases "y \<in> set zs")
    case True
    then show ?thesis using Cons.IH rest by blast
  next
    case False
    then have "P y s1" using Cons.prems(2) ys assms(1) [OF one] by simp
    moreover have "io_keeps (P y) (io_map f xs)" by (rule io_keeps_map) (rule assms(2))
    ultimately show ?thesis using rest io_keepsD [of "P y" "io_map f xs" s1 "Inr zs" s'] by blast
  qed
qed simp

definition claim_recorded :: "beat_claim \<Rightarrow> 'w beat_state \<Rightarrow> bool" where
  "claim_recorded m s \<longleftrightarrow> (\<exists>r \<in> set (bs_runs s). br_id r = bm_run m \<and> br_beat r = Some (bt_id (bm_beat m)) \<and>
     run_inflight r)"

lemma recorded_keeps [io_rules]: "io_keeps (claim_recorded m) (insert_run r)" "io_keeps (claim_recorded m) (advance_row current row)"
  "io_keeps (claim_recorded m) (audit now a h src d)" "io_keeps (claim_recorded m) (fresh_id fresh)"
  by (auto simp: io_keeps_def claim_recorded_def insert_run_def advance_row_def update_beats_def audit_def
      fresh_id_def io_bind_def io_then_def split: prod.splits)

lemma claim_one_value:
  assumes "claim_one fresh now current row s = (Inr m, s')"
  shows "claim_recorded m s' \<and> bt_id (bm_beat m) = bt_id row"
  using assms
  by (auto simp: claim_one_def claim_recorded_def insert_run_def claimed_run_def run_inflight_def audit_def
      io_bind_Inr io_then_Inr)

lemma claim_due_steps:
  assumes "beats_ok s" "beat_claim_due fresh now current s = (Inr claims, s')"
  obtains s1 where "bs_beats s1 = map (\<lambda>b. if beat_expired current b
       then b\<lparr> bt_status := ''COMPLETED'', bt_updated := isoformat current \<rparr> else b) (bs_beats s)"
    "io_map (claim_one fresh now current) (due_rows current s1) s1 = (Inr claims, s')"
proof -
  obtain u s1 where e: "expire_all now current current s = (Inr u, s1)"
    "io_map (claim_one fresh now current) (due_rows current s1) s1 = (Inr claims, s')"
    using assms(2) by (auto simp: beat_claim_due_def io_then_Inr io_bind_Inr)
  then show thesis using expired_rows [OF assms(1) e(1)] that by blast
qed

lemma set_due_rows [simp]: "set (due_rows current s) = {b \<in> set (bs_beats s). beat_due current b}"
  by (auto simp: due_rows_def)

lemma positive_interval: "beats_ok s \<Longrightarrow> b \<in> set (bs_beats s) \<Longrightarrow> 0 < bt_interval b"
  unfolding beats_ok_def tables_ok_def beat_ok_def handoff_ok_def by blast

lemma nothing_due:
  assumes "left_to_claim current [] s"
  shows "fst (beat_claim_due fresh now current s) = Inr []"
proof -
  have "filter (beat_expired current) (bs_beats s) = []" "due_rows current s = []"
    using assms by (auto simp: left_to_claim_def due_rows_def filter_empty_conv)
  then show ?thesis
    by (simp add: beat_claim_due_def session_def expire_all_def io_bind_def io_then_def)
qed


section \<open>What a recorded run leaves\<close>

text \<open>The row of the heartbeat after a run was recorded on it.\<close>

definition row_of :: "string \<Rightarrow> 'w beat_state \<Rightarrow> beat option" where
  "row_of hid s = find_beat hid (bs_beats s)"

lemma settled_limits:
  "bt_status (se_beat (settle c now h outcome result current)) = ''ACTIVE'' \<Longrightarrow>
   bt_failures (se_beat (settle c now h outcome result current)) < bc_max_failures c \<and>
   (\<forall>m. bt_max_runs h = Some m \<longrightarrow> bt_run_count (se_beat (settle c now h outcome result current)) < m)"
proof -
  obtain outcome1 result1 success receipt_status mark asked unchanged result2 quiet alert alarm where
    s: "read_receipt c h outcome result = (outcome1, result1, success, receipt_status, mark)"
    "asked_status c h current outcome1 receipt_status mark result1 = (asked, unchanged, result2)"
    "queue_marks result2 current = (quiet, alert, alarm)"
    by (rule settleE)
  assume "bt_status (se_beat (settle c now h outcome result current)) = ''ACTIVE''"
  then show ?thesis
    by (auto simp: settle_def s Let_def settled_status_def not_le split: if_splits option.splits)
qed

lemma find_update:
  "find_beat hid rows = Some b \<Longrightarrow> distinct (map bt_id rows) \<Longrightarrow> (\<And>b. bt_id (f b) = bt_id b) \<Longrightarrow>
   find_beat hid (map (\<lambda>b. if bt_id b = hid then f b else b) rows) = Some (f b)"
  by (induction rows) (auto simp: find_beat_def split: if_splits)

lemma settled_count:
  "bt_run_count (se_beat (settle c now h outcome result current)) \<in> {bt_run_count current, bt_run_count current + 1}"
  by (auto simp: settle_def Let_def split: prod.splits)

lemma store_run_beats:
  "store_run now hid source thread run_id outcome result scheduled s = (Inr u, s1) \<Longrightarrow> bs_beats s1 = bs_beats s"
  by (auto simp: store_run_def insert_run_def update_runs_def io_bind_Inr io_then_Inr split: option.splits)

lemma settle_row_beats:
  assumes "settle_row c now h source thread run_id outcome result s = (Inr out, s')"
    "find_beat (bt_id h) (bs_beats s) = Some b" "bt_status b = ''ACTIVE''"
  shows "bs_beats s' = map (\<lambda>x. if bt_id x = bt_id h
      then settle_columns (se_beat (settle c now h outcome result b)) x else x) (bs_beats s)"
  using assms
  by (cases "se_busy_notice (settle c now h outcome result b)")
     (auto simp: settle_row_def Let_def audit_def update_beats_def io_bind_Inr io_then_Inr)

lemma record_run_beats:
  assumes "record_run fresh c now (Some h) source thread result scheduled s = (Inr out, s')"
    "find_beat (bt_id h) (bs_beats s) = Some b" "bt_status b = ''ACTIVE''"
  shows "bs_beats s' = map (\<lambda>x. if bt_id x = bt_id h then settle_columns (se_beat
      (settle c now h (py_str (py_or (dget result ''outcome'') (PStr ''failed''))) result b)) x else x) (bs_beats s)"
proof -
  obtain run_id s0 where r: "(if truthy (dget result ''run_id'') then io_return (py_str (dget result ''run_id''))
      else fresh_id fresh) s = (Inr run_id, s0)"
    and rest: "\<exists>final s1. session (io_then (store_run now (Some (bt_id h)) source thread run_id
        (py_str (py_or (dget result ''outcome'') (PStr ''failed''))) result scheduled)
        (settle_row c now h source thread run_id (py_str (py_or (dget result ''outcome'') (PStr ''failed''))) result)) s0
        = (Inr final, s1) \<and> s' = s1"
    using assms(1) by (auto simp: record_run_def Let_def io_bind_Inr)
  have s0: "bs_beats s0 = bs_beats s" using r by (auto simp: fresh_id_def split: if_splits prod.splits)
  obtain final u s1 where one: "store_run now (Some (bt_id h)) source thread run_id
        (py_str (py_or (dget result ''outcome'') (PStr ''failed''))) result scheduled s0 = (Inr u, s1)"
    and two: "settle_row c now h source thread run_id (py_str (py_or (dget result ''outcome'') (PStr ''failed''))) result s1 = (Inr final, s')"
    using rest by (auto simp: io_then_Inr)
  have "bs_beats s1 = bs_beats s" using store_run_beats [OF one] s0 by simp
  then show ?thesis using settle_row_beats [OF two] assms(2,3) by simp
qed

text \<open>
  C15: A run recorded on an active heartbeat leaves it active only below its limits: fewer failures in
  a row than the configured maximum and fewer successful runs than \<open>max_runs\<close>; whatever the outcome,
  the run count grows by at most one.
\<close>

theorem recorded_run_respects_limits:
  assumes "beats_ok s" "find_beat (bt_id h) (bs_beats s) = Some b" "bt_status b = ''ACTIVE''"
    "record_run fresh c now (Some h) source thread result scheduled s = (Inr out, s')"
  shows "\<exists>b'. find_beat (bt_id h) (bs_beats s') = Some b' \<and>
     bt_run_count b' \<in> {bt_run_count b, bt_run_count b + 1} \<and>
     (bt_status b' = ''ACTIVE'' \<longrightarrow> bt_failures b' < bc_max_failures c \<and>
       (\<forall>m. bt_max_runs h = Some m \<longrightarrow> bt_run_count b' < m))"
proof -
  let ?e = "se_beat (settle c now h (py_str (py_or (dget result ''outcome'') (PStr ''failed''))) result b)"
  have "distinct (map bt_id (bs_beats s))" using assms(1) by (simp add: beats_ok_def tables_ok_def)
  then have "find_beat (bt_id h) (bs_beats s') = Some (settle_columns ?e b)"
    unfolding record_run_beats [OF assms(4,2,3)] by (intro find_update [OF assms(2)]) simp_all
  then show ?thesis using settled_limits settled_count by (auto simp: settle_columns_current)
qed

section \<open>Expiry is a comparison of times\<close>

text \<open>
  The expiry of a heartbeat is decided by time although SQLite compares text: for a row whose
  \<open>expires_at\<close> is the text of an instant, \<open>claim_due\<close> and \<open>due\<close> expire it exactly when it is active
  and that instant is not in the future.
\<close>

theorem expiry_is_by_time:
  assumes "valid_instant e" "valid_instant current" "bt_expires b = Some (isoformat e)"
  shows "beat_expired current b \<longleftrightarrow> bt_status b = ''ACTIVE'' \<and> e \<le> current"
  using assms by (simp add: beat_expired_def isoformat_order)

end
