(* ===== verification/Beat_Demo.thy ===== *)
theory Beat_Demo
  imports Beat_Final
begin

text \<open>
  A concrete heartbeat store, on which the laws of the store are applied: one native probe, due at
  instant 10, from its claim to the delivery of its notification.
\<close>

definition demo_beat_lib :: beat_lib where
  "demo_beat_lib = \<lparr> bl_paths = demo_paths, bl_expand = id, bl_is_file = (\<lambda>_. True), bl_is_dir = (\<lambda>_. True),
     bl_workspace = ''/w'', bl_urlparse = (\<lambda>_. Inr (''http'', Some ''localhost'')), bl_digest = (\<lambda>_. ''d'') \<rparr>"

definition demo_beat_config :: beat_config where
  "demo_beat_config = \<lparr> bc_db_path = ''/w/db'', bc_health_path = ''/w/health'', bc_lock_path = ''/w/lock'',
     bc_launcher_path = ''/w/launcher'', bc_poll_seconds = 5, bc_retry_seconds = 60, bc_max_failures = 5,
     bc_min_interval = 30, bc_max_interval = 3600, bc_max_prompt = 1000, bc_desktop_recovery = False,
     bc_desktop_exe = None, bc_desktop_app = None, bc_desktop_start = 30, bc_turn_timeout = 1800,
     bc_max_concurrent = 4, bc_max_runs_default = 48, bc_stale_rounds = 3, bc_require_receipt = False,
     bc_prohibited = [], bc_double_read_delay = 1, bc_payload_mode = ''inline'',
     bc_contracts_dir = ''/w/contracts'', bc_max_envelope = 512, bc_bridge_root = None \<rparr>"

definition demo_fresh :: "nat \<Rightarrow> string \<times> nat" where
  "demo_fresh n = (replicate (Suc n) (CHR ''r''), Suc n)"

definition demo_beat_thread :: string where
  "demo_beat_thread = ''00000000-0000-0000-0000-000000000001''"

definition demo_beat_request :: pdict where
  "demo_beat_request = [(''heartbeat_id'', PStr ''h''), (''name'', PStr ''probe''),
     (''target_thread_id'', PStr demo_beat_thread), (''prompt'', PStr ''go''),
     (''execution_mode'', PStr ''native_probe''),
     (''probe'', PDict [(''type'', PStr ''attendance_end_of_day_memo'')]), (''interval_seconds'', PInt 60),
     (''source_event_key'', PStr ''e''), (''confirmation_evidence'', PStr ''c''), (''max_runs'', PInt 3),
     (''expires_at'', PStr (isoformat 1000000000)), (''start_immediately'', PBool True)]"

lemma demo_config_ok [simp]: "config_ok demo_beat_config"
  by (simp add: config_ok_def demo_beat_config_def)

lemma demo_beat_expires: "beat_time (PStr (isoformat 1000000000)) = Inr (Some 1000000000)"
proof -
  have "isoformat 1000000000 \<noteq> []" by (simp add: isoformat_def Let_def pad4_def split: prod.splits)
  then show ?thesis by (simp add: beat_time_def parse_isoformat valid_instant_def)
qed

lemma demo_uuid: "validate_thread_id (PStr demo_beat_thread) = Inr demo_beat_thread"
  by code_simp

lemma demo_texts: "stripped (PStr ''h'') = ''h''" "stripped (PStr ''probe'') = ''probe''" "stripped (PStr ''go'') = ''go''"
  "py_strip ''native_probe'' = ''native_probe''" "stripped (PStr ''e'') = ''e''" "stripped (PStr ''c'') = ''c''"
  "safe_beat_id ''h''" "py_len ''go'' = 2" "stripped PNone = []" "py_take 500 ''c'' = ''c''" "py_take 160 ''probe'' = ''probe''"
  "stripped (PStr ''attendance_end_of_day_memo'') = ''attendance_end_of_day_memo''" "is_alnum (CHR ''h'')"
  "beat_time PNone = Inr None"
  by code_simp+

lemma demo_probe:
  "request_probe demo_beat_lib ''native_probe'' demo_beat_thread demo_beat_request =
     Inr (Some [(''type'', PStr ''attendance_end_of_day_memo''), (''lead_minutes'', PInt 10), (''grace_minutes'', PInt 5)], None)"
  by (simp add: request_probe_def Let_def demo_beat_request_def attendance_probe_def demo_texts)

lemma demo_validated:
  obtains v where "validate_request demo_beat_lib demo_beat_config 10 demo_beat_request = Inr v" "bq_id v = ''h''"
    "bq_mode v = ''native_probe''" "bq_interval v = 60" "bq_next v = 10" "bq_max_runs v = 3" "bq_expires v = isoformat 1000000000"
proof -
  have "\<exists>v. validate_request demo_beat_lib demo_beat_config 10 demo_beat_request = Inr v \<and> bq_id v = ''h'' \<and>
    bq_mode v = ''native_probe'' \<and> bq_interval v = 60 \<and> bq_next v = 10 \<and> bq_max_runs v = 3 \<and>
    bq_expires v = isoformat 1000000000"
    unfolding validate_request_def Let_def
    by (simp add: demo_beat_request_def demo_probe [unfolded demo_beat_request_def] demo_uuid demo_texts demo_beat_expires demo_beat_config_def
        py_or_def request_interval_def request_max_runs_def request_times_def none_if_empty_def)
  then show thesis using that by blast
qed

abbreviation demo_step :: "beat_call \<Rightarrow> (nat beat_state, pyval) io" where
  "demo_step \<equiv> beat_call_io demo_beat_lib demo_beat_config demo_fresh"

definition demo_calls :: "beat_call list" where
  "demo_calls = [Create_Beat 10 demo_beat_request, Claim_Due 10 10, Arm_Trigger 10 ''h'' ''r'' 90 None,
     Finish_Trigger 10 ''h'' ''r'' True None, Complete_Delivery 11 ''h'' (PStr ''m'') ''e'']"

lemma demo_not_expired: "\<not> isoformat 1000000000 \<le> isoformat 10"
  by (simp add: isoformat_order valid_instant_def)

lemma demo_message: "stripped (PStr ''m'') = ''m''" "py_len ''m'' = 1" "py_strip ''e'' = ''e''"
  by code_simp+

lemma demo_run:
  "\<exists>s. run_ops demo_step demo_calls (empty_store 0) =
     ([Inr (PBool True), Inr (PList [PStr ''r'']), Inr (PBool True), Inr PNone, Inr (PStr ''CANCELLED'')], s)"
proof -
  obtain v where v: "validate_request demo_beat_lib demo_beat_config 10 demo_beat_request = Inr v" "bq_id v = ''h''"
    "bq_mode v = ''native_probe''" "bq_interval v = 60" "bq_next v = 10" "bq_max_runs v = 3" "bq_expires v = isoformat 1000000000"
    by (rule demo_validated)
  have trig: "bq_trigger v = ''monitoring''" using validated(2) [OF v(1)] v(3) by simp
  let ?b = "new_beat 10 v"
  let ?c = "?b\<lparr> bt_next := Some 60000010, bt_last_run := Some (isoformat 10), bt_updated := isoformat 10 \<rparr>"
  obtain s1 where s1: "demo_step (Create_Beat 10 demo_beat_request) (empty_store 0) = (Inr (PBool True), s1)"
    "bs_beats s1 = [?b]" "bs_runs s1 = []" "bs_world s1 = 0"
    by (simp add: io_as_def beat_create_def session_def v audit_def empty_store_def find_beat_def io_bind_def io_then_def)
  obtain s2 where s2: "demo_step (Claim_Due 10 10) s1 = (Inr (PList [PStr ''r'']), s2)" "bs_beats s2 = [?c]"
    by (simp add: io_as_def beat_claim_due_def session_def expire_all_def due_rows_def s1 beat_expired_def beat_due_def
        new_beat_def v demo_not_expired claim_one_def fresh_id_def demo_fresh_def advance_row_def update_beats_def
        advanced_def seconds_def insert_run_def claimed_run_def audit_def io_bind_def io_then_def)
  obtain s3 where s3: "demo_step (Arm_Trigger 10 ''h'' ''r'' 90 None) s2 = (Inr (PBool True), s3)"
    "bs_beats s3 = [armed_beat 10 ''r'' 90 ?c]"
    by (simp add: io_as_def arm_trigger_handoff_def session_def update_beats_def s2 can_arm_def new_beat_def v trig
        audit_def io_bind_def io_then_def)
  obtain s4 where s4: "demo_step (Finish_Trigger 10 ''h'' ''r'' True None) s3 = (Inr PNone, s4)"
    "bs_beats s4 = [handoff_beat 10 True (armed_beat 10 ''r'' 90 ?c)]"
    by (simp add: io_as_def finish_trigger_handoff_def session_def update_beats_def s3 armed_beat_def new_beat_def v
        audit_def io_bind_def io_then_def)
  obtain s5 where s5: "demo_step (Complete_Delivery 11 ''h'' (PStr ''m'') ''e'') s4 = (Inr (PStr ''CANCELLED''), s5)"
    by (simp add: io_as_def complete_delivery_def session_def update_beats_def s4 handoff_beat_def armed_beat_def
        new_beat_def v awaits_delivery_def delivered_beat_def beat_get_def find_beat_def row_status_def demo_message
        Let_def audit_def io_bind_def io_then_def)
  show ?thesis by (simp add: demo_calls_def s1(1) s2(1) s3(1) s4(1) s5 del: beat_call_io.simps)
qed


theorem one_handoff_per_renewal_witness:
  "\<exists>rs s. run_ops demo_step demo_calls (empty_store 0) = (rs, s) \<and> total (deliveries ''h'') demo_calls rs = 1 \<and>
     total (arms ''h'') demo_calls rs \<le> total (renewals ''h'') demo_calls rs"
proof -
  obtain s where s: "run_ops demo_step demo_calls (empty_store 0) =
     ([Inr (PBool True), Inr (PList [PStr ''r'']), Inr (PBool True), Inr PNone, Inr (PStr ''CANCELLED'')], s)"
    using demo_run by blast
  then show ?thesis
    using one_handoff_per_renewal [OF demo_config_ok s, of "''h''"] by (auto simp: demo_calls_def)
qed

section \<open>One row\<close>

text \<open>An hourly prompt heartbeat on its last run but one, due at instant 10.\<close>

definition demo_beat :: beat where
  "demo_beat = \<lparr> bt_id = ''h'', bt_name = ''n'', bt_thread = ''t'', bt_parent = None, bt_prompt = ''go'',
     bt_interval = 3600, bt_status = ''ACTIVE'', bt_next = Some 10, bt_run_count = 1, bt_max_runs = Some 3,
     bt_expires = Some (isoformat 1000000000), bt_model = None, bt_effort = None, bt_desktop = False,
     bt_source = ''e'', bt_confirmation = ''c'', bt_hash = ''d'', bt_mode = ''prompt'', bt_probe_type = None,
     bt_threshold = None, bt_probe = None, bt_trigger = ''not_applicable'', bt_trigger_run = None,
     bt_trigger_percent = None, bt_triggered = None, bt_message = None, bt_receipt_mark = None,
     bt_receipt_status = ''not_applicable'', bt_receipt_turn = PNone, bt_last_run = None, bt_last_turn = PNone,
     bt_last_thread_status = PNone, bt_failures = 4, bt_last_error = PNone, bt_progress = None,
     bt_unchanged = 0, bt_busy_since = None, bt_busy_notice = False, bt_quiet_mark = None,
     bt_alert_mark = None, bt_created = ''c'', bt_updated = ''u'' \<rparr>"

definition demo_store :: "beat \<Rightarrow> nat beat_state" where
  "demo_store b = (empty_store 0)\<lparr> bs_beats := [b] \<rparr>"

lemma demo_store_simps [simp]: "bs_beats (demo_store b) = [b]" "bs_runs (demo_store b) = []"
  "bs_world (demo_store b) = 0"
  by (simp_all add: demo_store_def empty_store_def)

lemma demo_store_ok: "beats_ok (demo_store demo_beat)"
  by (simp add: beats_ok_def tables_ok_def beat_ok_def handoff_ok_def demo_beat_def beat_statuses_def)

lemma demo_due: "beat_due 10 demo_beat" "\<not> beat_expired 10 demo_beat"
  by (simp_all add: beat_due_def beat_expired_def demo_beat_def demo_not_expired)

text \<open>A failed run that would have been the fifth failure in a row.\<close>

definition demo_failed :: pdict where
  "demo_failed = [(''run_id'', PStr ''r''), (''outcome'', PStr ''failed'')]"

lemma demo_record:
  "\<exists>out s. record_run demo_fresh demo_beat_config 20 (Some demo_beat) None ''t'' demo_failed None
      (demo_store demo_beat) = (Inr out, s) \<and> bs_beats s \<noteq> [] \<and> bt_status (hd (bs_beats s)) = ''FAILED'' \<and>
      br_outcome (hd (bs_runs s)) = ''failed'' \<and> br_completed (hd (bs_runs s)) = Some (isoformat 20)"
  by (simp add: record_run_def demo_failed_def store_run_def settle_row_def settle_def read_receipt_def needs_receipt_def
      asked_status_def queue_marks_def demo_beat_config_def demo_beat_def Let_def session_def insert_run_def
      update_beats_def audit_def io_bind_def io_then_def find_beat_def busy_over_def busy_deferral_def
      success_outcomes_def settled_status_def failures_after_def settle_columns_def py_or_def text_or_empty_def)

theorem recorded_run_respects_limits_witness:
  "\<exists>out s b. record_run demo_fresh demo_beat_config 20 (Some demo_beat) None ''t'' demo_failed None
      (demo_store demo_beat) = (Inr out, s) \<and> find_beat ''h'' (bs_beats s) = Some b \<and> bt_run_count b \<in> {1, 2}"
proof -
  obtain out s where s: "record_run demo_fresh demo_beat_config 20 (Some demo_beat) None ''t'' demo_failed None
      (demo_store demo_beat) = (Inr out, s)"
    using demo_record by blast
  have "find_beat (bt_id demo_beat) (bs_beats (demo_store demo_beat)) = Some demo_beat"
    "bt_status demo_beat = ''ACTIVE''" "bt_run_count demo_beat = 1" "bt_id demo_beat = ''h''"
    by (simp_all add: find_beat_def demo_beat_def)
  then show ?thesis using recorded_run_respects_limits [OF demo_store_ok _ _ s] s by auto
qed



definition demo_done :: beat_run where
  "demo_done = \<lparr> br_id = ''r'', br_beat = Some ''h'', br_source = None, br_client = PNone, br_thread = ''t'',
     br_scheduled = None, br_started = isoformat 10, br_completed = Some (isoformat 15),
     br_outcome = ''turn_completed'', br_desktop = PNone, br_thread_status = PNone, br_turn = PNone,
     br_error = PNone, br_probe = PNone \<rparr>"

theorem completed_runs_are_immutable_witness:
  "\<exists>rs s. run_ops demo_step [Record_Run 20 (Some demo_beat) None ''t'' demo_failed None]
      ((demo_store demo_beat)\<lparr> bs_runs := [demo_done] \<rparr>) = (rs, s) \<and> demo_done \<in> set (bs_runs s)"
proof -
  obtain rs s where s: "run_ops demo_step [Record_Run 20 (Some demo_beat) None ''t'' demo_failed None]
      ((demo_store demo_beat)\<lparr> bs_runs := [demo_done] \<rparr>) = (rs, s)"
    by fastforce
  have "demo_done \<in> set (bs_runs ((demo_store demo_beat)\<lparr> bs_runs := [demo_done] \<rparr>))" "br_completed demo_done \<noteq> None"
    by (simp_all add: demo_done_def)
  then show ?thesis using completed_runs_are_immutable [OF _ _ s] s by blast
qed

theorem expiry_is_by_time_witness:
  "beat_expired 1000000000 demo_beat \<and> \<not> beat_expired 10 demo_beat"
  using expiry_is_by_time [of 1000000000 1000000000 demo_beat] expiry_is_by_time [of 1000000000 10 demo_beat]
  by (simp add: demo_beat_def valid_instant_def)

end
