(* ===== verification/Queue_Probe.thy ===== *)
theory Queue_Probe
  imports Beat_Request Store_Machine
begin

text \<open>
  \<open>MasterQueueContinuationProbe\<close> of \<open>packages/jarvis_runtime/jarvis_heartbeat_service.py\<close>: one
  item of a queue file is claimed for a worker at a time, its receipt is read back, and the next one
  is claimed. The functions on the queue are pure: from the queue that was read they give the answer
  and the queue to write, if it is to be written. The operations read and write it under the
  adjacent lock.

  A queue is a list of lanes, a lane a list of items; Python changes the items in place, here each
  function returns the queue it leaves. What is not an object where an object is expected raises, as
  in the code; a lane that is no object is left alone.
\<close>

section \<open>The receipt of an item\<close>

text \<open>What the checks of the artifacts read from the disk, at the moment of the call.\<close>

record queue_view =
  qv_lib :: beat_lib
  qv_parent :: "string \<Rightarrow> string"
  qv_json :: "string \<Rightarrow> pyval option"
  qv_sha :: "string \<Rightarrow> string result"

definition receipt_texts :: "pdict \<Rightarrow> string \<Rightarrow> string list" where
  "receipt_texts receipt k = map py_str (as_list (dget receipt k))"

definition artifact_candidate :: "queue_view \<Rightarrow> string \<Rightarrow> pyval \<Rightarrow> string option" where
  "artifact_candidate v path x = (case x of
      PStr s \<Rightarrow> if py_strip s = [] then None
        else if pl_absolute (bl_paths (qv_lib v)) s then Some s
        else Some (pl_join (bl_paths (qv_lib v)) (qv_parent v path) s)
    | _ \<Rightarrow> None)"

definition artifact_exists :: "queue_view \<Rightarrow> string \<Rightarrow> pyval \<Rightarrow> bool" where
  "artifact_exists v path x =
     (case artifact_candidate v path x of None \<Rightarrow> False | Some p \<Rightarrow> bl_is_file (qv_lib v) p)"

definition artifact_path :: "queue_view \<Rightarrow> string \<Rightarrow> pyval \<Rightarrow> string option" where
  "artifact_path v path x = map_option (pl_resolve (bl_paths (qv_lib v))) (artifact_candidate v path x)"

definition validated_result_matches_receipt ::
  "queue_view \<Rightarrow> string \<Rightarrow> pdict \<Rightarrow> pdict \<Rightarrow> bool result" where
  "validated_result_matches_receipt v path item receipt =
     (if \<not> {''result'', ''validation''} \<subseteq> set (receipt_texts receipt ''required_artifact_fields'') then Inr True
      else case (artifact_path v path (dget item ''result''), artifact_path v path (dget item ''validation'')) of
        (Some result, Some validation) \<Rightarrow>
          (case qv_json v validation of
             None \<Rightarrow> Inr False
           | Some j \<Rightarrow>
               let d = as_dict j in
               if dget d ''valid'' \<noteq> PBool True \<or> \<not> py_eq (dget d ''error_count'') (PInt 0) then Inr False
               else if artifact_path v path (dget d ''input'') \<noteq> Some result then Inr False
               else rbind (qv_sha v result) (\<lambda>h.
                 Inr (py_lower (stripped (dget d ''computed_sha256'')) = py_lower h)))
      | _ \<Rightarrow> Inr False)"

definition terminal_valid :: "queue_view \<Rightarrow> string \<Rightarrow> pdict \<Rightarrow> pdict \<Rightarrow> bool result" where
  "terminal_valid v path item receipt =
     rbind (str_member (dget item ''status'') (receipt_texts receipt ''terminal_statuses'')) (\<lambda>m.
     if \<not> m then Inr False
     else if \<not> list_all (\<lambda>f. dhas item f \<and> dget item f \<noteq> PNone \<and> dget item f \<noteq> PStr [])
         (receipt_texts receipt ''required_item_fields'') then Inr False
     else if \<not> list_all (\<lambda>f. artifact_exists v path (dget item f))
         (receipt_texts receipt ''required_artifact_fields'') then Inr False
     else validated_result_matches_receipt v path item receipt)"

section \<open>Observing the claims\<close>

definition item_claim :: "pdict \<Rightarrow> pdict" where
  "item_claim item = as_dict (dget item ''jarvis_claim'')"

definition has_claim :: "pdict \<Rightarrow> bool" where
  "has_claim item \<longleftrightarrow> is_dict (dget item ''jarvis_claim'')"

definition claimed_by :: "string \<Rightarrow> pdict \<Rightarrow> bool" where
  "claimed_by hid item \<longleftrightarrow> has_claim item \<and> dget (item_claim item) ''heartbeat_id'' = PStr hid"

definition completed_item :: "queue_view \<Rightarrow> instant \<Rightarrow> pdict \<Rightarrow> pdict \<Rightarrow> pdict" where
  "completed_item v now receipt item =
     (let item1 = dset item ''status'' (PStr ''completed'');
          fields = receipt_texts receipt ''required_item_fields'' @ receipt_texts receipt ''required_artifact_fields'';
          mark = canonical_hash (qv_lib v) (dmerge [] (map (\<lambda>f. (f, dget item1 f)) fields)) in
      dset item1 ''jarvis_claim'' (PDict (dset (dset (item_claim item) ''terminal_fingerprint'' (PStr mark))
        ''terminal_observed_at'' (PStr (isoformat now)))))"

text \<open>The item, its company when it is terminal, and whether it is still in flight.\<close>

definition observe_item ::
  "queue_view \<Rightarrow> instant \<Rightarrow> string \<Rightarrow> string \<Rightarrow> pdict \<Rightarrow> pdict \<Rightarrow> (pdict \<times> string option \<times> bool) result" where
  "observe_item v now hid path receipt item =
     (if \<not> claimed_by hid item then Inr (item, None, False)
      else rbind (terminal_valid v path item receipt) (\<lambda>t.
        if t then Inr (completed_item v now receipt item, Some (py_str (dget item ''company_id'')), False)
        else rbind (str_member (dget item ''status'') [''claimed'', ''active'']) (\<lambda>a. Inr (item, None, a))))"

fun observe_items ::
  "queue_view \<Rightarrow> instant \<Rightarrow> string \<Rightarrow> string \<Rightarrow> pdict \<Rightarrow> pyval list \<Rightarrow> (pyval list \<times> string list \<times> bool) result" where
  "observe_items v now hid path receipt [] = Inr ([], [], False)"
| "observe_items v now hid path receipt (x # xs) =
     rbind (raise_if (\<not> is_dict x) (RuntimeError ''queue item must be an object'')) (\<lambda>_.
     rbind (observe_item v now hid path receipt (as_dict x)) (\<lambda>(y, t, a).
     rbind (observe_items v now hid path receipt xs) (\<lambda>(ys, ts, b).
     Inr (PDict y # ys, (case t of None \<Rightarrow> ts | Some c \<Rightarrow> c # ts), a \<or> b))))"

definition lane_items :: "pyval \<Rightarrow> pyval" where
  "lane_items lane = dget (as_dict lane) ''pending_new_master_items''"

definition set_lane_items :: "pyval \<Rightarrow> pyval list \<Rightarrow> pyval" where
  "set_lane_items lane xs = PDict (dset (as_dict lane) ''pending_new_master_items'' (PList xs))"

fun observe_lanes ::
  "queue_view \<Rightarrow> instant \<Rightarrow> string \<Rightarrow> string \<Rightarrow> pdict \<Rightarrow> pyval list \<Rightarrow> (pyval list \<times> string list \<times> bool) result" where
  "observe_lanes v now hid path receipt [] = Inr ([], [], False)"
| "observe_lanes v now hid path receipt (lane # lanes) =
     (if \<not> is_dict lane then
        rbind (observe_lanes v now hid path receipt lanes) (\<lambda>(ls, ts, b). Inr (lane # ls, ts, b))
      else
        rbind (raise_if (\<not> is_list (lane_items lane)) (RuntimeError ''pending_new_master_items must be a list'')) (\<lambda>_.
        rbind (observe_items v now hid path receipt (as_list (lane_items lane))) (\<lambda>(ys, ts, a).
        rbind (observe_lanes v now hid path receipt lanes) (\<lambda>(ls, ts', b).
        Inr (set_lane_items lane ys # ls, ts @ ts', a \<or> b)))))"

section \<open>Claiming the next item\<close>

definition item_valid :: "pdict \<Rightarrow> bool result" where
  "item_valid item =
     (if \<not> nonempty_text (dget item ''company_id'') \<or> \<not> nonempty_text (dget item ''company_name'')
         \<or> \<not> (is_str (dget item ''official_website'') \<and>
              (prefix ''http://'' (py_str (dget item ''official_website'')) \<or>
               prefix ''https://'' (py_str (dget item ''official_website'')))) then Inr False
      else rbind (str_member (dget item ''rating'') [''A'', ''A-'', ''B+'']) (\<lambda>r.
        Inr (r \<and> nonempty_text (dget item ''source_csv'') \<and> int_instance (dget item ''source_row'') \<noteq> None)))"

definition claimed_item :: "string \<Rightarrow> string \<Rightarrow> instant \<Rightarrow> pdict \<Rightarrow> pdict" where
  "claimed_item hid run_id now item =
     dset (dset item ''status'' (PStr ''claimed'')) ''jarvis_claim''
       (PDict [(''heartbeat_id'', PStr hid), (''run_id'', PStr run_id), (''claimed_at'', PStr (isoformat now)),
          (''state'', PStr ''claimed'')])"

definition lane_thread :: "pyval \<Rightarrow> string" where
  "lane_thread lane = stripped (dget (as_dict lane) ''thread_id'')"

text \<open>The items with the first pending valid one claimed, and that item.\<close>

fun claim_items :: "string \<Rightarrow> string \<Rightarrow> instant \<Rightarrow> pyval \<Rightarrow> pyval list \<Rightarrow> (pyval list \<times> pdict) option result" where
  "claim_items hid run_id now lane [] = Inr None"
| "claim_items hid run_id now lane (x # xs) =
     rbind (if dget (as_dict x) ''status'' = PStr ''pending'' then item_valid (as_dict x) else Inr False) (\<lambda>take.
     if take then
       (case parse_uuid (lane_thread lane) of
          None \<Rightarrow> Inl (RuntimeError (''lane '' @ py_str (dget (as_dict lane) ''lane'') @ '' has no valid registered thread_id''))
        | Some _ \<Rightarrow>
            let item = claimed_item hid run_id now (as_dict x) in Inr (Some (PDict item # xs, item)))
     else rbind (claim_items hid run_id now lane xs) (\<lambda>found.
       Inr (map_option (\<lambda>(ys, item). (x # ys, item)) found)))"

fun claim_lanes :: "string \<Rightarrow> string \<Rightarrow> instant \<Rightarrow> pyval list \<Rightarrow> (pyval list \<times> pyval \<times> pdict) option result" where
  "claim_lanes hid run_id now [] = Inr None"
| "claim_lanes hid run_id now (lane # lanes) =
     rbind (if is_dict lane then claim_items hid run_id now lane (as_list (lane_items lane)) else Inr None) (\<lambda>found.
     case found of
       Some (ys, item) \<Rightarrow> Inr (Some (set_lane_items lane ys # lanes, lane, item))
     | None \<Rightarrow> rbind (claim_lanes hid run_id now lanes) (\<lambda>rest.
         Inr (map_option (\<lambda>(ls, l, item). (lane # ls, l, item)) rest)))"

section \<open>The operations\<close>

definition queue_lanes :: "pdict \<Rightarrow> pyval list result" where
  "queue_lanes queue =
     rbind (raise_if (\<not> is_list (dget queue ''lanes'')) (RuntimeError ''master queue lanes must be a list'')) (\<lambda>_.
     Inr (as_list (dget queue ''lanes'')))"

definition lane_print :: "pyval \<Rightarrow> pyval" where
  "lane_print lane = PDict [(''lane'', dget (as_dict lane) ''lane''), (''thread_id'', dget (as_dict lane) ''thread_id''),
     (''items'', if is_list (lane_items lane) then lane_items lane else PStr ''invalid'')]"

definition queue_fingerprint :: "beat_lib \<Rightarrow> pyval list \<Rightarrow> string" where
  "queue_fingerprint lib lanes =
     canonical_hash lib [(''lanes'', PList (map lane_print (filter is_dict lanes)))]"

definition with_lanes :: "pdict \<Rightarrow> pyval list \<Rightarrow> pdict" where
  "with_lanes queue lanes = dset queue ''lanes'' (PList lanes)"

definition queue_answer :: "string \<Rightarrow> string \<Rightarrow> string list \<Rightarrow> pdict" where
  "queue_answer status mark terminal = [(''status'', PStr status), (''queue_fingerprint'', PStr mark),
     (''terminal_items'', PList (map PStr terminal))]"

text \<open>The queue to write, when it is written, and the answer.\<close>

definition queue_turn ::
  "queue_view \<Rightarrow> instant \<Rightarrow> string \<Rightarrow> string \<Rightarrow> string \<Rightarrow> pdict \<Rightarrow> pdict \<Rightarrow> (pdict option \<times> pdict) result" where
  "queue_turn v now hid run_id path receipt queue =
     rbind (queue_lanes queue) (\<lambda>lanes.
     rbind (observe_lanes v now hid path receipt lanes) (\<lambda>(seen, terminal, active).
     if active then Inr (None, queue_answer ''NO_CHANGE'' (queue_fingerprint (qv_lib v) seen) terminal)
     else rbind (claim_lanes hid run_id now seen) (\<lambda>found.
       case found of
         Some (ls, lane, item) \<Rightarrow>
           Inr (Some (with_lanes queue ls),
             [(''status'', PStr ''CLAIMED''), (''queue_fingerprint'', PStr (queue_fingerprint (qv_lib v) ls)),
              (''lane'', PStr (text_or_empty (dget (as_dict lane) ''lane''))), (''thread_id'', PStr (lane_thread lane)),
              (''item'', PDict item)])
       | None \<Rightarrow>
           Inr (if terminal = [] then None else Some (with_lanes queue seen),
             queue_answer ''QUEUE_EXHAUSTED'' (queue_fingerprint (qv_lib v) seen) terminal))))"

text \<open>The claim of a run that woke its worker.\<close>

definition is_claim_of :: "string \<Rightarrow> string \<Rightarrow> string \<Rightarrow> pyval \<Rightarrow> bool" where
  "is_claim_of hid run_id company x \<longleftrightarrow> is_dict x \<and> has_claim (as_dict x) \<and>
     dget (as_dict x) ''company_id'' = PStr company \<and> claimed_by hid (as_dict x) \<and>
     dget (item_claim (as_dict x)) ''run_id'' = PStr run_id"

definition woken_item :: "instant \<Rightarrow> string option \<Rightarrow> pdict \<Rightarrow> pdict" where
  "woken_item now turn item = dset item ''jarvis_claim''
     (PDict (dset (dset (dset (item_claim item) ''state'' (PStr ''woken'')) ''turn_id'' (opt_str turn))
        ''wake_started_at'' (PStr (isoformat now))))"

fun mark_items :: "(pyval \<Rightarrow> bool) \<Rightarrow> (pdict \<Rightarrow> pdict) \<Rightarrow> pyval list \<Rightarrow> pyval list option" where
  "mark_items p f [] = None"
| "mark_items p f (x # xs) =
     (if p x then Some (PDict (f (as_dict x)) # xs) else map_option (Cons x) (mark_items p f xs))"

fun mark_lanes :: "(pyval \<Rightarrow> bool) \<Rightarrow> (pdict \<Rightarrow> pdict) \<Rightarrow> pyval list \<Rightarrow> pyval list option" where
  "mark_lanes p f [] = None"
| "mark_lanes p f (lane # lanes) =
     (case if is_dict lane then mark_items p f (as_list (lane_items lane)) else None of
        Some ys \<Rightarrow> Some (set_lane_items lane ys # lanes)
      | None \<Rightarrow> map_option (Cons lane) (mark_lanes p f lanes))"

definition queue_mark ::
  "instant \<Rightarrow> string \<Rightarrow> string \<Rightarrow> string \<Rightarrow> string option \<Rightarrow> pdict \<Rightarrow> pdict result" where
  "queue_mark now hid run_id company turn queue =
     rbind (queue_lanes queue) (\<lambda>lanes.
     case mark_lanes (is_claim_of hid run_id company) (woken_item now turn) lanes of
       None \<Rightarrow> Inl (RuntimeError ''claimed queue item disappeared before wake receipt'')
     | Some ls \<Rightarrow> Inr (with_lanes queue ls))"

text \<open>
  The operations on the file. The lock is created exclusively beside the queue file and removed at
  the end; waiting for it, other processes may change the files.
\<close>

record 'w queue_world =
  qw_files :: "string \<Rightarrow> saved"
  qw_env :: 'w

record 'w queue_port =
  qp_view :: "'w queue_world \<Rightarrow> queue_view"
  qp_now :: "'w queue_world \<Rightarrow> instant"
  qp_lock :: "string \<Rightarrow> ('w queue_world, unit) io"
  qp_unlock :: "string \<Rightarrow> ('w queue_world, unit) io"
  qp_write :: "string \<Rightarrow> ('w queue_world, unit) io"

definition load_object :: "string \<Rightarrow> saved \<Rightarrow> pdict result" where
  "load_object path s = (case s of
      Absent \<Rightarrow> Inl (RuntimeError (''JSON file not found: '' @ path))
    | Garbled \<Rightarrow> Inl (RuntimeError (''invalid JSON file '' @ path @ '': Expecting value''))
    | Saved v \<Rightarrow> if is_dict v then Inr (as_dict v)
        else Inl (RuntimeError (''JSON root must be an object: '' @ path)))"

definition write_queue :: "'w queue_port \<Rightarrow> string \<Rightarrow> pdict \<Rightarrow> ('w queue_world, unit) io" where
  "write_queue p path queue =
     io_then (qp_write p path) (io_modify (\<lambda>w. w\<lparr> qw_files := (qw_files w)(path := Saved (PDict queue)) \<rparr>))"

definition with_queue_lock :: "'w queue_port \<Rightarrow> string \<Rightarrow> ('w queue_world, 'a) io \<Rightarrow> ('w queue_world, 'a) io" where
  "with_queue_lock p path m = io_then (qp_lock p path) (io_finally m (qp_unlock p path))"

definition queue_config :: "pdict \<Rightarrow> (string \<times> pdict) result" where
  "queue_config probe =
     rbind (dindex probe ''master_queue_path'') (\<lambda>path.
     rbind (dindex probe ''terminal_receipt'') (\<lambda>receipt. Inr (py_str path, as_dict receipt)))"

definition claim_or_observe ::
  "'w queue_port \<Rightarrow> string \<Rightarrow> pdict \<Rightarrow> string \<Rightarrow> ('w queue_world, pdict) io" where
  "claim_or_observe p hid probe run_id =
     io_bind (io_lift (queue_config probe)) (\<lambda>(path, receipt).
     with_queue_lock p path (
       io_bind (io_get (\<lambda>w. load_object path (qw_files w path))) (\<lambda>loaded.
       io_bind (io_lift loaded) (\<lambda>queue.
       io_bind (io_get (\<lambda>w. queue_turn (qp_view p w) (qp_now p w) hid run_id path receipt queue)) (\<lambda>r.
       io_bind (io_lift r) (\<lambda>(change, answer).
       io_then (case change of None \<Rightarrow> io_return () | Some q \<Rightarrow> write_queue p path q)
       (io_return answer)))))))"

definition mark_wake_started ::
  "'w queue_port \<Rightarrow> string \<Rightarrow> pdict \<Rightarrow> string \<Rightarrow> string \<Rightarrow> string option \<Rightarrow> ('w queue_world, unit) io" where
  "mark_wake_started p hid probe run_id company turn =
     io_bind (io_lift (rbind (dindex probe ''master_queue_path'') (\<lambda>v. Inr (py_str v)))) (\<lambda>path.
     with_queue_lock p path (
       io_bind (io_get (\<lambda>w. load_object path (qw_files w path))) (\<lambda>loaded.
       io_bind (io_lift loaded) (\<lambda>queue.
       io_bind (io_get (\<lambda>w. queue_mark (qp_now p w) hid run_id company turn queue)) (\<lambda>r.
       io_bind (io_lift r) (write_queue p path))))))"

end
