(* ===== verification/Queue_Safety.thy ===== *)
theory Queue_Safety
  imports Queue_Probe "HOL-Library.Multiset"
begin

text \<open>
  What the queue probe guarantees: one item of a heartbeat is in flight at a time, a claim is
  never taken back or retried, and an item is completed on the evidence its receipt asks for. Workers
  and the controller of the queue edit the file between the operations.
\<close>

section \<open>The items of a queue\<close>

definition lanes_items :: "pyval list \<Rightarrow> pdict list" where
  "lanes_items lanes = concat (map (\<lambda>lane. map as_dict (as_list (lane_items lane))) lanes)"

definition queue_items :: "pdict \<Rightarrow> pdict list" where
  "queue_items q = lanes_items (as_list (dget q ''lanes''))"

lemma lanes_items_simps [simp]:
  "lanes_items [] = []"
  "lanes_items (lane # lanes) = map as_dict (as_list (lane_items lane)) @ lanes_items lanes"
  by (simp_all add: lanes_items_def)

lemma set_lane_items_simps [simp]:
  "lane_items (set_lane_items lane xs) = PList xs"
  "is_dict (set_lane_items lane xs)"
  by (simp_all add: lane_items_def set_lane_items_def)

lemma with_lanes_items [simp]: "queue_items (with_lanes q lanes) = lanes_items lanes"
  by (simp add: queue_items_def with_lanes_def)

lemma lane_no_dict [simp]: "\<not> is_dict lane \<Longrightarrow> lane_items lane = PNone"
  by (cases lane) (simp_all add: lane_items_def)

section \<open>What an operation does to the items\<close>

definition observed_as :: "queue_view \<Rightarrow> instant \<Rightarrow> string \<Rightarrow> string \<Rightarrow> pdict \<Rightarrow> pdict \<Rightarrow> pdict \<Rightarrow> bool" where
  "observed_as v now hid path receipt a b \<longleftrightarrow> b = a \<or>
     (claimed_by hid a \<and> terminal_valid v path a receipt = Inr True \<and> b = completed_item v now receipt a)"

definition in_flight_of :: "string \<Rightarrow> pdict \<Rightarrow> bool" where
  "in_flight_of hid item \<longleftrightarrow> claimed_by hid item \<and> dget item ''status'' \<in> {PStr ''claimed'', PStr ''active''}"

definition pending_item :: "pdict \<Rightarrow> bool" where
  "pending_item item \<longleftrightarrow> dget item ''status'' = PStr ''pending''"

lemma completed_item_simps [simp]:
  "dget (completed_item v now receipt item) ''status'' = PStr ''completed''"
  "has_claim (completed_item v now receipt item)"
  "dget (item_claim (completed_item v now receipt item)) ''heartbeat_id'' = dget (item_claim item) ''heartbeat_id''"
  "dget (item_claim (completed_item v now receipt item)) ''run_id'' = dget (item_claim item) ''run_id''"
  by (simp_all add: completed_item_def Let_def has_claim_def item_claim_def)

lemma claimed_item_simps [simp]:
  "dget (claimed_item hid run_id now item) ''status'' = PStr ''claimed''"
  "has_claim (claimed_item hid run_id now item)"
  "dget (item_claim (claimed_item hid run_id now item)) ''heartbeat_id'' = PStr hid"
  "dget (item_claim (claimed_item hid run_id now item)) ''run_id'' = PStr run_id"
  by (simp_all add: claimed_item_def has_claim_def item_claim_def)

lemma woken_item_simps [simp]:
  "dget (woken_item now turn item) ''status'' = dget item ''status''"
  "has_claim (woken_item now turn item)"
  "dget (item_claim (woken_item now turn item)) ''heartbeat_id'' = dget (item_claim item) ''heartbeat_id''"
  "dget (item_claim (woken_item now turn item)) ''run_id'' = dget (item_claim item) ''run_id''"
  by (simp_all add: woken_item_def has_claim_def item_claim_def)

lemma str_member_two: "str_member x [''claimed'', ''active''] = Inr b \<Longrightarrow> b \<longleftrightarrow> x \<in> {PStr ''claimed'', PStr ''active''}"
  by (cases x) (auto simp: str_member_def)

lemma observe_item_result:
  assumes "observe_item v now hid path receipt x = Inr (y, t, a)"
  shows "observed_as v now hid path receipt x y \<and> (\<not> a \<longrightarrow> \<not> in_flight_of hid y) \<and>
     (in_flight_of hid x \<and> terminal_valid v path x receipt = Inr False \<longrightarrow> a)"
  using assms str_member_two [of "dget x ''status''"]
  by (auto simp: observe_item_def observed_as_def in_flight_of_def rbind_Inr_iff split: if_splits)

lemma observe_items_result:
  "observe_items v now hid path receipt xs = Inr (ys, ts, a) \<Longrightarrow>
   list_all2 (observed_as v now hid path receipt) (map as_dict xs) (map as_dict ys) \<and>
   (\<not> a \<longrightarrow> (\<forall>y \<in> set ys. \<not> in_flight_of hid (as_dict y))) \<and>
   ((\<exists>x \<in> set xs. in_flight_of hid (as_dict x) \<and> terminal_valid v path (as_dict x) receipt = Inr False) \<longrightarrow> a)"
proof (induction xs arbitrary: ys ts a)
  case (Cons x xs)
  then obtain y t a1 ys1 ts1 a2 where
    one: "observe_item v now hid path receipt (as_dict x) = Inr (y, t, a1)" and
    rest: "observe_items v now hid path receipt xs = Inr (ys1, ts1, a2)" and
    eq: "ys = PDict y # ys1" "a = (a1 \<or> a2)"
    by (clarsimp simp: rbind_Inr_iff)
  show ?case using Cons.IH [OF rest] observe_item_result [OF one] eq by auto
qed simp

lemma observe_lanes_result:
  "observe_lanes v now hid path receipt lanes = Inr (ls, ts, a) \<Longrightarrow>
   list_all2 (observed_as v now hid path receipt) (lanes_items lanes) (lanes_items ls) \<and>
   (\<not> a \<longrightarrow> (\<forall>y \<in> set (lanes_items ls). \<not> in_flight_of hid y)) \<and>
   ((\<exists>x \<in> set (lanes_items lanes). in_flight_of hid x \<and> terminal_valid v path x receipt = Inr False) \<longrightarrow> a)"
proof (induction lanes arbitrary: ls ts a)
  case (Cons lane lanes)
  show ?case
  proof (cases "is_dict lane")
    case False
    then show ?thesis using Cons by (auto simp: rbind_Inr_iff)
  next
    case True
    then obtain ys ts1 a1 ls1 ts2 a2 where
      one: "observe_items v now hid path receipt (as_list (lane_items lane)) = Inr (ys, ts1, a1)" and
      rest: "observe_lanes v now hid path receipt lanes = Inr (ls1, ts2, a2)" and
      eq: "ls = set_lane_items lane ys # ls1" "a = (a1 \<or> a2)"
      using Cons.prems by (clarsimp simp: rbind_Inr_iff)
    show ?thesis
      using Cons.IH [OF rest] observe_items_result [OF one] eq by (auto intro: list_all2_appendI)
  qed
qed simp

lemma claim_items_result:
  "claim_items hid run_id now lane xs = Inr (Some (ys, item)) \<Longrightarrow>
   \<exists>us x ws. xs = us @ x # ws \<and> ys = us @ PDict item # ws \<and> pending_item (as_dict x) \<and>
     item_valid (as_dict x) = Inr True \<and> item = claimed_item hid run_id now (as_dict x) \<and>
     parse_uuid (lane_thread lane) \<noteq> None"
proof (induction xs arbitrary: ys item)
  case (Cons x xs)
  show ?case
  proof (cases "pending_item (as_dict x) \<and> item_valid (as_dict x) = Inr True")
    case True
    then show ?thesis using Cons.prems
      by (intro exI [of _ "[]"] exI [of _ x] exI [of _ xs]) (auto simp: pending_item_def Let_def split: option.splits)
  next
    case False
    then obtain zs where rest: "claim_items hid run_id now lane xs = Inr (Some (zs, item))" and ys: "ys = x # zs"
      using Cons.prems by (auto simp: pending_item_def rbind_Inr_iff split: if_splits option.splits)
    obtain us z ws where u: "xs = us @ z # ws" "zs = us @ PDict item # ws" "pending_item (as_dict z)"
      "item_valid (as_dict z) = Inr True" "item = claimed_item hid run_id now (as_dict z)"
      "parse_uuid (lane_thread lane) \<noteq> None"
      using Cons.IH [OF rest] by blast
    then show ?thesis using ys
      by (intro exI [of _ "x # us"] exI [of _ z] exI [of _ ws]) simp
  qed
qed simp

lemma claim_lanes_result:
  "claim_lanes hid run_id now lanes = Inr (Some (ls, lane, item)) \<Longrightarrow>
   \<exists>us x ws. lanes_items lanes = us @ x # ws \<and> lanes_items ls = us @ item # ws \<and> pending_item x \<and>
     item_valid x = Inr True \<and> item = claimed_item hid run_id now x \<and> lane \<in> set lanes \<and>
     x \<in> as_dict ` set (as_list (lane_items lane)) \<and> parse_uuid (lane_thread lane) \<noteq> None"
proof (induction lanes arbitrary: ls)
  case (Cons first lanes)
  obtain found where one: "(if is_dict first then claim_items hid run_id now first (as_list (lane_items first)) else Inr None) = Inr found"
    using Cons.prems by (auto simp: rbind_Inr_iff)
  show ?case
  proof (cases found)
    case None
    then obtain ls1 where rest: "claim_lanes hid run_id now lanes = Inr (Some (ls1, lane, item))" and ls: "ls = first # ls1"
      using Cons.prems one by (auto simp: rbind_Inr_iff)
    obtain us x ws where u: "lanes_items lanes = us @ x # ws" "lanes_items ls1 = us @ item # ws" "pending_item x"
      "item_valid x = Inr True" "item = claimed_item hid run_id now x" "lane \<in> set lanes"
      "x \<in> as_dict ` set (as_list (lane_items lane))" "parse_uuid (lane_thread lane) \<noteq> None"
      using Cons.IH [OF rest] by blast
    then show ?thesis using ls
      by (intro exI [of _ "map as_dict (as_list (lane_items first)) @ us"] exI [of _ x] exI [of _ ws]) simp
  next
    case (Some r)
    then obtain ys item1 where r: "found = Some (ys, item1)" by (cases r) simp
    have "ls = set_lane_items first ys # lanes \<and> lane = first \<and> item1 = item"
      using Cons.prems unfolding claim_lanes.simps one r by auto
    moreover have "claim_items hid run_id now first (as_list (lane_items first)) = Inr (Some (ys, item1))"
      using one r by (cases "is_dict first") simp_all
    ultimately have hit: "claim_items hid run_id now first (as_list (lane_items first)) = Inr (Some (ys, item))"
      "ls = set_lane_items first ys # lanes" "lane = first"
      by simp_all
    obtain us x ws where u: "as_list (lane_items first) = us @ x # ws" "ys = us @ PDict item # ws"
      "pending_item (as_dict x)" "item_valid (as_dict x) = Inr True" "item = claimed_item hid run_id now (as_dict x)"
      "parse_uuid (lane_thread first) \<noteq> None"
      using claim_items_result [OF hit(1)] by blast
    then show ?thesis using hit(2,3)
      by (intro exI [of _ "map as_dict us"] exI [of _ "as_dict x"] exI [of _ "map as_dict ws @ lanes_items lanes"]) simp
  qed
qed simp

lemma mark_items_result:
  "mark_items p f xs = Some ys \<Longrightarrow> \<exists>us x ws. xs = us @ x # ws \<and> ys = us @ PDict (f (as_dict x)) # ws \<and> p x"
proof (induction xs arbitrary: ys)
  case (Cons x xs)
  show ?case
  proof (cases "p x")
    case True
    then show ?thesis using Cons.prems by (intro exI [of _ "[]"]) auto
  next
    case False
    then obtain zs where zs: "mark_items p f xs = Some zs" "ys = x # zs" using Cons.prems by auto
    obtain us z ws where "xs = us @ z # ws" "zs = us @ PDict (f (as_dict z)) # ws" "p z"
      using Cons.IH [OF zs(1)] by blast
    then show ?thesis using zs(2) by (intro exI [of _ "x # us"] exI [of _ z] exI [of _ ws]) simp
  qed
qed simp

lemma mark_lanes_result:
  "mark_lanes p f lanes = Some ls \<Longrightarrow>
   \<exists>us x ws. lanes_items lanes = us @ as_dict x # ws \<and> lanes_items ls = us @ f (as_dict x) # ws \<and> p x"
proof (induction lanes arbitrary: ls)
  case (Cons lane lanes)
  show ?case
  proof (cases "if is_dict lane then mark_items p f (as_list (lane_items lane)) else None")
    case None
    then obtain ls1 where rest: "mark_lanes p f lanes = Some ls1" "ls = lane # ls1" using Cons.prems by auto
    obtain us x ws where "lanes_items lanes = us @ as_dict x # ws" "lanes_items ls1 = us @ f (as_dict x) # ws" "p x"
      using Cons.IH [OF rest(1)] by blast
    then show ?thesis using rest(2)
      by (intro exI [of _ "map as_dict (as_list (lane_items lane)) @ us"] exI [of _ x] exI [of _ ws]) simp
  next
    case (Some ys)
    then have ls: "ls = set_lane_items lane ys # lanes" and hit: "mark_items p f (as_list (lane_items lane)) = Some ys"
      using Cons.prems by (auto split: if_splits)
    obtain us x ws where "as_list (lane_items lane) = us @ x # ws" "ys = us @ PDict (f (as_dict x)) # ws" "p x"
      using mark_items_result [OF hit] by blast
    then show ?thesis using ls
      by (intro exI [of _ "map as_dict us"] exI [of _ x] exI [of _ "map as_dict ws @ lanes_items lanes"]) simp
  qed
qed simp

text \<open>One operation that writes: items are observed, then at most one pending item is claimed.\<close>

lemma queue_turn_writes:
  assumes "queue_turn v now hid run_id path receipt q = Inr (Some q', answer)"
  obtains seen where "list_all2 (observed_as v now hid path receipt) (queue_items q) seen"
      "\<forall>y \<in> set seen. \<not> in_flight_of hid y" "queue_items q' = seen" "dget answer ''status'' = PStr ''QUEUE_EXHAUSTED''"
  | us x ws where "list_all2 (observed_as v now hid path receipt) (queue_items q) (us @ x # ws)"
      "\<forall>y \<in> set (us @ x # ws). \<not> in_flight_of hid y" "queue_items q' = us @ claimed_item hid run_id now x # ws"
      "pending_item x" "item_valid x = Inr True" "dget answer ''status'' = PStr ''CLAIMED''"
      "dget answer ''item'' = PDict (claimed_item hid run_id now x)" "parse_uuid (py_str (dget answer ''thread_id'')) \<noteq> None"
proof -
  obtain seen terminal found where
    obs: "observe_lanes v now hid path receipt (as_list (dget q ''lanes'')) = Inr (seen, terminal, False)" and
    found: "claim_lanes hid run_id now seen = Inr found" and
    res: "(case found of
         Some (ls, lane, item) \<Rightarrow>
           (Some (with_lanes q ls),
             [(''status'', PStr ''CLAIMED''), (''queue_fingerprint'', PStr (queue_fingerprint (qv_lib v) ls)),
              (''lane'', PStr (text_or_empty (dget (as_dict lane) ''lane''))), (''thread_id'', PStr (lane_thread lane)),
              (''item'', PDict item)])
       | None \<Rightarrow>
           (if terminal = [] then None else Some (with_lanes q seen),
             queue_answer ''QUEUE_EXHAUSTED'' (queue_fingerprint (qv_lib v) seen) terminal)) = (Some q', answer)"
    using assms
    by (auto simp: queue_turn_def queue_lanes_def rbind_Inr_iff split: if_splits option.splits)
  note seen = observe_lanes_result [OF obs, folded queue_items_def]
  show thesis
  proof (cases found)
    case None
    then show thesis using that(1) [of "lanes_items seen"] seen res by (auto simp: queue_answer_def split: if_splits)
  next
    case (Some r)
    then obtain ls lane item where r: "found = Some (ls, lane, item)" by (cases r) auto
    obtain us x ws where "lanes_items seen = us @ x # ws" "lanes_items ls = us @ item # ws" "pending_item x"
      "item_valid x = Inr True" "item = claimed_item hid run_id now x" "parse_uuid (lane_thread lane) \<noteq> None"
      using claim_lanes_result found r by blast
    then show thesis using that(2) [of us x ws] seen res r by auto
  qed
qed

section \<open>The queue over time\<close>

definition owner :: "pdict \<Rightarrow> pyval \<times> pyval" where
  "owner item = (dget (item_claim item) ''heartbeat_id'', dget (item_claim item) ''run_id'')"

text \<open>The heartbeats and runs that own a claim of the queue.\<close>

definition claims :: "pdict \<Rightarrow> (pyval \<times> pyval) multiset" where
  "claims q = mset (map owner (filter has_claim (queue_items q)))"

text \<open>
  A worker edits its items; it does not touch the claims, does not put an item back to pending, and
  does not take up an item again that it ended.
\<close>

definition worker_edit :: "pdict \<Rightarrow> pdict \<Rightarrow> bool" where
  "worker_edit a b \<longleftrightarrow> dget b ''jarvis_claim'' = dget a ''jarvis_claim'' \<and> (pending_item b \<longrightarrow> pending_item a) \<and>
     (\<forall>hid. in_flight_of hid b \<longrightarrow> in_flight_of hid a)"

text \<open>The controller of the queue adds, edits and removes items that nobody claimed.\<close>

definition controller_edit :: "pdict \<Rightarrow> pdict \<Rightarrow> bool" where
  "controller_edit q q' \<longleftrightarrow> filter has_claim (queue_items q') = filter has_claim (queue_items q)"

inductive queue_step :: "pdict \<Rightarrow> pdict \<Rightarrow> bool" where
  observe: "queue_step q q'" if "queue_turn v now hid run_id path receipt q = Inr (Some q', answer)"
| mark: "queue_step q q'" if "queue_mark now hid run_id company turn q = Inr q'"
| worker: "queue_step q q'" if "list_all2 worker_edit (queue_items q) (queue_items q')"
| controller: "queue_step q q'" if "controller_edit q q'"

definition in_flight_count :: "string \<Rightarrow> pdict list \<Rightarrow> nat" where
  "in_flight_count hid items = length (filter (in_flight_of hid) items)"

definition queue_ok :: "pdict \<Rightarrow> bool" where
  "queue_ok q \<longleftrightarrow> (\<forall>hid. in_flight_count hid (queue_items q) \<le> 1) \<and>
     (\<forall>item \<in> set (queue_items q). pending_item item \<longrightarrow> \<not> has_claim item)"

lemma in_flight_claim: "in_flight_of hid item \<Longrightarrow> has_claim item \<and> \<not> pending_item item"
  by (auto simp: in_flight_of_def claimed_by_def pending_item_def)

text \<open>What a change of single items keeps.\<close>

definition item_kept :: "pdict \<Rightarrow> pdict \<Rightarrow> bool" where
  "item_kept a b \<longleftrightarrow> (has_claim b \<longleftrightarrow> has_claim a) \<and> (has_claim a \<longrightarrow> owner b = owner a) \<and>
     (pending_item b \<longrightarrow> pending_item a) \<and> (\<forall>hid. in_flight_of hid b \<longrightarrow> in_flight_of hid a)"

lemma item_kept_refl [simp]: "item_kept a a"
  by (simp add: item_kept_def)

lemma observed_kept: "observed_as v now hid path receipt a b \<Longrightarrow> item_kept a b"
  by (auto simp: observed_as_def item_kept_def owner_def pending_item_def in_flight_of_def claimed_by_def)

lemma observed_items_kept: "list_all2 (observed_as v now hid path receipt) xs ys \<Longrightarrow> list_all2 item_kept xs ys"
  by (erule list_all2_mono) (rule observed_kept)

lemma woken_kept: "has_claim a \<Longrightarrow> item_kept a (woken_item now turn a)"
  by (simp add: item_kept_def owner_def pending_item_def in_flight_of_def claimed_by_def)

lemma worker_kept: "worker_edit a b \<Longrightarrow> item_kept a b"
  by (simp add: worker_edit_def item_kept_def owner_def has_claim_def item_claim_def)

lemma kept_owners: "list_all2 item_kept xs ys \<Longrightarrow> map owner (filter has_claim ys) = map owner (filter has_claim xs)"
  by (induction rule: list_all2_induct) (auto simp: item_kept_def)

lemma kept_count: "list_all2 item_kept xs ys \<Longrightarrow> in_flight_count hid ys \<le> in_flight_count hid xs"
  unfolding in_flight_count_def by (induction rule: list_all2_induct) (auto simp: item_kept_def)

lemma kept_pending:
  "list_all2 item_kept xs ys \<Longrightarrow> \<forall>a \<in> set xs. pending_item a \<longrightarrow> \<not> has_claim a \<Longrightarrow>
   \<forall>b \<in> set ys. pending_item b \<longrightarrow> \<not> has_claim b"
  by (induction rule: list_all2_induct) (auto simp: item_kept_def)

lemma kept_queue:
  assumes "list_all2 item_kept (queue_items q) items" "queue_ok q"
  shows "(\<forall>hid. in_flight_count hid items \<le> 1) \<and> (\<forall>b \<in> set items. pending_item b \<longrightarrow> \<not> has_claim b) \<and>
    mset (map owner (filter has_claim items)) = claims q"
  using kept_count [OF assms(1)] kept_pending [OF assms(1)] kept_owners [OF assms(1)] assms(2)
  by (auto simp: queue_ok_def claims_def intro: le_trans)

lemma observe_keeps:
  assumes "queue_turn v now hid run_id path receipt q = Inr (Some q', answer)" "queue_ok q"
  shows "queue_ok q' \<and> claims q \<subseteq># claims q'"
  using assms(1)
proof (cases rule: queue_turn_writes)
  case (1 seen)
  then show ?thesis
    using kept_queue [OF observed_items_kept [OF 1(1)] assms(2)] by (auto simp: queue_ok_def claims_def)
next
  case (2 us x ws)
  have kept: "(\<forall>h. in_flight_count h (us @ x # ws) \<le> 1) \<and> (\<forall>b \<in> set (us @ x # ws). pending_item b \<longrightarrow> \<not> has_claim b) \<and>
    mset (map owner (filter has_claim (us @ x # ws))) = claims q"
    by (rule kept_queue [OF observed_items_kept [OF 2(1)] assms(2)])
  have none: "in_flight_count hid (us @ x # ws) = 0"
    using 2(2) by (auto simp: in_flight_count_def filter_empty_conv)
  have "\<not> has_claim x" "\<not> in_flight_of h x" for h using kept 2(4) in_flight_claim by auto
  moreover have "in_flight_of h (claimed_item hid run_id now x) \<longleftrightarrow> h = hid" for h
    by (auto simp: in_flight_of_def claimed_by_def)
  ultimately have "in_flight_count h (queue_items q') \<le> 1" for h
    using kept none 2(3) by (cases "h = hid") (simp_all add: in_flight_count_def)
  moreover have "\<forall>b \<in> set (queue_items q'). pending_item b \<longrightarrow> \<not> has_claim b"
    using kept 2(3) by (auto simp: pending_item_def)
  moreover have "claims q' = add_mset (owner (claimed_item hid run_id now x)) (claims q)"
    using kept \<open>\<not> has_claim x\<close> by (auto simp: claims_def 2(3))
  ultimately show ?thesis by (simp add: queue_ok_def)
qed

lemma mark_keeps:
  assumes "queue_mark now hid run_id company turn q = Inr q'" "queue_ok q"
  shows "queue_ok q' \<and> claims q' = claims q"
proof -
  obtain ls where ls: "mark_lanes (is_claim_of hid run_id company) (woken_item now turn) (as_list (dget q ''lanes'')) = Some ls"
    "q' = with_lanes q ls"
    using assms(1) by (auto simp: queue_mark_def queue_lanes_def rbind_Inr_iff split: option.splits)
  obtain us x ws where "queue_items q = us @ as_dict x # ws" "queue_items q' = us @ woken_item now turn (as_dict x) # ws"
    "is_claim_of hid run_id company x"
    using mark_lanes_result [OF ls(1)] ls(2) by (auto simp: queue_items_def [of q])
  then have "list_all2 item_kept (queue_items q) (queue_items q')"
    by (auto simp: is_claim_of_def intro!: list_all2_appendI woken_kept simp: list.rel_refl)
  then show ?thesis using kept_queue [OF _ assms(2)] by (auto simp: queue_ok_def claims_def)
qed

lemma controller_keeps:
  assumes "controller_edit q q'" "queue_ok q"
  shows "queue_ok q' \<and> claims q' = claims q"
proof -
  have same: "filter has_claim (queue_items q') = filter has_claim (queue_items q)"
    using assms(1) by (simp add: controller_edit_def)
  have "filter (in_flight_of hid) (filter has_claim xs) = filter (in_flight_of hid) xs" for hid xs
    using in_flight_claim by (induction xs) auto
  then have "in_flight_count hid (queue_items q') = in_flight_count hid (queue_items q)" for hid
    using same unfolding in_flight_count_def by metis
  moreover have "\<not> (pending_item b \<and> has_claim b)" if "b \<in> set (queue_items q')" for b
  proof
    assume b: "pending_item b \<and> has_claim b"
    then have "b \<in> set (filter has_claim (queue_items q))" unfolding same [symmetric] using that by simp
    then have "b \<in> set (queue_items q)" by simp
    then show False using b assms(2) unfolding queue_ok_def by blast
  qed
  ultimately show ?thesis using assms(2) same by (auto simp: queue_ok_def claims_def)
qed

lemma queue_step_keeps: "queue_step q q' \<Longrightarrow> queue_ok q \<Longrightarrow> queue_ok q' \<and> claims q \<subseteq># claims q'"
proof (induction rule: queue_step.induct)
  case (worker q q')
  then have "list_all2 item_kept (queue_items q) (queue_items q')" using list_all2_mono worker_kept by blast
  then show ?case using kept_queue worker.prems by (auto simp: queue_ok_def claims_def)
qed (use observe_keeps mark_keeps controller_keeps in auto)

interpretation queue_steps: step_system queue_step "\<lambda>q'. queue_ok q' \<and> C \<subseteq># claims q'" for C
  by unfold_locales (use queue_step_keeps subset_mset.order_trans in blast)


text \<open>
  A claim is never retried: while an item of the heartbeat is in flight without a valid receipt,
  an observation that answers says that nothing changed, and writes nothing.
\<close>

theorem claims_are_not_retried:
  assumes "queue_turn v now hid run_id path receipt q = Inr (change, answer)"
    "item \<in> set (queue_items q)" "in_flight_of hid item" "terminal_valid v path item receipt = Inr False"
  shows "change = None \<and> dget answer ''status'' = PStr ''NO_CHANGE''"
proof -
  obtain seen terminal active where
    obs: "observe_lanes v now hid path receipt (as_list (dget q ''lanes'')) = Inr (seen, terminal, active)"
    using assms(1) by (auto simp: queue_turn_def queue_lanes_def rbind_Inr_iff)
  have active using observe_lanes_result [OF obs] assms(2-4) by (auto simp: queue_items_def)
  then show ?thesis
    using assms(1) obs by (auto simp: queue_turn_def queue_lanes_def rbind_Inr_iff queue_answer_def)
qed

text \<open>The evidence of a completed item.\<close>

definition receipt_evidence :: "queue_view \<Rightarrow> string \<Rightarrow> pdict \<Rightarrow> pdict \<Rightarrow> bool" where
  "receipt_evidence v path item receipt \<longleftrightarrow>
     (\<exists>s \<in> set (receipt_texts receipt ''terminal_statuses''). dget item ''status'' = PStr s) \<and>
     (\<forall>f \<in> set (receipt_texts receipt ''required_item_fields''). dget item f \<notin> {PNone, PStr []}) \<and>
     (\<forall>f \<in> set (receipt_texts receipt ''required_artifact_fields''). artifact_exists v path (dget item f)) \<and>
     ({''result'', ''validation''} \<subseteq> set (receipt_texts receipt ''required_artifact_fields'') \<longrightarrow>
       (\<exists>result validation d h. artifact_path v path (dget item ''result'') = Some result \<and>
          artifact_path v path (dget item ''validation'') = Some validation \<and> qv_json v validation = Some d \<and>
          dget (as_dict d) ''valid'' = PBool True \<and> artifact_path v path (dget (as_dict d) ''input'') = Some result \<and>
          qv_sha v result = Inr h \<and> py_lower (stripped (dget (as_dict d) ''computed_sha256'')) = py_lower h))"

lemma terminal_valid_evidence: "terminal_valid v path item receipt = Inr True \<Longrightarrow> receipt_evidence v path item receipt"
  by (auto simp: terminal_valid_def receipt_evidence_def validated_result_matches_receipt_def rbind_Inr_iff
      str_member_True list_all_iff Let_def split: if_splits option.splits)

text \<open>
  C17: An item is completed on evidence. The probe completes only items of its own claims, and only
  when the status, the fields and the artifacts the receipt asks for are there; when a result and a
  validation are asked for, the validator accepted exactly the bytes of this result.
\<close>

theorem completion_needs_evidence:
  assumes "queue_turn v now hid run_id path receipt q = Inr (Some q', answer)"
    "i < length (queue_items q)" "dget (queue_items q ! i) ''status'' \<noteq> PStr ''completed''"
    "dget (queue_items q' ! i) ''status'' = PStr ''completed''"
  shows "claimed_by hid (queue_items q ! i) \<and> receipt_evidence v path (queue_items q ! i) receipt"
proof -
  have seen: "claimed_by hid (queue_items q ! i) \<and> receipt_evidence v path (queue_items q ! i) receipt"
    if "list_all2 (observed_as v now hid path receipt) (queue_items q) seen" "dget (seen ! i) ''status'' = PStr ''completed''"
    for seen
    using list_all2_nthD [OF that(1) assms(2)] that(2) assms(3) terminal_valid_evidence by (auto simp: observed_as_def)
  from assms(1) show ?thesis
  proof (cases rule: queue_turn_writes)
    case (1 seen)
    then show ?thesis using seen assms(4) by simp
  next
    case (2 us x ws)
    have "i \<noteq> length us" using assms(4) 2(3) by auto
    then have "(us @ x # ws) ! i = queue_items q' ! i" using 2(3) by (auto simp: nth_append nth_Cons')
    then show ?thesis using seen [OF 2(1)] assms(4) by simp
  qed
qed

section \<open>A queue of one lane\<close>

definition demo_view :: queue_view where
  "demo_view = \<lparr> qv_lib = \<lparr> bl_paths = \<lparr> pl_resolve = id, pl_absolute = (\<lambda>_. True), pl_join = (@), pl_within = (\<lambda>_ _. True) \<rparr>,
       bl_expand = id, bl_is_file = (\<lambda>_. True), bl_is_dir = (\<lambda>_. True), bl_workspace = ''/w'',
       bl_urlparse = (\<lambda>_. Inr (''http'', None)), bl_digest = (\<lambda>_. ''d'') \<rparr>,
     qv_parent = id,
     qv_json = (\<lambda>_. Some (PDict [(''valid'', PBool True), (''error_count'', PInt 0), (''input'', PStr ''/r''),
       (''computed_sha256'', PStr ''ab'')])),
     qv_sha = (\<lambda>_. Inr ''ab'') \<rparr>"

definition demo_queue_receipt :: pdict where
  "demo_queue_receipt = [(''terminal_statuses'', PList [PStr ''done'']), (''required_item_fields'', PList [PStr ''result'']),
     (''required_artifact_fields'', PList [PStr ''result'', PStr ''validation''])]"

definition demo_item :: "string \<Rightarrow> pdict \<Rightarrow> pdict" where
  "demo_item status extra = [(''company_id'', PStr ''c1''), (''company_name'', PStr ''n''),
     (''official_website'', PStr ''http://n''), (''rating'', PStr ''A''), (''source_csv'', PStr ''s''),
     (''source_row'', PInt 1), (''status'', PStr status), (''result'', PStr ''/r''), (''validation'', PStr ''/v'')] @ extra"

definition demo_queue :: "pdict \<Rightarrow> pdict" where
  "demo_queue item = [(''lanes'', PList [PDict [(''lane'', PStr ''l''),
     (''thread_id'', PStr ''00000000-0000-0000-0000-000000000001''), (''pending_new_master_items'', PList [PDict item])]])]"

definition demo_queue_claim :: pdict where
  "demo_queue_claim = [(''jarvis_claim'', PDict [(''heartbeat_id'', PStr ''h''), (''run_id'', PStr ''r'')])]"

lemma demo_queue_items [simp]: "queue_items (demo_queue item) = [item]"
  by (simp add: queue_items_def demo_queue_def lane_items_def)

lemma demo_facts: "parse_uuid (stripped (PStr ''00000000-0000-0000-0000-000000000001'')) \<noteq> None"
  "item_valid (demo_item ''pending'' []) = Inr True"
  "terminal_valid demo_view ''/q'' (demo_item ''done'' demo_queue_claim) demo_queue_receipt = Inr True"
  "terminal_valid demo_view ''/q'' (demo_item ''claimed'' demo_queue_claim) demo_queue_receipt = Inr False"
  by code_simp+

lemma demo_claims: "\<exists>q' answer. queue_turn demo_view 5 ''h'' ''r'' ''/q'' demo_queue_receipt (demo_queue (demo_item ''pending'' [])) =
   Inr (Some q', answer)"
  using demo_facts(1,2)
  by (auto simp: queue_turn_def queue_lanes_def demo_queue_def lane_items_def observe_item_def claimed_by_def has_claim_def
      lane_thread_def demo_item_def set_lane_items_def Let_def split: option.splits)


theorem claims_are_not_retried_witness:
  "\<exists>change answer. queue_turn demo_view 5 ''h'' ''r2'' ''/q'' demo_queue_receipt (demo_queue (demo_item ''claimed'' demo_queue_claim)) =
     Inr (change, answer) \<and> change = None"
proof -
  obtain change answer where r: "queue_turn demo_view 5 ''h'' ''r2'' ''/q'' demo_queue_receipt
      (demo_queue (demo_item ''claimed'' demo_queue_claim)) = Inr (change, answer)"
    using demo_facts(4)
    by (auto simp: queue_turn_def queue_lanes_def demo_queue_def lane_items_def observe_item_def claimed_by_def has_claim_def
        item_claim_def demo_queue_claim_def demo_item_def)
  have "in_flight_of ''h'' (demo_item ''claimed'' demo_queue_claim)"
    by (simp add: in_flight_of_def claimed_by_def has_claim_def item_claim_def demo_queue_claim_def demo_item_def)
  then show ?thesis using claims_are_not_retried [OF r _ _ demo_facts(4)] r by auto
qed

theorem completion_needs_evidence_witness:
  "\<exists>q' answer. queue_turn demo_view 5 ''h'' ''r2'' ''/q'' demo_queue_receipt (demo_queue (demo_item ''done'' demo_queue_claim)) =
     Inr (Some q', answer) \<and> receipt_evidence demo_view ''/q'' (demo_item ''done'' demo_queue_claim) demo_queue_receipt"
proof -
  let ?q = "demo_queue (demo_item ''done'' demo_queue_claim)"
  have "\<exists>q' answer. queue_turn demo_view 5 ''h'' ''r2'' ''/q'' demo_queue_receipt ?q = Inr (Some q', answer) \<and>
     dget (queue_items q' ! 0) ''status'' = PStr ''completed''"
    using demo_facts(3)
    by (auto simp: queue_turn_def queue_lanes_def demo_queue_def lane_items_def observe_item_def claimed_by_def has_claim_def
        item_claim_def demo_queue_claim_def demo_item_def set_lane_items_def)
  then obtain q' answer where r: "queue_turn demo_view 5 ''h'' ''r2'' ''/q'' demo_queue_receipt ?q = Inr (Some q', answer)"
    "dget (queue_items q' ! 0) ''status'' = PStr ''completed''"
    by blast
  then show ?thesis using completion_needs_evidence [OF r(1), of 0] by (simp add: demo_item_def)
qed

end
