(* ===== verification/App_Client.thy ===== *)
theory App_Client
  imports Py_IO Py_Json Iso_Time
begin

text \<open>
  \<open>AppServerClient\<close> of \<open>packages/jarvis_runtime/jarvis_native_task_launcher.py\<close>: the client of one App
  Server process over its standard streams. A reader thread sorts what the server prints into the
  queue of responses (whatever has an \<open>id\<close>) and the queue of notifications, and marks the end of
  the stream; a request waits for the response with its number, a turn for its
  \<open>turn/completed\<close>.

  The process, the streams and the lock file of a thread are the port \<open>pipe\<close>. The monotonic clock is in
  the client; waiting and sleeping take at least a microsecond, and that is why the loops with a
  deadline end. A wait may end early with nothing, and is then resumed.
\<close>

section \<open>The settings and the port\<close>

record launcher_config =
  nc_version :: int
  nc_dispatcher :: string
  nc_cli :: string
  nc_profile :: string
  nc_connection :: pdict
  nc_base_url :: "string option"
  nc_home :: string
  nc_live :: bool
  nc_poll :: int
  nc_request_timeout :: int
  nc_turn_timeout :: int
  nc_readback_timeout :: int
  nc_lock_timeout :: int
  nc_max_attempts :: int
  nc_cooper :: "string list"
  nc_projects :: "(string \<times> string) list"

text \<open>A line of the server: what \<open>json.loads\<close> makes of it, if anything; or the end of the stream.\<close>

datatype pipe_line = Line "pyval option" | Hangup

record 'e pipe =
  pi_spawn :: "string list \<Rightarrow> string option \<Rightarrow> ('e, unit) io"
  pi_alive :: "'e \<Rightarrow> bool"
  pi_write :: "pdict \<Rightarrow> ('e, unit) io"
  pi_wait :: "int \<Rightarrow> 'e \<Rightarrow> nat \<times> pipe_line list \<times> 'e"
  pi_stderr :: "'e \<Rightarrow> string"
  pi_kill :: "('e, unit) io"
  pi_resolve :: "string \<Rightarrow> string"
  pi_lock :: "string \<Rightarrow> int \<Rightarrow> int \<Rightarrow> ('e, unit) io"
  pi_unlock :: "string \<Rightarrow> ('e, unit) io"
  pi_lock_path :: "string \<Rightarrow> string"
  pi_command :: "string list"
  pi_cli_version :: string

record 'e client_world =
  cw_open :: bool
  cw_init :: "pdict option"
  cw_next :: int
  cw_responses :: "pdict list"
  cw_notes :: "pdict option list"
  cw_clock :: int
  cw_env :: 'e

definition new_client :: "int \<Rightarrow> 'e \<Rightarrow> 'e client_world" where
  "new_client clock e = \<lparr> cw_open = False, cw_init = None, cw_next = 0, cw_responses = [], cw_notes = [],
     cw_clock = clock, cw_env = e \<rparr>"

definition cw_io :: "('e, 'a) io \<Rightarrow> ('e client_world, 'a) io" where
  "cw_io m w = (case m (cw_env w) of (r, e) \<Rightarrow> (r, w\<lparr> cw_env := e \<rparr>))"

section \<open>Reading\<close>

fun read_line :: "pipe_line \<Rightarrow> 'e client_world \<Rightarrow> 'e client_world" where
  "read_line (Line None) w = w"
| "read_line (Line (Some v)) w =
     (if \<not> is_dict v then w
      else if dhas (as_dict v) ''id'' then w\<lparr> cw_responses := cw_responses w @ [as_dict v] \<rparr>
      else w\<lparr> cw_notes := cw_notes w @ [Some (as_dict v)] \<rparr>)"
| "read_line Hangup w = w\<lparr> cw_notes := cw_notes w @ [None] \<rparr>"

definition client_wait :: "'e pipe \<Rightarrow> int \<Rightarrow> 'e client_world \<Rightarrow> 'e client_world" where
  "client_wait p t w = (case pi_wait p t (cw_env w) of (n, ls, e) \<Rightarrow>
     fold read_line ls (w\<lparr> cw_env := e, cw_clock := cw_clock w + 1 + int n \<rparr>))"

text \<open>The head of a queue, after a wait when it is empty.\<close>

definition take_response :: "'e pipe \<Rightarrow> int \<Rightarrow> 'e client_world \<Rightarrow> pdict option \<times> 'e client_world" where
  "take_response p t w =
     (let w1 = (if cw_responses w = [] then client_wait p t w else w\<lparr> cw_clock := cw_clock w + 1 \<rparr>) in
      case cw_responses w1 of [] \<Rightarrow> (None, w1) | x # xs \<Rightarrow> (Some x, w1\<lparr> cw_responses := xs \<rparr>))"

definition take_note :: "'e pipe \<Rightarrow> int \<Rightarrow> 'e client_world \<Rightarrow> pdict option option \<times> 'e client_world" where
  "take_note p t w =
     (let w1 = (if cw_notes w = [] then client_wait p t w else w\<lparr> cw_clock := cw_clock w + 1 \<rparr>) in
      case cw_notes w1 of [] \<Rightarrow> (None, w1) | x # xs \<Rightarrow> (Some x, w1\<lparr> cw_notes := xs \<rparr>))"

lemma read_lines_clock [simp]: "cw_clock (fold read_line ls w) = cw_clock w"
proof (induction ls arbitrary: w)
  case (Cons l ls)
  have "cw_clock (read_line l w) = cw_clock w" by (cases "(l, w)" rule: read_line.cases) auto
  then show ?case using Cons by simp
qed simp

lemma client_wait_clock: "cw_clock w < cw_clock (client_wait p t w)"
  by (simp add: client_wait_def split: prod.splits)

lemma take_response_clock: "take_response p t w = (r, w') \<Longrightarrow> cw_clock w < cw_clock w'"
  using client_wait_clock [of w p t] by (auto simp: take_response_def Let_def split: if_splits list.splits)

lemma take_note_clock: "take_note p t w = (r, w') \<Longrightarrow> cw_clock w < cw_clock w'"
  using client_wait_clock [of w p t] by (auto simp: take_note_def Let_def split: if_splits list.splits)

section \<open>Requests\<close>

definition client_write :: "'e pipe \<Rightarrow> pdict \<Rightarrow> ('e client_world, unit) io" where
  "client_write p v =
     io_bind (io_get (\<lambda>w. cw_open w \<and> pi_alive p (cw_env w))) (\<lambda>running.
     io_then (io_check (\<not> running) (NativeError ''Codex app-server is not running''))
     (cw_io (pi_write p v)))"

definition client_notify :: "'e pipe \<Rightarrow> string \<Rightarrow> ('e client_world, unit) io" where
  "client_notify p m = client_write p [(''method'', PStr m)]"

text \<open>The response with the number, the responses put aside meanwhile.\<close>

function await_response ::
  "'e pipe \<Rightarrow> int \<Rightarrow> int \<Rightarrow> pdict list \<Rightarrow> 'e client_world \<Rightarrow> pdict option \<times> pdict list \<times> 'e client_world" where
  "await_response p rid deadline deferred w =
     (if deadline \<le> cw_clock w then (None, deferred, w)
      else case take_response p (max (deadline - cw_clock w) 50000) w of
        (None, w1) \<Rightarrow> await_response p rid deadline deferred w1
      | (Some item, w1) \<Rightarrow>
          if \<not> py_eq (dget item ''id'') (PInt rid) then await_response p rid deadline (deferred @ [item]) w1
          else (Some item, deferred, w1))"
  by pat_completeness auto

termination
  by (relation "measure (\<lambda>(p, rid, deadline, deferred, w). nat (deadline - cw_clock w))")
     (auto dest!: sym [THEN take_response_clock])

declare await_response.simps [simp del]

definition client_object :: "int \<Rightarrow> string \<Rightarrow> pdict \<Rightarrow> pdict" where
  "client_object rid m params = [(''id'', PInt rid), (''method'', PStr m), (''params'', PDict params)]"

definition response_result :: "string \<Rightarrow> pdict \<Rightarrow> pdict result" where
  "response_result m item =
     (if dhas item ''error'' then
        Inl (NativeError (''app-server '' @ m @ '' failed: '' @ json_text ('', '', '': '') (dget item ''error'')))
      else Inr (case dget item ''result'' of PDict d \<Rightarrow> d | v \<Rightarrow> [(''result'', v)]))"

definition client_request :: "'e pipe \<Rightarrow> launcher_config \<Rightarrow> string \<Rightarrow> pdict \<Rightarrow> ('e client_world, pdict) io" where
  "client_request p c m params w =
     (let rid = cw_next w + 1 in
      case client_write p (client_object rid m params) (w\<lparr> cw_next := rid \<rparr>) of
        (Inl e, w1) \<Rightarrow> (Inl e, w1)
      | (Inr _, w1) \<Rightarrow>
          (case await_response p rid (cw_clock w1 + seconds (nc_request_timeout c)) [] w1 of
             (found, deferred, w2) \<Rightarrow>
               (case found of
                  None \<Rightarrow> Inl (NativeError (''app-server '' @ m @ '' timed out; stderr='' @ pi_stderr p (cw_env w2)))
                | Some item \<Rightarrow> response_result m item,
                w2\<lparr> cw_responses := cw_responses w2 @ deferred \<rparr>)))"

section \<open>Starting and closing\<close>

definition client_close :: "'e pipe \<Rightarrow> ('e client_world, unit) io" where
  "client_close p =
     io_bind (io_get cw_open) (\<lambda>running.
     io_then (io_modify (\<lambda>w. w\<lparr> cw_open := False \<rparr>))
     (if running then cw_io (pi_kill p) else io_return ()))"

definition py_contains :: "string \<Rightarrow> string \<Rightarrow> bool" where
  "py_contains pat s \<longleftrightarrow> list_ex (\<lambda>i. take (length pat) (drop i s) = pat) [0..<Suc (length s)]"

definition app_command :: "'e pipe \<Rightarrow> launcher_config \<Rightarrow> string list" where
  "app_command p c = pi_command p
     @ (case nc_base_url c of None \<Rightarrow> [] | Some u \<Rightarrow> if u = [] then [] else [''-c'', ''openai_base_url='' @ u])
     @ [''app-server'', ''--stdio'']"

definition client_info :: pdict where
  "client_info = [(''clientInfo'', PDict [(''name'', PStr ''jarvis-native-task-launcher''),
       (''title'', PStr ''Jarvis Native Task Launcher''), (''version'', PStr ''0.1.0'')]),
     (''capabilities'', PDict [(''experimentalApi'', PBool True)])]"

definition init_failure :: "'e pipe \<Rightarrow> launcher_config \<Rightarrow> string \<Rightarrow> pyexc" where
  "init_failure p c detail =
     (if py_contains ''failed to initialize sqlite state runtime'' detail
          \<or> py_contains ''failed to clean up stale arg0 temp dirs'' detail
      then CodedError ''JARVIS_HOST_CONTEXT_REQUIRED''
        (''JARVIS_HOST_CONTEXT_REQUIRED: App Server cannot initialize the configured CODEX_HOME ''
          @ str_repr (nc_home c) @ ''; run hold from the normal Windows user host, not the MCP sandbox.'')
      else NativeError (''Codex '' @ pi_cli_version p @ '' at '' @ py_repr (PList (map PStr (pi_command p)))
          @ '' failed App Server initialization: '' @ detail))"

definition client_start :: "'e pipe \<Rightarrow> launcher_config \<Rightarrow> ('e client_world, pdict) io" where
  "client_start p c =
     io_bind (io_get (\<lambda>w. (cw_open w \<and> pi_alive p (cw_env w), cw_init w))) (\<lambda>(running, init).
     if running then io_return (case init of None \<Rightarrow> [] | Some d \<Rightarrow> d)
     else
       io_then (cw_io (pi_spawn p (app_command p c) (if nc_home c = [] then None else Some (nc_home c))))
       (io_then (io_modify (\<lambda>w. w\<lparr> cw_open := True \<rparr>))
       (io_try (client_request p c ''initialize'' client_info)
         (\<lambda>e. if is_native_error e then io_then (client_close p) (io_raise (init_failure p c (exc_text e))) else io_raise e)
         (\<lambda>result.
            io_then (client_notify p ''initialized'')
            (let home = text_or_empty (dget result ''codexHome'') in
             if nc_home c \<noteq> [] \<and> pi_resolve p home \<noteq> pi_resolve p (nc_home c) then
               io_then (client_close p) (io_raise (NativeError (''Codex home mismatch: expected ''
                 @ str_repr (nc_home c) @ '', observed '' @ str_repr home)))
             else
               io_then (io_modify (\<lambda>w. w\<lparr> cw_init := Some result \<rparr>)) (io_return result))))))"

section \<open>Models\<close>

definition available_models :: "'e pipe \<Rightarrow> launcher_config \<Rightarrow> ('e client_world, pdict list) io" where
  "available_models p c =
     io_then (client_start p c)
     (io_bind (client_request p c ''model/list'' []) (\<lambda>result.
      let models = py_or (py_or (dget result ''data'') (dget result ''models'')) (PList []) in
      io_then (io_check (\<not> is_list models) (NativeError ''app-server model/list returned an invalid payload''))
      (io_return (map as_dict (filter is_dict (as_list models))))))"

definition model_id :: "pdict \<Rightarrow> string" where
  "model_id item = stripped (py_or (dget item ''id'') (dget item ''model''))"

definition supported_models :: "pdict list \<Rightarrow> (string \<times> pdict) list" where
  "supported_models models =
     fold (\<lambda>item d. if model_id item = [] then d else AList.update (model_id item) item d) models []"

definition select_model :: "'e pipe \<Rightarrow> launcher_config \<Rightarrow> string option \<Rightarrow> ('e client_world, string) io" where
  "select_model p c requested =
     (case requested of
        Some (m # ms) \<Rightarrow> io_then (client_start p c) (io_return (m # ms))
      | _ \<Rightarrow>
          io_bind (available_models p c) (\<lambda>models.
          let supported = supported_models models in
          io_then (io_check (supported = []) (NativeError ''app-server model/list returned no supported models''))
          (io_return (case filter (\<lambda>(k, item). dget item ''isDefault'' = PBool True) supported of
             (k, _) # _ \<Rightarrow> k | [] \<Rightarrow> fst (hd supported)))))"

definition client_probe :: "'e pipe \<Rightarrow> launcher_config \<Rightarrow> ('e client_world, pdict) io" where
  "client_probe p c =
     io_bind (client_start p c) (\<lambda>initialized.
     io_then (client_request p c ''thread/list'' [(''limit'', PInt 1), (''useStateDbOnly'', PBool True)])
     (io_bind (available_models p c) (\<lambda>models.
      io_return [(''initialized'', PDict initialized), (''thread_list_readable'', PBool True),
        (''available_models'', PList (map (\<lambda>item. PStr (text_or_empty (py_or (dget item ''id'') (dget item ''model''))))
           (filter (\<lambda>item. model_id item \<noteq> []) models)))])))"

section \<open>Turns\<close>

definition turn_params :: "string \<Rightarrow> string \<Rightarrow> string \<Rightarrow> string \<Rightarrow> string option \<Rightarrow> pdict" where
  "turn_params thread prompt client_id model effort =
     [(''threadId'', PStr thread), (''clientUserMessageId'', PStr client_id),
      (''input'', PList [PDict [(''type'', PStr ''text''), (''text'', PStr prompt)]]), (''model'', PStr model)]
     @ (case effort of None \<Rightarrow> [] | Some e \<Rightarrow> [(''effort'', PStr e)])"

text \<open>\<open>str(x.get("id") or "")\<close> of an object, empty for anything else.\<close>

definition id_of :: "pyval \<Rightarrow> string" where
  "id_of v = (if is_dict v then text_or_empty (dget (as_dict v) ''id'') else [])"

definition client_start_turn ::
  "'e pipe \<Rightarrow> launcher_config \<Rightarrow> string \<Rightarrow> string \<Rightarrow> string \<Rightarrow> string \<Rightarrow> string option \<Rightarrow> ('e client_world, pdict) io" where
  "client_start_turn p c thread prompt client_id model effort =
     io_bind (client_request p c ''turn/start'' (turn_params thread prompt client_id model effort)) (\<lambda>started.
     let turn = dget started ''turn'' in
     io_then (io_check (id_of turn = [])
       (CreationError ''turn/start response is missing turn.id'' (Some thread)))
     (io_return [(''thread_id'', PStr thread), (''turn_id'', PStr (id_of turn)),
        (''turn_status'', PStr (py_str (py_or (dget (as_dict turn) ''status'') (PStr ''inProgress'')))),
        (''model'', PStr model), (''reasoning_effort'', opt_str effort)]))"

text \<open>The turn of a notification, when it is the completion of this turn of this thread.\<close>

definition completed_turn :: "string \<Rightarrow> string \<Rightarrow> pdict \<Rightarrow> pdict option" where
  "completed_turn thread turn item =
     (let params = dget item ''params''; t = dget (as_dict params) ''turn'' in
      if dget item ''method'' = PStr ''turn/completed'' \<and> is_dict params \<and> is_dict t
         \<and> text_or_empty (dget (as_dict params) ''threadId'') = thread \<and> id_of t = turn
      then Some (as_dict t) else None)"

definition wait_slice :: "launcher_config \<Rightarrow> bool \<Rightarrow> int option \<Rightarrow> int \<Rightarrow> int" where
  "wait_slice c controlled deadline now =
     (let remaining = (case deadline of None \<Rightarrow> nc_poll c | Some d \<Rightarrow> max (d - now) 50000) in
      if controlled then min remaining 250000 else remaining)"

partial_function (option) wait_terminal ::
  "'e pipe \<Rightarrow> launcher_config \<Rightarrow> ('e client_world, unit) io option \<Rightarrow> int option \<Rightarrow> string \<Rightarrow> string \<Rightarrow> 'e client_world
    \<Rightarrow> (pdict result \<times> 'e client_world) option" where
  "wait_terminal p c control deadline thread turn w =
     (if (case deadline of None \<Rightarrow> False | Some d \<Rightarrow> d \<le> cw_clock w)
      then Some (Inl (CreationError ''timed out waiting for turn/completed'' (Some thread)), w)
      else case (case control of None \<Rightarrow> (Inr (), w) | Some m \<Rightarrow> m w) of
        (Inl e, w1) \<Rightarrow> Some (Inl e, w1)
      | (Inr _, w1) \<Rightarrow>
          (case take_note p (wait_slice c (control \<noteq> None) deadline (cw_clock w1)) w1 of
             (None, w2) \<Rightarrow> wait_terminal p c control deadline thread turn w2
           | (Some None, w2) \<Rightarrow>
               Some (Inl (CreationError (''App Server disconnected before exact turn/completed; '' @
                 ''execution terminal is unknown'') (Some thread)), w2)
           | (Some (Some item), w2) \<Rightarrow>
               (case completed_turn thread turn item of
                  Some t \<Rightarrow> Some (Inr t, w2)
                | None \<Rightarrow> wait_terminal p c control deadline thread turn w2)))"

text \<open>
  With the deadline of the configuration, the way the launcher and the heartbeats wait. The wait is
  total then (\<open>turn_wait_ends\<close>).
\<close>

definition wait_for_turn_terminal ::
  "'e pipe \<Rightarrow> launcher_config \<Rightarrow> string \<Rightarrow> string \<Rightarrow> ('e client_world, pdict) io" where
  "wait_for_turn_terminal p c thread turn w =
     the (wait_terminal p c None (Some (cw_clock w + seconds (nc_turn_timeout c))) thread turn w)"

section \<open>Reading a turn back\<close>

definition final_message_for_turn :: "pyval \<Rightarrow> string \<Rightarrow> bool \<Rightarrow> string" where
  "final_message_for_turn thread turn strict =
     (case filter (\<lambda>t. is_dict t \<and> id_of t = turn) (rev (as_list (dget (as_dict thread) ''turns''))) of
        [] \<Rightarrow> []
      | t # _ \<Rightarrow>
          let messages = filter (\<lambda>i. is_dict i \<and> dget (as_dict i) ''type'' = PStr ''agentMessage'')
                (as_list (dget (as_dict t) ''items''));
              finals = filter (\<lambda>i. dget (as_dict i) ''phase'' = PStr ''final_answer'') messages;
              text = (if finals \<noteq> [] then text_or_empty (dget (as_dict (last finals)) ''text'')
                else if messages \<noteq> [] \<and> \<not> strict then text_or_empty (dget (as_dict (last messages)) ''text'')
                else []) in
          if strict then text else py_strip text)"

definition client_sleep :: "'e pipe \<Rightarrow> int \<Rightarrow> 'e client_world \<Rightarrow> 'e client_world" where
  "client_sleep p t w = (let w1 = client_wait p t w in w1\<lparr> cw_clock := max (cw_clock w1) (cw_clock w + t) \<rparr>)"

lemma client_sleep_clock: "cw_clock w < cw_clock (client_sleep p t w)"
  using client_wait_clock [of w p t] by (simp add: client_sleep_def Let_def)

lemma await_response_clock: "await_response p rid deadline deferred w = (r, d, w') \<Longrightarrow> cw_clock w \<le> cw_clock w'"
proof (induction p rid deadline deferred w rule: await_response.induct)
  case (1 p rid deadline deferred w)
  show ?case
  proof (cases "deadline \<le> cw_clock w")
    case True
    then show ?thesis using "1.prems" by (simp add: await_response.simps)
  next
    case False
    obtain x w1 where take: "take_response p (max (deadline - cw_clock w) 50000) w = (x, w1)" by fastforce
    have less: "cw_clock w < cw_clock w1" using take by (rule take_response_clock)
    show ?thesis
    proof (cases x)
      case None
      then show ?thesis using "1.IH"(1) [OF False take [symmetric]] "1.prems" less False take
        by (simp add: await_response.simps [of p rid deadline deferred w])
    next
      case (Some item)
      then show ?thesis using "1.IH"(2) [OF False take [symmetric], of item] "1.prems" less False take
        by (auto simp: await_response.simps [of p rid deadline deferred w] split: if_splits)
    qed
  qed
qed

lemma cw_io_clock [simp]: "cw_clock (snd (cw_io m w)) = cw_clock w"
  by (simp add: cw_io_def split: prod.splits)

lemma client_write_clock: "client_write p v w = (r, w') \<Longrightarrow> cw_clock w' = cw_clock w"
  by (auto simp: client_write_def io_then_def io_bind_def split: if_splits) (metis cw_io_clock snd_conv)

lemma client_request_cases:
  assumes "client_request p c m params w = (r, w')"
  obtains e where "r = Inl e" "client_write p (client_object (cw_next w + 1) m params) (w\<lparr> cw_next := cw_next w + 1 \<rparr>) = (Inl e, w')"
  | u w1 found deferred w2 where
      "client_write p (client_object (cw_next w + 1) m params) (w\<lparr> cw_next := cw_next w + 1 \<rparr>) = (Inr u, w1)"
      "await_response p (cw_next w + 1) (cw_clock w1 + seconds (nc_request_timeout c)) [] w1 = (found, deferred, w2)"
      "w' = w2\<lparr> cw_responses := cw_responses w2 @ deferred \<rparr>"
      "r = (case found of None \<Rightarrow> Inl (NativeError (''app-server '' @ m @ '' timed out; stderr='' @ pi_stderr p (cw_env w2)))
         | Some item \<Rightarrow> response_result m item)"
proof -
  obtain x w1 where x: "client_write p (client_object (cw_next w + 1) m params) (w\<lparr> cw_next := cw_next w + 1 \<rparr>) = (x, w1)"
    by fastforce
  obtain found deferred w2 where y: "await_response p (cw_next w + 1) (cw_clock w1 + seconds (nc_request_timeout c)) [] w1 = (found, deferred, w2)"
    by (cases "await_response p (cw_next w + 1) (cw_clock w1 + seconds (nc_request_timeout c)) [] w1") simp
  show thesis using assms x y that by (cases x) (auto simp: client_request_def Let_def)
qed

lemma client_request_clock:
  assumes "client_request p c m params w = (r, w')"
  shows "cw_clock w \<le> cw_clock w'"
  using assms
proof (cases rule: client_request_cases)
  case (1 e)
  then show ?thesis using client_write_clock [OF 1(2)] by simp
next
  case (2 u w1 found deferred w2)
  then show ?thesis using client_write_clock [OF 2(1)] await_response_clock [OF 2(2)] by simp
qed

lemma read_back_step:
  assumes "client_request p c m params w = (r, w1)" "\<not> deadline \<le> cw_clock w1"
  shows "nat (deadline - cw_clock (client_sleep p t w1)) < nat (deadline - cw_clock w)"
  using client_request_clock [OF assms(1)] client_sleep_clock [of w1 p t] assms(2) unfolding zless_nat_conj
  by linarith

text \<open>The loop of \<open>wait_for_turn_readback\<close>: the message, or nothing when the time is over.\<close>

function read_turn_back ::
  "'e pipe \<Rightarrow> launcher_config \<Rightarrow> string \<Rightarrow> string \<Rightarrow> bool \<Rightarrow> int \<Rightarrow> 'e client_world \<Rightarrow> string result \<times> 'e client_world" where
  "read_turn_back p c thread turn strict deadline w =
     (case client_request p c ''thread/read'' [(''threadId'', PStr thread), (''includeTurns'', PBool True)] w of
        (Inl e, w1) \<Rightarrow> (Inl e, w1)
      | (Inr d, w1) \<Rightarrow>
          (let message = final_message_for_turn (dget d ''thread'') turn strict in
           if message \<noteq> [] then (Inr message, w1)
           else if deadline \<le> cw_clock w1 then (Inr [], w1)
           else read_turn_back p c thread turn strict deadline
             (client_sleep p (min (nc_poll c) (deadline - cw_clock w1)) w1)))"
  by pat_completeness auto

termination
proof (relation "measure (\<lambda>(p, c, thread, turn, strict, deadline, w). nat (deadline - cw_clock w))", goal_cases)
  case (2 p c thread turn strict deadline w r w1 d message)
  then show ?case
    using read_back_step [OF 2(1) [symmetric], of deadline] by simp
qed simp

declare read_turn_back.simps [simp del]

definition wait_for_turn_readback ::
  "'e pipe \<Rightarrow> launcher_config \<Rightarrow> string \<Rightarrow> string \<Rightarrow> bool \<Rightarrow> ('e client_world, string) io" where
  "wait_for_turn_readback p c thread turn strict w =
     read_turn_back p c thread turn strict (cw_clock w + seconds (nc_readback_timeout c)) w"

section \<open>Running a turn of an existing thread\<close>

definition start_turn_with_model ::
  "'e pipe \<Rightarrow> launcher_config \<Rightarrow> string \<Rightarrow> string \<Rightarrow> string \<Rightarrow> string \<Rightarrow> string option \<Rightarrow> ('e client_world, pdict) io" where
  "start_turn_with_model p c thread prompt client_id model effort =
     io_bind (client_start_turn p c thread prompt client_id model effort) (\<lambda>started.
     let turn = py_str (dget started ''turn_id'') in
     io_bind (wait_for_turn_terminal p c thread turn) (\<lambda>completed.
     let status = text_or_empty (dget completed ''status'');
         err = dget completed ''error'' in
     io_then (io_check (status \<noteq> ''completed'') (CreationError (''native task turn ended with status ''
         @ str_repr status @ '': '' @ (if err = PNone then ''no error detail'' else json_text ('', '', '': '') err))
       (Some thread)))
     (io_bind (wait_for_turn_readback p c thread turn False) (\<lambda>message.
      io_return (dset (dset started ''turn_status'' (PStr status)) ''final_message'' (PStr message))))))"

text \<open>The lane binding of a prompt.\<close>

definition binding_marker :: string where
  "binding_marker = ''[Jarvis lane binding v1]''"

text \<open>Texts that are not ASCII, from the hexadecimal digits of their UTF-8 bytes.\<close>

definition hex_val :: "char \<Rightarrow> nat" where
  "hex_val c = (case digit_val c of Some n \<Rightarrow> n | None \<Rightarrow> of_char c - 87)"

fun hex_text :: "string \<Rightarrow> string" where
  "hex_text (a # b # s) = char_of (16 * hex_val a + hex_val b) # hex_text s"
| "hex_text _ = []"

fun split_at :: "string \<Rightarrow> string \<Rightarrow> string" where
  "split_at pat [] = []"
| "split_at pat (x # xs) = (if take (length pat) (x # xs) = pat then [] else x # split_at pat xs)"

text \<open>What is said to a worker of one item, and of a lane.\<close>

definition single_text :: string where
  "single_text = hex_text (''e4bba5e4b88b204a534f4e20e698afe69cace59b9ee59088e594afe4b880e4bbbbe58aa1e88c83e59bb4efbc8ce58faae5a484e790862063616e6469646174655f69647320e4b8ade79a84'' @
     ''e4b880e4b8aae4bbbbe58aa1e9a1b9e38082e69c80e7bb88e59b9ee5a48de58faae8be93e587bae4b89ae58aa1204a534f4eefbc9be4b88de58699e69687e4bbb6e38081e4b88de8bf90e8'' @
     ''a18ce694b6e5b0bee8849ae69cace38081e4b88de5a1abe586992051412fe59b9ee689a7e68896e8bf90e8a18ce8baabe4bbbde38082e58e9fe69687e380817061796c6f6164e380816361'' @
     ''6e6469646174655f69642f726571756573745f69642f7475726e5f6e756d62657220e5928ce6ada3e5bc8fe68ea5e694b6e59b9ee689a7e585a8e983a8e794b120486f6c64657220e4bf9d'' @
     ''e5ad98e4b88ee7bb91e5ae9ae38082e68ea5e694b6e4b88de4bba3e8a1a8e4b89ae58aa1e6a0b8e5ae9ee9809ae8bf87efbc9be7bcbae5ad97e6aeb5e38081e7bcbae69da5e6ba90e5928c'' @
     ''e9a29de5a496e4bfa1e681afe59d87e58fafe4bf9de79599e4be9be5a48de6a0b8e38082e6ada4e4baa4e4bb98e6a8a1e5bc8fe58f96e4bba3e58e86e58fb2e68f90e7a4bae68896e68a80'' @
     ''e883bde4b8ade79a84e58699e59b9ee4b88ee6b581e7a88be694b6e5b0bee8a681e6b182efbc9be4b88de8a681e9a284e58f96e68896e5a484e79086e585b6e4bb96e9a1b9e38082'')"

definition lane_text :: string where
  "lane_text = hex_text (''e4bba5e4b88b204a534f4e20e698afe5bd93e5898d20576f726b657220e59b9ee59088e594afe4b880e58581e8aeb8e5a484e79086e79a84e4bbbbe58aa1e88c83e59bb4efbc9b63616e64'' @
     ''69646174655f69647320e5bf85e9a1bbe4b894e58faae4bc9ae58c85e590abe4b880e5aeb6e585ace58fb8e38082e4bb85e68c892064617461626173655f7061746820e5928c206f757470'' @
     ''75745f626f756e6461727920e689a7e8a18cefbc9be5ae89e585a8e58699e59b9ee5908ee8be93e587bae7bb93e69e84e58c96e58d95e585ace58fb8e59b9ee689a7e5b9b6e7ad89e5be85'' @
     ''e4b88be4b880e59b9ee59088efbc8ce4b88de5be97e9818de58e86e38081e9a284e58f96e38081e5b9b6e8a18ce5a484e79086e68896e5aea3e7a7b0e695b4e69da1206c616e6520e5b7b2'' @
     ''e5ae8ce68890e38082'')"

definition append_lane_binding :: "string \<Rightarrow> pdict option \<Rightarrow> string" where
  "append_lane_binding prompt binding =
     (let text = py_strip prompt; d = (case binding of None \<Rightarrow> [] | Some d \<Rightarrow> d);
          tail = (\<lambda>t. [CHR 0x0A, CHR 0x0A] @ binding_marker @ [CHR 0x0A] @ t @ [CHR 0x0A] @ json_compact (PDict d)) in
      if d \<noteq> [] \<and> dget (as_dict (dget d ''result_verification'')) ''mode'' = PStr ''final_answer_json''
      then py_rstrip (split_at binding_marker text) @ tail single_text
      else if d = [] \<or> py_contains binding_marker text then text
      else text @ tail lane_text)"

record task_request =
  tq_prompt :: string
  tq_model :: "string option"
  tq_effort :: "string option"
  tq_binding :: "pdict option"

definition with_thread_lock :: "'e pipe \<Rightarrow> launcher_config \<Rightarrow> string \<Rightarrow> ('e client_world, 'a) io \<Rightarrow> ('e client_world, 'a) io" where
  "with_thread_lock p c thread m =
     io_then (cw_io (pi_lock p (pi_lock_path p thread) (seconds (nc_lock_timeout c))
       (seconds (nc_turn_timeout c + nc_readback_timeout c + 60))))
     (io_finally m (cw_io (pi_unlock p (pi_lock_path p thread))))"

definition chosen :: "string option \<Rightarrow> string option \<Rightarrow> string option" where
  "chosen a b = (case a of Some (x # xs) \<Rightarrow> a | _ \<Rightarrow> b)"

definition creation_failure :: "string option \<Rightarrow> pyexc \<Rightarrow> pyexc" where
  "creation_failure thread e = (if is_creation_error e then e else CreationError (exc_text e) thread)"

definition run_existing_task ::
  "'e pipe \<Rightarrow> launcher_config \<Rightarrow> string \<Rightarrow> task_request \<Rightarrow> string \<Rightarrow> string option \<Rightarrow> string option
    \<Rightarrow> ('e client_world, pdict) io" where
  "run_existing_task p c thread request client_id model effort =
     io_then (client_start p c)
     (io_catch (with_thread_lock p c thread (
        io_bind (select_model p c (chosen model (tq_model request))) (\<lambda>selected.
        io_then (client_request p c ''thread/resume'' [(''threadId'', PStr thread)])
        (start_turn_with_model p c thread (append_lane_binding (tq_prompt request) (tq_binding request)) client_id selected
          (case effort of None \<Rightarrow> tq_effort request | Some e \<Rightarrow> Some e)))))
      (\<lambda>e. io_raise (creation_failure (Some thread) e)))"

section \<open>Turns that are not waited for\<close>

type_synonym 'e phases = "string \<Rightarrow> pdict \<Rightarrow> ('e client_world, unit) io"

definition start_turn_async ::
  "'e pipe \<Rightarrow> launcher_config \<Rightarrow> 'e phases \<Rightarrow> string \<Rightarrow> string \<Rightarrow> string \<Rightarrow> string option \<Rightarrow> string option
    \<Rightarrow> pdict option \<Rightarrow> ('e client_world, pdict) io" where
  "start_turn_async p c phase thread prompt client_id model effort binding =
     io_then (phase ''app_server_initializing'' [])
     (io_then (client_start p c)
     (io_then (phase ''app_server_initialized'' [])
     (io_then (phase ''model_selecting'' [])
     (io_bind (select_model p c model) (\<lambda>selected.
      io_then (phase ''model_selected'' [(''model'', PStr selected)])
      (io_then (phase ''turn_starting'' [(''thread_id'', PStr thread)])
      (io_bind (client_start_turn p c thread (append_lane_binding prompt binding) client_id selected effort) (\<lambda>started.
       io_then (phase ''turn_started'' [(''thread_id'', PStr thread), (''turn_id'', PStr (py_str (dget started ''turn_id'')))])
       (io_return started)))))))))"

definition resume_turn_async ::
  "'e pipe \<Rightarrow> launcher_config \<Rightarrow> 'e phases \<Rightarrow> string \<Rightarrow> string \<Rightarrow> string \<Rightarrow> string option \<Rightarrow> string option
    \<Rightarrow> pdict option \<Rightarrow> ('e client_world, pdict) io" where
  "resume_turn_async p c phase thread prompt client_id model effort binding =
     io_then (client_start p c)
     (io_then (phase ''thread_resuming'' [(''thread_id'', PStr thread)])
     (io_then (client_request p c ''thread/resume'' [(''threadId'', PStr thread)])
     (io_then (phase ''thread_resumed'' [(''thread_id'', PStr thread)])
     (start_turn_async p c phase thread prompt client_id model effort binding))))"

definition required_text :: "pyval \<Rightarrow> string \<Rightarrow> string result" where
  "required_text v field = (if stripped v = [] then Inl (NativeError (field @ '' is required'')) else Inr (stripped v))"

text \<open>The part of \<open>create_task\<close> that knows the id of the new thread.\<close>

definition first_turn ::
  "'e pipe \<Rightarrow> launcher_config \<Rightarrow> 'e phases \<Rightarrow> pdict \<Rightarrow> string \<Rightarrow> string \<Rightarrow> string \<Rightarrow> string
    \<Rightarrow> ('e client_world, pdict) io" where
  "first_turn p c phase request title prompt request_id thread =
     io_then (phase ''thread_started'' [(''thread_id'', PStr thread)])
     (io_then (phase ''model_selecting'' [(''thread_id'', PStr thread)])
     (io_bind (select_model p c (optional_text (dget request ''model''))) (\<lambda>selected.
      io_then (phase ''model_selected'' [(''thread_id'', PStr thread), (''model'', PStr selected)])
      (io_then (phase ''turn_starting'' [(''thread_id'', PStr thread)])
      (io_bind (client_start_turn p c thread (append_lane_binding prompt
           (if is_dict (dget request ''input_binding'') then Some (as_dict (dget request ''input_binding'')) else None))
         request_id selected (optional_text (dget request ''reasoning_effort''))) (\<lambda>created.
       io_then (phase ''turn_started'' [(''thread_id'', PStr thread), (''turn_id'', PStr (py_str (dget created ''turn_id'')))])
       (io_return (dset (dset created ''thread_id'' (PStr thread)) ''title'' (PStr title)))))))))"

definition create_task ::
  "'e pipe \<Rightarrow> launcher_config \<Rightarrow> 'e phases \<Rightarrow> pdict \<Rightarrow> ('e client_world, pdict) io" where
  "create_task p c phase request =
     io_bind (io_lift (required_text (dget request ''project_path'') ''project_path'')) (\<lambda>project.
     io_bind (io_lift (required_text (dget request ''title'') ''title'')) (\<lambda>title.
     io_bind (io_lift (required_text (dget request ''prompt'') ''prompt'')) (\<lambda>prompt.
     io_bind (io_lift (required_text (dget request ''request_id'') ''request_id'')) (\<lambda>request_id.
     io_then (phase ''app_server_initializing'' [])
     (io_then (client_start p c)
     (io_then (phase ''app_server_initialized'' [])
     (io_bind (io_catch
        (io_then (phase ''thread_starting'' [])
        (client_request p c ''thread/start'' [(''cwd'', PStr project), (''ephemeral'', PBool False)]))
        (\<lambda>e. io_raise (creation_failure None e))) (\<lambda>started.
      let thread = id_of (dget started ''thread'') in
      io_then (io_check (thread = []) (CreationError ''thread/start response is missing thread.id'' None))
      (io_catch (first_turn p c phase request title prompt request_id thread)
        (\<lambda>e. io_raise (creation_failure (Some thread) e)))))))))))"

end
