(* ===== verification/App_Safety.thy ===== *)
theory App_Safety
  imports App_Client "HOL-Library.Multiset"
begin

text \<open>
  What the client of the App Server guarantees: a turn of an existing thread is started at most once
  and only under the lock of the thread, a task that is reported completed has the exact completion
  notification of the server, and no response of another request is lost.

  The laws are stated over a pipe that keeps a log of what passes through it.
\<close>

lemma io_catch_Inr:
  "io_catch m h w = (Inr y, w') \<longleftrightarrow> m w = (Inr y, w') \<or> (\<exists>e w1. m w = (Inl e, w1) \<and> h e w1 = (Inr y, w'))"
  by (auto simp: io_catch_def split: prod.splits sum.splits)

lemma io_finally_Inr:
  "io_finally m n w = (Inr y, w') \<longleftrightarrow> (\<exists>w1 u. m w = (Inr y, w1) \<and> n w1 = (Inr u, w'))"
  by (fastforce simp: io_finally_def split: prod.splits sum.splits)

section \<open>A pipe with a log\<close>

datatype pipe_event = Wrote pdict | Read pipe_line | Locked string | Unlocked string

definition logging :: "('a result \<Rightarrow> pipe_event list) \<Rightarrow> ('e, 'a) io \<Rightarrow> (pipe_event list \<times> 'e, 'a) io" where
  "logging f m w = (case w of (l, e) \<Rightarrow> (case m e of (r, e') \<Rightarrow> (r, (l @ f r, e'))))"

definition logged :: "'e pipe \<Rightarrow> (pipe_event list \<times> 'e) pipe" where
  "logged p = \<lparr> pi_spawn = (\<lambda>cmd home. logging (\<lambda>_. []) (pi_spawn p cmd home)), pi_alive = (\<lambda>w. pi_alive p (snd w)),
     pi_write = (\<lambda>v. logging (\<lambda>_. [Wrote v]) (pi_write p v)),
     pi_wait = (\<lambda>t (l, e). case pi_wait p t e of (n, ls, e') \<Rightarrow> (n, ls, (l @ map Read ls, e'))),
     pi_stderr = (\<lambda>w. pi_stderr p (snd w)), pi_kill = logging (\<lambda>_. []) (pi_kill p), pi_resolve = pi_resolve p,
     pi_lock = (\<lambda>path t s. logging (\<lambda>r. case r of Inl e \<Rightarrow> [] | Inr u \<Rightarrow> [Locked path]) (pi_lock p path t s)),
     pi_unlock = (\<lambda>path. logging (\<lambda>_. [Unlocked path]) (pi_unlock p path)), pi_lock_path = pi_lock_path p,
     pi_command = pi_command p, pi_cli_version = pi_cli_version p \<rparr>"

definition log_of :: "(pipe_event list \<times> 'e) client_world \<Rightarrow> pipe_event list" where
  "log_of w = fst (cw_env w)"

definition starts_turn :: "pipe_event \<Rightarrow> bool" where
  "starts_turn e \<longleftrightarrow> (case e of Wrote v \<Rightarrow> dget v ''method'' = PStr ''turn/start'' | _ \<Rightarrow> False)"

text \<open>Events of an operation that starts no turn and does not touch the lock.\<close>

definition calm_event :: "pipe_event \<Rightarrow> bool" where
  "calm_event e \<longleftrightarrow> (case e of Wrote v \<Rightarrow> dget v ''method'' \<noteq> PStr ''turn/start'' | Read l \<Rightarrow> True | _ \<Rightarrow> False)"

definition calm_closed :: "(pipe_event list \<Rightarrow> bool) \<Rightarrow> bool" where
  "calm_closed Q \<longleftrightarrow> (\<forall>l es. list_all calm_event es \<longrightarrow> Q l \<longrightarrow> Q (l @ es))"

lemma calm_Read [simp]: "list_all calm_event (map Read ls)"
  by (induction ls) (simp_all add: calm_event_def)

text \<open>What the client knows of the server, it has read; and an assertion on the log.\<close>

definition noted :: "(pipe_event list \<Rightarrow> bool) \<Rightarrow> (pipe_event list \<times> 'e) client_world \<Rightarrow> bool" where
  "noted Q w \<longleftrightarrow> Q (log_of w) \<and> (\<forall>v. Some v \<in> set (cw_notes w) \<longrightarrow> Read (Line (Some (PDict v))) \<in> set (log_of w))"

lemma noted_simps [simp]:
  "noted Q (w\<lparr> cw_next := n \<rparr>) = noted Q w" "noted Q (w\<lparr> cw_clock := t \<rparr>) = noted Q w"
  "noted Q (w\<lparr> cw_responses := rs \<rparr>) = noted Q w" "noted Q (w\<lparr> cw_open := b \<rparr>) = noted Q w"
  "noted Q (w\<lparr> cw_init := i \<rparr>) = noted Q w"
  by (simp_all add: noted_def log_of_def)

lemma noted_calm:
  assumes "calm_closed Q" "noted Q w" "cw_notes w' = cw_notes w" "log_of w' = log_of w @ es" "list_all calm_event es"
  shows "noted Q w'"
  using assms by (auto simp: noted_def calm_closed_def)

lemma read_line_env [simp]: "cw_env (read_line l w) = cw_env w"
  by (cases "(l, w)" rule: read_line.cases) simp_all

lemma read_lines_env [simp]: "cw_env (fold read_line ls w) = cw_env w"
  by (induction ls arbitrary: w) simp_all

lemma read_lines_notes:
  "Some v \<in> set (cw_notes (fold read_line ls w)) \<Longrightarrow> Some v \<in> set (cw_notes w) \<or> Line (Some (PDict v)) \<in> set ls"
proof (induction ls arbitrary: w)
  case (Cons l ls)
  have "Some v \<in> set (cw_notes (read_line l w)) \<Longrightarrow> Some v \<in> set (cw_notes w) \<or> Line (Some (PDict v)) = l"
    by (cases "(l, w)" rule: read_line.cases) (auto split: if_splits elim!: is_dict.elims)
  then show ?case using Cons by auto
qed simp

lemma noted_wait: "calm_closed Q \<Longrightarrow> noted Q w \<Longrightarrow> noted Q (client_wait (logged p) t w)"
  by (auto simp: client_wait_def logged_def noted_def log_of_def calm_closed_def split: prod.splits
      dest!: read_lines_notes)

lemma noted_take_response:
  "calm_closed Q \<Longrightarrow> noted Q w \<Longrightarrow> take_response (logged p) t w = (x, w') \<Longrightarrow> noted Q w'"
  using noted_wait [of Q w p t] by (auto simp: take_response_def Let_def split: if_splits list.splits)

lemma noted_take_note:
  "calm_closed Q \<Longrightarrow> noted Q w \<Longrightarrow> take_note (logged p) t w = (x, w') \<Longrightarrow>
   noted Q w' \<and> (\<forall>v. x = Some (Some v) \<longrightarrow> Read (Line (Some (PDict v))) \<in> set (log_of w'))"
  using noted_wait [of Q w p t]
  by (auto simp: take_note_def Let_def noted_def log_of_def split: if_splits list.splits)

lemma noted_await:
  "await_response (logged p) rid deadline deferred w = (x, d, w') \<Longrightarrow> calm_closed Q \<Longrightarrow> noted Q w \<Longrightarrow> noted Q w'"
proof (induction "logged p" rid deadline deferred w rule: await_response.induct)
  case (1 rid deadline deferred w)
  show ?case
  proof (cases "deadline \<le> cw_clock w")
    case True
    then show ?thesis using "1.prems" by (simp add: await_response.simps)
  next
    case False
    obtain y w1 where take: "take_response (logged p) (max (deadline - cw_clock w) 50000) w = (y, w1)" by fastforce
    have n: "noted Q w1" using noted_take_response [OF "1.prems"(2,3) take] .
    show ?thesis
    proof (cases y)
      case None
      then show ?thesis using "1.hyps"(1) [OF False take [symmetric]] "1.prems" n False take
        by (simp add: await_response.simps [of "logged p" rid deadline deferred w])
    next
      case (Some item)
      then show ?thesis using "1.hyps"(2) [OF False take [symmetric], of item] "1.prems" n False take
        by (auto simp: await_response.simps [of "logged p" rid deadline deferred w] split: if_splits)
    qed
  qed
qed

section \<open>Operations that start no turn\<close>

named_theorems quiet_rules "the operations that start no turn"

lemma noted_logging:
  fixes m :: "('e, 'a) io"
  assumes "calm_closed Q" "\<And>r. list_all calm_event (f r)"
  shows "io_keeps (noted Q) (cw_io (logging f m))"
proof (rule io_keepsI)
  fix w :: "(pipe_event list \<times> 'e) client_world" assume w: "noted Q w"
  obtain r e where m: "m (snd (cw_env w)) = (r, e)" by fastforce
  have "noted Q (w\<lparr> cw_env := (log_of w @ f r, e) \<rparr>)"
    by (rule noted_calm [OF assms(1) w, where es = "f r"]) (simp_all add: assms(2) log_of_def)
  then show "noted Q (snd (cw_io (logging f m) w))"
    using m by (cases "cw_env w") (simp add: cw_io_def logging_def log_of_def)
qed

lemma noted_write:
  "calm_closed Q \<Longrightarrow> dget v ''method'' \<noteq> PStr ''turn/start'' \<Longrightarrow> io_keeps (noted Q) (client_write (logged p) v)"
  unfolding client_write_def
  by (intro io_rules) (simp add: logged_def noted_logging calm_event_def)

lemma noted_request [quiet_rules]:
  fixes p :: "'e pipe"
  assumes "calm_closed Q" "m \<noteq> ''turn/start''"
  shows "io_keeps (noted Q) (client_request (logged p) c m params)"
proof (rule io_keepsI)
  fix w :: "(pipe_event list \<times> 'e) client_world" assume w: "noted Q w"
  have keep: "io_keeps (noted Q) (client_write (logged p) (client_object n m params))" for n
    using assms by (intro noted_write) (simp_all add: client_object_def)
  obtain r w' where r: "client_request (logged p) c m params w = (r, w')" by fastforce
  then have "noted Q w'"
  proof (cases rule: client_request_cases)
    case (1 e)
    then show ?thesis using io_keepsD [OF keep, of "w\<lparr>cw_next := cw_next w + 1\<rparr>"] w by simp
  next
    case (2 u w1 found deferred w2)
    have "noted Q w1" using io_keepsD [OF keep, of "w\<lparr>cw_next := cw_next w + 1\<rparr>"] 2(1) w by simp
    then have "noted Q w2" using noted_await [OF 2(2) assms(1)] by blast
    then show ?thesis using 2(3) by simp
  qed
  then show "noted Q (snd (client_request (logged p) c m params w))" using r by simp
qed

lemma noted_notify [quiet_rules]: "calm_closed Q \<Longrightarrow> m \<noteq> ''turn/start'' \<Longrightarrow> io_keeps (noted Q) (client_notify (logged p) m)"
  unfolding client_notify_def by (rule noted_write) simp_all

lemma noted_silent: "calm_closed Q \<Longrightarrow> io_keeps (noted Q) (cw_io (logging (\<lambda>_. []) m))"
  by (simp add: noted_logging)

lemma noted_close [quiet_rules]: "calm_closed Q \<Longrightarrow> io_keeps (noted Q) (client_close (logged p))"
  unfolding client_close_def by (intro io_rules) (simp_all add: logged_def noted_silent)

lemma noted_start [quiet_rules]: "calm_closed Q \<Longrightarrow> io_keeps (noted Q) (client_start (logged p) c)"
  unfolding client_start_def Let_def
  by (intro io_rules quiet_rules) (simp_all add: logged_def noted_silent)

lemma noted_models [quiet_rules]: "calm_closed Q \<Longrightarrow> io_keeps (noted Q) (available_models (logged p) c)"
  unfolding available_models_def Let_def by (intro io_rules quiet_rules) simp_all

lemma noted_select [quiet_rules]: "calm_closed Q \<Longrightarrow> io_keeps (noted Q) (select_model (logged p) c requested)"
  unfolding select_model_def Let_def
  by (cases requested; cases "the requested") (auto intro!: io_rules quiet_rules)

lemma noted_sleep: "calm_closed Q \<Longrightarrow> noted Q w \<Longrightarrow> noted Q (client_sleep (logged p) t w)"
  by (simp add: client_sleep_def Let_def noted_wait)

lemma noted_read_back:
  "read_turn_back (logged p) c thread turn strict deadline w = (r, w') \<Longrightarrow> calm_closed Q \<Longrightarrow> noted Q w \<Longrightarrow> noted Q w'"
proof (induction "logged p" c thread turn strict deadline w arbitrary: r w' rule: read_turn_back.induct)
  case (1 c thread turn strict deadline w)
  obtain x w1 where x: "client_request (logged p) c ''thread/read'' [(''threadId'', PStr thread), (''includeTurns'', PBool True)] w = (x, w1)"
    by fastforce
  have n: "noted Q w1" using io_keepsD [OF noted_request [OF "1.prems"(2)] "1.prems"(3) x] by simp
  show ?case
  proof (cases x)
    case (Inl e)
    then show ?thesis using "1.prems"(1) x n by (simp add: read_turn_back.simps [of "logged p" c thread turn strict deadline w])
  next
    case (Inr d)
    show ?thesis
    proof (cases "final_message_for_turn (dget d ''thread'') turn strict \<noteq> [] \<or> deadline \<le> cw_clock w1")
      case True
      then show ?thesis using "1.prems"(1) x n Inr
        by (auto simp: read_turn_back.simps [of "logged p" c thread turn strict deadline w] Let_def split: if_splits)
    next
      case False
      then show ?thesis
        using "1.hyps" [OF x [symmetric] Inr refl] "1.prems" x Inr
          noted_sleep [OF "1.prems"(2) n, of p "min (nc_poll c) (deadline - cw_clock w1)"]
        by (simp add: read_turn_back.simps [of "logged p" c thread turn strict deadline w])
    qed
  qed
qed

lemma noted_wait_readback [quiet_rules]:
  "calm_closed Q \<Longrightarrow> io_keeps (noted Q) (wait_for_turn_readback (logged p) c thread turn strict)"
  unfolding io_keeps_def wait_for_turn_readback_def using noted_read_back by (metis prod.collapse)

lemma noted_true_write: "io_keeps (noted (\<lambda>_. True)) (client_write (logged p) v)"
  unfolding client_write_def
  by (intro io_rules) (auto simp: io_keeps_def logged_def logging_def cw_io_def noted_def log_of_def split: prod.splits)

lemma turn_start_noted:
  fixes w :: "(pipe_event list \<times> 'e) client_world"
  assumes "client_request (logged p) c m params w = (r, w')" "noted (\<lambda>_. True) w"
  shows "noted (\<lambda>_. True) w'"
  using assms(1)
proof (cases rule: client_request_cases)
  case (1 e)
  then show ?thesis using io_keepsD [OF noted_true_write, of "w\<lparr>cw_next := cw_next w + 1\<rparr>"] assms(2) by simp
next
  case (2 u w1 found deferred w2)
  have "noted (\<lambda>_. True) w1" using io_keepsD [OF noted_true_write, of "w\<lparr>cw_next := cw_next w + 1\<rparr>"] 2(1) assms(2) by simp
  then show ?thesis using noted_await [OF 2(2)] 2(3) by (simp add: calm_closed_def)
qed

section \<open>Waiting for the completion of a turn\<close>

lemma turn_wait_returns:
  "\<exists>r w'. wait_terminal p c None (Some deadline) thread turn w = Some (r, w') \<and>
     (\<forall>t. r = Inr t \<longrightarrow> (\<exists>item. completed_turn thread turn item = Some t)) \<and>
     (\<forall>e. r = Inl e \<longrightarrow> (\<exists>m. e = CreationError m (Some thread)))"
proof (induction "nat (deadline - cw_clock w)" arbitrary: w rule: less_induct)
  case less
  note eq = wait_terminal.simps [of p c None "Some deadline" thread turn w]
  show ?case
  proof (cases "deadline \<le> cw_clock w")
    case True
    then show ?thesis by (simp add: eq)
  next
    case False
    obtain x w1 where take: "take_note p (wait_slice c False (Some deadline) (cw_clock w)) w = (x, w1)" by fastforce
    have "nat (deadline - cw_clock w1) < nat (deadline - cw_clock w)"
      using take_note_clock [OF take] False by simp
    note IH = less [OF this]
    show ?thesis using IH take False by (auto simp: eq split: option.splits)
  qed
qed


lemma wait_noted:
  assumes "calm_closed Q" "noted Q w" "wait_terminal (logged p) c None (Some deadline) thread turn w = Some (r, w')"
  shows "noted Q w' \<and> (\<forall>t. r = Inr t \<longrightarrow> (\<exists>v. Read (Line (Some (PDict v))) \<in> set (log_of w') \<and> completed_turn thread turn v = Some t))"
  using assms(2,3)
proof (induction "nat (deadline - cw_clock w)" arbitrary: w rule: less_induct)
  case less
  note eq = wait_terminal.simps [of "logged p" c None "Some deadline" thread turn w]
  show ?case
  proof (cases "deadline \<le> cw_clock w")
    case True
    then show ?thesis using less.prems by (auto simp: eq)
  next
    case False
    obtain x w1 where take: "take_note (logged p) (wait_slice c False (Some deadline) (cw_clock w)) w = (x, w1)" by fastforce
    have smaller: "nat (deadline - cw_clock w1) < nat (deadline - cw_clock w)"
      using take_note_clock [OF take] False by simp
    have n: "noted Q w1" "\<forall>v. x = Some (Some v) \<longrightarrow> Read (Line (Some (PDict v))) \<in> set (log_of w1)"
      using noted_take_note [OF assms(1) less.prems(1) take] by blast+
    show ?thesis using less.hyps [OF smaller n(1)] less.prems(2) n take False by (auto simp: eq split: option.splits)
  qed
qed

lemma wait_for_turn_noted:
  assumes "calm_closed Q" "noted Q w" "wait_for_turn_terminal (logged p) c thread turn w = (r, w')"
  shows "noted Q w' \<and> (\<forall>t. r = Inr t \<longrightarrow> (\<exists>v. Read (Line (Some (PDict v))) \<in> set (log_of w') \<and> completed_turn thread turn v = Some t))"
proof -
  obtain r1 w1 where "wait_terminal (logged p) c None (Some (cw_clock w + seconds (nc_turn_timeout c))) thread turn w = Some (r1, w1)"
    using turn_wait_returns by blast
  then show ?thesis using wait_noted [OF assms(1,2)] assms(3) by (auto simp: wait_for_turn_terminal_def)
qed

lemma noted_wait_turn [quiet_rules]:
  "calm_closed Q \<Longrightarrow> io_keeps (noted Q) (wait_for_turn_terminal (logged p) c thread turn)"
  unfolding io_keeps_def using wait_for_turn_noted by (metis prod.collapse)

section \<open>One turn under the lock\<close>

definition starts :: "pipe_event list \<Rightarrow> nat" where
  "starts l = length (filter starts_turn l)"

lemma starts_simps [simp]: "starts [] = 0" "starts (l @ l') = starts l + starts l'"
  "starts (e # l) = (if starts_turn e then 1 else 0) + starts l"
  by (simp_all add: starts_def)

lemma calm_starts: "list_all calm_event l \<Longrightarrow> starts l = 0"
  by (induction l) (auto simp: calm_event_def starts_turn_def split: pipe_event.splits)

text \<open>Before the lock is taken, under the lock with at most \<open>n\<close> turns started, and at the end.\<close>

definition unstarted :: "pipe_event list \<Rightarrow> bool" where
  "unstarted l \<longleftrightarrow> starts l = 0"

definition held_lock :: "string \<Rightarrow> nat \<Rightarrow> pipe_event list \<Rightarrow> bool" where
  "held_lock path n l \<longleftrightarrow> (\<exists>as bs. l = as @ Locked path # bs \<and> starts as = 0 \<and> Unlocked path \<notin> set bs \<and> starts bs \<le> n)"

definition one_locked_turn :: "string \<Rightarrow> pipe_event list \<Rightarrow> bool" where
  "one_locked_turn path l \<longleftrightarrow> starts l = 0 \<or>
     (\<exists>as bs. l = as @ Locked path # bs @ [Unlocked path] \<and> starts as = 0 \<and> Unlocked path \<notin> set bs \<and> starts bs \<le> 1)"

lemma closed_unstarted [simp]: "calm_closed unstarted"
  by (simp add: calm_closed_def unstarted_def calm_starts)

lemma calm_no_unlock: "list_all calm_event l \<Longrightarrow> Unlocked path \<notin> set l"
  by (auto simp: list_all_iff calm_event_def)

lemma closed_locked [simp]: "calm_closed (held_lock path n)"
proof (unfold calm_closed_def, intro allI impI)
  fix l es assume es: "list_all calm_event es" and "held_lock path n l"
  then obtain as bs where "l = as @ Locked path # bs" "starts as = 0" "Unlocked path \<notin> set bs" "starts bs \<le> n"
    by (auto simp: held_lock_def)
  then show "held_lock path n (l @ es)"
    unfolding held_lock_def using calm_starts [OF es] calm_no_unlock [OF es]
    by (intro exI [of _ as] exI [of _ "bs @ es"]) simp
qed

lemma closed_true [simp]: "calm_closed (\<lambda>_. True)"
  by (simp add: calm_closed_def)

lemma noted_mono: "(\<And>l. Q l \<Longrightarrow> R l) \<Longrightarrow> noted Q w \<Longrightarrow> noted R w"
  by (simp add: noted_def)

lemma locked_mono: "held_lock path n l \<Longrightarrow> n \<le> m \<Longrightarrow> held_lock path m l"
  unfolding held_lock_def by (metis le_trans)

lemma locked_fresh: "unstarted l \<Longrightarrow> held_lock path 0 (l @ [Locked path])"
  unfolding held_lock_def unstarted_def by (intro exI [of _ l] exI [of _ "[]"]) simp

lemma locked_one_turn: "held_lock path 1 l \<Longrightarrow> one_locked_turn path (l @ [Unlocked path])"
  by (auto simp: held_lock_def one_locked_turn_def)

text \<open>The request that starts the turn.\<close>

lemma locked_start: "starts_turn e \<Longrightarrow> held_lock path 0 l \<Longrightarrow> held_lock path 1 (l @ [e])"
proof -
  assume e: "starts_turn e" and "held_lock path 0 l"
  then obtain as bs where "l = as @ Locked path # bs" "starts as = 0" "Unlocked path \<notin> set bs" "starts bs = 0"
    by (auto simp: held_lock_def)
  then show "held_lock path 1 (l @ [e])"
    unfolding held_lock_def using e by (intro exI [of _ as] exI [of _ "bs @ [e]"]) (auto simp: starts_turn_def)
qed

lemma turn_write:
  fixes w w' :: "(pipe_event list \<times> 'e) client_world"
  assumes "noted (held_lock path 0) w" "client_write (logged p) v w = (x, w')" "dget v ''method'' = PStr ''turn/start''"
  shows "noted (held_lock path 1) w'"
proof -
  have "log_of w' = log_of w \<or> log_of w' = log_of w @ [Wrote v]" "cw_notes w' = cw_notes w"
    using assms(2) by (auto simp: client_write_def io_bind_def io_then_def cw_io_def logged_def logging_def log_of_def
        split: if_splits prod.splits)
  moreover have "held_lock path 1 (log_of w)" "held_lock path 1 (log_of w @ [Wrote v])"
    using assms(1,3) locked_start [of "Wrote v" path "log_of w"] locked_mono [of path 0 "log_of w" 1]
    by (auto simp: noted_def starts_turn_def)
  ultimately show ?thesis using assms(1) by (auto simp: noted_def)
qed

lemma turn_request:
  fixes p :: "'e pipe"
  assumes "noted (held_lock path 0) w" "client_request (logged p) c ''turn/start'' params w = (r, w')"
  shows "noted (held_lock path 1) w'"
proof -
  have start: "noted (held_lock path 0) (w\<lparr> cw_next := cw_next w + 1 \<rparr>)" using assms(1) by simp
  have m: "dget (client_object n ''turn/start'' params) ''method'' = PStr ''turn/start''" for n
    by (simp add: client_object_def)
  from assms(2) show ?thesis
  proof (cases rule: client_request_cases)
    case (1 e)
    then show ?thesis using turn_write [OF start _ m] by blast
  next
    case (2 u w1 found deferred w2)
    have "noted (held_lock path 1) w1" using turn_write [OF start 2(1) m] .
    then have "noted (held_lock path 1) w2" using noted_await [OF 2(2)] by simp
    then show ?thesis using 2(3) by simp
  qed
qed

lemma start_turn_locked:
  assumes "noted (held_lock path 0) w" "client_start_turn (logged p) c thread prompt client_id model effort w = (r, w')"
  shows "noted (held_lock path 1) w'"
proof -
  obtain x w1 where x: "client_request (logged p) c ''turn/start'' (turn_params thread prompt client_id model effort) w = (x, w1)"
    by fastforce
  have "noted (held_lock path 1) w1" using turn_request [OF assms(1) x] .
  then show ?thesis
    using assms(2) x by (cases x) (auto simp: client_start_turn_def Let_def io_then_def io_bind_def split: if_splits)
qed

lemma turn_with_model_locked:
  "io_from (noted (held_lock path 0)) (start_turn_with_model (logged p) c thread prompt client_id model effort) (noted (held_lock path 1))"
  unfolding start_turn_with_model_def Let_def
proof (rule io_from_bind [where R = "noted (held_lock path 1)"])
  show "io_from (noted (held_lock path 0)) (client_start_turn (logged p) c thread prompt client_id model effort) (noted (held_lock path 1))"
    unfolding io_from_def using start_turn_locked by (metis prod.collapse)
qed (auto simp: io_keeps_from [symmetric] intro!: io_rules quiet_rules)

lemma locked_task:
  "io_from (noted (held_lock path 0))
     (io_bind (select_model (logged p) c m) (\<lambda>selected.
        io_then (client_request (logged p) c ''thread/resume'' params)
        (start_turn_with_model (logged p) c thread prompt client_id selected effort)))
     (noted (held_lock path 1))"
proof -
  have up: "noted (held_lock path 0) w \<Longrightarrow> noted (held_lock path 1) w" for w :: "(pipe_event list \<times> 'e) client_world"
    by (rule noted_mono) (auto intro: locked_mono)
  show ?thesis
    by (intro io_from_bind [where R = "noted (held_lock path 0)"] io_from_then [where R = "noted (held_lock path 0)"]
          io_from_keeps [where Q = "noted (held_lock path 0)"] turn_with_model_locked quiet_rules up) simp_all
qed

lemma lock_taken:
  assumes "noted unstarted w" "cw_io (pi_lock (logged p) path t s) w = (r, w')"
  shows "case r of Inl e \<Rightarrow> noted unstarted w' | Inr u \<Rightarrow> noted (held_lock path 0) w'"
  using assms
  by (auto simp: cw_io_def logged_def logging_def noted_def log_of_def locked_fresh split: prod.splits sum.splits)

lemma lock_given:
  assumes "noted (held_lock path 1) w" "cw_io (pi_unlock (logged p) path) w = (r, w')"
  shows "noted (one_locked_turn path) w'"
  using assms locked_one_turn [of path "log_of w"]
  by (auto simp: cw_io_def logged_def logging_def noted_def log_of_def split: prod.splits)

lemma unstarted_fine: "noted unstarted w \<Longrightarrow> noted (one_locked_turn path) w"
  by (erule noted_mono [rotated]) (simp add: unstarted_def one_locked_turn_def)

text \<open>
  C18: A turn of an existing thread is started at most once, and under the lock of its thread: whatever
  the server, the process and the lock do, the client sends at most one \<open>turn/start\<close> for a task, after
  it took the lock of the thread and before it gives it back.
\<close>

theorem one_turn_per_task:
  assumes "run_existing_task (logged p) c thread request client_id model effort (new_client clock ([], e)) = (r, w')"
  shows "one_locked_turn (pi_lock_path p thread) (fst (cw_env w'))"
proof -
  let ?path = "pi_lock_path p thread" and ?w = "new_client clock ([], e)"
  have path: "pi_lock_path (logged p) thread = ?path" by (simp add: logged_def)
  have start: "noted unstarted ?w" by (simp add: noted_def log_of_def new_client_def unstarted_def)
  obtain x w1 where x: "client_start (logged p) c ?w = (x, w1)" by fastforce
  have w1: "noted unstarted w1" using io_keepsD [OF noted_start start x] by simp
  show ?thesis
  proof (cases x)
    case (Inl err)
    then show ?thesis using assms x unstarted_fine [OF w1, of ?path] by (simp add: run_existing_task_def noted_def log_of_def)
  next
    case (Inr d)
    obtain y w2 where y: "cw_io (pi_lock (logged p) ?path (seconds (nc_lock_timeout c))
       (seconds (nc_turn_timeout c + nc_readback_timeout c + 60))) w1 = (y, w2)" by fastforce
    note lock = lock_taken [OF w1 y]
    show ?thesis
    proof (cases y)
      case (Inl err)
      then show ?thesis using assms x Inr y lock unstarted_fine [of w2 ?path]
        by (simp add: run_existing_task_def with_thread_lock_def path io_catch_def noted_def log_of_def)
    next
      case u: (Inr u)
      let ?m = "io_bind (select_model (logged p) c (chosen model (tq_model request))) (\<lambda>selected.
        io_then (client_request (logged p) c ''thread/resume'' [(''threadId'', PStr thread)])
        (start_turn_with_model (logged p) c thread (append_lane_binding (tq_prompt request) (tq_binding request)) client_id selected
          (case effort of None \<Rightarrow> tq_effort request | Some e \<Rightarrow> Some e)))"
      obtain z w3 where z: "?m w2 = (z, w3)" by fastforce
      have "noted (held_lock ?path 1) w3" using io_fromD [OF locked_task _ z] lock u by simp
      moreover obtain v w4 where v: "cw_io (pi_unlock (logged p) ?path) w3 = (v, w4)" by fastforce
      ultimately have "noted (one_locked_turn ?path) w4" using lock_given by blast
      moreover have "w' = w4"
        using assms x Inr y u z v
        by (cases v; cases z) (simp_all add: run_existing_task_def with_thread_lock_def path io_catch_def io_finally_def)
      ultimately show ?thesis by (simp add: noted_def log_of_def)
    qed
  qed
qed

section \<open>A completed task\<close>

text \<open>The notification was read and says that this turn of this thread completed.\<close>

definition completion_read :: "string \<Rightarrow> pdict \<Rightarrow> pipe_event list \<Rightarrow> bool" where
  "completion_read thread d l \<longleftrightarrow> dget d ''turn_status'' = PStr ''completed'' \<and>
     (\<exists>v t. Read (Line (Some (PDict v))) \<in> set l \<and> completed_turn thread (py_str (dget d ''turn_id'')) v = Some t \<and>
        text_or_empty (dget t ''status'') = ''completed'')"

lemma turn_with_model_completes:
  assumes "start_turn_with_model (logged p) c thread prompt client_id model effort w = (Inr d, w')" "noted (\<lambda>_. True) w"
  shows "completion_read thread d (log_of w')"
proof -
  obtain started w1 completed w2 message where
    one: "client_start_turn (logged p) c thread prompt client_id model effort w = (Inr started, w1)" and
    two: "wait_for_turn_terminal (logged p) c thread (py_str (dget started ''turn_id'')) w1 = (Inr completed, w2)" and
    ok: "text_or_empty (dget completed ''status'') = ''completed''" and
    three: "wait_for_turn_readback (logged p) c thread (py_str (dget started ''turn_id'')) False w2 = (Inr message, w')" and
    d: "d = dset (dset started ''turn_status'' (PStr (text_or_empty (dget completed ''status'')))) ''final_message'' (PStr message)"
    using assms(1) by (auto simp: start_turn_with_model_def Let_def io_bind_Inr io_then_Inr split: if_splits)
  have "noted (\<lambda>_. True) w1"
  proof -
    obtain r w0 where "client_request (logged p) c ''turn/start'' (turn_params thread prompt client_id model effort) w = (r, w0)"
      by fastforce
    then have "noted (\<lambda>_. True) w0 \<and> w1 = w0"
      using one turn_start_noted assms(2) by (auto simp: client_start_turn_def Let_def io_bind_Inr io_then_Inr)
    then show ?thesis by simp
  qed
  then obtain v where v: "Read (Line (Some (PDict v))) \<in> set (log_of w2)"
      "completed_turn thread (py_str (dget started ''turn_id'')) v = Some completed" and n: "noted (\<lambda>_. True) w2"
    using wait_for_turn_noted [OF closed_true _ two] by blast
  have "noted (\<lambda>l. Read (Line (Some (PDict v))) \<in> set l) w2" using v n by (simp add: noted_def)
  then have "noted (\<lambda>l. Read (Line (Some (PDict v))) \<in> set l) w'"
    using io_keepsD [OF noted_wait_readback _ three] by (simp add: calm_closed_def)
  then show ?thesis using v(2) ok by (auto simp: completion_read_def d noted_def)
qed


section \<open>Responses\<close>

lemma client_write_parts:
  "client_write p v w = (r, w') \<Longrightarrow> cw_responses w' = cw_responses w \<and> cw_next w' = cw_next w"
  by (auto simp: client_write_def io_then_def io_bind_def cw_io_def split: if_splits prod.splits)

lemma read_lines_next [simp]: "cw_next (fold read_line ls w) = cw_next w"
proof (induction ls arbitrary: w)
  case (Cons l ls)
  have "cw_next (read_line l w) = cw_next w" by (cases "(l, w)" rule: read_line.cases) simp_all
  then show ?case using Cons by simp
qed simp

lemma take_response_next: "take_response p t w = (x, w') \<Longrightarrow> cw_next w' = cw_next w"
  by (auto simp: take_response_def Let_def client_wait_def split: if_splits list.splits prod.splits)

lemma await_response_next: "await_response p rid deadline deferred w = (x, d, w') \<Longrightarrow> cw_next w' = cw_next w"
proof (induction p rid deadline deferred w rule: await_response.induct)
  case (1 p rid deadline deferred w)
  show ?case
  proof (cases "deadline \<le> cw_clock w")
    case True
    then show ?thesis using "1.prems" by (simp add: await_response.simps)
  next
    case False
    obtain y w1 where take: "take_response p (max (deadline - cw_clock w) 50000) w = (y, w1)" by fastforce
    then show ?thesis
      using take_response_next [OF take] "1.IH" [OF False take [symmetric]] "1.prems" False
      by (cases y) (auto simp: await_response.simps [of p rid deadline deferred w] split: if_splits)
  qed
qed

definition others :: "int \<Rightarrow> pdict list \<Rightarrow> pdict multiset" where
  "others rid items = mset (filter (\<lambda>i. \<not> py_eq (dget i ''id'') (PInt rid)) items)"

lemma others_append [simp]: "others rid (xs @ ys) = others rid xs + others rid ys"
  by (simp add: others_def)

lemma read_line_responses: "\<exists>more. cw_responses (read_line l w) = cw_responses w @ more"
  by (cases "(l, w)" rule: read_line.cases) auto

lemma read_lines_responses: "\<exists>more. cw_responses (fold read_line ls w) = cw_responses w @ more"
proof (induction ls arbitrary: w)
  case (Cons l ls)
  obtain m1 where "cw_responses (read_line l w) = cw_responses w @ m1" using read_line_responses by blast
  moreover obtain m2 where "cw_responses (fold read_line ls (read_line l w)) = cw_responses (read_line l w) @ m2"
    using Cons by blast
  ultimately show ?case by simp
qed simp

lemma wait_responses: "\<exists>more. cw_responses (client_wait p t w) = cw_responses w @ more"
proof (cases "pi_wait p t (cw_env w)")
  case (fields n ls e)
  then show ?thesis
    using read_lines_responses [of ls "w\<lparr> cw_env := e, cw_clock := cw_clock w + 1 + int n \<rparr>"] by (simp add: client_wait_def)
qed

lemma take_response_items:
  assumes "take_response p t w = (x, w')"
  shows "\<exists>more. (case x of None \<Rightarrow> [] | Some item \<Rightarrow> [item]) @ cw_responses w' = cw_responses w @ more"
proof -
  obtain more where "cw_responses (client_wait p t w) = cw_responses w @ more" using wait_responses by blast
  then show ?thesis using assms by (cases "cw_responses w") (auto simp: take_response_def Let_def split: list.splits)
qed

lemma await_response_items:
  "await_response p rid deadline deferred w = (x, d, w') \<Longrightarrow>
   others rid (deferred @ cw_responses w) \<subseteq># others rid (d @ cw_responses w')"
proof (induction p rid deadline deferred w rule: await_response.induct)
  case (1 p rid deadline deferred w)
  show ?case
  proof (cases "deadline \<le> cw_clock w")
    case True
    then show ?thesis using "1.prems" by (simp add: await_response.simps)
  next
    case False
    obtain y w1 where take: "take_response p (max (deadline - cw_clock w) 50000) w = (y, w1)" by fastforce
    obtain more where more: "(case y of None \<Rightarrow> [] | Some item \<Rightarrow> [item]) @ cw_responses w1 = cw_responses w @ more"
      using take_response_items [OF take] by blast
    have eq: "others rid (cw_responses w) + others rid more =
        others rid (case y of None \<Rightarrow> [] | Some item \<Rightarrow> [item]) + others rid (cw_responses w1)"
      using arg_cong [OF more, of "others rid"] by simp
    show ?thesis
    proof (cases y)
      case None
      have "others rid (deferred @ cw_responses w1) \<subseteq># others rid (d @ cw_responses w')"
        using "1.IH"(1) [OF False take [symmetric] None] "1.prems" False take None
        by (simp add: await_response.simps [of p rid deadline deferred w])
      moreover have "others rid (cw_responses w) \<subseteq># others rid (cw_responses w1)"
        using eq None by (metis list.simps(8) mset_subset_eq_add_left others_append option.simps(4) append_Nil)
      ultimately show ?thesis by (simp add: subset_mset.add_left_mono subset_mset.order_trans [rotated])
    next
      case (Some item)
      show ?thesis
      proof (cases "py_eq (dget item ''id'') (PInt rid)")
        case True
        then have "d = deferred" "w' = w1" using "1.prems" False take Some
          by (auto simp: await_response.simps [of p rid deadline deferred w])
        moreover have "others rid (cw_responses w) \<subseteq># others rid (cw_responses w1)"
          using eq Some True by (simp add: others_def) (metis mset_subset_eq_add_left)
        ultimately show ?thesis by (simp add: subset_mset.add_left_mono)
      next
        case other: False
        have IH: "others rid ((deferred @ [item]) @ cw_responses w1) \<subseteq># others rid (d @ cw_responses w')"
          using "1.IH"(2) [OF False take [symmetric] Some] "1.prems" False take Some other
          by (simp add: await_response.simps [of p rid deadline deferred w])
        have "others rid (cw_responses w) \<subseteq># others rid [item] + others rid (cw_responses w1)"
          using eq Some by (metis mset_subset_eq_add_left option.simps(5))
        then have "others rid (deferred @ cw_responses w) \<subseteq># others rid ((deferred @ [item]) @ cw_responses w1)"
          unfolding others_append add.assoc by (rule subset_mset.add_left_mono)
        then show ?thesis using IH by (rule subset_mset.order_trans)
      qed
    qed
  qed
qed

text \<open>
  C21: No response is lost: a request keeps every queued response that is not its own, whether it
  finds its response, fails or times out.
\<close>

theorem responses_not_lost:
  assumes "client_request p c m params w = (r, w')"
  shows "others (cw_next w + 1) (cw_responses w) \<subseteq># others (cw_next w + 1) (cw_responses w') \<and> cw_next w' = cw_next w + 1"
  using assms
proof (cases rule: client_request_cases)
  case (1 e)
  then show ?thesis using client_write_parts [OF 1(2)] by simp
next
  case (2 u w1 found deferred w2)
  have "cw_responses w1 = cw_responses w" "cw_next w1 = cw_next w + 1" using client_write_parts [OF 2(1)] by simp_all
  moreover have "cw_next w2 = cw_next w1" using await_response_next [OF 2(2)] .
  ultimately show ?thesis using await_response_items [OF 2(2)] 2(3) by (simp add: add.commute)
qed

text \<open>
  A request of the server to the client has an \<open>id\<close> as well, and the numbers of the two sides are
  not kept apart: a queued request of the server with the next number is taken for the response.
\<close>

theorem server_request_taken_as_response:
  assumes "cw_open w" "pi_alive p (cw_env w)" "fst (pi_write p (client_object (cw_next w + 1) m params) (cw_env w)) = Inr ()"
    "cw_responses w = [[(''id'', PInt (cw_next w + 1)), (''method'', PStr ''item/requestApproval''), (''params'', PDict [])]]"
    "0 < nc_request_timeout c"
  shows "fst (client_request p c m params w) = Inr [(''result'', PNone)]"
  using assms
  by (auto simp: client_request_def Let_def client_write_def io_bind_def io_then_def cw_io_def await_response.simps [of p]
      take_response_def response_result_def seconds_def split: prod.splits)

section \<open>A server that answers\<close>

text \<open>The environment is the list of lines the server will still print.\<close>

definition demo_pipe :: "pipe_line list pipe" where
  "demo_pipe = \<lparr> pi_spawn = (\<lambda>_ _. io_return ()), pi_alive = (\<lambda>_. True), pi_write = (\<lambda>_. io_return ()),
     pi_wait = (\<lambda>t ls. case ls of [] \<Rightarrow> (nat t, [], []) | l # ls \<Rightarrow> (0, [l], ls)), pi_stderr = (\<lambda>_. []),
     pi_kill = io_return (), pi_resolve = id, pi_lock = (\<lambda>_ _ _. io_return ()), pi_unlock = (\<lambda>_. io_return ()),
     pi_lock_path = (\<lambda>t. ''lock/'' @ t), pi_command = [''codex''], pi_cli_version = ''0.1.0'' \<rparr>"

definition demo_launcher :: launcher_config where
  "demo_launcher = \<lparr> nc_version = 1, nc_dispatcher = ''d'', nc_cli = ''auto'', nc_profile = [], nc_connection = [],
     nc_base_url = None, nc_home = [], nc_live = False, nc_poll = 2000000, nc_request_timeout = 60, nc_turn_timeout = 300,
     nc_readback_timeout = 20, nc_lock_timeout = 15, nc_max_attempts = 3, nc_cooper = [], nc_projects = [(''p'', ''/p'')] \<rparr>"

definition demo_done_turn :: pyval where
  "demo_done_turn = PDict [(''id'', PStr ''t1''), (''status'', PStr ''completed''),
     (''items'', PList [PDict [(''type'', PStr ''agentMessage''), (''text'', PStr ''ok'')]])]"

definition demo_script :: "pipe_line list" where
  "demo_script =
    [Line (Some (PDict [(''id'', PInt 1), (''result'', PDict [])])),
     Line (Some (PDict [(''id'', PInt 2), (''result'', PDict [])])),
     Line (Some (PDict [(''id'', PInt 3), (''result'', PDict [(''turn'', PDict [(''id'', PStr ''t1'')])])])),
     Line None,
     Line (Some (PDict [(''method'', PStr ''turn/completed''), (''params'', PDict [(''threadId'', PStr ''other''), (''turn'', demo_done_turn)])])),
     Line (Some (PDict [(''method'', PStr ''turn/completed''), (''params'', PDict [(''threadId'', PStr ''th''), (''turn'', demo_done_turn)])])),
     Line (Some (PDict [(''id'', PInt 4), (''result'', PDict [(''thread'', PDict [(''turns'', PList [demo_done_turn])])])]))]"

definition demo_task_run :: "pdict result \<times> (pipe_event list \<times> pipe_line list) client_world" where
  "demo_task_run = run_existing_task (logged demo_pipe) demo_launcher ''th''
     \<lparr> tq_prompt = ''go'', tq_model = None, tq_effort = None, tq_binding = None \<rparr> ''cid'' (Some ''gpt'') None
     (new_client 0 ([], demo_script))"

lemma demo_task_result: "(case demo_task_run of (r, w) \<Rightarrow>
     r = Inr [(''thread_id'', PStr ''th''), (''turn_id'', PStr ''t1''), (''turn_status'', PStr ''completed''),
       (''model'', PStr ''gpt''), (''reasoning_effort'', PNone), (''final_message'', PStr ''ok'')] \<and>
     starts (fst (cw_env w)) = 1)"
  by (code_simp | subst wait_terminal.simps)+

lemma demo_wait_completes:
  "fst (wait_for_turn_terminal (logged demo_pipe) demo_launcher ''th'' ''t1'' (new_client 0 ([], drop 3 demo_script))) = Inr (as_dict demo_done_turn)"
  by (code_simp | subst wait_terminal.simps)+


theorem one_turn_per_task_witness:
  "\<exists>r w'. demo_task_run = (r, w') \<and> starts (fst (cw_env w')) = 1 \<and> one_locked_turn ''lock/th'' (fst (cw_env w'))"
proof -
  obtain r w' where run: "demo_task_run = (r, w')" by fastforce
  have "starts (fst (cw_env w')) = 1" using demo_task_result unfolding run by simp
  moreover have "pi_lock_path demo_pipe ''th'' = ''lock/th''" by (simp add: demo_pipe_def)
  ultimately show ?thesis using one_turn_per_task [OF run [unfolded demo_task_run_def]] run by metis
qed


theorem responses_not_lost_witness:
  "\<exists>r w'. client_request demo_pipe demo_launcher ''m'' []
      ((new_client 0 [])\<lparr> cw_open := True, cw_responses := [[(''id'', PInt 7)]] \<rparr>) = (r, w') \<and>
    others 1 [[(''id'', PInt 7)]] \<subseteq># others 1 (cw_responses w')"
proof -
  obtain r w' where r: "client_request demo_pipe demo_launcher ''m'' []
      ((new_client 0 [])\<lparr> cw_open := True, cw_responses := [[(''id'', PInt 7)]] \<rparr>) = (r, w')"
    by fastforce
  then show ?thesis using responses_not_lost [OF r] by (simp add: new_client_def)
qed

end
