(* ===== verification/Spec2Isabelle.thy ===== *)
theory Spec2Isabelle
  imports Capability_Port Lane_Provisioning Hold_Turn_Monitor Dispatcher_Store Process_Lock Local_Heartbeat
    Jarvis_Control Hold_Safety Output_Safety Hold_Runs Beat_Demo Queue_Safety App_Safety
begin

text \<open>
  A model of Jarvis for Codex and what makes it correct.

  \<^bold>\<open>The program.\<close> Jarvis runs long tasks of Codex threads under an owner. A \<^emph>\<open>loop\<close> keeps several
  threads going through a finite list of items; each thread is owned by a \<^emph>\<open>hold\<close>, a separate process
  that dispatches a turn, waits for its terminal, records it and lets the \<^emph>\<open>turn monitor\<close> decide
  whether to continue; \<^emph>\<open>heartbeats\<close> call back on a schedule; the \<^emph>\<open>dispatcher store\<close> keeps the
  durable ledgers; the \<^emph>\<open>bridge\<close> resumes an existing thread once per request. \<open>JarvisControl\<close> is the
  facade in front of all of it and answers every operation with a receipt.

  \<^bold>\<open>Theories and code\<close> (paths below \<open>src/packages\<close>).
  \<^item> \<open>Py_Values\<close>, \<open>Py_Json\<close>, \<open>Iso_Time\<close>, \<open>Py_IO\<close>: the Python the sources use. Values and dicts,
    exceptions as a sum type, truthiness, \<open>strip\<close> and \<open>splitlines\<close>; canonical JSON text; instants and
    ISO texts with the round trip of printing and parsing; effectful code as \<open>'w \<Rightarrow> 'a result \<times> 'w\<close>
    with \<open>try\<close>, \<open>finally\<close> and the proof rules for it (\<open>io_keeps\<close>, \<open>io_from\<close>, \<open>io_post\<close>, \<open>io_same\<close>).
  \<^item> \<open>Store_Machine\<close>: the interface of a store whose operations all keep an invariant (locale
    \<open>store_machine\<close>), of one that also counts two kinds of operations (\<open>counted_machine\<close>), and of a
    step relation (\<open>step_system\<close>). The stores, the heartbeat table, the loop files and the lock
    interpret them; their reachability facts come from the interpretations.
  \<^item> \<open>Bridge_Contracts\<close>, \<open>Bridge_Service\<close>, \<open>Bridge_Monitor\<close>, \<open>Capability_Port\<close>:
    \<open>jarvis_codex_bridge\<close> (\<open>contracts.py\<close>, \<open>transport.py\<close>, \<open>journal.py\<close>, \<open>service.py\<close>, \<open>monitor.py\<close>,
    \<open>port.py\<close>).
  \<^item> \<open>Lane_Provisioning\<close>: \<open>jarvis_control/provisioning.py\<close>, the requests and the slices of a lane.
  \<^item> \<open>Hold_Turn_Monitor\<close>: \<open>jarvis_monitor/hold_turn_monitor.py\<close>, one decision per observed turn.
  \<^item> \<open>Hold_Task\<close>, \<open>Hold_Safety\<close>: \<open>adapters/codex_app_server/jarvis_task_hold_host.py\<close>; the locals that
    \<open>hold_task\<close> and its closures share are the record \<open>hold_state\<close>.
  \<^item> \<open>Output_Receipts\<close>, \<open>Output_Safety\<close>: the functions of
    \<open>adapters/codex_app_server/task_provisioning_adapter.py\<close> outside its class: verification of the
    output of a turn, intake of final answers, turn history.
  \<^item> \<open>Hold_Files\<close>: the directory of a hold and the other files that processes share, with the locks and
    the interference of other processes as ports, and the close report. \<open>Hold_Host\<close>:
    \<open>adapters/codex_app_server/jarvis_hold_host_service.py\<close>. \<open>Hold_Store\<close>: the class of
    \<open>task_provisioning_adapter.py\<close>, and \<open>hold_task\<close> put on the same files (\<open>run_holder\<close>).
  \<^item> \<open>Hold_World\<close>, \<open>Hold_Invariants\<close>: the contracts an assertion about those files meets (\<open>file_view\<close>,
    \<open>close_view\<close>, \<open>kept_ports\<close>) and that all operations then keep it. \<open>Hold_Claims\<close>, \<open>Hold_Release\<close>: what
    the operations guarantee; \<open>Hold_Runs\<close>: concrete runs of them.
  \<^item> \<open>Loop_State\<close>, \<open>Loop_Start\<close>, \<open>Loop_Controller\<close>, \<open>Loop_Safety\<close>: \<open>jarvis_control/loop.py\<close>; the state
    of a loop and its file with the merge of \<open>LoopStore.save\<close>, the validation and prompts of \<open>start\<close>,
    the operations of \<open>LoopController\<close>, and what they guarantee together.
  \<^item> \<open>Jarvis_Control\<close>: \<open>jarvis_control/service.py\<close>, and the runtime it gives to its loops.
  \<^item> \<open>Dispatcher_Store\<close>, \<open>Process_Lock\<close>: \<open>jarvis_runtime/coo_dispatcher_store.py\<close>; the ledgers, and the
    file lock as a step relation over interleaved processes and crashes.
  \<^item> \<open>Local_Heartbeat\<close>: \<open>jarvis_runtime/jarvis_local_heartbeat.py\<close>.
  \<^item> \<open>Beat_Request\<close>, \<open>Beat_Store\<close>, \<open>Beat_Record\<close>: the configuration, the validation and the store of
    \<open>jarvis_runtime/jarvis_heartbeat_service.py\<close>, its three tables as lists of rows; \<open>Iso_Order\<close>: the
    order of ISO texts the SQL compares. \<open>Beat_Safety\<close>, \<open>Beat_Machine\<close>, \<open>Beat_Final\<close>: the invariant of
    the tables and what any sequence of operations keeps; \<open>Beat_Demo\<close>: concrete runs.
  \<^item> \<open>Queue_Probe\<close>, \<open>Queue_Safety\<close>: \<open>MasterQueueContinuationProbe\<close> of the same file, pure functions on
    a queue and the file operations under the adjacent lock; probes, workers and the controller of a
    queue as the step relation \<open>queue_step\<close>.
  \<^item> \<open>App_Client\<close>, \<open>App_Safety\<close>: \<open>AppServerClient\<close> of \<open>jarvis_runtime/jarvis_native_task_launcher.py\<close>
    over a pipe to the server, the record \<open>pipe\<close>; the laws are stated over a pipe that keeps a log.

  \<^bold>\<open>What the lemmas show.\<close> Intents are durable: a cleanup target, a close request and a completed owner
  report survive every save and every operation of the controller, and after them no hold is
  dispatched. Completion rests on evidence: a cleanup is completed by release evidence of every hold,
  and that evidence is the provisioner's own. Turns are bounded and not duplicated: one turn per bridge
  request, a turn budget per hold and per thread, batches that partition a lane across rotations, no
  turn after a stop, one interrupt; a claim is taken of a queued hold only, a dead host's hold is observed
  and not dispatched again, and a claim, a status, a close report or a resume that speaks of a release has
  the evidence for it on disk, whatever other processes do in between. Output counts as verified only on
  receipts bound to the candidate and the turn, and evidence is never overwritten. Ledgers are consistent in every reachable store. The lock excludes
  with the liveness callback; without it, and after a crash before the process id is written, it
  does not do what it is meant to, and theorems show it. Every error path of the facade is a receipt.
  A heartbeat is claimed once per due time, handed off once per renewal, and its terminal status and the
  records of its runs stay; a queue has one item in flight per heartbeat and completes it on its receipt
  only. The client starts one turn per task under the lock of the thread, waits with an end, and calls
  a task completed only on the notification of exactly this turn.

  \<^bold>\<open>Conventions.\<close>
  \<^item> A \<open>dict\<close> is an association list with distinct keys, in insertion order. A nested value that the
    code treats as an object or a list is read as empty when it is of another type, where Python would
    raise an \<open>AttributeError\<close> or a \<open>TypeError\<close>. A boolean given where an integer is taken counts as 0 or 1.
  \<^item> A \<open>str\<close> is its UTF-8 bytes; \<open>strip\<close> and \<open>lower\<close> act on ASCII.
  \<^item> One operation reads the clock once where the code reads it several times in a row; times are exact
    microseconds, where the code adds floats.
  \<^item> What is not under \<open>src\<close> is a parameter: the SHA-256 digest, UUIDs, path resolution, the JSON schema
    validator, the App Server behind a client, the files and the clock behind a port.
  \<^item> A wait of the client takes at least a microsecond and may end early; a setting in seconds is a whole
    number. The lock beside a queue file is a port, and waiting for it other processes may change the files.
  \<^item> Loops that could run forever take fuel. The continuous monitor and the holder each have a theorem
    that the fuel their budget gives is enough; the two waits for a starting host answer \<open>None\<close> when the
    number of polls given to them is used up; all other loops are structural or end by the clock.

  \<^bold>\<open>Not modelled.\<close> Of \<open>jarvis_heartbeat_service.py\<close> the wake controller, the other probes and
  \<open>run_once\<close>; of \<open>jarvis_native_task_launcher.py\<close> the resolution of the executable, the queue of tasks and
  the command line. Left out for good: the threads and the queue
  of \<open>run_forever\<close>, the MCP server and the command line (argument parsing and JSON-RPC over stdio), the Windows process handles, the pipe to the App
  Server, the HTTP probes, SQLite itself (a table is a list of rows), the replace retries of a file
  write (a write either happens or raises), and modules without logic (re-exports, data classes).
\<close>

end
